(* ===== verification/Prelude.thy ===== *)
theory Prelude
  imports Main "HOL-Library.Word" "HOL-Library.Char_ord"
begin

text \<open>
  Shared vocabulary of the development.  Fallible, stateful Rust code
  (\<open>async fn f(..) -> Result<T, E>\<close> over the database and the outside world)
  is written in an explicit state-and-error style: a computation takes the
  state and returns \<open>Inl\<close> of an error or \<open>Inr\<close> of a value together with the
  new state.  \<open>bindE\<close> is the \<open>?\<close> operator, \<open>mapErr\<close> is \<open>map_err\<close>, \<open>reify\<close>
  is a \<open>match\<close> on the \<open>Result\<close>.  The second half holds the weakest-precondition
  and preservation calculus that the component proofs run on, and the codec
  and table interfaces that several components implement.
\<close>

section \<open>Collections of rules\<close>

named_theorems pres \<open>preservation rules for effectful computations\<close>
named_theorems eff_run \<open>execution rules for effectful computations\<close>
named_theorems codecs \<open>round trips of the textual codecs\<close>

section \<open>Effectful computations\<close>

type_synonym ('s, 'e, 'a) eff = "'s \<Rightarrow> ('e + 'a) \<times> 's"

type_synonym datetime = int
type_synonym byte = "8 word"
type_synonym u32 = "32 word"
type_synonym u64 = "64 word"

definition ret :: "'a \<Rightarrow> ('s, 'e, 'a) eff" where
  "ret a = (\<lambda>s. (Inr a, s))"

definition raise :: "'e \<Rightarrow> ('s, 'e, 'a) eff" where
  "raise e = (\<lambda>s. (Inl e, s))"

definition bindE :: "('s, 'e, 'a) eff \<Rightarrow> ('a \<Rightarrow> ('s, 'e, 'b) eff) \<Rightarrow> ('s, 'e, 'b) eff" where
  "bindE m f = (\<lambda>s. case m s of (r, s') \<Rightarrow>
     (case r of Inl e \<Rightarrow> (Inl e, s') | Inr a \<Rightarrow> f a s'))"

definition mapErr :: "('e \<Rightarrow> 'f) \<Rightarrow> ('s, 'e, 'a) eff \<Rightarrow> ('s, 'f, 'a) eff" where
  "mapErr f m = (\<lambda>s. case m s of (r, s') \<Rightarrow>
     ((case r of Inl e \<Rightarrow> Inl (f e) | Inr a \<Rightarrow> Inr a), s'))"

definition reify :: "('s, 'e, 'a) eff \<Rightarrow> ('s, 'f, 'e + 'a) eff" where
  "reify m = (\<lambda>s. case m s of (r, s') \<Rightarrow> (Inr r, s'))"

definition liftR :: "'e + 'a \<Rightarrow> ('s, 'e, 'a) eff" where
  "liftR r = (\<lambda>s. (r, s))"

definition okOr :: "'e \<Rightarrow> 'a option \<Rightarrow> ('s, 'e, 'a) eff" where
  "okOr e x = (case x of None \<Rightarrow> raise e | Some a \<Rightarrow> ret a)"

definition guardE :: "bool \<Rightarrow> 'e \<Rightarrow> ('s, 'e, unit) eff" where
  "guardE b e = (if b then ret () else raise e)"

definition whenE :: "bool \<Rightarrow> ('s, 'e, unit) eff \<Rightarrow> ('s, 'e, unit) eff" where
  "whenE b m = (if b then m else ret ())"

lemma ret_run [simp, eff_run]: "ret a s = (Inr a, s)"
  by (simp add: ret_def)

lemma raise_run [simp, eff_run]: "raise e s = (Inl e, s)"
  by (simp add: raise_def)

lemma bindE_run [eff_run]:
  "bindE m f s = (case m s of (Inl e, s') \<Rightarrow> (Inl e, s') | (Inr a, s') \<Rightarrow> f a s')"
  by (simp add: bindE_def split: prod.splits sum.splits)

lemma mapErr_run [eff_run]:
  "mapErr f m s = (case m s of (Inl e, s') \<Rightarrow> (Inl (f e), s') | (Inr a, s') \<Rightarrow> (Inr a, s'))"
  by (simp add: mapErr_def split: prod.splits sum.splits)

lemma reify_run [eff_run]: "reify m s = (Inr (fst (m s)), snd (m s))"
  by (simp add: reify_def split: prod.splits)

lemma liftR_run [simp, eff_run]: "liftR r s = (r, s)"
  by (simp add: liftR_def)

lemma liftR_simps [simp]: "liftR (Inl e) = raise e" "liftR (Inr a) = ret a"
  by (simp_all add: liftR_def ret_def raise_def)

lemma okOr_simps [simp]: "okOr e None = raise e" "okOr e (Some a) = ret a"
  by (simp_all add: okOr_def)

lemma guardE_simps [simp]: "guardE True e = ret ()" "guardE False e = raise e"
  by (simp_all add: guardE_def)

lemma whenE_simps [simp]: "whenE True m = m" "whenE False m = ret ()"
  by (simp_all add: whenE_def)

lemma bindE_assoc: "bindE (bindE m f) g = bindE m (\<lambda>x. bindE (f x) g)"
  by (rule ext) (simp add: bindE_def split: prod.splits sum.splits)

lemma bindE_ret_left [simp]: "bindE (ret a) f = f a"
  by (rule ext) (simp add: bindE_def)

lemma bindE_raise_left [simp]: "bindE (raise e) f = raise e"
  by (rule ext) (simp add: bindE_def)

lemma bindE_eq_Inr:
  "bindE m f s = (Inr b, s'') \<longleftrightarrow>
     (\<exists>a s'. m s = (Inr a, s') \<and> f a s' = (Inr b, s''))"
  by (auto simp: bindE_def split: prod.splits sum.splits)

lemma mapErr_eq_Inr: "mapErr f m s = (Inr b, s') \<longleftrightarrow> m s = (Inr b, s')"
  by (auto simp: mapErr_def split: prod.splits sum.splits)

lemma guardE_eq_Inr: "guardE b e s = (Inr a, s') \<longleftrightarrow> b \<and> s' = s"
  by (auto simp: guardE_def)

lemma okOr_eq_Inr: "okOr e x s = (Inr a, s') \<longleftrightarrow> x = Some a \<and> s' = s"
  by (cases x) auto

lemma liftR_eq_Inr: "liftR r s = (Inr a, s') \<longleftrightarrow> r = Inr a \<and> s' = s"
  by auto

lemma reify_eq_Inr: "reify m s = (Inr r, s') \<longleftrightarrow> m s = (r, s')"
  by (auto simp: reify_def split: prod.splits)

lemmas eff_success =
  bindE_eq_Inr mapErr_eq_Inr guardE_eq_Inr okOr_eq_Inr liftR_eq_Inr reify_eq_Inr

section \<open>Weakest preconditions\<close>

definition wp ::
  "('s, 'e, 'a) eff \<Rightarrow> ('a \<Rightarrow> 's \<Rightarrow> bool) \<Rightarrow> ('e \<Rightarrow> 's \<Rightarrow> bool) \<Rightarrow> 's \<Rightarrow> bool" where
  "wp m Q E s = (case m s of (Inl e, s') \<Rightarrow> E e s' | (Inr a, s') \<Rightarrow> Q a s')"

lemma wp_ret [simp]: "wp (ret a) Q E s = Q a s"
  by (simp add: wp_def)

lemma wp_raise [simp]: "wp (raise e) Q E s = E e s"
  by (simp add: wp_def)

lemma wp_bindE: "wp (bindE m f) Q E s = wp m (\<lambda>a. wp (f a) Q E) E s"
  by (simp add: wp_def bindE_def split: prod.splits sum.splits)

lemma wp_mapErr: "wp (mapErr f m) Q E s = wp m Q (\<lambda>e. E (f e)) s"
  by (simp add: wp_def mapErr_def split: prod.splits sum.splits)

lemma wp_reify: "wp (reify m) Q E s = wp m (\<lambda>a. Q (Inr a)) (\<lambda>e. Q (Inl e)) s"
  by (simp add: wp_def reify_def split: prod.splits sum.splits)

lemma wp_liftR: "wp (liftR r) Q E s = (case r of Inl e \<Rightarrow> E e s | Inr a \<Rightarrow> Q a s)"
  by (simp add: wp_def split: sum.splits)

lemma wp_okOr: "wp (okOr e x) Q E s = (case x of None \<Rightarrow> E e s | Some a \<Rightarrow> Q a s)"
  by (simp add: wp_def split: option.splits)

lemma wp_guardE: "wp (guardE b e) Q E s = (if b then Q () s else E e s)"
  by (simp add: wp_def)

lemmas wp_rules = wp_bindE wp_mapErr wp_reify wp_liftR wp_okOr wp_guardE

lemma wp_mono:
  assumes "wp m Q E s"
    and "\<And>a s'. Q a s' \<Longrightarrow> Q' a s'" and "\<And>e s'. E e s' \<Longrightarrow> E' e s'"
  shows "wp m Q' E' s"
  using assms by (auto simp: wp_def split: prod.splits sum.splits)

lemma wp_run: "wp m (\<lambda>a t. R (Inr a, t)) (\<lambda>e t. R (Inl e, t)) s = R (m s)"
  by (simp add: wp_def split: prod.splits sum.splits)

section \<open>Preservation\<close>

text \<open>
  \<open>preserves P m\<close>: the computation keeps the state predicate \<open>P\<close> on every
  branch, errors included.
\<close>

definition preserves :: "('s \<Rightarrow> bool) \<Rightarrow> ('s, 'e, 'a) eff \<Rightarrow> bool" where
  "preserves P m \<longleftrightarrow> (\<forall>s. P s \<longrightarrow> P (snd (m s)))"

lemma preservesI [intro]: "(\<And>s. P s \<Longrightarrow> P (snd (m s))) \<Longrightarrow> preserves P m"
  by (simp add: preserves_def)

lemma preservesD: "preserves P m \<Longrightarrow> P s \<Longrightarrow> P (snd (m s))"
  by (simp add: preserves_def)

lemma preserves_outcome: "preserves P m \<Longrightarrow> P s \<Longrightarrow> m s = (r, s') \<Longrightarrow> P s'"
  by (metis preserves_def snd_conv)

lemma preserves_ret [pres]: "preserves P (ret a)"
  by (simp add: preserves_def)

lemma preserves_raise [pres]: "preserves P (raise e)"
  by (simp add: preserves_def)

lemma preserves_liftR [pres]: "preserves P (liftR r)"
  by (simp add: preserves_def)

lemma preserves_okOr [pres]: "preserves P (okOr e x)"
  by (simp add: preserves_def okOr_def split: option.splits)

lemma preserves_guardE [pres]: "preserves P (guardE b e)"
  by (simp add: preserves_def guardE_def)

lemma preserves_whenE [pres]: "preserves P m \<Longrightarrow> preserves P (whenE b m)"
  by (simp add: preserves_def whenE_def)

lemma preserves_bindE [pres]:
  assumes "preserves P m" and "\<And>a. preserves P (f a)"
  shows "preserves P (bindE m f)"
proof
  fix s assume "P s"
  then have "P (snd (m s))" using assms(1) by (simp add: preserves_def)
  then show "P (snd (bindE m f s))"
    using assms(2) by (auto simp: bindE_def preserves_def split: prod.splits sum.splits)
qed

lemma preserves_mapErr [pres]: "preserves P m \<Longrightarrow> preserves P (mapErr f m)"
  by (auto simp: preserves_def mapErr_def split: prod.splits)

lemma preserves_reify [pres]: "preserves P m \<Longrightarrow> preserves P (reify m)"
  by (auto simp: preserves_def reify_def split: prod.splits)

lemma preserves_if [pres]:
  "(b \<Longrightarrow> preserves P m) \<Longrightarrow> (\<not> b \<Longrightarrow> preserves P n) \<Longrightarrow> preserves P (if b then m else n)"
  by simp

lemma preserves_option [pres]:
  "preserves P m \<Longrightarrow> (\<And>a. preserves P (f a)) \<Longrightarrow>
   preserves P (case x of None \<Rightarrow> m | Some a \<Rightarrow> f a)"
  by (cases x) auto

lemma preserves_sum [pres]:
  "(\<And>e. preserves P (g e)) \<Longrightarrow> (\<And>a. preserves P (f a)) \<Longrightarrow>
   preserves P (case x of Inl e \<Rightarrow> g e | Inr a \<Rightarrow> f a)"
  by (cases x) auto

lemma preserves_prod [pres]:
  "(\<And>a b. preserves P (f a b)) \<Longrightarrow> preserves P (case x of (a, b) \<Rightarrow> f a b)"
  by (cases x) auto

lemma preserves_let [pres]:
  "preserves P (f x) \<Longrightarrow> preserves P (let y = x in f y)"
  by (simp add: Let_def)

text \<open>
  \<open>leads C I m\<close>: from a state with \<open>C\<close> the computation ends in one with \<open>I\<close>,
  on every branch.
\<close>

definition leads :: "('s \<Rightarrow> bool) \<Rightarrow> ('s \<Rightarrow> bool) \<Rightarrow> ('s, 'e, 'a) eff \<Rightarrow> bool" where
  "leads C I m \<longleftrightarrow> (\<forall>s. C s \<longrightarrow> I (snd (m s)))"

lemma leads_preserves: "preserves C m \<Longrightarrow> (\<And>s. C s \<Longrightarrow> I s) \<Longrightarrow> leads C I m"
  by (simp add: preserves_def leads_def)

lemma leads_bindE:
  assumes "preserves C m" and "\<And>s. C s \<Longrightarrow> I s" and "\<And>a. leads C I (f a)"
  shows "leads C I (bindE m f)"
  unfolding leads_def
proof (intro allI impI)
  fix s assume "C s"
  then have "C (snd (m s))" using assms(1) by (simp add: preserves_def)
  then show "I (snd (bindE m f s))"
    using assms(2,3) by (auto simp: bindE_def leads_def split: prod.splits sum.splits)
qed

lemma leads_mapErr: "leads C I m \<Longrightarrow> leads C I (mapErr f m)"
  by (auto simp: leads_def mapErr_def split: prod.splits)

lemma leads_prod: "(\<And>a b. leads C I (f a b)) \<Longrightarrow> leads C I (case x of (a, b) \<Rightarrow> f a b)"
  by (cases x) auto

section \<open>Row lists\<close>

text \<open>
  A database table is the list of its rows.  \<open>update_where\<close> is
  \<open>UPDATE .. SET f WHERE p\<close>; its row count is \<open>rows_matching\<close>.
\<close>

definition update_where :: "('r \<Rightarrow> bool) \<Rightarrow> ('r \<Rightarrow> 'r) \<Rightarrow> 'r list \<Rightarrow> 'r list" where
  "update_where p f rs = map (\<lambda>r. if p r then f r else r) rs"

definition rows_matching :: "('r \<Rightarrow> bool) \<Rightarrow> 'r list \<Rightarrow> nat" where
  "rows_matching p rs = length (filter p rs)"

definition min_row :: "('r \<Rightarrow> 'r \<Rightarrow> bool) \<Rightarrow> 'r list \<Rightarrow> 'r option" where
  "min_row le rs = fold (\<lambda>r acc. case acc of None \<Rightarrow> Some r
                        | Some b \<Rightarrow> if le b r then Some b else Some r) rs None"

lemma length_update_where [simp]: "length (update_where p f rs) = length rs"
  by (simp add: update_where_def)

lemma set_update_where: "set (update_where p f rs) = (\<lambda>r. if p r then f r else r) ` set rs"
  by (simp add: update_where_def)

lemma update_where_cong_key [simp]:
  "(\<And>r. k (f r) = k r) \<Longrightarrow> map k (update_where p f rs) = map k rs"
  by (simp add: update_where_def)

lemma find_update_where:
  assumes "\<And>r. p (f r) = p r"
  shows "find p (update_where p f rs) = map_option f (find p rs)"
  using assms by (induction rs) (auto simp: update_where_def)

lemma find_update_where_other:
  assumes "\<And>r. p r \<Longrightarrow> \<not> q r" and "\<And>r. p r \<Longrightarrow> \<not> q (f r)"
  shows "find q (update_where p f rs) = find q rs"
  using assms by (induction rs) (auto simp: update_where_def)

lemma find_update_where_map:
  assumes "\<And>r. p (f r) = p r"
  shows "find p (update_where q f rs) = map_option (\<lambda>r. if q r then f r else r) (find p rs)"
  using assms by (induction rs) (auto simp: update_where_def)

lemma rows_matching_le_1:
  assumes "distinct (map key rs)" and "\<And>r. q r \<Longrightarrow> key r = k"
  shows "rows_matching q rs \<le> 1"
proof -
  have "distinct (map key (filter q rs))" using assms(1) by (simp add: distinct_map_filter)
  moreover have "set (map key (filter q rs)) \<subseteq> {k}" using assms(2) by auto
  ultimately have "length (map key (filter q rs)) \<le> card {k}"
    by (metis card_mono distinct_card finite.emptyI finite.insertI)
  then show ?thesis by (simp add: rows_matching_def)
qed

lemma rows_matching_pos: "0 < rows_matching p rs \<longleftrightarrow> (\<exists>r \<in> set rs. p r)"
  by (auto simp: rows_matching_def filter_empty_conv)

lemma rows_matching_0 [simp]: "rows_matching p rs = 0 \<longleftrightarrow> find p rs = None"
  by (auto simp: rows_matching_def find_None_iff filter_empty_conv)

lemma find_SomeD: "find p rs = Some r \<Longrightarrow> r \<in> set rs \<and> p r"
  by (auto simp: find_Some_iff)

lemma find_map_key:
  "find (\<lambda>r. k r = v) rs = Some r \<Longrightarrow> k r = v"
  by (auto simp: find_Some_iff)

lemma find_unique_key:
  assumes "distinct (map k rs)" and "r \<in> set rs" and "k r = v"
  shows "find (\<lambda>r. k r = v) rs = Some r"
  using assms by (induction rs) (auto simp: image_iff)

lemma update_where_id:
  "(\<And>r. r \<in> set rs \<Longrightarrow> p r \<Longrightarrow> f r = r) \<Longrightarrow> update_where p f rs = rs"
  by (auto simp: update_where_def intro: map_idI)

lemma min_row_fold:
  "fold (\<lambda>r acc. case acc of None \<Rightarrow> Some r
        | Some b \<Rightarrow> if le b r then Some b else Some r) rs (Some b0) = Some b \<Longrightarrow>
   b \<in> insert b0 (set rs)"
  by (induction rs arbitrary: b0) (auto split: if_splits)

lemma min_row_in_set: "min_row le rs = Some b \<Longrightarrow> b \<in> set rs"
  by (cases rs) (auto simp: min_row_def dest: min_row_fold)

lemma min_row_None [simp]: "min_row le rs = None \<longleftrightarrow> rs = []"
proof (cases rs)
  case Nil
  then show ?thesis by (simp add: min_row_def)
next
  case (Cons r rs')
  have "\<exists>b. fold (\<lambda>r acc. case acc of None \<Rightarrow> Some r
        | Some b \<Rightarrow> if le b r then Some b else Some r) rs' (Some x) = Some b" for x
    by (induction rs' arbitrary: x) auto
  then show ?thesis using Cons by (auto simp: min_row_def)
qed

lemma min_row_fold_least:
  assumes tr: "transp le" and tot: "\<forall>a b. le a b \<or> le b a"
    and "fold (\<lambda>r acc. case acc of None \<Rightarrow> Some r
        | Some b \<Rightarrow> if le b r then Some b else Some r) rs (Some b0) = Some b"
  shows "\<forall>r \<in> insert b0 (set rs). le b r"
  using assms(3)
proof (induction rs arbitrary: b0)
  case Nil
  then show ?case using tot by auto
next
  case (Cons r rs)
  show ?case
  proof (cases "le b0 r")
    case True
    then have "\<forall>x \<in> insert b0 (set rs). le b x" using Cons.IH Cons.prems by simp
    then show ?thesis using True transpD [OF tr] by auto
  next
    case False
    then have "\<forall>x \<in> insert r (set rs). le b x" using Cons.IH Cons.prems by simp
    moreover have "le r b0" using False tot by blast
    ultimately show ?thesis using transpD [OF tr] by auto
  qed
qed

lemma min_row_least:
  assumes "transp le" and "\<forall>a b. le a b \<or> le b a"
    and "min_row le rs = Some b" and "r \<in> set rs"
  shows "le b r"
proof (cases rs)
  case Nil
  then show ?thesis using assms(4) by simp
next
  case (Cons a list)
  then have "\<forall>r \<in> insert a (set list). le b r"
    using assms(3) min_row_fold_least [OF assms(1,2)] by (simp add: min_row_def)
  then show ?thesis using Cons assms(4) by auto
qed

section \<open>Textual codecs\<close>

text \<open>
  The enums stored as \<open>TEXT\<close> columns all have an \<open>as_str\<close> and a parser that
  rejects unknown words.  The interface asks that every variant is parsed back
  and that only canonical words are accepted; the clients get injectivity and
  the exact domain of the parser.
\<close>

locale state_codec =
  fixes as_str :: "'t \<Rightarrow> string"
    and parse :: "string \<Rightarrow> 'e + 't"
  assumes parse_as_str: "parse (as_str t) = Inr t"
    and parse_sound: "parse s = Inr t \<Longrightarrow> as_str t = s"
begin

lemma as_str_inj: "as_str a = as_str b \<longleftrightarrow> a = b"
  by (metis parse_as_str sum.inject(2))

lemma parse_iff: "parse s = Inr t \<longleftrightarrow> s = as_str t"
  using parse_as_str parse_sound by metis

lemma parse_rejects: "(\<forall>t. s \<noteq> as_str t) \<longleftrightarrow> (\<exists>e. parse s = Inl e)"
  by (metis parse_as_str parse_sound old.sum.exhaust sum.distinct(1))

end

section \<open>Life cycles\<close>

text \<open>
  An aggregate's state graph with terminal states that nothing leaves.  The
  clients get that a run of transitions never leaves a terminal state.
\<close>

locale lifecycle =
  fixes trans :: "'t \<Rightarrow> 't \<Rightarrow> bool"
    and terminal :: "'t \<Rightarrow> bool"
  assumes terminal_final: "terminal a \<Longrightarrow> \<not> trans a b"
begin

lemma terminal_stable: "trans\<^sup>*\<^sup>* a b \<Longrightarrow> terminal a \<Longrightarrow> b = a"
  by (induction rule: rtranclp_induct) (auto dest: terminal_final)

end

section \<open>Option and result helpers\<close>

definition result_of_option :: "'e \<Rightarrow> 'a option \<Rightarrow> 'e + 'a" where
  "result_of_option e x = (case x of None \<Rightarrow> Inl e | Some a \<Rightarrow> Inr a)"

definition bindR :: "'e + 'a \<Rightarrow> ('a \<Rightarrow> 'e + 'b) \<Rightarrow> 'e + 'b" where
  "bindR r f = (case r of Inl e \<Rightarrow> Inl e | Inr a \<Rightarrow> f a)"

definition mapErrR :: "('e \<Rightarrow> 'f) \<Rightarrow> 'e + 'a \<Rightarrow> 'f + 'a" where
  "mapErrR f r = (case r of Inl e \<Rightarrow> Inl (f e) | Inr a \<Rightarrow> Inr a)"

lemma bindR_simps [simp]: "bindR (Inl e) f = Inl e" "bindR (Inr a) f = f a"
  by (simp_all add: bindR_def)

lemma mapErrR_simps [simp]: "mapErrR f (Inl e) = Inl (f e)" "mapErrR f (Inr a) = Inr a"
  by (simp_all add: mapErrR_def)

lemma result_of_option_simps [simp]:
  "result_of_option e None = Inl e" "result_of_option e (Some a) = Inr a"
  by (simp_all add: result_of_option_def)

lemma bindR_eq_Inr: "bindR r f = Inr b \<longleftrightarrow> (\<exists>a. r = Inr a \<and> f a = Inr b)"
  by (cases r) auto

lemma mapErrR_eq_Inr: "mapErrR f r = Inr b \<longleftrightarrow> r = Inr b"
  by (cases r) auto

lemma result_of_option_eq_Inr: "result_of_option e x = Inr b \<longleftrightarrow> x = Some b"
  by (cases x) auto

lemmas res_success = bindR_eq_Inr mapErrR_eq_Inr result_of_option_eq_Inr

fun strip_prefix :: "'a list \<Rightarrow> 'a list \<Rightarrow> 'a list option" where
  "strip_prefix [] s = Some s"
| "strip_prefix (p # ps) [] = None"
| "strip_prefix (p # ps) (c # cs) = (if p = c then strip_prefix ps cs else None)"

lemma strip_prefix_append [simp]: "strip_prefix p (p @ s) = Some s"
  by (induction p) auto

lemma strip_prefix_Some: "strip_prefix p s = Some r \<longleftrightarrow> s = p @ r"
  by (induction p s rule: strip_prefix.induct) auto

section \<open>Characters and bytes\<close>

lemma unat_of_char: "unat (of_char c :: byte) = of_char c"
proof -
  have "(of_char c :: byte) = of_nat (of_char c)" by (simp add: of_nat_of_char)
  then have "unat (of_char c :: byte) = take_bit 8 (of_char c)" by (simp add: unsigned_of_nat)
  also have "\<dots> = of_char c" using of_char_mod_256 [of c, where ?'a = nat] by (simp add: take_bit_eq_mod)
  finally show ?thesis .
qed

lemma char_of_byte: "char_of (unat (of_char c :: byte)) = c"
  by (simp add: unat_of_char)

section \<open>HTTP header values\<close>

text \<open>\<open>HeaderValue::to_str\<close> succeeds on visible ASCII only; the rest is opaque.\<close>

datatype header_value = HeaderText string | HeaderOpaque

text \<open>\<open>Option<Result<T, E>>::transpose\<close>.\<close>

fun transposeR :: "('e + 'a) option \<Rightarrow> 'e + 'a option" where
  "transposeR None = Inr None"
| "transposeR (Some (Inl e)) = Inl e"
| "transposeR (Some (Inr a)) = Inr (Some a)"

end
