(* ===== verification/Ids.thy ===== *)
theory Ids
  imports Prelude
begin

text \<open>
  Identifier newtypes of \<open>domain/ids.rs\<close> and the domain error.  The macro
  \<open>define_id!\<close> gives every aggregate the same scheme over a prefix; it is
  modelled once over the prefix and the nine newtypes instantiate it.  The
  \<open>bs58\<close> codec is third-party code and a parameter of the operations.
\<close>

section \<open>Errors\<close>

datatype domain_error =
    InvalidInput string
  | StateTransitionNotAllowed

fun show_domain_error :: "domain_error \<Rightarrow> string" where
  "show_domain_error (InvalidInput d) = ''invalid input: '' @ d"
| "show_domain_error StateTransitionNotAllowed = ''state transition not allowed''"

section \<open>Decimal rendering\<close>

text \<open>\<open>Display\<close> of unsigned and signed integers.\<close>

fun show_nat :: "nat \<Rightarrow> string" where
  "show_nat n = (if n < 10 then [char_of (48 + n)]
                 else show_nat (n div 10) @ [char_of (48 + n mod 10)])"

declare show_nat.simps [simp del]

definition show_int :: "int \<Rightarrow> string" where
  "show_int i = (if i < 0 then ''-'' @ show_nat (nat (- i)) else show_nat (nat i))"

section \<open>The identifier scheme\<close>

record bs58 =
  bs58_encode :: "byte list \<Rightarrow> string"
  bs58_decode :: "string \<Rightarrow> string + byte list"

definition ID_BYTES :: nat where "ID_BYTES = 10"

definition is_base58_char :: "char \<Rightarrow> bool" where
  "is_base58_char ch \<longleftrightarrow>
     (CHR ''1'' \<le> ch \<and> ch \<le> CHR ''9'') \<or> (CHR ''A'' \<le> ch \<and> ch \<le> CHR ''H'') \<or>
     (CHR ''J'' \<le> ch \<and> ch \<le> CHR ''N'') \<or> (CHR ''P'' \<le> ch \<and> ch \<le> CHR ''Z'') \<or>
     (CHR ''a'' \<le> ch \<and> ch \<le> CHR ''k'') \<or> (CHR ''m'' \<le> ch \<and> ch \<le> CHR ''z'')"

definition validate_bare :: "bs58 \<Rightarrow> string \<Rightarrow> domain_error + unit" where
  "validate_bare b s =
     (if \<exists>ch \<in> set s. \<not> is_base58_char ch
      then Inl (InvalidInput (''identifier contains non-base58 character: '' @ s))
      else case bs58_decode b s of
        Inl err \<Rightarrow> Inl (InvalidInput (''identifier is not valid base58: '' @ err))
      | Inr decoded \<Rightarrow>
          if length decoded \<noteq> ID_BYTES
          then Inl (InvalidInput (''identifier must decode to '' @ show_nat ID_BYTES
                 @ '' bytes, got '' @ show_nat (length decoded)))
          else Inr ())"

definition id_display :: "string \<Rightarrow> string \<Rightarrow> string" where
  "id_display prefix bare = prefix @ ''_'' @ bare"

definition id_from_bare :: "bs58 \<Rightarrow> (string \<Rightarrow> 'i) \<Rightarrow> string \<Rightarrow> domain_error + 'i" where
  "id_from_bare b mk s = bindR (validate_bare b s) (\<lambda>_. Inr (mk s))"

definition id_from_str ::
  "bs58 \<Rightarrow> (string \<Rightarrow> 'i) \<Rightarrow> string \<Rightarrow> string \<Rightarrow> domain_error + 'i" where
  "id_from_str b mk prefix s =
     (case strip_prefix (prefix @ ''_'') s of
        None \<Rightarrow> Inl (InvalidInput (''expected identifier with prefix '' @ [CHR 39] @ prefix
                 @ ''_'' @ [CHR 39] @ '', got: '' @ s))
      | Some bare \<Rightarrow> id_from_bare b mk bare)"

datatype tenant_id = TenantId (tenant_bare: string)
datatype issuer_id = IssuerId (issuer_bare: string)
datatype offer_id = CredentialOfferId (offer_bare: string)
datatype credential_id = IssuedCredentialId (credential_bare: string)
datatype status_list_id = StatusListId (status_list_bare: string)
datatype task_id = TaskId (task_bare: string)
datatype ctype_id = CredentialTypeId (ctype_bare: string)
datatype account_id = UserAccountId (account_bare: string)
datatype invite_id = InvitationId (invite_bare: string)

section \<open>Properties of the scheme\<close>

text \<open>
  The documented behaviour of \<open>bs58\<close> the identifiers rely on: decoding inverts
  encoding and encodings use the Bitcoin alphabet only.
\<close>

definition bs58_ok :: "bs58 \<Rightarrow> bool" where
  "bs58_ok b \<longleftrightarrow> (\<forall>bs. bs58_decode b (bs58_encode b bs) = Inr bs \<and>
                       list_all is_base58_char (bs58_encode b bs))"

lemma validate_bare_encode:
  assumes "bs58_ok b" and "length bs = ID_BYTES"
  shows "validate_bare b (bs58_encode b bs) = Inr ()"
  using assms by (auto simp: validate_bare_def bs58_ok_def list_all_iff)

lemma id_from_bare_encode:
  assumes "bs58_ok b" and "length bs = ID_BYTES"
  shows "id_from_bare b mk (bs58_encode b bs) = Inr (mk (bs58_encode b bs))"
  using validate_bare_encode [OF assms] by (simp add: id_from_bare_def)

lemma id_from_str_display:
  "id_from_str b mk prefix (id_display prefix bare) = id_from_bare b mk bare"
  using strip_prefix_append [of "prefix @ ''_''" bare]
  by (simp add: id_from_str_def id_display_def)

lemma id_from_str_sound:
  assumes "id_from_str b mk prefix s = Inr i"
  shows "\<exists>bare. s = id_display prefix bare \<and> i = mk bare \<and> validate_bare b bare = Inr ()"
  using assms
  by (auto simp: id_from_str_def id_display_def id_from_bare_def res_success
                 strip_prefix_Some split: option.splits)

end
