(* ===== verification/Json.thy ===== *)
theory Json
  imports Prelude
begin

text \<open>
  JSON values as \<open>serde_json::Value\<close> has them.  An object is the list of its
  members with distinct keys; \<open>obj_insert\<close> is \<open>Map::insert\<close> (replace in
  place or add), \<open>merge_patch\<close> is the top-level merge of
  \<open>persistence/operation_tasks.rs\<close>.  Numbers that are not integers only pass
  through the program and are kept as their literal text.
\<close>

datatype json =
    JNull
  | JBool bool
  | JNum int
  | JFloat string
  | JStr string
  | JArr "json list"
  | JObj "(string \<times> json) list"

type_synonym json_map = "(string \<times> json) list"

fun obj_insert :: "string \<Rightarrow> json \<Rightarrow> json_map \<Rightarrow> json_map" where
  "obj_insert k v [] = [(k, v)]"
| "obj_insert k v ((k', v') # kvs) =
     (if k = k' then (k, v) # kvs else (k', v') # obj_insert k v kvs)"

definition merge_patch :: "json_map \<Rightarrow> json_map \<Rightarrow> json_map" where
  "merge_patch patch base = fold (\<lambda>(k, v) m. obj_insert k v m) patch base"

text \<open>\<open>value.get(key)\<close>: \<open>None\<close> unless the value is an object with that key.\<close>

fun jget :: "string \<Rightarrow> json \<Rightarrow> json option" where
  "jget k (JObj kvs) = map_of kvs k"
| "jget k _ = None"

fun as_string :: "json \<Rightarrow> string option" where
  "as_string (JStr s) = Some s"
| "as_string _ = None"

fun as_array :: "json \<Rightarrow> json list option" where
  "as_array (JArr xs) = Some xs"
| "as_array _ = None"

fun as_int :: "json \<Rightarrow> int option" where
  "as_int (JNum i) = Some i"
| "as_int _ = None"

text \<open>
  serde field readers: \<open>#[serde(default)] Option<T>\<close> reads an absent or null
  member as \<open>None\<close>, and a member of another type as an error.
\<close>

definition opt_member :: "(json \<Rightarrow> 'a option) \<Rightarrow> string \<Rightarrow> json_map \<Rightarrow> string + 'a option" where
  "opt_member dec k m = (case map_of m k of
     None \<Rightarrow> Inr None
   | Some JNull \<Rightarrow> Inr None
   | Some v \<Rightarrow> (case dec v of None \<Rightarrow> Inl (''invalid value for '' @ k) | Some a \<Rightarrow> Inr (Some a)))"

definition req_member :: "(json \<Rightarrow> 'a option) \<Rightarrow> string \<Rightarrow> json_map \<Rightarrow> string + 'a" where
  "req_member dec k m = (case map_of m k of
     None \<Rightarrow> Inl (''missing field '' @ k)
   | Some v \<Rightarrow> (case dec v of None \<Rightarrow> Inl (''invalid value for '' @ k) | Some a \<Rightarrow> Inr a))"

section \<open>Lookup after insert and merge\<close>

lemma map_of_obj_insert [simp]: "map_of (obj_insert k v m) = (map_of m)(k \<mapsto> v)"
  by (induction k v m rule: obj_insert.induct) auto

lemma keys_obj_insert [simp]: "fst ` set (obj_insert k v m) = insert k (fst ` set m)"
  by (induction k v m rule: obj_insert.induct) auto

lemma distinct_obj_insert [simp]:
  "distinct (map fst m) \<Longrightarrow> distinct (map fst (obj_insert k v m))"
proof (induction k v m rule: obj_insert.induct)
  case (2 k v k' v' kvs)
  then show ?case using keys_obj_insert [of k v kvs] by (auto simp del: keys_obj_insert)
qed simp

lemma merge_patch_simps [simp]:
  "merge_patch [] m = m"
  "merge_patch ((k, v) # p) m = merge_patch p (obj_insert k v m)"
  by (simp_all add: merge_patch_def)

lemma distinct_merge_patch [simp]:
  "distinct (map fst m) \<Longrightarrow> distinct (map fst (merge_patch p m))"
  by (induction p arbitrary: m) (auto simp: merge_patch_def)

text \<open>Patch keys win, absent keys keep their value.\<close>

lemma map_of_merge_patch:
  "distinct (map fst p) \<Longrightarrow> map_of (merge_patch p m) = map_of m ++ map_of p"
proof (induction p arbitrary: m)
  case (Cons kv p)
  obtain k v where kv: "kv = (k, v)" by (cases kv)
  have "map_of p k = None"
    using Cons.prems kv by (auto simp: map_of_eq_None_iff)
  then have "((map_of m)(k \<mapsto> v) ++ map_of p) x = (map_of m ++ map_of (kv # p)) x" for x
    using kv by (simp add: map_add_def split: option.splits)
  moreover have "map_of (merge_patch (kv # p) m) = (map_of m)(k \<mapsto> v) ++ map_of p"
    using Cons kv by simp
  ultimately show ?case by (metis ext)
qed simp

lemma opt_member_absent [simp]: "map_of m k = None \<Longrightarrow> opt_member d k m = Inr None"
  by (simp add: opt_member_def)

lemma opt_member_cong: "map_of m k = map_of m' k \<Longrightarrow> opt_member d k m = opt_member d k m'"
  by (simp add: opt_member_def)

end
