(* ===== verification/TaskDomain.thy ===== *)
theory TaskDomain
  imports Ids Json
begin

text \<open>
  \<open>domain/operation_task.rs\<close>: the long-running operation aggregate, its state
  and type codecs, and the three transitions the worker drives.  The aggregate
  mutates in place and reports an error without a change; the model returns
  \<open>Inl\<close> of the error or \<open>Inr\<close> of the changed aggregate.  \<open>attempts\<close> is the
  \<open>u32\<close> of the source, kept at its width because it saturates.
\<close>

datatype task_state = TaskPending | InProgress | Completed | Failed

fun task_state_as_str :: "task_state \<Rightarrow> string" where
  "task_state_as_str TaskPending = ''pending''"
| "task_state_as_str InProgress = ''in_progress''"
| "task_state_as_str Completed = ''completed''"
| "task_state_as_str Failed = ''failed''"

fun task_state_is_terminal :: "task_state \<Rightarrow> bool" where
  "task_state_is_terminal Completed = True"
| "task_state_is_terminal Failed = True"
| "task_state_is_terminal _ = False"

definition task_state_try_from :: "string \<Rightarrow> domain_error + task_state" where
  "task_state_try_from s =
     (if s = ''pending'' then Inr TaskPending
      else if s = ''in_progress'' then Inr InProgress
      else if s = ''completed'' then Inr Completed
      else if s = ''failed'' then Inr Failed
      else Inl (InvalidInput (''unknown task state: '' @ s)))"

datatype task_type = CreateIssuer | DeactivateIssuer | RotateKeys

fun task_type_as_str :: "task_type \<Rightarrow> string" where
  "task_type_as_str CreateIssuer = ''create_issuer''"
| "task_type_as_str DeactivateIssuer = ''deactivate_issuer''"
| "task_type_as_str RotateKeys = ''rotate_keys''"

definition task_type_try_from :: "string \<Rightarrow> domain_error + task_type" where
  "task_type_try_from s =
     (if s = ''create_issuer'' then Inr CreateIssuer
      else if s = ''deactivate_issuer'' then Inr DeactivateIssuer
      else if s = ''rotate_keys'' then Inr RotateKeys
      else Inl (InvalidInput (''unknown task type: '' @ s)))"

record step_result =
  state_data_patch :: json_map

datatype step_outcome =
    Done step_result
  | Retry string string
  | Terminal string string

definition step_result_default :: step_result where
  "step_result_default = \<lparr> state_data_patch = [] \<rparr>"

record operation_task =
  ot_id :: task_id
  ot_tenant_id :: tenant_id
  ot_task_type :: task_type
  ot_state :: task_state
  ot_step :: "string option"
  ot_attempts :: u32
  ot_next_attempt_at :: "datetime option"
  ot_error_code :: "string option"
  ot_error_message :: "string option"
  ot_input :: json
  ot_state_data :: json
  ot_result_issuer_id :: "issuer_id option"
  ot_created_at :: datetime
  ot_updated_at :: datetime
  ot_completed_at :: "datetime option"

definition saturating_add1 :: "u32 \<Rightarrow> u32" where
  "saturating_add1 n = (if n = - 1 then n else n + 1)"

definition try_complete :: "datetime \<Rightarrow> operation_task \<Rightarrow> domain_error + operation_task" where
  "try_complete now t = (case ot_state t of
     InProgress \<Rightarrow> Inr (t\<lparr> ot_state := Completed, ot_next_attempt_at := None,
        ot_error_code := None, ot_error_message := None,
        ot_updated_at := now, ot_completed_at := Some now \<rparr>)
   | _ \<Rightarrow> Inl StateTransitionNotAllowed)"

definition try_fail ::
  "string \<Rightarrow> string \<Rightarrow> datetime \<Rightarrow> operation_task \<Rightarrow> domain_error + operation_task" where
  "try_fail error_code error_message now t = (case ot_state t of
     InProgress \<Rightarrow> Inr (t\<lparr> ot_state := Failed, ot_next_attempt_at := None,
        ot_error_code := Some error_code, ot_error_message := Some error_message,
        ot_updated_at := now, ot_completed_at := Some now \<rparr>)
   | _ \<Rightarrow> Inl StateTransitionNotAllowed)"

definition try_acquire :: "datetime \<Rightarrow> operation_task \<Rightarrow> domain_error + operation_task" where
  "try_acquire now t = (case ot_state t of
     TaskPending \<Rightarrow> Inr (t\<lparr> ot_state := InProgress, ot_updated_at := now \<rparr>)
   | InProgress \<Rightarrow> Inr (t\<lparr> ot_attempts := saturating_add1 (ot_attempts t), ot_updated_at := now \<rparr>)
   | Completed \<Rightarrow> Inl StateTransitionNotAllowed
   | Failed \<Rightarrow> Inl StateTransitionNotAllowed)"

section \<open>Codecs\<close>

interpretation task_state: state_codec task_state_as_str task_state_try_from
proof unfold_locales
  show "task_state_try_from (task_state_as_str t) = Inr t" for t
    by (cases t) (simp_all add: task_state_try_from_def)
  show "task_state_as_str t = s" if "task_state_try_from s = Inr t" for s t
    using that by (auto simp: task_state_try_from_def split: if_splits)
qed

interpretation task_type: state_codec task_type_as_str task_type_try_from
proof unfold_locales
  show "task_type_try_from (task_type_as_str t) = Inr t" for t
    by (cases t) (simp_all add: task_type_try_from_def)
  show "task_type_as_str t = s" if "task_type_try_from s = Inr t" for s t
    using that by (auto simp: task_type_try_from_def split: if_splits)
qed

section \<open>Well-formed tasks\<close>

text \<open>
  What the comments on the struct promise of a stored row: a terminal row has a
  completion time and no retry timer, a live row has no completion time, a
  pending row has never been attempted, and the error pair is set together
  (and never on a completed task).
\<close>

definition task_wf :: "operation_task \<Rightarrow> bool" where
  "task_wf t \<longleftrightarrow>
     (task_state_is_terminal (ot_state t) \<longleftrightarrow> ot_completed_at t \<noteq> None) \<and>
     (task_state_is_terminal (ot_state t) \<longrightarrow> ot_next_attempt_at t = None) \<and>
     (ot_state t = TaskPending \<longrightarrow>
        ot_attempts t = 0 \<and> ot_next_attempt_at t = None \<and> ot_error_code t = None) \<and>
     (ot_error_code t = None \<longleftrightarrow> ot_error_message t = None) \<and>
     (ot_state t = Completed \<longrightarrow> ot_error_code t = None) \<and>
     (ot_state t = Failed \<longrightarrow> ot_error_code t \<noteq> None)"

lemma saturating_add1_unat: "unat (saturating_add1 n) = min (unat n + 1) (2 ^ 32 - 1)"
proof (cases "n = - 1")
  case True
  then show ?thesis by (simp add: saturating_add1_def unsigned_minus_1_eq_mask mask_eq_exp_minus_1)
next
  case False
  then have "unat (n + 1) = unat n + 1"
    by (metis add_eq_0_iff2 unatSuc add.commute Suc_eq_plus1)
  moreover have "unat (n + 1) < 2 ^ 32" using unsigned_less [of "n + 1", where 'a = nat] by simp
  ultimately show ?thesis using False by (simp add: saturating_add1_def)
qed

lemma try_complete_wf: "try_complete now t = Inr t' \<Longrightarrow> task_wf t'"
  by (auto simp: try_complete_def task_wf_def split: task_state.splits)

lemma try_fail_wf: "try_fail c m now t = Inr t' \<Longrightarrow> task_wf t'"
  by (auto simp: try_fail_def task_wf_def split: task_state.splits)

lemma try_acquire_wf: "try_acquire now t = Inr t' \<Longrightarrow> task_wf t \<Longrightarrow> task_wf t'"
  by (auto simp: try_acquire_def task_wf_def split: task_state.splits)

lemma try_acquire_state: "try_acquire now t = Inr t' \<Longrightarrow> ot_state t' = InProgress"
  by (auto simp: try_acquire_def split: task_state.splits)

lemma try_acquire_Inl: "(\<exists>e. try_acquire now t = Inl e) \<longleftrightarrow> task_state_is_terminal (ot_state t)"
  by (auto simp: try_acquire_def split: task_state.splits)

text \<open>The state graph the three transitions span.\<close>

definition task_trans :: "task_state \<Rightarrow> task_state \<Rightarrow> bool" where
  "task_trans a b \<longleftrightarrow> (\<exists>t t' now c m. ot_state t = a \<and> ot_state t' = b \<and>
     (try_acquire now t = Inr t' \<or> try_complete now t = Inr t' \<or> try_fail c m now t = Inr t'))"

interpretation task_life: lifecycle task_trans task_state_is_terminal
  by unfold_locales
     (auto simp: task_trans_def try_acquire_def try_complete_def try_fail_def
           split: task_state.splits)

lemma try_complete_Inl: "(\<exists>e. try_complete now t = Inl e) \<longleftrightarrow> ot_state t \<noteq> InProgress"
  by (auto simp: try_complete_def split: task_state.splits)

lemma try_fail_Inl: "(\<exists>e. try_fail c m now t = Inl e) \<longleftrightarrow> ot_state t \<noteq> InProgress"
  by (auto simp: try_fail_def split: task_state.splits)

end
