(* ===== verification/IssuerDomain.thy ===== *)
theory IssuerDomain
  imports Ids
begin

text \<open>
  \<open>domain/issuer.rs\<close> and the key vocabulary of \<open>domain/signing_engine/mod.rs\<close>:
  the issuer aggregate, its one-way life cycle, key roles and algorithms.
  \<open>KeyPairId\<close> wraps a UUID, kept as its text.
\<close>

datatype key_pair_id = KeyPairId (key_pair_uuid: string)

datatype key_role = Authorized | Authentication | Assertion

datatype key_algorithm = Ed25519 | EcdsaP256

fun algorithm_for_role :: "key_role \<Rightarrow> key_algorithm" where
  "algorithm_for_role Authorized = Ed25519"
| "algorithm_for_role Assertion = EcdsaP256"
| "algorithm_for_role Authentication = EcdsaP256"

fun key_algorithm_as_str :: "key_algorithm \<Rightarrow> string" where
  "key_algorithm_as_str Ed25519 = ''ed25519''"
| "key_algorithm_as_str EcdsaP256 = ''ecdsa-p256''"

datatype unknown_algorithm = UnknownAlgorithm string

definition key_algorithm_try_from :: "string \<Rightarrow> unknown_algorithm + key_algorithm" where
  "key_algorithm_try_from s =
     (if s = ''ed25519'' then Inr Ed25519
      else if s = ''ecdsa-p256'' then Inr EcdsaP256
      else Inl (UnknownAlgorithm s))"

record raw_public_key =
  rpk_algorithm :: key_algorithm
  rpk_bytes :: "byte list"

record generated_key_pair =
  gkp_id :: key_pair_id
  gkp_public_key :: raw_public_key

record signature =
  sig_algorithm :: key_algorithm
  sig_bytes :: "byte list"

datatype signing_engine_error =
    KeyNotFound key_pair_id
  | UnsupportedAlgorithm
  | InvalidInputLength nat nat
  | SigningBackend string

fun show_signing_engine_error :: "signing_engine_error \<Rightarrow> string" where
  "show_signing_engine_error (KeyNotFound k) = ''key pair not found: '' @ key_pair_uuid k"
| "show_signing_engine_error UnsupportedAlgorithm = ''unsupported role/algorithm combination''"
| "show_signing_engine_error (InvalidInputLength e a) =
     ''invalid input length: expected '' @ show_nat e @ '' bytes, got '' @ show_nat a"
| "show_signing_engine_error (SigningBackend m) = ''backend error: '' @ m"

datatype issuer_state = IssuerActive | Deactivated

fun issuer_state_as_str :: "issuer_state \<Rightarrow> string" where
  "issuer_state_as_str IssuerActive = ''active''"
| "issuer_state_as_str Deactivated = ''deactivated''"

definition issuer_state_parse :: "string \<Rightarrow> domain_error + issuer_state" where
  "issuer_state_parse s =
     (if s = ''active'' then Inr IssuerActive
      else if s = ''deactivated'' then Inr Deactivated
      else Inl (InvalidInput (''unknown issuer state: '' @ s)))"

fun issuer_state_is_terminal :: "issuer_state \<Rightarrow> bool" where
  "issuer_state_is_terminal Deactivated = True"
| "issuer_state_is_terminal IssuerActive = False"

datatype mark_outcome = Already | NowDeactivated

record issuer =
  iss_id :: issuer_id
  iss_tenant_id :: tenant_id
  iss_did :: string
  iss_state :: "issuer_state option"
  iss_description :: "string option"
  iss_authorized_key_id :: "key_pair_id option"
  iss_authentication_key_id :: "key_pair_id option"
  iss_assertion_key_id :: "key_pair_id option"
  iss_display_name :: "string option"
  iss_logo_uri :: "string option"
  iss_locale :: "string option"
  iss_created_at :: datetime

fun key_id_for_role :: "issuer \<Rightarrow> key_role \<Rightarrow> key_pair_id option" where
  "key_id_for_role i Authorized = iss_authorized_key_id i"
| "key_id_for_role i Authentication = iss_authentication_key_id i"
| "key_id_for_role i Assertion = iss_assertion_key_id i"

definition try_deactivate :: "issuer \<Rightarrow> domain_error + (mark_outcome \<times> issuer)" where
  "try_deactivate i = (case iss_state i of
     Some IssuerActive \<Rightarrow> Inr (NowDeactivated, i\<lparr> iss_state := Some Deactivated \<rparr>)
   | Some Deactivated \<Rightarrow> Inr (Already, i)
   | None \<Rightarrow> Inl StateTransitionNotAllowed)"

section \<open>Codec and life cycle\<close>

interpretation issuer_state: state_codec issuer_state_as_str issuer_state_parse
proof unfold_locales
  show "issuer_state_parse (issuer_state_as_str t) = Inr t" for t
    by (cases t) (simp_all add: issuer_state_parse_def)
  show "issuer_state_as_str t = s" if "issuer_state_parse s = Inr t" for s t
    using that by (auto simp: issuer_state_parse_def split: if_splits)
qed

interpretation key_algorithm: state_codec key_algorithm_as_str key_algorithm_try_from
proof unfold_locales
  show "key_algorithm_try_from (key_algorithm_as_str t) = Inr t" for t
    by (cases t) (simp_all add: key_algorithm_try_from_def)
  show "key_algorithm_as_str t = s" if "key_algorithm_try_from s = Inr t" for s t
    using that by (auto simp: key_algorithm_try_from_def split: if_splits)
qed

definition issuer_trans :: "issuer_state \<Rightarrow> issuer_state \<Rightarrow> bool" where
  "issuer_trans a b \<longleftrightarrow> a \<noteq> b \<and> (\<exists>i i' o'. iss_state i = Some a \<and> iss_state i' = Some b \<and>
     try_deactivate i = Inr (o', i'))"

interpretation issuer_life: lifecycle issuer_trans issuer_state_is_terminal
  by unfold_locales
     (auto simp: issuer_trans_def try_deactivate_def elim: issuer_state_is_terminal.elims
           split: option.splits issuer_state.splits)

lemma try_deactivate_Inr:
  "try_deactivate i = Inr (o', i') \<Longrightarrow>
     iss_state i' = Some Deactivated \<and> i' = i\<lparr> iss_state := Some Deactivated \<rparr> \<and>
     (o' = Already \<longleftrightarrow> i' = i)"
  by (cases i) (auto simp: try_deactivate_def split: option.splits issuer_state.splits)

lemma try_deactivate_idem:
  "try_deactivate i = Inr (o', i') \<Longrightarrow> try_deactivate i' = Inr (Already, i')"
  by (auto simp: try_deactivate_def split: option.splits issuer_state.splits)

end
