(* ===== verification/OfferDomain.thy ===== *)
theory OfferDomain
  imports Ids Json
begin

text \<open>
  \<open>domain/credential_offer.rs\<close> and the bearer secrets of \<open>access_token.rs\<close>,
  \<open>nonce.rs\<close> and \<open>pre_auth_code.rs\<close>: the offer aggregate with its lazily
  observed expiry and its two terminal transitions.
\<close>

section \<open>Secrets\<close>

datatype pre_auth_code = PreAuthCode (pre_auth_code_str: string)
datatype access_token_secret = AccessTokenSecret (access_token_str: string)
datatype access_token_hash = AccessTokenHash (access_token_hash_str: string)
datatype nonce_secret = NonceSecret (nonce_str: string)
datatype nonce_hash = NonceHash (nonce_hash_str: string)

definition secret_digest :: "bs58 \<Rightarrow> (string \<Rightarrow> byte list) \<Rightarrow> string \<Rightarrow> string" where
  "secret_digest b sha256 s = bs58_encode b (sha256 s)"

fun access_token_hash_of ::
  "bs58 \<Rightarrow> (string \<Rightarrow> byte list) \<Rightarrow> access_token_secret \<Rightarrow> access_token_hash" where
  "access_token_hash_of b sha256 (AccessTokenSecret s) = AccessTokenHash (secret_digest b sha256 s)"

fun nonce_hash_of :: "bs58 \<Rightarrow> (string \<Rightarrow> byte list) \<Rightarrow> nonce_secret \<Rightarrow> nonce_hash" where
  "nonce_hash_of b sha256 (NonceSecret s) = NonceHash (secret_digest b sha256 s)"

record access_token =
  at_token_hash :: access_token_hash
  at_tenant_id :: tenant_id
  at_issuer_id :: issuer_id
  at_offer_id :: offer_id
  at_expires_at :: datetime

section \<open>Offers\<close>

datatype offer_state = OfferPending | Issued | Cancelled | Expired

fun offer_state_as_str :: "offer_state \<Rightarrow> string" where
  "offer_state_as_str OfferPending = ''pending''"
| "offer_state_as_str Issued = ''issued''"
| "offer_state_as_str Cancelled = ''cancelled''"
| "offer_state_as_str Expired = ''expired''"

definition offer_state_try_from :: "string \<Rightarrow> domain_error + offer_state" where
  "offer_state_try_from s =
     (if s = ''pending'' then Inr OfferPending
      else if s = ''issued'' then Inr Issued
      else if s = ''cancelled'' then Inr Cancelled
      else if s = ''expired'' then Inr Expired
      else Inl (InvalidInput (''unknown credential offer state: '' @ s)))"

record credential_offer =
  co_id :: offer_id
  co_tenant_id :: tenant_id
  co_issuer_id :: issuer_id
  co_vct :: string
  co_credential_type_id :: "ctype_id option"
  co_claims :: json
  co_state :: offer_state
  co_pre_auth_code :: "pre_auth_code option"
  co_expires_at :: datetime
  co_created_at :: datetime
  co_issued_at :: "datetime option"
  co_cancelled_at :: "datetime option"

definition credential_offer_new ::
  "offer_id \<Rightarrow> datetime \<Rightarrow> tenant_id \<Rightarrow> issuer_id \<Rightarrow> ctype_id option \<Rightarrow> string \<Rightarrow> json \<Rightarrow>
   pre_auth_code \<Rightarrow> datetime \<Rightarrow> credential_offer" where
  "credential_offer_new fresh_id now tenant_id issuer_id ctype vct claims code expires_at =
     \<lparr> co_id = fresh_id, co_tenant_id = tenant_id, co_issuer_id = issuer_id, co_vct = vct,
       co_credential_type_id = ctype, co_claims = claims, co_state = OfferPending,
       co_pre_auth_code = Some code, co_expires_at = expires_at, co_created_at = now,
       co_issued_at = None, co_cancelled_at = None \<rparr>"

definition offer_is_expired_at :: "datetime \<Rightarrow> credential_offer \<Rightarrow> bool" where
  "offer_is_expired_at now off \<longleftrightarrow> now \<ge> co_expires_at off"

definition observed_state :: "datetime \<Rightarrow> credential_offer \<Rightarrow> offer_state" where
  "observed_state now off = (case co_state off of
     OfferPending \<Rightarrow> if offer_is_expired_at now off then Expired else OfferPending
   | other \<Rightarrow> other)"

definition try_issue :: "datetime \<Rightarrow> credential_offer \<Rightarrow> domain_error + credential_offer" where
  "try_issue now off =
     (if co_state off = OfferPending \<and> \<not> offer_is_expired_at now off
      then Inr (off\<lparr> co_state := Issued, co_issued_at := Some now, co_pre_auth_code := None \<rparr>)
      else Inl StateTransitionNotAllowed)"

definition try_cancel :: "datetime \<Rightarrow> credential_offer \<Rightarrow> domain_error + credential_offer" where
  "try_cancel now off =
     (if co_state off = OfferPending
      then Inr (off\<lparr> co_state := Cancelled, co_cancelled_at := Some now, co_pre_auth_code := None \<rparr>)
      else Inl StateTransitionNotAllowed)"

section \<open>Codec, well-formedness, life cycle\<close>

interpretation offer_state: state_codec offer_state_as_str offer_state_try_from
proof unfold_locales
  show "offer_state_try_from (offer_state_as_str t) = Inr t" for t
    by (cases t) (simp_all add: offer_state_try_from_def)
  show "offer_state_as_str t = s" if "offer_state_try_from s = Inr t" for s t
    using that by (auto simp: offer_state_try_from_def split: if_splits)
qed

text \<open>
  The plaintext code lives exactly in the pending window, a terminal state has
  its own time stamp and no other, and \<open>Expired\<close> is never stored.
\<close>

definition offer_wf :: "credential_offer \<Rightarrow> bool" where
  "offer_wf off \<longleftrightarrow>
     co_state off \<noteq> Expired \<and>
     (co_pre_auth_code off \<noteq> None \<longleftrightarrow> co_state off = OfferPending) \<and>
     (co_issued_at off \<noteq> None \<longleftrightarrow> co_state off = Issued) \<and>
     (co_cancelled_at off \<noteq> None \<longleftrightarrow> co_state off = Cancelled)"

lemma credential_offer_new_wf: "offer_wf (credential_offer_new i now t s c v cl code e)"
  by (simp add: offer_wf_def credential_offer_new_def)

lemma try_issue_wf: "try_issue now off = Inr off' \<Longrightarrow> offer_wf off \<Longrightarrow> offer_wf off'"
  by (auto simp: try_issue_def offer_wf_def split: if_splits)

lemma try_cancel_wf: "try_cancel now off = Inr off' \<Longrightarrow> offer_wf off \<Longrightarrow> offer_wf off'"
  by (auto simp: try_cancel_def offer_wf_def split: if_splits)

definition offer_trans :: "offer_state \<Rightarrow> offer_state \<Rightarrow> bool" where
  "offer_trans a b \<longleftrightarrow> (\<exists>off off' now. co_state off = a \<and> co_state off' = b \<and>
     (try_issue now off = Inr off' \<or> try_cancel now off = Inr off'))"

interpretation offer_life: lifecycle offer_trans "\<lambda>s. s \<noteq> OfferPending"
  by unfold_locales (auto simp: offer_trans_def try_issue_def try_cancel_def split: if_splits)

lemma try_issue_iff: "(\<exists>off'. try_issue now off = Inr off') \<longleftrightarrow> observed_state now off = OfferPending"
  by (auto simp: try_issue_def observed_state_def split: offer_state.splits)

lemma observed_state_mono:
  assumes "now \<le> later"
  shows "observed_state later off = observed_state now off \<or>
         (observed_state now off = OfferPending \<and> observed_state later off = Expired)"
  using assms by (auto simp: observed_state_def offer_is_expired_at_def split: offer_state.splits)

end
