(* ===== verification/StatusListDomain.thy ===== *)
theory StatusListDomain
  imports Ids
begin

text \<open>
  \<open>domain/status_list/mod.rs\<close>: indices bounded by the SWIYU capacity and the
  status-list aggregate with its two version counters.  The profile constants
  come from \<open>swiyu-core\<close>, whose values the comments and the schema fix:
  \<open>131072\<close> entries of two bits, \<open>32768\<close> bytes.
\<close>

definition SWIYU_STATUS_LIST_CAPACITY :: nat where "SWIYU_STATUS_LIST_CAPACITY = 131072"
definition SWIYU_STATUS_LIST_BITS :: nat where "SWIYU_STATUS_LIST_BITS = 2"

definition BITSTRING_BYTES :: nat where
  "BITSTRING_BYTES = SWIYU_STATUS_LIST_CAPACITY * SWIYU_STATUS_LIST_BITS div 8"

datatype status_value = StatusValid | StatusRevoked | StatusSuspended

datatype status_list_index = StatusListIndex (index_value: u32)

definition status_list_index_try_from :: "u32 \<Rightarrow> domain_error + status_list_index" where
  "status_list_index_try_from v =
     (if unat v \<ge> SWIYU_STATUS_LIST_CAPACITY
      then Inl (InvalidInput (''status list index out of range: '' @ show_nat (unat v)
             @ '' (capacity = '' @ show_nat SWIYU_STATUS_LIST_CAPACITY @ '')''))
      else Inr (StatusListIndex v))"

text \<open>Column codec: an \<open>i32\<close> column read back through the bound check.\<close>

definition status_list_index_encode :: "status_list_index \<Rightarrow> 32 word" where
  "status_list_index_encode i = index_value i"

definition status_list_index_decode :: "32 word \<Rightarrow> domain_error + status_list_index" where
  "status_list_index_decode raw =
     (if sint raw < 0
      then Inl (InvalidInput (''status_list_index is negative: '' @ show_int (sint raw)))
      else status_list_index_try_from raw)"

record status_list =
  sl_id :: status_list_id
  sl_issuer_id :: issuer_id
  sl_bitstring :: "byte list"
  sl_allocated_count :: u32
  sl_committed_version :: u64
  sl_published_version :: u64
  sl_last_publish_attempt_at :: "datetime option"
  sl_last_publish_error :: "string option"
  sl_next_publish_attempt_at :: "datetime option"
  sl_publish_attempts :: u32
  sl_created_at :: datetime
  sl_registry_entry_id :: "string option"
  sl_registry_url :: "string option"

definition status_list_new :: "status_list_id \<Rightarrow> issuer_id \<Rightarrow> datetime \<Rightarrow> status_list" where
  "status_list_new fresh_id issuer_id now =
     \<lparr> sl_id = fresh_id, sl_issuer_id = issuer_id,
       sl_bitstring = replicate BITSTRING_BYTES 0, sl_allocated_count = 0,
       sl_committed_version = 0, sl_published_version = 0,
       sl_last_publish_attempt_at = None, sl_last_publish_error = None,
       sl_next_publish_attempt_at = None, sl_publish_attempts = 0,
       sl_created_at = now, sl_registry_entry_id = None, sl_registry_url = None \<rparr>"

definition is_at_capacity :: "status_list \<Rightarrow> bool" where
  "is_at_capacity l \<longleftrightarrow> unat (sl_allocated_count l) \<ge> SWIYU_STATUS_LIST_CAPACITY"

definition is_dirty :: "status_list \<Rightarrow> bool" where
  "is_dirty l \<longleftrightarrow> sl_committed_version l > sl_published_version l"

section \<open>Index facts\<close>

lemma status_list_index_try_from_Inr:
  "status_list_index_try_from v = Inr i \<longleftrightarrow> i = StatusListIndex v \<and> unat v < 131072"
  by (auto simp: status_list_index_try_from_def SWIYU_STATUS_LIST_CAPACITY_def)

lemma small_sint_unat:
  fixes v :: "32 word"
  assumes "unat v < 2 ^ 31"
  shows "sint v = int (unat v)"
proof -
  have u: "uint v = int (unat v)" by (rule uint_nat)
  have "uint v < 2 ^ 31" 
    using assms unfolding u by (metis of_nat_less_iff of_nat_numeral of_nat_power)
  then have "signed_take_bit 31 (uint v) = uint v"
    using uint_nonnegative [of v] by (intro signed_take_bit_int_eq_self) linarith+
  then show ?thesis unfolding sint_uint u by simp
qed

lemma status_list_index_decode_encode:
  assumes "status_list_index_try_from v = Inr i"
  shows "status_list_index_decode (status_list_index_encode i) = Inr i"
proof -
  have i: "i = StatusListIndex v" and "unat v < 131072"
    using assms by (simp_all add: status_list_index_try_from_Inr)
  then have "sint v = int (unat v)" by (intro small_sint_unat) simp
  then show ?thesis
    using i assms by (simp add: status_list_index_decode_def status_list_index_encode_def)
qed

end
