(* ===== verification/CredentialDomain.thy ===== *)
theory CredentialDomain
  imports StatusListDomain Json
begin

text \<open>
  \<open>domain/issued_credential.rs\<close> and \<open>domain/credential_type.rs\<close>: the record of
  a signed credential with its suspend/unsuspend/revoke life cycle, and the
  tenant-owned credential type with its revocation mode and retirement.
\<close>

section \<open>Issued credentials\<close>

datatype ic_state = CredActive | CredSuspended | Revoked

fun ic_state_as_str :: "ic_state \<Rightarrow> string" where
  "ic_state_as_str CredActive = ''active''"
| "ic_state_as_str CredSuspended = ''suspended''"
| "ic_state_as_str Revoked = ''revoked''"

definition ic_state_parse :: "string \<Rightarrow> domain_error + ic_state" where
  "ic_state_parse s =
     (if s = ''active'' then Inr CredActive
      else if s = ''suspended'' then Inr CredSuspended
      else if s = ''revoked'' then Inr Revoked
      else Inl (InvalidInput (''unknown issued credential state: '' @ s)))"

fun ic_state_is_terminal :: "ic_state \<Rightarrow> bool" where
  "ic_state_is_terminal Revoked = True"
| "ic_state_is_terminal _ = False"

definition INTEGRITY_HASH_LEN :: nat where "INTEGRITY_HASH_LEN = 32"

record issued_credential =
  ic_id :: credential_id
  ic_tenant_id :: tenant_id
  ic_issuer_id :: issuer_id
  ic_credential_offer_id :: offer_id
  ic_vct :: string
  ic_holder_key_jkt :: string
  ic_status_list_id :: status_list_id
  ic_status_list_index :: status_list_index
  ic_state :: ic_state
  ic_integrity_hash :: "byte list"
  ic_issued_at :: datetime
  ic_expires_at :: datetime

definition issued_credential_new ::
  "credential_id \<Rightarrow> tenant_id \<Rightarrow> issuer_id \<Rightarrow> offer_id \<Rightarrow> string \<Rightarrow> string \<Rightarrow> status_list_id \<Rightarrow>
   status_list_index \<Rightarrow> byte list \<Rightarrow> datetime \<Rightarrow> datetime \<Rightarrow> issued_credential" where
  "issued_credential_new fresh_id tenant issuer offer vct jkt list_id idx hash issued expires =
     \<lparr> ic_id = fresh_id, ic_tenant_id = tenant, ic_issuer_id = issuer,
       ic_credential_offer_id = offer, ic_vct = vct, ic_holder_key_jkt = jkt,
       ic_status_list_id = list_id, ic_status_list_index = idx, ic_state = CredActive,
       ic_integrity_hash = hash, ic_issued_at = issued, ic_expires_at = expires \<rparr>"

definition ic_is_expired_at :: "datetime \<Rightarrow> issued_credential \<Rightarrow> bool" where
  "ic_is_expired_at now c \<longleftrightarrow> now \<ge> ic_expires_at c"

definition try_suspend :: "issued_credential \<Rightarrow> domain_error + issued_credential" where
  "try_suspend c = (case ic_state c of
     CredActive \<Rightarrow> Inr (c\<lparr> ic_state := CredSuspended \<rparr>)
   | _ \<Rightarrow> Inl StateTransitionNotAllowed)"

definition try_unsuspend :: "issued_credential \<Rightarrow> domain_error + issued_credential" where
  "try_unsuspend c = (case ic_state c of
     CredSuspended \<Rightarrow> Inr (c\<lparr> ic_state := CredActive \<rparr>)
   | _ \<Rightarrow> Inl StateTransitionNotAllowed)"

definition try_revoke :: "issued_credential \<Rightarrow> domain_error + issued_credential" where
  "try_revoke c = (case ic_state c of
     CredActive \<Rightarrow> Inr (c\<lparr> ic_state := Revoked \<rparr>)
   | CredSuspended \<Rightarrow> Inr (c\<lparr> ic_state := Revoked \<rparr>)
   | Revoked \<Rightarrow> Inl StateTransitionNotAllowed)"

interpretation ic_state: state_codec ic_state_as_str ic_state_parse
proof unfold_locales
  show "ic_state_parse (ic_state_as_str t) = Inr t" for t
    by (cases t) (simp_all add: ic_state_parse_def)
  show "ic_state_as_str t = s" if "ic_state_parse s = Inr t" for s t
    using that by (auto simp: ic_state_parse_def split: if_splits)
qed

definition ic_trans :: "ic_state \<Rightarrow> ic_state \<Rightarrow> bool" where
  "ic_trans a b \<longleftrightarrow> (\<exists>c c'. ic_state c = a \<and> ic_state c' = b \<and>
     (try_suspend c = Inr c' \<or> try_unsuspend c = Inr c' \<or> try_revoke c = Inr c'))"

interpretation ic_life: lifecycle ic_trans ic_state_is_terminal
  by unfold_locales
     (auto simp: ic_trans_def try_suspend_def try_unsuspend_def try_revoke_def
           split: ic_state.splits)

section \<open>Credential types\<close>

datatype revocation_mode = Revocable | Suspendable | RevocableAndSuspendable | NoRevocation

fun revocation_mode_as_str :: "revocation_mode \<Rightarrow> string" where
  "revocation_mode_as_str Revocable = ''revocable''"
| "revocation_mode_as_str Suspendable = ''suspendable''"
| "revocation_mode_as_str RevocableAndSuspendable = ''revocable_and_suspendable''"
| "revocation_mode_as_str NoRevocation = ''none''"

definition revocation_mode_try_from :: "string \<Rightarrow> domain_error + revocation_mode" where
  "revocation_mode_try_from s =
     (if s = ''revocable'' then Inr Revocable
      else if s = ''suspendable'' then Inr Suspendable
      else if s = ''revocable_and_suspendable'' then Inr RevocableAndSuspendable
      else if s = ''none'' then Inr NoRevocation
      else Inl (InvalidInput (''unknown revocation mode: '' @ s)))"

record credential_type =
  ct_id :: ctype_id
  ct_tenant_id :: tenant_id
  ct_vct :: string
  ct_display :: json
  ct_internal_description :: "string option"
  ct_claim_schema :: json
  ct_claim_schema_source_url :: "string option"
  ct_claim_schema_fetched_at :: "datetime option"
  ct_claims :: json
  ct_default_validity_duration :: int
  ct_revocation_mode :: revocation_mode
  ct_created_at :: datetime
  ct_updated_at :: datetime
  ct_retired_at :: "datetime option"

definition credential_type_new ::
  "ctype_id \<Rightarrow> datetime \<Rightarrow> tenant_id \<Rightarrow> string \<Rightarrow> json \<Rightarrow> string option \<Rightarrow> json \<Rightarrow> json \<Rightarrow> int \<Rightarrow>
   revocation_mode \<Rightarrow> credential_type" where
  "credential_type_new fresh_id now tenant vct display descr schema claims validity mode =
     \<lparr> ct_id = fresh_id, ct_tenant_id = tenant, ct_vct = vct, ct_display = display,
       ct_internal_description = descr, ct_claim_schema = schema,
       ct_claim_schema_source_url = None, ct_claim_schema_fetched_at = None,
       ct_claims = claims, ct_default_validity_duration = validity, ct_revocation_mode = mode,
       ct_created_at = now, ct_updated_at = now, ct_retired_at = None \<rparr>"

definition ct_is_retired :: "credential_type \<Rightarrow> bool" where
  "ct_is_retired c \<longleftrightarrow> ct_retired_at c \<noteq> None"

definition try_retire :: "datetime \<Rightarrow> credential_type \<Rightarrow> domain_error + credential_type" where
  "try_retire now c =
     (if ct_is_retired c then Inl StateTransitionNotAllowed
      else Inr (c\<lparr> ct_retired_at := Some now, ct_updated_at := now \<rparr>))"

interpretation revocation_mode: state_codec revocation_mode_as_str revocation_mode_try_from
proof unfold_locales
  show "revocation_mode_try_from (revocation_mode_as_str t) = Inr t" for t
    by (cases t) (simp_all add: revocation_mode_try_from_def)
  show "revocation_mode_as_str t = s" if "revocation_mode_try_from s = Inr t" for s t
    using that by (auto simp: revocation_mode_try_from_def split: if_splits)
qed

end
