(* ===== verification/AccountDomain.thy ===== *)
theory AccountDomain
  imports Ids
begin

text \<open>
  \<open>domain/tenant.rs\<close>, \<open>domain/user_account.rs\<close>, \<open>domain/invitation.rs\<close> and the
  secret-encryption errors of \<open>domain/secret_encryption_engine/mod.rs\<close>.
\<close>

section \<open>Tenants\<close>

datatype ciphertext = Ciphertext "byte list"

record tenant =
  tn_id :: tenant_id
  tn_partner_id :: string
  tn_display_name :: "string option"
  tn_description :: "string option"
  tn_oauth_client_id :: "string option"
  tn_oauth_client_secret :: "ciphertext option"
  tn_oauth_refresh_token :: "ciphertext option"

datatype secret_encryption_error =
    SecKeyNotFound string
  | MalformedCiphertext
  | KeyNameMismatch string string
  | KeyVersionNotFound string u32
  | Tampered
  | SecBackend string

fun show_secret_encryption_error :: "secret_encryption_error \<Rightarrow> string" where
  "show_secret_encryption_error (SecKeyNotFound k) = ''key not configured: '' @ k"
| "show_secret_encryption_error MalformedCiphertext = ''ciphertext envelope is malformed''"
| "show_secret_encryption_error (KeyNameMismatch e a) =
     ''ciphertext key_name does not match argument: envelope='' @ e @ '', argument='' @ a"
| "show_secret_encryption_error (KeyVersionNotFound k v) =
     ''ciphertext key_version is not configured: '' @ k @ '' v'' @ show_nat (unat v)"
| "show_secret_encryption_error Tampered = ''authentication tag verification failed''"
| "show_secret_encryption_error (SecBackend m) = ''backend error: '' @ m"

fun secret_error_is_retryable :: "secret_encryption_error \<Rightarrow> bool" where
  "secret_error_is_retryable (SecBackend _) = True"
| "secret_error_is_retryable _ = False"

section \<open>User accounts\<close>

record user_identity =
  ui_iss :: string
  ui_sub :: string

definition user_identity_from_columns ::
  "string option \<Rightarrow> string option \<Rightarrow> string + user_identity option" where
  "user_identity_from_columns iss sub = (case (iss, sub) of
     (Some i, Some s) \<Rightarrow> Inr (Some \<lparr> ui_iss = i, ui_sub = s \<rparr>)
   | (None, None) \<Rightarrow> Inr None
   | _ \<Rightarrow> Inl ''user_accounts.identity_iss/identity_sub must both be set or both NULL'')"

datatype user_account_state = AccountActive | AccountDeactivated

fun user_account_state_as_str :: "user_account_state \<Rightarrow> string" where
  "user_account_state_as_str AccountActive = ''active''"
| "user_account_state_as_str AccountDeactivated = ''deactivated''"

definition user_account_state_from_str :: "string \<Rightarrow> domain_error + user_account_state" where
  "user_account_state_from_str s =
     (if s = ''active'' then Inr AccountActive
      else if s = ''deactivated'' then Inr AccountDeactivated
      else Inl (InvalidInput (''unknown user account state: '' @ s)))"

record user_account =
  ua_id :: account_id
  ua_tenant_id :: tenant_id
  ua_provisioning_first_name :: "string option"
  ua_provisioning_last_name :: "string option"
  ua_provisioning_home_organization :: "string option"
  ua_state :: user_account_state
  ua_identity :: "user_identity option"
  ua_idp_first_name :: "string option"
  ua_idp_last_name :: "string option"
  ua_linked_at :: "datetime option"
  ua_created_at :: datetime

section \<open>Invitations\<close>

datatype invitation_state = InvPending | InvAccepted | InvRevoked | InvExpired

fun invitation_state_as_str :: "invitation_state \<Rightarrow> string" where
  "invitation_state_as_str InvPending = ''pending''"
| "invitation_state_as_str InvAccepted = ''accepted''"
| "invitation_state_as_str InvRevoked = ''revoked''"
| "invitation_state_as_str InvExpired = ''expired''"

definition invitation_state_is_terminal :: "invitation_state \<Rightarrow> bool" where
  "invitation_state_is_terminal s \<longleftrightarrow> s \<noteq> InvPending"

definition invitation_state_from_str :: "string \<Rightarrow> domain_error + invitation_state" where
  "invitation_state_from_str s =
     (if s = ''pending'' then Inr InvPending
      else if s = ''accepted'' then Inr InvAccepted
      else if s = ''revoked'' then Inr InvRevoked
      else if s = ''expired'' then Inr InvExpired
      else Inl (InvalidInput (''unknown invitation state: '' @ s)))"

record invitation =
  inv_id :: invite_id
  inv_user_account_id :: account_id
  inv_tenant_id :: tenant_id
  inv_state :: invitation_state
  inv_expires_at :: datetime
  inv_created_at :: datetime
  inv_accepted_at :: "datetime option"
  inv_revoked_at :: "datetime option"

section \<open>Codecs\<close>

interpretation user_account_state: state_codec user_account_state_as_str user_account_state_from_str
proof unfold_locales
  show "user_account_state_from_str (user_account_state_as_str t) = Inr t" for t
    by (cases t) (simp_all add: user_account_state_from_str_def)
  show "user_account_state_as_str t = s" if "user_account_state_from_str s = Inr t" for s t
    using that by (auto simp: user_account_state_from_str_def split: if_splits)
qed

interpretation invitation_state: state_codec invitation_state_as_str invitation_state_from_str
proof unfold_locales
  show "invitation_state_from_str (invitation_state_as_str t) = Inr t" for t
    by (cases t) (simp_all add: invitation_state_from_str_def)
  show "invitation_state_as_str t = s" if "invitation_state_from_str s = Inr t" for s t
    using that by (auto simp: invitation_state_from_str_def split: if_splits)
qed

end
