(* ===== verification/Db.thy ===== *)
theory Db
  imports TaskDomain IssuerDomain OfferDomain CredentialDomain AccountDomain
begin

text \<open>
  The state the program runs on.  \<open>db\<close> is the Postgres schema of
  \<open>api/migrations\<close>, one row list per table; \<open>'x world\<close> adds the state \<open>'x\<close> of
  everything outside the program (network peers, key store, clock, entropy).
  A connection pool is the third-party \<open>sqlx\<close>: every statement may fail in
  transport before or after it took effect, as \<open>sql_io\<close> decides, and a failing
  statement leaves the tables as they were.  \<open>in_tx\<close> is
  \<open>pool.begin() .. tx.commit()\<close> with the rollback of an early exit.
\<close>

section \<open>Tables\<close>

record issuer_row =
  ir_issuer :: issuer
  ir_current_status_list_id :: "status_list_id option"

record nonce_row =
  nr_nonce_hash :: nonce_hash
  nr_tenant_id :: tenant_id
  nr_issuer_id :: issuer_id
  nr_offer_id :: offer_id
  nr_expires_at :: datetime

record assignment_row =
  as_issuer_id :: issuer_id
  as_credential_type_id :: ctype_id
  as_tenant_id :: tenant_id
  as_assigned_at :: datetime

record invitation_row =
  ivr_invitation :: invitation
  ivr_code_hash :: "string option"

record db =
  tenants :: "tenant list"
  issuers :: "issuer_row list"
  credential_offers :: "credential_offer list"
  oidc_access_tokens :: "access_token list"
  oidc_nonces :: "nonce_row list"
  operation_tasks :: "operation_task list"
  status_lists :: "status_list list"
  issued_credentials :: "issued_credential list"
  credential_types :: "credential_type list"
  issuer_credential_types :: "assignment_row list"
  user_accounts :: "user_account list"
  user_account_invitations :: "invitation_row list"

record 'x world =
  wdb :: db
  wext :: 'x

section \<open>Errors\<close>

datatype sqlx_error =
    SqlTransport string
  | SqlDecode string
  | SqlUnique string
  | SqlConstraint string

datatype persistence_error =
    NotFound
  | UniqueViolation string
  | DataIntegrity string
  | DbError sqlx_error
  | Encryption secret_encryption_error

fun map_database_error :: "sqlx_error \<Rightarrow> persistence_error" where
  "map_database_error (SqlUnique constr) = UniqueViolation constr"
| "map_database_error e = DbError e"

section \<open>The outside world\<close>

datatype sql_fault = NoFault | FaultBefore string | FaultAfter string

record 'x pool =
  sql_io :: "'x \<Rightarrow> sql_fault \<times> 'x"
  row_locked :: "'x \<Rightarrow> string \<Rightarrow> bool"
  sql_show :: "sqlx_error \<Rightarrow> string"
  sql_now :: "'x \<Rightarrow> datetime"

record 'x host =
  host_clock :: "'x \<Rightarrow> datetime \<times> 'x"
  host_entropy :: "nat \<Rightarrow> 'x \<Rightarrow> byte list \<times> 'x"
  host_bs58 :: bs58
  host_sha256 :: "string \<Rightarrow> byte list"

text \<open>A call into outside code: it can change only the outside state.\<close>

definition ext :: "('x, 'e, 'a) eff \<Rightarrow> ('x world, 'e, 'a) eff" where
  "ext m = (\<lambda>w. case m (wext w) of (r, x) \<Rightarrow> (r, w\<lparr> wext := x \<rparr>))"

definition utc_now :: "'x host \<Rightarrow> ('x world, 'e, datetime) eff" where
  "utc_now h = ext (\<lambda>x. case host_clock h x of (t, x') \<Rightarrow> (Inr t, x'))"

definition random_bytes :: "'x host \<Rightarrow> nat \<Rightarrow> ('x world, 'e, byte list) eff" where
  "random_bytes h n = ext (\<lambda>x. case host_entropy h n x of (bs, x') \<Rightarrow> (Inr bs, x'))"

text \<open>\<open>ids.rs::generate_bare\<close> and the 16-byte secrets.\<close>

definition generate_bare :: "'x host \<Rightarrow> ('x world, 'e, string) eff" where
  "generate_bare h = bindE (random_bytes h ID_BYTES)
     (\<lambda>bs. ret (bs58_encode (host_bs58 h) bs))"

definition SECRET_BYTES :: nat where "SECRET_BYTES = 16"

definition generate_secret :: "'x host \<Rightarrow> ('x world, 'e, string) eff" where
  "generate_secret h = bindE (random_bytes h SECRET_BYTES)
     (\<lambda>bs. ret (bs58_encode (host_bs58 h) bs))"

section \<open>Statements\<close>

definition run_stmt ::
  "'x pool \<Rightarrow> (db \<Rightarrow> sqlx_error + ('a \<times> db)) \<Rightarrow> ('x world, sqlx_error, 'a) eff" where
  "run_stmt p q = (\<lambda>w. case sql_io p (wext w) of (flt, x) \<Rightarrow>
     (case flt of
        NoFault \<Rightarrow> (case q (wdb w) of
            Inl e \<Rightarrow> (Inl e, w\<lparr> wext := x \<rparr>)
          | Inr (a, d) \<Rightarrow> (Inr a, w\<lparr> wdb := d, wext := x \<rparr>))
      | FaultBefore m \<Rightarrow> (Inl (SqlTransport m), w\<lparr> wext := x \<rparr>)
      | FaultAfter m \<Rightarrow> (case q (wdb w) of
            Inl e \<Rightarrow> (Inl (SqlTransport m), w\<lparr> wext := x \<rparr>)
          | Inr (a, d) \<Rightarrow> (Inl (SqlTransport m), w\<lparr> wdb := d, wext := x \<rparr>))))"

definition run_query ::
  "'x pool \<Rightarrow> ('x \<Rightarrow> db \<Rightarrow> sqlx_error + 'a) \<Rightarrow> ('x world, sqlx_error, 'a) eff" where
  "run_query p q = (\<lambda>w. run_stmt p
     (\<lambda>d. case q (wext w) d of Inl e \<Rightarrow> Inl e | Inr a \<Rightarrow> Inr (a, d)) w)"

definition acquire :: "'x pool \<Rightarrow> ('x world, sqlx_error, unit) eff" where
  "acquire p = run_stmt p (\<lambda>d. Inr ((), d))"

text \<open>\<open>UPDATE\<close> whose row count the caller inspects.\<close>

definition update_stmt ::
  "((('r list \<Rightarrow> 'r list) \<Rightarrow> db \<Rightarrow> db)) \<Rightarrow> (db \<Rightarrow> 'r list) \<Rightarrow> ('r \<Rightarrow> bool) \<Rightarrow> ('r \<Rightarrow> 'r) \<Rightarrow>
   db \<Rightarrow> sqlx_error + (nat \<times> db)" where
  "update_stmt upd sel P f d =
     Inr (rows_matching P (sel d), upd (update_where P f) d)"

text \<open>The recurring shape: no row updated is \<open>NotFound\<close>.\<close>

definition update_one ::
  "'x pool \<Rightarrow> (('r list \<Rightarrow> 'r list) \<Rightarrow> db \<Rightarrow> db) \<Rightarrow> (db \<Rightarrow> 'r list) \<Rightarrow> ('r \<Rightarrow> bool) \<Rightarrow>
   ('r \<Rightarrow> 'r) \<Rightarrow> ('x world, persistence_error, unit) eff" where
  "update_one p upd sel P f =
     bindE (mapErr map_database_error (run_stmt p (update_stmt upd sel P f)))
       (\<lambda>n. guardE (n \<noteq> 0) NotFound)"

definition row_by :: "('r \<Rightarrow> 'k) \<Rightarrow> 'k \<Rightarrow> 'r list \<Rightarrow> 'r option" where
  "row_by key k rs = find (\<lambda>r. key r = k) rs"

section \<open>Transactions\<close>

datatype 'a tx_end = Commit 'a | Rollback 'a

definition in_tx ::
  "'x pool \<Rightarrow> (sqlx_error \<Rightarrow> 'e) \<Rightarrow> (sqlx_error \<Rightarrow> 'e) \<Rightarrow> ('x world, 'e, 'a tx_end) eff \<Rightarrow>
   ('x world, 'e, 'a) eff" where
  "in_tx p on_begin on_commit body = (\<lambda>w0.
     case acquire p w0 of
       (Inl e, w) \<Rightarrow> (Inl (on_begin e), w)
     | (Inr _, w) \<Rightarrow> (case body w of
         (Inl e, w1) \<Rightarrow> (Inl e, w1\<lparr> wdb := wdb w \<rparr>)
       | (Inr (Rollback a), w1) \<Rightarrow> (Inr a, w1\<lparr> wdb := wdb w \<rparr>)
       | (Inr (Commit a), w1) \<Rightarrow> (case sql_io p (wext w1) of (flt, x) \<Rightarrow>
           (case flt of
              NoFault \<Rightarrow> (Inr a, w1\<lparr> wext := x \<rparr>)
            | FaultBefore m \<Rightarrow> (Inl (on_commit (SqlTransport m)), w1\<lparr> wdb := wdb w, wext := x \<rparr>)
            | FaultAfter m \<Rightarrow> (Inl (on_commit (SqlTransport m)), w1\<lparr> wext := x \<rparr>)))))"

section \<open>Rules\<close>

lemma wdb_ext [simp]: "wdb (snd (ext m w)) = wdb w"
  by (simp add: ext_def split: prod.splits)

lemma ext_keeps_db [pres]: "preserves (\<lambda>w. P (wdb w)) (ext m)"
  by (simp add: preserves_def)

lemma utc_now_run [simp]:
  "utc_now h w = (Inr (fst (host_clock h (wext w))), w\<lparr> wext := snd (host_clock h (wext w)) \<rparr>)"
  by (simp add: utc_now_def ext_def split: prod.splits)

lemma utc_now_keeps_db [pres]: "preserves (\<lambda>w. P (wdb w)) (utc_now h)"
  by (simp add: utc_now_def pres)

lemma random_bytes_keeps_db [pres]: "preserves (\<lambda>w. P (wdb w)) (random_bytes h n)"
  by (simp add: random_bytes_def pres)

lemma generate_bare_keeps_db [pres]: "preserves (\<lambda>w. P (wdb w)) (generate_bare h)"
  by (simp add: generate_bare_def pres)

lemma generate_secret_keeps_db [pres]: "preserves (\<lambda>w. P (wdb w)) (generate_secret h)"
  by (simp add: generate_secret_def pres)

lemma run_stmt_preserves:
  assumes "\<And>d a d'. P d \<Longrightarrow> q d = Inr (a, d') \<Longrightarrow> P d'"
  shows "preserves (\<lambda>w. P (wdb w)) (run_stmt p q)"
  using assms
  by (auto simp: preserves_def run_stmt_def split: prod.splits sql_fault.splits sum.splits)

lemma run_stmt_world_preserves:
  fixes q :: "'x world \<Rightarrow> db \<Rightarrow> sqlx_error + ('a \<times> db)"
  assumes "\<And>w d a d'. P d \<Longrightarrow> q w d = Inr (a, d') \<Longrightarrow> P d'"
  shows "preserves (\<lambda>w. P (wdb w)) (\<lambda>w. run_stmt p (q w) w)"
proof (rule preservesI)
  fix w :: "'x world" assume "P (wdb w)"
  moreover have "preserves (\<lambda>w. P (wdb w)) (run_stmt p (q w))"
    by (rule run_stmt_preserves) (rule assms)
  ultimately show "P (wdb (snd (run_stmt p (q w) w)))" by (simp add: preserves_def)
qed

lemma run_query_keeps_db [pres]: "preserves (\<lambda>w. P (wdb w)) (run_query p q)"
  by (auto simp: preserves_def run_query_def run_stmt_def
           split: prod.splits sql_fault.splits sum.splits)

lemma acquire_keeps_db [pres]: "preserves (\<lambda>w. P (wdb w)) (acquire p)"
  unfolding acquire_def by (rule run_stmt_preserves) simp

lemma in_tx_preserves [pres]:
  assumes "preserves (\<lambda>w. P (wdb w)) body"
  shows "preserves (\<lambda>w. P (wdb w)) (in_tx p f g body)"
proof
  fix w0 :: "'a world" assume P0: "P (wdb w0)"
  obtain r w where acq: "acquire p w0 = (r, w)" by fastforce
  then have Pw: "P (wdb w)" using preserves_outcome [OF acquire_keeps_db] P0 by blast
  obtain r1 w1 where body: "body w = (r1, w1)" by fastforce
  then have Pw1: "P (wdb w1)" using preserves_outcome [OF assms] Pw by blast
  show "P (wdb (snd (in_tx p f g body w0)))"
    using acq body Pw Pw1
    by (auto simp: in_tx_def split: sum.splits tx_end.splits prod.splits sql_fault.splits)
qed

text \<open>
  A transaction either leaves the tables as it found them or as its body left
  them; it reports success only after the body succeeded.
\<close>

lemma in_tx_atomic:
  assumes "in_tx p f g body w0 = (r, w')"
  shows "wdb w' = wdb w0 \<or> (\<exists>w a w1. wdb w = wdb w0 \<and> body w = (Inr (Commit a), w1) \<and> wdb w' = wdb w1)"
proof -
  obtain r0 w where acq: "acquire p w0 = (r0, w)" by fastforce
  have "wdb w = wdb w0"
    using preserves_outcome [OF acquire_keeps_db [where P = "\<lambda>d. d = wdb w0"] _ acq] by simp
  then show ?thesis
    using assms acq
    by (auto simp: in_tx_def split: sum.splits tx_end.splits prod.splits sql_fault.splits)
qed

lemma in_tx_success:
  assumes "in_tx p f g body w0 = (Inr a, w')"
  shows "\<exists>w r w1. wdb w = wdb w0 \<and> body w = (Inr r, w1) \<and>
           ((r = Commit a \<and> wdb w' = wdb w1) \<or> (r = Rollback a \<and> wdb w' = wdb w0))"
proof -
  obtain r0 w where acq: "acquire p w0 = (r0, w)" by fastforce
  have "wdb w = wdb w0"
    using preserves_outcome [OF acquire_keeps_db [where P = "\<lambda>d. d = wdb w0"] _ acq] by simp
  then show ?thesis
    using assms acq
    by (auto simp: in_tx_def split: sum.splits tx_end.splits prod.splits sql_fault.splits)
qed

text \<open>A pool without transport faults, for the liveness statements.\<close>

definition pool_up :: "'x pool \<Rightarrow> bool" where
  "pool_up p \<longleftrightarrow> (\<forall>x. fst (sql_io p x) = NoFault)"

lemma pool_up_run_stmt:
  "pool_up p \<Longrightarrow> run_stmt p q w = (case q (wdb w) of
      Inl e \<Rightarrow> (Inl e, w\<lparr> wext := snd (sql_io p (wext w)) \<rparr>)
    | Inr (a, d) \<Rightarrow> (Inr a, w\<lparr> wdb := d, wext := snd (sql_io p (wext w)) \<rparr>))"
  by (auto simp: pool_up_def run_stmt_def split: prod.splits sql_fault.splits sum.splits)
     (metis fst_conv sql_fault.distinct(1,3))+

lemma run_stmt_success:
  "run_stmt p q w = (Inr a, w') \<Longrightarrow> \<exists>d. q (wdb w) = Inr (a, d) \<and> wdb w' = d"
  by (auto simp: run_stmt_def split: prod.splits sql_fault.splits sum.splits)

lemma run_query_success:
  "run_query p q w = (Inr a, w') \<Longrightarrow> q (wext w) (wdb w) = Inr a \<and> wdb w' = wdb w"
  by (auto simp: run_query_def dest!: run_stmt_success split: sum.splits)

lemma update_one_preserves:
  assumes "\<And>d. Q d \<Longrightarrow> Q (upd (update_where P f) d)"
  shows "preserves (\<lambda>w. Q (wdb w)) (update_one p upd sel P f)"
  unfolding update_one_def
  by (intro pres run_stmt_preserves) (auto simp: update_stmt_def dest: assms)

lemma update_one_success:
  assumes "update_one p upd sel P f w = (Inr u, w')"
  shows "wdb w' = upd (update_where P f) (wdb w) \<and> (\<exists>t \<in> set (sel (wdb w)). P t)"
proof -
  obtain n w1 where r: "run_stmt p (update_stmt upd sel P f) w = (Inr n, w1)"
    and n: "n \<noteq> 0" "w' = w1"
    using assms by (auto simp: update_one_def eff_success)
  then have n': "n = rows_matching P (sel (wdb w))"
    and w1: "wdb w1 = upd (update_where P f) (wdb w)"
    using run_stmt_success [OF r] by (auto simp: update_stmt_def)
  have "find P (sel (wdb w)) \<noteq> None"
    using n n' rows_matching_0 [of P "sel (wdb w)"] by auto
  then show ?thesis using n w1 by (auto dest: find_SomeD)
qed

lemma update_one_run:
  assumes "pool_up p" and "t \<in> set (sel (wdb w))" and "P t"
  shows "update_one p upd sel P f w =
    (Inr (), w\<lparr> wdb := upd (update_where P f) (wdb w), wext := snd (sql_io p (wext w)) \<rparr>)"
proof -
  have "find P (sel (wdb w)) \<noteq> None"
    using assms(2,3) by (auto simp: find_None_iff)
  then have pos: "0 < rows_matching P (sel (wdb w))"
    using rows_matching_0 [of P "sel (wdb w)"] by (metis gr0I)
  show ?thesis
    by (simp add: pos update_one_def bindE_run mapErr_run pool_up_run_stmt [OF assms(1)]
                  update_stmt_def)
qed

lemma row_by_SomeD: "row_by key k rs = Some r \<Longrightarrow> r \<in> set rs \<and> key r = k"
  by (auto simp: row_by_def find_Some_iff)

lemma row_by_unique: "distinct (map key rs) \<Longrightarrow> r \<in> set rs \<Longrightarrow> row_by key (key r) rs = Some r"
  by (auto simp: row_by_def intro: find_unique_key)

lemma row_by_None: "row_by key k rs = None \<longleftrightarrow> k \<notin> key ` set rs"
  by (auto simp: row_by_def find_None_iff)

lemma find_append: "find P (xs @ ys) = (case find P xs of None \<Rightarrow> find P ys | Some x \<Rightarrow> Some x)"
  by (induction xs) auto

lemma row_by_update_where [simp]:
  assumes "\<And>r. key (f r) = key r"
  shows "row_by key j (update_where (\<lambda>r. key r = i) f rs) =
         (if j = i then map_option f (row_by key j rs) else row_by key j rs)"
proof (cases "j = i")
  case True
  then show ?thesis using assms by (simp add: row_by_def find_update_where)
next
  case False
  then show ?thesis using assms by (auto simp: row_by_def intro!: find_update_where_other)
qed

lemma row_by_update_where_map:
  assumes "\<And>r. key (f r) = key r"
  shows "row_by key j (update_where q f rs) = map_option (\<lambda>r. if q r then f r else r) (row_by key j rs)"
  unfolding row_by_def using assms by (intro find_update_where_map) simp

section \<open>Keyed tables\<close>

text \<open>
  A table of the schema as its client sees it: a selector and an updater that
  fit together, and a primary key.  The laws give lookup after update and
  insert, and the stability of the key set; the interpretations below
  discharge them for the tables of \<open>db\<close>.
\<close>

locale keyed_table =
  fixes sel :: "db \<Rightarrow> 'r list"
    and upd :: "('r list \<Rightarrow> 'r list) \<Rightarrow> db \<Rightarrow> db"
    and key :: "'r \<Rightarrow> 'k"
  assumes sel_upd: "sel (upd f d) = f (sel d)"
begin

lemma row_update:
  assumes "\<And>r. key (f r) = key r"
  shows "row_by key j (sel (upd (update_where (\<lambda>r. key r = i) f) d)) =
         (if j = i then map_option f (row_by key j (sel d)) else row_by key j (sel d))"
  using assms by (simp add: sel_upd)

lemma row_insert:
  assumes "key r \<notin> key ` set (sel d)"
  shows "row_by key j (sel (upd (\<lambda>rs. rs @ [r]) d)) =
         (if j = key r then Some r else row_by key j (sel d))"
proof (cases "j = key r")
  case True
  then have "row_by key j (sel d) = None" using assms by (simp add: row_by_None)
  then show ?thesis using True by (simp add: row_by_def sel_upd find_append)
next
  case False
  then show ?thesis by (simp add: row_by_def sel_upd find_append split: option.splits)
qed

lemma keys_update:
  assumes "\<And>r. key (f r) = key r"
  shows "map key (sel (upd (update_where P f) d)) = map key (sel d)"
  using assms by (simp add: sel_upd)

lemma set_update:
  "set (sel (upd (update_where P f) d)) = (\<lambda>r. if P r then f r else r) ` set (sel d)"
  by (simp add: sel_upd set_update_where)

lemma distinct_insert:
  assumes "distinct (map key (sel d))" and "key r \<notin> key ` set (sel d)"
  shows "distinct (map key (sel (upd (\<lambda>rs. rs @ [r]) d)))"
  using assms by (simp add: sel_upd)

end

interpretation tasks_tab: keyed_table operation_tasks operation_tasks_update ot_id
  by unfold_locales simp

interpretation issuers_tab: keyed_table issuers issuers_update "\<lambda>r. iss_id (ir_issuer r)"
  by unfold_locales simp

interpretation offers_tab: keyed_table credential_offers credential_offers_update co_id
  by unfold_locales simp

interpretation tokens_tab: keyed_table oidc_access_tokens oidc_access_tokens_update at_token_hash
  by unfold_locales simp

interpretation nonces_tab: keyed_table oidc_nonces oidc_nonces_update nr_nonce_hash
  by unfold_locales simp

interpretation lists_tab: keyed_table status_lists status_lists_update sl_id
  by unfold_locales simp

interpretation credentials_tab: keyed_table issued_credentials issued_credentials_update ic_id
  by unfold_locales simp

end
