(* ===== verification/Facades.thy ===== *)
theory Facades
  imports Db
begin

text \<open>
  \<open>worker/registry_facades.rs\<close> and the errors of \<open>domain/oauth2/mod.rs\<close>.  The
  SWIYU registries and the token providers are traits of the worker, so they
  are parameters here: records of operations over the outside state.  The
  module's own logic is the single retry after a \<open>401\<close> and the assembly of the
  updated DID log.
\<close>

section \<open>Trait objects\<close>

datatype registry_error =
    HttpStatus nat string
  | RegistryDecode string
  | RegistryOther string

record registry_errors =
  registry_is_retryable :: "registry_error \<Rightarrow> bool"
  registry_show :: "registry_error \<Rightarrow> string"

datatype token_provider_error =
    RefreshRejected string
  | TokenTransport string
  | TokenDecode string
  | MissingCredentials string
  | TokenPersistence persistence_error

datatype token_aware_error =
    RegistryErr registry_error
  | TokenErr token_provider_error

record allocation =
  al_url :: string
  al_identifier :: string

record status_list_entry =
  sle_id :: string
  sle_registry_url :: string

record did =
  did_text :: string
  did_path :: "string option"

datatype did_doc_state = DocValue json | DocPatch json

record did_log_entry =
  dle_version_id :: string
  dle_update_keys :: "string list option"
  dle_deactivated :: "bool option"
  dle_doc :: did_doc_state

record fetched_log =
  fl_raw :: string
  fl_entries :: "did_log_entry list"

record 'x token_provider =
  tp_get :: "('x, token_provider_error, string) eff"
  tp_invalidate :: "('x, token_provider_error, string) eff"

record 'x registry_facade =
  rf_allocate_did :: "string \<Rightarrow> string \<Rightarrow> ('x, registry_error, allocation) eff"
  rf_publish_log_entry :: "string \<Rightarrow> string \<Rightarrow> string \<Rightarrow> string \<Rightarrow> ('x, registry_error, unit) eff"
  rf_fetch_log :: "did \<Rightarrow> ('x, registry_error, fetched_log) eff"

record 'x status_registry_facade =
  sf_create_status_list_entry :: "string \<Rightarrow> string \<Rightarrow> ('x, registry_error, status_list_entry) eff"
  sf_update_status_list_entry ::
    "string \<Rightarrow> string \<Rightarrow> string \<Rightarrow> string \<Rightarrow> ('x, registry_error, unit) eff"

record 'x signing_engine =
  se_generate_keypair :: "key_role \<Rightarrow> ('x, signing_engine_error, generated_key_pair) eff"
  se_get_public_key :: "key_pair_id \<Rightarrow> ('x, signing_engine_error, raw_public_key) eff"
  se_sign :: "key_pair_id \<Rightarrow> byte list \<Rightarrow> ('x, signing_engine_error, signature) eff"

section \<open>Errors\<close>

fun show_persistence_error :: "persistence_error \<Rightarrow> string" where
  "show_persistence_error NotFound = ''not found''"
| "show_persistence_error (UniqueViolation what) = ''unique constraint violated: '' @ what"
| "show_persistence_error (DataIntegrity details) = ''data integrity violation: '' @ details"
| "show_persistence_error (DbError _) = ''database error''"
| "show_persistence_error (Encryption e) = ''encryption error: '' @ show_secret_encryption_error e"

fun show_token_provider_error :: "token_provider_error \<Rightarrow> string" where
  "show_token_provider_error (RefreshRejected m) = ''refresh token rejected: '' @ m"
| "show_token_provider_error (TokenTransport m) = ''token endpoint transport: '' @ m"
| "show_token_provider_error (TokenDecode m) = ''token endpoint decode: '' @ m"
| "show_token_provider_error (MissingCredentials m) = ''tenant missing oauth credentials: '' @ m"
| "show_token_provider_error (TokenPersistence e) = show_persistence_error e"

fun token_error_is_retryable :: "token_provider_error \<Rightarrow> bool" where
  "token_error_is_retryable (TokenTransport _) = True"
| "token_error_is_retryable (TokenPersistence _) = True"
| "token_error_is_retryable _ = False"

fun token_aware_is_retryable :: "registry_errors \<Rightarrow> token_aware_error \<Rightarrow> bool" where
  "token_aware_is_retryable re (RegistryErr e) = registry_is_retryable re e"
| "token_aware_is_retryable re (TokenErr e) = token_error_is_retryable e"

section \<open>One retry after a 401\<close>

definition retry_on_401 ::
  "'x token_provider \<Rightarrow> (string \<Rightarrow> ('x, registry_error, 'a) eff) \<Rightarrow> ('x, token_aware_error, 'a) eff" where
  "retry_on_401 provider call =
     bindE (mapErr TokenErr (tp_get provider)) (\<lambda>token.
     bindE (reify (call token)) (\<lambda>res. case res of
        Inr value \<Rightarrow> ret value
      | Inl (HttpStatus status body) \<Rightarrow>
          if status = 401
          then bindE (mapErr TokenErr (tp_invalidate provider)) (\<lambda>token'.
                 mapErr RegistryErr (call token'))
          else raise (RegistryErr (HttpStatus status body))
      | Inl other \<Rightarrow> raise (RegistryErr other)))"

definition allocate_did_with_refresh ::
  "'x token_provider \<Rightarrow> 'x registry_facade \<Rightarrow> string \<Rightarrow> ('x, token_aware_error, allocation) eff" where
  "allocate_did_with_refresh provider registry partner_id =
     retry_on_401 provider (\<lambda>token. rf_allocate_did registry token partner_id)"

definition publish_log_entry_with_refresh ::
  "'x token_provider \<Rightarrow> 'x registry_facade \<Rightarrow> string \<Rightarrow> string \<Rightarrow> string \<Rightarrow>
   ('x, token_aware_error, unit) eff" where
  "publish_log_entry_with_refresh provider registry partner_id identifier entry =
     retry_on_401 provider (\<lambda>token. rf_publish_log_entry registry token partner_id identifier entry)"

definition create_status_list_entry_with_refresh ::
  "'x token_provider \<Rightarrow> 'x status_registry_facade \<Rightarrow> string \<Rightarrow>
   ('x, token_aware_error, status_list_entry) eff" where
  "create_status_list_entry_with_refresh provider status_registry partner_id =
     retry_on_401 provider (\<lambda>token. sf_create_status_list_entry status_registry token partner_id)"

definition update_status_list_entry_with_refresh ::
  "'x token_provider \<Rightarrow> 'x status_registry_facade \<Rightarrow> string \<Rightarrow> string \<Rightarrow> string \<Rightarrow>
   ('x, token_aware_error, unit) eff" where
  "update_status_list_entry_with_refresh provider status_registry partner_id entry_id jwt =
     retry_on_401 provider
       (\<lambda>token. sf_update_status_list_entry status_registry token partner_id entry_id jwt)"

section \<open>The updated DID log\<close>

definition newline :: char where "newline = CHR 0x0A"

definition trim_end_matches :: "char \<Rightarrow> string \<Rightarrow> string" where
  "trim_end_matches c s = rev (dropWhile (\<lambda>ch. ch = c) (rev s))"

definition build_updated_didlog :: "string \<Rightarrow> string \<Rightarrow> string" where
  "build_updated_didlog prev_raw new_line =
     (let out = trim_end_matches newline prev_raw
      in (if out \<noteq> [] then out @ [newline] else out) @ new_line)"

text \<open>\<open>str::split\<close> on a character.\<close>

fun split_on :: "char \<Rightarrow> string \<Rightarrow> string list" where
  "split_on d [] = [[]]"
| "split_on d (ch # cs) =
     (if ch = d then [] # split_on d cs
      else case split_on d cs of [] \<Rightarrow> [[ch]] | l # ls \<Rightarrow> (ch # l) # ls)"

section \<open>Properties\<close>

lemma split_on_nonempty [simp]: "split_on d s \<noteq> []"
  by (cases s) (auto split: list.splits)

lemma split_on_append_delim: "split_on d (s @ d # t) = split_on d s @ split_on d t"
proof (induction s)
  case (Cons ch s)
  then show ?case by (cases "split_on d s") auto
qed simp

lemma split_on_no_delim: "d \<notin> set s \<Longrightarrow> split_on d s = [s]"
  by (induction s) auto

lemma trim_end_decomp: "\<exists>n. s = trim_end_matches c s @ replicate n c"
proof -
  let ?P = "\<lambda>ch. ch = c"
  have "rev s = takeWhile ?P (rev s) @ dropWhile ?P (rev s)" by simp
  then have "s = rev (dropWhile ?P (rev s)) @ rev (takeWhile ?P (rev s))"
    by (metis rev_append rev_rev_ident)
  moreover have "takeWhile ?P (rev s) = replicate (length (takeWhile ?P (rev s))) c"
    by (metis (mono_tags, lifting) replicate_length_same set_takeWhileD)
  then have "rev (takeWhile ?P (rev s)) = replicate (length (takeWhile ?P (rev s))) c"
    by (metis rev_replicate)
  ultimately show ?thesis unfolding trim_end_matches_def by metis
qed

lemma retry_on_401_calls:
  fixes calls :: "'x \<Rightarrow> nat"
  assumes get: "\<And>x. calls (snd (tp_get provider x)) = calls x"
    and inv: "\<And>x. calls (snd (tp_invalidate provider x)) = calls x"
    and call: "\<And>t x. calls (snd (call t x)) = Suc (calls x)"
  shows "calls (snd (retry_on_401 provider call x)) \<le> calls x + 2"
proof -
  have get': "tp_get provider x = (r, y) \<Longrightarrow> calls y = calls x" for r x y
    using get [of x] by simp
  have inv': "tp_invalidate provider x = (r, y) \<Longrightarrow> calls y = calls x" for r x y
    using inv [of x] by simp
  have call': "call t x = (r, y) \<Longrightarrow> calls y = Suc (calls x)" for t r x y
    using call [of t x] by simp
  show ?thesis
    by (auto simp: retry_on_401_def bindE_def mapErr_def reify_def
             dest!: get' inv' call' split: prod.splits sum.splits registry_error.splits)
qed

lemma retry_on_401_success:
  assumes "retry_on_401 provider call x = (Inr a, x')"
  shows "\<exists>t y. call t y = (Inr a, x')"
proof -
  obtain t y res z where c: "call t y = (res, z)"
    and r: "(case res of Inr value \<Rightarrow> ret value
      | Inl (HttpStatus status body) \<Rightarrow>
          if status = 401
          then bindE (mapErr TokenErr (tp_invalidate provider)) (\<lambda>token'. mapErr RegistryErr (call token'))
          else raise (RegistryErr (HttpStatus status body))
      | Inl other \<Rightarrow> raise (RegistryErr other)) z = (Inr a, x')"
    using assms by (auto simp: retry_on_401_def eff_success)
  show ?thesis
  proof (cases res)
    case (Inl e)
    then show ?thesis using r by (cases e) (auto simp: eff_success split: if_splits)
  next
    case (Inr v)
    then show ?thesis using r c by auto
  qed
qed

end
