(* ===== verification/Didlog.thy ===== *)
theory Didlog
  imports Facades
begin

text \<open>
  DID-log construction: \<open>worker/didlog_common.rs\<close>, the genesis builder
  \<open>worker/create_issuer/didlog_builder.rs\<close> and the two chained builders of
  \<open>worker/deactivate_issuer\<close> and \<open>worker/rotate_keys\<close>.  The entry templates,
  hashes and proof formats are \<open>swiyu-core\<close>'s and come in as \<open>did_lib\<close>; the
  order of checks, engine calls and edits is the builders' own.
\<close>

section \<open>The DID library\<close>

record proof_config =
  pc_verification_method :: string
  pc_challenge :: string
  pc_created :: string

type_synonym p256_public_key = "byte list \<times> byte list"

record did_lib =
  dl_from_str :: "string \<Rightarrow> string + did"
  dl_try_new_tdw :: "string \<Rightarrow> string option \<Rightarrow> string + string"
  dl_multikey :: "byte list \<Rightarrow> string"
  dl_new_genesis :: "string \<Rightarrow> string \<Rightarrow> p256_public_key \<Rightarrow> p256_public_key \<Rightarrow> string \<Rightarrow> json"
  dl_new_deactivation :: "string \<Rightarrow> json \<Rightarrow> string \<Rightarrow> json"
  dl_new_rotation ::
    "string \<Rightarrow> string \<Rightarrow> string \<Rightarrow> p256_public_key \<Rightarrow> p256_public_key \<Rightarrow> string \<Rightarrow> json"
  dl_diddoc_try_from :: "json \<Rightarrow> string + json"
  dl_strip_proof_slot :: "json \<Rightarrow> json"
  dl_derive_scid :: "json \<Rightarrow> string"
  dl_derive_entry_hash :: "json \<Rightarrow> string"
  dl_set_version_id :: "json \<Rightarrow> string \<Rightarrow> json"
  dl_signing_input :: "proof_config \<Rightarrow> json \<Rightarrow> byte list"
  dl_proof_from_signature :: "proof_config \<Rightarrow> byte list \<Rightarrow> json"
  dl_append_proof :: "json \<Rightarrow> json \<Rightarrow> json"
  dl_rfc3339 :: "datetime \<Rightarrow> string"
  dl_json_to_string :: "json \<Rightarrow> string"
  dl_json_from_string :: "string \<Rightarrow> json option"

section \<open>Standard-library string operations\<close>

function replace_all :: "string \<Rightarrow> string \<Rightarrow> string \<Rightarrow> string" where
  "replace_all pat rep [] = []"
| "replace_all pat rep (ch # cs) =
     (if pat = [] then ch # cs
      else case strip_prefix pat (ch # cs) of
        Some rest \<Rightarrow> rep @ replace_all pat rep rest
      | None \<Rightarrow> ch # replace_all pat rep cs)"
  by pat_completeness auto
termination
  by (relation "measure (\<lambda>(p, r, s). length s)") (auto simp: strip_prefix_Some Cons_eq_append_conv)

definition split_first :: "char \<Rightarrow> string \<Rightarrow> (string \<times> string) option" where
  "split_first ch s = (if ch \<in> set s
     then Some (takeWhile (\<lambda>x. x \<noteq> ch) s, tl (dropWhile (\<lambda>x. x \<noteq> ch) s)) else None)"

fun join :: "string \<Rightarrow> string list \<Rightarrow> string" where
  "join sep [] = []"
| "join sep [x] = x"
| "join sep (x # y # ys) = x @ sep @ join sep (y # ys)"

text \<open>\<open>value[i]\<close> and \<open>value["k"]\<close> on \<open>serde_json::Value\<close>: \<open>Null\<close> when absent.\<close>

definition jindex :: "nat \<Rightarrow> json \<Rightarrow> json" where
  "jindex i v = (case v of JArr xs \<Rightarrow> if i < length xs then xs ! i else JNull | _ \<Rightarrow> JNull)"

definition jmember :: "string \<Rightarrow> json \<Rightarrow> json" where
  "jmember k v = (case jget k v of Some x \<Rightarrow> x | None \<Rightarrow> JNull)"

section \<open>Key checks\<close>

fun algorithm_debug :: "key_algorithm \<Rightarrow> string" where
  "algorithm_debug Ed25519 = ''Ed25519''"
| "algorithm_debug EcdsaP256 = ''EcdsaP256''"

record invalid_public_key =
  ipk_role :: string
  ipk_message :: string

definition ed25519_bytes :: "string \<Rightarrow> raw_public_key \<Rightarrow> invalid_public_key + byte list" where
  "ed25519_bytes role pk =
     (if rpk_algorithm pk \<noteq> Ed25519 \<or> length (rpk_bytes pk) \<noteq> 32
      then Inl \<lparr> ipk_role = role, ipk_message = ''expected 32-byte Ed25519, got ''
             @ show_nat (length (rpk_bytes pk)) @ '' bytes ('' @ algorithm_debug (rpk_algorithm pk) @ '')'' \<rparr>
      else Inr (rpk_bytes pk))"

definition sec1_to_p256 :: "string \<Rightarrow> raw_public_key \<Rightarrow> invalid_public_key + p256_public_key" where
  "sec1_to_p256 role pk =
     (if rpk_algorithm pk \<noteq> EcdsaP256
      then Inl \<lparr> ipk_role = role,
             ipk_message = ''expected ECDSA P-256, got '' @ algorithm_debug (rpk_algorithm pk) \<rparr>
      else if length (rpk_bytes pk) \<noteq> 65 \<or> rpk_bytes pk ! 0 \<noteq> 4
      then Inl \<lparr> ipk_role = role,
             ipk_message = ''expected 65-byte SEC1 uncompressed (0x04 prefix), got ''
             @ show_nat (length (rpk_bytes pk)) @ '' bytes'' \<rparr>
      else Inr (take 32 (drop 1 (rpk_bytes pk)), take 32 (drop 33 (rpk_bytes pk))))"

definition sign_and_append_proof ::
  "did_lib \<Rightarrow> 'x signing_engine \<Rightarrow> json \<Rightarrow> key_pair_id \<Rightarrow> string \<Rightarrow> string \<Rightarrow> string \<Rightarrow>
   ('x world, signing_engine_error, json) eff" where
  "sign_and_append_proof dl engine entry_value signing_key_id signing_multikey version_id now_iso =
     (let document_for_hash = jmember ''value'' (jindex 3 entry_value);
          vm_id = ''did:key:'' @ signing_multikey @ ''#'' @ signing_multikey;
          cfg = \<lparr> pc_verification_method = vm_id, pc_challenge = version_id, pc_created = now_iso \<rparr>;
          hash_data = dl_signing_input dl cfg document_for_hash
      in bindE (ext (se_sign engine signing_key_id hash_data)) (\<lambda>signature.
         ret (dl_append_proof dl entry_value (dl_proof_from_signature dl cfg (sig_bytes signature)))))"

section \<open>Genesis entry\<close>

record key_triple =
  kt_authorized :: key_pair_id
  kt_authentication :: key_pair_id
  kt_assertion :: key_pair_id

record create_issuer_state_data =
  cs_assigned_did_url :: "string option"
  cs_assigned_identifier :: "string option"
  cs_key_ids :: "key_triple option"
  cs_didlog_published :: bool
  cs_status_list_registry_entry_id :: "string option"
  cs_status_list_registry_url :: "string option"

datatype build_error =
    MissingState string
  | InvalidUrl string
  | BuildInvalidPublicKey string string
  | BuildEngine signing_engine_error
  | BuildPanic string

fun show_build_error :: "build_error \<Rightarrow> string" where
  "show_build_error (MissingState f) = ''state_data missing required field: '' @ f"
| "show_build_error (InvalidUrl m) = ''invalid allocation URL: '' @ m"
| "show_build_error (BuildInvalidPublicKey r m) = ''invalid public key for '' @ r @ '': '' @ m"
| "show_build_error (BuildEngine e) = show_signing_engine_error e"
| "show_build_error (BuildPanic m) = m"

fun build_error_code :: "string \<Rightarrow> build_error \<Rightarrow> string" where
  "build_error_code engine_failure_code (MissingState _) = ''missing_state''"
| "build_error_code engine_failure_code (InvalidUrl _) = ''invalid_allocation_url''"
| "build_error_code engine_failure_code (BuildInvalidPublicKey _ _) = ''invalid_public_key''"
| "build_error_code engine_failure_code (BuildEngine _) = engine_failure_code"
| "build_error_code engine_failure_code (BuildPanic _) = engine_failure_code"

definition key_error :: "invalid_public_key \<Rightarrow> build_error" where
  "key_error e = BuildInvalidPublicKey (ipk_role e) (ipk_message e)"

definition parse_url :: "string \<Rightarrow> build_error + (string \<times> string option)" where
  "parse_url url = (case strip_prefix ''https://'' url of
     None \<Rightarrow> Inl (InvalidUrl (''URL must use https://: '' @ url))
   | Some rest \<Rightarrow>
       (let (host, path_str) = (case split_first (CHR ''/'') rest of Some hp \<Rightarrow> hp | None \<Rightarrow> (rest, []))
        in if host = [] then Inl (InvalidUrl (''URL missing host: '' @ url))
           else let did_host = (case split_first (CHR '':'') host of
                       Some (h, port) \<Rightarrow> h @ ''%3A'' @ port | None \<Rightarrow> host);
                    segments0 = filter (\<lambda>s. s \<noteq> []) (split_on (CHR ''/'') path_str);
                    segments = (if segments0 \<noteq> [] \<and> last segments0 = ''did.jsonl''
                                then butlast segments0 else segments0);
                    did_path = (if segments = [] \<or> segments = [''.well-known''] then None
                                else Some (join '':'' segments))
                in Inr (did_host, did_path)))"

definition get_ed25519_multikey ::
  "did_lib \<Rightarrow> 'x signing_engine \<Rightarrow> (signing_engine_error \<Rightarrow> 'e) \<Rightarrow> (invalid_public_key \<Rightarrow> 'e) \<Rightarrow>
   string \<Rightarrow> key_pair_id \<Rightarrow> ('x world, 'e, string) eff" where
  "get_ed25519_multikey dl engine eng_err key_err role key =
     bindE (mapErr eng_err (ext (se_get_public_key engine key))) (\<lambda>pk.
     bindE (liftR (mapErrR key_err (ed25519_bytes role pk))) (\<lambda>bytes.
     ret (dl_multikey dl bytes)))"

definition get_p256 ::
  "'x signing_engine \<Rightarrow> (signing_engine_error \<Rightarrow> 'e) \<Rightarrow> (invalid_public_key \<Rightarrow> 'e) \<Rightarrow>
   string \<Rightarrow> key_pair_id \<Rightarrow> ('x world, 'e, p256_public_key) eff" where
  "get_p256 engine eng_err key_err role key =
     bindE (mapErr eng_err (ext (se_get_public_key engine key))) (\<lambda>pk.
     liftR (mapErrR key_err (sec1_to_p256 role pk)))"

definition build_log_entry ::
  "did_lib \<Rightarrow> create_issuer_state_data \<Rightarrow> 'x signing_engine \<Rightarrow> datetime \<Rightarrow>
   ('x world, build_error, json) eff" where
  "build_log_entry dl state engine now =
     bindE (okOr (MissingState ''assigned_did_url'') (cs_assigned_did_url state)) (\<lambda>url.
     bindE (okOr (MissingState ''key_ids'') (cs_key_ids state)) (\<lambda>key_ids.
     bindE (liftR (parse_url url)) (\<lambda>(domain, path).
     bindE (get_ed25519_multikey dl engine BuildEngine key_error ''authorized'' (kt_authorized key_ids))
       (\<lambda>authorized_multikey.
     bindE (get_p256 engine BuildEngine key_error ''authentication'' (kt_authentication key_ids))
       (\<lambda>authentication_key.
     bindE (get_p256 engine BuildEngine key_error ''assertion'' (kt_assertion key_ids))
       (\<lambda>assertion_key.
     bindE (liftR (mapErrR (\<lambda>e. InvalidUrl (''DID construction failed: '' @ e))
              (dl_try_new_tdw dl domain path))) (\<lambda>did_placeholder.
     let now_iso = dl_rfc3339 dl now;
         entry_template = dl_new_genesis dl authorized_multikey did_placeholder
                            authentication_key assertion_key now_iso;
         prelim = dl_strip_proof_slot dl entry_template;
         scid = dl_derive_scid dl prelim;
         with_scid_str = replace_all ''{SCID}'' scid (dl_json_to_string dl prelim)
     in bindE (okOr (BuildPanic ''substitution preserves JSON validity'')
                (dl_json_from_string dl with_scid_str)) (\<lambda>entry_value.
     let entry_hash = dl_derive_entry_hash dl entry_value;
         version_id = ''1-'' @ entry_hash;
         entry_value' = dl_set_version_id dl entry_value version_id
     in mapErr BuildEngine (sign_and_append_proof dl engine entry_value' (kt_authorized key_ids)
          authorized_multikey version_id now_iso)))))))))"

section \<open>Chained entries\<close>

datatype chained_build_error =
    IssuerNotActive string
  | MissingIssuerField string
  | EmptyLog
  | PreviousStateIsPatch
  | InvalidPredecessorDoc string
  | ChainedInvalidPublicKey string string
  | ChainedEngine signing_engine_error

definition apos :: string where "apos = [CHR 39]"
definition em_dash :: string where "em_dash = [CHR 0xE2, CHR 0x80, CHR 0x94]"

fun show_chained_error :: "chained_build_error \<Rightarrow> string" where
  "show_chained_error (IssuerNotActive s) = ''issuer is not in state Active: '' @ s"
| "show_chained_error (MissingIssuerField f) = ''issuer is missing required field: '' @ f"
| "show_chained_error EmptyLog = 
     ''registry returned an empty DID log '' @ em_dash @ '' nothing to chain onto''"
| "show_chained_error PreviousStateIsPatch =
     ''registry'' @ apos @ ''s tail entry uses a Patch state '' @ em_dash
     @ '' chained operations require a full DID document''"
| "show_chained_error (InvalidPredecessorDoc m) =
     ''registry'' @ apos @ ''s tail DID document is malformed: '' @ m"
| "show_chained_error (ChainedInvalidPublicKey r m) = ''invalid public key for '' @ r @ '': '' @ m"
| "show_chained_error (ChainedEngine e) = show_signing_engine_error e"

fun chained_error_code :: "string \<Rightarrow> chained_build_error \<Rightarrow> string" where
  "chained_error_code engine_failure_code (IssuerNotActive _) = ''issuer_not_active''"
| "chained_error_code engine_failure_code (MissingIssuerField _) = ''missing_issuer_field''"
| "chained_error_code engine_failure_code EmptyLog = ''registry_empty_log''"
| "chained_error_code engine_failure_code PreviousStateIsPatch = ''predecessor_state_is_patch''"
| "chained_error_code engine_failure_code (InvalidPredecessorDoc _) = ''invalid_predecessor_doc''"
| "chained_error_code engine_failure_code (ChainedInvalidPublicKey _ _) = ''invalid_public_key''"
| "chained_error_code engine_failure_code (ChainedEngine _) = engine_failure_code"

text \<open>Both saga builders add one \<open>Already\<close> variant to the shared errors.\<close>

datatype saga_build_error = Chained chained_build_error | AlreadyDone

definition chained_key_error :: "invalid_public_key \<Rightarrow> saga_build_error" where
  "chained_key_error e = Chained (ChainedInvalidPublicKey (ipk_role e) (ipk_message e))"

fun issuer_state_debug :: "issuer_state option \<Rightarrow> string" where
  "issuer_state_debug None = ''None''"
| "issuer_state_debug (Some IssuerActive) = ''Some(Active)''"
| "issuer_state_debug (Some Deactivated) = ''Some(Deactivated)''"

definition chain_prelude ::
  "did_lib \<Rightarrow> issuer \<Rightarrow> did_log_entry list \<Rightarrow> (did_log_entry \<Rightarrow> bool) \<Rightarrow>
   saga_build_error + (key_pair_id \<times> did_log_entry \<times> json)" where
  "chain_prelude dl issuer log already =
     (if iss_state issuer \<noteq> Some IssuerActive
      then Inl (Chained (IssuerNotActive (issuer_state_debug (iss_state issuer))))
      else bindR (result_of_option (Chained (MissingIssuerField ''authorized_key_id''))
                    (iss_authorized_key_id issuer)) (\<lambda>key.
           if log = [] then Inl (Chained EmptyLog)
           else if already (last log) then Inl AlreadyDone
           else case dle_doc (last log) of
             DocPatch _ \<Rightarrow> Inl (Chained PreviousStateIsPatch)
           | DocValue v \<Rightarrow>
               bindR (mapErrR (\<lambda>e. Chained (InvalidPredecessorDoc e)) (dl_diddoc_try_from dl v))
                 (\<lambda>doc. Inr (key, last log, doc))))"

definition seal_entry :: "did_lib \<Rightarrow> did_log_entry list \<Rightarrow> json \<Rightarrow> string \<times> json" where
  "seal_entry dl log entry_template =
     (let entry_value = dl_strip_proof_slot dl entry_template;
          next_seq = (of_nat (length log) :: u32) + 1;
          entry_hash = dl_derive_entry_hash dl entry_value;
          new_version_id = show_nat (unat next_seq) @ ''-'' @ entry_hash
      in (new_version_id, dl_set_version_id dl entry_value new_version_id))"

definition build_deactivation_entry ::
  "did_lib \<Rightarrow> issuer \<Rightarrow> did_log_entry list \<Rightarrow> 'x signing_engine \<Rightarrow> datetime \<Rightarrow>
   ('x world, saga_build_error, json) eff" where
  "build_deactivation_entry dl issuer log engine now =
     bindE (liftR (chain_prelude dl issuer log (\<lambda>e. dle_deactivated e = Some True)))
       (\<lambda>(authorized_key_id, prev, prev_doc).
     let now_iso = dl_rfc3339 dl now;
         entry_template = dl_new_deactivation dl (dle_version_id prev) prev_doc now_iso;
         (new_version_id, entry_value) = seal_entry dl log entry_template
     in bindE (get_ed25519_multikey dl engine (\<lambda>e. Chained (ChainedEngine e)) chained_key_error
                 ''authorized'' authorized_key_id) (\<lambda>authorized_multikey.
        mapErr (\<lambda>e. Chained (ChainedEngine e))
          (sign_and_append_proof dl engine entry_value authorized_key_id authorized_multikey
             new_version_id now_iso)))"

definition build_rotation_entry ::
  "did_lib \<Rightarrow> issuer \<Rightarrow> key_triple \<Rightarrow> did_log_entry list \<Rightarrow> 'x signing_engine \<Rightarrow> datetime \<Rightarrow>
   ('x world, saga_build_error, json) eff" where
  "build_rotation_entry dl issuer new_triple log engine now =
     (let eng = (\<lambda>e. Chained (ChainedEngine e)) in
     bindE (liftR (chain_prelude dl issuer log (\<lambda>_. False)))
       (\<lambda>(outgoing_authorized_id, prev, prev_doc).
     bindE (get_ed25519_multikey dl engine eng chained_key_error ''authorized''
              (kt_authorized new_triple)) (\<lambda>new_authorized_multikey.
     bindE (get_p256 engine eng chained_key_error ''authentication'' (kt_authentication new_triple))
       (\<lambda>new_authentication_p256.
     bindE (get_p256 engine eng chained_key_error ''assertion'' (kt_assertion new_triple))
       (\<lambda>new_assertion_p256.
     let already_rotated = (case dle_update_keys prev of
            Some (k # _) \<Rightarrow> k = new_authorized_multikey | _ \<Rightarrow> False)
     in if already_rotated then raise AlreadyDone
        else let now_iso = dl_rfc3339 dl now;
                 entry_template = dl_new_rotation dl (dle_version_id prev) (iss_did issuer)
                    new_authorized_multikey new_authentication_p256 new_assertion_p256 now_iso;
                 (new_version_id, entry_value) = seal_entry dl log entry_template
             in bindE (get_ed25519_multikey dl engine eng chained_key_error ''outgoing-authorized''
                         outgoing_authorized_id) (\<lambda>outgoing_multikey.
                mapErr eng (sign_and_append_proof dl engine entry_value outgoing_authorized_id
                   outgoing_multikey new_version_id now_iso)))))))"

section \<open>Registry identifier\<close>

definition registry_identifier :: "did \<Rightarrow> string option" where
  "registry_identifier d = (case did_path d of None \<Rightarrow> None
     | Some path \<Rightarrow> (let seg = last (split_on (CHR '':'') path) in if seg = [] then None else Some seg))"

end
