(* ===== verification/TaskStore.thy ===== *)
theory TaskStore
  imports Db
begin

text \<open>
  \<open>persistence/operation_tasks.rs\<close>: the queue table of the worker.  Each
  function is one or two SQL statements; a column value that the row type
  rejects (a negative \<open>attempts\<close>) is a decode error of the query.
\<close>

section \<open>Statements\<close>

definition decode_task :: "operation_task \<Rightarrow> sqlx_error + operation_task" where
  "decode_task t = (if sint (ot_attempts t) < 0 then Inl (SqlDecode ''attempts'') else Inr t)"

definition decode_opt_task ::
  "operation_task option \<Rightarrow> sqlx_error + operation_task option" where
  "decode_opt_task x = (case x of None \<Rightarrow> Inr None
     | Some t \<Rightarrow> (case decode_task t of Inl e \<Rightarrow> Inl e | Inr t' \<Rightarrow> Inr (Some t')))"

abbreviation update_tasks_one ::
  "'x pool \<Rightarrow> (operation_task \<Rightarrow> bool) \<Rightarrow> (operation_task \<Rightarrow> operation_task) \<Rightarrow>
   ('x world, persistence_error, unit) eff" where
  "update_tasks_one p P f \<equiv> update_one p operation_tasks_update operation_tasks P f"

definition insert_task ::
  "'x pool \<Rightarrow> operation_task \<Rightarrow> ('x world, persistence_error, unit) eff" where
  "insert_task p t = mapErr map_database_error (run_stmt p (\<lambda>d.
     if ot_id t \<in> set (map ot_id (operation_tasks d)) then Inl (SqlUnique ''operation_tasks_pkey'')
     else if ot_tenant_id t \<notin> set (map tn_id (tenants d))
     then Inl (SqlConstraint ''operation_tasks_tenant_id_fkey'')
     else Inr ((), d\<lparr> operation_tasks := operation_tasks d @ [t] \<rparr>)))"

definition find_task_by_id ::
  "'x pool \<Rightarrow> tenant_id \<Rightarrow> task_id \<Rightarrow> ('x world, persistence_error, operation_task) eff" where
  "find_task_by_id p tenant task =
     bindE (mapErr DbError (run_query p (\<lambda>_ d. decode_opt_task
              (find (\<lambda>t. ot_id t = task \<and> ot_tenant_id t = tenant) (operation_tasks d)))))
       (okOr NotFound)"

definition find_latest_by_type_and_issuer ::
  "'x pool \<Rightarrow> tenant_id \<Rightarrow> issuer_id \<Rightarrow> task_type \<Rightarrow>
   ('x world, persistence_error, operation_task option) eff" where
  "find_latest_by_type_and_issuer p tenant issuer ty =
     mapErr DbError (run_query p (\<lambda>_ d. decode_opt_task
       (min_row (\<lambda>a b. ot_created_at a \<ge> ot_created_at b)
          (filter (\<lambda>t. ot_tenant_id t = tenant \<and> ot_result_issuer_id t = Some issuer \<and>
                       ot_task_type t = ty) (operation_tasks d)))))"

definition task_runnable :: "datetime \<Rightarrow> operation_task \<Rightarrow> bool" where
  "task_runnable now t \<longleftrightarrow> (ot_state t = TaskPending \<or> ot_state t = InProgress) \<and>
     (case ot_next_attempt_at t of None \<Rightarrow> True | Some at \<Rightarrow> at \<le> now)"

definition task_before :: "operation_task \<Rightarrow> operation_task \<Rightarrow> bool" where
  "task_before a b = (case (ot_next_attempt_at a, ot_next_attempt_at b) of
     (None, None) \<Rightarrow> ot_created_at a \<le> ot_created_at b
   | (None, Some _) \<Rightarrow> True
   | (Some _, None) \<Rightarrow> False
   | (Some x, Some y) \<Rightarrow> x < y \<or> (x = y \<and> ot_created_at a \<le> ot_created_at b))"

definition find_next_acquirable_for_update ::
  "'x pool \<Rightarrow> datetime \<Rightarrow> ('x world, persistence_error, operation_task option) eff" where
  "find_next_acquirable_for_update p now =
     mapErr DbError (run_query p (\<lambda>x d. decode_opt_task
       (min_row task_before
          (filter (\<lambda>t. task_runnable now t \<and> \<not> row_locked p x (task_bare (ot_id t)))
                  (operation_tasks d)))))"

definition set_acquired ::
  "'x pool \<Rightarrow> operation_task \<Rightarrow> ('x world, persistence_error, unit) eff" where
  "set_acquired p t = update_tasks_one p (\<lambda>r. ot_id r = ot_id t)
     (\<lambda>r. r\<lparr> ot_state := ot_state t, ot_attempts := ot_attempts t,
             ot_updated_at := ot_updated_at t \<rparr>)"

definition advance_step ::
  "'x pool \<Rightarrow> task_id \<Rightarrow> string option \<Rightarrow> json_map \<Rightarrow> datetime \<Rightarrow>
   ('x world, persistence_error, unit) eff" where
  "advance_step p task next_step patch now =
     bindE (mapErr DbError (run_query p (\<lambda>_ d. Inr
              (map_option ot_state_data (find (\<lambda>t. ot_id t = task) (operation_tasks d))))))
     (\<lambda>current. bindE (case current of
          Some (JObj m) \<Rightarrow> ret m
        | Some _ \<Rightarrow> ret []
        | None \<Rightarrow> raise NotFound)
     (\<lambda>base. let merged_value = JObj (merge_patch patch base) in
        update_tasks_one p (\<lambda>r. ot_id r = task)
          (\<lambda>r. r\<lparr> ot_step := next_step, ot_attempts := 0, ot_next_attempt_at := None,
                  ot_error_code := None, ot_error_message := None,
                  ot_state_data := merged_value, ot_updated_at := now \<rparr>)))"

definition schedule_retry ::
  "'x pool \<Rightarrow> task_id \<Rightarrow> datetime \<Rightarrow> string \<Rightarrow> string \<Rightarrow> datetime \<Rightarrow>
   ('x world, persistence_error, unit) eff" where
  "schedule_retry p task next_attempt_at error_code error_message now =
     update_tasks_one p (\<lambda>r. ot_id r = task)
       (\<lambda>r. r\<lparr> ot_next_attempt_at := Some next_attempt_at, ot_error_code := Some error_code,
               ot_error_message := Some error_message, ot_updated_at := now \<rparr>)"

definition set_terminal_state ::
  "'x pool \<Rightarrow> operation_task \<Rightarrow> ('x world, persistence_error, unit) eff" where
  "set_terminal_state p t = update_tasks_one p (\<lambda>r. ot_id r = ot_id t)
     (\<lambda>r. r\<lparr> ot_state := ot_state t, ot_next_attempt_at := ot_next_attempt_at t,
             ot_error_code := ot_error_code t, ot_error_message := ot_error_message t,
             ot_result_issuer_id := ot_result_issuer_id t, ot_updated_at := ot_updated_at t,
             ot_completed_at := ot_completed_at t \<rparr>)"

section \<open>Dispatch order\<close>

lemma task_before_total: "task_before a b \<or> task_before b a"
  by (auto simp: task_before_def split: option.splits)

lemma task_before_transp: "transp task_before"
  by (rule transpI) (auto simp: task_before_def split: option.splits)

lemma decode_opt_task_Inr:
  "decode_opt_task x = Inr y \<longleftrightarrow> x = y \<and> (\<forall>t. y = Some t \<longrightarrow> 0 \<le> sint (ot_attempts t))"
  by (auto simp: decode_opt_task_def decode_task_def split: option.splits)

lemma find_next_picks:
  assumes "find_next_acquirable_for_update p now w = (Inr x, w')"
  shows "wdb w' = wdb w \<and> min_row task_before
     (filter (\<lambda>t. task_runnable now t \<and> \<not> row_locked p (wext w) (task_bare (ot_id t)))
        (operation_tasks (wdb w))) = x"
  using assms
  by (auto simp: find_next_acquirable_for_update_def mapErr_eq_Inr decode_opt_task_Inr
           dest!: run_query_success)

lemma find_next_success:
  assumes "find_next_acquirable_for_update p now w = (Inr (Some t), w')"
  shows "wdb w' = wdb w \<and> t \<in> set (operation_tasks (wdb w)) \<and> task_runnable now t"
  using find_next_picks [OF assms] min_row_in_set by fastforce

text \<open>The claimed task is first in dispatch order among the runnable unlocked rows.\<close>

lemma find_next_first:
  assumes "find_next_acquirable_for_update p now w = (Inr (Some t), w')"
    and "u \<in> set (operation_tasks (wdb w))" and "task_runnable now u"
    and "\<not> row_locked p (wext w) (task_bare (ot_id u))"
  shows "task_before t u"
proof (rule min_row_least [OF task_before_transp])
  show "\<forall>a b. task_before a b \<or> task_before b a" using task_before_total by blast
  show "min_row task_before
     (filter (\<lambda>t. task_runnable now t \<and> \<not> row_locked p (wext w) (task_bare (ot_id t)))
        (operation_tasks (wdb w))) = Some t"
    using find_next_picks [OF assms(1)] by blast
qed (use assms in simp)

section \<open>The table invariant\<close>

definition tasks_inv :: "db \<Rightarrow> bool" where
  "tasks_inv d \<longleftrightarrow> distinct (map ot_id (operation_tasks d)) \<and>
     (\<forall>t \<in> set (operation_tasks d). task_wf t)"

abbreviation task_row :: "task_id \<Rightarrow> db \<Rightarrow> operation_task option" where
  "task_row i d \<equiv> row_by ot_id i (operation_tasks d)"

lemma tasks_inv_update:
  assumes "tasks_inv d" and "\<And>r. ot_id (f r) = ot_id r"
    and "\<And>r. r \<in> set (operation_tasks d) \<Longrightarrow> P r \<Longrightarrow> task_wf (f r)"
  shows "tasks_inv (operation_tasks_update (update_where P f) d)"
  using assms by (auto simp: tasks_inv_def set_update_where)

lemma task_row_unique:
  assumes "tasks_inv d" and "t \<in> set (operation_tasks d)"
  shows "task_row (ot_id t) d = Some t"
  using assms by (auto simp: tasks_inv_def intro: row_by_unique)

text \<open>
  The state in which the worker writes: the row of the task it claimed is
  \<open>InProgress\<close> and the rows of the other tasks are \<open>R\<close>.  Under it every write
  keeps the table well formed and the other rows as they were.
\<close>

definition others :: "task_id \<Rightarrow> (task_id \<Rightarrow> operation_task option) \<Rightarrow> operation_task list \<Rightarrow> bool" where
  "others i R ts \<longleftrightarrow> (\<forall>j. j \<noteq> i \<longrightarrow> row_by ot_id j ts = R j)"

definition table_ok :: "task_id \<Rightarrow> (task_id \<Rightarrow> operation_task option) \<Rightarrow> db \<Rightarrow> bool" where
  "table_ok i R d \<longleftrightarrow> tasks_inv d \<and> others i R (operation_tasks d)"

definition claimed :: "task_id \<Rightarrow> (task_id \<Rightarrow> operation_task option) \<Rightarrow> db \<Rightarrow> bool" where
  "claimed i R d \<longleftrightarrow> table_ok i R d \<and> (\<exists>r. task_row i d = Some r \<and> ot_state r = InProgress)"

lemma claimed_row:
  "claimed i R d \<Longrightarrow> r \<in> set (operation_tasks d) \<Longrightarrow> ot_id r = i \<Longrightarrow> ot_state r = InProgress"
  using task_row_unique by (fastforce simp: claimed_def table_ok_def)

lemma claimed_table_ok: "claimed i R d \<Longrightarrow> table_ok i R d"
  by (simp add: claimed_def)

lemma others_update:
  assumes "others i R (operation_tasks d)" and "\<And>r. ot_id (f r) = ot_id r"
  shows "others i R (operation_tasks (operation_tasks_update (update_where (\<lambda>r. ot_id r = i) f) d))"
  using assms by (simp add: others_def)

lemma table_ok_update:
  assumes "table_ok i R d" and "\<And>r. ot_id (f r) = ot_id r"
    and "\<And>r. r \<in> set (operation_tasks d) \<Longrightarrow> ot_id r = i \<Longrightarrow> task_wf r \<Longrightarrow> task_wf (f r)"
  shows "table_ok i R (operation_tasks_update (update_where (\<lambda>r. ot_id r = i) f) d)"
  using assms others_update [of i R d f] tasks_inv_update [of d f "\<lambda>r. ot_id r = i"]
  unfolding table_ok_def tasks_inv_def by blast

lemma claimed_update:
  assumes "claimed i R d" and "\<And>r. ot_id (f r) = ot_id r" and "\<And>r. ot_state (f r) = ot_state r"
    and "\<And>r. r \<in> set (operation_tasks d) \<Longrightarrow> ot_state r = InProgress \<Longrightarrow> task_wf r \<Longrightarrow> task_wf (f r)"
  shows "claimed i R (operation_tasks_update (update_where (\<lambda>r. ot_id r = i) f) d)"
proof -
  have "table_ok i R (operation_tasks_update (update_where (\<lambda>r. ot_id r = i) f) d)"
    using assms(1,2,4) claimed_row [OF assms(1)] by (intro table_ok_update) (auto simp: claimed_def)
  then show ?thesis using assms by (auto simp: claimed_def)
qed

lemma preserves_obj_case [pres]:
  assumes "\<And>m. preserves P (f m)" and "preserves P g" and "preserves P h"
  shows "preserves P (case x of Some (JObj m) \<Rightarrow> f m | Some _ \<Rightarrow> g | None \<Rightarrow> h)"
  using assms by (auto split: option.splits json.splits)

lemma advance_step_claimed [pres]:
  "preserves (\<lambda>w. claimed i R (wdb w)) (advance_step p i s patch now)"
  unfolding advance_step_def Let_def
  by (intro pres update_one_preserves) (erule claimed_update, simp_all add: task_wf_def)

lemma schedule_retry_claimed [pres]:
  "preserves (\<lambda>w. claimed i R (wdb w)) (schedule_retry p i at c m now)"
  unfolding schedule_retry_def
  by (intro pres update_one_preserves) (erule claimed_update, simp_all add: task_wf_def)

lemma set_terminal_state_ok:
  assumes "task_wf t" and "task_state_is_terminal (ot_state t)"
  shows "preserves (\<lambda>w. table_ok (ot_id t) R (wdb w)) (set_terminal_state p t)"
  unfolding set_terminal_state_def
  by (intro update_one_preserves table_ok_update) (use assms in \<open>auto simp: task_wf_def\<close>)

text \<open>Claiming a live row: the row is \<open>InProgress\<close> afterwards, the others are kept.\<close>

lemma set_acquired_claims:
  assumes inv: "tasks_inv d" and row: "task_row (ot_id t) d = Some r"
    and live: "\<not> task_state_is_terminal (ot_state r)" and st: "ot_state t = InProgress"
  shows "claimed (ot_id t) (\<lambda>j. task_row j d)
    (operation_tasks_update (update_where (\<lambda>r. ot_id r = ot_id t)
      (\<lambda>r. r\<lparr> ot_state := ot_state t, ot_attempts := ot_attempts t, ot_updated_at := ot_updated_at t \<rparr>)) d)"
    (is "claimed _ _ (operation_tasks_update (update_where _ ?f) d)")
proof -
  have "table_ok (ot_id t) (\<lambda>j. task_row j d)
     (operation_tasks_update (update_where (\<lambda>r. ot_id r = ot_id t) ?f) d)"
  proof (rule table_ok_update)
    show "table_ok (ot_id t) (\<lambda>j. task_row j d) d"
      using inv by (simp add: table_ok_def others_def)
    fix r' assume "r' \<in> set (operation_tasks d)" "ot_id r' = ot_id t" "task_wf r'"
    moreover from this have "r' = r" using row task_row_unique [OF inv, of r'] by simp
    ultimately show "task_wf (?f r')"
      using live st by (cases "ot_state r") (auto simp: task_wf_def)
  qed simp
  then show ?thesis using row st by (auto simp: claimed_def)
qed

end
