(* ===== verification/Outcome.thy ===== *)
theory Outcome
  imports TaskStore Facades
begin

text \<open>
  \<open>worker/backoff.rs\<close> and \<open>worker/outcome.rs\<close>: the retry delay, the
  classification of registry and token errors, and the function that turns a
  step outcome into a write on the task row.  Durations are microseconds, as
  \<open>datetime\<close> is; delays are drawn in milliseconds.
\<close>

section \<open>Backoff\<close>

definition BASE_MS :: u64 where "BASE_MS = 60000"
definition MAX_MS :: u64 where "MAX_MS = 3600000"
definition MAX_TASK_AGE_HOURS :: int where "MAX_TASK_AGE_HOURS = 24"
definition HOUR :: int where "HOUR = 3600000000"
definition MILLISECOND :: int where "MILLISECOND = 1000"

definition backoff_ceiling_ms :: "u32 \<Rightarrow> u64" where
  "backoff_ceiling_ms attempts =
     (let effective_attempts = min attempts 6
      in min (push_bit (unat effective_attempts) BASE_MS) MAX_MS)"

definition backoff_delay :: "u32 \<Rightarrow> u64 \<Rightarrow> u64" where
  "backoff_delay attempts rnd = rnd mod (backoff_ceiling_ms attempts + 1)"

section \<open>Error classification\<close>

fun from_token_aware_error ::
  "registry_errors \<Rightarrow> token_aware_error \<Rightarrow> string \<Rightarrow> string \<Rightarrow> step_outcome" where
  "from_token_aware_error re (RegistryErr e) registry_retry_code registry_terminal_code =
     (if registry_is_retryable re e then Retry registry_retry_code (registry_show re e)
      else Terminal registry_terminal_code (registry_show re e))"
| "from_token_aware_error re (TokenErr (MissingCredentials msg)) _ _ =
     Terminal ''tenant_missing_oauth_credentials'' msg"
| "from_token_aware_error re (TokenErr (TokenPersistence (Encryption e))) _ _ =
     (if \<not> secret_error_is_retryable e
      then Terminal ''credential_decryption_failed'' (show_secret_encryption_error e)
      else Retry ''token_unavailable'' (show_token_provider_error (TokenPersistence (Encryption e))))"
| "from_token_aware_error re (TokenErr e) _ _ =
     (if token_error_is_retryable e then Retry ''token_unavailable'' (show_token_provider_error e)
      else Terminal ''token_rejected'' (show_token_provider_error e))"

section \<open>Applying an outcome\<close>

record 'x rng =
  next_u64 :: "'x \<Rightarrow> u64 \<times> 'x"

definition draw :: "'x rng \<Rightarrow> ('x world, 'e, u64) eff" where
  "draw g = ext (\<lambda>x. case next_u64 g x of (v, x') \<Rightarrow> (Inr v, x'))"

definition fail_through_aggregate ::
  "'x pool \<Rightarrow> operation_task \<Rightarrow> string \<Rightarrow> string \<Rightarrow> datetime \<Rightarrow>
   ('x world, persistence_error, unit) eff" where
  "fail_through_aggregate p task error_code error_message now =
     bindE (liftR (mapErrR (\<lambda>e. DataIntegrity (''try_fail: '' @ show_domain_error e))
              (try_fail error_code error_message now task)))
       (\<lambda>task'. set_terminal_state p task')"

fun apply_outcome ::
  "'x pool \<Rightarrow> 'x rng \<Rightarrow> operation_task \<Rightarrow> string option \<Rightarrow> step_outcome \<Rightarrow> datetime \<Rightarrow>
   ('x world, persistence_error, unit) eff" where
  "apply_outcome p g task next_step (Done result) now =
     advance_step p (ot_id task) next_step (state_data_patch result) now"
| "apply_outcome p g task next_step (Retry error_code error_message) now =
     (if now - ot_created_at task \<ge> MAX_TASK_AGE_HOURS * HOUR
      then fail_through_aggregate p task error_code error_message now
      else bindE (draw g) (\<lambda>rnd.
        let attempt_just_failed = saturating_add1 (ot_attempts task);
            delay = backoff_delay attempt_just_failed rnd;
            next_attempt_at = now + uint delay * MILLISECOND
        in schedule_retry p (ot_id task) next_attempt_at error_code error_message now))"
| "apply_outcome p g task next_step (Terminal error_code error_message) now =
     fail_through_aggregate p task error_code error_message now"

section \<open>Bounds of the delay\<close>

lemma min_u32_6: "unat (min (n :: u32) 6) = min (unat n) 6"
  by (simp add: min_def word_le_nat_alt)

lemma backoff_ceiling_cases:
  "unat (backoff_ceiling_ms n) = min (60000 * 2 ^ unat n) 3600000"
proof (cases "unat n < 6")
  case True
  then have "unat n \<in> {0,1,2,3,4,5}" by auto
  moreover have "unat (min n 6) = unat n" using True by (simp add: min_u32_6)
  ultimately show ?thesis
    by (auto simp: backoff_ceiling_ms_def BASE_MS_def MAX_MS_def Let_def push_bit_eq_mult
                   min_def word_le_nat_alt)
next
  case False
  then have e: "unat (min n 6) = 6" by (simp add: min_u32_6)
  have "(2 :: nat) ^ 6 \<le> 2 ^ unat n" using False by (intro power_increasing) auto
  then have "60000 * 2 ^ unat n \<ge> (3600000 :: nat)" by simp
  then show ?thesis
    using e by (simp add: backoff_ceiling_ms_def BASE_MS_def MAX_MS_def Let_def push_bit_eq_mult
                          min_def word_le_nat_alt)
qed

lemma backoff_delay_le: "unat (backoff_delay n rnd) \<le> min (60000 * 2 ^ unat n) 3600000"
proof -
  let ?c = "backoff_ceiling_ms n"
  have c: "unat ?c \<le> 3600000" using backoff_ceiling_cases by simp
  then have "unat (?c + 1) = unat ?c + 1"
    by (subst unat_add_lem [THEN iffD1]) simp_all
  then have "unat (backoff_delay n rnd) = unat rnd mod (unat ?c + 1)"
    by (simp add: backoff_delay_def unat_mod)
  then have "unat (backoff_delay n rnd) \<le> unat ?c"
    using mod_less_divisor [of "unat ?c + 1" "unat rnd"] by linarith
  then show ?thesis using backoff_ceiling_cases by simp
qed

section \<open>Invariants of the writes\<close>

lemma fail_through_aggregate_ok [pres]:
  "preserves (\<lambda>w. table_ok (ot_id t) R (wdb w)) (fail_through_aggregate p t c m now)"
proof (cases "try_fail c m now t")
  case (Inl e)
  then show ?thesis by (simp add: fail_through_aggregate_def pres)
next
  case (Inr t')
  then have t': "task_wf t'" "task_state_is_terminal (ot_state t')" "ot_id t' = ot_id t"
    using try_fail_wf by (auto simp: try_fail_def split: task_state.splits)
  then show ?thesis
    using Inr set_terminal_state_ok [of t' R p] by (simp add: fail_through_aggregate_def)
qed

lemma draw_keeps_db [pres]: "preserves (\<lambda>w. P (wdb w)) (draw g)"
  by (simp add: draw_def pres)

lemma apply_outcome_ok:
  assumes "claimed (ot_id t) R (wdb w)"
  shows "table_ok (ot_id t) R (wdb (snd (apply_outcome p g t s oc now w)))"
proof -
  have ok: "table_ok (ot_id t) R (wdb w)" using assms by (rule claimed_table_ok)
  show ?thesis
  proof (cases oc)
    case (Done r)
    have "claimed (ot_id t) R (wdb (snd (apply_outcome p g t s oc now w)))"
      using Done assms preservesD [OF advance_step_claimed] by fastforce
    then show ?thesis by (rule claimed_table_ok)
  next
    case (Retry c m)
    show ?thesis
    proof (cases "now - ot_created_at t \<ge> MAX_TASK_AGE_HOURS * HOUR")
      case True
      then show ?thesis using Retry ok preservesD [OF fail_through_aggregate_ok] by simp
    next
      case False
      have "preserves (\<lambda>w. claimed (ot_id t) R (wdb w)) (apply_outcome p g t s oc now)"
        using Retry False by (auto simp: Let_def intro!: pres)
      then show ?thesis using assms claimed_table_ok by (auto dest: preservesD)
    qed
  next
    case (Terminal c m)
    then show ?thesis using ok preservesD [OF fail_through_aggregate_ok] by simp
  qed
qed

declare apply_outcome.simps [simp del]

end
