(* ===== verification/IssuerStore.thy ===== *)
theory IssuerStore
  imports Db
begin

text \<open>
  \<open>persistence/issuers.rs\<close>, the tenant lookups of \<open>persistence/tenants.rs\<close> and
  the bulk cancellation of \<open>persistence/credential_offers.rs\<close> that the
  deactivation saga runs.
\<close>

section \<open>Tenants\<close>

definition find_tenant_by_id ::
  "'x pool \<Rightarrow> tenant_id \<Rightarrow> ('x world, persistence_error, tenant option) eff" where
  "find_tenant_by_id p tenant =
     mapErr DbError (run_query p (\<lambda>_ d. Inr (row_by tn_id tenant (tenants d))))"

definition find_display_name ::
  "'x pool \<Rightarrow> tenant_id \<Rightarrow> ('x world, persistence_error, string option) eff" where
  "find_display_name p tenant =
     mapErr DbError (run_query p (\<lambda>_ d. Inr
       (Option.bind (row_by tn_id tenant (tenants d)) tn_display_name)))"

definition tenant_exists ::
  "'x pool \<Rightarrow> tenant_id \<Rightarrow> ('x world, persistence_error, bool) eff" where
  "tenant_exists p tenant =
     mapErr DbError (run_query p (\<lambda>_ d. Inr (row_by tn_id tenant (tenants d) \<noteq> None)))"

section \<open>Issuers\<close>

definition issuer_key :: "issuer_row \<Rightarrow> issuer_id" where
  "issuer_key r = iss_id (ir_issuer r)"

definition issuer_of_tenant :: "tenant_id \<Rightarrow> issuer_id \<Rightarrow> issuer_row \<Rightarrow> bool" where
  "issuer_of_tenant tenant issuer r \<longleftrightarrow> issuer_key r = issuer \<and> iss_tenant_id (ir_issuer r) = tenant"

definition exists_for_tenant ::
  "'x pool \<Rightarrow> tenant_id \<Rightarrow> issuer_id \<Rightarrow> ('x world, persistence_error, bool) eff" where
  "exists_for_tenant p tenant issuer =
     mapErr DbError (run_query p (\<lambda>_ d. Inr (find (issuer_of_tenant tenant issuer) (issuers d) \<noteq> None)))"

definition find_issuer_by_id ::
  "'x pool \<Rightarrow> issuer_id \<Rightarrow> ('x world, persistence_error, issuer option) eff" where
  "find_issuer_by_id p issuer =
     mapErr DbError (run_query p (\<lambda>_ d. Inr
       (map_option ir_issuer (row_by issuer_key issuer (issuers d)))))"

definition find_issuer_by_id_for_tenant ::
  "'x pool \<Rightarrow> tenant_id \<Rightarrow> issuer_id \<Rightarrow> ('x world, persistence_error, issuer option) eff" where
  "find_issuer_by_id_for_tenant p tenant issuer =
     mapErr DbError (run_query p (\<lambda>_ d. Inr
       (map_option ir_issuer (find (issuer_of_tenant tenant issuer) (issuers d)))))"

text \<open>The same projection with \<open>FOR UPDATE\<close>; the caller is inside a transaction.\<close>

definition find_issuer_by_id_for_update_for_tenant ::
  "'x pool \<Rightarrow> tenant_id \<Rightarrow> issuer_id \<Rightarrow> ('x world, persistence_error, issuer option) eff" where
  "find_issuer_by_id_for_update_for_tenant p tenant issuer =
     mapErr DbError (run_query p (\<lambda>_ d. Inr
       (map_option ir_issuer (find (issuer_of_tenant tenant issuer) (issuers d)))))"

definition update_issuer :: "(issuer \<Rightarrow> issuer) \<Rightarrow> issuer_row \<Rightarrow> issuer_row" where
  "update_issuer f r = r\<lparr> ir_issuer := f (ir_issuer r) \<rparr>"

definition set_issuer_state ::
  "'x pool \<Rightarrow> tenant_id \<Rightarrow> issuer_id \<Rightarrow> issuer_state \<Rightarrow> ('x world, persistence_error, unit) eff" where
  "set_issuer_state p tenant issuer state =
     bindE (mapErr DbError (run_stmt p (update_stmt issuers_update issuers
              (issuer_of_tenant tenant issuer)
              (update_issuer (\<lambda>i. i\<lparr> iss_state := Some state \<rparr>)))))
       (\<lambda>n. guardE (n \<noteq> 0) NotFound)"

datatype swap_outcome = SwapAlready | NowSwapped

definition has_triple :: "key_pair_id \<Rightarrow> key_pair_id \<Rightarrow> key_pair_id \<Rightarrow> issuer \<Rightarrow> bool" where
  "has_triple authorized authentication assertion i \<longleftrightarrow>
     iss_authorized_key_id i = Some authorized \<and>
     iss_authentication_key_id i = Some authentication \<and>
     iss_assertion_key_id i = Some assertion"

definition swap_key_triple ::
  "'x pool \<Rightarrow> tenant_id \<Rightarrow> issuer_id \<Rightarrow> key_pair_id \<Rightarrow> key_pair_id \<Rightarrow> key_pair_id \<Rightarrow>
   ('x world, persistence_error, swap_outcome) eff" where
  "swap_key_triple p tenant issuer authorized authentication assertion =
     bindE (mapErr DbError (run_stmt p (update_stmt issuers_update issuers
              (\<lambda>r. issuer_of_tenant tenant issuer r \<and> iss_state (ir_issuer r) = Some IssuerActive \<and>
                   \<not> has_triple authorized authentication assertion (ir_issuer r))
              (update_issuer (\<lambda>i. i\<lparr> iss_authorized_key_id := Some authorized,
                 iss_authentication_key_id := Some authentication,
                 iss_assertion_key_id := Some assertion \<rparr>)))))
     (\<lambda>n. if n = 1 then ret NowSwapped
      else bindE (mapErr DbError (run_query p (\<lambda>_ d. Inr
                    (find (issuer_of_tenant tenant issuer) (issuers d)))))
           (\<lambda>row. case row of
              None \<Rightarrow> raise NotFound
            | Some r \<Rightarrow>
                if iss_state (ir_issuer r) = Some IssuerActive \<and>
                   has_triple authorized authentication assertion (ir_issuer r)
                then ret SwapAlready else raise NotFound))"

definition insert_issuer :: "'x pool \<Rightarrow> issuer \<Rightarrow> ('x world, persistence_error, unit) eff" where
  "insert_issuer p i = mapErr map_database_error (run_stmt p (\<lambda>d.
     if iss_id i \<in> issuer_key ` set (issuers d) then Inl (SqlUnique ''issuers_pkey'')
     else if iss_tenant_id i \<notin> tn_id ` set (tenants d)
     then Inl (SqlConstraint ''issuers_tenant_id_fkey'')
     else Inr ((), d\<lparr> issuers := issuers d @
            [\<lparr> ir_issuer = i, ir_current_status_list_id = None \<rparr>] \<rparr>)))"

section \<open>Bulk cancellation of offers\<close>

definition cancel_all_pending_for_issuer ::
  "'x pool \<Rightarrow> tenant_id \<Rightarrow> issuer_id \<Rightarrow> datetime \<Rightarrow> ('x world, persistence_error, nat) eff" where
  "cancel_all_pending_for_issuer p tenant issuer cancelled_at =
     mapErr DbError (run_stmt p (update_stmt credential_offers_update credential_offers
       (\<lambda>off. co_tenant_id off = tenant \<and> co_issuer_id off = issuer \<and> co_state off = OfferPending)
       (\<lambda>off. off\<lparr> co_state := Cancelled, co_cancelled_at := Some cancelled_at,
                  co_pre_auth_code := None \<rparr>)))"

section \<open>Invariants\<close>

definition issuers_inv :: "db \<Rightarrow> bool" where
  "issuers_inv d \<longleftrightarrow> distinct (map issuer_key (issuers d))"

interpretation issuer_rows: keyed_table issuers issuers_update issuer_key
  by unfold_locales simp

lemma issuer_key_update [simp]:
  "(\<And>i. iss_id (f i) = iss_id i) \<Longrightarrow> issuer_key (update_issuer f r) = issuer_key r"
  by (simp add: issuer_key_def update_issuer_def)

lemma find_issuer_of_tenant:
  assumes "distinct (map issuer_key rs)"
  shows "find (issuer_of_tenant tenant issuer) rs =
    (case row_by issuer_key issuer rs of
       Some r \<Rightarrow> if iss_tenant_id (ir_issuer r) = tenant then Some r else None
     | None \<Rightarrow> None)"
  using assms
proof (induction rs)
  case Nil
  show ?case by (simp add: row_by_def)
next
  case (Cons r rs)
  have r: "issuer_of_tenant tenant issuer r \<longleftrightarrow> issuer_key r = issuer \<and> iss_tenant_id (ir_issuer r) = tenant"
    by (simp add: issuer_of_tenant_def)
  show ?case
  proof (cases "issuer_key r = issuer")
    case True
    then have "issuer \<notin> issuer_key ` set rs" using Cons.prems by auto
    then have "find (issuer_of_tenant tenant issuer) rs = None"
      by (auto simp: find_None_iff issuer_of_tenant_def)
    then show ?thesis using True r by (simp add: row_by_def)
  next
    case False
    then show ?thesis using Cons r by (simp add: row_by_def)
  qed
qed

end
