(* ===== verification/StatusListStore.thy ===== *)
theory StatusListStore
  imports IssuerStore
begin

text \<open>
  \<open>persistence/status_lists.rs\<close>: provisioning, index allocation, bit writes and
  the publish bookkeeping of the status lists.  The two-bit packing is
  \<open>swiyu-core\<close>'s \<open>StatusList::set_at\<close>, the parameter \<open>core_set_at\<close>.
\<close>

section \<open>Provisioning and lookup\<close>

definition provision_for_issuer ::
  "'x pool \<Rightarrow> 'x host \<Rightarrow> issuer_id \<Rightarrow> string option \<Rightarrow> string option \<Rightarrow>
   ('x world, persistence_error, status_list_id) eff" where
  "provision_for_issuer p h issuer registry_entry_id registry_url =
     bindE (generate_bare h) (\<lambda>bare. let new_id = StatusListId bare in
     bindE (mapErr DbError (\<lambda>w. run_stmt p (\<lambda>d.
        if new_id \<in> sl_id ` set (status_lists d) then Inl (SqlUnique ''status_lists_pkey'')
        else if issuer \<notin> issuer_key ` set (issuers d)
        then Inl (SqlConstraint ''status_lists_issuer_id_fkey'')
        else Inr ((), d\<lparr> status_lists := status_lists d @
          [(status_list_new new_id issuer (sql_now p (wext w)))
             \<lparr> sl_registry_entry_id := registry_entry_id, sl_registry_url := registry_url \<rparr>] \<rparr>)) w))
     (\<lambda>_. bindE (mapErr DbError (run_stmt p (update_stmt issuers_update issuers
              (\<lambda>r. issuer_key r = issuer)
              (\<lambda>r. r\<lparr> ir_current_status_list_id := Some new_id \<rparr>))))
     (\<lambda>_. ret new_id)))"

definition current_for_issuer ::
  "'x pool \<Rightarrow> issuer_id \<Rightarrow> ('x world, persistence_error, status_list_id option) eff" where
  "current_for_issuer p issuer =
     mapErr DbError (run_query p (\<lambda>_ d. Inr
       (Option.bind (row_by issuer_key issuer (issuers d)) ir_current_status_list_id)))"

definition current_for_issuer_with_url ::
  "'x pool \<Rightarrow> issuer_id \<Rightarrow>
   ('x world, persistence_error, (status_list_id \<times> string option) option) eff" where
  "current_for_issuer_with_url p issuer =
     mapErr DbError (run_query p (\<lambda>_ d. Inr
       (Option.bind (Option.bind (row_by issuer_key issuer (issuers d)) ir_current_status_list_id)
          (\<lambda>lid. map_option (\<lambda>l. (sl_id l, sl_registry_url l)) (row_by sl_id lid (status_lists d))))))"

section \<open>Allocation and bit writes\<close>

definition I64_MAX :: u64 where "I64_MAX = 0x7FFFFFFFFFFFFFFF"
definition I32_MAX :: u32 where "I32_MAX = 0x7FFFFFFF"

text \<open>\<open>UPDATE .. SET allocated_count + 1, committed_version + 1 .. RETURNING allocated_count - 1\<close>.\<close>

definition allocate_index ::
  "'x pool \<Rightarrow> status_list_id \<Rightarrow> ('x world, persistence_error, status_list_index option) eff" where
  "allocate_index p lid =
     mapErr DbError (bindE (run_stmt p (\<lambda>d. case row_by sl_id lid (status_lists d) of
        None \<Rightarrow> Inr (None, d)
      | Some l \<Rightarrow>
          if \<not> sint (sl_allocated_count l) < int SWIYU_STATUS_LIST_CAPACITY then Inr (None, d)
          else if sl_committed_version l = I64_MAX then Inl (SqlConstraint ''bigint out of range'')
          else Inr (Some (sl_allocated_count l), status_lists_update (update_where (\<lambda>r. sl_id r = lid)
               (\<lambda>r. r\<lparr> sl_allocated_count := sl_allocated_count r + 1,
                       sl_committed_version := sl_committed_version r + 1 \<rparr>)) d)))
     (\<lambda>allocated. case allocated of
        None \<Rightarrow> ret None
      | Some count \<Rightarrow> liftR (case status_list_index_decode count of
          Inl e \<Rightarrow> Inl (SqlDecode (show_domain_error e)) | Inr idx \<Rightarrow> Inr (Some idx))))"

definition write_bit ::
  "(byte list \<Rightarrow> nat \<Rightarrow> status_value \<Rightarrow> string + byte list) \<Rightarrow> 'x pool \<Rightarrow> status_list_id \<Rightarrow>
   status_list_index \<Rightarrow> status_value \<Rightarrow> ('x world, persistence_error, unit) eff" where
  "write_bit core_set_at p lid index value =
     bindE (mapErr DbError (run_query p (\<lambda>_ d. Inr
              (map_option sl_bitstring (row_by sl_id lid (status_lists d))))))
     (\<lambda>found. bindE (okOr NotFound found) (\<lambda>bitstring.
      bindE (guardE (length bitstring = BITSTRING_BYTES)
               (DataIntegrity (''status_lists row '' @ id_display ''status_list'' (status_list_bare lid)
                  @ '' carries bitstring of unexpected length: '' @ show_nat (length bitstring)))) (\<lambda>_.
      bindE (liftR (mapErrR (\<lambda>err. DataIntegrity (''status_lists row ''
                  @ id_display ''status_list'' (status_list_bare lid) @ '': '' @ err))
               (core_set_at bitstring (unat (index_value index)) value))) (\<lambda>bitstring'.
      mapErr DbError (run_stmt p (\<lambda>d.
        if \<exists>l \<in> set (status_lists d). sl_id l = lid \<and> sl_committed_version l = I64_MAX
        then Inl (SqlConstraint ''bigint out of range'')
        else if length bitstring' \<noteq> BITSTRING_BYTES \<and> lid \<in> sl_id ` set (status_lists d)
        then Inl (SqlConstraint ''status_lists_bitstring_check'')
        else Inr ((), status_lists_update (update_where (\<lambda>r. sl_id r = lid)
               (\<lambda>r. r\<lparr> sl_bitstring := bitstring',
                       sl_committed_version := sl_committed_version r + 1 \<rparr>)) d)))))))"

section \<open>Publish bookkeeping\<close>

definition record_publish_success ::
  "'x pool \<Rightarrow> status_list_id \<Rightarrow> u64 \<Rightarrow> datetime \<Rightarrow> ('x world, persistence_error, bool) eff" where
  "record_publish_success p lid target_version now =
     bindE (guardE (target_version \<le> I64_MAX)
        (DataIntegrity (''status_lists row '' @ id_display ''status_list'' (status_list_bare lid)
           @ '': target_version overflows i64''))) (\<lambda>_.
     bindE (mapErr DbError (run_stmt p (update_stmt status_lists_update status_lists
        (\<lambda>r. sl_id r = lid \<and> sint (sl_published_version r) < sint target_version)
        (\<lambda>r. r\<lparr> sl_published_version := target_version, sl_last_publish_attempt_at := Some now,
                sl_last_publish_error := None, sl_next_publish_attempt_at := None,
                sl_publish_attempts := 0 \<rparr>)))) (\<lambda>n. ret (n > 0)))"

definition record_publish_failure ::
  "'x pool \<Rightarrow> status_list_id \<Rightarrow> string \<Rightarrow> datetime \<Rightarrow> datetime \<Rightarrow>
   ('x world, persistence_error, unit) eff" where
  "record_publish_failure p lid error_message next_attempt_at now =
     mapErr DbError (run_stmt p (\<lambda>d.
       if \<exists>l \<in> set (status_lists d). sl_id l = lid \<and> sl_publish_attempts l = I32_MAX
       then Inl (SqlConstraint ''integer out of range'')
       else Inr ((), status_lists_update (update_where (\<lambda>r. sl_id r = lid)
          (\<lambda>r. r\<lparr> sl_last_publish_attempt_at := Some now, sl_last_publish_error := Some error_message,
                  sl_next_publish_attempt_at := Some next_attempt_at,
                  sl_publish_attempts := sl_publish_attempts r + 1 \<rparr>)) d)))"

definition publishable :: "datetime \<Rightarrow> status_list \<Rightarrow> bool" where
  "publishable now l \<longleftrightarrow> sint (sl_committed_version l) > sint (sl_published_version l) \<and>
     (case sl_next_publish_attempt_at l of None \<Rightarrow> True | Some at \<Rightarrow> at \<le> now)"

definition publish_before :: "status_list \<Rightarrow> status_list \<Rightarrow> bool" where
  "publish_before a b = (case (sl_next_publish_attempt_at a, sl_next_publish_attempt_at b) of
     (None, None) \<Rightarrow> sl_created_at a \<le> sl_created_at b
   | (None, Some _) \<Rightarrow> True
   | (Some _, None) \<Rightarrow> False
   | (Some x, Some y) \<Rightarrow> x < y \<or> (x = y \<and> sl_created_at a \<le> sl_created_at b))"

definition decode_status_list :: "status_list \<Rightarrow> sqlx_error + status_list" where
  "decode_status_list l =
     (if sint (sl_allocated_count l) < 0 then Inl (SqlDecode ''allocated_count'')
      else if sint (sl_committed_version l) < 0 then Inl (SqlDecode ''committed_version'')
      else if sint (sl_published_version l) < 0 then Inl (SqlDecode ''published_version'')
      else if sint (sl_publish_attempts l) < 0 then Inl (SqlDecode ''publish_attempts'')
      else Inr l)"

text \<open>One statement: the sub-select picks and locks, the update stamps the lease.\<close>

definition acquire_next_dirty ::
  "'x pool \<Rightarrow> datetime \<Rightarrow> int \<Rightarrow> ('x world, persistence_error, status_list option) eff" where
  "acquire_next_dirty p now lease_duration =
     mapErr DbError (\<lambda>w. run_stmt p (\<lambda>d.
       case min_row publish_before
          (filter (\<lambda>l. publishable now l \<and> \<not> row_locked p (wext w) (status_list_bare (sl_id l)))
             (status_lists d)) of
         None \<Rightarrow> Inr (None, d)
       | Some l \<Rightarrow> (case decode_status_list
             (l\<lparr> sl_next_publish_attempt_at := Some (now + lease_duration) \<rparr>) of
           Inl e \<Rightarrow> Inl e
         | Inr l' \<Rightarrow> Inr (Some l', status_lists_update (update_where (\<lambda>r. sl_id r = sl_id l)
             (\<lambda>r. r\<lparr> sl_next_publish_attempt_at := Some (now + lease_duration) \<rparr>)) d))) w)"

section \<open>Invariant of the table\<close>

text \<open>
  Ids are distinct, the bitstring has its length, the allocation count is
  within capacity and the version counters are non-negative \<open>i64\<close> values.
\<close>

definition list_wf :: "status_list \<Rightarrow> bool" where
  "list_wf l \<longleftrightarrow> length (sl_bitstring l) = BITSTRING_BYTES \<and>
     unat (sl_allocated_count l) \<le> SWIYU_STATUS_LIST_CAPACITY \<and>
     sl_committed_version l \<le> I64_MAX \<and> sl_published_version l \<le> I64_MAX"

definition lists_inv :: "db \<Rightarrow> bool" where
  "lists_inv d \<longleftrightarrow> distinct (map sl_id (status_lists d)) \<and> (\<forall>l \<in> set (status_lists d). list_wf l)"

lemma lists_inv_update:
  assumes "lists_inv d" and "\<And>r. sl_id (f r) = sl_id r"
    and "\<And>r. r \<in> set (status_lists d) \<Longrightarrow> P r \<Longrightarrow> list_wf (f r)"
  shows "lists_inv (status_lists_update (update_where P f) d)"
  using assms by (auto simp: lists_inv_def set_update_where)

lemma list_row_unique:
  "lists_inv d \<Longrightarrow> l \<in> set (status_lists d) \<Longrightarrow> row_by sl_id (sl_id l) (status_lists d) = Some l"
  by (auto simp: lists_inv_def intro: row_by_unique)

lemma list_row_wf: "lists_inv d \<Longrightarrow> row_by sl_id i (status_lists d) = Some l \<Longrightarrow> list_wf l"
  by (auto simp: lists_inv_def dest: row_by_SomeD)

lemma succ_i64_le: "v \<le> I64_MAX \<Longrightarrow> v \<noteq> I64_MAX \<Longrightarrow> v + 1 \<le> I64_MAX"
  by (simp add: inc_le)

lemma list_wf_sint_allocated:
  assumes "list_wf l" shows "sint (sl_allocated_count l) = int (unat (sl_allocated_count l))"
  using assms by (intro small_sint_unat) (simp add: list_wf_def SWIYU_STATUS_LIST_CAPACITY_def)

end
