(* ===== verification/CreateIssuerSaga.thy ===== *)
theory CreateIssuerSaga
  imports Didlog Outcome StatusListStore
begin

text \<open>
  \<open>worker/create_issuer\<close>: the input and state-data shapes and the seven step
  executors of the \<open>CreateIssuer\<close> saga.  An executor never returns \<open>Err\<close> in
  the source; the error channel of the model carries a panic.  Structs are read
  from JSON objects, as the management API and \<open>advance_step\<close> write them;
  \<open>parse_uuid\<close> is the \<open>uuid\<close> crate's parser.
\<close>

type_synonym panic = string

section \<open>Input and state data\<close>

record create_issuer_input =
  ci_description :: string
  ci_display_name :: string

definition create_issuer_input_decode :: "json \<Rightarrow> string + create_issuer_input" where
  "create_issuer_input_decode v = (case v of
     JObj m \<Rightarrow>
       (case find (\<lambda>(k, _). k \<notin> {''description'', ''display_name''}) m of
          Some (k, _) \<Rightarrow> Inl (''unknown field '' @ k)
        | None \<Rightarrow>
            bindR (req_member as_string ''description'' m) (\<lambda>description.
            bindR (req_member as_string ''display_name'' m) (\<lambda>display_name.
            Inr \<lparr> ci_description = description, ci_display_name = display_name \<rparr>)))
   | _ \<Rightarrow> Inl ''invalid type, expected struct CreateIssuerInput'')"

definition create_issuer_input_encode :: "create_issuer_input \<Rightarrow> json" where
  "create_issuer_input_encode i = JObj [(''description'', JStr (ci_description i)),
     (''display_name'', JStr (ci_display_name i))]"

definition key_triple_encode :: "key_triple \<Rightarrow> json" where
  "key_triple_encode t = JObj [(''authorized'', JStr (key_pair_uuid (kt_authorized t))),
     (''authentication'', JStr (key_pair_uuid (kt_authentication t))),
     (''assertion'', JStr (key_pair_uuid (kt_assertion t)))]"

definition key_pair_id_decode :: "(string \<Rightarrow> string option) \<Rightarrow> json \<Rightarrow> key_pair_id option" where
  "key_pair_id_decode parse_uuid v =
     Option.bind (as_string v) (\<lambda>s. map_option KeyPairId (parse_uuid s))"

definition key_triple_decode :: "(string \<Rightarrow> string option) \<Rightarrow> json \<Rightarrow> key_triple option" where
  "key_triple_decode parse_uuid v =
     Option.bind (Option.bind (jget ''authorized'' v) (key_pair_id_decode parse_uuid)) (\<lambda>a.
     Option.bind (Option.bind (jget ''authentication'' v) (key_pair_id_decode parse_uuid)) (\<lambda>b.
     Option.bind (Option.bind (jget ''assertion'' v) (key_pair_id_decode parse_uuid)) (\<lambda>c.
     Some \<lparr> kt_authorized = a, kt_authentication = b, kt_assertion = c \<rparr>)))"

text \<open>\<open>#[serde(default)] bool\<close>: absent is false, anything but a boolean is an error.\<close>

definition bool_member :: "string \<Rightarrow> json_map \<Rightarrow> string + bool" where
  "bool_member k m = (case map_of m k of
     None \<Rightarrow> Inr False | Some (JBool b) \<Rightarrow> Inr b | Some _ \<Rightarrow> Inl (''invalid value for '' @ k))"

definition create_issuer_state_decode ::
  "(string \<Rightarrow> string option) \<Rightarrow> json \<Rightarrow> string + create_issuer_state_data" where
  "create_issuer_state_decode parse_uuid v = (case v of
     JObj m \<Rightarrow>
       bindR (opt_member as_string ''assigned_did_url'' m) (\<lambda>url.
       bindR (opt_member as_string ''assigned_identifier'' m) (\<lambda>identifier.
       bindR (opt_member (key_triple_decode parse_uuid) ''key_ids'' m) (\<lambda>keys.
       bindR (bool_member ''didlog_published'' m) (\<lambda>published.
       bindR (opt_member as_string ''status_list_registry_entry_id'' m) (\<lambda>entry_id.
       bindR (opt_member as_string ''status_list_registry_url'' m) (\<lambda>registry_url.
       Inr \<lparr> cs_assigned_did_url = url, cs_assigned_identifier = identifier, cs_key_ids = keys,
             cs_didlog_published = published, cs_status_list_registry_entry_id = entry_id,
             cs_status_list_registry_url = registry_url \<rparr>))))))
   | _ \<Rightarrow> Inl ''invalid type, expected struct CreateIssuerStateData'')"

section \<open>Error outcomes\<close>

definition outcome_for_engine_error :: "string \<Rightarrow> signing_engine_error \<Rightarrow> step_outcome" where
  "outcome_for_engine_error error_code e = (case e of
     SigningBackend _ \<Rightarrow> Retry error_code (show_signing_engine_error e)
   | _ \<Rightarrow> Terminal error_code (show_signing_engine_error e))"

definition retry_on_db :: "string \<Rightarrow> string \<Rightarrow> string \<Rightarrow> step_outcome" where
  "retry_on_db code operation message = Retry code (operation @ '': '' @ message)"

fun persistence_outcome :: "'x pool \<Rightarrow> string \<Rightarrow> string \<Rightarrow> persistence_error \<Rightarrow> step_outcome" where
  "persistence_outcome p code operation (DbError err) = retry_on_db code operation (sql_show p err)"
| "persistence_outcome p code operation NotFound = Terminal code (operation @ '': not found'')"
| "persistence_outcome p code operation (DataIntegrity details) =
     Terminal code (operation @ '': data integrity: '' @ details)"
| "persistence_outcome p code operation (UniqueViolation what) =
     Terminal code (operation @ '': unique violation: '' @ what)"
| "persistence_outcome p code operation (Encryption err) =
     Terminal code (operation @ '': secret encryption: '' @ show_secret_encryption_error err)"

definition persist_issuer_error where
  "persist_issuer_error p operation e = persistence_outcome p ''persist_issuer_failed'' operation e"

definition provision_status_list_error where
  "provision_status_list_error p operation e =
     persistence_outcome p ''provision_status_list_failed'' operation e"

text \<open>The arms every caller of \<open>build_log_entry\<close> has for its errors.\<close>

definition create_build_failure ::
  "string \<Rightarrow> build_error \<Rightarrow> ('s, panic, step_outcome) eff" where
  "create_build_failure code e = (case e of
     BuildEngine (SigningBackend _) \<Rightarrow> ret (Retry code ''signing-engine backend error'')
   | BuildPanic m \<Rightarrow> raise m
   | _ \<Rightarrow> ret (Terminal (build_error_code code e) (show_build_error e)))"

section \<open>Steps\<close>

definition execute_allocate_did ::
  "registry_errors \<Rightarrow> tenant \<Rightarrow> create_issuer_state_data \<Rightarrow> 'x registry_facade \<Rightarrow> 'x token_provider \<Rightarrow>
   ('x world, panic, step_outcome) eff" where
  "execute_allocate_did re tenant state registry provider =
     (if cs_assigned_did_url state \<noteq> None then ret (Done step_result_default)
      else bindE (reify (ext (allocate_did_with_refresh provider registry (tn_partner_id tenant))))
        (\<lambda>result. case result of
           Inr allocation \<Rightarrow> ret (Done \<lparr> state_data_patch =
             [(''assigned_did_url'', JStr (al_url allocation)),
              (''assigned_identifier'', JStr (al_identifier allocation))] \<rparr>)
         | Inl e \<Rightarrow> ret (from_token_aware_error re e ''registry_unavailable'' ''registry_rejected'')))"

definition execute_generate_keys ::
  "create_issuer_state_data \<Rightarrow> 'x signing_engine \<Rightarrow> ('x world, panic, step_outcome) eff" where
  "execute_generate_keys state engine =
     (if cs_key_ids state \<noteq> None then ret (Done step_result_default)
      else bindE (reify (ext (se_generate_keypair engine Authorized))) (\<lambda>r1. case r1 of
        Inl e \<Rightarrow> ret (outcome_for_engine_error ''generate_keypair_failed'' e)
      | Inr authorized \<Rightarrow>
         bindE (reify (ext (se_generate_keypair engine Authentication))) (\<lambda>r2. case r2 of
           Inl e \<Rightarrow> ret (outcome_for_engine_error ''generate_keypair_failed'' e)
         | Inr authentication \<Rightarrow>
            bindE (reify (ext (se_generate_keypair engine Assertion))) (\<lambda>r3. case r3 of
              Inl e \<Rightarrow> ret (outcome_for_engine_error ''generate_keypair_failed'' e)
            | Inr assertion \<Rightarrow>
                ret (Done \<lparr> state_data_patch = [(''key_ids'', key_triple_encode
                  \<lparr> kt_authorized = gkp_id authorized, kt_authentication = gkp_id authentication,
                    kt_assertion = gkp_id assertion \<rparr>)] \<rparr>)))))"

definition execute_build_initial_didlog ::
  "did_lib \<Rightarrow> create_issuer_state_data \<Rightarrow> 'x signing_engine \<Rightarrow> datetime \<Rightarrow>
   ('x world, panic, step_outcome) eff" where
  "execute_build_initial_didlog dl state engine now =
     bindE (reify (build_log_entry dl state engine now)) (\<lambda>r. case r of
        Inr entry \<Rightarrow> ret (Done step_result_default)
      | Inl e \<Rightarrow> create_build_failure ''build_initial_didlog_failed'' e)"

definition execute_create_publish_didlog ::
  "did_lib \<Rightarrow> registry_errors \<Rightarrow> tenant \<Rightarrow> create_issuer_state_data \<Rightarrow> 'x registry_facade \<Rightarrow>
   'x signing_engine \<Rightarrow> 'x token_provider \<Rightarrow> datetime \<Rightarrow> ('x world, panic, step_outcome) eff" where
  "execute_create_publish_didlog dl re tenant state registry engine provider now =
     (if cs_didlog_published state then ret (Done step_result_default)
      else case cs_assigned_identifier state of
        None \<Rightarrow> ret (Terminal ''missing_state'' ''state_data missing assigned_identifier'')
      | Some identifier \<Rightarrow>
          bindE (reify (build_log_entry dl state engine now)) (\<lambda>r. case r of
            Inl e \<Rightarrow> create_build_failure ''publish_didlog_failed'' e
          | Inr entry \<Rightarrow>
              bindE (reify (ext (publish_log_entry_with_refresh provider registry
                       (tn_partner_id tenant) identifier (dl_json_to_string dl entry)))) (\<lambda>result.
                case result of
                  Inr _ \<Rightarrow> ret (Done \<lparr> state_data_patch = [(''didlog_published'', JBool True)] \<rparr>)
                | Inl e \<Rightarrow> ret (from_token_aware_error re e ''registry_unavailable''
                                  ''registry_rejected''))))"

definition execute_persist_issuer ::
  "did_lib \<Rightarrow> 'x pool \<Rightarrow> tenant_id \<Rightarrow> issuer_id \<Rightarrow> create_issuer_input \<Rightarrow>
   create_issuer_state_data \<Rightarrow> 'x signing_engine \<Rightarrow> datetime \<Rightarrow>
   ('x world, panic, step_outcome) eff" where
  "execute_persist_issuer dl p tenant_id issuer_id input state engine now =
     bindE (reify (acquire p)) (\<lambda>c. case c of
       Inl e \<Rightarrow> ret (retry_on_db ''persist_issuer_failed'' ''acquire connection'' (sql_show p e))
     | Inr _ \<Rightarrow>
     bindE (reify (find_issuer_by_id p issuer_id)) (\<lambda>f. case f of
       Inl e \<Rightarrow> ret (persist_issuer_error p ''find_by_id'' e)
     | Inr (Some _) \<Rightarrow> ret (Done step_result_default)
     | Inr None \<Rightarrow> (case cs_key_ids state of
         None \<Rightarrow> ret (Terminal ''missing_state'' ''state_data missing key_ids'')
       | Some key_ids \<Rightarrow>
     bindE (reify (build_log_entry dl state engine now)) (\<lambda>r. case r of
       Inl e \<Rightarrow> create_build_failure ''persist_issuer_failed'' e
     | Inr entry \<Rightarrow> (case as_string (jmember ''id'' (jmember ''value'' (jindex 3 entry))) of
         None \<Rightarrow> ret (Terminal ''missing_did'' ''constructed entry has no document.id'')
       | Some did \<Rightarrow>
     bindE (reify (insert_issuer p
         \<lparr> iss_id = issuer_id, iss_tenant_id = tenant_id, iss_did = did,
           iss_state = Some IssuerActive, iss_description = Some (ci_description input),
           iss_authorized_key_id = Some (kt_authorized key_ids),
           iss_authentication_key_id = Some (kt_authentication key_ids),
           iss_assertion_key_id = Some (kt_assertion key_ids),
           iss_display_name = Some (ci_display_name input), iss_logo_uri = None,
           iss_locale = None, iss_created_at = now \<rparr>)) (\<lambda>ins. case ins of
       Inr _ \<Rightarrow> ret (Done step_result_default)
     | Inl (UniqueViolation _) \<Rightarrow> ret (Done step_result_default)
     | Inl e \<Rightarrow> ret (persist_issuer_error p ''insert'' e)))))))"

definition execute_create_status_list_entry ::
  "registry_errors \<Rightarrow> tenant \<Rightarrow> create_issuer_state_data \<Rightarrow> 'x status_registry_facade \<Rightarrow>
   'x token_provider \<Rightarrow> ('x world, panic, step_outcome) eff" where
  "execute_create_status_list_entry re tenant state status_registry provider =
     (if cs_status_list_registry_entry_id state \<noteq> None then ret (Done step_result_default)
      else bindE (reify (ext (create_status_list_entry_with_refresh provider status_registry
               (tn_partner_id tenant)))) (\<lambda>result. case result of
           Inr entry \<Rightarrow> ret (Done \<lparr> state_data_patch =
             [(''status_list_registry_entry_id'', JStr (sle_id entry)),
              (''status_list_registry_url'', JStr (sle_registry_url entry))] \<rparr>)
         | Inl e \<Rightarrow> ret (from_token_aware_error re e ''status_registry_unavailable''
                           ''status_registry_rejected'')))"

definition execute_provision_status_list ::
  "'x pool \<Rightarrow> 'x host \<Rightarrow> issuer_id \<Rightarrow> create_issuer_state_data \<Rightarrow>
   ('x world, panic, step_outcome) eff" where
  "execute_provision_status_list p h issuer_id state =
     bindE (reify (acquire p)) (\<lambda>c. case c of
       Inl e \<Rightarrow> ret (retry_on_db ''provision_status_list_failed'' ''acquire connection'' (sql_show p e))
     | Inr _ \<Rightarrow>
     bindE (reify (current_for_issuer p issuer_id)) (\<lambda>f. case f of
       Inl e \<Rightarrow> ret (provision_status_list_error p ''current_for_issuer'' e)
     | Inr (Some _) \<Rightarrow> ret (Done step_result_default)
     | Inr None \<Rightarrow> (case cs_status_list_registry_entry_id state of
         None \<Rightarrow> ret (Terminal ''missing_state'' ''state_data missing status_list_registry_entry_id'')
       | Some entry_id \<Rightarrow> (case cs_status_list_registry_url state of
         None \<Rightarrow> ret (Terminal ''missing_state'' ''state_data missing status_list_registry_url'')
       | Some registry_url \<Rightarrow>
     bindE (reify (provision_for_issuer p h issuer_id (Some entry_id) (Some registry_url)))
       (\<lambda>r. case r of
          Inr _ \<Rightarrow> ret (Done step_result_default)
        | Inl e \<Rightarrow> ret (provision_status_list_error p ''provision_for_issuer'' e))))))"

end
