(* ===== verification/DeactivateIssuerSaga.thy ===== *)
theory DeactivateIssuerSaga
  imports CreateIssuerSaga
begin

text \<open>
  \<open>worker/deactivate_issuer\<close>: the three steps of the \<open>DeactivateIssuer\<close> saga.
  Build and publish re-derive the entry from the registry tail; the last step
  flips the issuer and cancels its pending offers in one transaction.
\<close>

section \<open>State data\<close>

definition deactivate_issuer_input_decode :: "json \<Rightarrow> string + unit" where
  "deactivate_issuer_input_decode v = (case v of
     JObj [] \<Rightarrow> Inr ()
   | JObj ((k, _) # _) \<Rightarrow> Inl (''unknown field '' @ k)
   | _ \<Rightarrow> Inl ''invalid type, expected struct DeactivateIssuerInput'')"

record deactivate_issuer_state_data =
  ds_didlog_published :: bool

definition deactivate_issuer_state_decode :: "json \<Rightarrow> string + deactivate_issuer_state_data" where
  "deactivate_issuer_state_decode v = (case v of
     JObj m \<Rightarrow> bindR (bool_member ''didlog_published'' m)
                 (\<lambda>b. Inr \<lparr> ds_didlog_published = b \<rparr>)
   | _ \<Rightarrow> Inl ''invalid type, expected struct DeactivateIssuerStateData'')"

definition state_patch_didlog_published :: step_result where
  "state_patch_didlog_published = \<lparr> state_data_patch = [(''didlog_published'', JBool True)] \<rparr>"

section \<open>Build errors\<close>

fun show_deactivation_error :: "saga_build_error \<Rightarrow> string" where
  "show_deactivation_error (Chained e) = show_chained_error e"
| "show_deactivation_error AlreadyDone =
     ''registry'' @ apos @ ''s tail entry is already deactivated '' @ em_dash
     @ '' saga should not have reached build_deactivation_didlog''"

fun deactivation_error_code :: "string \<Rightarrow> saga_build_error \<Rightarrow> string" where
  "deactivation_error_code engine_failure_code (Chained e) = chained_error_code engine_failure_code e"
| "deactivation_error_code engine_failure_code AlreadyDone = ''already_deactivated''"

definition deactivation_build_failure :: "string \<Rightarrow> saga_build_error \<Rightarrow> step_outcome" where
  "deactivation_build_failure code e = (case e of
     Chained (ChainedEngine (SigningBackend _)) \<Rightarrow> Retry code ''signing-engine backend error''
   | _ \<Rightarrow> Terminal (deactivation_error_code code e) (show_deactivation_error e))"

text \<open>The arms of every \<open>fetch_log\<close> call.\<close>

definition fetch_log_failure :: "registry_errors \<Rightarrow> registry_error \<Rightarrow> step_outcome" where
  "fetch_log_failure re e =
     (if registry_is_retryable re e then Retry ''registry_unavailable'' (registry_show re e)
      else Terminal ''registry_rejected'' (registry_show re e))"

definition invalid_did_outcome :: "issuer \<Rightarrow> string \<Rightarrow> step_outcome" where
  "invalid_did_outcome issuer e = Terminal ''invalid_issuer_did''
     (''cannot parse issuer did '' @ iss_did issuer @ '': '' @ e)"

definition no_identifier_outcome :: "issuer \<Rightarrow> step_outcome" where
  "no_identifier_outcome issuer = Terminal ''invalid_issuer_did''
     (''cannot extract registry identifier from did: '' @ iss_did issuer)"

section \<open>Steps\<close>

definition execute_build_deactivation_didlog ::
  "did_lib \<Rightarrow> registry_errors \<Rightarrow> issuer \<Rightarrow> 'x registry_facade \<Rightarrow> 'x signing_engine \<Rightarrow> datetime \<Rightarrow>
   ('x world, panic, step_outcome) eff" where
  "execute_build_deactivation_didlog dl re issuer registry engine now =
     (case dl_from_str dl (iss_did issuer) of
        Inl e \<Rightarrow> ret (invalid_did_outcome issuer e)
      | Inr did \<Rightarrow>
          bindE (reify (ext (rf_fetch_log registry did))) (\<lambda>f. case f of
            Inl e \<Rightarrow> ret (fetch_log_failure re e)
          | Inr fetched \<Rightarrow>
              bindE (reify (build_deactivation_entry dl issuer (fl_entries fetched) engine now)) (\<lambda>r.
                case r of
                  Inr _ \<Rightarrow> ret (Done step_result_default)
                | Inl e \<Rightarrow> ret (deactivation_build_failure ''build_deactivation_didlog_failed'' e))))"

definition execute_deactivate_publish_didlog ::
  "did_lib \<Rightarrow> registry_errors \<Rightarrow> tenant \<Rightarrow> issuer \<Rightarrow> deactivate_issuer_state_data \<Rightarrow>
   'x registry_facade \<Rightarrow> 'x signing_engine \<Rightarrow> 'x token_provider \<Rightarrow> datetime \<Rightarrow>
   ('x world, panic, step_outcome) eff" where
  "execute_deactivate_publish_didlog dl re tenant issuer state registry engine provider now =
     (if ds_didlog_published state then ret (Done step_result_default)
      else case dl_from_str dl (iss_did issuer) of
        Inl e \<Rightarrow> ret (invalid_did_outcome issuer e)
      | Inr did \<Rightarrow> (case registry_identifier did of
          None \<Rightarrow> ret (no_identifier_outcome issuer)
        | Some identifier \<Rightarrow>
          bindE (reify (ext (rf_fetch_log registry did))) (\<lambda>f. case f of
            Inl e \<Rightarrow> ret (fetch_log_failure re e)
          | Inr fetched \<Rightarrow>
              bindE (reify (build_deactivation_entry dl issuer (fl_entries fetched) engine now)) (\<lambda>r.
                case r of
                  Inl AlreadyDone \<Rightarrow> ret (Done state_patch_didlog_published)
                | Inl e \<Rightarrow> ret (deactivation_build_failure ''publish_didlog_failed'' e)
                | Inr entry \<Rightarrow>
                    bindE (reify (ext (publish_log_entry_with_refresh provider registry
                        (tn_partner_id tenant) identifier
                        (build_updated_didlog (fl_raw fetched) (dl_json_to_string dl entry)))))
                      (\<lambda>result. case result of
                         Inr _ \<Rightarrow> ret (Done state_patch_didlog_published)
                       | Inl e \<Rightarrow> ret (from_token_aware_error re e ''registry_unavailable''
                                         ''registry_rejected''))))))"

definition mark_deactivated_error where
  "mark_deactivated_error p operation e = persistence_outcome p ''mark_deactivated_failed'' operation e"

text \<open>
  Every early return of the source drops the transaction; the model leaves the
  body through its error channel with the outcome to report.
\<close>

definition mark_deactivated_body ::
  "'x pool \<Rightarrow> tenant_id \<Rightarrow> issuer_id \<Rightarrow> datetime \<Rightarrow> ('x world, step_outcome, step_outcome tx_end) eff" where
  "mark_deactivated_body p tenant_id issuer_id now =
     bindE (mapErr (mark_deactivated_error p ''find_by_id_for_update_for_tenant'')
              (find_issuer_by_id_for_update_for_tenant p tenant_id issuer_id)) (\<lambda>found.
     bindE (okOr (Terminal ''mark_deactivated_failed''
              ''find_by_id_for_update_for_tenant: not found'') found) (\<lambda>issuer.
     bindE (liftR (mapErrR (\<lambda>e. Terminal ''mark_deactivated_failed'' (case e of
               StateTransitionNotAllowed \<Rightarrow>
                 ''try_deactivate: state transition not allowed (legacy state=NULL row?)''
             | _ \<Rightarrow> ''try_deactivate: '' @ show_domain_error e)) (try_deactivate issuer))) (\<lambda>_.
     bindE (mapErr (mark_deactivated_error p ''set_state'')
              (set_issuer_state p tenant_id issuer_id Deactivated)) (\<lambda>_.
     bindE (mapErr (mark_deactivated_error p ''cancel_all_pending_for_issuer'')
              (cancel_all_pending_for_issuer p tenant_id issuer_id now)) (\<lambda>cancelled.
     ret (Commit (Done step_result_default)))))))"

definition mark_deactivated_tx ::
  "'x pool \<Rightarrow> tenant_id \<Rightarrow> issuer_id \<Rightarrow> datetime \<Rightarrow> ('x world, step_outcome, step_outcome) eff" where
  "mark_deactivated_tx p tenant_id issuer_id now =
     in_tx p (\<lambda>e. retry_on_db ''mark_deactivated_failed'' ''begin'' (sql_show p e))
             (\<lambda>e. retry_on_db ''mark_deactivated_failed'' ''commit'' (sql_show p e))
       (mark_deactivated_body p tenant_id issuer_id now)"

definition execute_mark_deactivated ::
  "'x pool \<Rightarrow> tenant_id \<Rightarrow> issuer_id \<Rightarrow> datetime \<Rightarrow> ('x world, panic, step_outcome) eff" where
  "execute_mark_deactivated p tenant_id issuer_id now =
     bindE (reify (mark_deactivated_tx p tenant_id issuer_id now))
       (\<lambda>r. case r of Inl oc \<Rightarrow> ret oc | Inr oc \<Rightarrow> ret oc)"

end
