(* ===== verification/RotateKeysSaga.thy ===== *)
theory RotateKeysSaga
  imports DeactivateIssuerSaga
begin

text \<open>
  \<open>worker/rotate_keys\<close>: the wire format of the roles, the state data and the
  four steps of the \<open>RotateKeys\<close> saga.
\<close>

section \<open>Roles on the wire\<close>

fun role_name :: "key_role \<Rightarrow> string" where
  "role_name Authorized = ''authorized''"
| "role_name Authentication = ''authentication''"
| "role_name Assertion = ''assertion''"

fun role_debug :: "key_role \<Rightarrow> string" where
  "role_debug Authorized = ''Authorized''"
| "role_debug Authentication = ''Authentication''"
| "role_debug Assertion = ''Assertion''"

definition wire_roles_serialize :: "key_role list \<Rightarrow> json" where
  "wire_roles_serialize roles = JArr (map (\<lambda>r. JStr (role_name r)) roles)"

fun collect_strings :: "json list \<Rightarrow> string + string list" where
  "collect_strings [] = Inr []"
| "collect_strings (v # vs) = (case as_string v of
     None \<Rightarrow> Inl ''invalid type, expected a string''
   | Some s \<Rightarrow> bindR (collect_strings vs) (\<lambda>ss. Inr (s # ss)))"

definition parse_role :: "string \<Rightarrow> string + key_role" where
  "parse_role s =
     (if s = ''authorized'' then Inr Authorized
      else if s = ''authentication'' then Inr Authentication
      else if s = ''assertion'' then Inr Assertion
      else Inl (''unknown role name: '' @ s))"

fun dedup_roles :: "string list \<Rightarrow> key_role list \<Rightarrow> string + key_role list" where
  "dedup_roles [] out = Inr out"
| "dedup_roles (s # ss) out = (case parse_role s of
     Inl e \<Rightarrow> Inl e
   | Inr role \<Rightarrow> dedup_roles ss (if role \<in> set out then out else out @ [role]))"

definition wire_roles_deserialize :: "json \<Rightarrow> string + key_role list" where
  "wire_roles_deserialize v = (case v of
     JArr xs \<Rightarrow> bindR (collect_strings xs) (\<lambda>raw.
       if raw = [] then Inl ''roles must be non-empty''
       else if ''all'' \<in> set raw
       then (if length raw > 1
             then Inl ''\"all\" must appear alone in roles, not mixed with concrete role names''
             else Inr [Authorized, Authentication, Assertion])
       else dedup_roles raw [])
   | _ \<Rightarrow> Inl ''invalid type, expected a non-empty array of role names or [\"all\"]'')"

record rotate_keys_input =
  rk_roles :: "key_role list"

definition rotate_keys_input_decode :: "json \<Rightarrow> string + rotate_keys_input" where
  "rotate_keys_input_decode v = (case v of
     JObj m \<Rightarrow>
       (case find (\<lambda>(k, _). k \<noteq> ''roles'') m of
          Some (k, _) \<Rightarrow> Inl (''unknown field '' @ k)
        | None \<Rightarrow> (case map_of m ''roles'' of
            None \<Rightarrow> Inl ''missing field roles''
          | Some rs \<Rightarrow> bindR (wire_roles_deserialize rs) (\<lambda>roles. Inr \<lparr> rk_roles = roles \<rparr>)))
   | _ \<Rightarrow> Inl ''invalid type, expected struct RotateKeysInput'')"

record rotate_keys_state_data =
  rs_new_key_triple :: "key_triple option"
  rs_didlog_published :: bool

definition rotate_keys_state_decode ::
  "(string \<Rightarrow> string option) \<Rightarrow> json \<Rightarrow> string + rotate_keys_state_data" where
  "rotate_keys_state_decode parse_uuid v = (case v of
     JObj m \<Rightarrow>
       bindR (opt_member (key_triple_decode parse_uuid) ''new_key_triple'' m) (\<lambda>triple.
       bindR (bool_member ''didlog_published'' m) (\<lambda>b.
       Inr \<lparr> rs_new_key_triple = triple, rs_didlog_published = b \<rparr>))
   | _ \<Rightarrow> Inl ''invalid type, expected struct RotateKeysStateData'')"

section \<open>Generating the new keys\<close>

record triple_slots =
  ts_authorized :: "key_pair_id option"
  ts_authentication :: "key_pair_id option"
  ts_assertion :: "key_pair_id option"

fun set_slot :: "key_role \<Rightarrow> key_pair_id \<Rightarrow> triple_slots \<Rightarrow> triple_slots" where
  "set_slot Authorized k s = s\<lparr> ts_authorized := Some k \<rparr>"
| "set_slot Authentication k s = s\<lparr> ts_authentication := Some k \<rparr>"
| "set_slot Assertion k s = s\<lparr> ts_assertion := Some k \<rparr>"

fun slot :: "triple_slots \<Rightarrow> key_role \<Rightarrow> key_pair_id option" where
  "slot s Authorized = ts_authorized s"
| "slot s Authentication = ts_authentication s"
| "slot s Assertion = ts_assertion s"

fun generate_for_roles ::
  "'x signing_engine \<Rightarrow> key_role list \<Rightarrow> triple_slots \<Rightarrow> ('x world, signing_engine_error, triple_slots) eff" where
  "generate_for_roles engine [] s = ret s"
| "generate_for_roles engine (role # roles) s =
     bindE (ext (se_generate_keypair engine role)) (\<lambda>kp.
       generate_for_roles engine roles (set_slot role (gkp_id kp) s))"

definition execute_generate_new_keys ::
  "issuer \<Rightarrow> rotate_keys_input \<Rightarrow> rotate_keys_state_data \<Rightarrow> 'x signing_engine \<Rightarrow>
   ('x world, panic, step_outcome) eff" where
  "execute_generate_new_keys issuer input state engine =
     (if rs_new_key_triple state \<noteq> None then ret (Done step_result_default)
      else case find (\<lambda>role. role \<notin> set (rk_roles input) \<and> key_id_for_role issuer role = None)
                  [Authorized, Authentication, Assertion] of
        Some role \<Rightarrow> ret (Terminal ''missing_issuer_field''
          (''issuer is missing current key for non-rotated role '' @ role_debug role))
      | None \<Rightarrow>
          bindE (reify (generate_for_roles engine (rk_roles input)
              \<lparr> ts_authorized = iss_authorized_key_id issuer,
                ts_authentication = iss_authentication_key_id issuer,
                ts_assertion = iss_assertion_key_id issuer \<rparr>)) (\<lambda>r. case r of
            Inl e \<Rightarrow> ret (outcome_for_engine_error ''generate_keypair_failed'' e)
          | Inr s \<Rightarrow>
              bindE (okOr ''authorized id populated above'' (ts_authorized s)) (\<lambda>a.
              bindE (okOr ''authentication id populated above'' (ts_authentication s)) (\<lambda>b.
              bindE (okOr ''assertion id populated above'' (ts_assertion s)) (\<lambda>c.
              ret (Done \<lparr> state_data_patch = [(''new_key_triple'', key_triple_encode
                 \<lparr> kt_authorized = a, kt_authentication = b, kt_assertion = c \<rparr>)] \<rparr>))))))"

section \<open>Build, publish, swap\<close>

fun show_rotation_error :: "saga_build_error \<Rightarrow> string" where
  "show_rotation_error (Chained e) = show_chained_error e"
| "show_rotation_error AlreadyDone =
     ''registry'' @ apos @ ''s tail entry already advertises the new Authorized key '' @ em_dash
     @ '' saga should not have reached build_rotation_didlog a second time''"

fun rotation_error_code :: "string \<Rightarrow> saga_build_error \<Rightarrow> string" where
  "rotation_error_code engine_failure_code (Chained e) = chained_error_code engine_failure_code e"
| "rotation_error_code engine_failure_code AlreadyDone = ''already_rotated''"

definition rotation_build_failure :: "string \<Rightarrow> saga_build_error \<Rightarrow> step_outcome" where
  "rotation_build_failure code e = (case e of
     Chained (ChainedEngine (SigningBackend _)) \<Rightarrow> Retry code ''signing-engine backend error''
   | _ \<Rightarrow> Terminal (rotation_error_code code e) (show_rotation_error e))"

definition missing_triple_outcome :: step_outcome where
  "missing_triple_outcome = Terminal ''missing_state'' ''state_data missing new_key_triple''"

definition execute_build_rotation_didlog ::
  "did_lib \<Rightarrow> registry_errors \<Rightarrow> issuer \<Rightarrow> rotate_keys_state_data \<Rightarrow> 'x registry_facade \<Rightarrow>
   'x signing_engine \<Rightarrow> datetime \<Rightarrow> ('x world, panic, step_outcome) eff" where
  "execute_build_rotation_didlog dl re issuer state registry engine now =
     (case rs_new_key_triple state of
        None \<Rightarrow> ret missing_triple_outcome
      | Some new_triple \<Rightarrow> (case dl_from_str dl (iss_did issuer) of
          Inl e \<Rightarrow> ret (invalid_did_outcome issuer e)
        | Inr did \<Rightarrow>
            bindE (reify (ext (rf_fetch_log registry did))) (\<lambda>f. case f of
              Inl e \<Rightarrow> ret (fetch_log_failure re e)
            | Inr fetched \<Rightarrow>
                bindE (reify (build_rotation_entry dl issuer new_triple (fl_entries fetched) engine now))
                  (\<lambda>r. case r of
                     Inr _ \<Rightarrow> ret (Done step_result_default)
                   | Inl e \<Rightarrow> ret (rotation_build_failure ''build_rotation_didlog_failed'' e)))))"

definition execute_rotate_publish_didlog ::
  "did_lib \<Rightarrow> registry_errors \<Rightarrow> tenant \<Rightarrow> issuer \<Rightarrow> rotate_keys_state_data \<Rightarrow>
   'x registry_facade \<Rightarrow> 'x signing_engine \<Rightarrow> 'x token_provider \<Rightarrow> datetime \<Rightarrow>
   ('x world, panic, step_outcome) eff" where
  "execute_rotate_publish_didlog dl re tenant issuer state registry engine provider now =
     (if rs_didlog_published state then ret (Done step_result_default)
      else case rs_new_key_triple state of
        None \<Rightarrow> ret missing_triple_outcome
      | Some new_triple \<Rightarrow> (case dl_from_str dl (iss_did issuer) of
          Inl e \<Rightarrow> ret (invalid_did_outcome issuer e)
        | Inr did \<Rightarrow> (case registry_identifier did of
            None \<Rightarrow> ret (no_identifier_outcome issuer)
          | Some identifier \<Rightarrow>
            bindE (reify (ext (rf_fetch_log registry did))) (\<lambda>f. case f of
              Inl e \<Rightarrow> ret (fetch_log_failure re e)
            | Inr fetched \<Rightarrow>
                bindE (reify (build_rotation_entry dl issuer new_triple (fl_entries fetched) engine now))
                  (\<lambda>r. case r of
                     Inl AlreadyDone \<Rightarrow> ret (Done state_patch_didlog_published)
                   | Inl e \<Rightarrow> ret (rotation_build_failure ''publish_didlog_failed'' e)
                   | Inr entry \<Rightarrow>
                       bindE (reify (ext (publish_log_entry_with_refresh provider registry
                           (tn_partner_id tenant) identifier
                           (build_updated_didlog (fl_raw fetched) (dl_json_to_string dl entry)))))
                         (\<lambda>result. case result of
                            Inr _ \<Rightarrow> ret (Done state_patch_didlog_published)
                          | Inl e \<Rightarrow> ret (from_token_aware_error re e ''registry_unavailable''
                                            ''registry_rejected'')))))))"

definition swap_keys_error where
  "swap_keys_error p operation e = persistence_outcome p ''swap_keys_failed'' operation e"

definition execute_swap_keys ::
  "'x pool \<Rightarrow> tenant_id \<Rightarrow> issuer_id \<Rightarrow> rotate_keys_state_data \<Rightarrow>
   ('x world, panic, step_outcome) eff" where
  "execute_swap_keys p tenant_id issuer_id state =
     (case rs_new_key_triple state of
        None \<Rightarrow> ret missing_triple_outcome
      | Some t \<Rightarrow>
          bindE (reify (acquire p)) (\<lambda>c. case c of
            Inl e \<Rightarrow> ret (retry_on_db ''swap_keys_failed'' ''acquire connection'' (sql_show p e))
          | Inr _ \<Rightarrow>
              bindE (reify (swap_key_triple p tenant_id issuer_id (kt_authorized t)
                        (kt_authentication t) (kt_assertion t))) (\<lambda>r. case r of
                Inr _ \<Rightarrow> ret (Done step_result_default)
              | Inl e \<Rightarrow> ret (swap_keys_error p ''swap_key_triple'' e))))"

end
