(* ===== verification/Runner.thy ===== *)
theory Runner
  imports RotateKeysSaga
begin

text \<open>
  \<open>worker/runner.rs\<close>: the dispatch loop.  One iteration claims the next
  runnable task in a transaction, runs the executor of its current step and
  writes the outcome back.  \<open>run_loop\<close> bounds the endless loop of \<open>run\<close> by a
  number of polls; the token \<open>shutdown\<close> is read before each poll as in the
  source.  A panic of an executor ends the loop.
\<close>

section \<open>The worker\<close>

datatype worker_error =
    WorkerPersistence persistence_error
  | WorkerDecode string
  | WorkerPanic panic

record 'x worker =
  wk_pool :: "'x pool"
  wk_host :: "'x host"
  wk_registry :: "'x registry_facade"
  wk_engine :: "'x signing_engine"
  wk_status_registry :: "'x status_registry_facade"
  wk_providers :: "tenant_id \<Rightarrow> 'x token_provider"
  wk_rng :: "'x rng"
  wk_did_lib :: did_lib
  wk_registry_errors :: registry_errors
  wk_parse_uuid :: "string \<Rightarrow> string option"
  wk_shutdown :: "'x \<Rightarrow> bool"

abbreviation db_err :: "sqlx_error \<Rightarrow> worker_error" where
  "db_err e \<equiv> WorkerPersistence (DbError e)"

section \<open>Claiming\<close>

definition claim_body ::
  "'x pool \<Rightarrow> datetime \<Rightarrow> ('x world, persistence_error, operation_task option tx_end) eff" where
  "claim_body p now =
     bindE (find_next_acquirable_for_update p now) (\<lambda>found. case found of
        None \<Rightarrow> ret (Rollback None)
      | Some task \<Rightarrow>
          bindE (liftR (mapErrR (\<lambda>e. DataIntegrity (''try_acquire: '' @ show_domain_error e))
                   (try_acquire now task))) (\<lambda>task'.
          bindE (set_acquired p task') (\<lambda>_. ret (Commit (Some task')))))"

definition acquire_next ::
  "'x worker \<Rightarrow> ('x world, persistence_error, operation_task option) eff" where
  "acquire_next wk = bindE (utc_now (wk_host wk)) (\<lambda>now.
     in_tx (wk_pool wk) DbError DbError (claim_body (wk_pool wk) now))"

section \<open>Writing the outcome\<close>

definition finish_step ::
  "'x worker \<Rightarrow> operation_task \<Rightarrow> step_outcome \<Rightarrow> string option \<Rightarrow> ('x world, worker_error, unit) eff" where
  "finish_step wk task outcome next_step =
     (let p = wk_pool wk in
      bindE (utc_now (wk_host wk)) (\<lambda>now.
      bindE (mapErr db_err (acquire p)) (\<lambda>_.
      mapErr WorkerPersistence (case (outcome, next_step) of
        (Done _, None) \<Rightarrow>
          bindE (liftR (mapErrR (\<lambda>e. DataIntegrity (''try_complete: '' @ show_domain_error e))
                   (try_complete now task))) (\<lambda>task'. set_terminal_state p task')
      | _ \<Rightarrow> apply_outcome p (wk_rng wk) task next_step outcome now))))"

definition load_tenant :: "'x worker \<Rightarrow> operation_task \<Rightarrow> ('x world, worker_error, tenant) eff" where
  "load_tenant wk task =
     bindE (mapErr db_err (acquire (wk_pool wk))) (\<lambda>_.
     bindE (mapErr WorkerPersistence (find_tenant_by_id (wk_pool wk) (ot_tenant_id task)))
       (okOr (WorkerDecode (''tenant '' @ id_display ''tenant'' (tenant_bare (ot_tenant_id task))
          @ '' not found''))))"

definition load_issuer ::
  "'x worker \<Rightarrow> operation_task \<Rightarrow> issuer_id \<Rightarrow> ('x world, worker_error, issuer) eff" where
  "load_issuer wk task issuer_id =
     bindE (mapErr WorkerPersistence (find_issuer_by_id_for_tenant (wk_pool wk) (ot_tenant_id task) issuer_id))
       (okOr (WorkerDecode (''issuer '' @ id_display ''issuer'' (issuer_bare issuer_id)
          @ '' not found for tenant '' @ id_display ''tenant'' (tenant_bare (ot_tenant_id task)))))"

section \<open>Executors\<close>

definition create_issuer_step ::
  "'x worker \<Rightarrow> operation_task \<Rightarrow> tenant \<Rightarrow> create_issuer_input \<Rightarrow> create_issuer_state_data \<Rightarrow>
   string \<Rightarrow> ('x world, worker_error, step_outcome \<times> string option) eff" where
  "create_issuer_step wk task tenant input state step_name =
     (let p = wk_pool wk; dl = wk_did_lib wk; re = wk_registry_errors wk;
          provider = wk_providers wk (ot_tenant_id task); entry_now = ot_created_at task;
          step = (\<lambda>m nxt. bindE (mapErr WorkerPanic m) (\<lambda>oc. ret (oc, nxt)))
      in if step_name = ''allocate_did'' then
           step (execute_allocate_did re tenant state (wk_registry wk) provider) (Some ''generate_keys'')
         else if step_name = ''generate_keys'' then
           step (execute_generate_keys state (wk_engine wk)) (Some ''build_initial_didlog'')
         else if step_name = ''build_initial_didlog'' then
           step (execute_build_initial_didlog dl state (wk_engine wk) entry_now) (Some ''publish_didlog'')
         else if step_name = ''publish_didlog'' then
           step (execute_create_publish_didlog dl re tenant state (wk_registry wk) (wk_engine wk)
                   provider entry_now) (Some ''persist_issuer'')
         else if step_name = ''persist_issuer'' then
           bindE (okOr (WorkerDecode ''task.result_issuer_id is None at persist_issuer'')
                    (ot_result_issuer_id task)) (\<lambda>issuer_id.
           step (execute_persist_issuer dl p (ot_tenant_id task) issuer_id input state (wk_engine wk)
                   entry_now) (Some ''create_status_list_entry''))
         else if step_name = ''create_status_list_entry'' then
           step (execute_create_status_list_entry re tenant state (wk_status_registry wk) provider)
                (Some ''provision_status_list'')
         else if step_name = ''provision_status_list'' then
           bindE (okOr (WorkerDecode ''task.result_issuer_id is None at provision_status_list'')
                    (ot_result_issuer_id task)) (\<lambda>issuer_id.
           step (execute_provision_status_list p (wk_host wk) issuer_id state) None)
         else raise (WorkerDecode (''unknown step: '' @ step_name)))"

definition execute_create_issuer ::
  "'x worker \<Rightarrow> operation_task \<Rightarrow> ('x world, worker_error, unit) eff" where
  "execute_create_issuer wk task =
     bindE (liftR (mapErrR (\<lambda>e. WorkerDecode (''input: '' @ e))
              (create_issuer_input_decode (ot_input task)))) (\<lambda>input.
     bindE (liftR (mapErrR (\<lambda>e. WorkerDecode (''state_data: '' @ e))
              (create_issuer_state_decode (wk_parse_uuid wk) (ot_state_data task)))) (\<lambda>state.
     bindE (load_tenant wk task) (\<lambda>tenant.
     bindE (create_issuer_step wk task tenant input state
              (case ot_step task of Some s \<Rightarrow> s | None \<Rightarrow> ''allocate_did'')) (\<lambda>(outcome, next_step).
     finish_step wk task outcome next_step))))"

definition deactivate_issuer_step ::
  "'x worker \<Rightarrow> operation_task \<Rightarrow> tenant \<Rightarrow> issuer \<Rightarrow> issuer_id \<Rightarrow> deactivate_issuer_state_data \<Rightarrow>
   string \<Rightarrow> ('x world, worker_error, step_outcome \<times> string option) eff" where
  "deactivate_issuer_step wk task tenant issuer issuer_id state step_name =
     (let p = wk_pool wk; dl = wk_did_lib wk; re = wk_registry_errors wk;
          provider = wk_providers wk (ot_tenant_id task); entry_now = ot_created_at task;
          step = (\<lambda>m nxt. bindE (mapErr WorkerPanic m) (\<lambda>oc. ret (oc, nxt)))
      in if step_name = ''build_deactivation_didlog'' then
           step (execute_build_deactivation_didlog dl re issuer (wk_registry wk) (wk_engine wk) entry_now)
                (Some ''publish_didlog'')
         else if step_name = ''publish_didlog'' then
           step (execute_deactivate_publish_didlog dl re tenant issuer state (wk_registry wk)
                   (wk_engine wk) provider entry_now) (Some ''mark_deactivated'')
         else if step_name = ''mark_deactivated'' then
           step (execute_mark_deactivated p (ot_tenant_id task) issuer_id entry_now) None
         else raise (WorkerDecode (''unknown step: '' @ step_name)))"

definition execute_deactivate_issuer ::
  "'x worker \<Rightarrow> operation_task \<Rightarrow> ('x world, worker_error, unit) eff" where
  "execute_deactivate_issuer wk task =
     bindE (liftR (mapErrR (\<lambda>e. WorkerDecode (''input: '' @ e))
              (deactivate_issuer_input_decode (ot_input task)))) (\<lambda>_.
     bindE (liftR (mapErrR (\<lambda>e. WorkerDecode (''state_data: '' @ e))
              (deactivate_issuer_state_decode (ot_state_data task)))) (\<lambda>state.
     bindE (okOr (WorkerDecode ''task.result_issuer_id is None for DeactivateIssuer'')
              (ot_result_issuer_id task)) (\<lambda>issuer_id.
     bindE (load_tenant wk task) (\<lambda>tenant.
     bindE (load_issuer wk task issuer_id) (\<lambda>issuer.
     bindE (deactivate_issuer_step wk task tenant issuer issuer_id state
              (case ot_step task of Some s \<Rightarrow> s | None \<Rightarrow> ''build_deactivation_didlog''))
       (\<lambda>(outcome, next_step). finish_step wk task outcome next_step))))))"

definition rotate_keys_step ::
  "'x worker \<Rightarrow> operation_task \<Rightarrow> tenant \<Rightarrow> issuer \<Rightarrow> issuer_id \<Rightarrow> rotate_keys_input \<Rightarrow>
   rotate_keys_state_data \<Rightarrow> string \<Rightarrow> ('x world, worker_error, step_outcome \<times> string option) eff" where
  "rotate_keys_step wk task tenant issuer issuer_id input state step_name =
     (let p = wk_pool wk; dl = wk_did_lib wk; re = wk_registry_errors wk;
          provider = wk_providers wk (ot_tenant_id task); entry_now = ot_created_at task;
          step = (\<lambda>m nxt. bindE (mapErr WorkerPanic m) (\<lambda>oc. ret (oc, nxt)))
      in if step_name = ''generate_new_keys'' then
           step (execute_generate_new_keys issuer input state (wk_engine wk)) (Some ''build_rotation_didlog'')
         else if step_name = ''build_rotation_didlog'' then
           step (execute_build_rotation_didlog dl re issuer state (wk_registry wk) (wk_engine wk) entry_now)
                (Some ''publish_didlog'')
         else if step_name = ''publish_didlog'' then
           step (execute_rotate_publish_didlog dl re tenant issuer state (wk_registry wk) (wk_engine wk)
                   provider entry_now) (Some ''swap_keys'')
         else if step_name = ''swap_keys'' then
           step (execute_swap_keys p (ot_tenant_id task) issuer_id state) None
         else raise (WorkerDecode (''unknown step: '' @ step_name)))"

definition execute_rotate_keys ::
  "'x worker \<Rightarrow> operation_task \<Rightarrow> ('x world, worker_error, unit) eff" where
  "execute_rotate_keys wk task =
     bindE (liftR (mapErrR (\<lambda>e. WorkerDecode (''input: '' @ e))
              (rotate_keys_input_decode (ot_input task)))) (\<lambda>input.
     bindE (liftR (mapErrR (\<lambda>e. WorkerDecode (''state_data: '' @ e))
              (rotate_keys_state_decode (wk_parse_uuid wk) (ot_state_data task)))) (\<lambda>state.
     bindE (okOr (WorkerDecode ''task.result_issuer_id is None for RotateKeys'')
              (ot_result_issuer_id task)) (\<lambda>issuer_id.
     bindE (load_tenant wk task) (\<lambda>tenant.
     bindE (load_issuer wk task issuer_id) (\<lambda>issuer.
     bindE (rotate_keys_step wk task tenant issuer issuer_id input state
              (case ot_step task of Some s \<Rightarrow> s | None \<Rightarrow> ''generate_new_keys''))
       (\<lambda>(outcome, next_step). finish_step wk task outcome next_step))))))"

fun execute_task_of :: "task_type \<Rightarrow> 'x worker \<Rightarrow> operation_task \<Rightarrow> ('x world, worker_error, unit) eff" where
  "execute_task_of CreateIssuer wk task = execute_create_issuer wk task"
| "execute_task_of DeactivateIssuer wk task = execute_deactivate_issuer wk task"
| "execute_task_of RotateKeys wk task = execute_rotate_keys wk task"

definition execute_task :: "'x worker \<Rightarrow> operation_task \<Rightarrow> ('x world, worker_error, unit) eff" where
  "execute_task wk task = execute_task_of (ot_task_type task) wk task"

section \<open>The loop\<close>

datatype poll_result = Dispatched "worker_error + unit" | Idle | AcquireFailed persistence_error

definition poll :: "'x worker \<Rightarrow> ('x world, panic, poll_result) eff" where
  "poll wk = bindE (reify (acquire_next wk)) (\<lambda>r. case r of
     Inl e \<Rightarrow> ret (AcquireFailed e)
   | Inr None \<Rightarrow> ret Idle
   | Inr (Some task) \<Rightarrow>
       bindE (reify (execute_task wk task)) (\<lambda>x. case x of
         Inl (WorkerPanic m) \<Rightarrow> raise m
       | _ \<Rightarrow> ret (Dispatched x)))"

fun run_loop :: "'x worker \<Rightarrow> nat \<Rightarrow> ('x world, panic, nat) eff" where
  "run_loop wk 0 = ret 0"
| "run_loop wk (Suc n) = (\<lambda>w. if wk_shutdown wk (wext w) then ret (Suc n) w
     else bindE (poll wk) (\<lambda>_. run_loop wk n) w)"

end
