(* ===== verification/WorkerInv.thy ===== *)
theory WorkerInv
  imports Runner
begin

text \<open>
  The task table under the worker: no saga step touches it, so an iteration
  changes only the row of the task it claimed, and only along the transitions
  of the aggregate.
\<close>

section \<open>Frame: steps do not touch the task table\<close>

lemma insert_issuer_frame [pres]:
  "preserves (\<lambda>w. Q (operation_tasks (wdb w))) (insert_issuer p i)"
  unfolding insert_issuer_def
  by (intro pres run_stmt_preserves) (auto split: if_splits)

lemma provision_for_issuer_frame [pres]:
  "preserves (\<lambda>w. Q (operation_tasks (wdb w))) (provision_for_issuer p h i e u)"
  unfolding provision_for_issuer_def Let_def
  by (intro pres run_stmt_world_preserves run_stmt_preserves)
     (auto simp: update_stmt_def split: if_splits)

lemma set_issuer_state_frame [pres]:
  "preserves (\<lambda>w. Q (operation_tasks (wdb w))) (set_issuer_state p t i s)"
  unfolding set_issuer_state_def
  by (intro pres run_stmt_preserves) (auto simp: update_stmt_def)

lemma swap_key_triple_frame [pres]:
  "preserves (\<lambda>w. Q (operation_tasks (wdb w))) (swap_key_triple p t i a b c)"
  unfolding swap_key_triple_def
  by (intro pres run_stmt_preserves) (auto simp: update_stmt_def)

lemma cancel_all_frame [pres]:
  "preserves (\<lambda>w. Q (operation_tasks (wdb w))) (cancel_all_pending_for_issuer p t i now)"
  unfolding cancel_all_pending_for_issuer_def
  by (intro pres run_stmt_preserves) (auto simp: update_stmt_def)

lemma lookups_keep_db [pres]:
  "preserves (\<lambda>w. P (wdb w)) (find_tenant_by_id p t)"
  "preserves (\<lambda>w. P (wdb w)) (find_issuer_by_id p i)"
  "preserves (\<lambda>w. P (wdb w)) (find_issuer_by_id_for_tenant p t i)"
  "preserves (\<lambda>w. P (wdb w)) (find_issuer_by_id_for_update_for_tenant p t i)"
  "preserves (\<lambda>w. P (wdb w)) (current_for_issuer p i)"
  "preserves (\<lambda>w. P (wdb w)) (find_next_acquirable_for_update p now)"
  unfolding find_tenant_by_id_def find_issuer_by_id_def find_issuer_by_id_for_tenant_def
    find_issuer_by_id_for_update_for_tenant_def current_for_issuer_def
    find_next_acquirable_for_update_def
  by (intro pres)+

lemma builders_keep_db [pres]:
  "preserves (\<lambda>w. P (wdb w)) (sign_and_append_proof dl en v k mk vid tm)"
  "preserves (\<lambda>w. P (wdb w)) (get_ed25519_multikey dl en ee ke role k)"
  "preserves (\<lambda>w. P (wdb w)) (get_p256 en ee ke role k)"
  unfolding sign_and_append_proof_def get_ed25519_multikey_def get_p256_def Let_def
  by (intro pres)+

lemma build_entries_keep_db [pres]:
  "preserves (\<lambda>w. P (wdb w)) (build_log_entry dl st en now)"
  "preserves (\<lambda>w. P (wdb w)) (build_deactivation_entry dl i log en now)"
  "preserves (\<lambda>w. P (wdb w)) (build_rotation_entry dl i tr log en now)"
  unfolding build_log_entry_def build_deactivation_entry_def build_rotation_entry_def Let_def
  by (intro pres)+

lemma create_build_failure_keeps [pres]: "preserves P (create_build_failure code e)"
  by (auto simp: create_build_failure_def pres split: build_error.splits signing_engine_error.splits)

lemma generate_for_roles_keeps_db [pres]:
  "preserves (\<lambda>w. P (wdb w)) (generate_for_roles en rs s)"
  by (induction rs arbitrary: s) (auto intro!: pres)

lemma preserves_saga_error [pres]:
  "preserves P m \<Longrightarrow> (\<And>e. preserves P (f e)) \<Longrightarrow>
   preserves P (case x of AlreadyDone \<Rightarrow> m | Chained e \<Rightarrow> f e)"
  by (cases x) auto

lemma preserves_persistence_error [pres]:
  "(\<And>u. preserves P (m u)) \<Longrightarrow> preserves P n \<Longrightarrow> (\<And>d. preserves P (f d)) \<Longrightarrow>
   (\<And>d. preserves P (g d)) \<Longrightarrow> (\<And>d. preserves P (k d)) \<Longrightarrow>
   preserves P (case x of NotFound \<Rightarrow> n | UniqueViolation u \<Rightarrow> m u | DataIntegrity d \<Rightarrow> f d
     | DbError d \<Rightarrow> g d | Encryption d \<Rightarrow> k d)"
  by (cases x) auto

lemma steps_without_db [pres]:
  "preserves (\<lambda>w. P (wdb w)) (execute_allocate_did re tn cst rg tp)"
  "preserves (\<lambda>w. P (wdb w)) (execute_generate_keys cst en)"
  "preserves (\<lambda>w. P (wdb w)) (execute_build_initial_didlog dl cst en now)"
  "preserves (\<lambda>w. P (wdb w)) (execute_create_publish_didlog dl re tn cst rg en tp now)"
  "preserves (\<lambda>w. P (wdb w)) (execute_create_status_list_entry re tn cst srg tp)"
  "preserves (\<lambda>w. P (wdb w)) (execute_build_deactivation_didlog dl re is rg en now)"
  "preserves (\<lambda>w. P (wdb w)) (execute_deactivate_publish_didlog dl re tn is dst rg en tp now)"
  "preserves (\<lambda>w. P (wdb w)) (execute_generate_new_keys is inp rst en)"
  "preserves (\<lambda>w. P (wdb w)) (execute_build_rotation_didlog dl re is rst rg en now)"
  "preserves (\<lambda>w. P (wdb w)) (execute_rotate_publish_didlog dl re tn is rst rg en tp now)"
  unfolding execute_allocate_did_def execute_generate_keys_def execute_build_initial_didlog_def
    execute_create_publish_didlog_def execute_create_status_list_entry_def
    execute_build_deactivation_didlog_def execute_deactivate_publish_didlog_def
    execute_generate_new_keys_def execute_build_rotation_didlog_def execute_rotate_publish_didlog_def
  by (intro pres)+

lemma steps_with_db [pres]:
  "preserves (\<lambda>w. Q (operation_tasks (wdb w))) (execute_persist_issuer dl p t i ipt cst en now)"
  "preserves (\<lambda>w. Q (operation_tasks (wdb w))) (execute_provision_status_list p h i cst)"
  "preserves (\<lambda>w. Q (operation_tasks (wdb w))) (execute_mark_deactivated p t i now)"
  "preserves (\<lambda>w. Q (operation_tasks (wdb w))) (execute_swap_keys p t i rst)"
  unfolding execute_persist_issuer_def execute_provision_status_list_def
    execute_mark_deactivated_def mark_deactivated_tx_def mark_deactivated_body_def execute_swap_keys_def
  by (intro pres in_tx_preserves [where P = "\<lambda>d. Q (operation_tasks d)"])+

section \<open>The claimed task through an execution\<close>

lemma claimed_frame:
  assumes "\<And>Q. preserves (\<lambda>w. Q (operation_tasks (wdb w))) m"
  shows "preserves (\<lambda>w. claimed i R (wdb w)) m"
proof -
  have "claimed i R d \<longleftrightarrow> (\<lambda>ts. distinct (map ot_id ts) \<and> (\<forall>t \<in> set ts. task_wf t) \<and> others i R ts \<and>
     (\<exists>r. row_by ot_id i ts = Some r \<and> ot_state r = InProgress)) (operation_tasks d)" for d
    by (auto simp: claimed_def table_ok_def tasks_inv_def)
  then show ?thesis using assms by simp
qed

lemma finish_step_ok:
  "leads (\<lambda>w. claimed (ot_id t) R (wdb w)) (\<lambda>w. table_ok (ot_id t) R (wdb w)) (finish_step wk t oc nxt)"
proof -
  have complete: "leads (\<lambda>w. claimed (ot_id t) R (wdb w)) (\<lambda>w. table_ok (ot_id t) R (wdb w))
     (bindE (liftR (mapErrR (\<lambda>e. DataIntegrity (''try_complete: '' @ show_domain_error e))
        (try_complete now t))) (\<lambda>t'. set_terminal_state (wk_pool wk) t'))" for now
  proof (cases "try_complete now t")
    case (Inl e)
    then show ?thesis by (auto simp: leads_def claimed_table_ok)
  next
    case (Inr t')
    then have t': "task_wf t'" "task_state_is_terminal (ot_state t')" "ot_id t' = ot_id t"
      using try_complete_wf by (auto simp: try_complete_def split: task_state.splits)
    then show ?thesis
      using Inr set_terminal_state_ok [of t' R "wk_pool wk"]
      by (auto simp: leads_def preserves_def claimed_table_ok)
  qed
  have other: "leads (\<lambda>w. claimed (ot_id t) R (wdb w)) (\<lambda>w. table_ok (ot_id t) R (wdb w))
     (apply_outcome (wk_pool wk) (wk_rng wk) t nxt' oc' now)" for now oc' nxt'
    by (simp add: leads_def apply_outcome_ok)
  have body: "leads (\<lambda>w. claimed (ot_id t) R (wdb w)) (\<lambda>w. table_ok (ot_id t) R (wdb w))
     (case (oc, nxt) of
        (Done _, None) \<Rightarrow>
          bindE (liftR (mapErrR (\<lambda>e. DataIntegrity (''try_complete: '' @ show_domain_error e))
                   (try_complete now t))) (\<lambda>task'. set_terminal_state (wk_pool wk) task')
      | _ \<Rightarrow> apply_outcome (wk_pool wk) (wk_rng wk) t nxt oc now)" for now
    by (cases oc; cases nxt; simp only: prod.case step_outcome.case option.case complete other)
  show ?thesis
    unfolding finish_step_def Let_def
    by (intro leads_bindE leads_mapErr pres body) (auto intro: claimed_table_ok)
qed

lemma load_keeps_db [pres]:
  "preserves (\<lambda>w. P (wdb w)) (load_tenant wk t)"
  "preserves (\<lambda>w. P (wdb w)) (load_issuer wk t i)"
  unfolding load_tenant_def load_issuer_def by (intro pres)+

lemma saga_steps_frame [pres]:
  "preserves (\<lambda>w. Q (operation_tasks (wdb w))) (create_issuer_step wk t tn inp cst s)"
  "preserves (\<lambda>w. Q (operation_tasks (wdb w))) (deactivate_issuer_step wk t tn is iid dst s)"
  "preserves (\<lambda>w. Q (operation_tasks (wdb w))) (rotate_keys_step wk t tn is iid rin rst s)"
  unfolding create_issuer_step_def deactivate_issuer_step_def rotate_keys_step_def Let_def
  by (intro pres)+

lemma execute_task_ok:
  "leads (\<lambda>w. claimed (ot_id t) R (wdb w)) (\<lambda>w. table_ok (ot_id t) R (wdb w)) (execute_task wk t)"
proof -
  have "leads (\<lambda>w. claimed (ot_id t) R (wdb w)) (\<lambda>w. table_ok (ot_id t) R (wdb w)) (execute_create_issuer wk t)"
    unfolding execute_create_issuer_def
    by (intro leads_bindE leads_prod finish_step_ok claimed_frame pres) (auto intro: claimed_table_ok)
  moreover have "leads (\<lambda>w. claimed (ot_id t) R (wdb w)) (\<lambda>w. table_ok (ot_id t) R (wdb w)) (execute_deactivate_issuer wk t)"
    unfolding execute_deactivate_issuer_def
    by (intro leads_bindE leads_prod finish_step_ok claimed_frame pres) (auto intro: claimed_table_ok)
  moreover have "leads (\<lambda>w. claimed (ot_id t) R (wdb w)) (\<lambda>w. table_ok (ot_id t) R (wdb w)) (execute_rotate_keys wk t)"
    unfolding execute_rotate_keys_def
    by (intro leads_bindE leads_prod finish_step_ok claimed_frame pres) (auto intro: claimed_table_ok)
  ultimately show ?thesis by (cases "ot_task_type t") (simp_all add: execute_task_def)
qed

section \<open>Claiming\<close>

lemma try_acquire_same: "try_acquire now t = Inr t' \<Longrightarrow> ot_id t' = ot_id t \<and> ot_created_at t' = ot_created_at t"
  by (auto simp: try_acquire_def split: task_state.splits)

lemma task_runnable_live: "task_runnable now t \<Longrightarrow> \<not> task_state_is_terminal (ot_state t)"
  by (auto simp: task_runnable_def)

lemma acquire_next_outcome:
  assumes "acquire_next wk w = (r, w')" and inv: "tasks_inv (wdb w)"
  shows "(wdb w' = wdb w \<and> (\<forall>t. r \<noteq> Inr (Some t))) \<or>
         (\<exists>now t0 t. t0 \<in> set (operation_tasks (wdb w)) \<and> task_runnable now t0 \<and>
            try_acquire now t0 = Inr t \<and> (\<forall>u. r = Inr (Some u) \<longrightarrow> u = t) \<and>
            claimed (ot_id t) (\<lambda>j. task_row j (wdb w)) (wdb w'))"
proof -
  let ?p = "wk_pool wk"
  define now where "now = fst (host_clock (wk_host wk) (wext w))"
  define w1 where "w1 = w\<lparr> wext := snd (host_clock (wk_host wk) (wext w)) \<rparr>"
  have w1: "wdb w1 = wdb w" by (simp add: w1_def)
  have tx: "in_tx ?p DbError DbError (claim_body ?p now) w1 = (r, w')"
    using assms(1) by (simp add: acquire_next_def bindE_run now_def w1_def)
  have committed: "\<exists>t0 t. a = Some t \<and> t0 \<in> set (operation_tasks (wdb w)) \<and> task_runnable now t0 \<and>
       try_acquire now t0 = Inr t \<and> claimed (ot_id t) (\<lambda>j. task_row j (wdb w)) (wdb w3)"
    if cb: "claim_body ?p now w2 = (Inr (Commit a), w3)" and w2: "wdb w2 = wdb w" for w2 a w3
  proof -
    obtain t0 w4 t where f: "find_next_acquirable_for_update ?p now w2 = (Inr (Some t0), w4)"
      and acq: "try_acquire now t0 = Inr t" and sa: "set_acquired ?p t w4 = (Inr (), w3)" and a: "a = Some t"
      using cb by (auto simp: claim_body_def eff_success res_success split: option.splits)
    have t0: "wdb w4 = wdb w" "t0 \<in> set (operation_tasks (wdb w))" "task_runnable now t0"
      using find_next_success [OF f] w2 by simp_all
    have "claimed (ot_id t) (\<lambda>j. task_row j (wdb w)) (wdb w3)"
      using update_one_success [OF sa [unfolded set_acquired_def]] t0 inv try_acquire_same [OF acq]
        set_acquired_claims [OF inv _ _ try_acquire_state [OF acq]] task_row_unique [OF inv t0(2)]
        task_runnable_live
      by auto
    then show ?thesis using a t0 acq by blast
  qed
  show ?thesis
  proof (cases r)
    case (Inl e)
    then show ?thesis using in_tx_atomic [OF tx] w1 committed by fastforce
  next
    case (Inr x)
    then obtain w2 y w3 where b: "wdb w2 = wdb w1" "claim_body ?p now w2 = (Inr y, w3)"
      and y: "(y = Commit x \<and> wdb w' = wdb w3) \<or> (y = Rollback x \<and> wdb w' = wdb w1)"
      using in_tx_success [OF tx [unfolded Inr]] by blast
    have "x = None" if "y = Rollback x"
      using that b(2) by (auto simp: claim_body_def eff_success split: option.splits)
    then show ?thesis using y b w1 Inr committed [of w2 x w3] by auto
  qed
qed

section \<open>An iteration\<close>

lemma poll_table:
  assumes "tasks_inv (wdb w)"
  shows "tasks_inv (wdb (snd (poll wk w))) \<and>
    (\<forall>j t. task_row j (wdb w) = Some t \<longrightarrow> task_state_is_terminal (ot_state t) \<longrightarrow>
       task_row j (wdb (snd (poll wk w))) = Some t)"
proof -
  obtain r w1 where a: "acquire_next wk w = (r, w1)" by fastforce
  consider (none) "wdb w1 = wdb w" "\<forall>t. r \<noteq> Inr (Some t)"
    | (claim) now t0 t where "t0 \<in> set (operation_tasks (wdb w))" "task_runnable now t0"
        "try_acquire now t0 = Inr t" "\<forall>u. r = Inr (Some u) \<longrightarrow> u = t"
        "claimed (ot_id t) (\<lambda>j. task_row j (wdb w)) (wdb w1)"
    using acquire_next_outcome [OF a assms] by blast
  then show ?thesis
  proof cases
    case none
    then have "wdb (snd (poll wk w)) = wdb w"
      using a by (auto simp: poll_def bindE_run reify_run split: sum.splits option.splits)
    then show ?thesis using assms by simp
  next
    case claim
    have ok: "table_ok (ot_id t) (\<lambda>j. task_row j (wdb w)) (wdb (snd (poll wk w)))"
    proof (cases "\<exists>u. r = Inr (Some u)")
      case True
      then have r: "r = Inr (Some t)" using claim(4) by blast
      have "wdb (snd (poll wk w)) = wdb (snd (execute_task wk t w1))"
        using a r by (auto simp: poll_def bindE_run reify_run split: sum.splits worker_error.splits)
      then show ?thesis
        using execute_task_ok [of t "\<lambda>j. task_row j (wdb w)" wk] claim(5) by (simp add: leads_def)
    next
      case False
      then have "wdb (snd (poll wk w)) = wdb w1"
        using a by (auto simp: poll_def bindE_run reify_run split: sum.splits option.splits)
      then show ?thesis using claim(5) claimed_table_ok by simp
    qed
    have "task_row (ot_id t) (wdb w) = Some t0"
      using task_row_unique [OF assms claim(1)] try_acquire_same [OF claim(3)] by simp
    then have "j \<noteq> ot_id t" if "task_row j (wdb w) = Some u" "task_state_is_terminal (ot_state u)" for j u
      using that task_runnable_live [OF claim(2)] by auto
    then show ?thesis using ok by (simp add: table_ok_def others_def)
  qed
qed

end
