(* ===== verification/Publisher.thy ===== *)
theory Publisher
  imports Outcome StatusListStore
begin

text \<open>
  \<open>domain/status_list/wrapper.rs\<close> and \<open>worker/status_list_publisher.rs\<close>: the
  signed status-list JWT and the publish loop that leases a dirty list, PUTs
  its snapshot and records the outcome.  The typed envelope, the base64 codec
  and the hash are parameters (\<open>wrapper_lib\<close>).
\<close>

section \<open>The signed wrapper\<close>

record wrapper_lib =
  wl_payload_json :: "string \<Rightarrow> string \<Rightarrow> u64 \<Rightarrow> byte list \<Rightarrow> string + json"
  wl_header_json :: "string \<Rightarrow> string \<Rightarrow> json"
  wl_json_to_vec :: "json \<Rightarrow> string + byte list"
  wl_b64url :: "byte list \<Rightarrow> string"

datatype wrapper_error =
    MissingRegistryUrl string
  | MissingAssertionKey string
  | WrapperStatusList string
  | WrapperEngine signing_engine_error
  | WrapperJson string

fun show_wrapper_error :: "wrapper_error \<Rightarrow> string" where
  "show_wrapper_error (MissingRegistryUrl l) =
     ''status_list '' @ l @ '' has no registry_url; create_status_list_entry must run first''"
| "show_wrapper_error (MissingAssertionKey i) = ''issuer '' @ i @ '' has no assertion_key_id''"
| "show_wrapper_error (WrapperStatusList e) = ''status list decode: '' @ e"
| "show_wrapper_error (WrapperEngine e) = ''signing engine: '' @ show_signing_engine_error e"
| "show_wrapper_error (WrapperJson e) = ''JSON serialisation: '' @ e"

definition SECOND :: int where "SECOND = 1000000"

definition timestamp :: "datetime \<Rightarrow> int" where
  "timestamp t = t div SECOND"

definition build_signed ::
  "wrapper_lib \<Rightarrow> (string \<Rightarrow> byte list) \<Rightarrow> status_list \<Rightarrow> issuer \<Rightarrow> 'x signing_engine \<Rightarrow> datetime \<Rightarrow>
   ('x world, wrapper_error, string) eff" where
  "build_signed wl sha256 list issuer engine now =
     bindE (okOr (MissingRegistryUrl (status_list_bare (sl_id list))) (sl_registry_url list)) (\<lambda>registry_url.
     bindE (okOr (MissingAssertionKey (issuer_bare (iss_id issuer))) (iss_assertion_key_id issuer))
       (\<lambda>assertion_key_id.
     bindE (liftR (mapErrR WrapperStatusList (wl_payload_json wl (iss_did issuer) registry_url
              (of_int (timestamp now)) (sl_bitstring list)))) (\<lambda>payload.
     let header = wl_header_json wl ''ES256'' (iss_did issuer @ ''#assertion-key-01'') in
     bindE (liftR (mapErrR WrapperJson (wl_json_to_vec wl header))) (\<lambda>header_vec.
     bindE (liftR (mapErrR WrapperJson (wl_json_to_vec wl payload))) (\<lambda>payload_vec.
     let signing_input = wl_b64url wl header_vec @ ''.'' @ wl_b64url wl payload_vec in
     bindE (mapErr WrapperEngine (ext (se_sign engine assertion_key_id (sha256 signing_input)))) (\<lambda>sig.
     ret (signing_input @ ''.'' @ wl_b64url wl (sig_bytes sig))))))))"

section \<open>The publisher\<close>

datatype publisher_error =
    PubPersistence persistence_error
  | PubTokenAware token_aware_error
  | PubBuild wrapper_error
  | PubInconsistent string

record 'x publisher =
  pb_pool :: "'x pool"
  pb_host :: "'x host"
  pb_engine :: "'x signing_engine"
  pb_status_registry :: "'x status_registry_facade"
  pb_providers :: "tenant_id \<Rightarrow> 'x token_provider"
  pb_rng :: "'x rng"
  pb_wrapper_lib :: wrapper_lib
  pb_registry_errors :: registry_errors
  pb_lease_duration :: int
  pb_terminal_retry_after :: int
  pb_shutdown :: "'x \<Rightarrow> bool"

definition DEFAULT_LEASE_DURATION :: int where "DEFAULT_LEASE_DURATION = 30 * SECOND"
definition DEFAULT_TERMINAL_RETRY :: int where "DEFAULT_TERMINAL_RETRY = 3600 * SECOND"

fun show_token_aware_error :: "registry_errors \<Rightarrow> token_aware_error \<Rightarrow> string" where
  "show_token_aware_error re (RegistryErr e) = registry_show re e"
| "show_token_aware_error re (TokenErr e) = show_token_provider_error e"

definition publisher_acquire_next ::
  "'x publisher \<Rightarrow> ('x world, persistence_error, status_list option) eff" where
  "publisher_acquire_next pb =
     bindE (mapErr DbError (acquire (pb_pool pb))) (\<lambda>_.
     bindE (utc_now (pb_host pb)) (\<lambda>now.
     acquire_next_dirty (pb_pool pb) now (pb_lease_duration pb)))"

definition next_publish_time ::
  "'x publisher \<Rightarrow> status_list \<Rightarrow> token_aware_error \<Rightarrow> datetime \<Rightarrow> ('x world, publisher_error, datetime) eff" where
  "next_publish_time pb list e now =
     (if token_aware_is_retryable (pb_registry_errors pb) e
      then bindE (draw (pb_rng pb)) (\<lambda>rnd.
             let attempts = saturating_add1 (sl_publish_attempts list)
             in ret (now + uint (backoff_delay attempts rnd) * MILLISECOND))
      else ret (now + pb_terminal_retry_after pb))"

text \<open>The PUT of the signed list and the bookkeeping of its outcome.\<close>

definition publish_jwt ::
  "'x publisher \<Rightarrow> status_list \<Rightarrow> issuer \<Rightarrow> tenant \<Rightarrow> string \<Rightarrow> datetime \<Rightarrow> string \<Rightarrow>
   ('x world, publisher_error, unit) eff" where
  "publish_jwt pb list issuer tenant registry_entry_id now jwt =
     (let p = pb_pool pb; re = pb_registry_errors pb in
     bindE (reify (ext (update_status_list_entry_with_refresh (pb_providers pb (iss_tenant_id issuer))
              (pb_status_registry pb) (tn_partner_id tenant) registry_entry_id jwt))) (\<lambda>upd. case upd of
       Inr _ \<Rightarrow>
         bindE (mapErr PubPersistence (record_publish_success p (sl_id list)
                  (sl_committed_version list) now)) (\<lambda>won. ret ())
     | Inl e \<Rightarrow>
         bindE (next_publish_time pb list e now) (\<lambda>nxt.
         bindE (mapErr PubPersistence (record_publish_failure p (sl_id list)
                  (show_token_aware_error re e) nxt now)) (\<lambda>_. raise (PubTokenAware e)))))"

definition sign_and_publish ::
  "'x publisher \<Rightarrow> status_list \<Rightarrow> issuer \<Rightarrow> tenant \<Rightarrow> string \<Rightarrow> datetime \<Rightarrow>
   ('x world, publisher_error, unit) eff" where
  "sign_and_publish pb list issuer tenant registry_entry_id now =
     bindE (reify (build_signed (pb_wrapper_lib pb) (host_sha256 (pb_host pb)) list issuer
              (pb_engine pb) now)) (\<lambda>built. case built of
       Inl e \<Rightarrow>
         bindE (mapErr PubPersistence (record_publish_failure (pb_pool pb) (sl_id list) (show_wrapper_error e)
                  (now + pb_terminal_retry_after pb) now)) (\<lambda>_. raise (PubBuild e))
     | Inr jwt \<Rightarrow> publish_jwt pb list issuer tenant registry_entry_id now jwt)"

definition run_round :: "'x publisher \<Rightarrow> status_list \<Rightarrow> ('x world, publisher_error, unit) eff" where
  "run_round pb list =
     (let p = pb_pool pb in
     bindE (mapErr (\<lambda>e. PubPersistence (DbError e)) (acquire p)) (\<lambda>_.
     bindE (mapErr PubPersistence (find_issuer_by_id p (sl_issuer_id list))) (\<lambda>found_issuer.
     bindE (okOr (PubInconsistent (''status_lists row ''
              @ id_display ''status_list'' (status_list_bare (sl_id list))
              @ '' references missing issuer ''
              @ id_display ''issuer'' (issuer_bare (sl_issuer_id list)))) found_issuer) (\<lambda>issuer.
     bindE (mapErr PubPersistence (find_tenant_by_id p (iss_tenant_id issuer))) (\<lambda>found_tenant.
     bindE (okOr (PubInconsistent (''issuer '' @ id_display ''issuer'' (issuer_bare (iss_id issuer))
              @ '' references missing tenant ''
              @ id_display ''tenant'' (tenant_bare (iss_tenant_id issuer)))) found_tenant) (\<lambda>tenant.
     bindE (okOr (PubInconsistent (''status_lists row ''
              @ id_display ''status_list'' (status_list_bare (sl_id list))
              @ '' has no registry_entry_id; create_status_list_entry must run first''))
              (sl_registry_entry_id list)) (\<lambda>registry_entry_id.
     bindE (utc_now (pb_host pb)) (\<lambda>now.
     sign_and_publish pb list issuer tenant registry_entry_id now))))))))"

datatype publish_poll = PublishRound status_list "publisher_error + unit" | PublishIdle
  | PublishAcquireFailed persistence_error

definition publisher_poll :: "'x publisher \<Rightarrow> ('x world, 'e, publish_poll) eff" where
  "publisher_poll pb = bindE (reify (publisher_acquire_next pb)) (\<lambda>r. case r of
     Inl e \<Rightarrow> ret (PublishAcquireFailed e)
   | Inr None \<Rightarrow> ret PublishIdle
   | Inr (Some list) \<Rightarrow> bindE (reify (run_round pb list)) (\<lambda>x. ret (PublishRound list x)))"

fun publisher_loop :: "'x publisher \<Rightarrow> nat \<Rightarrow> ('x world, 'e, unit) eff" where
  "publisher_loop pb 0 = ret ()"
| "publisher_loop pb (Suc n) = (\<lambda>w. if pb_shutdown pb (wext w) then ret () w
     else bindE (publisher_poll pb) (\<lambda>_. publisher_loop pb n) w)"

end
