(* ===== verification/Paging.thy ===== *)
theory Paging
  imports Db "HOL-Library.List_Lexorder" "HOL-Library.Product_Lexorder"
begin

text \<open>
  Keyset pagination of the list endpoints: \<open>ListPage\<close> of \<open>persistence/mod.rs\<close>,
  the limit of \<open>api_management/mod.rs\<close> and the cursor codec of
  \<open>api_management/cursor.rs\<close>.  The listings order by \<open>(timestamp, id) DESC\<close>;
  ids are compared byte-wise.
\<close>

section \<open>One page\<close>

record 'r list_page =
  lp_items :: "'r list"
  lp_has_more :: bool

type_synonym page_key = "datetime \<times> string"

text \<open>
  \<open>WHERE key < cursor ORDER BY key DESC LIMIT limit + 1\<close>, then the extra row
  is dropped.
\<close>

definition order_desc :: "('r \<Rightarrow> page_key) \<Rightarrow> 'r list \<Rightarrow> 'r list" where
  "order_desc key rows = rev (sort_key key rows)"

definition keyset_page :: "('r \<Rightarrow> page_key) \<Rightarrow> nat \<Rightarrow> page_key option \<Rightarrow> 'r list \<Rightarrow> 'r list_page" where
  "keyset_page key limit cursor rows =
     (let cand = filter (\<lambda>r. case cursor of None \<Rightarrow> True | Some c \<Rightarrow> key r < c) rows;
          fetched = take (limit + 1) (order_desc key cand);
          has_more = length fetched > limit
      in \<lparr> lp_items = (if has_more then butlast fetched else fetched), lp_has_more = has_more \<rparr>)"

text \<open>A client following \<open>next_cursor\<close>, bounded by a number of requests.\<close>

fun fetch_all :: "('r \<Rightarrow> page_key) \<Rightarrow> nat \<Rightarrow> 'r list \<Rightarrow> nat \<Rightarrow> page_key option \<Rightarrow> 'r list option" where
  "fetch_all key limit rows 0 cursor = None"
| "fetch_all key limit rows (Suc n) cursor =
     (let pg = keyset_page key limit cursor rows in
      if \<not> lp_has_more pg then Some (lp_items pg)
      else map_option (\<lambda>rest. lp_items pg @ rest)
             (fetch_all key limit rows n (Some (key (last (lp_items pg))))))"

section \<open>Limits and cursors\<close>

datatype api_error =
    ApiNotFound
  | Unauthorised
  | ServiceUnavailable
  | Forbidden
  | ClaimsValidationFailed "string list"
  | ApiInvalidInput string
  | Conflict string
  | NotImplemented string
  | ApiInternal string

definition DEFAULT_LIST_LIMIT :: u32 where "DEFAULT_LIST_LIMIT = 25"
definition MIN_LIST_LIMIT :: u32 where "MIN_LIST_LIMIT = 1"
definition MAX_LIST_LIMIT :: u32 where "MAX_LIST_LIMIT = 100"

definition resolve_list_limit :: "u32 option \<Rightarrow> api_error + u32" where
  "resolve_list_limit requested =
     (let limit = (case requested of Some l \<Rightarrow> l | None \<Rightarrow> DEFAULT_LIST_LIMIT)
      in if \<not> (MIN_LIST_LIMIT \<le> limit \<and> limit \<le> MAX_LIST_LIMIT)
         then Inl (ApiInvalidInput (''limit must be between '' @ show_nat (unat MIN_LIST_LIMIT)
                @ '' and '' @ show_nat (unat MAX_LIST_LIMIT) @ '', got '' @ show_nat (unat limit)))
         else Inr limit)"

record cursor_lib =
  cl_to_rfc3339 :: "datetime \<Rightarrow> string"
  cl_parse_rfc3339 :: "string \<Rightarrow> datetime option"
  cl_bs58_encode_str :: "string \<Rightarrow> string"
  cl_bs58_decode :: "string \<Rightarrow> byte list option"
  cl_from_utf8 :: "byte list \<Rightarrow> string option"

definition cursor_encode :: "cursor_lib \<Rightarrow> datetime \<Rightarrow> string \<Rightarrow> string" where
  "cursor_encode cl ts bare_id = cl_bs58_encode_str cl (cl_to_rfc3339 cl ts @ ''|'' @ bare_id)"

definition invalid_cursor :: api_error where
  "invalid_cursor = ApiInvalidInput ''cursor query parameter: malformed or not issued by this server''"

definition split_once :: "char \<Rightarrow> string \<Rightarrow> (string \<times> string) option" where
  "split_once ch s = (if ch \<in> set s
     then Some (takeWhile (\<lambda>x. x \<noteq> ch) s, tl (dropWhile (\<lambda>x. x \<noteq> ch) s)) else None)"

definition cursor_decode ::
  "cursor_lib \<Rightarrow> (string \<Rightarrow> domain_error + unit) \<Rightarrow> string \<Rightarrow> api_error + (datetime \<times> string)" where
  "cursor_decode cl validate raw =
     bindR (result_of_option invalid_cursor (cl_bs58_decode cl raw)) (\<lambda>bytes.
     bindR (result_of_option invalid_cursor (cl_from_utf8 cl bytes)) (\<lambda>txt.
     bindR (result_of_option invalid_cursor (split_once (CHR ''|'') txt)) (\<lambda>(ts, i).
     bindR (result_of_option invalid_cursor (cl_parse_rfc3339 cl ts)) (\<lambda>timestamp.
     bindR (mapErrR (\<lambda>_. invalid_cursor) (validate i)) (\<lambda>_.
     Inr (timestamp, i))))))"

section \<open>Pages cover the listing\<close>

lemma split_once_append:
  assumes "ch \<notin> set a"
  shows "split_once ch (a @ ch # b) = Some (a, b)"
proof -
  have "takeWhile (\<lambda>x. x \<noteq> ch) (a @ ch # b) = a" "dropWhile (\<lambda>x. x \<noteq> ch) (a @ ch # b) = ch # b"
    using assms by (induction a) auto
  then show ?thesis by (simp add: split_once_def)
qed

lemma order_desc_filter: "order_desc key (filter P rows) = filter P (order_desc key rows)"
  by (simp add: order_desc_def filter_sort [symmetric] rev_filter)

lemma order_desc_strict:
  assumes "distinct (map key rows)"
  shows "sorted_wrt (\<lambda>a b. key b < key a) (order_desc key rows)"
proof -
  have "sorted_wrt (<) (map key (sort_key key rows))"
    using assms by (simp add: strict_sorted_iff distinct_map)
  then show ?thesis by (simp add: order_desc_def sorted_wrt_rev sorted_wrt_map)
qed

lemma filter_after_cursor:
  fixes key :: "'r \<Rightarrow> page_key"
  assumes "sorted_wrt (\<lambda>a b. key b < key a) (xs @ ys)" and "xs \<noteq> []"
  shows "filter (\<lambda>r. key r < key (last xs)) (xs @ ys) = ys"
proof -
  have "\<not> key x < key (last xs)" if "x \<in> set xs" for x
    using assms that by (cases xs rule: rev_cases) (auto simp: sorted_wrt_append)
  moreover have "key y < key (last xs)" if "y \<in> set ys" for y
    using assms that by (auto simp: sorted_wrt_append)
  ultimately show ?thesis by (simp add: filter_empty_conv)
qed

lemma keyset_page_tail:
  assumes d: "distinct (map key rows)" and s: "order_desc key rows = xs @ ys"
    and c: "cursor = (if xs = [] then None else Some (key (last xs)))"
  shows "keyset_page key limit cursor rows =
    \<lparr> lp_items = take limit ys, lp_has_more = (length ys > limit) \<rparr>"
proof -
  have "order_desc key (filter (\<lambda>r. case cursor of None \<Rightarrow> True | Some c \<Rightarrow> key r < c) rows) = ys"
  proof (cases "xs = []")
    case True
    then show ?thesis using s c by simp
  next
    case False
    have "sorted_wrt (\<lambda>a b. key b < key a) (xs @ ys)" using order_desc_strict [OF d] s by simp
    then show ?thesis using False s c filter_after_cursor by (simp add: order_desc_filter)
  qed
  moreover have "(if length (take (limit + 1) ys) > limit then butlast (take (limit + 1) ys)
      else take (limit + 1) ys) = take limit ys"
    by (auto simp: butlast_conv_take min_def le_Suc_eq)
  ultimately show ?thesis by (auto simp: keyset_page_def Let_def split: if_splits)
qed

text \<open>
  Following the cursors lists every row once, in order, after at most one
  request more than there are full pages.
\<close>

lemma fetch_all_from:
  assumes "distinct (map key rows)" and "0 < limit"
    and "order_desc key rows = xs @ ys" and "cursor = (if xs = [] then None else Some (key (last xs)))"
    and "length ys < n * limit + 1" and "0 < n"
  shows "fetch_all key limit rows n cursor = Some ys"
  using assms(3-6)
proof (induction n arbitrary: xs ys cursor)
  case (Suc n)
  note pg = keyset_page_tail [OF assms(1) Suc.prems(1,2), of limit]
  show ?case
  proof (cases "length ys > limit")
    case True
    define first where "first = take limit ys"
    have ne: "first \<noteq> []" using True assms(2) by (auto simp: first_def)
    have n: "0 < n" using Suc.prems(3) True by (cases n) auto
    have "fetch_all key limit rows n (Some (key (last first))) = Some (drop limit ys)"
    proof (rule Suc.IH)
      show "order_desc key rows = (xs @ first) @ drop limit ys" using Suc.prems(1) by (simp add: first_def)
      show "Some (key (last first)) = (if xs @ first = [] then None else Some (key (last (xs @ first))))"
        using ne by simp
      show "length (drop limit ys) < n * limit + 1" using Suc.prems(3) True by simp
    qed (rule n)
    then show ?thesis using pg True by (simp add: first_def Let_def)
  next
    case False
    then show ?thesis using pg by (simp add: Let_def)
  qed
qed simp

end
