(* ===== verification/OfferStore.thy ===== *)
theory OfferStore
  imports IssuerStore Paging
begin

text \<open>
  \<open>persistence/credential_offers.rs\<close>, \<open>persistence/oidc\<close> (access tokens, nonces
  and the wallet-side reads and writes of offers) and
  \<open>persistence/issued_credentials.rs\<close>.
\<close>

section \<open>Offers\<close>

definition insert_offer ::
  "'x pool \<Rightarrow> credential_offer \<Rightarrow> ('x world, persistence_error, unit) eff" where
  "insert_offer p off = mapErr map_database_error (run_stmt p (\<lambda>d.
     if co_id off \<in> co_id ` set (credential_offers d) then Inl (SqlUnique ''credential_offers_pkey'')
     else if co_tenant_id off \<notin> tn_id ` set (tenants d)
     then Inl (SqlConstraint ''credential_offers_tenant_id_fkey'')
     else if co_issuer_id off \<notin> issuer_key ` set (issuers d)
     then Inl (SqlConstraint ''credential_offers_issuer_id_fkey'')
     else Inr ((), d\<lparr> credential_offers := credential_offers d @ [off] \<rparr>)))"

definition offer_at :: "tenant_id \<Rightarrow> issuer_id \<Rightarrow> offer_id \<Rightarrow> credential_offer \<Rightarrow> bool" where
  "offer_at tenant issuer offer off \<longleftrightarrow>
     co_id off = offer \<and> co_tenant_id off = tenant \<and> co_issuer_id off = issuer"

definition find_offer_by_id ::
  "'x pool \<Rightarrow> tenant_id \<Rightarrow> issuer_id \<Rightarrow> offer_id \<Rightarrow> ('x world, persistence_error, credential_offer) eff" where
  "find_offer_by_id p tenant issuer offer =
     bindE (mapErr DbError (run_query p (\<lambda>_ d. Inr (find (offer_at tenant issuer offer) (credential_offers d)))))
       (okOr NotFound)"

definition offer_page_key :: "credential_offer \<Rightarrow> page_key" where
  "offer_page_key off = (co_created_at off, offer_bare (co_id off))"

record offer_list_query =
  oq_state_filter :: "offer_state option"
  oq_cursor :: "page_key option"
  oq_limit :: u32
  oq_now :: datetime

fun offer_state_matches :: "datetime \<Rightarrow> offer_state option \<Rightarrow> credential_offer \<Rightarrow> bool" where
  "offer_state_matches now None off = True"
| "offer_state_matches now (Some OfferPending) off = (co_state off = OfferPending \<and> co_expires_at off > now)"
| "offer_state_matches now (Some Expired) off = (co_state off = OfferPending \<and> co_expires_at off \<le> now)"
| "offer_state_matches now (Some Issued) off = (co_state off = Issued)"
| "offer_state_matches now (Some Cancelled) off = (co_state off = Cancelled)"

definition list_offers_page ::
  "'x pool \<Rightarrow> tenant_id \<Rightarrow> issuer_id \<Rightarrow> offer_list_query \<Rightarrow>
   ('x world, persistence_error, credential_offer list_page) eff" where
  "list_offers_page p tenant issuer q =
     mapErr DbError (run_query p (\<lambda>_ d. Inr (keyset_page offer_page_key (unat (oq_limit q)) (oq_cursor q)
       (filter (\<lambda>off. co_tenant_id off = tenant \<and> co_issuer_id off = issuer \<and>
                      offer_state_matches (oq_now q) (oq_state_filter q) off)
          (credential_offers d)))))"

definition cancel_offer_row ::
  "'x pool \<Rightarrow> tenant_id \<Rightarrow> issuer_id \<Rightarrow> offer_id \<Rightarrow> datetime \<Rightarrow> ('x world, persistence_error, unit) eff" where
  "cancel_offer_row p tenant issuer offer cancelled_at =
     bindE (mapErr DbError (run_stmt p (update_stmt credential_offers_update credential_offers
        (\<lambda>off. offer_at tenant issuer offer off \<and> co_state off = OfferPending)
        (\<lambda>off. off\<lparr> co_state := Cancelled, co_cancelled_at := Some cancelled_at,
                   co_pre_auth_code := None \<rparr>))))
       (\<lambda>n. guardE (n \<noteq> 0) NotFound)"

definition find_by_pre_auth_code ::
  "'x pool \<Rightarrow> tenant_id \<Rightarrow> issuer_id \<Rightarrow> pre_auth_code \<Rightarrow>
   ('x world, persistence_error, credential_offer option) eff" where
  "find_by_pre_auth_code p tenant issuer code =
     mapErr DbError (run_query p (\<lambda>_ d. Inr (find (\<lambda>off. co_pre_auth_code off = Some code \<and>
        co_tenant_id off = tenant \<and> co_issuer_id off = issuer) (credential_offers d))))"

definition find_offer_by_id_for_update ::
  "'x pool \<Rightarrow> tenant_id \<Rightarrow> issuer_id \<Rightarrow> offer_id \<Rightarrow> ('x world, persistence_error, credential_offer) eff" where
  "find_offer_by_id_for_update p tenant issuer offer =
     bindE (mapErr DbError (run_query p (\<lambda>_ d. Inr (find (offer_at tenant issuer offer) (credential_offers d)))))
       (okOr NotFound)"

definition set_issued_state ::
  "'x pool \<Rightarrow> credential_offer \<Rightarrow> ('x world, persistence_error, unit) eff" where
  "set_issued_state p off = update_one p credential_offers_update credential_offers
     (offer_at (co_tenant_id off) (co_issuer_id off) (co_id off))
     (\<lambda>r. r\<lparr> co_state := co_state off, co_issued_at := co_issued_at off, co_pre_auth_code := None \<rparr>)"

section \<open>Access tokens and nonces\<close>

definition wallet_fks :: "tenant_id \<Rightarrow> issuer_id \<Rightarrow> offer_id \<Rightarrow> string \<Rightarrow> db \<Rightarrow> string option" where
  "wallet_fks tenant issuer offer tbl d =
     (if tenant \<notin> tn_id ` set (tenants d) then Some (tbl @ ''_tenant_id_fkey'')
      else if issuer \<notin> issuer_key ` set (issuers d) then Some (tbl @ ''_issuer_id_fkey'')
      else if offer \<notin> co_id ` set (credential_offers d) then Some (tbl @ ''_offer_id_fkey'')
      else None)"

definition insert_access_token ::
  "'x pool \<Rightarrow> access_token \<Rightarrow> ('x world, persistence_error, unit) eff" where
  "insert_access_token p t = mapErr map_database_error (run_stmt p (\<lambda>d.
     if at_token_hash t \<in> at_token_hash ` set (oidc_access_tokens d)
     then Inl (SqlUnique ''oidc_access_tokens_pkey'')
     else if at_offer_id t \<in> at_offer_id ` set (oidc_access_tokens d)
     then Inl (SqlUnique ''oidc_access_tokens_offer_id_key'')
     else case wallet_fks (at_tenant_id t) (at_issuer_id t) (at_offer_id t) ''oidc_access_tokens'' d of
       Some c \<Rightarrow> Inl (SqlConstraint c)
     | None \<Rightarrow> Inr ((), d\<lparr> oidc_access_tokens := oidc_access_tokens d @ [t] \<rparr>)))"

definition find_valid_by_hash ::
  "'x pool \<Rightarrow> access_token_hash \<Rightarrow> datetime \<Rightarrow> ('x world, persistence_error, access_token option) eff" where
  "find_valid_by_hash p hash now =
     mapErr DbError (run_query p (\<lambda>_ d. Inr (find (\<lambda>t. at_token_hash t = hash \<and> at_expires_at t > now)
        (oidc_access_tokens d))))"

definition delete_by_hash ::
  "'x pool \<Rightarrow> access_token_hash \<Rightarrow> ('x world, persistence_error, unit) eff" where
  "delete_by_hash p hash = mapErr DbError (run_stmt p (\<lambda>d.
     Inr ((), d\<lparr> oidc_access_tokens := filter (\<lambda>t. at_token_hash t \<noteq> hash) (oidc_access_tokens d) \<rparr>)))"

definition insert_nonce :: "'x pool \<Rightarrow> nonce_row \<Rightarrow> ('x world, persistence_error, unit) eff" where
  "insert_nonce p n = mapErr map_database_error (run_stmt p (\<lambda>d.
     if nr_nonce_hash n \<in> nr_nonce_hash ` set (oidc_nonces d)
     then Inl (SqlUnique ''oidc_nonces_pkey'')
     else case wallet_fks (nr_tenant_id n) (nr_issuer_id n) (nr_offer_id n) ''oidc_nonces'' d of
       Some c \<Rightarrow> Inl (SqlConstraint c)
     | None \<Rightarrow> Inr ((), d\<lparr> oidc_nonces := oidc_nonces d @ [n] \<rparr>)))"

text \<open>\<open>DELETE .. WHERE nonce_hash = .. AND expires_at > now RETURNING offer_id\<close>.\<close>

definition consume_by_hash ::
  "'x pool \<Rightarrow> nonce_hash \<Rightarrow> datetime \<Rightarrow> ('x world, persistence_error, offer_id option) eff" where
  "consume_by_hash p hash now = mapErr DbError (run_stmt p (\<lambda>d.
     Inr (map_option nr_offer_id (find (\<lambda>n. nr_nonce_hash n = hash \<and> nr_expires_at n > now) (oidc_nonces d)),
          d\<lparr> oidc_nonces := filter (\<lambda>n. \<not> (nr_nonce_hash n = hash \<and> nr_expires_at n > now)) (oidc_nonces d) \<rparr>)))"

section \<open>Issued credentials\<close>

definition ic_slot :: "issued_credential \<Rightarrow> status_list_id \<times> status_list_index" where
  "ic_slot c = (ic_status_list_id c, ic_status_list_index c)"

definition insert_issued_credential ::
  "'x pool \<Rightarrow> issued_credential \<Rightarrow> ('x world, persistence_error, unit) eff" where
  "insert_issued_credential p c = mapErr map_database_error (run_stmt p (\<lambda>d.
     let rows = set (issued_credentials d) in
     if ic_id c \<in> ic_id ` rows then Inl (SqlUnique ''issued_credentials_pkey'')
     else if ic_slot c \<in> ic_slot ` rows
     then Inl (SqlUnique ''issued_credentials_status_list_id_status_list_index_key'')
     else if ic_credential_offer_id c \<in> ic_credential_offer_id ` rows
     then Inl (SqlUnique ''issued_credentials_credential_offer_id_key'')
     else case wallet_fks (ic_tenant_id c) (ic_issuer_id c) (ic_credential_offer_id c) ''issued_credentials'' d of
       Some k \<Rightarrow> Inl (SqlConstraint k)
     | None \<Rightarrow>
        if ic_status_list_id c \<notin> sl_id ` set (status_lists d)
        then Inl (SqlConstraint ''issued_credentials_status_list_id_fkey'')
        else Inr ((), d\<lparr> issued_credentials := issued_credentials d @ [c] \<rparr>)))"

definition find_issued_credential ::
  "'x pool \<Rightarrow> tenant_id \<Rightarrow> credential_id \<Rightarrow> ('x world, persistence_error, issued_credential option) eff" where
  "find_issued_credential p tenant cid =
     mapErr DbError (run_query p (\<lambda>_ d. Inr (find (\<lambda>c. ic_id c = cid \<and> ic_tenant_id c = tenant)
        (issued_credentials d))))"

record credential_list_query =
  cq_issuer_id :: "issuer_id option"
  cq_state :: "ic_state option"
  cq_vct :: "string option"
  cq_cursor :: "page_key option"
  cq_limit :: u32

definition credential_page_key :: "issued_credential \<Rightarrow> page_key" where
  "credential_page_key c = (ic_issued_at c, credential_bare (ic_id c))"

definition opt_eq :: "'a option \<Rightarrow> 'a \<Rightarrow> bool" where
  "opt_eq x a = (case x of None \<Rightarrow> True | Some b \<Rightarrow> a = b)"

definition list_credentials_page ::
  "'x pool \<Rightarrow> tenant_id \<Rightarrow> credential_list_query \<Rightarrow>
   ('x world, persistence_error, issued_credential list_page) eff" where
  "list_credentials_page p tenant q =
     mapErr DbError (run_query p (\<lambda>_ d. Inr (keyset_page credential_page_key (unat (cq_limit q)) (cq_cursor q)
       (filter (\<lambda>c. ic_tenant_id c = tenant \<and> opt_eq (cq_issuer_id q) (ic_issuer_id c) \<and>
                    opt_eq (cq_state q) (ic_state c) \<and> opt_eq (cq_vct q) (ic_vct c))
          (issued_credentials d)))))"

definition set_credential_state ::
  "'x pool \<Rightarrow> tenant_id \<Rightarrow> credential_id \<Rightarrow> ic_state \<Rightarrow> ('x world, persistence_error, unit) eff" where
  "set_credential_state p tenant cid st =
     bindE (mapErr DbError (run_stmt p (update_stmt issued_credentials_update issued_credentials
        (\<lambda>c. ic_id c = cid \<and> ic_tenant_id c = tenant) (\<lambda>c. c\<lparr> ic_state := st \<rparr>))))
       (\<lambda>n. guardE (n \<noteq> 0) NotFound)"

text \<open>\<open>persistence/issuers.rs::list\<close>: legacy rows without a state are left out.\<close>

definition issuer_page_key :: "issuer \<Rightarrow> page_key" where
  "issuer_page_key i = (iss_created_at i, issuer_bare (iss_id i))"

definition list_issuers_page ::
  "'x pool \<Rightarrow> tenant_id \<Rightarrow> page_key option \<Rightarrow> u32 \<Rightarrow> ('x world, persistence_error, issuer list_page) eff" where
  "list_issuers_page p tenant cursor limit =
     mapErr DbError (run_query p (\<lambda>_ d. Inr (keyset_page issuer_page_key (unat limit) cursor
       (filter (\<lambda>i. iss_tenant_id i = tenant \<and> iss_state i \<noteq> None) (map ir_issuer (issuers d))))))"

section \<open>Lookups\<close>

definition find_credential_type_for_tenant ::
  "'x pool \<Rightarrow> tenant_id \<Rightarrow> ctype_id \<Rightarrow> ('x world, persistence_error, credential_type option) eff" where
  "find_credential_type_for_tenant p tenant ctype =
     mapErr DbError (run_query p (\<lambda>_ d. Inr (find (\<lambda>c. ct_id c = ctype \<and> ct_tenant_id c = tenant)
        (credential_types d))))"

definition is_assigned ::
  "'x pool \<Rightarrow> issuer_id \<Rightarrow> ctype_id \<Rightarrow> ('x world, persistence_error, bool) eff" where
  "is_assigned p issuer ctype =
     mapErr DbError (run_query p (\<lambda>_ d. Inr (\<exists>a \<in> set (issuer_credential_types d).
        as_issuer_id a = issuer \<and> as_credential_type_id a = ctype)))"

lemma offer_lookups_keep_db [pres]:
  "preserves (\<lambda>w. P (wdb w)) (find_offer_by_id p t i o')"
  "preserves (\<lambda>w. P (wdb w)) (find_offer_by_id_for_update p t i o')"
  "preserves (\<lambda>w. P (wdb w)) (find_by_pre_auth_code p t i c)"
  "preserves (\<lambda>w. P (wdb w)) (find_valid_by_hash p h now)"
  "preserves (\<lambda>w. P (wdb w)) (find_issued_credential p t cid)"
  "preserves (\<lambda>w. P (wdb w)) (find_credential_type_for_tenant p t ct)"
  "preserves (\<lambda>w. P (wdb w)) (is_assigned p i ct)"
  "preserves (\<lambda>w. P (wdb w)) (exists_for_tenant p t i)"
  unfolding find_offer_by_id_def find_offer_by_id_for_update_def find_by_pre_auth_code_def
    find_valid_by_hash_def find_issued_credential_def find_credential_type_for_tenant_def
    is_assigned_def exists_for_tenant_def
  by (intro pres)+

end
