(* ===== verification/Oidc.thy ===== *)
theory Oidc
  imports OfferStore StatusListStore Facades
begin

text \<open>
  The wallet-facing endpoints of \<open>api_oidc\<close>: \<open>POST /token\<close>,
  \<open>GET /credential-offer/{id}\<close> and \<open>POST /credential\<close>.  Base64, JSON text, JWS
  verification and SD-JWT disclosures are third-party code (\<open>jwt_lib\<close>); the
  checks, the order of database effects and the transaction are the
  handlers' own.
\<close>

section \<open>Errors\<close>

datatype oauth_error =
    InvalidGrant string
  | InvalidRequest string
  | UnsupportedGrantType string
  | InvalidToken string
  | InvalidProof string
  | InvalidCredentialRequest string
  | UnsupportedCredentialFormat string
  | OAuthInternal string

text \<open>\<open>Debug\<close> of a string: quotes, with the escapes of \<open>str::escape_debug\<close>.\<close>

fun escape_char :: "char \<Rightarrow> string" where
  "escape_char ch = (if ch = CHR 0x22 then [CHR 0x5C, CHR 0x22] else if ch = CHR 0x5C then [CHR 0x5C, CHR 0x5C]
     else if ch = CHR 0x0A then [CHR 0x5C, CHR ''n''] else if ch = CHR 0x0D then [CHR 0x5C, CHR ''r'']
     else if ch = CHR 0x09 then [CHR 0x5C, CHR ''t''] else if ch = CHR 0x00 then [CHR 0x5C, CHR ''0'']
     else [ch])"

definition debug_str :: "string \<Rightarrow> string" where
  "debug_str s = [CHR 0x22] @ concat (map escape_char s) @ [CHR 0x22]"

fun oauth_from_persistence :: "'x pool \<Rightarrow> persistence_error \<Rightarrow> oauth_error" where
  "oauth_from_persistence p NotFound =
     InvalidGrant ''no offer matches the presented pre-authorised code''"
| "oauth_from_persistence p (UniqueViolation _) =
     InvalidGrant ''the pre-authorised code has already been redeemed''"
| "oauth_from_persistence p (DataIntegrity details) = OAuthInternal details"
| "oauth_from_persistence p (DbError e) = OAuthInternal (sql_show p e)"
| "oauth_from_persistence p (Encryption e) = OAuthInternal (show_secret_encryption_error e)"

text \<open>\<open>IntoResponse\<close>: status code, error code, description.\<close>

fun oauth_into_response :: "oauth_error \<Rightarrow> nat \<times> string \<times> string" where
  "oauth_into_response (InvalidGrant d) = (400, ''invalid_grant'', d)"
| "oauth_into_response (InvalidRequest d) = (400, ''invalid_request'', d)"
| "oauth_into_response (UnsupportedGrantType g) =
     (400, ''unsupported_grant_type'', ''grant_type '' @ debug_str g @ '' is not supported'')"
| "oauth_into_response (InvalidToken d) = (401, ''invalid_token'', d)"
| "oauth_into_response (InvalidProof d) = (400, ''invalid_proof'', d)"
| "oauth_into_response (InvalidCredentialRequest d) = (400, ''invalid_credential_request'', d)"
| "oauth_into_response (UnsupportedCredentialFormat f) =
     (400, ''unsupported_credential_format'', ''credential format '' @ debug_str f @ '' is not supported'')"
| "oauth_into_response (OAuthInternal _) = (500, ''server_error'', ''an internal error occurred'')"

section \<open>State\<close>

record jwt_lib =
  jl_b64_decode :: "string \<Rightarrow> byte list option"
  jl_b64_encode :: "byte list \<Rightarrow> string"
  jl_json_from_slice :: "byte list \<Rightarrow> json option"
  jl_json_to_vec :: "json \<Rightarrow> string + byte list"
  jl_verify_with_embedded_jwk :: "json \<Rightarrow> string \<Rightarrow> byte list \<Rightarrow> string + unit"
  jl_disclosure :: "string \<Rightarrow> string \<Rightarrow> json \<Rightarrow> string"
  jl_disclosure_digest :: "string \<Rightarrow> string \<Rightarrow> json \<Rightarrow> string"

record 'x oidc_state =
  os_pool :: "'x pool"
  os_host :: "'x host"
  os_engine :: "'x signing_engine"
  os_jwt :: jwt_lib
  os_issuer_base_url :: string
  os_access_token_ttl :: int
  os_c_nonce_ttl :: int

definition PRE_AUTHORIZED_GRANT_TYPE :: string where
  "PRE_AUTHORIZED_GRANT_TYPE = ''urn:ietf:params:oauth:grant-type:pre-authorized_code''"

definition num_seconds :: "int \<Rightarrow> int" where
  "num_seconds dur = (if dur < 0 then - ((- dur) div 1000000) else dur div 1000000)"

definition oidc_parse_issuer_id :: "'x oidc_state \<Rightarrow> string \<Rightarrow> oauth_error + issuer_id" where
  "oidc_parse_issuer_id st raw = mapErrR (\<lambda>e. InvalidRequest (''issuer_id path parameter: '' @ show_domain_error e))
     (id_from_bare (host_bs58 (os_host st)) IssuerId raw)"

abbreviation oauth_db :: "'x oidc_state \<Rightarrow> ('x world, persistence_error, 'a) eff \<Rightarrow> ('x world, oauth_error, 'a) eff" where
  "oauth_db st m \<equiv> mapErr (oauth_from_persistence (os_pool st)) m"

abbreviation oauth_sql :: "'x oidc_state \<Rightarrow> sqlx_error \<Rightarrow> oauth_error" where
  "oauth_sql st e \<equiv> OAuthInternal (sql_show (os_pool st) e)"

section \<open>Token endpoint\<close>

record token_request =
  tr_grant_type :: string
  tr_pre_authorized_code :: string

record token_response =
  trs_access_token :: string
  trs_token_type :: string
  trs_expires_in :: int
  trs_c_nonce :: string
  trs_c_nonce_expires_in :: int

definition token :: "'x oidc_state \<Rightarrow> string \<Rightarrow> token_request \<Rightarrow> ('x world, oauth_error, token_response) eff" where
  "token st issuer_id_str payload =
     (let p = os_pool st; h = os_host st in
     bindE (guardE (tr_grant_type payload = PRE_AUTHORIZED_GRANT_TYPE)
              (UnsupportedGrantType (tr_grant_type payload))) (\<lambda>_.
     bindE (liftR (oidc_parse_issuer_id st issuer_id_str)) (\<lambda>issuer_id.
     let code = PreAuthCode (tr_pre_authorized_code payload) in
     bindE (mapErr (oauth_sql st) (acquire p)) (\<lambda>_.
     bindE (oauth_db st (find_issuer_by_id p issuer_id)) (\<lambda>found_issuer.
     bindE (okOr (InvalidGrant ''no offer matches the presented pre-authorised code'') found_issuer) (\<lambda>issuer.
     bindE (oauth_db st (find_by_pre_auth_code p (iss_tenant_id issuer) issuer_id code)) (\<lambda>found_offer.
     bindE (okOr (InvalidGrant ''no offer matches the presented pre-authorised code'') found_offer) (\<lambda>offer.
     bindE (utc_now h) (\<lambda>now.
     bindE (guardE (observed_state now offer = OfferPending)
              (InvalidGrant ''the offer is no longer redeemable'')) (\<lambda>_.
     bindE (generate_secret h) (\<lambda>access_token.
     let token_hash = access_token_hash_of (host_bs58 h) (host_sha256 h) (AccessTokenSecret access_token) in
     bindE (generate_secret h) (\<lambda>nonce.
     let nonce_hash = nonce_hash_of (host_bs58 h) (host_sha256 h) (NonceSecret nonce) in
     bindE (oauth_db st (insert_access_token p
         \<lparr> at_token_hash = token_hash, at_tenant_id = iss_tenant_id issuer, at_issuer_id = issuer_id,
           at_offer_id = co_id offer, at_expires_at = now + os_access_token_ttl st \<rparr>)) (\<lambda>_.
     bindE (oauth_db st (insert_nonce p
         \<lparr> nr_nonce_hash = nonce_hash, nr_tenant_id = iss_tenant_id issuer, nr_issuer_id = issuer_id,
           nr_offer_id = co_id offer, nr_expires_at = now + os_c_nonce_ttl st \<rparr>)) (\<lambda>_.
     ret \<lparr> trs_access_token = access_token, trs_token_type = ''Bearer'',
           trs_expires_in = num_seconds (os_access_token_ttl st), trs_c_nonce = nonce,
           trs_c_nonce_expires_in = num_seconds (os_c_nonce_ttl st) \<rparr>))))))))))))))"

section \<open>Offer endpoint\<close>

datatype oidc_error =
    OidcNotFound
  | OidcExpired
  | OidcInvalidInput string
  | OidcInternal string

fun oidc_from_persistence :: "'x pool \<Rightarrow> persistence_error \<Rightarrow> oidc_error" where
  "oidc_from_persistence p NotFound = OidcNotFound"
| "oidc_from_persistence p (DataIntegrity details) = OidcInternal details"
| "oidc_from_persistence p (DbError e) = OidcInternal (sql_show p e)"
| "oidc_from_persistence p (UniqueViolation what) = OidcInternal (''unique constraint violated: '' @ what)"
| "oidc_from_persistence p (Encryption e) = OidcInternal (show_secret_encryption_error e)"

record credential_offer_body =
  cob_credential_issuer :: string
  cob_credential_configuration_ids :: "string list"
  cob_grants :: json

definition credential_offer ::
  "'x oidc_state \<Rightarrow> string \<Rightarrow> string \<Rightarrow> ('x world, oidc_error, credential_offer_body) eff" where
  "credential_offer st issuer_id_str offer_id_str =
     (let p = os_pool st; h = os_host st; b = host_bs58 h in
     bindE (liftR (mapErrR (\<lambda>e. OidcInvalidInput (''issuer_id path parameter: '' @ show_domain_error e))
              (id_from_bare b IssuerId issuer_id_str))) (\<lambda>issuer_id.
     bindE (liftR (mapErrR (\<lambda>e. OidcInvalidInput (''offer_id path parameter: '' @ show_domain_error e))
              (id_from_bare b CredentialOfferId offer_id_str))) (\<lambda>offer_id.
     bindE (mapErr (\<lambda>e. OidcInternal (sql_show p e)) (acquire p)) (\<lambda>_.
     bindE (mapErr (oidc_from_persistence p) (find_issuer_by_id p issuer_id)) (\<lambda>found.
     bindE (okOr OidcNotFound found) (\<lambda>issuer.
     bindE (mapErr (oidc_from_persistence p)
              (find_offer_by_id p (iss_tenant_id issuer) issuer_id offer_id)) (\<lambda>offer.
     bindE (utc_now h) (\<lambda>now.
     bindE (case observed_state now offer of
              OfferPending \<Rightarrow> ret () | Expired \<Rightarrow> raise OidcExpired
            | Issued \<Rightarrow> raise OidcNotFound | Cancelled \<Rightarrow> raise OidcNotFound) (\<lambda>_.
     bindE (okOr OidcNotFound (co_pre_auth_code offer)) (\<lambda>bare_code.
     ret \<lparr> cob_credential_issuer = trim_end_matches (CHR ''/'') (os_issuer_base_url st) @ ''/i/''
             @ issuer_bare issuer_id,
           cob_credential_configuration_ids = [co_vct offer],
           cob_grants = JObj [(PRE_AUTHORIZED_GRANT_TYPE,
              JObj [(''pre-authorized_code'', JStr (pre_auth_code_str bare_code))])] \<rparr>))))))))))"

section \<open>Wallet proof\<close>

definition extract_bearer_hash ::
  "'x oidc_state \<Rightarrow> header_value option \<Rightarrow> oauth_error + access_token_hash" where
  "extract_bearer_hash st authorization = (case authorization of
     None \<Rightarrow> Inl (InvalidToken ''missing Authorization header'')
   | Some HeaderOpaque \<Rightarrow> Inl (InvalidToken ''Authorization header is not valid UTF-8'')
   | Some (HeaderText raw) \<Rightarrow> (case strip_prefix ''Bearer '' raw of
       None \<Rightarrow> Inl (InvalidToken ''Authorization header is not a Bearer credential'')
     | Some tok \<Rightarrow> if tok = [] then Inl (InvalidToken ''empty bearer credential'')
         else Inr (access_token_hash_of (host_bs58 (os_host st)) (host_sha256 (os_host st))
                (AccessTokenSecret tok))))"

record proof_claims =
  pr_nonce :: string
  pr_cnf_jwk :: json
  pr_alg :: string
  pr_signing_input :: string
  pr_signature :: "byte list"

definition invalid_proof_structure :: oauth_error where
  "invalid_proof_structure = InvalidProof ''proof JWT is malformed or not a three-segment JWS''"

definition as_i64 :: "json \<Rightarrow> (64 word) option" where
  "as_i64 v = (case v of JNum i \<Rightarrow>
     if - (2 ^ 63) \<le> i \<and> i < 2 ^ 63 then Some (word_of_int i) else None | _ \<Rightarrow> None)"

text \<open>\<open>i64::abs\<close> in a release build: the minimum wraps to itself.\<close>

definition i64_abs :: "64 word \<Rightarrow> 64 word" where
  "i64_abs v = (if sint v < 0 then - v else v)"

definition PROOF_IAT_SKEW_SECONDS :: "64 word" where "PROOF_IAT_SKEW_SECONDS = 300"

definition iat_rejected :: "64 word \<Rightarrow> 64 word \<Rightarrow> bool" where
  "iat_rejected iat now_ts \<longleftrightarrow> sint (i64_abs (iat - now_ts)) > sint PROOF_IAT_SKEW_SECONDS"

definition TIMESTAMP_SECOND :: int where "TIMESTAMP_SECOND = 1000000"

definition timestamp_i64 :: "datetime \<Rightarrow> 64 word" where
  "timestamp_i64 t = word_of_int (t div TIMESTAMP_SECOND)"

definition parse_wallet_proof ::
  "jwt_lib \<Rightarrow> string \<Rightarrow> string \<Rightarrow> issuer_id \<Rightarrow> datetime \<Rightarrow> oauth_error + proof_claims" where
  "parse_wallet_proof jl jwt issuer_base_url issuer_id now =
     (case split_on (CHR ''.'') jwt of
        [header_b64, payload_b64, signature_b64] \<Rightarrow>
          bindR (result_of_option invalid_proof_structure (jl_b64_decode jl header_b64)) (\<lambda>header_bytes.
          bindR (result_of_option invalid_proof_structure (jl_b64_decode jl payload_b64)) (\<lambda>payload_bytes.
          bindR (result_of_option invalid_proof_structure (jl_b64_decode jl signature_b64)) (\<lambda>signature.
          bindR (result_of_option invalid_proof_structure (jl_json_from_slice jl header_bytes)) (\<lambda>header.
          bindR (result_of_option invalid_proof_structure (jl_json_from_slice jl payload_bytes)) (\<lambda>payload.
          bindR (result_of_option (InvalidProof ''proof JWT header is missing `alg`'')
                   (Option.bind (jget ''alg'' header) as_string)) (\<lambda>alg.
          bindR (result_of_option (InvalidProof ''proof JWT header is missing the `jwk` member'')
                   (jget ''jwk'' header)) (\<lambda>cnf_jwk.
          let expected_audience = trim_end_matches (CHR ''/'') issuer_base_url @ ''/i/'' @ issuer_bare issuer_id in
          bindR (result_of_option (InvalidProof ''proof JWT payload is missing `aud`'')
                   (Option.bind (jget ''aud'' payload) as_string)) (\<lambda>aud.
          if aud \<noteq> expected_audience
          then Inl (InvalidProof (''proof `aud` '' @ debug_str aud @ '' does not match issuer URL ''
                  @ debug_str expected_audience))
          else
          bindR (result_of_option (InvalidProof ''proof JWT payload is missing `iat`'')
                   (Option.bind (jget ''iat'' payload) as_i64)) (\<lambda>iat.
          if iat_rejected iat (timestamp_i64 now)
          then Inl (InvalidProof (''proof `iat` '' @ show_int (sint iat) @ '' is more than ''
                  @ show_int (sint PROOF_IAT_SKEW_SECONDS) @ ''s away from server time''))
          else
          bindR (result_of_option (InvalidProof ''proof JWT payload is missing `nonce`'')
                   (Option.bind (jget ''nonce'' payload) as_string)) (\<lambda>nonce.
          Inr \<lparr> pr_nonce = nonce, pr_cnf_jwk = cnf_jwk, pr_alg = alg,
                pr_signing_input = header_b64 @ ''.'' @ payload_b64, pr_signature = signature \<rparr>))))))))))
      | _ \<Rightarrow> Inl invalid_proof_structure)"

definition verify_signature :: "jwt_lib \<Rightarrow> proof_claims \<Rightarrow> oauth_error + unit" where
  "verify_signature jl pc = mapErrR InvalidProof (jl_verify_with_embedded_jwk jl
     (JObj [(''alg'', JStr (pr_alg pc)), (''jwk'', pr_cnf_jwk pc)]) (pr_signing_input pc) (pr_signature pc))"

definition cnf_member :: "string \<Rightarrow> string \<Rightarrow> json \<Rightarrow> oauth_error + string" where
  "cnf_member kty k jwk = result_of_option (InvalidProof (kty @ '' cnf JWK is missing `'' @ k @ ''`''))
     (Option.bind (jget k jwk) as_string)"

definition cnf_jwk_thumbprint ::
  "jwt_lib \<Rightarrow> (string \<Rightarrow> byte list) \<Rightarrow> json \<Rightarrow> oauth_error + string" where
  "cnf_jwk_thumbprint jl sha256 jwk =
     bindR (result_of_option (InvalidProof ''cnf JWK is missing `kty`'')
              (Option.bind (jget ''kty'' jwk) as_string)) (\<lambda>kty.
     bindR (if kty = ''OKP'' then
              bindR (cnf_member ''OKP'' ''crv'' jwk) (\<lambda>crv.
              bindR (cnf_member ''OKP'' ''x'' jwk) (\<lambda>x.
              Inr (''{\"crv\":\"'' @ crv @ ''\",\"kty\":\"OKP\",\"x\":\"'' @ x @ ''\"}'')))
            else if kty = ''EC'' then
              bindR (cnf_member ''EC'' ''crv'' jwk) (\<lambda>crv.
              bindR (cnf_member ''EC'' ''x'' jwk) (\<lambda>x.
              bindR (cnf_member ''EC'' ''y'' jwk) (\<lambda>y.
              Inr (''{\"crv\":\"'' @ crv @ ''\",\"kty\":\"EC\",\"x\":\"'' @ x @ ''\",\"y\":\"'' @ y @ ''\"}''))))
            else Inl (InvalidProof (''unsupported cnf JWK kty '' @ debug_str kty))) (\<lambda>canonical.
     Inr (jl_b64_encode jl (sha256 canonical))))"

section \<open>Building the credential\<close>

definition build_status_claim :: "string \<Rightarrow> status_list_index \<Rightarrow> json" where
  "build_status_claim registry_url index = JObj [(''status_list'',
     JObj [(''idx'', JNum (uint (index_value index))), (''uri'', JStr registry_url)])]"

definition allocate_status_slot ::
  "'x oidc_state \<Rightarrow> issuer_id \<Rightarrow>
   ('x world, oauth_error, status_list_id \<times> status_list_index \<times> string) eff" where
  "allocate_status_slot st issuer_id =
     (let p = os_pool st; shown = id_display ''issuer'' (issuer_bare issuer_id) in
     bindE (oauth_db st (current_for_issuer_with_url p issuer_id)) (\<lambda>cur.
     bindE (case cur of
         Some (lid, Some url) \<Rightarrow> ret (lid, url)
       | Some (lid, None) \<Rightarrow> raise (OAuthInternal (''status list ''
           @ id_display ''status_list'' (status_list_bare lid) @ '' for issuer '' @ shown
           @ '' has no registry_url; create_issuer must complete the create_status_list_entry step before issuance''))
       | None \<Rightarrow> raise (OAuthInternal (''issuer '' @ shown
           @ '' has no current status list; create_issuer must complete the provision_status_list step before issuance'')))
       (\<lambda>(lid, url).
     bindE (oauth_db st (allocate_index p lid)) (\<lambda>allocated.
     bindE (okOr (OAuthInternal (''status list '' @ id_display ''status_list'' (status_list_bare lid)
         @ '' is at capacity; rollover to a fresh list requires a registry round-trip and is not performed in the issuance handler''))
         allocated) (\<lambda>index.
     ret (lid, index, url))))))"

definition fresh_salt :: "'x oidc_state \<Rightarrow> ('x world, 'e, string) eff" where
  "fresh_salt st = bindE (random_bytes (os_host st) 16) (\<lambda>bs. ret (jl_b64_encode (os_jwt st) bs))"

fun disclose :: "'x oidc_state \<Rightarrow> json_map \<Rightarrow> ('x world, 'e, (string \<times> string) list) eff" where
  "disclose st [] = ret []"
| "disclose st ((name, v) # rest) =
     bindE (fresh_salt st) (\<lambda>salt.
     bindE (disclose st rest) (\<lambda>ds.
     ret ((jl_disclosure (os_jwt st) salt name v, jl_disclosure_digest (os_jwt st) salt name v) # ds)))"

text \<open>\<open>BuildError\<close> is carried as its \<open>Display\<close> text.\<close>

definition show_json_error :: "string \<Rightarrow> string" where
  "show_json_error e = ''JSON serialisation: '' @ e"

definition build_sd_jwt_vc ::
  "'x oidc_state \<Rightarrow> key_pair_id \<Rightarrow> issuer \<Rightarrow> credential_offer \<Rightarrow> json \<Rightarrow> json \<Rightarrow> datetime \<Rightarrow> datetime \<Rightarrow>
   ('x world, string, string) eff" where
  "build_sd_jwt_vc st assertion_key_id issuer offer cnf_jwk status_claim now expires_at =
     (let jl = os_jwt st;
          header = JObj [(''alg'', JStr ''ES256''), (''typ'', JStr ''vc+sd-jwt''),
                         (''kid'', JStr (iss_did issuer @ ''#assertion-key-01''))] in
     bindE (case co_claims offer of JObj claims \<Rightarrow> disclose st claims | _ \<Rightarrow> ret []) (\<lambda>ds.
     let payload = JObj [(''iss'', JStr (iss_did issuer)), (''iat'', JNum (now div TIMESTAMP_SECOND)),
           (''exp'', JNum (expires_at div TIMESTAMP_SECOND)), (''vct'', JStr (co_vct offer)),
           (''cnf'', JObj [(''jwk'', cnf_jwk)]), (''status'', status_claim),
           (''_sd'', JArr (map (\<lambda>(_, dg). JStr dg) ds)), (''_sd_alg'', JStr ''sha-256'')] in
     bindE (liftR (mapErrR show_json_error (jl_json_to_vec jl header))) (\<lambda>header_vec.
     bindE (liftR (mapErrR show_json_error (jl_json_to_vec jl payload))) (\<lambda>payload_vec.
     let signing_input = jl_b64_encode jl header_vec @ ''.'' @ jl_b64_encode jl payload_vec in
     bindE (mapErr (\<lambda>e. ''signing engine: '' @ show_signing_engine_error e)
              (ext (se_sign (os_engine st) assertion_key_id (host_sha256 (os_host st) signing_input)))) (\<lambda>sig.
     ret (signing_input @ ''.'' @ jl_b64_encode jl (sig_bytes sig)
          @ concat (map (\<lambda>(d, _). ''~'' @ d) ds) @ ''~''))))))"

section \<open>Credential endpoint\<close>

record credential_request =
  crq_format :: string
  crq_vct :: string
  crq_proof_type :: string
  crq_jwt :: string

record checked_request =
  ck_token :: access_token
  ck_offer :: credential_offer
  ck_credential_type :: credential_type
  ck_issuer :: issuer
  ck_assertion_key_id :: key_pair_id
  ck_cnf_jwk :: json
  ck_now :: datetime

text \<open>Everything before the transaction, the consumption of the nonce included.\<close>

definition credential_checks ::
  "'x oidc_state \<Rightarrow> string \<Rightarrow> header_value option \<Rightarrow> credential_request \<Rightarrow>
   ('x world, oauth_error, checked_request) eff" where
  "credential_checks st issuer_id_str authorization payload =
     (let p = os_pool st; h = os_host st; jl = os_jwt st in
     bindE (guardE (crq_format payload = ''vc+sd-jwt'') (UnsupportedCredentialFormat (crq_format payload))) (\<lambda>_.
     bindE (guardE (crq_proof_type payload = ''jwt'') (InvalidProof (''proof_type ''
         @ debug_str (crq_proof_type payload) @ '' is not supported; only '' @ debug_str ''jwt''))) (\<lambda>_.
     bindE (liftR (oidc_parse_issuer_id st issuer_id_str)) (\<lambda>issuer_id.
     bindE (liftR (extract_bearer_hash st authorization)) (\<lambda>token_hash.
     bindE (mapErr (oauth_sql st) (acquire p)) (\<lambda>_.
     bindE (utc_now h) (\<lambda>now0.
     bindE (oauth_db st (find_valid_by_hash p token_hash now0)) (\<lambda>found.
     bindE (okOr (InvalidToken ''no valid access token matches the presented bearer'') found) (\<lambda>tok.
     bindE (guardE (at_issuer_id tok = issuer_id)
              (InvalidToken ''access token does not authorise this issuer'')) (\<lambda>_.
     bindE (oauth_db st (find_offer_by_id p (at_tenant_id tok) (at_issuer_id tok) (at_offer_id tok))) (\<lambda>offer.
     bindE (utc_now h) (\<lambda>now.
     bindE (guardE (observed_state now offer = OfferPending)
              (InvalidToken ''the offer is no longer redeemable'')) (\<lambda>_.
     bindE (guardE (crq_vct payload = co_vct offer) (InvalidCredentialRequest (''vct ''
         @ debug_str (crq_vct payload) @ '' does not match the offer''))) (\<lambda>_.
     bindE (okOr (OAuthInternal ''offer lacks credential_type_id; legacy rows cannot be issued'')
              (co_credential_type_id offer)) (\<lambda>ctype_id.
     bindE (oauth_db st (find_credential_type_for_tenant p (at_tenant_id tok) ctype_id)) (\<lambda>found_type.
     bindE (okOr (OAuthInternal ''credential type referenced by offer no longer exists'') found_type) (\<lambda>ctype.
     bindE (oauth_db st (find_issuer_by_id p issuer_id)) (\<lambda>found_issuer.
     bindE (okOr (OAuthInternal ''issuer disappeared after access-token validation'') found_issuer) (\<lambda>issuer.
     bindE (okOr (InvalidRequest ''issuer has no Assertion key configured; create the issuer through the issuer-management API first'')
              (iss_assertion_key_id issuer)) (\<lambda>key.
     bindE (liftR (parse_wallet_proof jl (crq_jwt payload) (os_issuer_base_url st) issuer_id now)) (\<lambda>pc.
     bindE (liftR (verify_signature jl pc)) (\<lambda>_.
     bindE (oauth_db st (consume_by_hash p
              (nonce_hash_of (host_bs58 h) (host_sha256 h) (NonceSecret (pr_nonce pc))) now)) (\<lambda>consumed.
     bindE (okOr (InvalidProof ''nonce is unknown, expired, or already consumed'') consumed) (\<lambda>nonce_offer_id.
     bindE (guardE (nonce_offer_id = co_id offer)
              (InvalidProof ''nonce was minted for a different offer'')) (\<lambda>_.
     ret \<lparr> ck_token = tok, ck_offer = offer, ck_credential_type = ctype, ck_issuer = issuer,
           ck_assertion_key_id = key, ck_cnf_jwk = pr_cnf_jwk pc, ck_now = now \<rparr>)))))))))))))))))))))))))"

definition not_redeemable :: oauth_error where
  "not_redeemable = InvalidToken ''the offer is no longer redeemable''"

definition credential_tx ::
  "'x oidc_state \<Rightarrow> checked_request \<Rightarrow> ('x world, oauth_error, string tx_end) eff" where
  "credential_tx st ck =
     (let p = os_pool st; tok = ck_token ck; issuer = ck_issuer ck; now = ck_now ck in
     bindE (mapErr (\<lambda>e. if e = NotFound then not_redeemable
                       else OAuthInternal (show_persistence_error e))
              (find_offer_by_id_for_update p (at_tenant_id tok) (at_issuer_id tok) (at_offer_id tok))) (\<lambda>offer0.
     bindE (liftR (mapErrR (\<lambda>e. if e = StateTransitionNotAllowed then not_redeemable
                       else OAuthInternal (show_domain_error e)) (try_issue now offer0))) (\<lambda>offer.
     bindE (allocate_status_slot st (iss_id issuer)) (\<lambda>(list_id, index, url).
     let expires_at = now + ct_default_validity_duration (ck_credential_type ck) in
     bindE (mapErr OAuthInternal (build_sd_jwt_vc st (ck_assertion_key_id ck) issuer offer (ck_cnf_jwk ck)
              (build_status_claim url index) now expires_at)) (\<lambda>credential.
     bindE (liftR (cnf_jwk_thumbprint (os_jwt st) (host_sha256 (os_host st)) (ck_cnf_jwk ck))) (\<lambda>jkt.
     bindE (generate_bare (os_host st)) (\<lambda>fresh.
     bindE (oauth_db st (insert_issued_credential p (issued_credential_new (IssuedCredentialId fresh)
              (at_tenant_id tok) (iss_id issuer) (co_id offer) (co_vct offer) jkt list_id index
              (host_sha256 (os_host st) credential) now expires_at))) (\<lambda>_.
     bindE (oauth_db st (set_issued_state p offer)) (\<lambda>_.
     bindE (oauth_db st (delete_by_hash p (at_token_hash tok))) (\<lambda>_.
     ret (Commit credential)))))))))))"

definition credential ::
  "'x oidc_state \<Rightarrow> string \<Rightarrow> header_value option \<Rightarrow> credential_request \<Rightarrow> ('x world, oauth_error, string) eff" where
  "credential st issuer_id_str authorization payload =
     bindE (credential_checks st issuer_id_str authorization payload) (\<lambda>ck.
     in_tx (os_pool st) (oauth_sql st) (oauth_sql st) (credential_tx st ck))"

end
