(* ===== verification/ApiCommon.thy ===== *)
theory ApiCommon
  imports OfferStore Facades StatusListStore
begin

text \<open>
  What the management handlers share: \<open>ApiError\<close> with its conversions and HTTP
  rendering, the path-parameter parsers, the ownership check of
  \<open>api_management/auth.rs\<close>, the field normalisers of \<open>api_management/mod.rs\<close>
  and the compiled-schema cache of \<open>state/validators.rs\<close>.
\<close>

section \<open>Errors\<close>

fun api_from_domain :: "domain_error \<Rightarrow> api_error" where
  "api_from_domain (InvalidInput details) = ApiInvalidInput details"
| "api_from_domain StateTransitionNotAllowed = Conflict ''state transition not allowed''"

fun api_from_persistence :: "'x pool \<Rightarrow> persistence_error \<Rightarrow> api_error" where
  "api_from_persistence p NotFound = ApiNotFound"
| "api_from_persistence p (UniqueViolation what) = Conflict (''unique constraint violated: '' @ what)"
| "api_from_persistence p (DataIntegrity details) = ApiInternal details"
| "api_from_persistence p (DbError e) = ApiInternal (sql_show p e)"
| "api_from_persistence p (Encryption e) = ApiInternal (show_secret_encryption_error e)"

fun join_with :: "string \<Rightarrow> string list \<Rightarrow> string" where
  "join_with sep [] = []"
| "join_with sep [s] = s"
| "join_with sep (s # rest) = s @ sep @ join_with sep rest"

text \<open>\<open>IntoResponse for ApiError\<close>: status, machine code, details.\<close>

fun api_into_response :: "api_error \<Rightarrow> nat \<times> string \<times> string" where
  "api_into_response ApiNotFound = (404, ''not_found'', ''resource not found'')"
| "api_into_response Unauthorised = (401, ''unauthorised'', ''authentication required'')"
| "api_into_response ServiceUnavailable =
     (503, ''service_unavailable'', ''service temporarily unavailable'')"
| "api_into_response Forbidden = (403, ''forbidden'', ''access denied'')"
| "api_into_response (ClaimsValidationFailed errors) =
     (400, ''claims_validation_failed'', join_with ''; '' errors)"
| "api_into_response (ApiInvalidInput details) = (400, ''invalid_input'', details)"
| "api_into_response (Conflict details) = (409, ''conflict'', details)"
| "api_into_response (NotImplemented what) = (501, ''not_implemented'', what)"
| "api_into_response (ApiInternal _) = (500, ''internal_error'', ''an internal error occurred'')"

section \<open>Compiled-schema cache\<close>

type_synonym validator = "json \<Rightarrow> string list"

record validator_cache_entry =
  vce_validator :: validator
  vce_schema_updated_at :: datetime

type_synonym validator_cache = "ctype_id \<rightharpoonup> validator_cache_entry"

text \<open>The section under the read lock, repeated under the write lock.\<close>

definition cache_hit :: "ctype_id \<Rightarrow> datetime \<Rightarrow> validator_cache \<Rightarrow> validator option" where
  "cache_hit cid updated_at cache = (case cache cid of
     Some e \<Rightarrow> if vce_schema_updated_at e = updated_at then Some (vce_validator e) else None
   | None \<Rightarrow> None)"

text \<open>The section under the write lock; \<open>compile\<close> is \<open>jsonschema::validator_for\<close>.\<close>

definition cache_fill ::
  "(json \<Rightarrow> string + validator) \<Rightarrow> ctype_id \<Rightarrow> json \<Rightarrow> datetime \<Rightarrow> validator_cache \<Rightarrow>
   (string + validator) \<times> validator_cache" where
  "cache_fill compile cid schema updated_at cache = (case cache_hit cid updated_at cache of
     Some v \<Rightarrow> (Inr v, cache)
   | None \<Rightarrow> (case compile schema of
       Inl m \<Rightarrow> (Inl (''failed to compile JSON Schema: '' @ m), cache)
     | Inr v \<Rightarrow> (Inr v, cache(cid \<mapsto> \<lparr> vce_validator = v, vce_schema_updated_at = updated_at \<rparr>))))"

text \<open>
  Between the two sections other tasks may run: \<open>interleave\<close> is what they do to
  the cache (the identity when nobody else runs).
\<close>

definition get_or_compile ::
  "(json \<Rightarrow> string + validator) \<Rightarrow> (validator_cache \<Rightarrow> validator_cache) \<Rightarrow> ctype_id \<Rightarrow> json \<Rightarrow> datetime \<Rightarrow>
   validator_cache \<Rightarrow> (string + validator) \<times> validator_cache" where
  "get_or_compile compile interleave cid schema updated_at cache =
     (case cache_hit cid updated_at cache of
        Some v \<Rightarrow> (Inr v, cache)
      | None \<Rightarrow> cache_fill compile cid schema updated_at (interleave cache))"

text \<open>Every cached validator is the compilation of the schema its row had at that time stamp.\<close>

definition cache_fresh ::
  "(json \<Rightarrow> string + validator) \<Rightarrow> (ctype_id \<Rightarrow> datetime \<Rightarrow> json) \<Rightarrow> validator_cache \<Rightarrow> bool" where
  "cache_fresh compile schema_at cache \<longleftrightarrow> (\<forall>cid e. cache cid = Some e \<longrightarrow>
     compile (schema_at cid (vce_schema_updated_at e)) = Inr (vce_validator e))"

lemma cache_hit_fresh:
  "cache_fresh compile schema_at cache \<Longrightarrow> cache_hit cid t cache = Some v \<Longrightarrow>
   compile (schema_at cid t) = Inr v"
  by (auto simp: cache_hit_def cache_fresh_def split: option.splits if_splits)

lemma cache_fill_fresh:
  assumes "cache_fresh compile schema_at cache"
  shows "fst (cache_fill compile cid (schema_at cid t) t cache) =
           mapErrR (\<lambda>m. ''failed to compile JSON Schema: '' @ m) (compile (schema_at cid t))"
    and "cache_fresh compile schema_at (snd (cache_fill compile cid (schema_at cid t) t cache))"
  using assms cache_hit_fresh [OF assms]
  by (auto simp: cache_fill_def cache_fresh_def mapErrR_def split: option.splits sum.splits)

section \<open>Application state and request boundary\<close>

record 'x mgmt_state =
  ms_pool :: "'x pool"
  ms_host :: "'x host"
  ms_cursor :: cursor_lib
  ms_compile :: "json \<Rightarrow> string + validator"
  ms_validators :: "'x \<Rightarrow> validator_cache"
  ms_set_validators :: "validator_cache \<Rightarrow> 'x \<Rightarrow> 'x"
  ms_urlencode :: "string \<Rightarrow> string"
  ms_core_set_at :: "byte list \<Rightarrow> nat \<Rightarrow> status_value \<Rightarrow> string + byte list"
  ms_issuer_base_url :: string

abbreviation api_db :: "'x mgmt_state \<Rightarrow> ('x world, persistence_error, 'a) eff \<Rightarrow> ('x world, api_error, 'a) eff" where
  "api_db st m \<equiv> mapErr (api_from_persistence (ms_pool st)) m"

abbreviation api_sql :: "'x mgmt_state \<Rightarrow> sqlx_error \<Rightarrow> api_error" where
  "api_sql st e \<equiv> ApiInternal (sql_show (ms_pool st) e)"

definition parse_path_id ::
  "'x mgmt_state \<Rightarrow> string \<Rightarrow> (string \<Rightarrow> 'i) \<Rightarrow> string \<Rightarrow> api_error + 'i" where
  "parse_path_id st what mk raw =
     mapErrR (\<lambda>e. ApiInvalidInput (what @ '' path parameter: '' @ show_domain_error e))
       (id_from_bare (host_bs58 (ms_host st)) mk raw)"

definition parse_issuer_id :: "'x mgmt_state \<Rightarrow> string \<Rightarrow> api_error + issuer_id" where
  "parse_issuer_id st = parse_path_id st ''issuer_id'' IssuerId"

definition require_issuer_owned_by_tenant ::
  "'x mgmt_state \<Rightarrow> tenant_id \<Rightarrow> issuer_id \<Rightarrow> ('x world, api_error, unit) eff" where
  "require_issuer_owned_by_tenant st tenant issuer =
     bindE (api_db st (exists_for_tenant (ms_pool st) tenant issuer)) (\<lambda>ex. guardE ex ApiNotFound)"

definition acquire_pool_for_issuer ::
  "'x mgmt_state \<Rightarrow> tenant_id \<Rightarrow> issuer_id \<Rightarrow> ('x world, api_error, unit) eff" where
  "acquire_pool_for_issuer st tenant issuer =
     bindE (mapErr (api_sql st) (acquire (ms_pool st))) (\<lambda>_.
     require_issuer_owned_by_tenant st tenant issuer)"

definition validator_for_type ::
  "'x mgmt_state \<Rightarrow> credential_type \<Rightarrow> ('x world, api_error, validator) eff" where
  "validator_for_type st ct = ext (\<lambda>x.
     case get_or_compile (ms_compile st) id (ct_id ct) (ct_claim_schema ct) (ct_updated_at ct)
            (ms_validators st x) of
       (Inl e, c) \<Rightarrow> (Inl (ApiInternal e), ms_set_validators st c x)
     | (Inr v, c) \<Rightarrow> (Inr v, ms_set_validators st c x))"

section \<open>Field normalisation\<close>

text \<open>\<open>str::trim\<close> on the byte strings of the model: ASCII white space.\<close>

definition is_ws :: "char \<Rightarrow> bool" where
  "is_ws c \<longleftrightarrow> c \<in> {CHR '' '', CHR 0x09, CHR 0x0A, CHR 0x0B, CHR 0x0C, CHR 0x0D}"

definition trim :: "string \<Rightarrow> string" where
  "trim s = rev (dropWhile is_ws (rev (dropWhile is_ws s)))"

definition too_long :: "string \<Rightarrow> nat \<Rightarrow> string \<Rightarrow> api_error" where
  "too_long name max_len trimmed = ApiInvalidInput (name @ '' must be at most '' @ show_nat max_len
     @ '' bytes (got '' @ show_nat (length trimmed) @ '')'')"

definition normalise_required :: "string \<Rightarrow> string \<Rightarrow> nat \<Rightarrow> api_error + string" where
  "normalise_required name raw max_len = (let trimmed = trim raw in
     if trimmed = [] then Inl (ApiInvalidInput (name @ '' must not be blank''))
     else if length trimmed > max_len then Inl (too_long name max_len trimmed)
     else Inr trimmed)"

definition normalise_optional :: "string \<Rightarrow> string option \<Rightarrow> nat \<Rightarrow> api_error + string option" where
  "normalise_optional name raw max_len = (case raw of
     None \<Rightarrow> Inr None
   | Some v \<Rightarrow> (let trimmed = trim v in
       if trimmed = [] then Inr None
       else if length trimmed > max_len then Inl (too_long name max_len trimmed)
       else Inr (Some trimmed)))"

text \<open>\<open>readyz\<close>: 503 when no connection can be had.\<close>

definition readyz :: "'x mgmt_state \<Rightarrow> ('x world, nat, string) eff" where
  "readyz st = bindE (mapErr (\<lambda>_. 503) (acquire (ms_pool st))) (\<lambda>_. ret ''ok'')"

end
