(* ===== verification/OfferApi.thy ===== *)
theory OfferApi
  imports ApiCommon
begin

text \<open>
  \<open>api_management/credential_offers.rs\<close>: creation, reading, cancelling and
  listing of credential offers by the business application.
\<close>

section \<open>Requests and responses\<close>

record create_offer_request =
  cor_credential_type_id :: string
  cor_claims :: json
  cor_expires_in_seconds :: "u32 option"

record create_offer_response =
  cors_id :: string
  cors_pre_auth_code :: pre_auth_code
  cors_offer_deeplink :: string
  cors_expires_at :: datetime

record offer_response =
  ors_id :: string
  ors_issuer_id :: string
  ors_vct :: string
  ors_credential_type_id :: "string option"
  ors_claims :: json
  ors_state :: string
  ors_expires_at :: datetime
  ors_created_at :: datetime
  ors_issued_at :: "datetime option"
  ors_cancelled_at :: "datetime option"

record offer_status_response =
  oss_id :: string
  oss_state :: string
  oss_expires_at :: datetime
  oss_issued_at :: "datetime option"
  oss_cancelled_at :: "datetime option"

record list_offers_params =
  lop_limit :: "u32 option"
  lop_cursor :: "string option"
  lop_state :: "string option"

section \<open>Helpers\<close>

definition DEFAULT_EXPIRES_IN_SECONDS :: u32 where "DEFAULT_EXPIRES_IN_SECONDS = 600"
definition MIN_EXPIRES_IN_SECONDS :: u32 where "MIN_EXPIRES_IN_SECONDS = 60"
definition MAX_EXPIRES_IN_SECONDS :: u32 where "MAX_EXPIRES_IN_SECONDS = 3600"

definition duration_seconds :: "int \<Rightarrow> int" where "duration_seconds s = s * 1000000"

definition resolve_expires_in :: "u32 option \<Rightarrow> api_error + int" where
  "resolve_expires_in requested =
     (let seconds = (case requested of Some s \<Rightarrow> s | None \<Rightarrow> DEFAULT_EXPIRES_IN_SECONDS)
      in if \<not> (MIN_EXPIRES_IN_SECONDS \<le> seconds \<and> seconds \<le> MAX_EXPIRES_IN_SECONDS)
         then Inl (ApiInvalidInput (''expires_in_seconds must be between ''
                @ show_nat (unat MIN_EXPIRES_IN_SECONDS) @ '' and '' @ show_nat (unat MAX_EXPIRES_IN_SECONDS)
                @ '', got '' @ show_nat (unat seconds)))
         else Inr (duration_seconds (uint seconds)))"

definition build_offer_deeplink :: "(string \<Rightarrow> string) \<Rightarrow> string \<Rightarrow> issuer_id \<Rightarrow> offer_id \<Rightarrow> string" where
  "build_offer_deeplink urlencode issuer_base_url issuer offer =
     (let credential_offer_uri = trim_end_matches (CHR ''/'') issuer_base_url @ ''/i/'' @ issuer_bare issuer
            @ ''/credential-offer/'' @ offer_bare offer
      in ''openid-credential-offer://?credential_offer_uri='' @ urlencode credential_offer_uri)"

definition parse_offer_id :: "'x mgmt_state \<Rightarrow> string \<Rightarrow> api_error + offer_id" where
  "parse_offer_id st = parse_path_id st ''offer_id'' CredentialOfferId"

definition parse_offer_state_filter :: "string option \<Rightarrow> api_error + offer_state option" where
  "parse_offer_state_filter raw = (case raw of
     None \<Rightarrow> Inr None
   | Some s \<Rightarrow> bindR (mapErrR (\<lambda>e. ApiInvalidInput (''state query parameter: '' @ show_domain_error e))
                 (offer_state_try_from s)) (\<lambda>v. Inr (Some v)))"

definition offer_to_response :: "datetime \<Rightarrow> credential_offer \<Rightarrow> offer_response" where
  "offer_to_response now off =
     \<lparr> ors_id = offer_bare (co_id off), ors_issuer_id = issuer_bare (co_issuer_id off),
       ors_vct = co_vct off, ors_credential_type_id = map_option ctype_bare (co_credential_type_id off),
       ors_claims = co_claims off, ors_state = offer_state_as_str (observed_state now off),
       ors_expires_at = co_expires_at off, ors_created_at = co_created_at off,
       ors_issued_at = co_issued_at off, ors_cancelled_at = co_cancelled_at off \<rparr>"

definition offer_to_status_response :: "datetime \<Rightarrow> credential_offer \<Rightarrow> offer_status_response" where
  "offer_to_status_response now off =
     \<lparr> oss_id = offer_bare (co_id off), oss_state = offer_state_as_str (observed_state now off),
       oss_expires_at = co_expires_at off, oss_issued_at = co_issued_at off,
       oss_cancelled_at = co_cancelled_at off \<rparr>"

section \<open>Handlers\<close>

definition create_offer ::
  "'x mgmt_state \<Rightarrow> tenant_id \<Rightarrow> string \<Rightarrow> create_offer_request \<Rightarrow>
   ('x world, api_error, create_offer_response) eff" where
  "create_offer st tenant issuer_id_str payload =
     (let p = ms_pool st; h = ms_host st in
     bindE (liftR (parse_issuer_id st issuer_id_str)) (\<lambda>issuer_id.
     bindE (liftR (mapErrR (\<lambda>e. ApiInvalidInput (''credential_type_id: '' @ show_domain_error e))
              (id_from_bare (host_bs58 h) CredentialTypeId (cor_credential_type_id payload)))) (\<lambda>ctype_id.
     bindE (liftR (resolve_expires_in (cor_expires_in_seconds payload))) (\<lambda>expires_in.
     bindE (acquire_pool_for_issuer st tenant issuer_id) (\<lambda>_.
     bindE (api_db st (find_credential_type_for_tenant p tenant ctype_id)) (\<lambda>found.
     bindE (okOr ApiNotFound (case found of
              Some ct \<Rightarrow> if ct_retired_at ct = None then Some ct else None | None \<Rightarrow> None)) (\<lambda>ctype.
     bindE (api_db st (is_assigned p issuer_id (ct_id ctype))) (\<lambda>assigned.
     bindE (guardE assigned (Conflict (''credential type '' @ id_display ''ctype'' (ctype_bare (ct_id ctype))
              @ '' is not assigned to issuer '' @ id_display ''issuer'' (issuer_bare issuer_id)))) (\<lambda>_.
     bindE (validator_for_type st ctype) (\<lambda>validator.
     bindE (guardE (validator (cor_claims payload) = [])
              (ClaimsValidationFailed (validator (cor_claims payload)))) (\<lambda>_.
     bindE (generate_secret h) (\<lambda>code.
     bindE (utc_now h) (\<lambda>now.
     let expires_at = now + expires_in in
     bindE (generate_bare h) (\<lambda>bare.
     bindE (utc_now h) (\<lambda>created_at.
     let offer = credential_offer_new (CredentialOfferId bare) created_at tenant issuer_id (Some (ct_id ctype))
                   (ct_vct ctype) (cor_claims payload) (PreAuthCode code) expires_at in
     bindE (api_db st (insert_offer p offer)) (\<lambda>_.
     ret \<lparr> cors_id = offer_bare (co_id offer), cors_pre_auth_code = PreAuthCode code,
           cors_offer_deeplink = build_offer_deeplink (ms_urlencode st) (ms_issuer_base_url st)
              (co_issuer_id offer) (co_id offer),
           cors_expires_at = expires_at \<rparr>))))))))))))))))"

definition load_offer ::
  "'x mgmt_state \<Rightarrow> tenant_id \<Rightarrow> string \<Rightarrow> string \<Rightarrow> ('x world, api_error, credential_offer) eff" where
  "load_offer st tenant issuer_id_str offer_id_str =
     bindE (liftR (parse_issuer_id st issuer_id_str)) (\<lambda>issuer_id.
     bindE (liftR (parse_offer_id st offer_id_str)) (\<lambda>offer_id.
     bindE (acquire_pool_for_issuer st tenant issuer_id) (\<lambda>_.
     api_db st (find_offer_by_id (ms_pool st) tenant issuer_id offer_id))))"

definition get_offer ::
  "'x mgmt_state \<Rightarrow> tenant_id \<Rightarrow> string \<Rightarrow> string \<Rightarrow> ('x world, api_error, offer_response) eff" where
  "get_offer st tenant issuer_id_str offer_id_str =
     bindE (load_offer st tenant issuer_id_str offer_id_str) (\<lambda>offer.
     bindE (utc_now (ms_host st)) (\<lambda>now. ret (offer_to_response now offer)))"

definition get_offer_status ::
  "'x mgmt_state \<Rightarrow> tenant_id \<Rightarrow> string \<Rightarrow> string \<Rightarrow> ('x world, api_error, offer_status_response) eff" where
  "get_offer_status st tenant issuer_id_str offer_id_str =
     bindE (load_offer st tenant issuer_id_str offer_id_str) (\<lambda>offer.
     bindE (utc_now (ms_host st)) (\<lambda>now. ret (offer_to_status_response now offer)))"

text \<open>
  The row read and the row cancelled are named by the same parsed path
  parameters, which the loaded offer carries in its key columns.
\<close>

definition cancel_loaded ::
  "'x mgmt_state \<Rightarrow> tenant_id \<Rightarrow> issuer_id \<Rightarrow> offer_id \<Rightarrow> credential_offer \<Rightarrow> datetime \<Rightarrow>
   ('x world, api_error, credential_offer) eff" where
  "cancel_loaded st tenant issuer_id offer_id offer now = (case co_state offer of
     Cancelled \<Rightarrow> ret offer
   | OfferPending \<Rightarrow>
       bindE (liftR (mapErrR api_from_domain (try_cancel now offer))) (\<lambda>offer'.
       bindE (api_db st (cancel_offer_row (ms_pool st) tenant issuer_id offer_id now)) (\<lambda>_. ret offer'))
   | other \<Rightarrow> raise (Conflict (''cannot cancel offer in state '' @ offer_state_as_str other)))"

definition cancel_offer ::
  "'x mgmt_state \<Rightarrow> tenant_id \<Rightarrow> string \<Rightarrow> string \<Rightarrow> ('x world, api_error, offer_response) eff" where
  "cancel_offer st tenant issuer_id_str offer_id_str =
     bindE (liftR (parse_issuer_id st issuer_id_str)) (\<lambda>issuer_id.
     bindE (liftR (parse_offer_id st offer_id_str)) (\<lambda>offer_id.
     bindE (acquire_pool_for_issuer st tenant issuer_id) (\<lambda>_.
     bindE (api_db st (find_offer_by_id (ms_pool st) tenant issuer_id offer_id)) (\<lambda>offer.
     bindE (utc_now (ms_host st)) (\<lambda>now.
     bindE (cancel_loaded st tenant issuer_id offer_id offer now) (\<lambda>offer'.
     ret (offer_to_response now offer')))))))"

definition list_offers ::
  "'x mgmt_state \<Rightarrow> tenant_id \<Rightarrow> string \<Rightarrow> list_offers_params \<Rightarrow>
   ('x world, api_error, offer_response list \<times> string option) eff" where
  "list_offers st tenant issuer_id_str query =
     (let b = host_bs58 (ms_host st) in
     bindE (liftR (parse_issuer_id st issuer_id_str)) (\<lambda>issuer_id.
     bindE (liftR (resolve_list_limit (lop_limit query))) (\<lambda>limit.
     bindE (liftR (parse_offer_state_filter (lop_state query))) (\<lambda>state_filter.
     bindE (liftR (transposeR (map_option (cursor_decode (ms_cursor st)
              (\<lambda>bare. bindR (id_from_bare b CredentialOfferId bare) (\<lambda>_. Inr ()))) (lop_cursor query)))) (\<lambda>cur.
     bindE (acquire_pool_for_issuer st tenant issuer_id) (\<lambda>_.
     bindE (utc_now (ms_host st)) (\<lambda>now.
     bindE (api_db st (list_offers_page (ms_pool st) tenant issuer_id
              \<lparr> oq_state_filter = state_filter, oq_cursor = cur, oq_limit = limit, oq_now = now \<rparr>)) (\<lambda>page.
     ret (map (offer_to_response now) (lp_items page),
          if lp_has_more page \<and> lp_items page \<noteq> []
          then (let o' = last (lp_items page)
                in Some (cursor_encode (ms_cursor st) (co_created_at o') (offer_bare (co_id o'))))
          else None)))))))))"

end
