(* ===== verification/LifecycleApi.thy ===== *)
theory LifecycleApi
  imports ApiCommon
begin

text \<open>
  \<open>api_management/issued_credentials.rs\<close>: reading and listing issued
  credentials, and the suspend / unsuspend / revoke operations that move the
  credential and its status-list entry together.
\<close>

record credential_response =
  crs_id :: string
  crs_issuer_id :: string
  crs_credential_offer_id :: string
  crs_vct :: string
  crs_holder_key_jkt :: string
  crs_status_list_id :: string
  crs_status_list_index :: u32
  crs_state :: string
  crs_expired :: bool
  crs_issued_at :: datetime
  crs_expires_at :: datetime

record list_credentials_params =
  lcp_limit :: "u32 option"
  lcp_cursor :: "string option"
  lcp_state :: "string option"
  lcp_vct :: "string option"

section \<open>Helpers\<close>

definition parse_credential_id :: "'x mgmt_state \<Rightarrow> string \<Rightarrow> api_error + credential_id" where
  "parse_credential_id st = parse_path_id st ''credential_id'' IssuedCredentialId"

definition parse_credential_state_filter :: "string \<Rightarrow> api_error + ic_state" where
  "parse_credential_state_filter raw =
     mapErrR (\<lambda>e. ApiInvalidInput (''state query parameter: '' @ show_domain_error e)) (ic_state_parse raw)"

definition credential_to_response :: "datetime \<Rightarrow> issued_credential \<Rightarrow> credential_response" where
  "credential_to_response now c =
     \<lparr> crs_id = credential_bare (ic_id c), crs_issuer_id = issuer_bare (ic_issuer_id c),
       crs_credential_offer_id = offer_bare (ic_credential_offer_id c), crs_vct = ic_vct c,
       crs_holder_key_jkt = ic_holder_key_jkt c,
       crs_status_list_id = status_list_bare (ic_status_list_id c),
       crs_status_list_index = index_value (ic_status_list_index c),
       crs_state = ic_state_as_str (ic_state c), crs_expired = ic_is_expired_at now c,
       crs_issued_at = ic_issued_at c, crs_expires_at = ic_expires_at c \<rparr>"

section \<open>Reading\<close>

definition get_credential ::
  "'x mgmt_state \<Rightarrow> tenant_id \<Rightarrow> string \<Rightarrow> string \<Rightarrow> ('x world, api_error, credential_response) eff" where
  "get_credential st tenant issuer_id_str credential_id_str =
     bindE (liftR (parse_issuer_id st issuer_id_str)) (\<lambda>issuer_id.
     bindE (liftR (parse_credential_id st credential_id_str)) (\<lambda>cid.
     bindE (acquire_pool_for_issuer st tenant issuer_id) (\<lambda>_.
     bindE (api_db st (find_issued_credential (ms_pool st) tenant cid)) (\<lambda>found.
     bindE (okOr ApiNotFound found) (\<lambda>c.
     bindE (guardE (ic_issuer_id c = issuer_id) ApiNotFound) (\<lambda>_.
     bindE (utc_now (ms_host st)) (\<lambda>now. ret (credential_to_response now c))))))))"

definition list_credentials ::
  "'x mgmt_state \<Rightarrow> tenant_id \<Rightarrow> string \<Rightarrow> list_credentials_params \<Rightarrow>
   ('x world, api_error, credential_response list \<times> string option) eff" where
  "list_credentials st tenant issuer_id_str query =
     (let b = host_bs58 (ms_host st) in
     bindE (liftR (parse_issuer_id st issuer_id_str)) (\<lambda>issuer_id.
     bindE (liftR (resolve_list_limit (lcp_limit query))) (\<lambda>limit.
     bindE (liftR (transposeR (map_option parse_credential_state_filter (lcp_state query)))) (\<lambda>state_filter.
     bindE (liftR (transposeR (map_option (cursor_decode (ms_cursor st)
              (\<lambda>bare. bindR (id_from_bare b IssuedCredentialId bare) (\<lambda>_. Inr ()))) (lcp_cursor query)))) (\<lambda>cur.
     bindE (acquire_pool_for_issuer st tenant issuer_id) (\<lambda>_.
     bindE (api_db st (list_credentials_page (ms_pool st) tenant
              \<lparr> cq_issuer_id = Some issuer_id, cq_state = state_filter, cq_vct = lcp_vct query,
                cq_cursor = cur, cq_limit = limit \<rparr>)) (\<lambda>page.
     bindE (utc_now (ms_host st)) (\<lambda>now.
     ret (map (credential_to_response now) (lp_items page),
          if lp_has_more page \<and> lp_items page \<noteq> []
          then (let c = last (lp_items page)
                in Some (cursor_encode (ms_cursor st) (ic_issued_at c) (credential_bare (ic_id c))))
          else None)))))))))"

section \<open>Life-cycle operations\<close>

text \<open>
  The transaction in two parts: what it reads and decides, without a row lock,
  and what it writes.
\<close>

definition lifecycle_read ::
  "'x mgmt_state \<Rightarrow> tenant_id \<Rightarrow> issuer_id \<Rightarrow> credential_id \<Rightarrow>
   (issued_credential \<Rightarrow> domain_error + issued_credential) \<Rightarrow> ('x world, api_error, issued_credential) eff" where
  "lifecycle_read st tenant issuer_id cid apply_transition =
     bindE (require_issuer_owned_by_tenant st tenant issuer_id) (\<lambda>_.
     bindE (api_db st (find_issued_credential (ms_pool st) tenant cid)) (\<lambda>found.
     bindE (okOr ApiNotFound found) (\<lambda>c.
     bindE (guardE (ic_issuer_id c = issuer_id) ApiNotFound) (\<lambda>_.
     liftR (mapErrR api_from_domain (apply_transition c))))))"

definition lifecycle_write ::
  "'x mgmt_state \<Rightarrow> tenant_id \<Rightarrow> issued_credential \<Rightarrow> status_value \<Rightarrow>
   ('x world, api_error, issued_credential tx_end) eff" where
  "lifecycle_write st tenant c bit_value =
     (let p = ms_pool st in
     bindE (api_db st (set_credential_state p tenant (ic_id c) (ic_state c))) (\<lambda>_.
     bindE (api_db st (write_bit (ms_core_set_at st) p (ic_status_list_id c) (ic_status_list_index c) bit_value)) (\<lambda>_.
     ret (Commit c))))"

definition lifecycle_tx ::
  "'x mgmt_state \<Rightarrow> tenant_id \<Rightarrow> issuer_id \<Rightarrow> credential_id \<Rightarrow>
   (issued_credential \<Rightarrow> domain_error + issued_credential) \<Rightarrow> status_value \<Rightarrow>
   ('x world, api_error, issued_credential tx_end) eff" where
  "lifecycle_tx st tenant issuer_id cid apply_transition bit_value =
     bindE (lifecycle_read st tenant issuer_id cid apply_transition) (\<lambda>c.
     lifecycle_write st tenant c bit_value)"

definition run_lifecycle_op ::
  "'x mgmt_state \<Rightarrow> tenant_id \<Rightarrow> issuer_id \<Rightarrow> credential_id \<Rightarrow>
   (issued_credential \<Rightarrow> domain_error + issued_credential) \<Rightarrow> status_value \<Rightarrow>
   ('x world, api_error, issued_credential) eff" where
  "run_lifecycle_op st tenant issuer_id cid apply_transition bit_value =
     in_tx (ms_pool st) (api_sql st) (api_sql st)
       (lifecycle_tx st tenant issuer_id cid apply_transition bit_value)"

definition lifecycle_handler ::
  "(issued_credential \<Rightarrow> domain_error + issued_credential) \<Rightarrow> status_value \<Rightarrow> 'x mgmt_state \<Rightarrow> tenant_id \<Rightarrow>
   string \<Rightarrow> string \<Rightarrow> ('x world, api_error, credential_response) eff" where
  "lifecycle_handler apply_transition bit_value st tenant issuer_id_str credential_id_str =
     bindE (liftR (parse_issuer_id st issuer_id_str)) (\<lambda>issuer_id.
     bindE (liftR (parse_credential_id st credential_id_str)) (\<lambda>cid.
     bindE (run_lifecycle_op st tenant issuer_id cid apply_transition bit_value) (\<lambda>updated.
     bindE (utc_now (ms_host st)) (\<lambda>now. ret (credential_to_response now updated)))))"

definition suspend where "suspend = lifecycle_handler try_suspend StatusSuspended"
definition unsuspend where "unsuspend = lifecycle_handler try_unsuspend StatusValid"
definition revoke where "revoke = lifecycle_handler try_revoke StatusRevoked"

end
