(* ===== verification/Fixtures.thy ===== *)
theory Fixtures
  imports Runner Publisher Oidc OfferApi LifecycleApi
begin

text \<open>
  Concrete instances of the parameters: a counter as the outside state, a pool
  without faults, a clock that advances by one second per reading, a \<open>bs58\<close>
  codec over sixteen of the alphabet's letters, registries and a signing engine
  that accept everything, and small tables.  The witnesses evaluate the model
  on them.
\<close>

section \<open>Codec\<close>

definition digits :: string where "digits = ''123456789ABCDEFG''"

definition dig :: "nat \<Rightarrow> char" where "dig n = digits ! n"

definition undig :: "char \<Rightarrow> nat" where "undig c = length (takeWhile (\<lambda>d. d \<noteq> c) digits)"

fun undigs :: "string \<Rightarrow> string + byte list" where
  "undigs [] = Inr []"
| "undigs [_] = Inl ''odd length''"
| "undigs (a # b # s) = bindR (undigs s) (\<lambda>bs. Inr (of_nat (16 * undig a + undig b) # bs))"

definition fx_bs58 :: bs58 where
  "fx_bs58 = \<lparr> bs58_encode = (\<lambda>bs. concat (map (\<lambda>b. [dig (unat b div 16), dig (unat b mod 16)]) bs)),
               bs58_decode = undigs \<rparr>"

lemma digits_base58: "list_all is_base58_char digits"
  by (simp add: digits_def is_base58_char_def less_eq_char_def)

lemma dig_cases:
  assumes "n < 16"
  shows "undig (dig n) = n" and "is_base58_char (dig n)"
proof -
  have l: "n < length digits" using assms by (simp add: digits_def)
  have "distinct digits" by (simp add: digits_def)
  then have "takeWhile (\<lambda>d. d \<noteq> digits ! n) digits = take n digits"
    using takeWhile_eq_take_P_nth [of n digits "\<lambda>d. d \<noteq> digits ! n"] l
    by (auto simp: nth_eq_iff_index_eq)
  then show "undig (dig n) = n" using l by (simp add: undig_def dig_def)
  show "is_base58_char (dig n)" using digits_base58 l by (simp add: list_all_length dig_def)
qed

lemma fx_bs58_ok: "bs58_ok fx_bs58"
proof -
  have nib: "unat b div 16 < 16" "unat b mod 16 < 16" for b :: byte
    using unsigned_less [of b, where 'a = nat] by auto
  have "undigs (concat (map (\<lambda>b. [dig (unat b div 16), dig (unat b mod 16)]) bs)) = Inr bs" for bs :: "byte list"
    by (induction bs) (auto simp: dig_cases(1) nib)
  moreover have "list_all is_base58_char (concat (map (\<lambda>b. [dig (unat b div 16), dig (unat b mod 16)]) bs))"
    for bs :: "byte list"
    by (induction bs) (auto simp: dig_cases(2) nib)
  ultimately show ?thesis by (simp add: bs58_ok_def fx_bs58_def)
qed

definition fx_bare :: "nat \<Rightarrow> string" where
  "fx_bare n = bs58_encode fx_bs58 (replicate 10 (of_nat n))"

section \<open>Outside world\<close>

definition fx_pool :: "nat pool" where
  "fx_pool = \<lparr> sql_io = (\<lambda>x. (NoFault, x)), row_locked = (\<lambda>_ _. False), sql_show = (\<lambda>_. ''db''),
               sql_now = (\<lambda>x. int x * 1000000) \<rparr>"

lemma fx_pool_up [simp]: "pool_up fx_pool"
  by (simp add: pool_up_def fx_pool_def)

text \<open>Statements on the fault-free pool of the fixtures.\<close>

lemma fx_run_stmt:
  "run_stmt fx_pool q w = (case q (wdb w) of Inl e \<Rightarrow> (Inl e, w) | Inr (a, d) \<Rightarrow> (Inr a, w\<lparr> wdb := d \<rparr>))"
  by (simp add: run_stmt_def fx_pool_def split: sum.splits)

lemma fx_run_query:
  "run_query fx_pool q w = (case q (wext w) (wdb w) of Inl e \<Rightarrow> (Inl e, w) | Inr a \<Rightarrow> (Inr a, w))"
  by (simp add: run_query_def fx_run_stmt split: sum.splits)

lemma fx_acquire: "acquire fx_pool w = (Inr (), w)"
  by (simp add: acquire_def fx_run_stmt)

lemma fx_in_tx:
  "in_tx fx_pool f g body w = (case body w of
      (Inl e, w1) \<Rightarrow> (Inl e, w1\<lparr> wdb := wdb w \<rparr>)
    | (Inr (Rollback a), w1) \<Rightarrow> (Inr a, w1\<lparr> wdb := wdb w \<rparr>)
    | (Inr (Commit a), w1) \<Rightarrow> (Inr a, w1))"
  by (simp add: in_tx_def fx_acquire) (simp add: fx_pool_def split: prod.splits sum.splits tx_end.splits)

lemmas fx_run = fx_run_stmt fx_run_query fx_acquire fx_in_tx

definition fx_host :: "nat host" where
  "fx_host = \<lparr> host_clock = (\<lambda>x. (int x * 1000000, Suc x)),
               host_entropy = (\<lambda>n x. (replicate n (of_nat x), Suc x)),
               host_bs58 = fx_bs58, host_sha256 = map (\<lambda>c. of_char c) \<rparr>"

definition fx_engine :: "nat signing_engine" where
  "fx_engine = \<lparr> se_generate_keypair = (\<lambda>role x. (Inr \<lparr> gkp_id = KeyPairId (fx_bare x),
        gkp_public_key = \<lparr> rpk_algorithm = algorithm_for_role role, rpk_bytes = [] \<rparr> \<rparr>, Suc x)),
     se_get_public_key = (\<lambda>k x. (Inr \<lparr> rpk_algorithm = Ed25519, rpk_bytes = replicate 32 1 \<rparr>, x)),
     se_sign = (\<lambda>k d x. (Inr \<lparr> sig_algorithm = EcdsaP256, sig_bytes = d \<rparr>, x)) \<rparr>"

definition fx_provider :: "nat token_provider" where
  "fx_provider = \<lparr> tp_get = ret ''t0'', tp_invalidate = ret ''t1'' \<rparr>"

definition fx_registry :: "nat registry_facade" where
  "fx_registry = \<lparr> rf_allocate_did = (\<lambda>t partner. ret \<lparr> al_url = ''https://reg.example/abc/did.jsonl'',
        al_identifier = ''abc'' \<rparr>),
     rf_publish_log_entry = (\<lambda>t partner ident entry. ret ()),
     rf_fetch_log = (\<lambda>d. ret \<lparr> fl_raw = [], fl_entries = [] \<rparr>) \<rparr>"

definition fx_status_registry :: "nat status_registry_facade" where
  "fx_status_registry = \<lparr> sf_create_status_list_entry = (\<lambda>t partner. ret \<lparr> sle_id = ''e1'',
        sle_registry_url = ''https://status.example/e1'' \<rparr>),
     sf_update_status_list_entry = (\<lambda>t partner entry jwt. ret ()) \<rparr>"

definition fx_registry_errors :: registry_errors where
  "fx_registry_errors = \<lparr> registry_is_retryable = (\<lambda>e. case e of HttpStatus s _ \<Rightarrow> s \<ge> 500 | _ \<Rightarrow> False),
     registry_show = (\<lambda>_. ''registry'') \<rparr>"

definition fx_did_lib :: did_lib where
  "fx_did_lib = \<lparr> dl_from_str = (\<lambda>s. Inr \<lparr> did_text = s, did_path = Some ''abc'' \<rparr>),
     dl_try_new_tdw = (\<lambda>d p. Inr (''did:tdw:{SCID}:'' @ d)), dl_multikey = (\<lambda>_. ''zkey''),
     dl_new_genesis = (\<lambda>k d a b t. JArr [JStr d]), dl_new_deactivation = (\<lambda>v d t. d),
     dl_new_rotation = (\<lambda>v d k a b t. JArr [JStr d]), dl_diddoc_try_from = Inr,
     dl_strip_proof_slot = id, dl_derive_scid = (\<lambda>_. ''scid''), dl_derive_entry_hash = (\<lambda>_. ''hash''),
     dl_set_version_id = (\<lambda>e v. e), dl_signing_input = (\<lambda>c d. []),
     dl_proof_from_signature = (\<lambda>c s. JNull), dl_append_proof = (\<lambda>e p. e), dl_rfc3339 = (\<lambda>_. ''now''),
     dl_json_to_string = (\<lambda>_. ''{}''), dl_json_from_string = (\<lambda>_. Some (JObj [])) \<rparr>"

definition fx_worker :: "nat worker" where
  "fx_worker = \<lparr> wk_pool = fx_pool, wk_host = fx_host, wk_registry = fx_registry, wk_engine = fx_engine,
     wk_status_registry = fx_status_registry, wk_providers = (\<lambda>_. fx_provider),
     wk_rng = \<lparr> next_u64 = (\<lambda>x. (of_nat x, Suc x)) \<rparr>, wk_did_lib = fx_did_lib,
     wk_registry_errors = fx_registry_errors, wk_parse_uuid = Some, wk_shutdown = (\<lambda>_. False) \<rparr>"

section \<open>Rows\<close>

definition fx_tenant :: tenant where
  "fx_tenant = \<lparr> tn_id = TenantId (fx_bare 1), tn_partner_id = ''p1'', tn_display_name = None,
     tn_description = None, tn_oauth_client_id = None, tn_oauth_client_secret = None,
     tn_oauth_refresh_token = None \<rparr>"

definition fx_issuer :: issuer where
  "fx_issuer = \<lparr> iss_id = IssuerId (fx_bare 2), iss_tenant_id = TenantId (fx_bare 1),
     iss_did = ''did:tdw:scid:reg.example:abc'', iss_state = Some IssuerActive, iss_description = None,
     iss_authorized_key_id = Some (KeyPairId ''ka''), iss_authentication_key_id = Some (KeyPairId ''kb''),
     iss_assertion_key_id = Some (KeyPairId ''kc''), iss_display_name = None, iss_logo_uri = None,
     iss_locale = None, iss_created_at = 0 \<rparr>"

definition fx_offer :: credential_offer where
  "fx_offer = credential_offer_new (CredentialOfferId (fx_bare 3)) 0 (TenantId (fx_bare 1))
     (IssuerId (fx_bare 2)) (Some (CredentialTypeId (fx_bare 5))) ''vct'' (JObj []) (PreAuthCode ''code'') 600000000"

definition fx_ctype :: credential_type where
  "fx_ctype = credential_type_new (CredentialTypeId (fx_bare 5)) 0 (TenantId (fx_bare 1)) ''vct'' (JArr [])
     None (JObj []) (JObj []) 86400000000 RevocableAndSuspendable"

definition fx_list :: status_list where
  "fx_list = (status_list_new (StatusListId (fx_bare 4)) (IssuerId (fx_bare 2)) 0)
     \<lparr> sl_registry_entry_id := Some ''e1'', sl_registry_url := Some ''https://status.example/e1'' \<rparr>"

definition fx_task :: operation_task where
  "fx_task = \<lparr> ot_id = TaskId (fx_bare 6), ot_tenant_id = TenantId (fx_bare 1), ot_task_type = CreateIssuer,
     ot_state = TaskPending, ot_step = None, ot_attempts = 0, ot_next_attempt_at = None, ot_error_code = None,
     ot_error_message = None,
     ot_input = JObj [(''description'', JStr ''d''), (''display_name'', JStr ''n'')],
     ot_state_data = JObj [], ot_result_issuer_id = Some (IssuerId (fx_bare 7)), ot_created_at = 0,
     ot_updated_at = 0, ot_completed_at = None \<rparr>"

definition fx_db :: db where
  "fx_db = \<lparr> tenants = [fx_tenant],
     issuers = [\<lparr> ir_issuer = fx_issuer, ir_current_status_list_id = Some (StatusListId (fx_bare 4)) \<rparr>],
     credential_offers = [fx_offer], oidc_access_tokens = [], oidc_nonces = [],
     operation_tasks = [fx_task], status_lists = [fx_list], issued_credentials = [],
     credential_types = [fx_ctype],
     issuer_credential_types = [\<lparr> as_issuer_id = IssuerId (fx_bare 2),
        as_credential_type_id = CredentialTypeId (fx_bare 5), as_tenant_id = TenantId (fx_bare 1),
        as_assigned_at = 0 \<rparr>],
     user_accounts = [], user_account_invitations = [] \<rparr>"

definition fx_world :: "nat world" where
  "fx_world = \<lparr> wdb = fx_db, wext = 0 \<rparr>"

lemma fx_tasks_inv: "tasks_inv fx_db"
  by (simp add: tasks_inv_def fx_db_def fx_task_def task_wf_def)

end
