(* ===== verification/WorkerProps.thy ===== *)
theory WorkerProps
  imports WorkerInv Fixtures
begin

text \<open>
  Properties of the task queue and its worker: the table invariant over the
  whole loop, the choice of the next task, what each step outcome writes, the
  retry window and the 24-hour cap, and the classification of errors.
\<close>

section \<open>The loop\<close>

lemma run_loop_table:
  assumes "tasks_inv (wdb w)"
  shows "tasks_inv (wdb (snd (run_loop wk n w))) \<and>
    (\<forall>j t. task_row j (wdb w) = Some t \<longrightarrow> task_state_is_terminal (ot_state t) \<longrightarrow>
       task_row j (wdb (snd (run_loop wk n w))) = Some t)"
  using assms
proof (induction n arbitrary: w)
  case 0
  then show ?case by simp
next
  case (Suc n)
  obtain r w1 where p: "poll wk w = (r, w1)" by fastforce
  have one: "tasks_inv (wdb w1)" "\<forall>j t. task_row j (wdb w) = Some t \<longrightarrow>
      task_state_is_terminal (ot_state t) \<longrightarrow> task_row j (wdb w1) = Some t"
    using poll_table [OF Suc.prems, of wk] p by simp_all
  show ?case
  proof (cases "wk_shutdown wk (wext w)")
    case True
    then show ?thesis using Suc.prems by simp
  next
    case False
    then have "run_loop wk (Suc n) w = (case r of Inl e \<Rightarrow> (Inl e, w1) | Inr _ \<Rightarrow> run_loop wk n w1)"
      using p by (simp add: bindE_run split: sum.splits)
    then show ?thesis using one Suc.IH [OF one(1)] by (cases r) auto
  qed
qed

text \<open>However long the dispatch loop runs, and whatever fails while it runs, the task table keeps
  its well-formedness (distinct ids; completion time, retry timer and error columns consistent with the
  state), and a task that is completed or failed is never touched again.\<close>

lemma run_loop_keeps_task_table:
  assumes "tasks_inv (wdb w)"
  shows "tasks_inv (wdb (snd (run_loop wk n w))) \<and>
    (\<forall>j t. task_row j (wdb w) = Some t \<and> task_state_is_terminal (ot_state t) \<longrightarrow>
       task_row j (wdb (snd (run_loop wk n w))) = Some t)"
  using run_loop_table [OF assms] by blast

theorem run_loop_keeps_task_table_witness:
  "tasks_inv (wdb fx_world) \<and> tasks_inv (wdb (snd (run_loop fx_worker 9 fx_world)))"
  using run_loop_keeps_task_table [of fx_world fx_worker 9] fx_tasks_inv
  by (simp add: fx_world_def)

section \<open>Claiming\<close>

lemma acquire_wdb: "wdb (snd (acquire p w)) = wdb w"
  using acquire_keeps_db [of "\<lambda>d. d = wdb w" p] by (simp add: preserves_def)

lemma acquire_wext: "wext (snd (acquire p w)) = snd (sql_io p (wext w))"
  by (auto simp: acquire_def run_stmt_def split: prod.splits sql_fault.splits)

lemma in_tx_success_at:
  assumes "in_tx p f g body w0 = (Inr a, w')"
  shows "\<exists>r w1. body (snd (acquire p w0)) = (Inr r, w1) \<and>
           ((r = Commit a \<and> wdb w' = wdb w1) \<or> (r = Rollback a \<and> wdb w' = wdb w0))"
  using assms acquire_wdb [of p w0]
  by (auto simp: in_tx_def split: sum.splits tx_end.splits prod.splits sql_fault.splits)

lemma acquired_row:
  assumes "acquire_next wk w = (Inr (Some t), w')" and "tasks_inv (wdb w)"
  shows "\<exists>t0. task_row (ot_id t) (wdb w) = Some t0 \<and> 
     task_runnable (fst (host_clock (wk_host wk) (wext w))) t0 \<and>
     (\<forall>u \<in> set (operation_tasks (wdb w)). task_runnable (fst (host_clock (wk_host wk) (wext w))) u \<and>
        \<not> row_locked (wk_pool wk) (snd (sql_io (wk_pool wk) (snd (host_clock (wk_host wk) (wext w)))))
            (task_bare (ot_id u)) \<longrightarrow> task_before t0 u) \<and>
     try_acquire (fst (host_clock (wk_host wk) (wext w))) t0 = Inr t \<and> task_row (ot_id t) (wdb w') = Some t \<and>
     (\<forall>j. j \<noteq> ot_id t \<longrightarrow> task_row j (wdb w') = task_row j (wdb w))"
proof -
  let ?p = "wk_pool wk"
  define now where "now = fst (host_clock (wk_host wk) (wext w))"
  define x where "x = snd (sql_io (wk_pool wk) (snd (host_clock (wk_host wk) (wext w))))"
  define w1 where "w1 = w\<lparr> wext := snd (host_clock (wk_host wk) (wext w)) \<rparr>"
  have tx: "in_tx ?p DbError DbError (claim_body ?p now) w1 = (Inr (Some t), w')"
    using assms(1) by (simp add: acquire_next_def bindE_run now_def w1_def)
  define w2 where "w2 = snd (acquire ?p w1)"
  have w2: "wdb w2 = wdb w1" "wext w2 = x"
    by (simp_all add: w2_def acquire_wdb acquire_wext w1_def x_def)
  obtain y w3 where cb: "claim_body ?p now w2 = (Inr y, w3)"
    and y: "(y = Commit (Some t) \<and> wdb w' = wdb w3) \<or> (y = Rollback (Some t) \<and> wdb w' = wdb w1)"
    using in_tx_success_at [OF tx] unfolding w2_def by blast
  have "y \<noteq> Rollback (Some t)"
    using cb by (auto simp: claim_body_def eff_success split: option.splits)
  then have yc: "y = Commit (Some t)" "wdb w' = wdb w3" using y by blast+
  obtain t0 w4 where f: "find_next_acquirable_for_update ?p now w2 = (Inr (Some t0), w4)"
    and acq: "try_acquire now t0 = Inr t" and sa: "set_acquired ?p t w4 = (Inr (), w3)"
    using cb yc by (auto simp: claim_body_def eff_success res_success split: option.splits)
  have t0: "wdb w4 = wdb w" "t0 \<in> set (operation_tasks (wdb w))" "task_runnable now t0"
    using find_next_success [OF f] w2 by (simp_all add: w1_def)
  have id: "ot_id t = ot_id t0" using try_acquire_same [OF acq] by simp
  have first: "task_before t0 u" if "u \<in> set (operation_tasks (wdb w))" "task_runnable now u"
      "\<not> row_locked ?p x (task_bare (ot_id u))" for u
    using find_next_first [OF f, of u] that w2 by (simp add: w1_def)
  have w3: "operation_tasks (wdb w3) = update_where (\<lambda>r. ot_id r = ot_id t)
      (\<lambda>r. r\<lparr> ot_state := ot_state t, ot_attempts := ot_attempts t, ot_updated_at := ot_updated_at t \<rparr>)
      (operation_tasks (wdb w))"
    using update_one_success [OF sa [unfolded set_acquired_def]] t0(1) by simp
  have row0: "task_row (ot_id t) (wdb w) = Some t0"
    using task_row_unique [OF assms(2) t0(2)] id by simp
  have "t0\<lparr> ot_state := ot_state t, ot_attempts := ot_attempts t, ot_updated_at := ot_updated_at t \<rparr> = t"
    using acq by (auto simp: try_acquire_def split: task_state.splits)
  then have "task_row (ot_id t) (wdb w') = Some t" using row0 w3 yc(2) by simp
  moreover have "\<forall>j. j \<noteq> ot_id t \<longrightarrow> task_row j (wdb w') = task_row j (wdb w)"
    using w3 yc(2) by simp
  ultimately show ?thesis using row0 t0(3) first acq unfolding now_def x_def by blast
qed

text \<open>C11. A claim takes the task that is first in dispatch order (rows without a retry timer first, then
  the earliest timer, ties by creation time) among the runnable rows no other worker has locked; the
  stored row becomes the claimed aggregate, in progress, and every other row stays.\<close>

theorem acquire_next_is_first_runnable:
  assumes "acquire_next wk w = (Inr (Some t), w')" and "tasks_inv (wdb w)"
  defines "now \<equiv> fst (host_clock (wk_host wk) (wext w))"
    and "x \<equiv> snd (sql_io (wk_pool wk) (snd (host_clock (wk_host wk) (wext w))))"
  shows "\<exists>t0. task_row (ot_id t) (wdb w) = Some t0 \<and> task_runnable now t0 \<and>
     (\<forall>u \<in> set (operation_tasks (wdb w)). task_runnable now u \<and>
        \<not> row_locked (wk_pool wk) x (task_bare (ot_id u)) \<longrightarrow> task_before t0 u) \<and>
     try_acquire now t0 = Inr t \<and> task_row (ot_id t) (wdb w') = Some t \<and>
     (\<forall>j. j \<noteq> ot_id t \<longrightarrow> task_row j (wdb w') = task_row j (wdb w))"
  using acquired_row [OF assms(1,2)] unfolding now_def x_def .

theorem acquire_next_is_first_runnable_witness:
  "\<exists>t w'. acquire_next fx_worker fx_world = (Inr (Some t), w') \<and> ot_id t = ot_id fx_task \<and>
     task_row (ot_id fx_task) (wdb w') = Some t"
proof -
  have "tasks_inv (wdb fx_world)" using fx_tasks_inv by (simp add: fx_world_def)
  moreover obtain t w' where a: "acquire_next fx_worker fx_world = (Inr (Some t), w')" "ot_id t = ot_id fx_task"
    by (simp add: acquire_next_def fx_worker_def fx_world_def fx_host_def claim_body_def in_tx_def
        acquire_def find_next_acquirable_for_update_def run_query_def fx_db_def fx_pool_def fx_task_def
        set_acquired_def update_one_def update_stmt_def update_where_def rows_matching_def
        run_stmt_def bindE_run mapErr_run decode_opt_task_def decode_task_def min_row_def task_runnable_def
        try_acquire_def)
  ultimately show ?thesis using acquire_next_is_first_runnable [OF a(1)] by auto
qed

section \<open>Writing outcomes\<close>

lemma update_task_run:
  assumes "pool_up p" and "task_row i (wdb w) = Some r"
  shows "update_one p operation_tasks_update operation_tasks (\<lambda>r. ot_id r = i) f w =
    (Inr (), w\<lparr> wdb := operation_tasks_update (update_where (\<lambda>r. ot_id r = i) f) (wdb w),
               wext := snd (sql_io p (wext w)) \<rparr>)"
  using row_by_SomeD [OF assms(2)] by (intro update_one_run [OF assms(1)]) auto

text \<open>A step that succeeds hands over to the next one: the row gets the next step, a fresh attempt
  counter, no timer and no error, and its state data is the old object overridden by the step's patch,
  key by key; the other rows stay.\<close>

lemma done_advances_step:
  assumes "pool_up p" and "task_row (ot_id t) (wdb w) = Some r" and "ot_state_data r = JObj m"
    and "distinct (map fst (state_data_patch res))"
  shows "\<exists>w' m'. apply_outcome p g t (Some nxt) (Done res) now w = (Inr (), w') \<and>
     task_row (ot_id t) (wdb w') = Some (r\<lparr> ot_step := Some nxt, ot_attempts := 0, ot_next_attempt_at := None,
        ot_error_code := None, ot_error_message := None, ot_state_data := JObj m', ot_updated_at := now \<rparr>) \<and>
     (\<forall>k. map_of m' k = (case map_of (state_data_patch res) k of Some v \<Rightarrow> Some v | None \<Rightarrow> map_of m k)) \<and>
     (\<forall>j. j \<noteq> ot_id t \<longrightarrow> task_row j (wdb w') = task_row j (wdb w))"
proof -
  define w1 where "w1 = w\<lparr> wext := snd (sql_io p (wext w)) \<rparr>"
  have row: "find (\<lambda>r. ot_id r = ot_id t) (operation_tasks (wdb w)) = Some r"
    using assms(2) by (simp add: row_by_def)
  have "task_row (ot_id t) (wdb w1) = Some r" using assms(2) by (simp add: w1_def)
  note upd = update_task_run [OF assms(1) this]
  have "apply_outcome p g t (Some nxt) (Done res) now w =
      update_one p operation_tasks_update operation_tasks (\<lambda>r. ot_id r = ot_id t)
        (\<lambda>r. r\<lparr> ot_step := Some nxt, ot_attempts := 0, ot_next_attempt_at := None,
                ot_error_code := None, ot_error_message := None,
                ot_state_data := JObj (merge_patch (state_data_patch res) m), ot_updated_at := now \<rparr>) w1"
    using row assms(1,3)
    by (simp add: apply_outcome.simps advance_step_def bindE_run mapErr_run run_query_def
          pool_up_run_stmt w1_def Let_def)
  then show ?thesis
    using assms(2) map_of_merge_patch [OF assms(4), of m]
    by (intro exI conjI, simp add: upd) (auto simp: w1_def map_add_def split: option.splits)
qed

theorem done_advances_step_witness:
  "\<exists>w'. apply_outcome fx_pool (wk_rng fx_worker) fx_task (Some ''generate_keys'')
      (Done \<lparr> state_data_patch = [(''k'', JNull)] \<rparr>) 5 fx_world = (Inr (), w')"
proof -
  have "task_row (ot_id fx_task) (wdb fx_world) = Some fx_task"
    by (simp add: fx_world_def fx_db_def row_by_def)
  moreover have "ot_state_data fx_task = JObj []" by (simp add: fx_task_def)
  moreover have "distinct (map fst (state_data_patch \<lparr> state_data_patch = [(''k'', JNull)] \<rparr>))" by simp
  ultimately show ?thesis
    using done_advances_step [OF fx_pool_up, of fx_task fx_world fx_task "[]"
        "\<lparr> state_data_patch = [(''k'', JNull)] \<rparr>" "wk_rng fx_worker" "''generate_keys''" 5] by blast
qed

text \<open>C12. A retryable failure of a task younger than 24 hours is rescheduled: the next attempt is not
  before now and at most \<open>min (2^n minutes) (1 hour)\<close> later, where \<open>n\<close> is the number of the attempt
  that failed; the row records the error and keeps everything else.\<close>

theorem retry_is_scheduled_in_window:
  assumes "pool_up p" and "task_row (ot_id t) (wdb w) = Some r"
    and "now - ot_created_at t < MAX_TASK_AGE_HOURS * HOUR"
  shows "\<exists>w' at. apply_outcome p g t nxt (Retry c m) now w = (Inr (), w') \<and>
     now \<le> at \<and> at \<le> now + int (min (60000 * 2 ^ min (unat (ot_attempts t) + 1) (2 ^ 32 - 1)) 3600000) * 1000 \<and>
     task_row (ot_id t) (wdb w') = Some (r\<lparr> ot_next_attempt_at := Some at, ot_error_code := Some c,
        ot_error_message := Some m, ot_updated_at := now \<rparr>) \<and>
     (\<forall>j. j \<noteq> ot_id t \<longrightarrow> task_row j (wdb w') = task_row j (wdb w))"
proof -
  obtain rnd x where d: "next_u64 g (wext w) = (rnd, x)" by fastforce
  define delay where "delay = backoff_delay (saturating_add1 (ot_attempts t)) rnd"
  define w1 where "w1 = w\<lparr> wext := x \<rparr>"
  have "task_row (ot_id t) (wdb w1) = Some r" using assms(2) by (simp add: w1_def)
  note upd = update_task_run [OF assms(1) this]
  have run: "apply_outcome p g t nxt (Retry c m) now w =
      schedule_retry p (ot_id t) (now + uint delay * MILLISECOND) c m now w1"
    using assms(3) d
    by (simp add: apply_outcome.simps bindE_run draw_def ext_def delay_def w1_def Let_def)
  have "unat delay \<le> min (60000 * 2 ^ min (unat (ot_attempts t) + 1) (2 ^ 32 - 1)) 3600000"
    using backoff_delay_le [of "saturating_add1 (ot_attempts t)" rnd]
    unfolding delay_def saturating_add1_unat .
  then have "uint delay \<le> int (min (60000 * 2 ^ min (unat (ot_attempts t) + 1) (2 ^ 32 - 1)) 3600000)"
    by (metis uint_nat of_nat_le_iff)
  then show ?thesis
    unfolding run schedule_retry_def upd
    using assms(2) uint_nonnegative [of delay]
    by (intro exI [of _ "now + uint delay * MILLISECOND"] exI conjI, simp)
       (simp_all add: w1_def MILLISECOND_def)
qed

theorem retry_is_scheduled_in_window_witness:
  "\<exists>w' at. apply_outcome fx_pool (wk_rng fx_worker) fx_task None (Retry ''c'' ''m'') 5 fx_world = (Inr (), w') \<and>
     (5 :: int) \<le> at"
proof -
  have "task_row (ot_id fx_task) (wdb fx_world) = Some fx_task"
    by (simp add: fx_world_def fx_db_def row_by_def)
  moreover have "(5 :: int) - ot_created_at fx_task < MAX_TASK_AGE_HOURS * HOUR"
    by (simp add: fx_task_def MAX_TASK_AGE_HOURS_def HOUR_def)
  ultimately show ?thesis
    using retry_is_scheduled_in_window [OF fx_pool_up, of fx_task fx_world fx_task 5
        "wk_rng fx_worker" None "''c''" "''m''"] by blast
qed

text \<open>A terminal failure, and a retryable failure of a task that is 24 hours old or older, fails the
  task for good: the row is failed with the error and a completion time, no timer is left, and the task is
  never runnable again.\<close>

lemma failure_is_final:
  assumes "pool_up p" and "task_row (ot_id t) (wdb w) = Some r" and "ot_state t = InProgress"
    and "oc = Terminal c m \<or> (oc = Retry c m \<and> now - ot_created_at t \<ge> MAX_TASK_AGE_HOURS * HOUR)"
  shows "\<exists>w' r'. apply_outcome p g t nxt oc now w = (Inr (), w') \<and>
     task_row (ot_id t) (wdb w') = Some r' \<and> ot_state r' = Failed \<and> ot_error_code r' = Some c \<and>
     ot_error_message r' = Some m \<and> ot_completed_at r' = Some now \<and> ot_next_attempt_at r' = None \<and>
     (\<forall>later. \<not> task_runnable later r') \<and>
     (\<forall>j. j \<noteq> ot_id t \<longrightarrow> task_row j (wdb w') = task_row j (wdb w))"
proof -
  define f where "f = t\<lparr> ot_state := Failed, ot_next_attempt_at := None, ot_error_code := Some c,
     ot_error_message := Some m, ot_updated_at := now, ot_completed_at := Some now \<rparr>"
  have run: "apply_outcome p g t nxt oc now w = set_terminal_state p f w"
    using assms(3,4)
    by (auto simp: apply_outcome.simps fail_through_aggregate_def try_fail_def f_def bindE_run)
  have "task_row (ot_id f) (wdb w) = Some r" using assms(2) by (simp add: f_def)
  note upd = update_task_run [OF assms(1) this]
  show ?thesis
    unfolding run set_terminal_state_def upd
    using assms(2) by (intro exI conjI, simp, simp add: f_def) (simp_all add: f_def task_runnable_def)
qed

theorem failure_is_final_witness:
  "\<exists>w' r'. apply_outcome fx_pool (wk_rng fx_worker) (fx_task\<lparr> ot_state := InProgress \<rparr>) None (Terminal ''c'' ''m'') 5
     fx_world = (Inr (), w') \<and> task_row (ot_id fx_task) (wdb w') = Some r' \<and> ot_state r' = Failed"
proof -
  have "task_row (ot_id (fx_task\<lparr> ot_state := InProgress \<rparr>)) (wdb fx_world) = Some fx_task"
    by (simp add: fx_world_def fx_db_def row_by_def)
  then show ?thesis
    using failure_is_final [OF fx_pool_up, of "fx_task\<lparr> ot_state := InProgress \<rparr>" fx_world fx_task
        "Terminal ''c'' ''m''" "''c''" "''m''" 5 "wk_rng fx_worker" None]
    by simp blast
qed

section \<open>Classifying errors\<close>

text \<open>A registry or token failure is retried exactly when it is retryable, with one exception: a
  secret-encryption failure that the engine calls permanent ends the task even though persistence errors
  are retryable as a class.  A retry never carries a code the caller did not name, except
  \<open>token_unavailable\<close>.\<close>

lemma token_aware_error_classified:
  "(\<exists>c m. from_token_aware_error re e rc tc = Retry c m \<and> (c = rc \<or> c = ''token_unavailable'')) \<longleftrightarrow>
     token_aware_is_retryable re e \<and>
     \<not> (\<exists>s. e = TokenErr (TokenPersistence (Encryption s)) \<and> \<not> secret_error_is_retryable s)"
proof (cases e)
  case (RegistryErr r)
  then show ?thesis by simp
next
  case (TokenErr t)
  then show ?thesis
  proof (cases t)
    case (TokenPersistence pe)
    then show ?thesis using TokenErr by (cases pe) simp_all
  qed simp_all
qed

text \<open>The \<open>401\<close> wrapper calls the registry at most twice, and a second time only after the first call
  was answered \<open>401\<close> and the provider issued a new token; any other answer of the first call is the
  answer of the wrapper.\<close>

lemma retry_on_401_behaviour:
  assumes "tp_get provider x = (Inr tok, x1)" and "call tok x1 = (r, x2)"
  shows "retry_on_401 provider call x = (case r of
     Inr a \<Rightarrow> (Inr a, x2)
   | Inl e \<Rightarrow> (if \<exists>body. e = HttpStatus 401 body
       then (case tp_invalidate provider x2 of
               (Inl te, x3) \<Rightarrow> (Inl (TokenErr te), x3)
             | (Inr tok', x3) \<Rightarrow> (case call tok' x3 of
                  (Inl re, x4) \<Rightarrow> (Inl (RegistryErr re), x4) | (Inr a, x4) \<Rightarrow> (Inr a, x4)))
       else (Inl (RegistryErr e), x2)))"
proof (cases r)
  case (Inl e)
  then show ?thesis
    using assms
    by (cases e) (auto simp: retry_on_401_def bindE_run mapErr_run reify_run split: prod.splits sum.splits)
next
  case (Inr a)
  then show ?thesis using assms by (simp add: retry_on_401_def bindE_run mapErr_run reify_run)
qed

theorem retry_on_401_behaviour_witness:
  "retry_on_401 fx_provider (\<lambda>t x. if t = ''t0'' then (Inl (HttpStatus 401 []), Suc x) else (Inr (7 :: nat), Suc x)) 0
   = (Inr 7, 2)"
  using retry_on_401_behaviour [of fx_provider 0 "''t0''" 0
      "\<lambda>t x. if t = ''t0'' then (Inl (HttpStatus 401 []), Suc x) else (Inr (7 :: nat), Suc x)"
      "Inl (HttpStatus 401 [])" 1]
  by (simp add: fx_provider_def numeral_2_eq_2)

section \<open>Undecodable tasks\<close>

text \<open>
  Where a \<open>WorkerDecode\<close> error can come from: the decoders, the row lookups and
  the step dispatch, all of them before any write.
\<close>

definition decode_free :: "('x world, worker_error, 'a) eff \<Rightarrow> bool" where
  "decode_free m \<longleftrightarrow> (\<forall>w e w'. m w \<noteq> (Inl (WorkerDecode e), w'))"

definition decode_early :: "('x world, worker_error, 'a) eff \<Rightarrow> bool" where
  "decode_early m \<longleftrightarrow> (\<forall>w e w'. m w = (Inl (WorkerDecode e), w') \<longrightarrow> wdb w' = wdb w)"

lemma decode_early_query:
  assumes "\<And>d. preserves (\<lambda>w. wdb w = d) m" and "\<And>a. decode_early (f a)"
  shows "decode_early (bindE m f)"
proof -
  have "wdb w' = wdb w" if "bindE m f w = (Inl (WorkerDecode e), w')" for w e w'
  proof (cases "m w")
    case (Pair r w1)
    then have "wdb w1 = wdb w" using preserves_outcome [OF assms(1) refl] by blast
    then show ?thesis
      using that Pair assms(2) by (cases r) (auto simp: bindE_run decode_early_def)
  qed
  then show ?thesis by (auto simp: decode_early_def)
qed

lemma decode_early_then_free:
  "decode_early m \<Longrightarrow> (\<And>a. decode_free (f a)) \<Longrightarrow> decode_early (bindE m f)"
  by (auto simp: decode_early_def decode_free_def bindE_run split: prod.splits sum.splits)

lemma decode_free_early: "decode_free m \<Longrightarrow> decode_early m"
  by (simp add: decode_free_def decode_early_def)

lemma decode_free_bindE:
  "decode_free m \<Longrightarrow> (\<And>a. decode_free (f a)) \<Longrightarrow> decode_free (bindE m f)"
  by (auto simp: decode_free_def bindE_run split: prod.splits sum.splits)

lemma decode_free_simps [simp]:
  "decode_free (ret a)" "decode_free (utc_now h)"
  "decode_free (mapErr WorkerPanic m)" "decode_free (mapErr WorkerPersistence n)"
  "decode_free (mapErr db_err k)"
  by (auto simp: decode_free_def mapErr_run split: prod.splits sum.splits)

lemma finish_step_decode_free [simp]: "decode_free (finish_step wk t oc nxt)"
  unfolding finish_step_def Let_def by (intro decode_free_bindE) simp_all

lemma decode_early_if: "decode_early m \<Longrightarrow> decode_early n \<Longrightarrow> decode_early (if b then m else n)"
  by simp

lemma decode_early_panic_step: "decode_early (bindE (mapErr WorkerPanic m) (\<lambda>oc. ret (oc, nxt)))"
  by (intro decode_free_early decode_free_bindE) simp_all

lemma decode_early_raise: "decode_early (raise e)"
  by (simp add: decode_early_def)

lemma decode_early_okOr: "(\<And>a. decode_early (f a)) \<Longrightarrow> decode_early (bindE (okOr e x) f)"
  by (cases x) (simp_all add: decode_early_raise)

lemma saga_step_decode_early:
  "decode_early (create_issuer_step wk t tn inp cst s)"
  "decode_early (deactivate_issuer_step wk t tn is iid dst s)"
  "decode_early (rotate_keys_step wk t tn is iid rin rst s)"
  unfolding create_issuer_step_def deactivate_issuer_step_def rotate_keys_step_def Let_def
  by (intro decode_early_if decode_early_panic_step decode_early_raise decode_early_okOr)+

lemma decode_early_finish:
  assumes "decode_early m"
  shows "decode_early (bindE m (\<lambda>(oc, nxt). finish_step wk t oc nxt))"
  using assms by (intro decode_early_then_free) (auto split: prod.splits)

lemma execute_task_decode_early: "decode_early (execute_task wk t)"
proof -
  have "decode_early (execute_create_issuer wk t)"
    unfolding execute_create_issuer_def
    by (rule decode_early_query, (intro pres)[1], rule decode_early_query, (intro pres)[1],
        rule decode_early_query, (intro pres)[1], rule decode_early_finish, rule saga_step_decode_early)
  moreover have "decode_early (execute_deactivate_issuer wk t)"
    unfolding execute_deactivate_issuer_def
    by (rule decode_early_query, (intro pres)[1], rule decode_early_query, (intro pres)[1],
        rule decode_early_query, (intro pres)[1], rule decode_early_query, (intro pres)[1],
        rule decode_early_query, (intro pres)[1], rule decode_early_finish, rule saga_step_decode_early)
  moreover have "decode_early (execute_rotate_keys wk t)"
    unfolding execute_rotate_keys_def
    by (rule decode_early_query, (intro pres)[1], rule decode_early_query, (intro pres)[1],
        rule decode_early_query, (intro pres)[1], rule decode_early_query, (intro pres)[1],
        rule decode_early_query, (intro pres)[1], rule decode_early_finish, rule saga_step_decode_early)
  ultimately show ?thesis by (cases "ot_task_type t") (simp_all add: execute_task_def)
qed

text \<open>A task whose input, state data, step name, tenant or issuer cannot be resolved is not retired:
  after the iteration that reports the decode error its row is in progress, without a new error or timer,
  and runnable at once and at every later time, whatever its age.\<close>

lemma undecodable_task_stays_runnable:
  assumes "poll wk w = (Inr (Dispatched (Inl (WorkerDecode e))), w')" and "tasks_inv (wdb w)"
  defines "now \<equiv> fst (host_clock (wk_host wk) (wext w))"
  shows "\<exists>t0 r. t0 \<in> set (operation_tasks (wdb w)) \<and> task_row (ot_id t0) (wdb w') = Some r \<and>
     ot_state r = InProgress \<and> ot_error_code r = ot_error_code t0 \<and>
     (\<forall>later \<ge> now. task_runnable later r)"
proof -
  obtain r w1 where r: "acquire_next wk w = (r, w1)" by fastforce
  then obtain t where a: "acquire_next wk w = (Inr (Some t), w1)"
    using assms(1) by (auto simp: poll_def bindE_run reify_run split: sum.splits option.splits)
  have x: "execute_task wk t w1 = (Inl (WorkerDecode e), w')"
    using assms(1) a
    by (cases "execute_task wk t w1")
       (auto simp: poll_def bindE_run reify_run split: sum.splits worker_error.splits)
  have w': "wdb w' = wdb w1" using execute_task_decode_early x unfolding decode_early_def by blast
  obtain t0 where t0: "task_row (ot_id t) (wdb w) = Some t0" "task_runnable now t0"
    "try_acquire now t0 = Inr t" "task_row (ot_id t) (wdb w1) = Some t"
    using acquired_row [OF a assms(2)] unfolding now_def by blast
  have "ot_id t0 = ot_id t" "t0 \<in> set (operation_tasks (wdb w))"
    using row_by_SomeD [OF t0(1)] by simp_all
  moreover have "ot_state t = InProgress" "ot_error_code t = ot_error_code t0"
    "ot_next_attempt_at t = ot_next_attempt_at t0"
    using t0(3) by (auto simp: try_acquire_def split: task_state.splits)
  moreover have "task_runnable later t" if "now \<le> later" for later
    using that t0(2) calculation by (auto simp: task_runnable_def split: option.splits)
  ultimately show ?thesis using t0(4) w' by auto
qed

definition fx_stuck_world :: "nat world" where
  "fx_stuck_world = fx_world\<lparr> wdb := fx_db\<lparr> operation_tasks := [fx_task\<lparr> ot_step := Some ''nope'' \<rparr>] \<rparr> \<rparr>"

theorem undecodable_task_stays_runnable_witness:
  "\<exists>w' r. poll fx_worker fx_stuck_world = (Inr (Dispatched (Inl (WorkerDecode ''unknown step: nope''))), w') \<and>
     task_row (ot_id fx_task) (wdb w') = Some r \<and> task_runnable 100 r"
proof -
  have inv: "tasks_inv (wdb fx_stuck_world)"
    by (simp add: tasks_inv_def fx_stuck_world_def fx_world_def fx_db_def fx_task_def task_wf_def)
  obtain w' where p: "poll fx_worker fx_stuck_world = (Inr (Dispatched (Inl (WorkerDecode ''unknown step: nope''))), w')"
    by (simp add: poll_def acquire_next_def fx_worker_def fx_stuck_world_def fx_world_def fx_host_def claim_body_def in_tx_def
        acquire_def find_next_acquirable_for_update_def run_query_def fx_db_def fx_pool_def fx_task_def
        set_acquired_def update_one_def update_stmt_def update_where_def rows_matching_def reify_run
        run_stmt_def bindE_run mapErr_run decode_opt_task_def decode_task_def min_row_def task_runnable_def
        try_acquire_def execute_task_def execute_create_issuer_def create_issuer_input_decode_def req_member_def
        create_issuer_state_decode_def opt_member_def bool_member_def load_tenant_def find_tenant_by_id_def
        row_by_def fx_tenant_def create_issuer_step_def)
  then show ?thesis
    using undecodable_task_stays_runnable [OF p inv]
    by (auto simp: fx_stuck_world_def fx_world_def fx_worker_def fx_host_def)
qed

text \<open>The attempt counter an executor sees: zero on the very first pick-up of a task, and one on the
  first run of every later step, because the step hand-over leaves the task in progress and the next claim
  counts as another attempt.\<close>

lemma first_run_of_later_step_is_attempt_one:
  assumes "acquire_next wk w = (Inr (Some t), w')" and "tasks_inv (wdb w)"
    and "task_row (ot_id t) (wdb w) = Some r" and "ot_attempts r = 0"
  shows "ot_attempts t = (if ot_state r = TaskPending then 0 else 1)"
proof -
  obtain t0 now where "task_row (ot_id t) (wdb w) = Some t0" "try_acquire now t0 = Inr t"
    using acquired_row [OF assms(1,2)] by blast
  then show ?thesis
    using assms(3,4) by (auto simp: try_acquire_def saturating_add1_def split: task_state.splits)
qed

theorem first_run_of_later_step_is_attempt_one_witness:
  "\<exists>t w'. acquire_next fx_worker (fx_world\<lparr> wdb := fx_db\<lparr> operation_tasks := [fx_task\<lparr> ot_state := InProgress \<rparr>] \<rparr> \<rparr>)
     = (Inr (Some t), w') \<and> ot_attempts t = 1"
proof -
  let ?w = "fx_world\<lparr> wdb := fx_db\<lparr> operation_tasks := [fx_task\<lparr> ot_state := InProgress \<rparr>] \<rparr> \<rparr>"
  have inv: "tasks_inv (wdb ?w)" by (simp add: tasks_inv_def fx_task_def task_wf_def)
  obtain t w' where a: "acquire_next fx_worker ?w = (Inr (Some t), w')" and i: "ot_id t = ot_id fx_task"
    by (simp add: acquire_next_def fx_worker_def fx_world_def fx_host_def claim_body_def in_tx_def
        acquire_def find_next_acquirable_for_update_def run_query_def fx_db_def fx_pool_def fx_task_def
        set_acquired_def update_one_def update_stmt_def update_where_def rows_matching_def
        run_stmt_def bindE_run mapErr_run decode_opt_task_def decode_task_def min_row_def task_runnable_def
        try_acquire_def)
  have "task_row (ot_id t) (wdb ?w) = Some (fx_task\<lparr> ot_state := InProgress \<rparr>)"
    using i by (simp add: row_by_def fx_task_def)
  then show ?thesis
    using first_run_of_later_step_is_attempt_one [OF a inv] a by (simp add: fx_task_def)
qed

end
