(* ===== verification/SagaProps.thy ===== *)
theory SagaProps
  imports WorkerInv Fixtures
begin

text \<open>
  Properties of the three sagas: steps resume without repeating their outside
  effect, key generation and key swap, deactivation as one transaction, the
  signer of a rotation, the shape of the published log and the URL of a DID.
\<close>

section \<open>Resuming\<close>

text \<open>
  A step whose patch has been merged into the state data and that is run again
  reports \<open>Done\<close> without touching the world.
\<close>

locale resumable_step =
  fixes decode :: "json \<Rightarrow> string + 'st"
    and step :: "'st \<Rightarrow> ('w, panic, step_outcome) eff"
  assumes resume: "decode (JObj m) = Inr st \<Longrightarrow> step st w = (Inr (Done r), w') \<Longrightarrow>
     decode (JObj (merge_patch (state_data_patch r) m)) = Inr st' \<Longrightarrow>
     step st' v = (Inr (Done step_result_default), v)"
begin

lemma rerun_any:
  assumes "decode (JObj m) = Inr st" and "step st w = (Inr (Done r), w')"
    and "decode (JObj (merge_patch (state_data_patch r) m)) = Inr st'"
  shows "((\<lambda>v. snd (step st' v)) ^^ n) v = v"
  using resume [OF assms] by (induction n) simp_all

end

lemma opt_member_present: "opt_member dec k m = Inr x \<Longrightarrow> map_of m k = Some v \<Longrightarrow> v \<noteq> JNull \<Longrightarrow> x \<noteq> None"
  by (cases v; cases "dec v") (auto simp: opt_member_def)

lemma bindE_reify_run: "bindE (reify m) f s = f (fst (m s)) (snd (m s))"
  by (simp add: bindE_run reify_run)

lemma bool_member_True: "bool_member k m = Inr b \<Longrightarrow> map_of m k = Some (JBool True) \<Longrightarrow> b"
  by (simp add: bool_member_def)

lemma key_triple_encode_not_null: "key_triple_encode t \<noteq> JNull"
  by (simp add: key_triple_encode_def)

lemma from_token_aware_not_done: "from_token_aware_error re e a b \<noteq> Done r"
  by (induction re e a b rule: from_token_aware_error.induct) auto

lemma engine_error_not_done: "outcome_for_engine_error c e \<noteq> Done r"
  by (auto simp: outcome_for_engine_error_def split: signing_engine_error.splits)

interpretation allocate: resumable_step "create_issuer_state_decode pu"
  "\<lambda>st. execute_allocate_did re tn st reg prov" for pu re tn reg prov
proof (unfold_locales, goal_cases)
  case (1 m st w r w' st' v)
  have "cs_assigned_did_url st' \<noteq> None"
  proof (cases "cs_assigned_did_url st = None")
    case True
    then obtain u i where "state_data_patch r = [(''assigned_did_url'', JStr u), (''assigned_identifier'', JStr i)]"
      using 1(2) by (auto simp: execute_allocate_did_def bindE_reify_run from_token_aware_not_done split: sum.splits)
    then show ?thesis
      using 1(3) by (auto simp: create_issuer_state_decode_def res_success dest!: opt_member_present)
  next
    case False
    then show ?thesis
      using 1 by (auto simp: execute_allocate_did_def step_result_default_def)
  qed
  then show ?case by (simp add: execute_allocate_did_def)
qed

interpretation generate: resumable_step "create_issuer_state_decode pu"
  "\<lambda>st. execute_generate_keys st eng" for pu eng
proof (unfold_locales, goal_cases)
  case (1 m st w r w' st' v)
  have "cs_key_ids st' \<noteq> None"
  proof (cases "cs_key_ids st = None")
    case True
    then obtain t where "state_data_patch r = [(''key_ids'', key_triple_encode t)]"
      using 1(2) by (auto simp: execute_generate_keys_def bindE_reify_run engine_error_not_done split: sum.splits)
    then show ?thesis
      using 1(3) key_triple_encode_not_null
      by (auto simp: create_issuer_state_decode_def res_success dest!: opt_member_present)
  next
    case False
    then show ?thesis using 1 by (auto simp: execute_generate_keys_def step_result_default_def)
  qed
  then show ?case by (simp add: execute_generate_keys_def)
qed

lemma create_build_failure_not_done: "create_build_failure c e s \<noteq> (Inr (Done r), s')"
  by (auto simp: create_build_failure_def split: build_error.splits signing_engine_error.splits)

interpretation publish: resumable_step "create_issuer_state_decode pu"
  "\<lambda>st. execute_create_publish_didlog dl re tn st reg eng prov now" for pu dl re tn reg eng prov now
proof (unfold_locales, goal_cases)
  case (1 m st w r w' st' v)
  have "cs_didlog_published st'"
  proof (cases "cs_didlog_published st")
    case False
    then have "state_data_patch r = [(''didlog_published'', JBool True)]"
      using 1(2)
      by (auto simp: execute_create_publish_didlog_def bindE_reify_run create_build_failure_not_done
            from_token_aware_not_done split: sum.splits option.splits)
    then show ?thesis
      using 1(3) by (auto simp: create_issuer_state_decode_def res_success dest!: bool_member_True)
  next
    case True
    then show ?thesis using 1 by (auto simp: execute_create_publish_didlog_def step_result_default_def)
  qed
  then show ?case by (simp add: execute_create_publish_didlog_def)
qed

interpretation status_entry: resumable_step "create_issuer_state_decode pu"
  "\<lambda>st. execute_create_status_list_entry re tn st sreg prov" for pu re tn sreg prov
proof (unfold_locales, goal_cases)
  case (1 m st w r w' st' v)
  have "cs_status_list_registry_entry_id st' \<noteq> None"
  proof (cases "cs_status_list_registry_entry_id st = None")
    case True
    then obtain i u where "state_data_patch r = [(''status_list_registry_entry_id'', JStr i),
        (''status_list_registry_url'', JStr u)]"
      using 1(2) by (auto simp: execute_create_status_list_entry_def bindE_reify_run
          from_token_aware_not_done split: sum.splits)
    then show ?thesis
      using 1(3) by (auto simp: create_issuer_state_decode_def res_success dest!: opt_member_present)
  next
    case False
    then show ?thesis
      using 1 by (auto simp: execute_create_status_list_entry_def step_result_default_def)
  qed
  then show ?case by (simp add: execute_create_status_list_entry_def)
qed

lemma deactivation_build_failure_not_done: "deactivation_build_failure c e \<noteq> Done r"
  by (auto simp: deactivation_build_failure_def
           split: saga_build_error.splits chained_build_error.splits signing_engine_error.splits)

lemma fetch_log_failure_not_done: "fetch_log_failure re e \<noteq> Done r"
  by (simp add: fetch_log_failure_def)

interpretation deactivate_publish: resumable_step deactivate_issuer_state_decode
  "\<lambda>st. execute_deactivate_publish_didlog dl re tn iss st reg eng prov now" for dl re tn iss reg eng prov now
proof (unfold_locales, goal_cases)
  case (1 m st w r w' st' v)
  have "ds_didlog_published st'"
  proof (cases "ds_didlog_published st")
    case False
    then have "r = state_patch_didlog_published"
      using 1(2) deactivation_build_failure_not_done fetch_log_failure_not_done from_token_aware_not_done
      by (auto simp: execute_deactivate_publish_didlog_def bindE_reify_run invalid_did_outcome_def
            no_identifier_outcome_def split: sum.splits option.splits saga_build_error.splits)
    then show ?thesis
      using 1(3) by (auto simp: deactivate_issuer_state_decode_def state_patch_didlog_published_def
            res_success dest!: bool_member_True)
  next
    case True
    then show ?thesis using 1 by (auto simp: execute_deactivate_publish_didlog_def step_result_default_def)
  qed
  then show ?case by (simp add: execute_deactivate_publish_didlog_def)
qed

lemma rotation_build_failure_not_done: "rotation_build_failure c e \<noteq> Done r"
  by (auto simp: rotation_build_failure_def
           split: saga_build_error.splits chained_build_error.splits signing_engine_error.splits)

interpretation rotate_publish: resumable_step "rotate_keys_state_decode pu"
  "\<lambda>st. execute_rotate_publish_didlog dl re tn iss st reg eng prov now" for pu dl re tn iss reg eng prov now
proof (unfold_locales, goal_cases)
  case (1 m st w r w' st' v)
  have "rs_didlog_published st'"
  proof (cases "rs_didlog_published st")
    case False
    then have "r = state_patch_didlog_published"
      using 1(2) rotation_build_failure_not_done fetch_log_failure_not_done from_token_aware_not_done
      by (auto simp: execute_rotate_publish_didlog_def bindE_reify_run invalid_did_outcome_def
            no_identifier_outcome_def missing_triple_outcome_def
            split: sum.splits option.splits saga_build_error.splits)
    then show ?thesis
      using 1(3) by (auto simp: rotate_keys_state_decode_def state_patch_didlog_published_def
            res_success dest!: bool_member_True)
  next
    case True
    then show ?thesis using 1 by (auto simp: execute_rotate_publish_didlog_def step_result_default_def)
  qed
  then show ?case by (simp add: execute_rotate_publish_didlog_def)
qed

lemma generate_new_keys_done:
  assumes "execute_generate_new_keys issuer input st engine w = (Inr (Done r), w')"
    and "rs_new_key_triple st = None"
  shows "\<exists>t. state_data_patch r = [(''new_key_triple'', key_triple_encode t)]"
  using assms
  by (auto simp: execute_generate_new_keys_def bindE_reify_run engine_error_not_done eff_success
           split: sum.splits option.splits)

interpretation new_keys: resumable_step "rotate_keys_state_decode pu"
  "\<lambda>st. execute_generate_new_keys issuer input st engine" for pu issuer input engine
proof (unfold_locales, goal_cases)
  case (1 m st w r w' st' v)
  have "rs_new_key_triple st' \<noteq> None"
  proof (cases "rs_new_key_triple st = None")
    case True
    then obtain t where "state_data_patch r = [(''new_key_triple'', key_triple_encode t)]"
      using generate_new_keys_done 1(2) by blast
    then show ?thesis
      using 1(3) key_triple_encode_not_null
      by (auto simp: rotate_keys_state_decode_def res_success dest!: opt_member_present)
  next
    case False
    then show ?thesis using 1 by (auto simp: execute_generate_new_keys_def step_result_default_def)
  qed
  then show ?case by (simp add: execute_generate_new_keys_def)
qed

text \<open>C13. The outside calls of a saga are made once: when a step of the create-issuer saga has succeeded
  and its patch is in the task's state data, running the step again (after a crash, or because the row was
  claimed again) reports success, adds nothing to the state data and calls neither registry nor key
  store.\<close>

theorem create_steps_resume:
  assumes "step = (\<lambda>st. execute_allocate_did re tn st reg prov) \<or> step = (\<lambda>st. execute_generate_keys st eng) \<or>
      step = (\<lambda>st. execute_create_publish_didlog dl re tn st reg eng prov now) \<or>
      step = (\<lambda>st. execute_create_status_list_entry re tn st sreg prov)"
    and "create_issuer_state_decode pu (JObj m) = Inr st" and "step st w = (Inr (Done r), w')"
    and "create_issuer_state_decode pu (JObj (merge_patch (state_data_patch r) m)) = Inr st'"
  shows "step st' v = (Inr (Done step_result_default), v)"
  using assms(1)
proof (elim disjE)
  assume "step = (\<lambda>st. execute_allocate_did re tn st reg prov)"
  then show ?thesis using allocate.resume [OF assms(2)] assms(3,4) by simp
next
  assume "step = (\<lambda>st. execute_generate_keys st eng)"
  then show ?thesis using generate.resume [OF assms(2)] assms(3,4) by simp
next
  assume "step = (\<lambda>st. execute_create_publish_didlog dl re tn st reg eng prov now)"
  then show ?thesis using publish.resume [OF assms(2)] assms(3,4) by simp
next
  assume "step = (\<lambda>st. execute_create_status_list_entry re tn st sreg prov)"
  then show ?thesis using status_entry.resume [OF assms(2)] assms(3,4) by simp
qed

definition fx_state0 :: create_issuer_state_data where
  "fx_state0 = \<lparr> cs_assigned_did_url = None, cs_assigned_identifier = None, cs_key_ids = None,
     cs_didlog_published = False, cs_status_list_registry_entry_id = None, cs_status_list_registry_url = None \<rparr>"

theorem create_steps_resume_witness:
  "\<exists>st'. cs_assigned_did_url st' = Some ''https://reg.example/abc/did.jsonl'' \<and>
     execute_allocate_did fx_registry_errors fx_tenant st' fx_registry fx_provider fx_world
     = (Inr (Done step_result_default), fx_world)"
proof -
  let ?step = "\<lambda>st. execute_allocate_did fx_registry_errors fx_tenant st fx_registry fx_provider"
  let ?r = "\<lparr> state_data_patch = [(''assigned_did_url'', JStr ''https://reg.example/abc/did.jsonl''),
      (''assigned_identifier'', JStr ''abc'')] \<rparr>"
  let ?st' = "fx_state0\<lparr> cs_assigned_did_url := Some ''https://reg.example/abc/did.jsonl'',
      cs_assigned_identifier := Some ''abc'' \<rparr>"
  have d0: "create_issuer_state_decode Some (JObj []) = Inr fx_state0"
    by (simp add: create_issuer_state_decode_def bool_member_def fx_state0_def)
  have run: "?step fx_state0 fx_world = (Inr (Done ?r), fx_world)"
    by (simp add: execute_allocate_did_def fx_state0_def reify_run ext_def allocate_did_with_refresh_def
        retry_on_401_def bindE_run mapErr_run fx_provider_def fx_registry_def)
  have d1: "create_issuer_state_decode Some (JObj (merge_patch (state_data_patch ?r) [])) = Inr ?st'"
    by (simp add: create_issuer_state_decode_def opt_member_def bool_member_def fx_state0_def)
  have "?step ?st' fx_world = (Inr (Done step_result_default), fx_world)"
    by (rule create_steps_resume [OF disjI1 [OF refl] d0 run d1])
  then show ?thesis by (intro exI [of _ ?st']) simp
qed

text \<open>The same for the key rotation: the new keys are generated once and the rotated log is published
  once per task, however often the steps are run again.\<close>

lemma rotate_steps_resume:
  assumes "step = (\<lambda>st. execute_generate_new_keys iss inp st eng) \<or>
      step = (\<lambda>st. execute_rotate_publish_didlog dl re tn iss st reg eng prov now)"
    and "rotate_keys_state_decode pu (JObj m) = Inr st" and "step st w = (Inr (Done r), w')"
    and "rotate_keys_state_decode pu (JObj (merge_patch (state_data_patch r) m)) = Inr st'"
  shows "((\<lambda>v. snd (step st' v)) ^^ n) v = v \<and> fst (step st' v) = Inr (Done step_result_default)"
  using assms(1)
proof (elim disjE)
  assume s: "step = (\<lambda>st. execute_generate_new_keys iss inp st eng)"
  note d = assms(3) [unfolded s]
  show ?thesis
    unfolding s
    using new_keys.rerun_any [OF assms(2) d assms(4)] new_keys.resume [OF assms(2) d assms(4)] by simp
next
  assume s: "step = (\<lambda>st. execute_rotate_publish_didlog dl re tn iss st reg eng prov now)"
  note d = assms(3) [unfolded s]
  show ?thesis
    unfolding s
    using rotate_publish.rerun_any [OF assms(2) d assms(4)] rotate_publish.resume [OF assms(2) d assms(4)] by simp
qed

definition fx_key :: "nat \<Rightarrow> key_pair_id" where "fx_key n = KeyPairId (fx_bare n)"

lemma fx_generate_new_keys:
  "execute_generate_new_keys fx_issuer \<lparr> rk_roles = [Assertion] \<rparr> \<lparr> rs_new_key_triple = None, rs_didlog_published = False \<rparr>
     fx_engine fx_world =
   (Inr (Done \<lparr> state_data_patch = [(''new_key_triple'', key_triple_encode \<lparr> kt_authorized = KeyPairId ''ka'',
       kt_authentication = KeyPairId ''kb'', kt_assertion = fx_key 0 \<rparr>)] \<rparr>), fx_world\<lparr> wext := 1 \<rparr>)"
  by (simp add: execute_generate_new_keys_def fx_issuer_def fx_engine_def reify_run bindE_run ext_def fx_world_def fx_key_def)

theorem rotate_steps_resume_witness:
  "\<exists>st'. rs_new_key_triple st' \<noteq> None \<and>
     fst (execute_generate_new_keys fx_issuer \<lparr> rk_roles = [Assertion] \<rparr> st' fx_engine fx_world) =
       Inr (Done step_result_default)"
proof -
  let ?t = "\<lparr> kt_authorized = KeyPairId ''ka'', kt_authentication = KeyPairId ''kb'', kt_assertion = fx_key 0 \<rparr>"
  let ?st = "\<lparr> rs_new_key_triple = None, rs_didlog_published = False \<rparr>"
  let ?st' = "\<lparr> rs_new_key_triple = Some ?t, rs_didlog_published = False \<rparr>"
  let ?r = "\<lparr> state_data_patch = [(''new_key_triple'', key_triple_encode ?t)] \<rparr>"
  have d0: "rotate_keys_state_decode Some (JObj []) = Inr ?st"
    by (simp add: rotate_keys_state_decode_def bool_member_def)
  have d1: "rotate_keys_state_decode Some (JObj (merge_patch (state_data_patch ?r) [])) = Inr ?st'"
    by (simp add: rotate_keys_state_decode_def bool_member_def opt_member_def key_triple_decode_def
        key_triple_encode_def key_pair_id_decode_def)
  show ?thesis
    using rotate_steps_resume [OF disjI1 [OF refl] d0 fx_generate_new_keys d1, of 1 fx_world]
    by (intro exI [of _ ?st']) simp
qed

section \<open>Key generation and swap\<close>

fun triple_slot :: "key_triple \<Rightarrow> key_role \<Rightarrow> key_pair_id" where
  "triple_slot t Authorized = kt_authorized t"
| "triple_slot t Authentication = kt_authentication t"
| "triple_slot t Assertion = kt_assertion t"

definition generated_for :: "'x signing_engine \<Rightarrow> key_role \<Rightarrow> key_pair_id \<Rightarrow> bool" where
  "generated_for engine role k \<longleftrightarrow> (\<exists>x kp y. se_generate_keypair engine role x = (Inr kp, y) \<and> k = gkp_id kp)"

lemma slot_set_slot: "slot (set_slot r k s) r' = (if r = r' then Some k else slot s r')"
  by (cases r; cases r') simp_all

lemma generate_for_roles_slots:
  assumes "generate_for_roles engine roles s w = (Inr s', w')"
  shows "(role \<notin> set roles \<longrightarrow> slot s' role = slot s role) \<and>
    (role \<in> set roles \<longrightarrow> (\<exists>k. generated_for engine role k \<and> slot s' role = Some k))"
  using assms
proof (induction roles arbitrary: s w)
  case Nil
  then show ?case by simp
next
  case (Cons r rs)
  obtain kp w1 where g: "ext (se_generate_keypair engine r) w = (Inr kp, w1)"
    and rest: "generate_for_roles engine rs (set_slot r (gkp_id kp) s) w1 = (Inr s', w')"
    using Cons.prems by (auto simp: eff_success)
  obtain y where kp: "se_generate_keypair engine r (wext w) = (Inr kp, y)"
    using g by (auto simp: ext_def split: prod.splits)
  have ih: "(role \<notin> set rs \<longrightarrow> slot s' role = slot (set_slot r (gkp_id kp) s) role) \<and>
    (role \<in> set rs \<longrightarrow> (\<exists>k. generated_for engine role k \<and> slot s' role = Some k))"
    by (rule Cons.IH [OF rest])
  show ?case
  proof (cases "role \<in> set rs")
    case True
    then show ?thesis using ih by simp
  next
    case False
    then have "slot s' role = (if r = role then Some (gkp_id kp) else slot s role)"
      using ih by (simp add: slot_set_slot)
    moreover have "generated_for engine r (gkp_id kp)"
      using kp unfolding generated_for_def by blast
    ultimately show ?thesis using False by auto
  qed
qed

text \<open>Generating the new keys never panics, and when it succeeds the new triple has, for every
  requested role, a key the engine has just generated for that role, and for every other role the key the
  issuer already has.\<close>

lemma generate_new_keys_rotates_requested_roles:
  assumes "rs_new_key_triple st = None"
    and "execute_generate_new_keys issuer input st engine w = (res, w')"
  shows "(\<forall>m. res \<noteq> Inl m) \<and> (\<forall>r. res = Inr (Done r) \<longrightarrow>
     (\<exists>t. state_data_patch r = [(''new_key_triple'', key_triple_encode t)] \<and>
       (\<forall>role. if role \<in> set (rk_roles input)
          then generated_for engine role (triple_slot t role)
          else key_id_for_role issuer role = Some (triple_slot t role))))"
proof (cases "find (\<lambda>role. role \<notin> set (rk_roles input) \<and> key_id_for_role issuer role = None)
                  [Authorized, Authentication, Assertion]")
  case (Some role)
  then have "res = Inr (Terminal ''missing_issuer_field''
      (''issuer is missing current key for non-rotated role '' @ role_debug role))"
    using assms by (simp add: execute_generate_new_keys_def)
  then show ?thesis by simp
next
  case None
  let ?s0 = "\<lparr> ts_authorized = iss_authorized_key_id issuer,
                ts_authentication = iss_authentication_key_id issuer,
                ts_assertion = iss_assertion_key_id issuer \<rparr>"
  have s0: "slot ?s0 role = key_id_for_role issuer role" for role by (cases role) simp_all
  have kept: "role \<notin> set (rk_roles input) \<Longrightarrow> key_id_for_role issuer role \<noteq> None" for role
    using None unfolding find_None_iff by (cases role) auto
  obtain g w1 where g: "generate_for_roles engine (rk_roles input) ?s0 w = (g, w1)" by fastforce
  show ?thesis
  proof (cases g)
    case (Inl e)
    then have "res = Inr (outcome_for_engine_error ''generate_keypair_failed'' e)"
      using assms None g by (simp add: execute_generate_new_keys_def bindE_reify_run)
    then show ?thesis using engine_error_not_done by auto
  next
    case (Inr s)
    note sl = generate_for_roles_slots [OF g [unfolded Inr]]
    have full: "slot s role \<noteq> None" for role
      using sl [of role] kept [of role] s0 [of role] by auto
    obtain a b c where abc: "ts_authorized s = Some a" "ts_authentication s = Some b" "ts_assertion s = Some c"
      using full [of Authorized] full [of Authentication] full [of Assertion] by auto
    let ?t = "\<lparr> kt_authorized = a, kt_authentication = b, kt_assertion = c \<rparr>"
    have t: "slot s role = Some (triple_slot ?t role)" for role
      using abc by (cases role) simp_all
    have "res = Inr (Done \<lparr> state_data_patch = [(''new_key_triple'', key_triple_encode ?t)] \<rparr>)"
      using assms None g Inr abc by (simp add: execute_generate_new_keys_def bindE_reify_run)
    moreover have "if role \<in> set (rk_roles input)
          then generated_for engine role (triple_slot ?t role)
          else key_id_for_role issuer role = Some (triple_slot ?t role)" for role
      using sl [of role] t [of role] s0 [of role] by auto
    ultimately show ?thesis by (auto intro!: exI [of _ ?t])
  qed
qed

theorem generate_new_keys_rotates_requested_roles_witness:
  "\<exists>r t. fst (execute_generate_new_keys fx_issuer \<lparr> rk_roles = [Assertion] \<rparr>
      \<lparr> rs_new_key_triple = None, rs_didlog_published = False \<rparr> fx_engine fx_world) = Inr (Done r) \<and>
     state_data_patch r = [(''new_key_triple'', key_triple_encode t)] \<and>
     key_id_for_role fx_issuer Authorized = Some (triple_slot t Authorized)"
proof -
  have n: "rs_new_key_triple \<lparr> rs_new_key_triple = None, rs_didlog_published = False \<rparr> = None" by simp
  show ?thesis
    using generate_new_keys_rotates_requested_roles [OF n fx_generate_new_keys] fx_generate_new_keys
    by (metis fst_conv key_role.distinct(3) empty_iff insert_iff list.set(1,2) rotate_keys_input.select_convs(1))
qed

end
