(* ===== verification/IssuerProps.thy ===== *)
theory IssuerProps
  imports WorkerInv Fixtures
begin

text \<open>
  Properties of the steps that change an issuer row and of the DID log: the key
  swap, the deactivation transaction, who signs a chained entry, the shape of
  the published log and the URL of a DID, the roles on the wire.
\<close>

section \<open>Swapping keys\<close>

lemma find_of_tenant_unique:
  assumes "issuers_inv d" and "r \<in> set (issuers d)" and "issuer_of_tenant tn iss r"
  shows "find (issuer_of_tenant tn iss) (issuers d) = Some r"
proof -
  have "row_by issuer_key iss (issuers d) = Some r"
    using assms row_by_unique [of issuer_key "issuers d" r]
    by (auto simp: issuers_inv_def issuer_of_tenant_def)
  then show ?thesis
    using assms find_issuer_of_tenant [of "issuers d" tn iss]
    by (simp add: issuers_inv_def issuer_of_tenant_def)
qed

definition with_triple :: "key_pair_id \<Rightarrow> key_pair_id \<Rightarrow> key_pair_id \<Rightarrow> issuer \<Rightarrow> issuer" where
  "with_triple a b c i = i\<lparr> iss_authorized_key_id := Some a, iss_authentication_key_id := Some b,
     iss_assertion_key_id := Some c \<rparr>"

definition swappable :: "tenant_id \<Rightarrow> issuer_id \<Rightarrow> key_pair_id \<Rightarrow> key_pair_id \<Rightarrow> key_pair_id \<Rightarrow> issuer_row \<Rightarrow> bool" where
  "swappable tn iss a b c r \<longleftrightarrow> issuer_of_tenant tn iss r \<and> iss_state (ir_issuer r) = Some IssuerActive \<and>
     \<not> has_triple a b c (ir_issuer r)"

definition swapped_db :: "tenant_id \<Rightarrow> issuer_id \<Rightarrow> key_pair_id \<Rightarrow> key_pair_id \<Rightarrow> key_pair_id \<Rightarrow> db \<Rightarrow> db" where
  "swapped_db tn iss a b c = issuers_update (update_where (swappable tn iss a b c) (update_issuer (with_triple a b c)))"

lemma swap_key_triple_unfold:
  "swap_key_triple p tn iss a b c =
     bindE (mapErr DbError (run_stmt p (\<lambda>d. Inr (rows_matching (swappable tn iss a b c) (issuers d),
                                              swapped_db tn iss a b c d))))
     (\<lambda>n. if n = 1 then ret NowSwapped
      else bindE (mapErr DbError (run_query p (\<lambda>_ d. Inr (find (issuer_of_tenant tn iss) (issuers d)))))
           (\<lambda>row. case row of
              None \<Rightarrow> raise NotFound
            | Some r \<Rightarrow> if iss_state (ir_issuer r) = Some IssuerActive \<and> has_triple a b c (ir_issuer r)
                then ret SwapAlready else raise NotFound))"
  unfolding swap_key_triple_def update_stmt_def swapped_db_def swappable_def with_triple_def ..

lemma swapped_db_idle:
  assumes "rows_matching (swappable tn iss a b c) (issuers d) = 0"
  shows "swapped_db tn iss a b c d = d"
proof -
  have "\<not> swappable tn iss a b c r" if "r \<in> set (issuers d)" for r
    using assms that by (auto simp: find_None_iff)
  then have "update_where (swappable tn iss a b c) (update_issuer (with_triple a b c)) (issuers d) = issuers d"
    by (intro update_where_id) simp
  then show ?thesis by (simp add: swapped_db_def)
qed

lemma find_swapped:
  "find (issuer_of_tenant tn iss) (issuers (swapped_db tn iss a b c d)) =
     map_option (\<lambda>r. if swappable tn iss a b c r then update_issuer (with_triple a b c) r else r)
       (find (issuer_of_tenant tn iss) (issuers d))"
  by (simp add: swapped_db_def, rule find_update_where_map)
     (simp add: issuer_of_tenant_def issuer_key_def update_issuer_def with_triple_def)

lemma swappable_le_1: "issuers_inv d \<Longrightarrow> rows_matching (swappable tn iss a b c) (issuers d) \<le> 1"
  by (rule rows_matching_le_1 [where key = issuer_key and k = iss])
     (auto simp: issuers_inv_def swappable_def issuer_of_tenant_def)

lemma swapped_other_rows:
  assumes "j \<noteq> iss"
  shows "row_by issuer_key j (issuers (swapped_db tn iss a b c d)) = row_by issuer_key j (issuers d)"
proof -
  have "row_by issuer_key j (issuers (swapped_db tn iss a b c d)) =
      map_option (\<lambda>r. if swappable tn iss a b c r then update_issuer (with_triple a b c) r else r)
        (row_by issuer_key j (issuers d))"
    by (simp add: swapped_db_def, rule row_by_update_where_map) (simp add: with_triple_def)
  moreover have "\<not> swappable tn iss a b c r" if "row_by issuer_key j (issuers d) = Some r" for r
    using row_by_SomeD [OF that] assms by (auto simp: swappable_def issuer_of_tenant_def)
  ultimately show ?thesis by (cases "row_by issuer_key j (issuers d)") simp_all
qed

text \<open>Swapping the key triple hits only an active issuer of the tenant.  Success means the row now has
  exactly the new triple (\<open>NowSwapped\<close> if it did not have it before, \<open>SwapAlready\<close> if it did) and every
  other row is as before; \<open>NotFound\<close> means that the tenant has no active issuer under the id, and nothing
  changed.\<close>

lemma swap_key_triple_effect:
  assumes inv: "issuers_inv (wdb w)" and run: "swap_key_triple p tn iss a b c w = (r, w')"
  shows "(\<forall>oc. r = Inr oc \<longrightarrow> (\<exists>row row'. find (issuer_of_tenant tn iss) (issuers (wdb w)) = Some row \<and>
            iss_state (ir_issuer row) = Some IssuerActive \<and>
            oc = (if has_triple a b c (ir_issuer row) then SwapAlready else NowSwapped) \<and>
            find (issuer_of_tenant tn iss) (issuers (wdb w')) = Some row' \<and>
            ir_issuer row' = with_triple a b c (ir_issuer row) \<and>
            (\<forall>j. j \<noteq> iss \<longrightarrow> row_by issuer_key j (issuers (wdb w')) = row_by issuer_key j (issuers (wdb w))))) \<and>
         (r = Inl NotFound \<longrightarrow> wdb w' = wdb w \<and>
            (\<forall>row \<in> set (issuers (wdb w)). issuer_of_tenant tn iss row \<longrightarrow>
               iss_state (ir_issuer row) \<noteq> Some IssuerActive))"
proof -
  let ?q = "swappable tn iss a b c" let ?d = "wdb w"
  obtain s w1 where s: "run_stmt p (\<lambda>d. Inr (rows_matching ?q (issuers d), swapped_db tn iss a b c d)) w = (s, w1)"
    by fastforce
  note le1 = swappable_le_1 [OF inv, of tn iss a b c] and other = swapped_other_rows [of _ iss tn a b c ?d]
  show ?thesis
  proof (cases s)
    case (Inl e)
    then show ?thesis using run s by (auto simp: swap_key_triple_unfold bindE_run mapErr_run)
  next
    case (Inr n)
    have n: "n = rows_matching ?q (issuers ?d)" and w1: "wdb w1 = swapped_db tn iss a b c ?d"
      using run_stmt_success [OF s [unfolded Inr]] by auto
    show ?thesis
    proof (cases "n = 1")
      case True
      have "find ?q (issuers ?d) \<noteq> None"
        using True n rows_matching_0 [of ?q "issuers ?d"] by auto
      then obtain row where q: "row \<in> set (issuers ?d)" "?q row" by (auto dest: find_SomeD)
      have f: "find (issuer_of_tenant tn iss) (issuers ?d) = Some row"
        using find_of_tenant_unique [OF inv q(1)] q(2) by (simp add: swappable_def)
      have "r = Inr NowSwapped \<and> w' = w1"
        using run s Inr True by (simp add: swap_key_triple_unfold bindE_run mapErr_run)
      then show ?thesis
        using f q w1 other by (auto simp: find_swapped swappable_def update_issuer_def)
    next
      case False
      then have zero: "rows_matching ?q (issuers ?d) = 0" using n le1 by linarith
      then have d1: "wdb w1 = ?d" using w1 swapped_db_idle by simp
      obtain k w2 where k: "run_query p (\<lambda>_ d. Inr (find (issuer_of_tenant tn iss) (issuers d))) w1 = (k, w2)"
        by fastforce
      show ?thesis
      proof (cases k)
        case (Inl e)
        then show ?thesis using run s Inr False k by (auto simp: swap_key_triple_unfold bindE_run mapErr_run)
      next
        case (Inr x)
        have x: "x = find (issuer_of_tenant tn iss) (issuers ?d)" "wdb w2 = ?d"
          using run_query_success [OF k [unfolded Inr]] d1 by auto
        have r: "(r, w') = (case x of None \<Rightarrow> (Inl NotFound, w2)
            | Some row \<Rightarrow> if iss_state (ir_issuer row) = Some IssuerActive \<and> has_triple a b c (ir_issuer row)
                then (Inr SwapAlready, w2) else (Inl NotFound, w2))"
          using run s \<open>s = Inr n\<close> False k Inr
          by (auto simp: swap_key_triple_unfold bindE_run mapErr_run split: option.splits)
        have notq: "\<not> ?q row" if "row \<in> set (issuers ?d)" for row
          using zero that by (auto simp: find_None_iff)
        have same: "with_triple a b c i = i" if "has_triple a b c i" for i
          using that by (cases i) (simp add: has_triple_def with_triple_def)
        show ?thesis
        proof (cases x)
          case None
          then have "r = Inl NotFound" "w' = w2" using r by simp_all
          moreover have "find (issuer_of_tenant tn iss) (issuers ?d) = None" using x(1) None by simp
          ultimately show ?thesis using x(2) by (simp add: find_None_iff)
        next
          case (Some row)
          have row: "row \<in> set (issuers ?d)" "issuer_of_tenant tn iss row"
            using x Some by (auto dest!: find_SomeD [OF sym])
          have uniq: "row2 = row" if "row2 \<in> set (issuers ?d)" "issuer_of_tenant tn iss row2" for row2
            using find_of_tenant_unique [OF inv that] x Some by simp
          have f: "find (issuer_of_tenant tn iss) (issuers ?d) = Some row" using x(1) Some by simp
          show ?thesis
          proof (cases "iss_state (ir_issuer row) = Some IssuerActive")
            case True
            then have h: "has_triple a b c (ir_issuer row)"
              using notq [OF row(1)] row(2) by (simp add: swappable_def)
            then have "r = Inr SwapAlready" "wdb w' = ?d" using r Some True x(2) by simp_all
            then show ?thesis using f True h same [OF h] by simp
          next
            case False
            then have "r = Inl NotFound" "wdb w' = ?d" using r Some x(2) by simp_all
            then show ?thesis using False uniq by (simp, blast)
          qed
        qed
      qed
    qed
  qed
qed

lemma fx_issuers_inv: "issuers_inv fx_db"
  by (simp add: issuers_inv_def fx_db_def)

theorem swap_key_triple_effect_witness:
  "\<exists>w' row'. swap_key_triple fx_pool (TenantId (fx_bare 1)) (IssuerId (fx_bare 2)) (KeyPairId ''n'') (KeyPairId ''kb'')
      (KeyPairId ''kc'') fx_world = (Inr NowSwapped, w') \<and>
     find (issuer_of_tenant (TenantId (fx_bare 1)) (IssuerId (fx_bare 2))) (issuers (wdb w')) = Some row' \<and>
     iss_authorized_key_id (ir_issuer row') = Some (KeyPairId ''n'')"
proof -
  have inv: "issuers_inv (wdb fx_world)" using fx_issuers_inv by (simp add: fx_world_def)
  have "\<exists>w'. swap_key_triple fx_pool (TenantId (fx_bare 1)) (IssuerId (fx_bare 2)) (KeyPairId ''n'')
      (KeyPairId ''kb'') (KeyPairId ''kc'') fx_world = (Inr NowSwapped, w')"
    by (simp add: swap_key_triple_def bindE_run mapErr_run fx_run update_stmt_def
          rows_matching_def, simp add: fx_world_def fx_db_def issuer_of_tenant_def,
        simp add: issuer_key_def fx_issuer_def has_triple_def)
  then obtain w' where r: "swap_key_triple fx_pool (TenantId (fx_bare 1)) (IssuerId (fx_bare 2)) (KeyPairId ''n'')
      (KeyPairId ''kb'') (KeyPairId ''kc'') fx_world = (Inr NowSwapped, w')" ..
  obtain row row' :: issuer_row where "find (issuer_of_tenant (TenantId (fx_bare 1)) (IssuerId (fx_bare 2))) (issuers (wdb w')) = Some row'"
    and "ir_issuer row' = with_triple (KeyPairId ''n'') (KeyPairId ''kb'') (KeyPairId ''kc'') (ir_issuer row)"
    using swap_key_triple_effect [OF inv r, THEN conjunct1, rule_format, OF refl]
    by (elim exE conjE) (rule that, assumption+)
  then show ?thesis using r by (simp add: with_triple_def)
qed

section \<open>Deactivation\<close>

text \<open>The intended effect on the tables, as one function.\<close>

definition deactivated_db :: "tenant_id \<Rightarrow> issuer_id \<Rightarrow> datetime \<Rightarrow> db \<Rightarrow> db" where
  "deactivated_db tn iss now d = d\<lparr>
     issuers := map (\<lambda>r. if issuer_of_tenant tn iss r
        then r\<lparr> ir_issuer := (ir_issuer r)\<lparr> iss_state := Some Deactivated \<rparr> \<rparr> else r) (issuers d),
     credential_offers := map (\<lambda>off. if co_tenant_id off = tn \<and> co_issuer_id off = iss \<and> co_state off = OfferPending
        then off\<lparr> co_state := Cancelled, co_cancelled_at := Some now, co_pre_auth_code := None \<rparr> else off)
        (credential_offers d) \<rparr>"

lemma mark_deactivated_body_success:
  assumes "mark_deactivated_body p tn iss now v = (Inr y, v')"
  shows "y = Commit (Done step_result_default) \<and> wdb v' = deactivated_db tn iss now (wdb v) \<and>
    (\<exists>row \<in> set (issuers (wdb v)). issuer_of_tenant tn iss row \<and> iss_state (ir_issuer row) \<noteq> None)"
proof -
  obtain issuer x v1 v2 n where f: "find_issuer_by_id_for_update_for_tenant p tn iss v = (Inr (Some issuer), v1)"
    and td: "try_deactivate issuer = Inr x"
    and s: "set_issuer_state p tn iss Deactivated v1 = (Inr (), v2)"
    and c: "cancel_all_pending_for_issuer p tn iss now v2 = (Inr n, v')"
    and y: "y = Commit (Done step_result_default)"
    using assms unfolding mark_deactivated_body_def by (auto simp only: eff_success res_success ret_run prod.inject sum.inject option.inject simp_thms)
  obtain row where row: "row \<in> set (issuers (wdb v))" "issuer_of_tenant tn iss row" "ir_issuer row = issuer"
    and v1: "wdb v1 = wdb v"
    using f by (auto simp: find_issuer_by_id_for_update_for_tenant_def mapErr_eq_Inr
        dest!: run_query_success find_SomeD)
  have v2: "wdb v2 = issuers_update (update_where (issuer_of_tenant tn iss)
      (update_issuer (\<lambda>i. i\<lparr> iss_state := Some Deactivated \<rparr>))) (wdb v)"
    using s v1 by (auto simp: set_issuer_state_def update_stmt_def eff_success dest!: run_stmt_success)
  have "wdb v' = credential_offers_update (update_where
      (\<lambda>off. co_tenant_id off = tn \<and> co_issuer_id off = iss \<and> co_state off = OfferPending)
      (\<lambda>off. off\<lparr> co_state := Cancelled, co_cancelled_at := Some now, co_pre_auth_code := None \<rparr>)) (wdb v2)"
    using c by (auto simp: cancel_all_pending_for_issuer_def update_stmt_def eff_success dest!: run_stmt_success)
  then have "wdb v' = deactivated_db tn iss now (wdb v)"
    unfolding v2 by (cases "wdb v") (simp add: deactivated_db_def update_where_def update_issuer_def)
  moreover have "iss_state issuer \<noteq> None"
    using td by (auto simp: try_deactivate_def split: option.splits)
  ultimately show ?thesis using row y by blast
qed

lemma mark_tx_body:
  assumes "mark_deactivated_tx p tn iss now w = (r, w')"
  shows "(wdb w' = wdb w \<and> (\<forall>oc. r \<noteq> Inr oc)) \<or>
    (wdb w' = deactivated_db tn iss now (wdb w) \<and> (\<forall>oc. r = Inr oc \<longrightarrow> oc = Done step_result_default) \<and>
     (\<exists>row \<in> set (issuers (wdb w)). issuer_of_tenant tn iss row \<and> iss_state (ir_issuer row) \<noteq> None))"
proof -
  note tx = assms [unfolded mark_deactivated_tx_def]
  show ?thesis
  proof (cases r)
    case (Inl e)
    then show ?thesis using in_tx_atomic [OF tx] by (auto dest!: mark_deactivated_body_success)
  next
    case (Inr oc)
    obtain v y v' where "wdb v = wdb w" "mark_deactivated_body p tn iss now v = (Inr y, v')"
      "(y = Commit oc \<and> wdb w' = wdb v') \<or> (y = Rollback oc \<and> wdb w' = wdb w)"
      using in_tx_success [OF tx [unfolded Inr]] by blast
    then show ?thesis using mark_deactivated_body_success [of p tn iss now v y v'] Inr by auto
  qed
qed

lemma persistence_outcome_not_done: "persistence_outcome p c op e \<noteq> Done r"
  by (cases e) (simp_all add: retry_on_db_def)

lemma bindE_Inl: "bindE m f s = (Inl e, s') \<Longrightarrow>
    m s = (Inl e, s') \<or> (\<exists>a s1. m s = (Inr a, s1) \<and> f a s1 = (Inl e, s'))"
  by (auto simp: bindE_run split: prod.splits sum.splits)

lemma mark_body_errors:
  assumes "mark_deactivated_body p tn iss now w = (Inl (Done r), w')"
  shows False
  using assms unfolding mark_deactivated_body_def
  by (elim bindE_Inl [THEN disjE] exE conjE)
     (auto simp only: mapErr_run mark_deactivated_error_def persistence_outcome_not_done okOr_def raise_run ret_run
        liftR_run mapErrR_def prod.inject sum.inject sum.distinct step_outcome.distinct
      split: prod.splits sum.splits option.splits)

lemma mark_tx_errors: "mark_deactivated_tx p tn iss now w = (Inl (Done r), w') \<Longrightarrow> False"
  by (auto simp: mark_deactivated_tx_def in_tx_def retry_on_db_def dest: mark_body_errors
      split: prod.splits sum.splits tx_end.splits sql_fault.splits)

text \<open>The last step of a deactivation is one transaction: either the tables are untouched, or the
  issuer is deactivated and all its pending offers are cancelled with their codes erased, nothing else
  changed.  It reports success only in the second case, and only for an issuer of the tenant that is in the
  managed life cycle.\<close>

lemma mark_deactivated_all_or_nothing:
  assumes "execute_mark_deactivated p tn iss now w = (r, w')"
  shows "(\<exists>oc. r = Inr oc) \<and>
    (wdb w' = wdb w \<and> (\<forall>res. r \<noteq> Inr (Done res)) \<or>
     wdb w' = deactivated_db tn iss now (wdb w) \<and>
       (\<exists>row \<in> set (issuers (wdb w)). issuer_of_tenant tn iss row \<and> iss_state (ir_issuer row) \<noteq> None))"
proof -
  obtain x v where t: "mark_deactivated_tx p tn iss now w = (x, v)" by fastforce
  have r: "r = (case x of Inl oc \<Rightarrow> Inr oc | Inr oc \<Rightarrow> Inr oc)" "w' = v"
    using assms t by (auto simp: execute_mark_deactivated_def bindE_run reify_run split: sum.splits)
  have fail: "x = Inl oc \<Longrightarrow> wdb v = wdb w \<Longrightarrow> oc \<noteq> Done res" for oc res
    using mark_tx_errors t by blast
  show ?thesis using mark_tx_body [OF t] r fail by (cases x) auto
qed

theorem mark_deactivated_all_or_nothing_witness:
  "\<exists>w'. execute_mark_deactivated fx_pool (TenantId (fx_bare 1)) (IssuerId (fx_bare 2)) 7 fx_world = 
       (Inr (Done step_result_default), w') \<and>
     wdb w' = deactivated_db (TenantId (fx_bare 1)) (IssuerId (fx_bare 2)) 7 fx_db"
proof -
  have "\<exists>w'. execute_mark_deactivated fx_pool (TenantId (fx_bare 1)) (IssuerId (fx_bare 2)) 7 fx_world = 
       (Inr (Done step_result_default), w')"
    by (simp add: execute_mark_deactivated_def mark_deactivated_tx_def mark_deactivated_body_def bindE_run mapErr_run
          reify_run fx_run find_issuer_by_id_for_update_for_tenant_def
          set_issuer_state_def cancel_all_pending_for_issuer_def update_stmt_def rows_matching_def update_where_def,
        simp add: fx_world_def fx_db_def issuer_of_tenant_def issuer_key_def update_issuer_def,
        simp add: fx_issuer_def try_deactivate_def,
        simp add: bindE_run mapErr_run fx_run update_stmt_def rows_matching_def fx_world_def fx_db_def
          issuer_of_tenant_def issuer_key_def update_issuer_def)
  then obtain w' where r: "execute_mark_deactivated fx_pool (TenantId (fx_bare 1)) (IssuerId (fx_bare 2)) 7 fx_world = 
       (Inr (Done step_result_default), w')" ..
  have "wdb fx_world = fx_db" by (simp add: fx_world_def)
  then show ?thesis using mark_deactivated_all_or_nothing [OF r] r by simp
qed

section \<open>The published DID log\<close>

lemma filter_split_replicate: "filter (\<lambda>l. l \<noteq> []) (split_on d (replicate n d)) = []"
  by (induction n) auto

lemma split_on_trim:
  "filter (\<lambda>l. l \<noteq> []) (split_on d (trim_end_matches d s)) = filter (\<lambda>l. l \<noteq> []) (split_on d s)"
proof -
  obtain n where n: "s = trim_end_matches d s @ replicate n d" using trim_end_decomp by blast
  show ?thesis
  proof (cases n)
    case 0
    then show ?thesis using n by simp
  next
    case (Suc m)
    then have "split_on d s = split_on d (trim_end_matches d s) @ split_on d (replicate m d)"
      using n split_on_append_delim [of d "trim_end_matches d s" "replicate m d"] by simp
    then show ?thesis by (simp add: filter_split_replicate)
  qed
qed

text \<open>The text sent to the registry is the fetched log with one line appended: its non-empty lines are
  those of the fetched log, in order, followed by the new entry, whatever line breaks the log ended with.\<close>

lemma updated_didlog_appends_one_line:
  assumes "newline \<notin> set new_line" and "new_line \<noteq> []"
  shows "filter (\<lambda>l. l \<noteq> []) (split_on newline (build_updated_didlog prev_raw new_line)) =
         filter (\<lambda>l. l \<noteq> []) (split_on newline prev_raw) @ [new_line]"
proof (cases "trim_end_matches newline prev_raw = []")
  case True
  then have "filter (\<lambda>l. l \<noteq> []) (split_on newline prev_raw) = []"
    using split_on_trim [of newline prev_raw] by simp
  then show ?thesis using True assms by (simp add: build_updated_didlog_def split_on_no_delim)
next
  case False
  then show ?thesis
    using assms split_on_trim [of newline prev_raw]
      split_on_append_delim [of newline "trim_end_matches newline prev_raw" new_line]
    by (simp add: build_updated_didlog_def split_on_no_delim)
qed

theorem updated_didlog_appends_one_line_witness:
  "filter (\<lambda>l. l \<noteq> []) (split_on newline (build_updated_didlog (''a'' @ [newline, newline]) ''b'')) = [''a'', ''b'']"
  using updated_didlog_appends_one_line [of "''b''" "''a'' @ [newline, newline]"] by (simp add: newline_def)

section \<open>Chained entries\<close>

lemma chain_prelude_Inr:
  assumes "chain_prelude dl issuer log already = Inr (key, prev, doc)"
  shows "iss_state issuer = Some IssuerActive \<and> iss_authorized_key_id issuer = Some key \<and> log \<noteq> [] \<and>
    prev = last log \<and> \<not> already (last log) \<and> (\<exists>v. dle_doc (last log) = DocValue v \<and> dl_diddoc_try_from dl v = Inr doc)"
  using assms by (auto simp: chain_prelude_def res_success split: if_splits did_doc_state.splits)

definition signed_entry_at ::
  "did_lib \<Rightarrow> 'x signing_engine \<Rightarrow> key_pair_id \<Rightarrow> json \<Rightarrow> string \<Rightarrow> string \<Rightarrow> json \<Rightarrow> 'x \<Rightarrow> bool" where
  "signed_entry_at dl engine key entry_value version_id now_iso e x' \<longleftrightarrow> (\<exists>mk sig x.
     (let cfg = \<lparr> pc_verification_method = ''did:key:'' @ mk @ ''#'' @ mk, pc_challenge = version_id, pc_created = now_iso \<rparr> in
      se_sign engine key (dl_signing_input dl cfg (jmember ''value'' (jindex 3 entry_value))) x = (Inr sig, x') \<and>
      e = dl_append_proof dl entry_value (dl_proof_from_signature dl cfg (sig_bytes sig))))"

lemma sign_and_append_success:
  assumes "sign_and_append_proof dl engine ev key mk vid tm w = (Inr e, w')"
  shows "signed_entry_at dl engine key ev vid tm e (wext w')"
  using assms
  by (fastforce simp: sign_and_append_proof_def signed_entry_at_def Let_def eff_success ext_def split: prod.splits)

text \<open>A rotation entry is built only for an active issuer on top of a non-empty log, carries the number
  of the next version, and its proof is made, as the last step, with the issuer's current (outgoing)
  authorized key, never with a key of the new triple unless the two are the same key.\<close>

lemma rotation_signed_by_outgoing_key:
  assumes "build_rotation_entry dl issuer new_triple log engine now w = (Inr e, w')"
  shows "\<exists>key mk p256a p256b. iss_state issuer = Some IssuerActive \<and> log \<noteq> [] \<and> iss_authorized_key_id issuer = Some key \<and>
    (\<forall>ks. dle_update_keys (last log) \<noteq> Some (mk # ks)) \<and>
    (let sealed = seal_entry dl log (dl_new_rotation dl (dle_version_id (last log)) (iss_did issuer) mk p256a p256b
                    (dl_rfc3339 dl now))
     in fst sealed = show_nat (unat (of_nat (length log) + 1 :: u32)) @ ''-'' @
          dl_derive_entry_hash dl (dl_strip_proof_slot dl (dl_new_rotation dl (dle_version_id (last log))
             (iss_did issuer) mk p256a p256b (dl_rfc3339 dl now))) \<and>
        signed_entry_at dl engine key (snd sealed) (fst sealed) (dl_rfc3339 dl now) e (wext w'))"
proof -
  obtain key prev doc mk a b w1 w2 mo where
    pre: "chain_prelude dl issuer log (\<lambda>_. False) = Inr (key, prev, doc)" and
    ar: "\<not> (case dle_update_keys prev of Some (k # _) \<Rightarrow> k = mk | _ \<Rightarrow> False)" and
    sg: "sign_and_append_proof dl engine (snd (seal_entry dl log (dl_new_rotation dl (dle_version_id prev)
        (iss_did issuer) mk a b (dl_rfc3339 dl now)))) key mo (fst (seal_entry dl log (dl_new_rotation dl
        (dle_version_id prev) (iss_did issuer) mk a b (dl_rfc3339 dl now)))) (dl_rfc3339 dl now) w2 = (Inr e, w')"
    using assms unfolding build_rotation_entry_def
    by (auto simp: eff_success Let_def case_prod_unfold split: if_splits)
  note p = chain_prelude_Inr [OF pre]
  have "\<forall>ks. dle_update_keys (last log) \<noteq> Some (mk # ks)" using ar p by auto
  then show ?thesis
    using p sign_and_append_success [OF sg]
    by (intro exI [of _ key] exI [of _ mk] exI [of _ a] exI [of _ b]) (simp add: seal_entry_def Let_def)
qed

definition fx_keys_engine :: "nat signing_engine" where
  "fx_keys_engine = fx_engine\<lparr> se_get_public_key := (\<lambda>k x. (Inr (if k \<in> {KeyPairId ''ka'', KeyPairId ''n''}
       then \<lparr> rpk_algorithm = Ed25519, rpk_bytes = replicate 32 1 \<rparr>
       else \<lparr> rpk_algorithm = EcdsaP256, rpk_bytes = 4 # replicate 64 1 \<rparr>), x)) \<rparr>"

definition fx_log_entry :: "string \<Rightarrow> did_log_entry" where
  "fx_log_entry k = \<lparr> dle_version_id = ''1-h'', dle_update_keys = Some [k], dle_deactivated = None,
     dle_doc = DocValue JNull \<rparr>"

definition fx_triple :: "string \<Rightarrow> key_triple" where
  "fx_triple k = \<lparr> kt_authorized = KeyPairId k, kt_authentication = KeyPairId ''b'', kt_assertion = KeyPairId ''c'' \<rparr>"

theorem rotation_signed_by_outgoing_key_witness:
  "\<exists>e w'. build_rotation_entry fx_did_lib fx_issuer (fx_triple ''n'') [fx_log_entry ''old''] fx_keys_engine 0 fx_world = (Inr e, w') \<and>
     (\<exists>key ev vid. iss_authorized_key_id fx_issuer = Some key \<and>
        signed_entry_at fx_did_lib fx_keys_engine key ev vid ''now'' e (wext w'))"
proof -
  have "\<exists>e w'. build_rotation_entry fx_did_lib fx_issuer (fx_triple ''n'') [fx_log_entry ''old''] fx_keys_engine 0 fx_world = (Inr e, w')"
    by (simp add: build_rotation_entry_def chain_prelude_def fx_issuer_def fx_log_entry_def fx_triple_def fx_did_lib_def
          get_ed25519_multikey_def get_p256_def bindE_run mapErr_run ext_def fx_keys_engine_def ed25519_bytes_def
          sec1_to_p256_def seal_entry_def sign_and_append_proof_def Let_def,
        simp add: fx_engine_def)
  then obtain e w' where r: "build_rotation_entry fx_did_lib fx_issuer (fx_triple ''n'') [fx_log_entry ''old'']
      fx_keys_engine 0 fx_world = (Inr e, w')" by blast
  have "dl_rfc3339 fx_did_lib 0 = ''now''" by (simp add: fx_did_lib_def)
  then show ?thesis
    using rotation_signed_by_outgoing_key [OF r] r by (metis (full_types))
qed

text \<open>A rotation that leaves the authorized key alone cannot get past building its entry: the log's tail
  already names that key, which the builder takes for a finished rotation.\<close>

lemma rotation_without_authorized_never_builds:
  assumes same: "kt_authorized new_triple = key"
    and pk: "\<And>x. fst (se_get_public_key engine key x) = Inr pk"
    and log: "\<And>x. \<exists>raw es. fst (rf_fetch_log registry did x) = Inr \<lparr> fl_raw = raw, fl_entries = es @ [tail] \<rparr>"
    and tail: "dle_update_keys tail = Some (dl_multikey dl (rpk_bytes pk) # ks)"
    and did: "dl_from_str dl (iss_did issuer) = Inr did"
    and st: "rs_new_key_triple state = Some new_triple"
  shows "\<exists>oc w'. execute_build_rotation_didlog dl re issuer state registry engine now w = (Inr oc, w') \<and>
           (\<forall>r. oc \<noteq> Done r)"
proof -
  have fail: "fst (build_rotation_entry dl issuer new_triple (es @ [tail]) engine now v) \<noteq> Inr e" for es v e
  proof
    assume "fst (build_rotation_entry dl issuer new_triple (es @ [tail]) engine now v) = Inr e"
    then obtain v' where b: "build_rotation_entry dl issuer new_triple (es @ [tail]) engine now v = (Inr e, v')"
      by (metis prod.collapse)
    obtain k prev doc mk v1 v2 where
      pre: "chain_prelude dl issuer (es @ [tail]) (\<lambda>_. False) = Inr (k, prev, doc)" and
      g: "get_ed25519_multikey dl engine (\<lambda>e. Chained (ChainedEngine e)) chained_key_error ''authorized''
        (kt_authorized new_triple) v1 = (Inr mk, v2)" and
      ar: "\<not> (case dle_update_keys prev of Some (k # _) \<Rightarrow> k = mk | _ \<Rightarrow> False)"
      using b unfolding build_rotation_entry_def
      by (auto simp: eff_success Let_def case_prod_unfold split: if_splits)
    have "prev = tail" using chain_prelude_Inr [OF pre] by simp
    moreover have "mk = dl_multikey dl (rpk_bytes pk)"
      using g pk [of "wext v1"] same
      by (auto simp: get_ed25519_multikey_def eff_success res_success ext_def ed25519_bytes_def
          split: prod.splits if_splits)
    ultimately show False using ar tail by simp
  qed
  obtain raw es where f: "fst (rf_fetch_log registry did (wext w)) = Inr \<lparr> fl_raw = raw, fl_entries = es @ [tail] \<rparr>"
    using log by blast
  then have fe: "fst (ext (rf_fetch_log registry did) w) = Inr \<lparr> fl_raw = raw, fl_entries = es @ [tail] \<rparr>"
    by (auto simp: ext_def split: prod.splits)
  define v where "v = snd (ext (rf_fetch_log registry did) w)"
  obtain b where b: "fst (build_rotation_entry dl issuer new_triple (es @ [tail]) engine now v) = Inl b"
    using fail by (metis sum.exhaust)
  have "execute_build_rotation_didlog dl re issuer state registry engine now w =
      (Inr (rotation_build_failure ''build_rotation_didlog_failed'' b),
       snd (build_rotation_entry dl issuer new_triple (es @ [tail]) engine now v))"
    using st did fe b by (simp add: execute_build_rotation_didlog_def bindE_run reify_run v_def)
  moreover have "rotation_build_failure c b \<noteq> Done r" for c r
    by (simp add: rotation_build_failure_def split: saga_build_error.splits chained_build_error.splits
        signing_engine_error.splits)
  ultimately show ?thesis by blast
qed

theorem rotation_without_authorized_never_builds_witness:
  "\<exists>oc w'. execute_build_rotation_didlog fx_did_lib fx_registry_errors fx_issuer
      \<lparr> rs_new_key_triple = Some (fx_triple ''ka''), rs_didlog_published = False \<rparr>
      (fx_registry\<lparr> rf_fetch_log := (\<lambda>d. ret \<lparr> fl_raw = [], fl_entries = [] @ [fx_log_entry ''zkey''] \<rparr>) \<rparr>)
      fx_keys_engine 0 fx_world = (Inr oc, w') \<and> (\<forall>r. oc \<noteq> Done r)"
  by (rule rotation_without_authorized_never_builds [where key = "KeyPairId ''ka''" and ks = "[]" and
        pk = "\<lparr> rpk_algorithm = Ed25519, rpk_bytes = replicate 32 1 \<rparr>" and tail = "fx_log_entry ''zkey''"])
     (simp_all add: fx_triple_def fx_keys_engine_def fx_log_entry_def fx_did_lib_def)

section \<open>Roles on the wire\<close>

lemma parse_role_name [simp]: "parse_role (role_name r) = Inr r"
  by (cases r) (simp_all add: parse_role_def)

lemma collect_names: "collect_strings (map (\<lambda>r. JStr (role_name r)) rs) = Inr (map role_name rs)"
  by (induction rs) auto

lemma dedup_names: "distinct (out @ rs) \<Longrightarrow> dedup_roles (map role_name rs) out = Inr (out @ rs)"
  by (induction rs arbitrary: out) auto

lemma dedup_distinct: "dedup_roles ss out = Inr rs \<Longrightarrow> distinct out \<Longrightarrow> distinct rs \<and> set out \<subseteq> set rs \<and> (ss \<noteq> [] \<longrightarrow> rs \<noteq> [])"
  by (induction ss out rule: dedup_roles.induct) (fastforce split: sum.splits if_splits)+

text \<open>A set of roles survives the trip through the task's JSON input, and whatever JSON is accepted
  denotes a non-empty list of roles without repetition.\<close>

lemma wire_roles_round_trip:
  "(roles \<noteq> [] \<and> distinct roles \<longrightarrow> wire_roles_deserialize (wire_roles_serialize roles) = Inr roles) \<and>
   (wire_roles_deserialize v = Inr rs \<longrightarrow> rs \<noteq> [] \<and> distinct rs)"
proof (intro conjI impI)
  assume r: "roles \<noteq> [] \<and> distinct roles"
  have "role_name x \<noteq> ''all''" for x by (cases x) simp_all
  then have "''all'' \<notin> set (map role_name roles)" by (metis ex_map_conv)
  then show "wire_roles_deserialize (wire_roles_serialize roles) = Inr roles"
    using r dedup_names [of "[]" roles] by (simp add: wire_roles_serialize_def wire_roles_deserialize_def collect_names)
next
  assume "wire_roles_deserialize v = Inr rs"
  then show "rs \<noteq> []" and "distinct rs"
    by (auto simp: wire_roles_deserialize_def res_success dest!: dedup_distinct split: json.splits if_splits)
qed

theorem wire_roles_round_trip_witness:
  "wire_roles_deserialize (wire_roles_serialize [Assertion, Authorized]) = Inr [Assertion, Authorized] \<and>
   ([Assertion, Authorized] \<noteq> [] \<and> distinct [Assertion, Authorized])"
  using wire_roles_round_trip [of "[Assertion, Authorized]" "wire_roles_serialize [Assertion, Authorized]"
      "[Assertion, Authorized]"] by simp

end
