(* ===== verification/Integrity.thy ===== *)
theory Integrity
  imports WorkerInv Publisher Oidc OfferApi LifecycleApi
begin

text \<open>
  The integrity of the tables under every entry point of the program: the
  worker's iteration, the publisher's iteration, the wallet endpoints and the
  management handlers.  \<open>data_inv\<close> collects what the components rely on of the
  issuer, status-list, offer, token and credential tables; the task table has
  its own invariant in \<open>TaskStore\<close>.
\<close>

section \<open>The invariant\<close>

definition offers_inv :: "db \<Rightarrow> bool" where
  "offers_inv d \<longleftrightarrow> distinct (map co_id (credential_offers d)) \<and> (\<forall>off \<in> set (credential_offers d). offer_wf off)"

definition tokens_inv :: "db \<Rightarrow> bool" where
  "tokens_inv d \<longleftrightarrow> distinct (map at_token_hash (oidc_access_tokens d)) \<and>
     distinct (map at_offer_id (oidc_access_tokens d))"

text \<open>
  A credential sits in a slot that its list has handed out, no two share a
  slot or an offer, and its offer is in the state \<open>Issued\<close>.
\<close>

definition slot_taken :: "status_list list \<Rightarrow> issued_credential \<Rightarrow> bool" where
  "slot_taken ls c \<longleftrightarrow> (\<exists>l \<in> set ls. sl_id l = ic_status_list_id c \<and>
     unat (index_value (ic_status_list_index c)) < unat (sl_allocated_count l))"

definition offer_used :: "credential_offer list \<Rightarrow> issued_credential \<Rightarrow> bool" where
  "offer_used offs c \<longleftrightarrow> (\<exists>off \<in> set offs. co_id off = ic_credential_offer_id c \<and> co_state off = Issued)"

definition creds_inv :: "db \<Rightarrow> bool" where
  "creds_inv d \<longleftrightarrow> distinct (map ic_id (issued_credentials d)) \<and> distinct (map ic_slot (issued_credentials d)) \<and>
     distinct (map ic_credential_offer_id (issued_credentials d)) \<and>
     (\<forall>c \<in> set (issued_credentials d). slot_taken (status_lists d) c \<and> offer_used (credential_offers d) c)"

definition data_inv :: "db \<Rightarrow> bool" where
  "data_inv d \<longleftrightarrow> issuers_inv d \<and> lists_inv d \<and> offers_inv d \<and> tokens_inv d \<and> creds_inv d"

lemmas data_inv_defs = data_inv_def issuers_inv_def offers_inv_def tokens_inv_def creds_inv_def

section \<open>Changes that keep it\<close>

lemma data_inv_frame:
  "issuers d' = issuers d \<Longrightarrow> status_lists d' = status_lists d \<Longrightarrow> credential_offers d' = credential_offers d \<Longrightarrow>
   oidc_access_tokens d' = oidc_access_tokens d \<Longrightarrow> issued_credentials d' = issued_credentials d \<Longrightarrow>
   data_inv d \<Longrightarrow> data_inv d'"
  by (simp add: data_inv_defs lists_inv_def)

lemma data_inv_issuers:
  assumes "data_inv d" and "distinct (map issuer_key rs)"
  shows "data_inv (d\<lparr> issuers := rs \<rparr>)"
  using assms by (simp add: data_inv_defs lists_inv_def)

lemma data_inv_issuers_update:
  assumes "data_inv d" and "\<And>r. issuer_key (f r) = issuer_key r"
  shows "data_inv (issuers_update (update_where P f) d)"
proof -
  have "distinct (map issuer_key (update_where P f (issuers d)))"
    using assms by (simp add: data_inv_defs)
  then show ?thesis using data_inv_issuers [OF assms(1)] by (cases d) simp
qed

lemma slot_taken_update:
  assumes "slot_taken ls c" and "\<And>r. sl_id (f r) = sl_id r"
    and "\<And>r. r \<in> set ls \<Longrightarrow> P r \<Longrightarrow> unat (sl_allocated_count r) \<le> unat (sl_allocated_count (f r))"
  shows "slot_taken (update_where P f ls) c"
proof -
  obtain l where l: "l \<in> set ls" "sl_id l = ic_status_list_id c"
    "unat (index_value (ic_status_list_index c)) < unat (sl_allocated_count l)"
    using assms(1) by (auto simp: slot_taken_def)
  show ?thesis
    unfolding slot_taken_def set_update_where
    using l assms(2,3) by (intro bexI [of _ "if P l then f l else l"]) (auto intro: less_le_trans)
qed

lemma data_inv_lists_update:
  assumes "data_inv d" and "\<And>r. sl_id (f r) = sl_id r"
    and "\<And>r. r \<in> set (status_lists d) \<Longrightarrow> P r \<Longrightarrow> list_wf r \<Longrightarrow>
      list_wf (f r) \<and> unat (sl_allocated_count r) \<le> unat (sl_allocated_count (f r))"
  shows "data_inv (status_lists_update (update_where P f) d)"
proof -
  have wf: "list_wf r" if "r \<in> set (status_lists d)" for r
    using assms(1) that by (simp add: data_inv_def lists_inv_def)
  have "lists_inv (status_lists_update (update_where P f) d)"
    using assms wf by (intro lists_inv_update) (auto simp: data_inv_def)
  moreover have "creds_inv (status_lists_update (update_where P f) d)"
    using assms wf by (auto simp: data_inv_defs intro!: slot_taken_update)
  ultimately show ?thesis using assms(1) by (simp add: data_inv_defs)
qed

lemma data_inv_lists_insert:
  assumes "data_inv d" and "sl_id l \<notin> sl_id ` set (status_lists d)" and "list_wf l"
  shows "data_inv (d\<lparr> status_lists := status_lists d @ [l] \<rparr>)"
  using assms by (auto simp: data_inv_defs lists_inv_def slot_taken_def)

lemma offer_used_update:
  assumes "offer_used offs c" and "\<And>r. co_id (f r) = co_id r"
    and "\<And>r. r \<in> set offs \<Longrightarrow> P r \<Longrightarrow> co_state r = Issued \<Longrightarrow> co_state (f r) = Issued"
  shows "offer_used (update_where P f offs) c"
proof -
  obtain off where off: "off \<in> set offs" "co_id off = ic_credential_offer_id c" "co_state off = Issued"
    using assms(1) by (auto simp: offer_used_def)
  show ?thesis
    unfolding offer_used_def set_update_where
    using off assms(2,3) by (intro bexI [of _ "if P off then f off else off"]) auto
qed

lemma data_inv_offers_update:
  assumes "data_inv d" and "\<And>r. co_id (f r) = co_id r"
    and "\<And>r. r \<in> set (credential_offers d) \<Longrightarrow> P r \<Longrightarrow> offer_wf r \<Longrightarrow>
      offer_wf (f r) \<and> (co_state r = Issued \<longrightarrow> co_state (f r) = Issued)"
  shows "data_inv (credential_offers_update (update_where P f) d)"
proof -
  have wf: "offer_wf r" if "r \<in> set (credential_offers d)" for r
    using assms(1) that by (simp add: data_inv_def offers_inv_def)
  have "offers_inv (credential_offers_update (update_where P f) d)"
    using assms wf by (auto simp: data_inv_defs set_update_where)
  moreover have "creds_inv (credential_offers_update (update_where P f) d)"
    using assms wf by (auto simp: data_inv_defs intro!: offer_used_update)
  ultimately show ?thesis using assms(1) by (simp add: data_inv_defs lists_inv_def)
qed

lemma data_inv_offers_insert:
  assumes "data_inv d" and "co_id off \<notin> co_id ` set (credential_offers d)" and "offer_wf off"
  shows "data_inv (d\<lparr> credential_offers := credential_offers d @ [off] \<rparr>)"
  using assms by (auto simp: data_inv_defs lists_inv_def offer_used_def)

lemma data_inv_tokens_insert:
  assumes "data_inv d" and "at_token_hash t \<notin> at_token_hash ` set (oidc_access_tokens d)"
    and "at_offer_id t \<notin> at_offer_id ` set (oidc_access_tokens d)"
  shows "data_inv (d\<lparr> oidc_access_tokens := oidc_access_tokens d @ [t] \<rparr>)"
  using assms by (simp add: data_inv_defs lists_inv_def)

lemma data_inv_tokens_filter:
  assumes "data_inv d"
  shows "data_inv (d\<lparr> oidc_access_tokens := filter P (oidc_access_tokens d) \<rparr>)"
  using assms by (simp add: data_inv_defs lists_inv_def distinct_map_filter)

lemma data_inv_creds_update:
  assumes "data_inv d" and "\<And>c. ic_id (f c) = ic_id c" and "\<And>c. ic_slot (f c) = ic_slot c"
    and "\<And>c. ic_credential_offer_id (f c) = ic_credential_offer_id c"
  shows "data_inv (issued_credentials_update (update_where P f) d)"
proof -
  have s: "slot_taken ls (f c) = slot_taken ls c" for ls c
    using assms(3) [of c] by (simp add: slot_taken_def ic_slot_def)
  have u: "offer_used os (f c) = offer_used os c" for os c
    using assms(4) [of c] by (simp add: offer_used_def)
  have "creds_inv (issued_credentials_update (update_where P f) d)"
    using assms s u by (auto simp: data_inv_defs set_update_where)
  then show ?thesis using assms(1) by (simp add: data_inv_defs lists_inv_def)
qed

text \<open>Rows that the program stores.\<close>

lemma cancelled_wf:
  "offer_wf off \<Longrightarrow> co_state off = OfferPending \<Longrightarrow>
   offer_wf (off\<lparr> co_state := Cancelled, co_cancelled_at := Some t, co_pre_auth_code := None \<rparr>)"
  by (simp add: offer_wf_def)

lemma status_list_new_wf:
  "list_wf ((status_list_new i iss t)\<lparr> sl_registry_entry_id := e, sl_registry_url := u \<rparr>)"
  by (simp add: list_wf_def status_list_new_def)

section \<open>Statements\<close>

lemma in_tx_commits:
  assumes "\<And>w a w'. P (wdb w) \<Longrightarrow> body w = (Inr (Commit a), w') \<Longrightarrow> P (wdb w')"
  shows "preserves (\<lambda>w. P (wdb w)) (in_tx p f g body)"
proof
  fix w0 :: "'a world" assume P0: "P (wdb w0)"
  obtain r w' where r: "in_tx p f g body w0 = (r, w')" by fastforce
  have "P (wdb w')" using in_tx_atomic [OF r]
  proof (elim disjE exE conjE)
    fix w a w1 assume "wdb w = wdb w0" "body w = (Inr (Commit a), w1)" "wdb w' = wdb w1"
    then show ?thesis using assms [of w a w1] P0 by simp
  qed (simp add: P0)
  then show "P (wdb (snd (in_tx p f g body w0)))" using r by simp
qed

lemma stores_keep_data [pres]:
  "preserves (\<lambda>w. data_inv (wdb w)) (insert_issuer p i)"
  "preserves (\<lambda>w. data_inv (wdb w)) (set_issuer_state p t iss s)"
  "preserves (\<lambda>w. data_inv (wdb w)) (swap_key_triple p t iss a b c)"
  "preserves (\<lambda>w. data_inv (wdb w)) (cancel_all_pending_for_issuer p t iss now)"
  unfolding insert_issuer_def set_issuer_state_def swap_key_triple_def cancel_all_pending_for_issuer_def
  by (intro pres run_stmt_preserves;
      auto simp: update_stmt_def data_inv_def [symmetric] cancelled_wf
           intro!: data_inv_issuers_update data_inv_offers_update data_inv_issuers split: if_splits;
      simp add: data_inv_def issuers_inv_def issuer_key_def)+

lemma provision_keeps_data [pres]: "preserves (\<lambda>w. data_inv (wdb w)) (provision_for_issuer p h iss e u)"
  unfolding provision_for_issuer_def Let_def
  by (intro pres run_stmt_world_preserves run_stmt_preserves)
     (auto simp: update_stmt_def status_list_new_wf issuer_key_def intro!: data_inv_issuers_update data_inv_lists_insert
           split: if_splits, simp add: status_list_new_def)

lemma task_stores_keep_data [pres]:
  "preserves (\<lambda>w. data_inv (wdb w)) (set_acquired p t)"
  "preserves (\<lambda>w. data_inv (wdb w)) (advance_step p i nxt patch now)"
  "preserves (\<lambda>w. data_inv (wdb w)) (schedule_retry p i at ec em now)"
  "preserves (\<lambda>w. data_inv (wdb w)) (set_terminal_state p t)"
  unfolding set_acquired_def advance_step_def schedule_retry_def set_terminal_state_def
  by (intro pres update_one_preserves; auto intro: data_inv_frame)+

section \<open>The worker\<close>

lemma worker_steps_keep_data [pres]:
  "preserves (\<lambda>w. data_inv (wdb w)) (execute_persist_issuer dl p t i ipt cst en now)"
  "preserves (\<lambda>w. data_inv (wdb w)) (execute_provision_status_list p h i cst)"
  "preserves (\<lambda>w. data_inv (wdb w)) (execute_mark_deactivated p t i now)"
  "preserves (\<lambda>w. data_inv (wdb w)) (execute_swap_keys p t i rst)"
  unfolding execute_persist_issuer_def execute_provision_status_list_def
    execute_mark_deactivated_def mark_deactivated_tx_def mark_deactivated_body_def execute_swap_keys_def
  by (intro pres in_tx_preserves [where P = data_inv])+

lemma sagas_keep_data [pres]:
  "preserves (\<lambda>w. data_inv (wdb w)) (create_issuer_step wk t tn inp cst s)"
  "preserves (\<lambda>w. data_inv (wdb w)) (deactivate_issuer_step wk t tn is iid dst s)"
  "preserves (\<lambda>w. data_inv (wdb w)) (rotate_keys_step wk t tn is iid rin rst s)"
  unfolding create_issuer_step_def deactivate_issuer_step_def rotate_keys_step_def Let_def
  by (intro pres)+

lemma preserves_outcome_case [pres]:
  "(\<And>r. preserves P (f r)) \<Longrightarrow> (\<And>c m. preserves P (g c m)) \<Longrightarrow> (\<And>c m. preserves P (h c m)) \<Longrightarrow>
   preserves P (case x of Done r \<Rightarrow> f r | Retry c m \<Rightarrow> g c m | Terminal c m \<Rightarrow> h c m)"
  by (cases x) auto

lemma apply_outcome_keeps_data [pres]:
  "preserves (\<lambda>w. data_inv (wdb w)) (apply_outcome p g t nxt oc now)"
  by (cases oc; simp only: apply_outcome.simps fail_through_aggregate_def Let_def; intro pres)

lemma finish_step_keeps_data [pres]: "preserves (\<lambda>w. data_inv (wdb w)) (finish_step wk t oc nxt)"
  unfolding finish_step_def Let_def by (intro pres)

lemma execute_task_keeps_data [pres]: "preserves (\<lambda>w. data_inv (wdb w)) (execute_task wk t)"
  unfolding execute_task_def
  by (cases "ot_task_type t";
      simp add: execute_create_issuer_def execute_deactivate_issuer_def execute_rotate_keys_def; intro pres)

lemma preserves_worker_error [pres]:
  "(\<And>e. preserves P (f e)) \<Longrightarrow> (\<And>m. preserves P (g m)) \<Longrightarrow> (\<And>m. preserves P (h m)) \<Longrightarrow>
   preserves P (case x of WorkerPersistence e \<Rightarrow> f e | WorkerDecode m \<Rightarrow> g m | WorkerPanic m \<Rightarrow> h m)"
  by (cases x) auto

lemma poll_keeps_data [pres]: "preserves (\<lambda>w. data_inv (wdb w)) (poll wk)"
  unfolding poll_def acquire_next_def claim_body_def
  by (intro pres in_tx_preserves [where P = data_inv])

section \<open>The publisher\<close>

lemma publish_stores_keep_data [pres]:
  "preserves (\<lambda>w. data_inv (wdb w)) (record_publish_success p l v now)"
  "preserves (\<lambda>w. data_inv (wdb w)) (record_publish_failure p l m nx now)"
  "preserves (\<lambda>w. data_inv (wdb w)) (acquire_next_dirty p now le)"
proof -
  show "preserves (\<lambda>w. data_inv (wdb w)) (record_publish_success p l v now)"
  proof (cases "v \<le> I64_MAX")
    case True
    then show ?thesis unfolding record_publish_success_def
      by (intro pres run_stmt_preserves) (auto simp: update_stmt_def list_wf_def intro!: data_inv_lists_update)
  qed (simp add: record_publish_success_def preserves_raise)
  show "preserves (\<lambda>w. data_inv (wdb w)) (record_publish_failure p l m nx now)"
    unfolding record_publish_failure_def
    by (intro pres run_stmt_preserves)
       (auto simp: list_wf_def intro!: data_inv_lists_update split: if_splits)
  show "preserves (\<lambda>w. data_inv (wdb w)) (acquire_next_dirty p now le)"
    unfolding acquire_next_dirty_def
    by (intro pres run_stmt_world_preserves)
       (auto simp: list_wf_def intro!: data_inv_lists_update split: option.splits sum.splits)
qed

lemma build_signed_keeps_db [pres]: "preserves (\<lambda>w. P (wdb w)) (build_signed wl sha l i en now)"
  unfolding build_signed_def Let_def by (intro pres)

lemma publisher_poll_keeps_data [pres]: "preserves (\<lambda>w. data_inv (wdb w)) (publisher_poll pb)"
  unfolding publisher_poll_def publisher_acquire_next_def run_round_def sign_and_publish_def
    publish_jwt_def next_publish_time_def Let_def
  by (intro pres)

section \<open>The wallet endpoints\<close>

lemma wallet_stores_keep_data [pres]:
  "preserves (\<lambda>w. data_inv (wdb w)) (insert_access_token p t)"
  "preserves (\<lambda>w. data_inv (wdb w)) (insert_nonce p n)"
  "preserves (\<lambda>w. data_inv (wdb w)) (consume_by_hash p nh now)"
  "preserves (\<lambda>w. data_inv (wdb w)) (delete_by_hash p ah)"
  unfolding insert_access_token_def insert_nonce_def consume_by_hash_def delete_by_hash_def
  by (intro pres run_stmt_preserves;
      auto intro: data_inv_tokens_insert data_inv_tokens_filter data_inv_frame split: if_splits option.splits)+

lemma token_keeps_data [pres]: "preserves (\<lambda>w. data_inv (wdb w)) (token st i r)"
  unfolding token_def Let_def by (intro pres)

lemma preserves_offer_state [pres]:
  "preserves P a \<Longrightarrow> preserves P b \<Longrightarrow> preserves P c \<Longrightarrow> preserves P d \<Longrightarrow>
   preserves P (case x of OfferPending \<Rightarrow> a | Issued \<Rightarrow> b | Cancelled \<Rightarrow> c | Expired \<Rightarrow> d)"
  by (cases x) auto

lemma credential_offer_keeps_db [pres]: "preserves (\<lambda>w. P (wdb w)) (credential_offer st i o')"
  unfolding credential_offer_def Let_def by (intro pres)

lemma credential_checks_keep_data [pres]: "preserves (\<lambda>w. data_inv (wdb w)) (credential_checks st i a r)"
  unfolding credential_checks_def Let_def by (intro pres)

lemma disclose_keeps_db [pres]: "preserves (\<lambda>w. P (wdb w)) (disclose st m)"
  by (induction st m rule: disclose.induct) (auto simp: fresh_salt_def intro!: pres)

lemma preserves_claims_case [pres]:
  "(\<And>m. preserves P (f m)) \<Longrightarrow> preserves P a \<Longrightarrow> preserves P (case x of JObj m \<Rightarrow> f m | _ \<Rightarrow> a)"
  by (cases x) auto

lemma build_sd_jwt_vc_keeps_db [pres]: "preserves (\<lambda>w. P (wdb w)) (build_sd_jwt_vc st k i off cnf sc now ex)"
  unfolding build_sd_jwt_vc_def Let_def by (intro pres)

lemma keeps_db_eq:
  assumes "\<And>P. preserves (\<lambda>w. P (wdb w)) m" and "m w = (r, w')"
  shows "wdb w' = wdb w"
  using preserves_outcome [OF assms(1) [of "\<lambda>d. d = wdb w"] _ assms(2)] by simp

text \<open>The effect of issuing one credential, as a function on the tables.\<close>

definition take_slot :: "status_list_id \<Rightarrow> db \<Rightarrow> db" where
  "take_slot lid = status_lists_update (update_where (\<lambda>r. sl_id r = lid)
     (\<lambda>r. r\<lparr> sl_allocated_count := sl_allocated_count r + 1, sl_committed_version := sl_committed_version r + 1 \<rparr>))"

definition close_offer :: "tenant_id \<Rightarrow> issuer_id \<Rightarrow> offer_id \<Rightarrow> datetime \<Rightarrow> db \<Rightarrow> db" where
  "close_offer tn iss oid now = credential_offers_update (update_where (offer_at tn iss oid)
     (\<lambda>r. r\<lparr> co_state := Issued, co_issued_at := Some now, co_pre_auth_code := None \<rparr>))"

definition issue_db :: "access_token \<Rightarrow> issued_credential \<Rightarrow> datetime \<Rightarrow> db \<Rightarrow> db" where
  "issue_db tok c now d =
     (let d1 = take_slot (ic_status_list_id c) d;
          d2 = d1\<lparr> issued_credentials := issued_credentials d1 @ [c] \<rparr>;
          d3 = close_offer (at_tenant_id tok) (at_issuer_id tok) (at_offer_id tok) now d2
      in d3\<lparr> oidc_access_tokens := filter (\<lambda>t. at_token_hash t \<noteq> at_token_hash tok) (oidc_access_tokens d3) \<rparr>)"

text \<open>What must hold of the tables and the new row for that to be allowed.\<close>

definition slot_of_list :: "db \<Rightarrow> issued_credential \<Rightarrow> status_list \<Rightarrow> bool" where
  "slot_of_list d c l \<longleftrightarrow> row_by sl_id (ic_status_list_id c) (status_lists d) = Some l \<and>
     sint (sl_allocated_count l) < int SWIYU_STATUS_LIST_CAPACITY \<and> sl_committed_version l \<noteq> I64_MAX \<and>
     status_list_index_decode (sl_allocated_count l) = Inr (ic_status_list_index c)"

definition fresh_credential :: "db \<Rightarrow> issued_credential \<Rightarrow> bool" where
  "fresh_credential d c \<longleftrightarrow> ic_id c \<notin> ic_id ` set (issued_credentials d) \<and>
     ic_slot c \<notin> ic_slot ` set (issued_credentials d) \<and>
     ic_credential_offer_id c \<notin> ic_credential_offer_id ` set (issued_credentials d)"

lemma allocate_index_run:
  assumes "allocate_index p lid w = (Inr r, w')"
  shows "case row_by sl_id lid (status_lists (wdb w)) of
      None \<Rightarrow> r = None \<and> wdb w' = wdb w
    | Some l \<Rightarrow> if \<not> sint (sl_allocated_count l) < int SWIYU_STATUS_LIST_CAPACITY then r = None \<and> wdb w' = wdb w
        else sl_committed_version l \<noteq> I64_MAX \<and> wdb w' = take_slot lid (wdb w) \<and>
          (\<exists>idx. status_list_index_decode (sl_allocated_count l) = Inr idx \<and> r = Some idx)"
proof -
  obtain allocated w1 where st: "run_stmt p (\<lambda>d. case row_by sl_id lid (status_lists d) of
        None \<Rightarrow> Inr (None, d)
      | Some l \<Rightarrow>
          if \<not> sint (sl_allocated_count l) < int SWIYU_STATUS_LIST_CAPACITY then Inr (None, d)
          else if sl_committed_version l = I64_MAX then Inl (SqlConstraint ''bigint out of range'')
          else Inr (Some (sl_allocated_count l), status_lists_update (update_where (\<lambda>r. sl_id r = lid)
               (\<lambda>r. r\<lparr> sl_allocated_count := sl_allocated_count r + 1,
                       sl_committed_version := sl_committed_version r + 1 \<rparr>)) d)) w = (Inr allocated, w1)"
    and dec: "(case allocated of None \<Rightarrow> ret None
      | Some count \<Rightarrow> liftR (case status_list_index_decode count of
          Inl e \<Rightarrow> Inl (SqlDecode (show_domain_error e)) | Inr idx \<Rightarrow> Inr (Some idx))) w1 = (Inr r, w')"
    using assms by (auto simp only: allocate_index_def mapErr_eq_Inr bindE_eq_Inr)
  have "w' = w1 \<and> (case allocated of None \<Rightarrow> r = None
      | Some count \<Rightarrow> (\<exists>idx. status_list_index_decode count = Inr idx \<and> r = Some idx))"
    using dec by (cases allocated) (auto simp: res_success split: sum.splits)
  then show ?thesis
    using run_stmt_success [OF st] by (auto simp: take_slot_def split: option.splits if_splits)
qed

lemma allocate_index_success:
  assumes "allocate_index p lid w = (Inr (Some idx), w')"
  shows "\<exists>l. row_by sl_id lid (status_lists (wdb w)) = Some l \<and>
     sint (sl_allocated_count l) < int SWIYU_STATUS_LIST_CAPACITY \<and> sl_committed_version l \<noteq> I64_MAX \<and>
     status_list_index_decode (sl_allocated_count l) = Inr idx \<and> wdb w' = take_slot lid (wdb w)"
  using allocate_index_run [OF assms] by (auto split: option.splits if_splits)

lemma allocate_status_slot_success:
  assumes "allocate_status_slot st iss w = (Inr (lid, idx, url), w')"
  shows "\<exists>l row. row_by issuer_key iss (issuers (wdb w)) = Some row \<and> ir_current_status_list_id row = Some lid \<and>
     row_by sl_id lid (status_lists (wdb w)) = Some l \<and> sl_registry_url l = Some url \<and>
     sint (sl_allocated_count l) < int SWIYU_STATUS_LIST_CAPACITY \<and> sl_committed_version l \<noteq> I64_MAX \<and>
     status_list_index_decode (sl_allocated_count l) = Inr idx \<and> wdb w' = take_slot lid (wdb w)"
proof -
  obtain w1 where cur: "current_for_issuer_with_url (os_pool st) iss w = (Inr (Some (lid, Some url)), w1)"
    and al: "allocate_index (os_pool st) lid w1 = (Inr (Some idx), w')"
    using assms unfolding allocate_status_slot_def Let_def
    by (clarsimp simp: eff_success) (rename_tac cur; case_tac cur; auto split: option.splits)
  have w1: "wdb w1 = wdb w" and "\<exists>l row. row_by issuer_key iss (issuers (wdb w)) = Some row \<and>
      ir_current_status_list_id row = Some lid \<and> row_by sl_id lid (status_lists (wdb w)) = Some l \<and> sl_registry_url l = Some url"
    using cur by (auto simp: current_for_issuer_with_url_def mapErr_eq_Inr dest!: run_query_success
        simp: bind_eq_Some_conv) (metis row_by_SomeD)+
  then show ?thesis using allocate_index_success [OF al] by auto
qed

lemma insert_issued_success:
  assumes "insert_issued_credential p c w = (Inr (), w')"
  shows "fresh_credential (wdb w) c \<and> wdb w' = (wdb w)\<lparr> issued_credentials := issued_credentials (wdb w) @ [c] \<rparr>"
  using assms
  by (auto simp: insert_issued_credential_def fresh_credential_def Let_def mapErr_eq_Inr dest!: run_stmt_success
      split: if_splits option.splits)

lemma try_issue_Inr:
  "try_issue now off = Inr off' \<longleftrightarrow> co_state off = OfferPending \<and> now < co_expires_at off \<and>
     off' = off\<lparr> co_state := Issued, co_issued_at := Some now, co_pre_auth_code := None \<rparr>"
  by (auto simp: try_issue_def offer_is_expired_at_def)

lemma credential_tx_effect:
  assumes "credential_tx st ck w = (Inr e, w')"
  shows "\<exists>cred c l off row. e = Commit cred \<and>
     find (offer_at (at_tenant_id (ck_token ck)) (at_issuer_id (ck_token ck)) (at_offer_id (ck_token ck)))
       (credential_offers (wdb w)) = Some off \<and>
     co_state off = OfferPending \<and> ck_now ck < co_expires_at off \<and>
     ic_credential_offer_id c = co_id off \<and> ic_state c = CredActive \<and> ic_tenant_id c = at_tenant_id (ck_token ck) \<and>
     ic_issuer_id c = iss_id (ck_issuer ck) \<and> ic_vct c = co_vct off \<and>
     ic_integrity_hash c = host_sha256 (os_host st) cred \<and> ic_issued_at c = ck_now ck \<and>
     row_by issuer_key (iss_id (ck_issuer ck)) (issuers (wdb w)) = Some row \<and>
     ir_current_status_list_id row = Some (ic_status_list_id c) \<and>
     slot_of_list (wdb w) c l \<and> fresh_credential (wdb w) c \<and>
     wdb w' = issue_db (ck_token ck) c (ck_now ck) (wdb w)"
proof -
  let ?p = "os_pool st" and ?tok = "ck_token ck" and ?now = "ck_now ck"
  obtain off0 w1 off lid idx url w2 ex cred w3 jkt fresh w4 w5 w6 where
    f: "find_offer_by_id_for_update ?p (at_tenant_id ?tok) (at_issuer_id ?tok) (at_offer_id ?tok) w = (Inr off0, w1)" and
    ti: "try_issue ?now off0 = Inr off" and
    al: "allocate_status_slot st (iss_id (ck_issuer ck)) w1 = (Inr (lid, idx, url), w2)" and
    bd: "build_sd_jwt_vc st (ck_assertion_key_id ck) (ck_issuer ck) off (ck_cnf_jwk ck)
          (build_status_claim url idx) ?now ex w2 = (Inr cred, w3)" and
    gb: "(generate_bare (os_host st) :: ('a world, oauth_error, string) eff) w3 = (Inr fresh, w4)" and
    ins: "insert_issued_credential ?p (issued_credential_new (IssuedCredentialId fresh) (at_tenant_id ?tok)
          (iss_id (ck_issuer ck)) (co_id off) (co_vct off) jkt lid idx (host_sha256 (os_host st) cred) ?now ex) w4 = (Inr (), w5)" and
    si: "set_issued_state ?p off w5 = (Inr (), w6)" and
    de: "delete_by_hash ?p (at_token_hash ?tok) w6 = (Inr (), w')" and e: "e = Commit cred"
    using assms unfolding credential_tx_def Let_def
    by (auto simp only: eff_success res_success ret_run prod.inject sum.inject prod.case prod_cases3 unit_all_eq1 split_paired_Ex)
  define c where "c = issued_credential_new (IssuedCredentialId fresh) (at_tenant_id ?tok) (iss_id (ck_issuer ck))
      (co_id off) (co_vct off) jkt lid idx (host_sha256 (os_host st) cred) ?now ex"
  have f': "find (offer_at (at_tenant_id ?tok) (at_issuer_id ?tok) (at_offer_id ?tok)) (credential_offers (wdb w)) = Some off0"
    and w1: "wdb w1 = wdb w"
    using f by (auto simp: find_offer_by_id_for_update_def eff_success dest!: run_query_success)
  have at: "co_tenant_id off0 = at_tenant_id ?tok" "co_issuer_id off0 = at_issuer_id ?tok" "co_id off0 = at_offer_id ?tok"
    using find_SomeD [OF f'] by (auto simp: offer_at_def)
  note off = ti [unfolded try_issue_Inr]
  obtain l row where l: "row_by sl_id lid (status_lists (wdb w)) = Some l" "sint (sl_allocated_count l) < int SWIYU_STATUS_LIST_CAPACITY"
      "sl_committed_version l \<noteq> I64_MAX" "status_list_index_decode (sl_allocated_count l) = Inr idx"
    and row: "row_by issuer_key (iss_id (ck_issuer ck)) (issuers (wdb w)) = Some row" "ir_current_status_list_id row = Some lid"
    and w2: "wdb w2 = take_slot lid (wdb w)"
    using allocate_status_slot_success [OF al] w1 by auto
  have w4: "wdb w4 = take_slot lid (wdb w)"
    using keeps_db_eq [OF build_sd_jwt_vc_keeps_db bd] keeps_db_eq [OF generate_bare_keeps_db gb] w2 by simp
  note ins' = insert_issued_success [OF ins [folded c_def]]
  have c: "fresh_credential (wdb w) c"
    using ins' w4 by (simp add: fresh_credential_def take_slot_def)
  have w5: "wdb w5 = (wdb w4)\<lparr> issued_credentials := issued_credentials (wdb w4) @ [c] \<rparr>" using ins' by simp
  have w6: "wdb w6 = close_offer (at_tenant_id ?tok) (at_issuer_id ?tok) (at_offer_id ?tok) ?now (wdb w5)"
    using update_one_success [OF si [unfolded set_issued_state_def]] off at by (simp add: close_offer_def)
  have w': "wdb w' = (wdb w6)\<lparr> oidc_access_tokens := filter (\<lambda>t. at_token_hash t \<noteq> at_token_hash ?tok) (oidc_access_tokens (wdb w6)) \<rparr>"
    using de by (auto simp: delete_by_hash_def mapErr_eq_Inr dest!: run_stmt_success)
  have lid: "ic_status_list_id c = lid" "ic_status_list_index c = idx" by (simp_all add: c_def issued_credential_new_def)
  have "wdb w' = issue_db ?tok c ?now (wdb w)"
    unfolding issue_db_def Let_def w' w6 w5 w4 lid by simp
  moreover have "slot_of_list (wdb w) c l" using l lid by (simp add: slot_of_list_def)
  ultimately show ?thesis
    using e f' off at row c lid
    by (intro exI [of _ cred] exI [of _ c] exI [of _ l] exI [of _ off0] exI [of _ row])
       (simp add: c_def issued_credential_new_def)
qed

lemma decode_index_Inr:
  "status_list_index_decode v = Inr i \<Longrightarrow> i = StatusListIndex v \<and> unat v < 131072"
  by (auto simp: status_list_index_decode_def status_list_index_try_from_Inr split: if_splits)

lemma slot_incr:
  assumes "unat (a :: u32) < 131072"
  shows "unat (a + 1) = unat a + 1"
  using assms by (simp add: unat_word_ariths)

lemma data_inv_take_slot:
  assumes "data_inv d" and "row_by sl_id lid (status_lists d) = Some l" and "unat (sl_allocated_count l) < 131072"
    and "sl_committed_version l \<noteq> I64_MAX"
  shows "data_inv (take_slot lid d)"
proof -
  have "r = l" if "r \<in> set (status_lists d)" "sl_id r = lid" for r
    using list_row_unique [of d r] assms(1,2) that by (simp add: data_inv_def)
  then show ?thesis
    unfolding take_slot_def using assms
    by (intro data_inv_lists_update)
       (auto simp: list_wf_def slot_incr SWIYU_STATUS_LIST_CAPACITY_def intro: succ_i64_le)
qed

lemma issue_db_keeps:
  assumes inv: "data_inv d" and sl: "slot_of_list d c l" and fr: "fresh_credential d c"
    and off: "find (offer_at (at_tenant_id tok) (at_issuer_id tok) (at_offer_id tok)) (credential_offers d) = Some off"
      "co_state off = OfferPending" "ic_credential_offer_id c = co_id off"
  shows "data_inv (issue_db tok c now d)"
proof -
  let ?d1 = "take_slot (ic_status_list_id c) d"
  let ?P = "offer_at (at_tenant_id tok) (at_issuer_id tok) (at_offer_id tok)"
  let ?f = "\<lambda>r. r\<lparr> co_state := Issued, co_issued_at := Some now, co_pre_auth_code := None \<rparr>"
  have l: "row_by sl_id (ic_status_list_id c) (status_lists d) = Some l" "sl_committed_version l \<noteq> I64_MAX"
    and i: "ic_status_list_index c = StatusListIndex (sl_allocated_count l)" "unat (sl_allocated_count l) < 131072"
    using sl decode_index_Inr by (auto simp: slot_of_list_def)
  have inv1: "data_inv ?d1" using data_inv_take_slot [OF inv l(1) i(2) l(2)] .
  have offm: "off \<in> set (credential_offers d)" "?P off" using find_SomeD [OF off(1)] by auto
  have uniq: "r = off" if "r \<in> set (credential_offers d)" "?P r" for r
    using inv that offm by (auto simp: data_inv_defs offer_at_def distinct_map inj_on_def)
  define d3 where "d3 = close_offer (at_tenant_id tok) (at_issuer_id tok) (at_offer_id tok) now ?d1"
  have inv3: "data_inv d3"
    unfolding d3_def close_offer_def
  proof (rule data_inv_offers_update [OF inv1])
    fix r assume "r \<in> set (credential_offers ?d1)" "?P r" "offer_wf r"
    then have "r = off" using uniq by (simp add: take_slot_def)
    then show "offer_wf (?f r) \<and> (co_state r = Issued \<longrightarrow> co_state (?f r) = Issued)"
      using \<open>offer_wf r\<close> off(2) by (simp add: offer_wf_def)
  qed simp
  have used: "offer_used (credential_offers d3) c"
    unfolding offer_used_def d3_def close_offer_def
    using offm off(3) by (auto simp: take_slot_def set_update_where intro!: bexI [of _ "?f off"] image_eqI [of _ _ off])
  have "l \<in> set (status_lists d)" "sl_id l = ic_status_list_id c" using row_by_SomeD [OF l(1)] by auto
  then have "slot_taken (status_lists d3) c"
    unfolding slot_taken_def d3_def close_offer_def take_slot_def
    using i by (auto simp: set_update_where slot_incr
        intro!: bexI [of _ "l\<lparr> sl_allocated_count := sl_allocated_count l + 1, sl_committed_version := sl_committed_version l + 1 \<rparr>"]
          image_eqI [of _ _ l])
  then have "data_inv (d3\<lparr> issued_credentials := issued_credentials d3 @ [c] \<rparr>)"
    using inv3 used fr by (auto simp: data_inv_defs lists_inv_def fresh_credential_def d3_def close_offer_def take_slot_def)
  moreover have "issue_db tok c now d = d3\<lparr> issued_credentials := issued_credentials d3 @ [c],
      oidc_access_tokens := filter (\<lambda>t. at_token_hash t \<noteq> at_token_hash tok) (oidc_access_tokens d3) \<rparr>"
    by (simp add: issue_db_def d3_def close_offer_def take_slot_def Let_def)
  ultimately show ?thesis
    using data_inv_tokens_filter [of "d3\<lparr> issued_credentials := issued_credentials d3 @ [c] \<rparr>"] by simp
qed

lemma credential_keeps_data [pres]: "preserves (\<lambda>w. data_inv (wdb w)) (credential st i a r)"
proof -
  have "preserves (\<lambda>w. data_inv (wdb w)) (in_tx (os_pool st) f g (credential_tx st ck))" for f g ck
  proof (rule in_tx_commits)
    fix w :: "'a world" and b w'
    assume inv: "data_inv (wdb w)" and run: "credential_tx st ck w = (Inr (Commit b), w')"
    show "data_inv (wdb w')"
      using credential_tx_effect [OF run] issue_db_keeps [OF inv] by (elim exE conjE) simp
  qed
  then show ?thesis unfolding credential_def by (intro preserves_bindE credential_checks_keep_data)
qed

section \<open>The management handlers\<close>

lemma mgmt_stores_keep_data [pres]:
  "offer_wf off \<Longrightarrow> preserves (\<lambda>w. data_inv (wdb w)) (insert_offer p off)"
  "preserves (\<lambda>w. data_inv (wdb w)) (cancel_offer_row p t i o' now)"
  "preserves (\<lambda>w. data_inv (wdb w)) (set_credential_state p t cid cs)"
  unfolding insert_offer_def cancel_offer_row_def set_credential_state_def
  by (intro pres run_stmt_preserves;
      auto simp: update_stmt_def cancelled_wf ic_slot_def
           intro: data_inv_offers_insert intro!: data_inv_offers_update data_inv_creds_update split: if_splits)+

lemma write_bit_keeps_data [pres]: "preserves (\<lambda>w. data_inv (wdb w)) (write_bit cs p lid idx v)"
proof -
  have "data_inv (status_lists_update (update_where (\<lambda>r. sl_id r = lid)
      (\<lambda>r. r\<lparr> sl_bitstring := bs, sl_committed_version := sl_committed_version r + 1 \<rparr>)) d)"
    if "data_inv d" "\<not> (\<exists>l \<in> set (status_lists d). sl_id l = lid \<and> sl_committed_version l = I64_MAX)"
      "\<not> (length bs \<noteq> BITSTRING_BYTES \<and> lid \<in> sl_id ` set (status_lists d))" for d bs
    using that by (intro data_inv_lists_update) (auto simp: list_wf_def intro: succ_i64_le)
  then show ?thesis
    unfolding write_bit_def
    by (intro pres run_stmt_preserves) (auto split: if_splits)
qed

lemma boundary_keeps_db [pres]:
  "preserves (\<lambda>w. P (wdb w)) (require_issuer_owned_by_tenant ms t i)"
  "preserves (\<lambda>w. P (wdb w)) (acquire_pool_for_issuer ms t i)"
  "preserves (\<lambda>w. P (wdb w)) (validator_for_type ms ct)"
  unfolding acquire_pool_for_issuer_def require_issuer_owned_by_tenant_def validator_for_type_def by (intro pres)+

lemma mgmt_keeps_data [pres]:
  "preserves (\<lambda>w. data_inv (wdb w)) (create_offer ms t i req)"
  "preserves (\<lambda>w. data_inv (wdb w)) (cancel_offer ms t i o')"
  "preserves (\<lambda>w. data_inv (wdb w)) (lifecycle_handler tr sv ms t i c)"
  unfolding create_offer_def cancel_offer_def cancel_loaded_def lifecycle_handler_def run_lifecycle_op_def
    lifecycle_tx_def lifecycle_read_def lifecycle_write_def Let_def
  by (intro pres credential_offer_new_wf in_tx_preserves [where P = data_inv])+

lemma reads_keep_db [pres]:
  "preserves (\<lambda>w. P (wdb w)) (get_offer ms t i o')"
  "preserves (\<lambda>w. P (wdb w)) (get_offer_status ms t i o')"
  "preserves (\<lambda>w. P (wdb w)) (list_offers ms t i lq)"
  "preserves (\<lambda>w. P (wdb w)) (get_credential ms t i c)"
  "preserves (\<lambda>w. P (wdb w)) (list_credentials ms t i cq)"
  unfolding get_offer_def get_offer_status_def load_offer_def list_offers_def list_offers_page_def
    get_credential_def list_credentials_def list_credentials_page_def Let_def
  by (intro pres)+

end
