(* ===== verification/StatusProps.thy ===== *)
theory StatusProps
  imports Integrity Fixtures
begin

text \<open>
  Properties of the status lists: the allocation of indices, the lease of a
  dirty list, the version bookkeeping of a publication, and when a version
  counts as published.
\<close>

section \<open>Allocation\<close>

lemma list_row_take_slot:
  "row_by sl_id j (status_lists (take_slot lid d)) = (if j = lid
     then map_option (\<lambda>r. r\<lparr> sl_allocated_count := sl_allocated_count r + 1,
            sl_committed_version := sl_committed_version r + 1 \<rparr>) (row_by sl_id j (status_lists d))
     else row_by sl_id j (status_lists d))"
  by (simp add: take_slot_def)

lemma allocated_below:
  assumes "list_wf l"
  shows "sint (sl_allocated_count l) < int n \<longleftrightarrow> unat (sl_allocated_count l) < n"
    and "\<not> sint (sl_allocated_count l) < 0"
  unfolding list_wf_sint_allocated [OF assms] by (simp_all only: of_nat_less_iff of_nat_less_0_iff not_False_eq_True)

lemma decode_own_count:
  assumes "list_wf l" and "sint (sl_allocated_count l) < int SWIYU_STATUS_LIST_CAPACITY"
  shows "status_list_index_decode (sl_allocated_count l) = Inr (StatusListIndex (sl_allocated_count l)) \<and>
    unat (sl_allocated_count l) < SWIYU_STATUS_LIST_CAPACITY"
  using assms(2) allocated_below [OF assms(1)]
  by (simp only: allocated_below(1) [OF assms(1)])
     (simp add: status_list_index_decode_def status_list_index_try_from_def)

text \<open>C14. An allocation on a status list returns the list's next index, below the capacity, advances the
  counter by exactly one without wrap-around and makes a new version; it answers that there is none
  exactly for a missing or full list and then changes nothing; other lists keep their rows.\<close>

theorem allocate_index_takes_next_slot:
  assumes inv: "lists_inv (wdb w)" and run: "allocate_index p lid w = (Inr r, w')"
  shows "(case row_by sl_id lid (status_lists (wdb w)) of
      None \<Rightarrow> r = None \<and> wdb w' = wdb w
    | Some l \<Rightarrow> if is_at_capacity l then r = None \<and> wdb w' = wdb w
        else r = Some (StatusListIndex (sl_allocated_count l)) \<and>
          unat (sl_allocated_count l) < SWIYU_STATUS_LIST_CAPACITY \<and>
          (\<exists>l'. row_by sl_id lid (status_lists (wdb w')) = Some l' \<and>
             unat (sl_allocated_count l') = unat (sl_allocated_count l) + 1 \<and>
             sl_committed_version l' = sl_committed_version l + 1 \<and> sl_bitstring l' = sl_bitstring l)) \<and>
    (\<forall>j. j \<noteq> lid \<longrightarrow> row_by sl_id j (status_lists (wdb w')) = row_by sl_id j (status_lists (wdb w)))"
proof (cases "row_by sl_id lid (status_lists (wdb w))")
  case None
  then show ?thesis
    using allocate_index_run [OF run] by simp
next
  case (Some l)
  have wf: "list_wf l" using list_row_wf [OF inv Some] .
  have cap: "is_at_capacity l \<longleftrightarrow> \<not> sint (sl_allocated_count l) < int SWIYU_STATUS_LIST_CAPACITY"
    by (simp only: allocated_below(1) [OF wf] is_at_capacity_def not_less)
  show ?thesis
  proof (cases "is_at_capacity l")
    case True
    then show ?thesis
      using allocate_index_run [OF run] Some cap by simp
  next
    case False
    then have dec: "status_list_index_decode (sl_allocated_count l) = Inr (StatusListIndex (sl_allocated_count l))"
      and small: "unat (sl_allocated_count l) < SWIYU_STATUS_LIST_CAPACITY"
      using decode_own_count [OF wf] cap by auto
    then have "r = Some (StatusListIndex (sl_allocated_count l)) \<and> wdb w' = take_slot lid (wdb w)"
      using allocate_index_run [OF run] Some cap False by auto
    then show ?thesis
      using Some False small by (simp add: list_row_take_slot slot_incr SWIYU_STATUS_LIST_CAPACITY_def)
  qed
qed

lemma fx_lists_inv: "lists_inv fx_db"
  by (simp add: lists_inv_def fx_db_def fx_list_def list_wf_def status_list_new_def I64_MAX_def)

theorem allocate_index_takes_next_slot_witness:
  "\<exists>w'. allocate_index fx_pool (StatusListId (fx_bare 4)) fx_world = (Inr (Some (StatusListIndex 0)), w') \<and>
     (\<exists>l'. row_by sl_id (StatusListId (fx_bare 4)) (status_lists (wdb w')) = Some l' \<and>
        unat (sl_allocated_count l') = 1)"
proof -
  let ?i = "StatusListId (fx_bare 4)"
  have d: "wdb fx_world = fx_db" by (simp add: fx_world_def)
  have row: "row_by sl_id ?i (status_lists fx_db) = Some fx_list"
    by (simp add: row_by_def fx_db_def fx_list_def status_list_new_def)
  have l: "sl_allocated_count fx_list = 0" "\<not> is_at_capacity fx_list" "sl_committed_version fx_list \<noteq> I64_MAX"
    by (simp_all add: fx_list_def status_list_new_def is_at_capacity_def SWIYU_STATUS_LIST_CAPACITY_def I64_MAX_def)
  have "\<exists>r w'. allocate_index fx_pool ?i fx_world = (Inr r, w')"
    using l by (simp add: allocate_index_def bindE_run mapErr_run fx_run d row SWIYU_STATUS_LIST_CAPACITY_def
        status_list_index_decode_def status_list_index_try_from_def)
  then obtain r w' where r: "allocate_index fx_pool ?i fx_world = (Inr r, w')" by blast
  show ?thesis
    using allocate_index_takes_next_slot [OF _ r] r l row fx_lists_inv by (auto simp: d)
qed

text \<open>The slot an allocation hands out is never one that an issued credential occupies, whatever was
  issued before: the uniqueness constraint on slots cannot fail an issuance.\<close>

lemma allocated_slot_is_free:
  assumes inv: "data_inv (wdb w)" and run: "allocate_index p lid w = (Inr (Some idx), w')"
  shows "(lid, idx) \<notin> ic_slot ` set (issued_credentials (wdb w))"
proof
  assume "(lid, idx) \<in> ic_slot ` set (issued_credentials (wdb w))"
  then obtain c where c: "c \<in> set (issued_credentials (wdb w))" "ic_status_list_id c = lid" "ic_status_list_index c = idx"
    by (auto simp: ic_slot_def)
  obtain l where l: "row_by sl_id lid (status_lists (wdb w)) = Some l"
    and idx: "status_list_index_decode (sl_allocated_count l) = Inr idx"
    using allocate_index_success [OF run] by blast
  obtain l2 where l2: "l2 \<in> set (status_lists (wdb w))" "sl_id l2 = lid"
    and lt: "unat (index_value idx) < unat (sl_allocated_count l2)"
    using inv c by (auto simp: data_inv_def creds_inv_def slot_taken_def)
  have "l2 = l" using list_row_unique [of "wdb w" l2] l l2 inv by (simp add: data_inv_def)
  then show False using decode_index_Inr [OF idx] lt by simp
qed

lemma fx_data_inv: "data_inv fx_db"
  using fx_lists_inv credential_offer_new_wf
  by (auto simp: data_inv_def issuers_inv_def offers_inv_def tokens_inv_def creds_inv_def fx_db_def fx_offer_def)

theorem allocated_slot_is_free_witness:
  "\<exists>idx w'. allocate_index fx_pool (StatusListId (fx_bare 4)) fx_world = (Inr (Some idx), w') \<and>
     (StatusListId (fx_bare 4), idx) \<notin> ic_slot ` set (issued_credentials (wdb fx_world))"
proof -
  let ?i = "StatusListId (fx_bare 4)"
  have d: "wdb fx_world = fx_db" by (simp add: fx_world_def)
  have row: "row_by sl_id ?i (status_lists fx_db) = Some fx_list"
    by (simp add: row_by_def fx_db_def fx_list_def status_list_new_def)
  have l: "sl_allocated_count fx_list = 0" "sl_committed_version fx_list \<noteq> I64_MAX"
    by (simp_all add: fx_list_def status_list_new_def I64_MAX_def)
  have "\<exists>idx w'. allocate_index fx_pool ?i fx_world = (Inr (Some idx), w')"
    using l by (simp add: allocate_index_def bindE_run mapErr_run fx_run d row SWIYU_STATUS_LIST_CAPACITY_def
        status_list_index_decode_def status_list_index_try_from_def)
  then show ?thesis using allocated_slot_is_free [of fx_world fx_pool ?i] fx_data_inv d by metis
qed

section \<open>Publication\<close>

lemma sint_i64:
  fixes v :: u64
  assumes "v \<le> I64_MAX"
  shows "sint v = uint v"
proof -
  have "uint v \<le> 2 ^ 63 - 1" using assms by (simp add: word_le_def I64_MAX_def)
  then have "signed_take_bit 63 (uint v) = uint v"
    using uint_nonnegative [of v] by (intro signed_take_bit_int_eq_self) linarith+
  then show ?thesis by (simp add: sint_uint)
qed

lemma sint_less_i64: "v \<le> I64_MAX \<Longrightarrow> u \<le> I64_MAX \<Longrightarrow> sint v < sint u \<longleftrightarrow> v < (u :: u64)"
  by (simp add: sint_i64 word_less_def)

text \<open>Recording a publication of a version is conditional on it: the published version moves to it only
  upwards, the answer says whether it moved, the committed version and the bits stay, so a list that
  changed after the snapshot was taken stays dirty; other lists keep their rows.\<close>

lemma publish_success_is_conditional:
  assumes inv: "lists_inv (wdb w)" and l: "row_by sl_id lid (status_lists (wdb w)) = Some l"
    and run: "record_publish_success p lid v now w = (Inr won, w')"
  shows "v \<le> I64_MAX \<and> won = (sl_published_version l < v) \<and>
    (\<exists>l'. row_by sl_id lid (status_lists (wdb w')) = Some l' \<and>
       sl_published_version l' = max (sl_published_version l) v \<and>
       sl_committed_version l' = sl_committed_version l \<and> sl_bitstring l' = sl_bitstring l \<and>
       (is_dirty l' \<longleftrightarrow> sl_committed_version l > max (sl_published_version l) v) \<and>
       (won \<longrightarrow> sl_publish_attempts l' = 0 \<and> sl_next_publish_attempt_at l' = None)) \<and>
    (\<forall>j. j \<noteq> lid \<longrightarrow> row_by sl_id j (status_lists (wdb w')) = row_by sl_id j (status_lists (wdb w)))"
proof -
  let ?P = "\<lambda>r. sl_id r = lid \<and> sint (sl_published_version r) < sint v"
  let ?f = "\<lambda>r. r\<lparr> sl_published_version := v, sl_last_publish_attempt_at := Some now,
                sl_last_publish_error := None, sl_next_publish_attempt_at := None, sl_publish_attempts := 0 \<rparr>"
  have wf: "list_wf l" and lm: "l \<in> set (status_lists (wdb w))" "sl_id l = lid"
    using list_row_wf [OF inv l] row_by_SomeD [OF l] by auto
  have v: "v \<le> I64_MAX" and n: "won = (rows_matching ?P (status_lists (wdb w)) > 0)"
    and w': "wdb w' = status_lists_update (update_where ?P ?f) (wdb w)"
    using run by (auto simp: record_publish_success_def eff_success update_stmt_def simp del: rows_matching_0 dest!: run_stmt_success)
  have uniq: "r = l" if "r \<in> set (status_lists (wdb w))" "sl_id r = lid" for r
    using list_row_unique [OF inv that(1)] l that(2) by simp
  have cmp: "sint (sl_published_version l) < sint v \<longleftrightarrow> sl_published_version l < v"
    using v wf by (intro sint_less_i64) (auto simp: list_wf_def)
  have won: "won \<longleftrightarrow> sl_published_version l < v"
  proof -
    have "rows_matching ?P (status_lists (wdb w)) > 0 \<longleftrightarrow> (\<exists>r \<in> set (status_lists (wdb w)). ?P r)"
      by (rule rows_matching_pos)
    also have "\<dots> \<longleftrightarrow> sint (sl_published_version l) < sint v"
    proof
      assume "\<exists>r \<in> set (status_lists (wdb w)). ?P r"
      then obtain r where r: "r \<in> set (status_lists (wdb w))" "sl_id r = lid"
        "sint (sl_published_version r) < sint v" by auto
      show "sint (sl_published_version l) < sint v" using uniq [OF r(1,2)] r(3) by simp
    qed (use lm in blast)
    finally show ?thesis using n cmp by simp
  qed
  have row': "row_by sl_id j (status_lists (wdb w')) =
      map_option (\<lambda>r. if ?P r then ?f r else r) (row_by sl_id j (status_lists (wdb w)))" for j
    unfolding w' by (simp, rule row_by_update_where_map) simp
  have other: "row_by sl_id j (status_lists (wdb w')) = row_by sl_id j (status_lists (wdb w))" if "j \<noteq> lid" for j
    using row' [of j] that by (cases "row_by sl_id j (status_lists (wdb w))") (auto dest: row_by_SomeD)
  have "row_by sl_id lid (status_lists (wdb w')) = Some (if sl_published_version l < v then ?f l else l)"
    using row' [of lid] l lm cmp by simp
  then show ?thesis
    using v won other by (auto simp: is_dirty_def max_def)
qed

theorem publish_success_is_conditional_witness:
  "\<exists>w'. record_publish_success fx_pool (StatusListId (fx_bare 4)) 3 9 fx_world = (Inr True, w') \<and>
     (\<exists>l'. row_by sl_id (StatusListId (fx_bare 4)) (status_lists (wdb w')) = Some l' \<and> sl_published_version l' = 3)"
proof -
  let ?i = "StatusListId (fx_bare 4)"
  have d: "wdb fx_world = fx_db" by (simp add: fx_world_def)
  have row: "row_by sl_id ?i (status_lists (wdb fx_world)) = Some fx_list"
    by (simp add: d row_by_def fx_db_def fx_list_def status_list_new_def)
  have l: "sl_published_version fx_list = 0" by (simp add: fx_list_def status_list_new_def)
  have "\<exists>r w'. record_publish_success fx_pool ?i 3 9 fx_world = (Inr r, w')"
    by (simp add: record_publish_success_def I64_MAX_def bindE_run mapErr_run fx_run update_stmt_def)
  then obtain won w' where r: "record_publish_success fx_pool ?i 3 9 fx_world = (Inr won, w')" by blast
  show ?thesis
    using publish_success_is_conditional [OF _ row r] r l fx_lists_inv by (auto simp: d)
qed

text \<open>The publisher leases the first due dirty list that nobody holds: the row handed out was
  publishable, no publishable unlocked row comes before it, and until the lease ends it is not
  publishable again, so no other publisher takes it up meanwhile.\<close>

lemma dirty_list_is_leased:
  assumes inv: "lists_inv (wdb w)" and lease: "0 < lease"
    and run: "acquire_next_dirty p now lease w = (Inr (Some l'), w')"
  shows "\<exists>l \<in> set (status_lists (wdb w)). publishable now l \<and> is_dirty l \<and>
      l' = l\<lparr> sl_next_publish_attempt_at := Some (now + lease) \<rparr> \<and>
      (\<forall>r \<in> set (status_lists (wdb w)). publishable now r \<and> \<not> row_locked p (wext w) (status_list_bare (sl_id r)) \<longrightarrow>
         publish_before l r) \<and>
      (\<forall>t r. t < now + lease \<and> r \<in> set (status_lists (wdb w')) \<and> sl_id r = sl_id l \<longrightarrow> \<not> publishable t r)"
proof -
  let ?ok = "\<lambda>l. publishable now l \<and> \<not> row_locked p (wext w) (status_list_bare (sl_id l))"
  obtain l where m: "min_row publish_before (filter ?ok (status_lists (wdb w))) = Some l"
    and l': "l' = l\<lparr> sl_next_publish_attempt_at := Some (now + lease) \<rparr>"
    and w': "wdb w' = status_lists_update (update_where (\<lambda>r. sl_id r = sl_id l)
        (\<lambda>r. r\<lparr> sl_next_publish_attempt_at := Some (now + lease) \<rparr>)) (wdb w)"
    using run by (auto simp: acquire_next_dirty_def mapErr_eq_Inr decode_status_list_def
        dest!: run_stmt_success split: option.splits sum.splits if_splits)
  have l: "l \<in> set (status_lists (wdb w))" "publishable now l" using min_row_in_set [OF m] by auto
  have tr: "transp publish_before"
    by (rule transpI) (auto simp: publish_before_def split: option.splits)
  have tot: "\<forall>a b. publish_before a b \<or> publish_before b a"
    by (auto simp: publish_before_def split: option.splits)
  have least: "publish_before l r" if "r \<in> set (status_lists (wdb w))" "?ok r" for r
    using min_row_least [OF tr tot m] that by simp
  have wf: "list_wf l" using inv l by (simp add: lists_inv_def)
  have "is_dirty l"
    using l(2) wf sint_less_i64 by (auto simp: publishable_def is_dirty_def list_wf_def)
  moreover have "\<not> publishable t r" if "t < now + lease" "r \<in> set (status_lists (wdb w'))" "sl_id r = sl_id l" for t r
    using that unfolding w' by (auto simp: set_update_where publishable_def split: if_splits)
  ultimately show ?thesis using l l' least by (intro bexI [of _ l]) auto
qed

definition fx_dirty_world :: "nat world" where
  "fx_dirty_world = fx_world\<lparr> wdb := fx_db\<lparr> status_lists := [fx_list\<lparr> sl_committed_version := 2 \<rparr>] \<rparr> \<rparr>"

theorem dirty_list_is_leased_witness:
  "\<exists>l' w'. acquire_next_dirty fx_pool 5 30 fx_dirty_world = (Inr (Some l'), w') \<and>
     sl_next_publish_attempt_at l' = Some 35"
proof -
  have inv: "lists_inv (wdb fx_dirty_world)"
    by (simp add: fx_dirty_world_def lists_inv_def fx_list_def list_wf_def status_list_new_def I64_MAX_def)
  have "\<exists>l' w'. acquire_next_dirty fx_pool 5 30 fx_dirty_world = (Inr (Some l'), w')"
    by (simp add: acquire_next_dirty_def mapErr_run fx_run fx_dirty_world_def,
        simp add: fx_pool_def publishable_def fx_list_def status_list_new_def min_row_def decode_status_list_def)
  then obtain l' w' where r: "acquire_next_dirty fx_pool 5 30 fx_dirty_world = (Inr (Some l'), w')" by blast
  show ?thesis using dirty_list_is_leased [OF inv _ r] r by auto
qed

section \<open>Rounds\<close>

definition published_versions :: "db \<Rightarrow> (status_list_id \<times> u64) list" where
  "published_versions d = map (\<lambda>l. (sl_id l, sl_published_version l)) (status_lists d)"

lemma failure_keeps_published [pres]:
  "preserves (\<lambda>w. published_versions (wdb w) = V) (record_publish_failure p l m nx now)"
  unfolding record_publish_failure_def
  by (intro pres run_stmt_preserves) (auto simp: published_versions_def update_where_def split: if_splits)

lemma next_publish_time_keeps_db [pres]: "preserves (\<lambda>w. P (wdb w)) (next_publish_time pb l e now)"
  unfolding next_publish_time_def Let_def by (intro pres)

text \<open>What a round reads before it signs: the issuer of the list, its tenant, the registry entry and the time.\<close>

definition round_inputs ::
  "'x publisher \<Rightarrow> status_list \<Rightarrow> ('x world, publisher_error, issuer \<times> tenant \<times> string \<times> datetime) eff" where
  "round_inputs pb l =
     (let p = pb_pool pb in
     bindE (mapErr (\<lambda>e. PubPersistence (DbError e)) (acquire p)) (\<lambda>_.
     bindE (mapErr PubPersistence (find_issuer_by_id p (sl_issuer_id l))) (\<lambda>found_issuer.
     bindE (okOr (PubInconsistent (''status_lists row '' @ id_display ''status_list'' (status_list_bare (sl_id l))
              @ '' references missing issuer '' @ id_display ''issuer'' (issuer_bare (sl_issuer_id l)))) found_issuer) (\<lambda>issuer.
     bindE (mapErr PubPersistence (find_tenant_by_id p (iss_tenant_id issuer))) (\<lambda>found_tenant.
     bindE (okOr (PubInconsistent (''issuer '' @ id_display ''issuer'' (issuer_bare (iss_id issuer))
              @ '' references missing tenant '' @ id_display ''tenant'' (tenant_bare (iss_tenant_id issuer)))) found_tenant) (\<lambda>tenant.
     bindE (okOr (PubInconsistent (''status_lists row '' @ id_display ''status_list'' (status_list_bare (sl_id l))
              @ '' has no registry_entry_id; create_status_list_entry must run first'')) (sl_registry_entry_id l)) (\<lambda>entry.
     bindE (utc_now (pb_host pb)) (\<lambda>now. ret (issuer, tenant, entry, now)))))))))"

lemma run_round_split:
  "run_round pb l = bindE (round_inputs pb l) (\<lambda>(issuer, tenant, entry, now). sign_and_publish pb l issuer tenant entry now)"
  by (simp add: run_round_def round_inputs_def Let_def bindE_assoc bindE_ret_left)

lemma round_inputs_keep_db: "preserves (\<lambda>w. P (wdb w)) (round_inputs pb l)"
  unfolding round_inputs_def Let_def by (intro pres)

text \<open>The accepted call is the last thing that happens outside before the version is recorded.\<close>

definition record_snapshot :: "status_list \<Rightarrow> datetime \<Rightarrow> db \<Rightarrow> db" where
  "record_snapshot l now = status_lists_update (update_where
     (\<lambda>r. sl_id r = sl_id l \<and> sint (sl_published_version r) < sint (sl_committed_version l))
     (\<lambda>r. r\<lparr> sl_published_version := sl_committed_version l, sl_last_publish_attempt_at := Some now,
             sl_last_publish_error := None, sl_next_publish_attempt_at := None, sl_publish_attempts := 0 \<rparr>))"

lemma kept_value: "preserves (\<lambda>w. g w = g w0) m \<Longrightarrow> m w1 = (r, w') \<Longrightarrow> g w1 = g w0 \<Longrightarrow> g w' = g w0"
  by (auto simp: preserves_def dest!: spec [of _ w1])

lemma preserved_run: "preserves P m \<Longrightarrow> m w = (r, w') \<Longrightarrow> P w \<Longrightarrow> P w'"
  by (auto simp: preserves_def dest!: spec [of _ w])

lemma recorded_or_kept:
  assumes "record_publish_success p (sl_id l) (sl_committed_version l) now w = (r, w')"
  shows "wdb w' = wdb w \<or> wdb w' = record_snapshot l now (wdb w)"
proof -
  have "preserves (\<lambda>v. wdb v = wdb w \<or> wdb v = record_snapshot l now (wdb w)) (run_stmt p (update_stmt status_lists_update status_lists
        (\<lambda>r. sl_id r = sl_id l \<and> sint (sl_published_version r) < sint (sl_committed_version l))
        (\<lambda>r. r\<lparr> sl_published_version := sl_committed_version l, sl_last_publish_attempt_at := Some now,
             sl_last_publish_error := None, sl_next_publish_attempt_at := None, sl_publish_attempts := 0 \<rparr>)))" (is "preserves ?P ?m")
    by (rule run_stmt_preserves)
      (auto simp: update_stmt_def record_snapshot_def update_where_def comp_def intro!: arg_cong [where f = "\<lambda>f. map f _"])
  then have "preserves ?P (record_publish_success p (sl_id l) (sl_committed_version l) now)"
    unfolding record_publish_success_def by (intro pres)
  from preserved_run [OF this assms] show ?thesis by simp
qed

lemma publish_records_only_if_accepted:
  assumes "publish_jwt pb l issuer tenant entry now jwt w = (r, w')" and "published_versions (wdb w') \<noteq> published_versions (wdb w)"
  shows "\<exists>x. update_status_list_entry_with_refresh (pb_providers pb (iss_tenant_id issuer)) (pb_status_registry pb)
      (tn_partner_id tenant) entry jwt (wext w) = (Inr (), x) \<and> wdb w' = record_snapshot l now (wdb w)"
proof -
  let ?put = "update_status_list_entry_with_refresh (pb_providers pb (iss_tenant_id issuer)) (pb_status_registry pb) (tn_partner_id tenant) entry jwt"
  obtain res x where res: "?put (wext w) = (res, x)" by fastforce
  let ?w = "w\<lparr> wext := x \<rparr>"
  show ?thesis
  proof (cases res)
    case (Inl e)
    have "preserves (\<lambda>v. published_versions (wdb v) = published_versions (wdb w)) (bindE (next_publish_time pb l e now) (\<lambda>nxt.
         bindE (mapErr PubPersistence (record_publish_failure (pb_pool pb) (sl_id l)
                  (show_token_aware_error (pb_registry_errors pb) e) nxt now)) (\<lambda>_. raise (PubTokenAware e))))"
      by (intro pres)
    moreover have "bindE (next_publish_time pb l e now) (\<lambda>nxt.
         bindE (mapErr PubPersistence (record_publish_failure (pb_pool pb) (sl_id l)
                  (show_token_aware_error (pb_registry_errors pb) e) nxt now)) (\<lambda>_. raise (PubTokenAware e))) ?w = (r, w')"
      using assms(1) res Inl by (simp add: publish_jwt_def bindE_run reify_run ext_def Let_def)
    ultimately have "published_versions (wdb w') = published_versions (wdb w)"
      by (rule kept_value [where g = "\<lambda>w. published_versions (wdb w)"]) simp
    then show ?thesis using assms(2) by contradiction
  next
    case (Inr u)
    obtain won w'' where "record_publish_success (pb_pool pb) (sl_id l) (sl_committed_version l) now ?w = (won, w'')" by fastforce
    moreover from this have "w'' = w'" using assms(1) res Inr
      by (auto simp: publish_jwt_def bindE_run mapErr_run reify_run ext_def Let_def split: sum.splits)
    ultimately have "wdb w' = wdb w \<or> wdb w' = record_snapshot l now (wdb w)" using recorded_or_kept by fastforce
    then show ?thesis using assms(2) res Inr by auto
  qed
qed

text \<open>C15. A version counts as published only after the registry took it.  If a publish round changes the
  published version of any list, then in this round: the leased snapshot was signed, the registry accepted, for
  the snapshot's own entry and its issuer's tenant, the list signed there, and what was recorded - for that list
  only, and only upwards - is the version of the snapshot.\<close>

theorem published_only_after_registry_accepts:
  assumes "run_round pb l w = (r, w')" and "published_versions (wdb w') \<noteq> published_versions (wdb w)"
  shows "\<exists>issuer tenant entry now w1 jwt w2 x. round_inputs pb l w = (Inr (issuer, tenant, entry, now), w1) \<and>
    build_signed (pb_wrapper_lib pb) (host_sha256 (pb_host pb)) l issuer (pb_engine pb) now w1 = (Inr jwt, w2) \<and>
    update_status_list_entry_with_refresh (pb_providers pb (iss_tenant_id issuer)) (pb_status_registry pb)
      (tn_partner_id tenant) entry jwt (wext w2) = (Inr (), x) \<and>
    (\<exists>tok y. sf_update_status_list_entry (pb_status_registry pb) tok (tn_partner_id tenant) entry jwt y = (Inr (), x)) \<and>
    sl_registry_entry_id l = Some entry \<and> iss_id issuer = sl_issuer_id l \<and> tn_id tenant = iss_tenant_id issuer \<and>
    wdb w' = status_lists_update (update_where
      (\<lambda>r. sl_id r = sl_id l \<and> sint (sl_published_version r) < sint (sl_committed_version l))
      (\<lambda>r. r\<lparr> sl_published_version := sl_committed_version l, sl_last_publish_attempt_at := Some now,
              sl_last_publish_error := None, sl_next_publish_attempt_at := None, sl_publish_attempts := 0 \<rparr>)) (wdb w)"
proof -
  obtain i w1 where i: "round_inputs pb l w = (i, w1)" by fastforce
  have w1: "wdb w1 = wdb w" using keeps_db_eq [OF round_inputs_keep_db i] .
  have "i \<noteq> Inl e" for e using assms i w1 by (auto simp: run_round_split bindE_run)
  then obtain issuer tenant entry now where inputs: "i = Inr (issuer, tenant, entry, now)" by (cases i) auto
  have sp: "sign_and_publish pb l issuer tenant entry now w1 = (r, w')"
    using assms(1) i inputs by (simp add: run_round_split bindE_run)
  let ?bs = "build_signed (pb_wrapper_lib pb) (host_sha256 (pb_host pb)) l issuer (pb_engine pb) now"
  obtain b w2 where b: "?bs w1 = (b, w2)" by fastforce
  have w2: "wdb w2 = wdb w" using keeps_db_eq [OF build_signed_keeps_db b] w1 by simp
  have "b \<noteq> Inl e" for e
  proof
    assume e: "b = Inl e"
    have "preserves (\<lambda>v. published_versions (wdb v) = published_versions (wdb w)) (bindE (mapErr PubPersistence
        (record_publish_failure (pb_pool pb) (sl_id l) (show_wrapper_error e) (now + pb_terminal_retry_after pb) now))
        (\<lambda>_. raise (PubBuild e)))" by (intro pres)
    moreover have "bindE (mapErr PubPersistence
        (record_publish_failure (pb_pool pb) (sl_id l) (show_wrapper_error e) (now + pb_terminal_retry_after pb) now))
        (\<lambda>_. raise (PubBuild e)) w2 = (r, w')" using sp b e by (simp add: sign_and_publish_def bindE_run reify_run)
    ultimately have "published_versions (wdb w') = published_versions (wdb w)"
      by (rule kept_value [where g = "\<lambda>w. published_versions (wdb w)"]) (simp add: w2)
    then show False using assms(2) by contradiction
  qed
  then obtain jwt where jwt: "b = Inr jwt" by (cases b) auto
  have "publish_jwt pb l issuer tenant entry now jwt w2 = (r, w')"
    using sp b jwt by (simp add: sign_and_publish_def bindE_run reify_run)
  then obtain x where x: "update_status_list_entry_with_refresh (pb_providers pb (iss_tenant_id issuer)) (pb_status_registry pb)
      (tn_partner_id tenant) entry jwt (wext w2) = (Inr (), x)" "wdb w' = record_snapshot l now (wdb w2)"
    using publish_records_only_if_accepted assms(2) w2 by metis
  have call: "\<exists>tok y. sf_update_status_list_entry (pb_status_registry pb) tok (tn_partner_id tenant) entry jwt y = (Inr (), x)"
    using retry_on_401_success [OF x(1) [unfolded update_status_list_entry_with_refresh_def]] .
  have "sl_registry_entry_id l = Some entry \<and> iss_id issuer = sl_issuer_id l \<and> tn_id tenant = iss_tenant_id issuer"
    using i inputs unfolding round_inputs_def Let_def
    by (auto simp: eff_success find_issuer_by_id_def find_tenant_by_id_def issuer_key_def dest!: run_query_success row_by_SomeD)
  then show ?thesis
    by (intro exI [of _ issuer] exI [of _ tenant] exI [of _ entry] exI [of _ now] exI [of _ w1] exI [of _ jwt] exI [of _ w2] exI [of _ x])
      (use i inputs b jwt x call w2 in \<open>simp add: record_snapshot_def\<close>)
qed

definition fx_publisher :: "nat publisher" where
  "fx_publisher = \<lparr> pb_pool = fx_pool, pb_host = fx_host, pb_engine = fx_engine, pb_status_registry = fx_status_registry,
     pb_providers = (\<lambda>_. fx_provider), pb_rng = \<lparr> next_u64 = (\<lambda>x. (of_nat x, Suc x)) \<rparr>,
     pb_wrapper_lib = \<lparr> wl_payload_json = (\<lambda>i u t bs. Inr JNull), wl_header_json = (\<lambda>a k. JNull),
        wl_json_to_vec = (\<lambda>j. Inr []), wl_b64url = (\<lambda>bs. ''b'') \<rparr>,
     pb_registry_errors = fx_registry_errors, pb_lease_duration = 30, pb_terminal_retry_after = 3600,
     pb_shutdown = (\<lambda>_. False) \<rparr>"

theorem published_only_after_registry_accepts_witness:
  "\<exists>jwt w2. build_signed (pb_wrapper_lib fx_publisher) (host_sha256 fx_host) (fx_list\<lparr> sl_committed_version := 2 \<rparr>)
       fx_issuer fx_engine 0 fx_dirty_world = (Inr jwt, w2) \<and>
     published_versions (wdb (snd (run_round fx_publisher (fx_list\<lparr> sl_committed_version := 2 \<rparr>) fx_dirty_world))) =
       [(StatusListId (fx_bare 4), 2)]"
proof -
  let ?l = "fx_list\<lparr> sl_committed_version := 2 \<rparr>"
  obtain r w' where run: "run_round fx_publisher ?l fx_dirty_world = (r, w')" by fastforce
  have "published_versions (wdb (snd (run_round fx_publisher ?l fx_dirty_world))) \<noteq> published_versions (wdb fx_dirty_world)"
    apply (simp add: run_round_def fx_publisher_def bindE_run mapErr_run fx_run find_issuer_by_id_def find_tenant_by_id_def)
    apply (simp add: fx_run fx_dirty_world_def fx_db_def fx_list_def status_list_new_def row_by_def issuer_key_def fx_issuer_def fx_tenant_def fx_host_def fx_world_def)
    apply (simp add: fx_run sign_and_publish_def build_signed_def publish_jwt_def bindE_run mapErr_run reify_run ext_def Let_def fx_engine_def)
    apply (simp add: update_status_list_entry_with_refresh_def retry_on_401_def bindE_run mapErr_run reify_run fx_provider_def fx_status_registry_def)
    apply (simp add: record_publish_success_def I64_MAX_def bindE_run mapErr_run fx_run update_stmt_def published_versions_def update_where_def)
    done
  then have changed: "published_versions (wdb w') \<noteq> published_versions (wdb fx_dirty_world)" by (simp add: run)
  obtain now where "wdb w' = status_lists_update (update_where
      (\<lambda>r. sl_id r = sl_id ?l \<and> sint (sl_published_version r) < sint (sl_committed_version ?l))
      (\<lambda>r. r\<lparr> sl_published_version := sl_committed_version ?l, sl_last_publish_attempt_at := Some now,
              sl_last_publish_error := None, sl_next_publish_attempt_at := None, sl_publish_attempts := 0 \<rparr>)) (wdb fx_dirty_world)"
    using published_only_after_registry_accepts [OF run changed] by blast
  then have "published_versions (wdb w') = [(StatusListId (fx_bare 4), 2)]"
    by (simp add: fx_dirty_world_def published_versions_def update_where_def fx_list_def status_list_new_def)
  moreover have "\<exists>jwt w2. build_signed (pb_wrapper_lib fx_publisher) (host_sha256 fx_host) ?l fx_issuer fx_engine 0 fx_dirty_world = (Inr jwt, w2)"
    by (simp add: build_signed_def bindE_run mapErr_run fx_publisher_def fx_list_def status_list_new_def fx_issuer_def fx_engine_def ext_def Let_def)
  ultimately show ?thesis using run by auto
qed

end
