(* ===== verification/WalletFixtures.thy ===== *)
theory WalletFixtures
  imports Fixtures
begin

text \<open>
  A run of the wallet endpoints on the fixtures: a JWT library that accepts
  every proof, two offers whose codes have been redeemed, and the evaluation
  of the two issuances that follow.
\<close>

text \<open>Evaluation of a computation from its head: the continuation waits.\<close>

lemma bindE_weak_cong: "m = m' \<Longrightarrow> bindE m f = bindE m' f" by simp
lemma mapErr_weak_cong: "m = m' \<Longrightarrow> mapErr f m = mapErr f m'" by simp
lemma guardE_weak_cong: "b = b' \<Longrightarrow> guardE b e = guardE b' e" by simp
lemma okOr_weak_cong: "x = x' \<Longrightarrow> okOr e x = okOr e x'" by simp
lemma bindR_weak_cong: "r = r' \<Longrightarrow> bindR r f = bindR r' f" by simp
lemma mapErrR_weak_cong: "r = r' \<Longrightarrow> mapErrR f r = mapErrR f r'" by simp
lemma result_of_option_weak_cong: "x = x' \<Longrightarrow> result_of_option e x = result_of_option e x'" by simp

lemmas head_congs = bindE_weak_cong mapErr_weak_cong guardE_weak_cong okOr_weak_cong bindR_weak_cong
  mapErrR_weak_cong result_of_option_weak_cong

definition fx_jwt :: jwt_lib where
  "fx_jwt = \<lparr> jl_b64_decode = (\<lambda>s. Some (map of_char s)), jl_b64_encode = (\<lambda>_. ''b64''),
     jl_json_from_slice = (\<lambda>bs. Some (if bs = [of_char (CHR ''h'')]
        then JObj [(''alg'', JStr ''ES256''), (''jwk'', JObj [(''kty'', JStr ''OKP''), (''crv'', JStr ''c''), (''x'', JStr ''x'')])]
        else JObj [(''aud'', JStr (''u/i/'' @ fx_bare 2)), (''iat'', JNum 0), (''nonce'', JStr (if bs = [of_char (CHR ''n'')] then ''n'' else ''m''))])),
     jl_json_to_vec = (\<lambda>_. Inr []), jl_verify_with_embedded_jwk = (\<lambda>h i s. Inr ()),
     jl_disclosure = (\<lambda>s n v. ''d''), jl_disclosure_digest = (\<lambda>s n v. ''dg'') \<rparr>"

definition fx_oidc :: "nat oidc_state" where
  "fx_oidc = \<lparr> os_pool = fx_pool, os_host = fx_host, os_engine = fx_engine, os_jwt = fx_jwt,
     os_issuer_base_url = ''u'', os_access_token_ttl = 300000000, os_c_nonce_ttl = 300000000 \<rparr>"

definition fx_token :: "string \<Rightarrow> nat \<Rightarrow> access_token" where
  "fx_token s n = \<lparr> at_token_hash = access_token_hash_of fx_bs58 (host_sha256 fx_host) (AccessTokenSecret s),
     at_tenant_id = TenantId (fx_bare 1), at_issuer_id = IssuerId (fx_bare 2),
     at_offer_id = CredentialOfferId (fx_bare n), at_expires_at = 300000000 \<rparr>"

definition fx_nonce :: "string \<Rightarrow> nat \<Rightarrow> nonce_row" where
  "fx_nonce s n = \<lparr> nr_nonce_hash = nonce_hash_of fx_bs58 (host_sha256 fx_host) (NonceSecret s),
     nr_tenant_id = TenantId (fx_bare 1), nr_issuer_id = IssuerId (fx_bare 2),
     nr_offer_id = CredentialOfferId (fx_bare n), nr_expires_at = 300000000 \<rparr>"

definition fx_second_offer :: credential_offer where
  "fx_second_offer = credential_offer_new (CredentialOfferId (fx_bare 8)) 0 (TenantId (fx_bare 1))
     (IssuerId (fx_bare 2)) (Some (CredentialTypeId (fx_bare 5))) ''vct'' (JObj []) (PreAuthCode ''code2'') 600000000"

text \<open>Two offers whose codes have been redeemed.\<close>

definition fx_redeemed :: db where
  "fx_redeemed = fx_db\<lparr> credential_offers := [fx_offer, fx_second_offer],
     oidc_access_tokens := [fx_token ''t'' 3, fx_token ''s'' 8],
     oidc_nonces := [fx_nonce ''n'' 3, fx_nonce ''m'' 8] \<rparr>"

definition fx_request :: "string \<Rightarrow> credential_request" where
  "fx_request pay = \<lparr> crq_format = ''vc+sd-jwt'', crq_vct = ''vct'', crq_proof_type = ''jwt'', crq_jwt = ''h.'' @ pay @ ''.s'' \<rparr>"

lemma fx_bare_eq: "n < 256 \<Longrightarrow> m < 256 \<Longrightarrow> fx_bare n = fx_bare m \<longleftrightarrow> n = m"
proof
  assume a: "n < 256" "m < 256" "fx_bare n = fx_bare m"
  have "bs58_decode fx_bs58 (fx_bare n) = bs58_decode fx_bs58 (fx_bare m)" using a by simp
  then have "replicate 10 (of_nat n :: byte) = replicate 10 (of_nat m)"
    using fx_bs58_ok by (simp add: fx_bare_def bs58_ok_def)
  then have "(of_nat n :: byte) = of_nat m" by simp
  then have "unat (of_nat n :: byte) = unat (of_nat m :: byte)" by simp
  then show "n = m" using a by (simp add: unat_of_nat)
qed simp

lemma fx_secret_neq:
  "secret_digest fx_bs58 (host_sha256 fx_host) ''t'' \<noteq> secret_digest fx_bs58 (host_sha256 fx_host) ''s''"
  "secret_digest fx_bs58 (host_sha256 fx_host) ''m'' \<noteq> secret_digest fx_bs58 (host_sha256 fx_host) ''n''"
  by (simp_all add: secret_digest_def fx_bs58_def fx_host_def dig_def digits_def)

lemma fx_parse_bare: "id_from_bare fx_bs58 mk (fx_bare n) = Inr (mk (fx_bare n))"
  unfolding fx_bare_def by (rule id_from_bare_encode) (simp_all add: fx_bs58_ok ID_BYTES_def)

lemma fx_proof:
  "\<exists>pc. parse_wallet_proof fx_jwt ''h.n.s'' ''u'' (IssuerId (fx_bare 2)) 1000000 = Inr pc \<and> pr_nonce pc = ''n'' \<and>
    cnf_jwk_thumbprint fx_jwt sha (pr_cnf_jwk pc) = Inr ''b64''"
  "\<exists>pc. parse_wallet_proof fx_jwt ''h.m.s'' ''u'' (IssuerId (fx_bare 2)) 4000000 = Inr pc \<and> pr_nonce pc = ''m'' \<and>
    cnf_jwk_thumbprint fx_jwt sha (pr_cnf_jwk pc) = Inr ''b64''"
  by (simp_all add: parse_wallet_proof_def fx_jwt_def trim_end_matches_def as_i64_def iat_rejected_def timestamp_i64_def
      TIMESTAMP_SECOND_def i64_abs_def PROOF_IAT_SKEW_SECONDS_def cnf_jwk_thumbprint_def cnf_member_def cong: head_congs)

lemma fx_verify: "verify_signature fx_jwt pc = Inr ()"
  by (simp add: verify_signature_def fx_jwt_def)

lemma fx_oidc_sel:
  "os_host fx_oidc = fx_host" "os_pool fx_oidc = fx_pool" "os_jwt fx_oidc = fx_jwt" "os_issuer_base_url fx_oidc = ''u''"
  "os_engine fx_oidc = fx_engine" "host_bs58 fx_host = fx_bs58" "host_clock fx_host x = (int x * 1000000, Suc x)"
  "host_entropy fx_host n x = (replicate n (of_nat x), Suc x)"
  "os_access_token_ttl fx_oidc = 300000000" "os_c_nonce_ttl fx_oidc = 300000000"
  by (simp_all add: fx_oidc_def fx_host_def)


lemmas fx_checks_eval = fx_request_def fx_oidc_sel oidc_parse_issuer_id_def fx_parse_bare bindE_run mapErr_run fx_run
  extract_bearer_hash_def find_valid_by_hash_def find_offer_by_id_def offer_at_def observed_state_def offer_is_expired_at_def
  find_credential_type_for_tenant_def find_issuer_by_id_def row_by_def issuer_key_def fx_verify consume_by_hash_def

lemmas fx_tx_eval = fx_oidc_sel bindE_run mapErr_run fx_run credential_tx_def Let_def find_offer_by_id_for_update_def
  offer_at_def try_issue_def offer_is_expired_at_def allocate_status_slot_def current_for_issuer_with_url_def row_by_def
  issuer_key_def allocate_index_def SWIYU_STATUS_LIST_CAPACITY_def I64_MAX_def
  status_list_index_decode_def status_list_index_try_from_def generate_bare_def random_bytes_def ext_def
  insert_issued_credential_def wallet_fks_def issued_credential_new_def
  set_issued_state_def update_one_def update_stmt_def rows_matching_def update_where_def delete_by_hash_def

lemmas fx_rows = fx_redeemed_def fx_token_def fx_nonce_def fx_db_def fx_offer_def fx_second_offer_def credential_offer_new_def
  fx_ctype_def credential_type_new_def fx_issuer_def fx_list_def status_list_new_def fx_tenant_def

lemma fx_build:
  "build_sd_jwt_vc fx_oidc k i off j sc now ex w = (Inr ''b64.b64.b64~'', w)" if "co_claims off = JObj []"
  unfolding build_sd_jwt_vc_def Let_def
  by (simp add: that bindE_run mapErr_run fx_oidc_sel fx_jwt_def ext_def fx_engine_def cong: head_congs)

lemma fx_first_checks:
  "\<exists>ck. credential_checks fx_oidc (fx_bare 2) (Some (HeaderText ''Bearer t'')) (fx_request ''n'') \<lparr> wdb = fx_redeemed, wext = 0 \<rparr> =
     (Inr ck, \<lparr> wdb = fx_redeemed\<lparr> oidc_nonces := [fx_nonce ''m'' 8] \<rparr>, wext = 2 \<rparr>) \<and>
     ck_token ck = fx_token ''t'' 3 \<and> ck_credential_type ck = fx_ctype \<and> ck_issuer ck = fx_issuer \<and> ck_now ck = 1000000 \<and>
     cnf_jwk_thumbprint fx_jwt (host_sha256 fx_host) (ck_cnf_jwk ck) = Inr ''b64''"
proof -
  obtain pc where pc: "parse_wallet_proof fx_jwt ''h.n.s'' ''u'' (IssuerId (fx_bare 2)) 1000000 = Inr pc" "pr_nonce pc = ''n''"
    and th: "cnf_jwk_thumbprint fx_jwt (host_sha256 fx_host) (pr_cnf_jwk pc) = Inr ''b64''"
    using fx_proof(1) by blast
  show ?thesis
   unfolding credential_checks_def Let_def
   by (simp add: fx_checks_eval fx_rows pc th fx_secret_neq fx_secret_neq [symmetric] fx_bare_eq cong: head_congs)
qed

definition fx_half_issued :: db where
  "fx_half_issued = fx_redeemed\<lparr>
     credential_offers := [fx_offer\<lparr> co_state := Issued, co_issued_at := Some 1000000, co_pre_auth_code := None \<rparr>, fx_second_offer],
     oidc_access_tokens := [fx_token ''s'' 8], oidc_nonces := [fx_nonce ''m'' 8],
     status_lists := [fx_list\<lparr> sl_allocated_count := 1, sl_committed_version := 1 \<rparr>],
     issued_credentials := [issued_credential_new (IssuedCredentialId (fx_bare 2)) (TenantId (fx_bare 1)) (IssuerId (fx_bare 2))
        (CredentialOfferId (fx_bare 3)) ''vct'' ''b64'' (StatusListId (fx_bare 4)) (StatusListIndex 0)
        (host_sha256 fx_host ''b64.b64.b64~'') 1000000 86401000000] \<rparr>"

lemma fx_first:
  "credential fx_oidc (fx_bare 2) (Some (HeaderText ''Bearer t'')) (fx_request ''n'') \<lparr> wdb = fx_redeemed, wext = 0 \<rparr> =
    (Inr ''b64.b64.b64~'', \<lparr> wdb = fx_half_issued, wext = 3 \<rparr>)"
proof -
  obtain ck where ch: "credential_checks fx_oidc (fx_bare 2) (Some (HeaderText ''Bearer t'')) (fx_request ''n'') \<lparr> wdb = fx_redeemed, wext = 0 \<rparr> =
     (Inr ck, \<lparr> wdb = fx_redeemed\<lparr> oidc_nonces := [fx_nonce ''m'' 8] \<rparr>, wext = 2 \<rparr>)"
    and ck: "ck_token ck = fx_token ''t'' 3" "ck_credential_type ck = fx_ctype" "ck_issuer ck = fx_issuer" "ck_now ck = 1000000"
     "cnf_jwk_thumbprint fx_jwt (host_sha256 fx_host) (ck_cnf_jwk ck) = Inr ''b64''"
    using fx_first_checks by blast
  show ?thesis
    unfolding credential_def bindE_run ch prod.case sum.case
    by (simp add: ck fx_tx_eval fx_rows fx_half_issued_def fx_build fx_secret_neq fx_secret_neq [symmetric] fx_bare_eq cong: head_congs)
       (simp add: fx_bare_def ID_BYTES_def)
qed

lemma fx_second_checks:
  "\<exists>ck. credential_checks fx_oidc (fx_bare 2) (Some (HeaderText ''Bearer s'')) (fx_request ''m'') \<lparr> wdb = fx_half_issued, wext = 3 \<rparr> =
     (Inr ck, \<lparr> wdb = fx_half_issued\<lparr> oidc_nonces := [] \<rparr>, wext = 5 \<rparr>) \<and>
     ck_token ck = fx_token ''s'' 8 \<and> ck_credential_type ck = fx_ctype \<and> ck_issuer ck = fx_issuer \<and> ck_now ck = 4000000 \<and>
     cnf_jwk_thumbprint fx_jwt (host_sha256 fx_host) (ck_cnf_jwk ck) = Inr ''b64''"
proof -
  obtain pc where pc: "parse_wallet_proof fx_jwt ''h.m.s'' ''u'' (IssuerId (fx_bare 2)) 4000000 = Inr pc" "pr_nonce pc = ''m''"
    and th: "cnf_jwk_thumbprint fx_jwt (host_sha256 fx_host) (pr_cnf_jwk pc) = Inr ''b64''"
    using fx_proof(2) by blast
  show ?thesis
   unfolding credential_checks_def Let_def
   by (simp add: fx_checks_eval fx_rows fx_half_issued_def pc th fx_secret_neq fx_secret_neq [symmetric] fx_bare_eq cong: head_congs)
qed

lemma fx_second:
  "\<exists>w'. credential fx_oidc (fx_bare 2) (Some (HeaderText ''Bearer s'')) (fx_request ''m'') \<lparr> wdb = fx_half_issued, wext = 3 \<rparr> =
    (Inr ''b64.b64.b64~'', w')"
proof -
  obtain ck where ch: "credential_checks fx_oidc (fx_bare 2) (Some (HeaderText ''Bearer s'')) (fx_request ''m'') \<lparr> wdb = fx_half_issued, wext = 3 \<rparr> =
     (Inr ck, \<lparr> wdb = fx_half_issued\<lparr> oidc_nonces := [] \<rparr>, wext = 5 \<rparr>)"
    and ck: "ck_token ck = fx_token ''s'' 8" "ck_credential_type ck = fx_ctype" "ck_issuer ck = fx_issuer" "ck_now ck = 4000000"
     "cnf_jwk_thumbprint fx_jwt (host_sha256 fx_host) (ck_cnf_jwk ck) = Inr ''b64''"
    using fx_second_checks by blast
  have n: "bs58_encode fx_bs58 (replicate ID_BYTES 5) = fx_bare 5" by (simp add: fx_bare_def ID_BYTES_def)
  show ?thesis
    unfolding credential_def bindE_run ch prod.case sum.case
    by (simp add: ck fx_tx_eval fx_rows fx_half_issued_def fx_build fx_secret_neq fx_secret_neq [symmetric] fx_bare_eq n ic_slot_def cong: head_congs)
qed

lemma fx_token_run:
  "\<exists>resp w'. token fx_oidc (fx_bare 2) \<lparr> tr_grant_type = PRE_AUTHORIZED_GRANT_TYPE, tr_pre_authorized_code = ''code'' \<rparr> fx_world = (Inr resp, w')"
  unfolding token_def Let_def fx_world_def
  by (simp add: fx_oidc_sel bindE_run mapErr_run fx_run oidc_parse_issuer_id_def fx_parse_bare find_issuer_by_id_def row_by_def issuer_key_def
      find_by_pre_auth_code_def observed_state_def offer_is_expired_at_def generate_secret_def random_bytes_def ext_def
      insert_access_token_def insert_nonce_def wallet_fks_def fx_rows cong: head_congs)
end
