(* ===== verification/IssuanceProps.thy ===== *)
theory IssuanceProps
  imports StatusProps WalletFixtures
begin

text \<open>
  Properties of the wallet endpoints: what a successful issuance does to the
  tables, that a failed one leaves nothing half done, that an offer yields one
  credential, the redemption of a code, the single use of a nonce and the
  window of the proof's time stamp.
\<close>

section \<open>Issuance\<close>

definition with_nonces :: "db \<Rightarrow> nonce_row list \<Rightarrow> db" where
  "with_nonces d ns = d\<lparr> oidc_nonces := ns \<rparr>"

lemma consume_success:
  assumes "consume_by_hash p nh now w = (Inr r, w')"
  shows "r = map_option nr_offer_id (find (\<lambda>n. nr_nonce_hash n = nh \<and> nr_expires_at n > now) (oidc_nonces (wdb w))) \<and>
    wdb w' = with_nonces (wdb w) (filter (\<lambda>n. \<not> (nr_nonce_hash n = nh \<and> nr_expires_at n > now)) (oidc_nonces (wdb w)))"
  using assms by (auto simp: consume_by_hash_def mapErr_eq_Inr with_nonces_def dest!: run_stmt_success)

lemma in_tx_error:
  assumes "in_tx p f g body w0 = (Inl e, w')"
  shows "wdb w' = wdb w0 \<or> (\<exists>w a w1 m. wdb w = wdb w0 \<and> body w = (Inr (Commit a), w1) \<and> wdb w' = wdb w1 \<and>
    e = g (SqlTransport m))"
proof -
  obtain r0 w where acq: "acquire p w0 = (r0, w)" by fastforce
  have "wdb w = wdb w0" using keeps_db_eq [OF acquire_keeps_db acq] .
  then show ?thesis
    using assms acq by (auto simp: in_tx_def split: sum.splits tx_end.splits prod.splits sql_fault.splits) blast
qed

text \<open>The two readings of the clock and the rows a request finds between them, as its run has them.\<close>

definition issuance_reads ::
  "'x oidc_state \<Rightarrow> access_token_hash \<Rightarrow> 'x world \<Rightarrow> access_token \<Rightarrow> datetime \<Rightarrow> credential_offer \<Rightarrow> datetime \<Rightarrow> bool" where
  "issuance_reads st th w tok now0 off now \<longleftrightarrow> (\<exists>w1 w2 w3. let p = os_pool st; clock = host_clock (os_host st) in
     acquire p w = (Inr (), w1) \<and> now0 = fst (clock (wext w1)) \<and>
     find_valid_by_hash p th now0 (w1\<lparr> wext := snd (clock (wext w1)) \<rparr>) = (Inr (Some tok), w2) \<and>
     find_offer_by_id p (at_tenant_id tok) (at_issuer_id tok) (at_offer_id tok) w2 = (Inr off, w3) \<and>
     now = fst (clock (wext w3)))"

text \<open>
  What a request has shown before its nonce is looked at: a live bearer token of the issuer in the
  path, its pending offer and a proof for that issuer with a good signature.
\<close>

definition accepted_request ::
  "'x oidc_state \<Rightarrow> string \<Rightarrow> header_value option \<Rightarrow> credential_request \<Rightarrow> 'x world \<Rightarrow>
   access_token \<Rightarrow> credential_offer \<Rightarrow> datetime \<Rightarrow> proof_claims \<Rightarrow> bool" where
  "accepted_request st i a r w tok off now pc \<longleftrightarrow> (\<exists>th now0.
     crq_format r = ''vc+sd-jwt'' \<and> oidc_parse_issuer_id st i = Inr (at_issuer_id tok) \<and>
     extract_bearer_hash st a = Inr th \<and> issuance_reads st th w tok now0 off now \<and>
     tok \<in> set (oidc_access_tokens (wdb w)) \<and> at_token_hash tok = th \<and> now0 < at_expires_at tok \<and>
     find (offer_at (at_tenant_id tok) (at_issuer_id tok) (at_offer_id tok)) (credential_offers (wdb w)) = Some off \<and>
     observed_state now off = OfferPending \<and> crq_vct r = co_vct off \<and>
     parse_wallet_proof (os_jwt st) (crq_jwt r) (os_issuer_base_url st) (at_issuer_id tok) now = Inr pc \<and>
     verify_signature (os_jwt st) pc = Inr ())"

text \<open>The nonce of a proof: the unexpired row under the hash of the proof's own nonce.\<close>

definition proof_nonce :: "'x oidc_state \<Rightarrow> proof_claims \<Rightarrow> datetime \<Rightarrow> nonce_row \<Rightarrow> bool" where
  "proof_nonce st pc now n \<longleftrightarrow> nr_nonce_hash n = nonce_hash_of (host_bs58 (os_host st)) (host_sha256 (os_host st)) (NonceSecret (pr_nonce pc)) \<and>
     nr_expires_at n > now"

definition without_nonce :: "'x oidc_state \<Rightarrow> proof_claims \<Rightarrow> datetime \<Rightarrow> db \<Rightarrow> db" where
  "without_nonce st pc now d = d\<lparr> oidc_nonces := filter (\<lambda>n. \<not> proof_nonce st pc now n) (oidc_nonces d) \<rparr>"

text \<open>The checks up to the nonce, as a function of their own.\<close>

definition before_nonce ::
  "'x oidc_state \<Rightarrow> string \<Rightarrow> header_value option \<Rightarrow> credential_request \<Rightarrow>
   ('x world, oauth_error, access_token \<times> credential_offer \<times> credential_type \<times> issuer \<times> key_pair_id \<times> proof_claims \<times> datetime) eff" where
  "before_nonce st issuer_id_str authorization payload =
     (let p = os_pool st; h = os_host st; jl = os_jwt st in
     bindE (guardE (crq_format payload = ''vc+sd-jwt'') (UnsupportedCredentialFormat (crq_format payload))) (\<lambda>_.
     bindE (guardE (crq_proof_type payload = ''jwt'') (InvalidProof (''proof_type ''
         @ debug_str (crq_proof_type payload) @ '' is not supported; only '' @ debug_str ''jwt''))) (\<lambda>_.
     bindE (liftR (oidc_parse_issuer_id st issuer_id_str)) (\<lambda>issuer_id.
     bindE (liftR (extract_bearer_hash st authorization)) (\<lambda>token_hash.
     bindE (mapErr (oauth_sql st) (acquire p)) (\<lambda>_.
     bindE (utc_now h) (\<lambda>now0.
     bindE (oauth_db st (find_valid_by_hash p token_hash now0)) (\<lambda>found.
     bindE (okOr (InvalidToken ''no valid access token matches the presented bearer'') found) (\<lambda>tok.
     bindE (guardE (at_issuer_id tok = issuer_id)
              (InvalidToken ''access token does not authorise this issuer'')) (\<lambda>_.
     bindE (oauth_db st (find_offer_by_id p (at_tenant_id tok) (at_issuer_id tok) (at_offer_id tok))) (\<lambda>offer.
     bindE (utc_now h) (\<lambda>now.
     bindE (guardE (observed_state now offer = OfferPending)
              (InvalidToken ''the offer is no longer redeemable'')) (\<lambda>_.
     bindE (guardE (crq_vct payload = co_vct offer) (InvalidCredentialRequest (''vct ''
         @ debug_str (crq_vct payload) @ '' does not match the offer''))) (\<lambda>_.
     bindE (okOr (OAuthInternal ''offer lacks credential_type_id; legacy rows cannot be issued'')
              (co_credential_type_id offer)) (\<lambda>ctype_id.
     bindE (oauth_db st (find_credential_type_for_tenant p (at_tenant_id tok) ctype_id)) (\<lambda>found_type.
     bindE (okOr (OAuthInternal ''credential type referenced by offer no longer exists'') found_type) (\<lambda>ctype.
     bindE (oauth_db st (find_issuer_by_id p issuer_id)) (\<lambda>found_issuer.
     bindE (okOr (OAuthInternal ''issuer disappeared after access-token validation'') found_issuer) (\<lambda>issuer.
     bindE (okOr (InvalidRequest ''issuer has no Assertion key configured; create the issuer through the issuer-management API first'')
              (iss_assertion_key_id issuer)) (\<lambda>key.
     bindE (liftR (parse_wallet_proof jl (crq_jwt payload) (os_issuer_base_url st) issuer_id now)) (\<lambda>pc.
     bindE (liftR (verify_signature jl pc)) (\<lambda>_.
     ret (tok, offer, ctype, issuer, key, pc, now)))))))))))))))))))))))"

definition spend_nonce ::
  "'x oidc_state \<Rightarrow> access_token \<times> credential_offer \<times> credential_type \<times> issuer \<times> key_pair_id \<times> proof_claims \<times> datetime \<Rightarrow>
   ('x world, oauth_error, checked_request) eff" where
  "spend_nonce st = (\<lambda>(tok, offer, ctype, issuer, key, pc, now). let h = os_host st in
     bindE (oauth_db st (consume_by_hash (os_pool st)
              (nonce_hash_of (host_bs58 h) (host_sha256 h) (NonceSecret (pr_nonce pc))) now)) (\<lambda>consumed.
     bindE (okOr (InvalidProof ''nonce is unknown, expired, or already consumed'') consumed) (\<lambda>nonce_offer_id.
     bindE (guardE (nonce_offer_id = co_id offer)
              (InvalidProof ''nonce was minted for a different offer'')) (\<lambda>_.
     ret \<lparr> ck_token = tok, ck_offer = offer, ck_credential_type = ctype, ck_issuer = issuer,
           ck_assertion_key_id = key, ck_cnf_jwk = pr_cnf_jwk pc, ck_now = now \<rparr>))))"

lemma credential_checks_split: "credential_checks st i a r = bindE (before_nonce st i a r) (spend_nonce st)"
  by (simp add: credential_checks_def before_nonce_def spend_nonce_def Let_def bindE_assoc bindE_ret_left)

lemma before_nonce_keeps_db: "preserves (\<lambda>w. P (wdb w)) (before_nonce st i a r)"
  unfolding before_nonce_def Let_def by (intro pres)

lemma before_nonce_accepts:
  assumes "before_nonce st i a r w = (Inr (tok, off, ct, issuer, key, pc, now), w')"
  shows "accepted_request st i a r w tok off now pc \<and> iss_id issuer = at_issuer_id tok"
proof -
  let ?p = "os_pool st"
  obtain th w1 now0 w2 w3 w4 w5 w6 w7 u u2 where
    f: "crq_format r = ''vc+sd-jwt''" and
    i: "oidc_parse_issuer_id st i = Inr (at_issuer_id tok)" and
    b: "extract_bearer_hash st a = Inr th" and
    t0: "acquire ?p w = (Inr u, w1)" and
    t1: "(utc_now (os_host st) :: ('a world, oauth_error, datetime) eff) w1 = (Inr now0, w2)" and
    t2: "find_valid_by_hash ?p th now0 w2 = (Inr (Some tok), w3)" and
    o1: "find_offer_by_id ?p (at_tenant_id tok) (at_issuer_id tok) (at_offer_id tok) w3 = (Inr off, w4)" and
    n: "(utc_now (os_host st) :: ('a world, oauth_error, datetime) eff) w4 = (Inr now, w5)" and
    ob: "observed_state now off = OfferPending" and
    v: "crq_vct r = co_vct off" and
    fi: "find_issuer_by_id ?p (at_issuer_id tok) w6 = (Inr (Some issuer), w7)" and
    pc: "parse_wallet_proof (os_jwt st) (crq_jwt r) (os_issuer_base_url st) (at_issuer_id tok) now = Inr pc" and
    vs: "verify_signature (os_jwt st) pc = Inr u2"
    using assms unfolding before_nonce_def Let_def
    by (simp only: eff_success ret_run prod.inject sum.inject)
       (elim exE conjE, hypsubst, rule that, assumption+)
  have eq: "wdb w2 = wdb w" "wdb w3 = wdb w"
    using keeps_db_eq [OF acquire_keeps_db t0] keeps_db_eq [OF utc_now_keeps_db t1]
      keeps_db_eq [OF offer_lookups_keep_db(4) t2] by simp_all
  have tok: "tok \<in> set (oidc_access_tokens (wdb w))" "at_token_hash tok = th" "now0 < at_expires_at tok"
    using t2 eq by (auto simp: find_valid_by_hash_def mapErr_eq_Inr dest!: run_query_success find_SomeD)
  have off: "find (offer_at (at_tenant_id tok) (at_issuer_id tok) (at_offer_id tok)) (credential_offers (wdb w)) = Some off"
    using o1 eq by (auto simp: find_offer_by_id_def eff_success dest!: run_query_success)
  have "issuance_reads st th w tok now0 off now"
    unfolding issuance_reads_def Let_def
    using t0 t1 t2 o1 n by (intro exI [of _ w1] exI [of _ w3] exI [of _ w4]) (auto simp: utc_now_run)
  then have "accepted_request st i a r w tok off now pc"
    unfolding accepted_request_def using f i b tok off ob v pc vs by (intro exI [of _ th] exI [of _ now0]) simp
  moreover have "iss_id issuer = at_issuer_id tok"
    using fi by (auto simp: find_issuer_by_id_def issuer_key_def mapErr_eq_Inr dest!: run_query_success row_by_SomeD)
  ultimately show ?thesis by blast
qed

lemma spend_nonce_effect:
  assumes "spend_nonce st (tok, off, ct, issuer, key, pc, now) w = (x, w')"
  shows "wdb w' = wdb w \<or> wdb w' = without_nonce st pc now (wdb w)"
proof -
  let ?P = "\<lambda>v :: 'a world. wdb v = wdb w \<or> wdb v = without_nonce st pc now (wdb w)"
  have "preserves ?P (consume_by_hash (os_pool st) (nonce_hash_of (host_bs58 (os_host st)) (host_sha256 (os_host st)) (NonceSecret (pr_nonce pc))) now)"
    unfolding consume_by_hash_def
    by (intro pres run_stmt_preserves) (auto simp: without_nonce_def proof_nonce_def)
  then have "preserves ?P (spend_nonce st (tok, off, ct, issuer, key, pc, now))"
    unfolding spend_nonce_def prod.case Let_def by (intro pres)
  from preserved_run [OF this assms] show ?thesis by simp
qed

lemma spend_nonce_success:
  assumes "spend_nonce st (tok, off, ct, issuer, key, pc, now) w = (Inr ck, w')"
  shows "ck_token ck = tok \<and> ck_offer ck = off \<and> ck_issuer ck = issuer \<and> ck_now ck = now \<and>
    map_option nr_offer_id (find (proof_nonce st pc now) (oidc_nonces (wdb w))) = Some (co_id off) \<and>
    wdb w' = without_nonce st pc now (wdb w)"
proof -
  let ?h = "nonce_hash_of (host_bs58 (os_host st)) (host_sha256 (os_host st)) (NonceSecret (pr_nonce pc))"
  have cs: "consume_by_hash (os_pool st) ?h now w = (Inr (Some (co_id off)), w')"
    and ck: "ck = \<lparr> ck_token = tok, ck_offer = off, ck_credential_type = ct, ck_issuer = issuer, ck_assertion_key_id = key,
      ck_cnf_jwk = pr_cnf_jwk pc, ck_now = now \<rparr>"
    using assms by (auto simp: spend_nonce_def Let_def eff_success)
  have "proof_nonce st pc now = (\<lambda>n. nr_nonce_hash n = ?h \<and> nr_expires_at n > now)"
    by (rule ext) (simp add: proof_nonce_def)
  then show ?thesis using consume_success [OF cs] ck by (simp add: without_nonce_def with_nonces_def)
qed


text \<open>The credential a request is given: for the offer of its token, active, in a slot of the
  issuer's current list that nobody had.\<close>

definition credential_for :: "'x oidc_state \<Rightarrow> db \<Rightarrow> access_token \<Rightarrow> credential_offer \<Rightarrow> datetime \<Rightarrow> string \<Rightarrow> issued_credential \<Rightarrow> bool" where
  "credential_for st d tok off now cred c \<longleftrightarrow> ic_tenant_id c = at_tenant_id tok \<and> ic_issuer_id c = at_issuer_id tok \<and>
     ic_credential_offer_id c = co_id off \<and>
     (\<exists>row. row_by issuer_key (at_issuer_id tok) (issuers d) = Some row \<and> ir_current_status_list_id row = Some (ic_status_list_id c)) \<and>
     ic_vct c = co_vct off \<and> ic_state c = CredActive \<and> ic_issued_at c = now \<and>
     ic_integrity_hash c = host_sha256 (os_host st) cred \<and> (\<exists>l. slot_of_list d c l) \<and> fresh_credential d c"

lemma without_nonce_sel [simp]:
  "credential_offers (without_nonce st pc now d) = credential_offers d" "status_lists (without_nonce st pc now d) = status_lists d"
  "issuers (without_nonce st pc now d) = issuers d" "issued_credentials (without_nonce st pc now d) = issued_credentials d"
  by (simp_all add: without_nonce_def)

lemma credential_checks_success:
  assumes "credential_checks st i a r w = (Inr ck, w')"
  shows "\<exists>off pc. accepted_request st i a r w (ck_token ck) off (ck_now ck) pc \<and> iss_id (ck_issuer ck) = at_issuer_id (ck_token ck) \<and>
     map_option nr_offer_id (find (proof_nonce st pc (ck_now ck)) (oidc_nonces (wdb w))) = Some (co_id off) \<and>
     wdb w' = without_nonce st pc (ck_now ck) (wdb w)"
proof -
  obtain tok off ct issuer key pc now w1 where
    b: "before_nonce st i a r w = (Inr (tok, off, ct, issuer, key, pc, now), w1)"
    and s: "spend_nonce st (tok, off, ct, issuer, key, pc, now) w1 = (Inr ck, w')"
    using assms by (auto simp: credential_checks_split eff_success)
  have "wdb w1 = wdb w" using keeps_db_eq [OF before_nonce_keeps_db b] .
  then show ?thesis using before_nonce_accepts [OF b] spend_nonce_success [OF s] by auto
qed

text \<open>The transaction of a checked request, run to its commit.\<close>

lemma credential_tx_issues:
  assumes ch: "credential_checks st i a r w = (Inr ck, w1)" and v: "wdb v = wdb w1"
    and run: "credential_tx st ck v = (Inr y, v')"
  shows "\<exists>cred tok off now pc c. y = Commit cred \<and> accepted_request st i a r w tok off now pc \<and>
     map_option nr_offer_id (find (proof_nonce st pc now) (oidc_nonces (wdb w))) = Some (co_id off) \<and>
     co_state off = OfferPending \<and> now < co_expires_at off \<and> credential_for st (wdb w) tok off now cred c \<and>
     wdb v' = issue_db tok c now (without_nonce st pc now (wdb w))"
proof -
  obtain off pc where acc: "accepted_request st i a r w (ck_token ck) off (ck_now ck) pc"
    and iss: "iss_id (ck_issuer ck) = at_issuer_id (ck_token ck)"
    and n: "map_option nr_offer_id (find (proof_nonce st pc (ck_now ck)) (oidc_nonces (wdb w))) = Some (co_id off)"
    and w1: "wdb w1 = without_nonce st pc (ck_now ck) (wdb w)"
    using credential_checks_success [OF ch] by blast
  obtain cred c l off2 row where
    e: "y = Commit cred" and off2: "find (offer_at (at_tenant_id (ck_token ck)) (at_issuer_id (ck_token ck)) (at_offer_id (ck_token ck)))
       (credential_offers (wdb v)) = Some off2" "co_state off2 = OfferPending" "ck_now ck < co_expires_at off2"
     "ic_credential_offer_id c = co_id off2" "ic_vct c = co_vct off2" and c: "ic_state c = CredActive"
     "ic_integrity_hash c = host_sha256 (os_host st) cred" "slot_of_list (wdb v) c l" "fresh_credential (wdb v) c"
     "ic_tenant_id c = at_tenant_id (ck_token ck)" "ic_issued_at c = ck_now ck"
     "wdb v' = issue_db (ck_token ck) c (ck_now ck) (wdb v)"
    and cur: "ic_issuer_id c = iss_id (ck_issuer ck)" "row_by issuer_key (iss_id (ck_issuer ck)) (issuers (wdb v)) = Some row"
     "ir_current_status_list_id row = Some (ic_status_list_id c)"
    using credential_tx_effect [OF run] by blast
  have o2: "off2 = off" using acc off2(1) v w1 by (auto simp: accepted_request_def)
  have "slot_of_list (wdb w) c l" "fresh_credential (wdb w) c"
    using c(3,4) v w1 by (simp_all add: slot_of_list_def fresh_credential_def)
  then have "credential_for st (wdb w) (ck_token ck) off (ck_now ck) cred c"
    using off2 c o2 cur iss v w1 unfolding credential_for_def by auto
  then show ?thesis using e acc n off2(2,3) o2 c(7) v w1
    by (intro exI [of _ cred] exI [of _ "ck_token ck"] exI [of _ off] exI [of _ "ck_now ck"] exI [of _ pc] exI [of _ c]) simp
qed

lemma credential_effect:
  assumes "credential st i a r w = (Inr cred, w')"
  shows "\<exists>tok off now pc c. accepted_request st i a r w tok off now pc \<and>
     map_option nr_offer_id (find (proof_nonce st pc now) (oidc_nonces (wdb w))) = Some (co_id off) \<and>
     co_state off = OfferPending \<and> now < co_expires_at off \<and> credential_for st (wdb w) tok off now cred c \<and>
     wdb w' = issue_db tok c now (without_nonce st pc now (wdb w))"
proof -
  obtain ck w1 where ch: "credential_checks st i a r w = (Inr ck, w1)"
    and tx: "in_tx (os_pool st) (oauth_sql st) (oauth_sql st) (credential_tx st ck) w1 = (Inr cred, w')"
    using assms by (auto simp: credential_def eff_success)
  obtain v y v' where v: "wdb v = wdb w1" and run: "credential_tx st ck v = (Inr y, v')"
    and y: "(y = Commit cred \<and> wdb w' = wdb v') \<or> (y = Rollback cred \<and> wdb w' = wdb w1)"
    using in_tx_success [OF tx] by blast
  obtain cred2 where e: "y = Commit cred2" using credential_tx_issues [OF ch v run] by blast
  then have "y = Commit cred" "wdb w' = wdb v'" using y by auto
  then show ?thesis using credential_tx_issues [OF ch v run] by simp
qed

text \<open>C16. A credential is handed out only for a live bearer token of the issuer in the path - unexpired on the
  host's clock as this request read it - whose offer is pending and not past its expiry, for the offer's own
  type, with a proof whose signature holds and on the unexpired nonce of that offer which the proof itself
  carries; and then the tables change in one step:
  the next slot of the issuer's current status list is taken, the credential is recorded active under
  the hash of what is returned, the offer is closed with its code erased, the token and the nonce are gone.\<close>

theorem credential_issues_in_one_step:
  assumes "credential st i a r w = (Inr cred, w')"
  shows "\<exists>tok off now pc c. accepted_request st i a r w tok off now pc \<and>
     map_option nr_offer_id (find (proof_nonce st pc now) (oidc_nonces (wdb w))) = Some (co_id off) \<and>
     co_state off = OfferPending \<and> now < co_expires_at off \<and> credential_for st (wdb w) tok off now cred c \<and>
     wdb w' = issue_db tok c now (without_nonce st pc now (wdb w))"
  using assms by (rule credential_effect)

theorem credential_issues_in_one_step_witness:
  "\<exists>cred w'. credential fx_oidc (fx_bare 2) (Some (HeaderText ''Bearer t'')) (fx_request ''n'') \<lparr> wdb = fx_redeemed, wext = 0 \<rparr> =
      (Inr cred, w') \<and>
    (\<exists>tok off now pc c. tok \<in> set (oidc_access_tokens fx_redeemed) \<and> credential_for fx_oidc fx_redeemed tok off now cred c \<and>
       wdb w' = issue_db tok c now (without_nonce fx_oidc pc now fx_redeemed))"
proof -
  obtain tok off now pc c where "accepted_request fx_oidc (fx_bare 2) (Some (HeaderText ''Bearer t'')) (fx_request ''n'')
      \<lparr> wdb = fx_redeemed, wext = 0 \<rparr> tok off now pc"
    "credential_for fx_oidc fx_redeemed tok off now ''b64.b64.b64~'' c"
    "fx_half_issued = issue_db tok c now (without_nonce fx_oidc pc now fx_redeemed)"
    using credential_issues_in_one_step [OF fx_first] by auto
  then show ?thesis using fx_first by (fastforce simp: accepted_request_def)
qed

text \<open>C17. A refused issuance leaves no trace but its own spent nonce.  Either the tables are as they were; or the
  request had got as far as a live token, a pending offer and a good proof, and exactly the unexpired nonce that
  this proof carries is gone; or the connection was lost while the transaction committed: then the answer is an
  internal error and the tables are as after the complete issuance of this request, never in between.\<close>

theorem credential_error_leaves_no_trace:
  assumes "credential st i a r w = (Inl e, w')"
  shows "wdb w' = wdb w \<or>
    (\<exists>tok off now pc. accepted_request st i a r w tok off now pc \<and> wdb w' = without_nonce st pc now (wdb w)) \<or>
    (\<exists>m tok off now pc cred c. e = OAuthInternal m \<and> accepted_request st i a r w tok off now pc \<and>
       map_option nr_offer_id (find (proof_nonce st pc now) (oidc_nonces (wdb w))) = Some (co_id off) \<and>
       co_state off = OfferPending \<and> now < co_expires_at off \<and> credential_for st (wdb w) tok off now cred c \<and>
       wdb w' = issue_db tok c now (without_nonce st pc now (wdb w)))"
proof -
  obtain x w1 where ch: "credential_checks st i a r w = (x, w1)" by fastforce
  have w1: "wdb w1 = wdb w \<or> (\<exists>tok off now pc. accepted_request st i a r w tok off now pc \<and> wdb w1 = without_nonce st pc now (wdb w))"
  proof -
    obtain b w0 where b: "before_nonce st i a r w = (b, w0)" by fastforce
    have w0: "wdb w0 = wdb w" using keeps_db_eq [OF before_nonce_keeps_db b] .
    show ?thesis
    proof (cases b)
      case (Inl e')
      then show ?thesis using ch b w0 by (simp add: credential_checks_split bindE_run)
    next
      case (Inr y)
      obtain tok off ct issuer key pc now where y: "y = (tok, off, ct, issuer, key, pc, now)" by (cases y) auto
      have "spend_nonce st (tok, off, ct, issuer, key, pc, now) w0 = (x, w1)"
        using ch b Inr y by (simp add: credential_checks_split bindE_run)
      then show ?thesis using spend_nonce_effect before_nonce_accepts b Inr y w0 by metis
    qed
  qed
  show ?thesis
  proof (cases x)
    case (Inl e')
    then have "w' = w1" using assms ch by (simp add: credential_def bindE_run)
    then show ?thesis using w1 by blast
  next
    case (Inr ck)
    then have tx: "in_tx (os_pool st) (oauth_sql st) (oauth_sql st) (credential_tx st ck) w1 = (Inl e, w')"
      using assms ch by (simp add: credential_def bindE_run)
    show ?thesis using in_tx_error [OF tx]
    proof (elim disjE exE conjE)
      assume "wdb w' = wdb w1"
      then show ?thesis using w1 by auto
    next
      fix v b v' m
      assume v: "wdb v = wdb w1" "credential_tx st ck v = (Inr (Commit b), v')" "wdb w' = wdb v'"
        and e: "e = oauth_sql st (SqlTransport m)"
      have "e = OAuthInternal (sql_show (os_pool st) (SqlTransport m))" using e by simp
      then show ?thesis using credential_tx_issues [OF ch [unfolded Inr] v(1,2)] v(3) by metis
    qed
  qed
qed

theorem credential_error_leaves_no_trace_witness:
  "\<exists>e w'. credential fx_oidc (fx_bare 2) None (fx_request ''n'') \<lparr> wdb = fx_redeemed, wext = 0 \<rparr> = (Inl e, w') \<and> wdb w' = fx_redeemed"
proof -
  let ?w = "\<lparr> wdb = fx_redeemed, wext = 0 \<rparr> :: nat world"
  obtain e w' where run: "credential fx_oidc (fx_bare 2) None (fx_request ''n'') ?w = (Inl e, w')"
    unfolding credential_def credential_checks_def Let_def
    by (simp add: fx_checks_eval cong: head_congs)
  have "\<not> accepted_request fx_oidc (fx_bare 2) None (fx_request ''n'') ?w tok off now pc" for tok off now pc
    by (simp add: accepted_request_def extract_bearer_hash_def)
  then show ?thesis using credential_error_leaves_no_trace [OF run] run by auto
qed

lemma issue_db_grows: "issued_credentials (issue_db tok c now (without_nonce st pc now' d)) = issued_credentials d @ [c]"
  by (simp add: issue_db_def without_nonce_def take_slot_def close_offer_def Let_def)

text \<open>C18. Two successful issuances are for two different offers and sit in two different slots: an offer
  yields at most one credential.\<close>

theorem one_credential_per_offer:
  assumes inv: "data_inv (wdb w)"
    and one: "credential st i a r w = (Inr cred1, w1)" and two: "credential st' i' a' r' w1 = (Inr cred2, w2)"
  shows "\<exists>c1 c2. issued_credentials (wdb w2) = issued_credentials (wdb w) @ [c1, c2] \<and>
    ic_credential_offer_id c1 \<noteq> ic_credential_offer_id c2 \<and> ic_slot c1 \<noteq> ic_slot c2 \<and> ic_id c1 \<noteq> ic_id c2"
proof -
  have grow: "\<exists>c. issued_credentials (wdb v') = issued_credentials (wdb v) @ [c]"
    if "credential s j b q v = (Inr cr, v')" for s j b q v cr and v' :: "'a world"
    using credential_effect [OF that] by (auto simp: issue_db_grows)
  obtain c1 where c1: "issued_credentials (wdb w1) = issued_credentials (wdb w) @ [c1]" using grow [OF one] by blast
  obtain c2 where c2: "issued_credentials (wdb w2) = issued_credentials (wdb w1) @ [c2]" using grow [OF two] by blast
  have "data_inv (wdb w2)"
    using preserves_outcome [OF credential_keeps_data preserves_outcome [OF credential_keeps_data inv one] two] .
  then show ?thesis using c1 c2 by (auto simp: data_inv_def creds_inv_def)
qed

lemma fx_redeemed_inv: "data_inv fx_redeemed"
  using fx_data_inv credential_offer_new_wf
  by (auto simp: data_inv_defs lists_inv_def fx_redeemed_def fx_db_def fx_offer_def fx_second_offer_def fx_token_def fx_bare_eq
      fx_secret_neq credential_offer_new_def offer_wf_def)

theorem one_credential_per_offer_witness:
  "\<exists>cred1 w1 cred2 w2.
     credential fx_oidc (fx_bare 2) (Some (HeaderText ''Bearer t'')) (fx_request ''n'') \<lparr> wdb = fx_redeemed, wext = 0 \<rparr> = (Inr cred1, w1) \<and>
     credential fx_oidc (fx_bare 2) (Some (HeaderText ''Bearer s'')) (fx_request ''m'') w1 = (Inr cred2, w2) \<and>
     (\<exists>c1 c2. issued_credentials (wdb w2) = issued_credentials fx_redeemed @ [c1, c2] \<and>
        ic_credential_offer_id c1 \<noteq> ic_credential_offer_id c2)"
proof -
  obtain w2 where two: "credential fx_oidc (fx_bare 2) (Some (HeaderText ''Bearer s'')) (fx_request ''m'')
      \<lparr> wdb = fx_half_issued, wext = 3 \<rparr> = (Inr ''b64.b64.b64~'', w2)"
    using fx_second by blast
  show ?thesis using one_credential_per_offer [OF _ fx_first two] fx_redeemed_inv fx_first two by fastforce
qed

section \<open>Redemption of a code\<close>

text \<open>C19. The token endpoint redeems a pre-authorised code only for a pending, unexpired offer of the issuer
  in the path, and only once: no access token of that offer existed.  It adds one token and one nonce,
  both bound to the tenant, issuer and offer, and changes nothing else.\<close>

theorem token_redeems_once:
  assumes "token st i req w = (Inr resp, w')"
  shows "\<exists>iss row off now tok n.
    oidc_parse_issuer_id st i = Inr iss \<and> row_by issuer_key iss (issuers (wdb w)) = Some row \<and>
    off \<in> set (credential_offers (wdb w)) \<and> co_pre_auth_code off = Some (PreAuthCode (tr_pre_authorized_code req)) \<and>
    co_tenant_id off = iss_tenant_id (ir_issuer row) \<and> co_issuer_id off = iss \<and>
    observed_state now off = OfferPending \<and> co_id off \<notin> at_offer_id ` set (oidc_access_tokens (wdb w)) \<and>
    at_offer_id tok = co_id off \<and> at_issuer_id tok = iss \<and> at_tenant_id tok = co_tenant_id off \<and>
    at_expires_at tok = now + os_access_token_ttl st \<and>
    at_token_hash tok = access_token_hash_of (host_bs58 (os_host st)) (host_sha256 (os_host st))
      (AccessTokenSecret (trs_access_token resp)) \<and>
    nr_offer_id n = co_id off \<and> nr_issuer_id n = iss \<and> nr_expires_at n = now + os_c_nonce_ttl st \<and>
    nr_nonce_hash n = nonce_hash_of (host_bs58 (os_host st)) (host_sha256 (os_host st)) (NonceSecret (trs_c_nonce resp)) \<and>
    wdb w' = (wdb w)\<lparr> oidc_access_tokens := oidc_access_tokens (wdb w) @ [tok], oidc_nonces := oidc_nonces (wdb w) @ [n] \<rparr>"
proof -
  let ?p = "os_pool st" let ?h = "os_host st"
  obtain iss u w1 issuer w2 off w3 now w4 sec w5 nsec w6 w7 u1 u2 where
    pi: "oidc_parse_issuer_id st i = Inr iss" and
    a: "acquire ?p w = (Inr u, w1)" and
    fi: "find_issuer_by_id ?p iss w1 = (Inr (Some issuer), w2)" and
    fo: "find_by_pre_auth_code ?p (iss_tenant_id issuer) iss (PreAuthCode (tr_pre_authorized_code req)) w2 = (Inr (Some off), w3)" and
    n: "(utc_now ?h :: ('a world, oauth_error, datetime) eff) w3 = (Inr now, w4)" and
    ob: "observed_state now off = OfferPending" and
    g1: "(generate_secret ?h :: ('a world, oauth_error, string) eff) w4 = (Inr sec, w5)" and
    g2: "(generate_secret ?h :: ('a world, oauth_error, string) eff) w5 = (Inr nsec, w6)" and
    it: "insert_access_token ?p \<lparr> at_token_hash = access_token_hash_of (host_bs58 ?h) (host_sha256 ?h) (AccessTokenSecret sec),
        at_tenant_id = iss_tenant_id issuer, at_issuer_id = iss, at_offer_id = co_id off,
        at_expires_at = now + os_access_token_ttl st \<rparr> w6 = (Inr u1, w7)" and
    inn: "insert_nonce ?p \<lparr> nr_nonce_hash = nonce_hash_of (host_bs58 ?h) (host_sha256 ?h) (NonceSecret nsec),
        nr_tenant_id = iss_tenant_id issuer, nr_issuer_id = iss, nr_offer_id = co_id off,
        nr_expires_at = now + os_c_nonce_ttl st \<rparr> w7 = (Inr u2, w')" and
    resp: "resp = \<lparr> trs_access_token = sec, trs_token_type = ''Bearer'', trs_expires_in = num_seconds (os_access_token_ttl st),
        trs_c_nonce = nsec, trs_c_nonce_expires_in = num_seconds (os_c_nonce_ttl st) \<rparr>"
    using assms unfolding token_def Let_def
    by (simp only: eff_success ret_run prod.inject sum.inject)
       (elim exE conjE, hypsubst, rule that, assumption+)
  have eq: "wdb w1 = wdb w" "wdb w2 = wdb w" "wdb w3 = wdb w" "wdb w4 = wdb w" "wdb w5 = wdb w" "wdb w6 = wdb w"
    using keeps_db_eq [OF acquire_keeps_db a] keeps_db_eq [OF lookups_keep_db(2) fi]
      keeps_db_eq [OF offer_lookups_keep_db(3) fo] keeps_db_eq [OF utc_now_keeps_db n]
      keeps_db_eq [OF generate_secret_keeps_db g1] keeps_db_eq [OF generate_secret_keeps_db g2] by simp_all
  obtain row where row: "row_by issuer_key iss (issuers (wdb w)) = Some row" "ir_issuer row = issuer"
    using fi eq by (auto simp: find_issuer_by_id_def mapErr_eq_Inr dest!: run_query_success)
  have off: "off \<in> set (credential_offers (wdb w))" "co_pre_auth_code off = Some (PreAuthCode (tr_pre_authorized_code req))"
    "co_tenant_id off = iss_tenant_id issuer" "co_issuer_id off = iss"
    using fo eq by (auto simp: find_by_pre_auth_code_def mapErr_eq_Inr dest!: run_query_success find_SomeD)
  have t: "co_id off \<notin> at_offer_id ` set (oidc_access_tokens (wdb w))"
    "wdb w7 = (wdb w)\<lparr> oidc_access_tokens := oidc_access_tokens (wdb w) @ [\<lparr> at_token_hash =
        access_token_hash_of (host_bs58 ?h) (host_sha256 ?h) (AccessTokenSecret sec), at_tenant_id = iss_tenant_id issuer,
        at_issuer_id = iss, at_offer_id = co_id off, at_expires_at = now + os_access_token_ttl st \<rparr>] \<rparr>"
    using it eq by (auto simp: insert_access_token_def mapErr_eq_Inr dest!: run_stmt_success split: if_splits option.splits)
  have "wdb w' = (wdb w7)\<lparr> oidc_nonces := oidc_nonces (wdb w7) @ [\<lparr> nr_nonce_hash = nonce_hash_of (host_bs58 ?h) (host_sha256 ?h)
      (NonceSecret nsec), nr_tenant_id = iss_tenant_id issuer, nr_issuer_id = iss, nr_offer_id = co_id off,
      nr_expires_at = now + os_c_nonce_ttl st \<rparr>] \<rparr>"
    using inn by (auto simp: insert_nonce_def mapErr_eq_Inr dest!: run_stmt_success split: if_splits option.splits)
  then show ?thesis
    using pi row off ob t resp
    by (intro exI [of _ iss] exI [of _ row] exI [of _ off] exI [of _ now]
        exI [of _ "\<lparr> at_token_hash = access_token_hash_of (host_bs58 ?h) (host_sha256 ?h) (AccessTokenSecret sec),
          at_tenant_id = iss_tenant_id issuer, at_issuer_id = iss, at_offer_id = co_id off, at_expires_at = now + os_access_token_ttl st \<rparr>"]
        exI [of _ "\<lparr> nr_nonce_hash = nonce_hash_of (host_bs58 ?h) (host_sha256 ?h) (NonceSecret nsec),
          nr_tenant_id = iss_tenant_id issuer, nr_issuer_id = iss, nr_offer_id = co_id off, nr_expires_at = now + os_c_nonce_ttl st \<rparr>"])
       auto
qed

theorem token_redeems_once_witness:
  "\<exists>resp w'. token fx_oidc (fx_bare 2) \<lparr> tr_grant_type = PRE_AUTHORIZED_GRANT_TYPE, tr_pre_authorized_code = ''code'' \<rparr> fx_world =
      (Inr resp, w') \<and>
    (\<exists>tok n. wdb w' = fx_db\<lparr> oidc_access_tokens := [tok], oidc_nonces := [n] \<rparr> \<and> at_offer_id tok = nr_offer_id n)"
proof -
  obtain resp w' where run: "token fx_oidc (fx_bare 2) \<lparr> tr_grant_type = PRE_AUTHORIZED_GRANT_TYPE, tr_pre_authorized_code = ''code'' \<rparr>
      fx_world = (Inr resp, w')"
    using fx_token_run by blast
  have "oidc_access_tokens fx_db = []" "oidc_nonces fx_db = []" "wdb fx_world = fx_db" by (simp_all add: fx_db_def fx_world_def)
  then show ?thesis using token_redeems_once [OF run] run by (metis append_Nil)
qed

text \<open>A nonce is spent by its first presentation: a later presentation finds none.\<close>

lemma nonce_is_single_use:
  assumes "consume_by_hash p nh now w = (Inr r, w1)" and "consume_by_hash p nh now' w1 = (Inr r', w2)" and "now \<le> now'"
  shows "r' = None"
proof -
  have "find (\<lambda>n. nr_nonce_hash n = nh \<and> nr_expires_at n > now')
     (filter (\<lambda>n. \<not> (nr_nonce_hash n = nh \<and> nr_expires_at n > now)) (oidc_nonces (wdb w))) = None"
    using assms(3) by (auto simp: find_None_iff)
  then show ?thesis
    using consume_success [OF assms(1)] consume_success [OF assms(2)] by (simp add: with_nonces_def)
qed

theorem nonce_is_single_use_witness:
  "\<exists>w1 w2. consume_by_hash fx_pool (NonceHash ''n'') 5
      (fx_world\<lparr> wdb := fx_db\<lparr> oidc_nonces := [\<lparr> nr_nonce_hash = NonceHash ''n'', nr_tenant_id = TenantId (fx_bare 1),
         nr_issuer_id = IssuerId (fx_bare 2), nr_offer_id = CredentialOfferId (fx_bare 3), nr_expires_at = 10 \<rparr>] \<rparr> \<rparr>)
      = (Inr (Some (CredentialOfferId (fx_bare 3))), w1) \<and>
    consume_by_hash fx_pool (NonceHash ''n'') 6 w1 = (Inr None, w2)"
proof -
  have tot: "\<exists>r w'. consume_by_hash fx_pool nh now w = (Inr r, w')" for nh now w
    by (simp add: consume_by_hash_def mapErr_run fx_run)
  let ?w = "fx_world\<lparr> wdb := fx_db\<lparr> oidc_nonces := [\<lparr> nr_nonce_hash = NonceHash ''n'', nr_tenant_id = TenantId (fx_bare 1),
         nr_issuer_id = IssuerId (fx_bare 2), nr_offer_id = CredentialOfferId (fx_bare 3), nr_expires_at = 10 \<rparr>] \<rparr> \<rparr>"
  obtain r w1 where one: "consume_by_hash fx_pool (NonceHash ''n'') 5 ?w = (Inr r, w1)" using tot by blast
  obtain r' w2 where two: "consume_by_hash fx_pool (NonceHash ''n'') 6 w1 = (Inr r', w2)" using tot by blast
  have "r = Some (CredentialOfferId (fx_bare 3))" using consume_success [OF one] by simp
  moreover have "r' = None" using nonce_is_single_use [OF one two] by simp
  ultimately show ?thesis using one two by blast
qed

section \<open>The proof's time stamp\<close>

lemma sint_word64: "sint (word_of_int k :: 64 word) = signed_take_bit 63 k"
  by (simp add: signed_of_int)

lemma sint_word64_small: "- (2 ^ 63) \<le> k \<Longrightarrow> k < 2 ^ 63 \<Longrightarrow> sint (word_of_int k :: 64 word) = k"
  unfolding sint_word64 by (rule signed_take_bit_int_eq_self) simp_all

lemma sint_word64_low:
  assumes "- (2 ^ 64) \<le> k" and "k < - (2 ^ 63)"
  shows "sint (word_of_int k :: 64 word) = k + 2 ^ 64"
proof -
  have "(word_of_int k :: 64 word) = word_of_int (k + 2 ^ 64)"
    by (simp add: word_of_int_eq_iff take_bit_eq_mod)
  also have "sint \<dots> = k + 2 ^ 64" by (rule sint_word64_small) (use assms in simp_all)
  finally show ?thesis .
qed

lemma sint_range64: "- (2 ^ 63) \<le> sint (v :: 64 word)" "sint (v :: 64 word) < 2 ^ 63"
  using sint_greater_eq [of v] sint_less [of v] by simp_all

lemma i64_abs_sint:
  "sint (i64_abs v) = (if sint v = - (2 ^ 63) then - (2 ^ 63) else \<bar>sint v\<bar>)"
proof (cases "sint v < 0")
  case True
  have neg: "- v = word_of_int (- sint v)" by simp
  show ?thesis
  proof (cases "sint v = - (2 ^ 63)")
    case True
    have "(word_of_int (2 ^ 63) :: 64 word) = word_of_int (- (2 ^ 63))"
      by (simp add: word_of_int_eq_iff take_bit_eq_mod)
    then have "sint (- v) = - (2 ^ 63)" unfolding neg True using sint_word64_small [of "- (2 ^ 63)"] by simp
    then show ?thesis using \<open>sint v < 0\<close> True by (simp add: i64_abs_def)
  next
    case False
    then have "sint (- v) = - sint v"
      unfolding neg using \<open>sint v < 0\<close> sint_range64 [of v] by (intro sint_word64_small) linarith+
    then show ?thesis using \<open>sint v < 0\<close> False by (simp add: i64_abs_def)
  qed
qed (simp add: i64_abs_def)

text \<open>C20. With the clock at a plausible time the check of the proof's \<open>iat\<close> accepts exactly the 300 seconds
  around it and one value more: the one whose distance is the least 64-bit integer, on which the
  absolute value wraps.\<close>

theorem iat_window_exact:
  assumes "0 \<le> sint now" and "sint now < 2 ^ 62"
  shows "\<not> iat_rejected iat now \<longleftrightarrow> \<bar>sint iat - sint now\<bar> \<le> 300 \<or> sint iat = sint now - 2 ^ 63"
proof -
  let ?D = "sint iat - sint now"
  have d: "iat - now = word_of_int ?D" by simp
  have skew: "sint PROOF_IAT_SKEW_SECONDS = 300" by (simp add: PROOF_IAT_SKEW_SECONDS_def)
  note r = sint_range64 [of iat]
  show ?thesis
  proof (cases "?D < - (2 ^ 63)")
    case True
    have "sint (iat - now) = ?D + 2 ^ 64"
      unfolding d by (rule sint_word64_low) (use True r assms in simp_all)
    then have "sint (i64_abs (iat - now)) = ?D + 2 ^ 64"
      unfolding i64_abs_sint using r assms by simp
    then show ?thesis unfolding iat_rejected_def skew using True r assms by simp
  next
    case False
    have "sint (iat - now) = ?D"
      unfolding d by (rule sint_word64_small) (use False r assms in simp_all)
    then have "sint (i64_abs (iat - now)) = (if ?D = - (2 ^ 63) then - (2 ^ 63) else \<bar>?D\<bar>)"
      unfolding i64_abs_sint by simp
    then show ?thesis unfolding iat_rejected_def skew using False r assms by auto
  qed
qed

theorem iat_window_exact_witness:
  "0 \<le> sint (1000 :: 64 word) \<and> \<not> iat_rejected (word_of_int (1000 - 2 ^ 63)) 1000 \<and> iat_rejected 0 1000"
proof -
  have s: "sint (1000 :: 64 word) = 1000" "sint (0 :: 64 word) = 0" by simp_all
  have k: "sint (word_of_int (1000 - 2 ^ 63) :: 64 word) = 1000 - 2 ^ 63" by (rule sint_word64_small) simp_all
  have "\<not> iat_rejected (word_of_int (1000 - 2 ^ 63)) 1000" "iat_rejected 0 1000"
    using iat_window_exact [of 1000 "word_of_int (1000 - 2 ^ 63)"] iat_window_exact [of 1000 0] s k by simp_all
  then show ?thesis using s by simp
qed

end
