(* ===== verification/ApiProps.thy ===== *)
theory ApiProps
  imports IssuanceProps
begin

text \<open>
  Properties of the management interface: a tenant cannot reach another
  tenant's issuers, the suspend, unsuspend and revoke operations, what creating
  an offer requires, and the list pages.
\<close>

section \<open>Tenant isolation\<close>

definition refused :: "('x world, 'e, 'a) eff \<Rightarrow> 'x world \<Rightarrow> bool" where
  "refused m w \<longleftrightarrow> (\<exists>e w'. m w = (Inl e, w') \<and> wdb w' = wdb w)"

definition not_owner :: "'x mgmt_state \<Rightarrow> tenant_id \<Rightarrow> string \<Rightarrow> db \<Rightarrow> bool" where
  "not_owner st tenant raw d \<longleftrightarrow>
     (\<forall>iss. parse_issuer_id st raw = Inr iss \<longrightarrow> find (issuer_of_tenant tenant iss) (issuers d) = None)"

text \<open>A computation whose first step is refused, or cannot change the tables, is refused.\<close>

lemma refused_bindE: "refused m w \<Longrightarrow> refused (bindE m f) w"
  by (auto simp: refused_def bindE_run)

lemma refused_bindE_pure:
  assumes "preserves (\<lambda>v. wdb v = wdb w) m" and "\<And>a v. m w = (Inr a, v) \<Longrightarrow> refused (f a) v"
  shows "refused (bindE m f) w"
proof (cases "m w")
  case (Pair r v)
  then have v: "wdb v = wdb w" using preserves_outcome [OF assms(1) _ Pair] by simp
  show ?thesis
  proof (cases r)
    case (Inr a)
    then show ?thesis using assms(2) Pair v by (fastforce simp: refused_def bindE_run)
  qed (use Pair v in \<open>auto simp: refused_def bindE_run\<close>)
qed

lemma refused_liftR:
  "(\<And>a. r = Inr a \<Longrightarrow> refused (f a) w) \<Longrightarrow> refused (bindE (liftR r) f) w"
  by (cases r) (auto simp: refused_def bindE_run)

lemma ownership_refused:
  assumes "find (issuer_of_tenant tenant iss) (issuers (wdb w)) = None"
  shows "refused (require_issuer_owned_by_tenant st tenant iss) w"
    and "refused (acquire_pool_for_issuer st tenant iss) w"
proof -
  have *: "refused (require_issuer_owned_by_tenant st tenant iss) v" if "wdb v = wdb w" for v
    unfolding require_issuer_owned_by_tenant_def
  proof (rule refused_bindE_pure)
    show "preserves (\<lambda>u. wdb u = wdb v) (api_db st (exists_for_tenant (ms_pool st) tenant iss))"
      by (intro pres)
    fix a u assume "api_db st (exists_for_tenant (ms_pool st) tenant iss) v = (Inr a, u)"
    then have "\<not> a" using that assms
      by (auto simp: exists_for_tenant_def mapErr_eq_Inr dest!: run_query_success)
    then show "refused (guardE a ApiNotFound) u" by (simp add: refused_def)
  qed
  then show "refused (require_issuer_owned_by_tenant st tenant iss) w" by simp
  show "refused (acquire_pool_for_issuer st tenant iss) w"
    unfolding acquire_pool_for_issuer_def
  proof (rule refused_bindE_pure)
    show "preserves (\<lambda>v. wdb v = wdb w) (mapErr (api_sql st) (acquire (ms_pool st)))" by (intro pres)
    fix a v assume "mapErr (api_sql st) (acquire (ms_pool st)) w = (Inr a, v)"
    then have "wdb v = wdb w"
      using keeps_db_eq [OF acquire_keeps_db] by (auto simp: mapErr_eq_Inr)
    then show "refused (require_issuer_owned_by_tenant st tenant iss) v" by (rule *)
  qed
qed

lemma lifecycle_refused:
  assumes "find (issuer_of_tenant tenant iss) (issuers (wdb w)) = None"
  shows "refused (run_lifecycle_op st tenant iss cid tr v) w"
proof -
  obtain r w1 where run: "run_lifecycle_op st tenant iss cid tr v w = (r, w1)" by fastforce
  have body: "\<exists>e u'. lifecycle_tx st tenant iss cid tr v u = (Inl e, u')" if "wdb u = wdb w" for u
  proof -
    have "refused (lifecycle_tx st tenant iss cid tr v) u"
      unfolding lifecycle_tx_def lifecycle_read_def using that assms by (intro refused_bindE ownership_refused) simp
    then show ?thesis by (auto simp: refused_def)
  qed
  have "r \<noteq> Inr a" for a
  proof
    assume "r = Inr a"
    then show False using in_tx_success [OF run [unfolded run_lifecycle_op_def \<open>r = Inr a\<close>]] body by fastforce
  qed
  then obtain e where e: "r = Inl e" by (cases r) auto
  have "wdb w1 = wdb w"
    using in_tx_error [OF run [unfolded run_lifecycle_op_def e]] body by fastforce
  then show ?thesis using run e by (simp add: refused_def)
qed

text \<open>C21. A tenant that does not own the issuer named in a request gets nothing and changes nothing:
  every handler under an issuer's path answers with an error and leaves the tables as they were.\<close>

theorem foreign_issuer_is_out_of_reach:
  assumes "not_owner st tenant issuer (wdb w)"
  shows "refused (create_offer st tenant issuer req) w \<and> refused (get_offer st tenant issuer off) w \<and>
    refused (get_offer_status st tenant issuer off) w \<and> refused (cancel_offer st tenant issuer off) w \<and>
    refused (list_offers st tenant issuer lq) w \<and> refused (get_credential st tenant issuer cred) w \<and>
    refused (list_credentials st tenant issuer cq) w \<and> refused (suspend st tenant issuer cred) w \<and>
    refused (unsuspend st tenant issuer cred) w \<and> refused (revoke st tenant issuer cred) w"
proof -
  note own = assms [unfolded not_owner_def, rule_format]
  have pool: "refused (bindE (acquire_pool_for_issuer st tenant iss) f) w"
    if "parse_issuer_id st issuer = Inr iss" for iss and f :: "unit \<Rightarrow> ('a world, api_error, 'c) eff"
    using own [OF that] by (intro refused_bindE ownership_refused)
  have life: "refused (lifecycle_handler tr v st tenant issuer cred) w" for tr v
    unfolding lifecycle_handler_def
    by (intro refused_liftR refused_bindE lifecycle_refused own)
  show ?thesis
    unfolding create_offer_def get_offer_def get_offer_status_def load_offer_def cancel_offer_def list_offers_def
      get_credential_def list_credentials_def suspend_def unsuspend_def revoke_def Let_def bindE_assoc
    by (intro conjI life refused_liftR pool)
qed


definition fx_mgmt :: "nat mgmt_state" where
  "fx_mgmt = \<lparr> ms_pool = fx_pool, ms_host = fx_host,
     ms_cursor = \<lparr> cl_to_rfc3339 = (\<lambda>t. replicate (nat t) (CHR ''t'')), cl_parse_rfc3339 = (\<lambda>s. Some (int (length s))),
        cl_bs58_encode_str = id, cl_bs58_decode = (\<lambda>s. Some (map of_char s)),
        cl_from_utf8 = (\<lambda>bs. Some (map (\<lambda>b. char_of (unat b)) bs)) \<rparr>,
     ms_compile = (\<lambda>_. Inr (\<lambda>_. [])), ms_validators = (\<lambda>_. Map.empty), ms_set_validators = (\<lambda>_ x. x),
     ms_urlencode = id, ms_core_set_at = (\<lambda>bs i v. Inr bs), ms_issuer_base_url = ''u'' \<rparr>"

lemma fx_mgmt_sel [simp]:
  "ms_pool fx_mgmt = fx_pool" "ms_host fx_mgmt = fx_host" "ms_core_set_at fx_mgmt = (\<lambda>bs i v. Inr bs)"
  "ms_compile fx_mgmt = (\<lambda>_. Inr (\<lambda>_. []))" "ms_validators fx_mgmt = (\<lambda>_. Map.empty)"
  "ms_set_validators fx_mgmt = (\<lambda>_ x. x)"
  by (simp_all add: fx_mgmt_def)

lemma fx_parse_issuer: "parse_issuer_id fx_mgmt (fx_bare n) = Inr (IssuerId (fx_bare n))"
  by (simp add: parse_issuer_id_def parse_path_id_def fx_oidc_sel fx_parse_bare)

theorem foreign_issuer_is_out_of_reach_witness:
  "not_owner fx_mgmt (TenantId (fx_bare 9)) (fx_bare 2) (wdb fx_world) \<and>
   refused (revoke fx_mgmt (TenantId (fx_bare 9)) (fx_bare 2) (fx_bare 3)) fx_world"
proof -
  have "not_owner fx_mgmt (TenantId (fx_bare 9)) (fx_bare 2) (wdb fx_world)"
    by (simp add: not_owner_def fx_parse_issuer fx_world_def fx_db_def issuer_of_tenant_def fx_issuer_def fx_bare_eq)
  then show ?thesis using foreign_issuer_is_out_of_reach by blast
qed

section \<open>Suspending, unsuspending, revoking\<close>

text \<open>The tables after an operation: the credential's state and its list's bits move together.\<close>

definition lifecycle_db :: "tenant_id \<Rightarrow> issued_credential \<Rightarrow> byte list \<Rightarrow> db \<Rightarrow> db" where
  "lifecycle_db tenant c bits d =
     (let d1 = issued_credentials_update (update_where (\<lambda>r. ic_id r = ic_id c \<and> ic_tenant_id r = tenant)
            (\<lambda>r. r\<lparr> ic_state := ic_state c \<rparr>)) d
      in status_lists_update (update_where (\<lambda>r. sl_id r = ic_status_list_id c)
           (\<lambda>r. r\<lparr> sl_bitstring := bits, sl_committed_version := sl_committed_version r + 1 \<rparr>)) d1)"

lemma lifecycle_read_success:
  assumes "lifecycle_read st tenant iss cid tr w = (Inr c', w')"
  shows "\<exists>c. find (\<lambda>r. ic_id r = cid \<and> ic_tenant_id r = tenant) (issued_credentials (wdb w)) = Some c \<and>
    ic_issuer_id c = iss \<and> find (issuer_of_tenant tenant iss) (issuers (wdb w)) \<noteq> None \<and> tr c = Inr c' \<and> wdb w' = wdb w"
  using assms
  by (auto simp: lifecycle_read_def require_issuer_owned_by_tenant_def exists_for_tenant_def find_issued_credential_def
      eff_success res_success dest!: run_query_success)

lemma write_bit_success:
  assumes "write_bit core p lid idx v w = (Inr (), w')"
  shows "\<exists>l bits. row_by sl_id lid (status_lists (wdb w)) = Some l \<and>
    core (sl_bitstring l) (unat (index_value idx)) v = Inr bits \<and>
    wdb w' = status_lists_update (update_where (\<lambda>r. sl_id r = lid)
       (\<lambda>r. r\<lparr> sl_bitstring := bits, sl_committed_version := sl_committed_version r + 1 \<rparr>)) (wdb w)"
proof -
  obtain w1 bs bits where q: "run_query p (\<lambda>_ d. Inr (map_option sl_bitstring (row_by sl_id lid (status_lists d)))) w = (Inr (Some bs), w1)"
    and bits: "core bs (unat (index_value idx)) v = Inr bits"
    and st: "run_stmt p (\<lambda>d. if \<exists>l \<in> set (status_lists d). sl_id l = lid \<and> sl_committed_version l = I64_MAX
        then Inl (SqlConstraint ''bigint out of range'')
        else if length bits \<noteq> BITSTRING_BYTES \<and> lid \<in> sl_id ` set (status_lists d)
        then Inl (SqlConstraint ''status_lists_bitstring_check'')
        else Inr ((), status_lists_update (update_where (\<lambda>r. sl_id r = lid)
               (\<lambda>r. r\<lparr> sl_bitstring := bits, sl_committed_version := sl_committed_version r + 1 \<rparr>)) d)) w1 = (Inr (), w')"
    using assms unfolding write_bit_def
    by (simp only: eff_success res_success) (elim exE conjE, hypsubst, rule that, assumption+)
  show ?thesis
    using run_query_success [OF q] run_stmt_success [OF st] bits by (auto split: if_splits)
qed

lemma set_credential_state_success:
  assumes "set_credential_state p tenant cid s w = (Inr (), w')"
  shows "wdb w' = issued_credentials_update (update_where (\<lambda>r. ic_id r = cid \<and> ic_tenant_id r = tenant)
            (\<lambda>r. r\<lparr> ic_state := s \<rparr>)) (wdb w)"
  using assms by (auto simp: set_credential_state_def update_stmt_def eff_success dest!: run_stmt_success)

lemma lifecycle_write_success:
  assumes "lifecycle_write st tenant c v w = (Inr e, w')"
  shows "\<exists>l bits. e = Commit c \<and> row_by sl_id (ic_status_list_id c) (status_lists (wdb w)) = Some l \<and>
    ms_core_set_at st (sl_bitstring l) (unat (index_value (ic_status_list_index c))) v = Inr bits \<and>
    wdb w' = lifecycle_db tenant c bits (wdb w)"
proof -
  obtain w1 where s: "set_credential_state (ms_pool st) tenant (ic_id c) (ic_state c) w = (Inr (), w1)"
    and b: "write_bit (ms_core_set_at st) (ms_pool st) (ic_status_list_id c) (ic_status_list_index c) v w1 = (Inr (), w')"
    and e: "e = Commit c"
    using assms by (auto simp: lifecycle_write_def Let_def bindE_eq_Inr mapErr_eq_Inr)
  show ?thesis
    using set_credential_state_success [OF s] write_bit_success [OF b] e by (auto simp: lifecycle_db_def Let_def)
qed

lemma lifecycle_state_and_bit:
  assumes "run_lifecycle_op st tenant iss cid tr v w = (r, w')"
  shows "wdb w' = wdb w \<and> (\<forall>c. r \<noteq> Inr c) \<or>
    (\<exists>c c' l bits. find (\<lambda>q. ic_id q = cid \<and> ic_tenant_id q = tenant) (issued_credentials (wdb w)) = Some c \<and>
       ic_issuer_id c = iss \<and> tr c = Inr c' \<and> (r = Inr c' \<or> (\<exists>m. r = Inl (ApiInternal m))) \<and>
       row_by sl_id (ic_status_list_id c') (status_lists (wdb w)) = Some l \<and>
       ms_core_set_at st (sl_bitstring l) (unat (index_value (ic_status_list_index c'))) v = Inr bits \<and>
       wdb w' = lifecycle_db tenant c' bits (wdb w))"
proof -
  have body: "\<exists>c c' l bits. find (\<lambda>q. ic_id q = cid \<and> ic_tenant_id q = tenant) (issued_credentials (wdb u)) = Some c \<and>
       ic_issuer_id c = iss \<and> tr c = Inr c' \<and> e = Commit c' \<and>
       row_by sl_id (ic_status_list_id c') (status_lists (wdb u)) = Some l \<and>
       ms_core_set_at st (sl_bitstring l) (unat (index_value (ic_status_list_index c'))) v = Inr bits \<and>
       wdb u' = lifecycle_db tenant c' bits (wdb u)"
    if "lifecycle_tx st tenant iss cid tr v u = (Inr e, u')" for u e and u' :: "'a world"
  proof -
    obtain c' u1 where rd: "lifecycle_read st tenant iss cid tr u = (Inr c', u1)"
      and wr: "lifecycle_write st tenant c' v u1 = (Inr e, u')"
      using \<open>lifecycle_tx st tenant iss cid tr v u = (Inr e, u')\<close> by (auto simp: lifecycle_tx_def bindE_eq_Inr)
    show ?thesis using lifecycle_read_success [OF rd] lifecycle_write_success [OF wr] by auto
  qed
  show ?thesis
  proof (cases r)
    case (Inl e)
    show ?thesis using in_tx_error [OF assms [unfolded run_lifecycle_op_def Inl]] Inl body by fastforce
  next
    case (Inr a)
    show ?thesis using in_tx_success [OF assms [unfolded run_lifecycle_op_def Inr]] Inr body by fastforce
  qed
qed

text \<open>C22. A suspend, unsuspend or revoke that succeeds moves, in one step, the state of exactly the addressed
  credential and the entry of its slot in the status list, whose version goes up so that it is published;
  a refused one changes nothing, a commit whose acknowledgement is lost excepted.\<close>

theorem lifecycle_state_and_bit_together:
  assumes "run_lifecycle_op st tenant iss cid tr v w = (r, w')"
  shows "wdb w' = wdb w \<and> (\<forall>c. r \<noteq> Inr c) \<or>
    (\<exists>c c' l bits. find (\<lambda>q. ic_id q = cid \<and> ic_tenant_id q = tenant) (issued_credentials (wdb w)) = Some c \<and>
       ic_issuer_id c = iss \<and> tr c = Inr c' \<and> (r = Inr c' \<or> (\<exists>m. r = Inl (ApiInternal m))) \<and>
       row_by sl_id (ic_status_list_id c') (status_lists (wdb w)) = Some l \<and>
       ms_core_set_at st (sl_bitstring l) (unat (index_value (ic_status_list_index c'))) v = Inr bits \<and>
       wdb w' = lifecycle_db tenant c' bits (wdb w))"
  using assms by (rule lifecycle_state_and_bit)

definition fx_issued :: "ic_state \<Rightarrow> nat world" where
  "fx_issued s = \<lparr> wdb = issued_credentials_update (map (ic_state_update (\<lambda>_. s))) fx_half_issued, wext = 3 \<rparr>"

lemmas fx_life_eval = lifecycle_tx_def lifecycle_read_def lifecycle_write_def Let_def bindE_run mapErr_run fx_run
  require_issuer_owned_by_tenant_def exists_for_tenant_def find_issued_credential_def set_credential_state_def
  write_bit_def update_stmt_def update_where_def rows_matching_def issuer_of_tenant_def issuer_key_def row_by_def issued_credential_new_def
  BITSTRING_BYTES_def SWIYU_STATUS_LIST_CAPACITY_def SWIYU_STATUS_LIST_BITS_def I64_MAX_def

lemma fx_revoke_run:
  assumes "s \<noteq> Revoked"
  shows "\<exists>c w'. run_lifecycle_op fx_mgmt (TenantId (fx_bare 1)) (IssuerId (fx_bare 2)) (IssuedCredentialId (fx_bare 2))
      try_revoke StatusRevoked (fx_issued s) = (Inr c, w')"
  using assms unfolding run_lifecycle_op_def fx_issued_def
  by (cases s) (simp_all add: fx_life_eval fx_half_issued_def fx_rows try_revoke_def cong: head_congs)

theorem lifecycle_state_and_bit_together_witness:
  "\<exists>c w' bits. run_lifecycle_op fx_mgmt (TenantId (fx_bare 1)) (IssuerId (fx_bare 2)) (IssuedCredentialId (fx_bare 2))
      try_revoke StatusRevoked (fx_issued CredActive) = (Inr c, w') \<and>
     wdb w' = lifecycle_db (TenantId (fx_bare 1)) c bits (wdb (fx_issued CredActive))"
proof -
  obtain c w' where run: "run_lifecycle_op fx_mgmt (TenantId (fx_bare 1)) (IssuerId (fx_bare 2)) (IssuedCredentialId (fx_bare 2))
      try_revoke StatusRevoked (fx_issued CredActive) = (Inr c, w')"
    using fx_revoke_run by blast
  show ?thesis using lifecycle_state_and_bit_together [OF run] run by fastforce
qed

definition revoked :: "credential_id \<Rightarrow> db \<Rightarrow> bool" where
  "revoked cid d \<longleftrightarrow> (\<exists>c \<in> set (issued_credentials d). ic_id c = cid \<and> ic_state c = Revoked)"

lemma creds_of_lifecycle_db:
  "issued_credentials (lifecycle_db tenant c bits d) =
     update_where (\<lambda>r. ic_id r = ic_id c \<and> ic_tenant_id r = tenant) (\<lambda>r. r\<lparr> ic_state := ic_state c \<rparr>) (issued_credentials d)"
  by (simp add: lifecycle_db_def Let_def)

lemma cred_unique:
  assumes "data_inv d" "c \<in> set (issued_credentials d)" "c' \<in> set (issued_credentials d)" "ic_id c = ic_id c'"
  shows "c = c'"
  using assms by (auto simp: data_inv_def creds_inv_def distinct_map inj_on_def)

text \<open>C23. An interleaving the transactions do not exclude: an unsuspend reads the suspended credential, a
  revocation commits, and the unsuspend then writes.  Both succeed, and the revoked credential ends up
  active: the read takes no lock and the write does not look at the state it replaces.\<close>

theorem unsuspend_can_undo_revocation:
  assumes rd: "lifecycle_read st tenant iss cid try_unsuspend w = (Inr c, w1)"
    and rev: "run_lifecycle_op st' tenant iss cid try_revoke StatusRevoked w1 = (Inr rc, w2)"
    and wr: "lifecycle_write st tenant c StatusValid w2 = (Inr e, w3)"
  shows "revoked cid (wdb w2) \<and> (\<exists>c3 \<in> set (issued_credentials (wdb w3)). ic_id c3 = cid \<and> ic_state c3 = CredActive)"
proof -
  obtain c0 where c0: "find (\<lambda>r. ic_id r = cid \<and> ic_tenant_id r = tenant) (issued_credentials (wdb w)) = Some c0"
    "try_unsuspend c0 = Inr c" "wdb w1 = wdb w"
    using lifecycle_read_success [OF rd] by blast
  have c0': "c0 \<in> set (issued_credentials (wdb w))" "ic_id c0 = cid" "ic_tenant_id c0 = tenant"
    using find_SomeD [OF c0(1)] by auto
  have c: "ic_id c = cid" "ic_state c = CredActive"
    using c0 c0' by (auto simp: try_unsuspend_def split: ic_state.splits)
  obtain c1 l bits where c1: "find (\<lambda>q. ic_id q = cid \<and> ic_tenant_id q = tenant) (issued_credentials (wdb w1)) = Some c1"
    "try_revoke c1 = Inr rc" "wdb w2 = lifecycle_db tenant rc bits (wdb w1)"
    using lifecycle_state_and_bit [OF rev] by auto
  have rc: "ic_id rc = cid" "ic_state rc = Revoked"
    using c1 find_SomeD [OF c1(1)] by (auto simp: try_revoke_def split: ic_state.splits)
  have w2: "c0\<lparr> ic_state := Revoked \<rparr> \<in> set (issued_credentials (wdb w2))"
    using c1(3) c0 c0' rc by (auto simp: creds_of_lifecycle_db update_where_def image_iff intro!: bexI [of _ c0])
  obtain bits3 where "wdb w3 = lifecycle_db tenant c bits3 (wdb w2)"
    using lifecycle_write_success [OF wr] by blast
  then have "c0\<lparr> ic_state := CredActive \<rparr> \<in> set (issued_credentials (wdb w3))"
    using w2 c c0' by (auto simp: creds_of_lifecycle_db update_where_def image_iff intro!: bexI [of _ "c0\<lparr> ic_state := Revoked \<rparr>"])
  then show ?thesis using w2 c0'
    unfolding revoked_def
    by (intro conjI bexI [of _ "c0\<lparr> ic_state := Revoked \<rparr>"] bexI [of _ "c0\<lparr> ic_state := CredActive \<rparr>"]) simp_all
qed

theorem unsuspend_can_undo_revocation_witness:
  "\<exists>c w1 rc w2 e w3. lifecycle_read fx_mgmt (TenantId (fx_bare 1)) (IssuerId (fx_bare 2)) (IssuedCredentialId (fx_bare 2))
       try_unsuspend (fx_issued CredSuspended) = (Inr c, w1) \<and>
     run_lifecycle_op fx_mgmt (TenantId (fx_bare 1)) (IssuerId (fx_bare 2)) (IssuedCredentialId (fx_bare 2))
       try_revoke StatusRevoked w1 = (Inr rc, w2) \<and>
     lifecycle_write fx_mgmt (TenantId (fx_bare 1)) c StatusValid w2 = (Inr e, w3) \<and>
     revoked (IssuedCredentialId (fx_bare 2)) (wdb w2) \<and>
     (\<exists>c3 \<in> set (issued_credentials (wdb w3)). ic_id c3 = IssuedCredentialId (fx_bare 2) \<and> ic_state c3 = CredActive)"
proof -
  let ?t = "TenantId (fx_bare 1)" and ?i = "IssuerId (fx_bare 2)" and ?c = "IssuedCredentialId (fx_bare 2)"
  have rd: "\<exists>c. lifecycle_read fx_mgmt ?t ?i ?c try_unsuspend (fx_issued CredSuspended) = (Inr c, fx_issued CredSuspended) \<and>
      ic_id c = ?c \<and> ic_status_list_id c = StatusListId (fx_bare 4) \<and> ic_status_list_index c = StatusListIndex 0"
    unfolding fx_issued_def
    by (simp add: fx_life_eval fx_half_issued_def fx_rows try_unsuspend_def cong: head_congs)
  obtain c where c: "lifecycle_read fx_mgmt ?t ?i ?c try_unsuspend (fx_issued CredSuspended) = (Inr c, fx_issued CredSuspended)"
    "ic_id c = ?c" "ic_status_list_id c = StatusListId (fx_bare 4)" "ic_status_list_index c = StatusListIndex 0"
    using rd by blast
  have "\<exists>rc w2. run_lifecycle_op fx_mgmt ?t ?i ?c try_revoke StatusRevoked (fx_issued CredSuspended) = (Inr rc, w2) \<and>
      (\<exists>e w3. lifecycle_write fx_mgmt ?t c StatusValid w2 = (Inr e, w3))"
    unfolding run_lifecycle_op_def fx_issued_def
    by (simp add: fx_life_eval fx_half_issued_def fx_rows try_revoke_def c cong: head_congs)
  then obtain rc w2 e w3 where rev: "run_lifecycle_op fx_mgmt ?t ?i ?c try_revoke StatusRevoked (fx_issued CredSuspended) = (Inr rc, w2)"
    and wr: "lifecycle_write fx_mgmt ?t c StatusValid w2 = (Inr e, w3)" by blast
  show ?thesis using unsuspend_can_undo_revocation [OF c(1) rev wr] c(1) rev wr by blast
qed

text \<open>One after the other, the operations never bring a revoked credential back.\<close>

lemma lifecycle_keeps_revoked:
  assumes inv: "data_inv (wdb w)" and rev: "revoked cid (wdb w)"
    and tr: "tr \<in> {try_suspend, try_unsuspend, try_revoke}"
  shows "revoked cid (wdb (snd (run_lifecycle_op st tenant iss cid' tr v w)))"
proof -
  obtain r w' where run: "run_lifecycle_op st tenant iss cid' tr v w = (r, w')" by fastforce
  obtain c where c: "c \<in> set (issued_credentials (wdb w))" "ic_id c = cid" "ic_state c = Revoked"
    using rev by (auto simp: revoked_def)
  consider (same) "wdb w' = wdb w" | (moved) c0 c' bits where
      "find (\<lambda>q. ic_id q = cid' \<and> ic_tenant_id q = tenant) (issued_credentials (wdb w)) = Some c0"
      "tr c0 = Inr c'" "wdb w' = lifecycle_db tenant c' bits (wdb w)"
    using lifecycle_state_and_bit [OF run] by blast
  then show ?thesis
  proof cases
    case same
    then show ?thesis using rev run by simp
  next
    case moved
    have c': "ic_id c' = ic_id c0" "ic_state c0 \<noteq> Revoked"
      using moved(2) tr by (auto simp: try_suspend_def try_unsuspend_def try_revoke_def split: ic_state.splits)
    have "ic_id c0 \<noteq> cid"
    proof
      assume "ic_id c0 = cid"
      then have "c = c0" using cred_unique [OF inv c(1)] c(2) find_SomeD [OF moved(1)] by simp
      then show False using c(3) c'(2) by simp
    qed
    then have "c \<in> set (issued_credentials (wdb w'))"
      using moved(3) c c' by (auto simp: creds_of_lifecycle_db update_where_def image_iff)
    then show ?thesis using run c by (auto simp: revoked_def)
  qed
qed

section \<open>Creating an offer\<close>

lemma resolve_expires_Inr:
  assumes "resolve_expires_in r = Inr e"
  shows "60 * 1000000 \<le> e \<and> e \<le> 3600 * 1000000"
proof -
  define s where "s = (case r of Some s \<Rightarrow> s | None \<Rightarrow> DEFAULT_EXPIRES_IN_SECONDS)"
  have "(60::u32) \<le> s" "s \<le> 3600" and e: "e = uint s * 1000000"
    using assms by (auto simp: resolve_expires_in_def s_def MIN_EXPIRES_IN_SECONDS_def MAX_EXPIRES_IN_SECONDS_def
        DEFAULT_EXPIRES_IN_SECONDS_def duration_seconds_def Let_def split: if_splits option.splits)
  then have "60 \<le> uint s" "uint s \<le> 3600" by (simp_all add: word_le_def)
  then show ?thesis using e by simp
qed

text \<open>An offer is created only by the owner of the issuer, for a type of the tenant that is not retired and is
  assigned to the issuer, with claims that the type's schema accepts; it adds one pending offer that
  expires between one minute and one hour later, and answers with that offer's id and code.\<close>

lemma create_offer_effect:
  assumes "create_offer st tenant issuer req w = (Inr resp, w')"
  shows "\<exists>iss ct off now validator x. parse_issuer_id st issuer = Inr iss \<and>
    find (issuer_of_tenant tenant iss) (issuers (wdb w)) \<noteq> None \<and>
    ct \<in> set (credential_types (wdb w)) \<and> ct_tenant_id ct = tenant \<and> ct_retired_at ct = None \<and>
    (\<exists>as \<in> set (issuer_credential_types (wdb w)). as_issuer_id as = iss \<and> as_credential_type_id as = ct_id ct) \<and>
    fst (get_or_compile (ms_compile st) id (ct_id ct) (ct_claim_schema ct) (ct_updated_at ct) (ms_validators st x)) = Inr validator \<and>
    validator (cor_claims req) = [] \<and>
    co_tenant_id off = tenant \<and> co_issuer_id off = iss \<and> co_vct off = ct_vct ct \<and> co_claims off = cor_claims req \<and>
    offer_wf off \<and> co_state off = OfferPending \<and> co_pre_auth_code off = Some (cors_pre_auth_code resp) \<and>
    cors_id resp = offer_bare (co_id off) \<and> co_expires_at off = cors_expires_at resp \<and>
    now + 60 * 1000000 \<le> co_expires_at off \<and> co_expires_at off \<le> now + 3600 * 1000000 \<and>
    co_id off \<notin> co_id ` set (credential_offers (wdb w)) \<and>
    wdb w' = (wdb w)\<lparr> credential_offers := credential_offers (wdb w) @ [off] \<rparr>"
proof -
  let ?p = "ms_pool st" and ?h = "ms_host st"
  obtain iss ctid ex w1 w2 w3 w4 w5 w6 w7 w8 u1 u2 found ct assigned code now bare created and validator :: validator where
    pi: "parse_issuer_id st issuer = Inr iss" and
    re: "resolve_expires_in (cor_expires_in_seconds req) = Inr ex" and
    a: "acquire_pool_for_issuer st tenant iss w = (Inr u1, w1)" and
    f: "find_credential_type_for_tenant ?p tenant ctid w1 = (Inr found, w2)" and
    ct: "(case found of Some ct \<Rightarrow> if ct_retired_at ct = None then Some ct else None | None \<Rightarrow> None) = Some ct" and
    asg: "is_assigned ?p iss (ct_id ct) w2 = (Inr assigned, w3)" "assigned" and
    va: "validator_for_type st ct w3 = (Inr validator, w4)" and
    ok: "validator (cor_claims req) = []" and
    g1: "(generate_secret ?h :: ('a world, api_error, string) eff) w4 = (Inr code, w5)" and
    n1: "(utc_now ?h :: ('a world, api_error, datetime) eff) w5 = (Inr now, w6)" and
    g2: "(generate_bare ?h :: ('a world, api_error, string) eff) w6 = (Inr bare, w7)" and
    n2: "(utc_now ?h :: ('a world, api_error, datetime) eff) w7 = (Inr created, w8)" and
    ins: "insert_offer ?p (credential_offer_new (CredentialOfferId bare) created tenant iss (Some (ct_id ct)) (ct_vct ct)
        (cor_claims req) (PreAuthCode code) (now + ex)) w8 = (Inr u2, w')" and
    resp: "resp = \<lparr> cors_id = offer_bare (co_id (credential_offer_new (CredentialOfferId bare) created tenant iss (Some (ct_id ct)) (ct_vct ct)
        (cor_claims req) (PreAuthCode code) (now + ex))), cors_pre_auth_code = PreAuthCode code,
        cors_offer_deeplink = build_offer_deeplink (ms_urlencode st) (ms_issuer_base_url st)
          (co_issuer_id (credential_offer_new (CredentialOfferId bare) created tenant iss (Some (ct_id ct)) (ct_vct ct)
            (cor_claims req) (PreAuthCode code) (now + ex)))
          (co_id (credential_offer_new (CredentialOfferId bare) created tenant iss (Some (ct_id ct)) (ct_vct ct)
            (cor_claims req) (PreAuthCode code) (now + ex))), cors_expires_at = now + ex \<rparr>"
    using assms [unfolded create_offer_def Let_def eff_success res_success ret_run prod.inject sum.inject]
    by (elim exE conjE, hypsubst) (rule that, assumption+)
  define off where "off = credential_offer_new (CredentialOfferId bare) created tenant iss (Some (ct_id ct)) (ct_vct ct)
      (cor_claims req) (PreAuthCode code) (now + ex)"
  have w1: "wdb w1 = wdb w" "find (issuer_of_tenant tenant iss) (issuers (wdb w)) \<noteq> None"
    using keeps_db_eq [OF boundary_keeps_db(2) a] ownership_refused(2) [of tenant iss w st] a by (auto simp: refused_def)
  have w2: "wdb w2 = wdb w" "ct \<in> set (credential_types (wdb w))" "ct_tenant_id ct = tenant" "ct_retired_at ct = None"
    using f ct w1 by (auto simp: find_credential_type_for_tenant_def mapErr_eq_Inr dest!: run_query_success find_SomeD
        split: option.splits if_splits)
  have w3: "wdb w3 = wdb w" "\<exists>as \<in> set (issuer_credential_types (wdb w)). as_issuer_id as = iss \<and> as_credential_type_id as = ct_id ct"
    using asg w2 by (auto simp: is_assigned_def mapErr_eq_Inr dest!: run_query_success)
  have va': "\<exists>x. fst (get_or_compile (ms_compile st) id (ct_id ct) (ct_claim_schema ct) (ct_updated_at ct) (ms_validators st x)) = Inr validator"
    using va by (auto simp: validator_for_type_def ext_def split: prod.splits sum.splits intro!: exI [of _ "wext w3"])
  have w8: "wdb w8 = wdb w"
    using keeps_db_eq [OF boundary_keeps_db(3) va] keeps_db_eq [OF generate_secret_keeps_db g1] keeps_db_eq [OF utc_now_keeps_db n1]
      keeps_db_eq [OF generate_bare_keeps_db g2] keeps_db_eq [OF utc_now_keeps_db n2] w3 by simp
  have w': "co_id off \<notin> co_id ` set (credential_offers (wdb w))"
    "wdb w' = (wdb w)\<lparr> credential_offers := credential_offers (wdb w) @ [off] \<rparr>"
    using ins [folded off_def] w8 by (auto simp: insert_offer_def mapErr_eq_Inr dest!: run_stmt_success split: if_splits)
  have off: "offer_wf off" "co_tenant_id off = tenant" "co_issuer_id off = iss" "co_vct off = ct_vct ct"
    "co_claims off = cor_claims req" "co_state off = OfferPending" "co_pre_auth_code off = Some (PreAuthCode code)"
    "co_expires_at off = now + ex" "co_id off = CredentialOfferId bare"
    using credential_offer_new_wf by (simp_all add: off_def credential_offer_new_def)
  show ?thesis
    using va' pi w1 w2 w3 ok off w' resp [folded off_def] resolve_expires_Inr [OF re]
    by (elim exE) (intro exI [of _ iss] exI [of _ ct] exI [of _ off] exI [of _ now] exI [of _ validator] exI conjI, simp_all)
qed

theorem create_offer_effect_witness:
  "\<exists>resp w' off. create_offer fx_mgmt (TenantId (fx_bare 1)) (fx_bare 2) \<lparr> cor_credential_type_id = fx_bare 5,
       cor_claims = JObj [], cor_expires_in_seconds = Some 120 \<rparr> \<lparr> wdb = fx_db, wext = 9 \<rparr> = (Inr resp, w') \<and>
     co_state off = OfferPending \<and> wdb w' = fx_db\<lparr> credential_offers := credential_offers fx_db @ [off] \<rparr>"
proof -
  have n: "bs58_encode fx_bs58 (replicate ID_BYTES 11) = fx_bare 11" by (simp add: fx_bare_def ID_BYTES_def)
  have "\<exists>resp w'. create_offer fx_mgmt (TenantId (fx_bare 1)) (fx_bare 2) \<lparr> cor_credential_type_id = fx_bare 5,
       cor_claims = JObj [], cor_expires_in_seconds = Some 120 \<rparr> \<lparr> wdb = fx_db, wext = 9 \<rparr> = (Inr resp, w')"
    unfolding create_offer_def Let_def
    by (simp add: fx_parse_issuer fx_parse_bare fx_oidc_sel resolve_expires_in_def MIN_EXPIRES_IN_SECONDS_def
        MAX_EXPIRES_IN_SECONDS_def bindE_run mapErr_run fx_run acquire_pool_for_issuer_def
        require_issuer_owned_by_tenant_def exists_for_tenant_def issuer_of_tenant_def issuer_key_def
        find_credential_type_for_tenant_def is_assigned_def validator_for_type_def ext_def get_or_compile_def cache_hit_def
        cache_fill_def generate_secret_def generate_bare_def random_bytes_def insert_offer_def fx_rows n fx_bare_eq
        cong: head_congs)
  then obtain resp w' where run: "create_offer fx_mgmt (TenantId (fx_bare 1)) (fx_bare 2) \<lparr> cor_credential_type_id = fx_bare 5,
       cor_claims = JObj [], cor_expires_in_seconds = Some 120 \<rparr> \<lparr> wdb = fx_db, wext = 9 \<rparr> = (Inr resp, w')"
    by blast
  show ?thesis using create_offer_effect [OF run] run by auto
qed

section \<open>List pages\<close>

text \<open>What the pages of the offer listing are cut from.\<close>

definition listed_offers :: "tenant_id \<Rightarrow> issuer_id \<Rightarrow> datetime \<Rightarrow> offer_state option \<Rightarrow> db \<Rightarrow> credential_offer list" where
  "listed_offers tenant iss now filt d = filter (\<lambda>off. co_tenant_id off = tenant \<and> co_issuer_id off = iss \<and>
     offer_state_matches now filt off) (credential_offers d)"

lemma offer_bare_inj: "offer_bare a = offer_bare b \<longleftrightarrow> a = b"
  by (cases a; cases b) simp

lemma listed_offers_keys:
  assumes "offers_inv d"
  shows "distinct (map offer_page_key (listed_offers tenant iss now filt d))"
proof -
  have "inj_on offer_page_key (set (credential_offers d))"
    using assms by (auto simp: offers_inv_def distinct_map inj_on_def offer_page_key_def offer_bare_inj)
  then show ?thesis
    using assms by (auto simp: listed_offers_def offers_inv_def distinct_map inj_on_def)
qed

text \<open>C24. A client that follows the cursors of the offer listing sees every matching offer of the issuer exactly
  once, newest first, and is done after as many requests as there are pages; each page is what the
  store returns for the cursor before it.\<close>

theorem offer_listing_is_complete:
  assumes inv: "offers_inv d" and lim: "0 < unat limit" and n: "0 < n"
    and enough: "length (listed_offers tenant iss now filt d) \<le> n * unat limit"
  shows "fetch_all offer_page_key (unat limit) (listed_offers tenant iss now filt d) n None =
      Some (order_desc offer_page_key (listed_offers tenant iss now filt d)) \<and>
    set (order_desc offer_page_key (listed_offers tenant iss now filt d)) = set (listed_offers tenant iss now filt d) \<and>
    sorted_wrt (\<lambda>a b. offer_page_key b < offer_page_key a) (order_desc offer_page_key (listed_offers tenant iss now filt d)) \<and>
    (pool_up p \<longrightarrow> wdb w = d \<longrightarrow> fst (list_offers_page p tenant iss
        \<lparr> oq_state_filter = filt, oq_cursor = cur, oq_limit = limit, oq_now = now \<rparr> w) =
      Inr (keyset_page offer_page_key (unat limit) cur (listed_offers tenant iss now filt d)))"
proof (intro conjI impI)
  note k = listed_offers_keys [OF inv, of tenant iss now filt]
  have len: "length (order_desc offer_page_key (listed_offers tenant iss now filt d)) = length (listed_offers tenant iss now filt d)"
    by (simp add: order_desc_def)
  show "fetch_all offer_page_key (unat limit) (listed_offers tenant iss now filt d) n None =
      Some (order_desc offer_page_key (listed_offers tenant iss now filt d))"
    using fetch_all_from [OF k lim, of "[]" _ None n] n enough len by simp
  show "set (order_desc offer_page_key (listed_offers tenant iss now filt d)) = set (listed_offers tenant iss now filt d)"
    by (simp add: order_desc_def)
  show "sorted_wrt (\<lambda>a b. offer_page_key b < offer_page_key a) (order_desc offer_page_key (listed_offers tenant iss now filt d))"
    by (rule order_desc_strict [OF k])
  assume "pool_up p" "wdb w = d"
  then show "fst (list_offers_page p tenant iss
        \<lparr> oq_state_filter = filt, oq_cursor = cur, oq_limit = limit, oq_now = now \<rparr> w) =
      Inr (keyset_page offer_page_key (unat limit) cur (listed_offers tenant iss now filt d))"
    by (simp add: list_offers_page_def mapErr_run run_query_def pool_up_run_stmt listed_offers_def)
qed

theorem offer_listing_is_complete_witness:
  "fetch_all offer_page_key (unat (1 :: u32)) (listed_offers (TenantId (fx_bare 1)) (IssuerId (fx_bare 2)) 5 None fx_redeemed) 2 None =
     Some (order_desc offer_page_key (listed_offers (TenantId (fx_bare 1)) (IssuerId (fx_bare 2)) 5 None fx_redeemed)) \<and>
   length (listed_offers (TenantId (fx_bare 1)) (IssuerId (fx_bare 2)) 5 None fx_redeemed) = 2"
proof -
  have len: "length (listed_offers (TenantId (fx_bare 1)) (IssuerId (fx_bare 2)) 5 None fx_redeemed) = 2"
    by (simp add: listed_offers_def fx_rows)
  have "offers_inv fx_redeemed" using fx_redeemed_inv by (simp add: data_inv_def)
  then show ?thesis using offer_listing_is_complete [of fx_redeemed 1 2 "TenantId (fx_bare 1)" "IssuerId (fx_bare 2)" 5 None fx_pool] len
    by (simp del: One_nat_def)
qed

text \<open>What the cursor codec relies on: the two codecs invert each other, the rendering of a time stamp reads
  back and has no separator in it.\<close>

definition cursor_lib_ok :: "cursor_lib \<Rightarrow> bool" where
  "cursor_lib_ok cl \<longleftrightarrow>
     (\<forall>s. \<exists>bs. cl_bs58_decode cl (cl_bs58_encode_str cl s) = Some bs \<and> cl_from_utf8 cl bs = Some s) \<and>
     (\<forall>t. cl_parse_rfc3339 cl (cl_to_rfc3339 cl t) = Some t \<and> CHR ''|'' \<notin> set (cl_to_rfc3339 cl t))"

text \<open>C25. A cursor handed out by a listing is accepted back and names the row it was made from, so that the next
  page starts right after it; whatever a client sends that does not decode is answered with the one
  invalid-cursor error.\<close>

theorem cursor_round_trip:
  assumes cl: "cursor_lib_ok cl"
  shows "(validate i = Inr () \<longrightarrow> cursor_decode cl validate (cursor_encode cl ts i) = Inr (ts, i)) \<and>
    (cursor_decode cl validate raw = Inl e \<longrightarrow> e = invalid_cursor)"
proof -
  obtain bs where bs: "cl_bs58_decode cl (cursor_encode cl ts i) = Some bs" "cl_from_utf8 cl bs = Some (cl_to_rfc3339 cl ts @ ''|'' @ i)"
    using cl unfolding cursor_lib_ok_def cursor_encode_def by blast
  have "split_once (CHR ''|'') (cl_to_rfc3339 cl ts @ ''|'' @ i) = Some (cl_to_rfc3339 cl ts, i)"
    using cl by (simp add: split_once_append cursor_lib_ok_def)
  moreover have "cl_parse_rfc3339 cl (cl_to_rfc3339 cl ts) = Some ts" using cl by (simp add: cursor_lib_ok_def)
  ultimately have "validate i = Inr () \<longrightarrow> cursor_decode cl validate (cursor_encode cl ts i) = Inr (ts, i)"
    by (simp add: cursor_decode_def bs)
  moreover have "cursor_decode cl validate raw = Inl e \<longrightarrow> e = invalid_cursor"
    by (auto simp: cursor_decode_def result_of_option_def bindR_def mapErrR_def split: option.splits sum.splits prod.splits if_splits)
  ultimately show ?thesis by blast
qed

definition fx_cursor :: cursor_lib where
  "fx_cursor = \<lparr> cl_to_rfc3339 = (\<lambda>t. if t < 0 then CHR ''-'' # replicate (nat (- t)) (CHR ''t'') else replicate (nat t) (CHR ''t'')),
     cl_parse_rfc3339 = (\<lambda>s. Some (if s \<noteq> [] \<and> hd s = CHR ''-'' then - int (length (tl s)) else int (length s))),
     cl_bs58_encode_str = id, cl_bs58_decode = (\<lambda>s. Some (map of_char s)),
     cl_from_utf8 = (\<lambda>bs. Some (map (\<lambda>b. char_of (unat b)) bs)) \<rparr>"


lemma fx_cursor_ok: "cursor_lib_ok fx_cursor"
  unfolding cursor_lib_ok_def fx_cursor_def by (auto simp: char_of_byte comp_def)

theorem cursor_round_trip_witness:
  "cursor_lib_ok fx_cursor \<and>
   cursor_decode fx_cursor (\<lambda>_. Inr ()) (cursor_encode fx_cursor 7 (fx_bare 3)) = Inr (7, fx_bare 3)"
  using cursor_round_trip [OF fx_cursor_ok] fx_cursor_ok by simp

section \<open>Schema validators\<close>

text \<open>C26. The validator cache is transparent: whatever other requests do to the cache in between, as long as they
  too only store validators compiled from the schema of that time stamp, a request gets exactly what
  compiling its type's schema gives, and leaves the cache in that shape.\<close>

theorem validator_cache_is_transparent:
  assumes fresh: "cache_fresh compile schema_at cache"
    and others: "\<And>c. cache_fresh compile schema_at c \<Longrightarrow> cache_fresh compile schema_at (interleave c)"
  shows "fst (get_or_compile compile interleave cid (schema_at cid t) t cache) =
      mapErrR (\<lambda>m. ''failed to compile JSON Schema: '' @ m) (compile (schema_at cid t)) \<and>
    cache_fresh compile schema_at (snd (get_or_compile compile interleave cid (schema_at cid t) t cache))"
proof (cases "cache_hit cid t cache")
  case None
  then show ?thesis using cache_fill_fresh [OF others [OF fresh]] by (simp add: get_or_compile_def)
next
  case (Some v)
  then show ?thesis using cache_hit_fresh [OF fresh] fresh by (simp add: get_or_compile_def)
qed

theorem validator_cache_is_transparent_witness:
  "fst (get_or_compile (\<lambda>_. Inr (\<lambda>_. [])) id (CredentialTypeId (fx_bare 5)) (JObj []) 3
     [CredentialTypeId (fx_bare 5) \<mapsto> \<lparr> vce_validator = (\<lambda>_. []), vce_schema_updated_at = 2 \<rparr>]) = Inr (\<lambda>_. [])"
proof -
  have "cache_fresh (\<lambda>_. Inr (\<lambda>_. [])) (\<lambda>_ _. JObj [])
      [CredentialTypeId (fx_bare 5) \<mapsto> \<lparr> vce_validator = (\<lambda>_. []), vce_schema_updated_at = 2 \<rparr>]"
    by (simp add: cache_fresh_def)
  from validator_cache_is_transparent [OF this, of id "CredentialTypeId (fx_bare 5)" 3] show ?thesis by simp
qed

end
