(* ===== verification/IssuerApi.thy ===== *)
theory IssuerApi
  imports ApiCommon TaskStore RotateKeysSaga
begin

text \<open>
  \<open>api_management/issuers.rs\<close> and \<open>api_management/operation_tasks.rs\<close>: the
  handlers that submit the long-running operations as tasks, and the ones that
  read issuers and poll tasks.
\<close>

section \<open>Requests and responses\<close>

record create_issuer_submission =
  cis_description :: "string option"
  cis_display_name :: "string option"

record task_response =
  tkr_task_id :: "string option"
  tkr_issuer_id :: string

record issuer_response =
  irs_id :: string
  irs_did :: string
  irs_state :: string
  irs_description :: string
  irs_display_name :: string

record operation_task_response =
  otr_id :: string
  otr_task_type :: string
  otr_state :: string
  otr_step :: "string option"
  otr_attempts :: u32
  otr_next_attempt_at :: "datetime option"
  otr_error_code :: "string option"
  otr_error_message :: "string option"
  otr_created_at :: datetime
  otr_updated_at :: datetime
  otr_completed_at :: "datetime option"

record list_issuers_params =
  lip_limit :: "u32 option"
  lip_cursor :: "string option"

definition MAX_FIELD_LENGTH :: nat where "MAX_FIELD_LENGTH = 255"

section \<open>Submission\<close>

text \<open>The row all three submissions insert.\<close>

definition submitted_task ::
  "string \<Rightarrow> tenant_id \<Rightarrow> task_type \<Rightarrow> json \<Rightarrow> issuer_id \<Rightarrow> datetime \<Rightarrow> operation_task" where
  "submitted_task bare tenant ty input issuer now =
     \<lparr> ot_id = TaskId bare, ot_tenant_id = tenant, ot_task_type = ty, ot_state = TaskPending, ot_step = None,
       ot_attempts = 0, ot_next_attempt_at = None, ot_error_code = None, ot_error_message = None,
       ot_input = input, ot_state_data = JObj [], ot_result_issuer_id = Some issuer,
       ot_created_at = now, ot_updated_at = now, ot_completed_at = None \<rparr>"

definition create_issuer ::
  "'x mgmt_state \<Rightarrow> tenant_id \<Rightarrow> create_issuer_submission \<Rightarrow> ('x world, api_error, nat \<times> task_response) eff" where
  "create_issuer st tenant payload =
     (let h = ms_host st in
     bindE (liftR (normalise_optional ''description'' (cis_description payload) MAX_FIELD_LENGTH)) (\<lambda>description.
     bindE (liftR (normalise_optional ''display_name'' (cis_display_name payload) MAX_FIELD_LENGTH)) (\<lambda>supplied.
     bindE (generate_bare h) (\<lambda>issuer_bare.
     let display_name = (case supplied of Some n \<Rightarrow> n | None \<Rightarrow> ''Issuer '' @ issuer_bare);
         descr = (case description of Some d \<Rightarrow> d | None \<Rightarrow> []) in
     bindE (generate_bare h) (\<lambda>task_bare.
     bindE (utc_now h) (\<lambda>now.
     let task = submitted_task task_bare tenant CreateIssuer
           (JObj [(''description'', JStr descr), (''display_name'', JStr display_name)]) (IssuerId issuer_bare) now in
     bindE (mapErr (api_sql st) (acquire (ms_pool st))) (\<lambda>_.
     bindE (api_db st (insert_task (ms_pool st) task)) (\<lambda>_.
     ret (201, \<lparr> tkr_task_id = Some task_bare, tkr_issuer_id = issuer_bare \<rparr>)))))))))"

definition task_is_live :: "operation_task \<Rightarrow> bool" where
  "task_is_live t \<longleftrightarrow> ot_state t = TaskPending \<or> ot_state t = InProgress"

definition load_managed_issuer ::
  "'x mgmt_state \<Rightarrow> tenant_id \<Rightarrow> issuer_id \<Rightarrow> ('x world, api_error, issuer) eff" where
  "load_managed_issuer st tenant issuer_id =
     bindE (mapErr (api_sql st) (acquire (ms_pool st))) (\<lambda>_.
     bindE (api_db st (find_issuer_by_id_for_tenant (ms_pool st) tenant issuer_id)) (okOr ApiNotFound))"

definition submit_task ::
  "'x mgmt_state \<Rightarrow> tenant_id \<Rightarrow> task_type \<Rightarrow> json \<Rightarrow> issuer_id \<Rightarrow> ('x world, api_error, nat \<times> task_response) eff" where
  "submit_task st tenant ty input issuer_id =
     bindE (generate_bare (ms_host st)) (\<lambda>task_bare.
     bindE (utc_now (ms_host st)) (\<lambda>now.
     bindE (api_db st (insert_task (ms_pool st) (submitted_task task_bare tenant ty input issuer_id now))) (\<lambda>_.
     ret (201, \<lparr> tkr_task_id = Some task_bare, tkr_issuer_id = issuer_bare issuer_id \<rparr>))))"

definition deactivate ::
  "'x mgmt_state \<Rightarrow> tenant_id \<Rightarrow> string \<Rightarrow> ('x world, api_error, nat \<times> task_response) eff" where
  "deactivate st tenant issuer_id_str =
     bindE (liftR (parse_issuer_id st issuer_id_str)) (\<lambda>issuer_id.
     bindE (load_managed_issuer st tenant issuer_id) (\<lambda>issuer.
     bindE (okOr ApiNotFound (iss_state issuer)) (\<lambda>issuer_state.
     bindE (api_db st (find_latest_by_type_and_issuer (ms_pool st) tenant issuer_id DeactivateIssuer)) (\<lambda>existing.
     case (issuer_state, existing) of
       (Deactivated, Some task) \<Rightarrow>
         ret (200, \<lparr> tkr_task_id = Some (task_bare (ot_id task)), tkr_issuer_id = issuer_bare issuer_id \<rparr>)
     | (Deactivated, None) \<Rightarrow> ret (200, \<lparr> tkr_task_id = None, tkr_issuer_id = issuer_bare issuer_id \<rparr>)
     | (IssuerActive, Some task) \<Rightarrow>
         if task_is_live task
         then ret (200, \<lparr> tkr_task_id = Some (task_bare (ot_id task)), tkr_issuer_id = issuer_bare issuer_id \<rparr>)
         else submit_task st tenant DeactivateIssuer (JObj []) issuer_id
     | (IssuerActive, None) \<Rightarrow> submit_task st tenant DeactivateIssuer (JObj []) issuer_id))))"

definition rotate_keys ::
  "'x mgmt_state \<Rightarrow> tenant_id \<Rightarrow> string \<Rightarrow> json \<Rightarrow> ('x world, api_error, nat \<times> task_response) eff" where
  "rotate_keys st tenant issuer_id_str body =
     bindE (liftR (mapErrR ApiInvalidInput (rotate_keys_input_decode body))) (\<lambda>input.
     bindE (liftR (parse_issuer_id st issuer_id_str)) (\<lambda>issuer_id.
     bindE (load_managed_issuer st tenant issuer_id) (\<lambda>issuer.
     bindE (okOr ApiNotFound (iss_state issuer)) (\<lambda>issuer_state.
     bindE (guardE (issuer_state \<noteq> Deactivated)
              (Conflict ''rotation is not permitted on a deactivated issuer'')) (\<lambda>_.
     bindE (api_db st (find_latest_by_type_and_issuer (ms_pool st) tenant issuer_id RotateKeys)) (\<lambda>existing.
     case existing of
       Some task \<Rightarrow>
         if task_is_live task
         then ret (200, \<lparr> tkr_task_id = Some (task_bare (ot_id task)), tkr_issuer_id = issuer_bare issuer_id \<rparr>)
         else submit_task st tenant RotateKeys (JObj [(''roles'', wire_roles_serialize (rk_roles input))]) issuer_id
     | None \<Rightarrow> submit_task st tenant RotateKeys (JObj [(''roles'', wire_roles_serialize (rk_roles input))]) issuer_id))))))"

section \<open>Reading\<close>

definition issuer_to_response :: "issuer \<Rightarrow> api_error + issuer_response" where
  "issuer_to_response i =
     bindR (result_of_option ApiNotFound (iss_state i)) (\<lambda>state.
     bindR (result_of_option (ApiInternal ''issuer row missing BA-facing field `description`'')
              (iss_description i)) (\<lambda>description.
     bindR (result_of_option (ApiInternal ''issuer row missing BA-facing field `display_name`'')
              (iss_display_name i)) (\<lambda>display_name.
     Inr \<lparr> irs_id = issuer_bare (iss_id i), irs_did = iss_did i, irs_state = issuer_state_as_str state,
           irs_description = description, irs_display_name = display_name \<rparr>)))"

definition get_issuer ::
  "'x mgmt_state \<Rightarrow> tenant_id \<Rightarrow> string \<Rightarrow> ('x world, api_error, issuer_response) eff" where
  "get_issuer st tenant issuer_id_str =
     bindE (liftR (parse_issuer_id st issuer_id_str)) (\<lambda>issuer_id.
     bindE (load_managed_issuer st tenant issuer_id) (\<lambda>issuer. liftR (issuer_to_response issuer)))"

fun collect_results :: "('e + 'a) list \<Rightarrow> 'e + 'a list" where
  "collect_results [] = Inr []"
| "collect_results (r # rs) = bindR r (\<lambda>a. bindR (collect_results rs) (\<lambda>as. Inr (a # as)))"

definition list_issuers ::
  "'x mgmt_state \<Rightarrow> tenant_id \<Rightarrow> list_issuers_params \<Rightarrow>
   ('x world, api_error, issuer_response list \<times> string option) eff" where
  "list_issuers st tenant query =
     bindE (liftR (resolve_list_limit (lip_limit query))) (\<lambda>limit.
     bindE (liftR (transposeR (map_option (cursor_decode (ms_cursor st)
              (\<lambda>bare. bindR (id_from_bare (host_bs58 (ms_host st)) IssuerId bare) (\<lambda>_. Inr ()))) (lip_cursor query)))) (\<lambda>cur.
     bindE (mapErr (api_sql st) (acquire (ms_pool st))) (\<lambda>_.
     bindE (api_db st (list_issuers_page (ms_pool st) tenant cur limit)) (\<lambda>page.
     bindE (liftR (collect_results (map issuer_to_response (lp_items page)))) (\<lambda>items.
     ret (items,
          if lp_has_more page \<and> lp_items page \<noteq> []
          then (let i = last (lp_items page)
                in Some (cursor_encode (ms_cursor st) (iss_created_at i) (issuer_bare (iss_id i))))
          else None))))))"

definition task_to_response :: "operation_task \<Rightarrow> operation_task_response" where
  "task_to_response t =
     \<lparr> otr_id = task_bare (ot_id t), otr_task_type = task_type_as_str (ot_task_type t),
       otr_state = task_state_as_str (ot_state t), otr_step = ot_step t, otr_attempts = ot_attempts t,
       otr_next_attempt_at = ot_next_attempt_at t, otr_error_code = ot_error_code t,
       otr_error_message = ot_error_message t, otr_created_at = ot_created_at t,
       otr_updated_at = ot_updated_at t, otr_completed_at = ot_completed_at t \<rparr>"

definition get_operation_task ::
  "'x mgmt_state \<Rightarrow> tenant_id \<Rightarrow> string \<Rightarrow> ('x world, api_error, operation_task_response) eff" where
  "get_operation_task st tenant task_id_str =
     bindE (liftR (parse_path_id st ''task_id'' TaskId task_id_str)) (\<lambda>task_id.
     bindE (mapErr (api_sql st) (acquire (ms_pool st))) (\<lambda>_.
     bindE (api_db st (find_task_by_id (ms_pool st) tenant task_id)) (\<lambda>task.
     ret (task_to_response task))))"

lemma submitted_task_wf: "task_wf (submitted_task b t ty inp i now)"
  by (simp add: submitted_task_def task_wf_def)

end
