(* ===== verification/CredentialTypeApi.thy ===== *)
theory CredentialTypeApi
  imports ApiCommon
begin

text \<open>
  Credential types and their assignment to issuers:
  \<open>persistence/credential_types.rs\<close>, \<open>persistence/issuer_credential_types.rs\<close>
  and \<open>api_management/credential_types.rs\<close>.
\<close>

section \<open>Type statements\<close>

datatype update_outcome = Updated | UpdateNotFound

definition outcome_of_rows :: "nat \<Rightarrow> update_outcome" where
  "outcome_of_rows n = (if n = 0 then UpdateNotFound else Updated)"

definition type_of_tenant :: "tenant_id \<Rightarrow> ctype_id \<Rightarrow> credential_type \<Rightarrow> bool" where
  "type_of_tenant tenant i c \<longleftrightarrow> ct_id c = i \<and> ct_tenant_id c = tenant"

definition insert_credential_type ::
  "'x pool \<Rightarrow> credential_type \<Rightarrow> ('x world, persistence_error, unit) eff" where
  "insert_credential_type p c = mapErr map_database_error (run_stmt p (\<lambda>d.
     if ct_id c \<in> ct_id ` set (credential_types d) then Inl (SqlUnique ''credential_types_pkey'')
     else if \<exists>e \<in> set (credential_types d). ct_tenant_id e = ct_tenant_id c \<and> ct_vct e = ct_vct c
     then Inl (SqlUnique ''credential_types_tenant_id_vct_key'')
     else if ct_tenant_id c \<notin> tn_id ` set (tenants d)
     then Inl (SqlConstraint ''credential_types_tenant_id_fkey'')
     else Inr ((), d\<lparr> credential_types := credential_types d @ [c] \<rparr>)))"

definition find_credential_type_by_id ::
  "'x pool \<Rightarrow> ctype_id \<Rightarrow> ('x world, persistence_error, credential_type option) eff" where
  "find_credential_type_by_id p i =
     mapErr DbError (run_query p (\<lambda>_ d. Inr (row_by ct_id i (credential_types d))))"

definition find_by_vct_for_tenant ::
  "'x pool \<Rightarrow> tenant_id \<Rightarrow> string \<Rightarrow> ('x world, persistence_error, credential_type option) eff" where
  "find_by_vct_for_tenant p tenant vct = mapErr DbError (run_query p (\<lambda>_ d. Inr
     (find (\<lambda>c. ct_tenant_id c = tenant \<and> ct_vct c = vct) (credential_types d))))"

definition ctype_page_key :: "credential_type \<Rightarrow> page_key" where
  "ctype_page_key c = (ct_created_at c, ctype_bare (ct_id c))"

definition list_types_page ::
  "'x pool \<Rightarrow> tenant_id \<Rightarrow> page_key option \<Rightarrow> u32 \<Rightarrow> bool \<Rightarrow>
   ('x world, persistence_error, credential_type list_page) eff" where
  "list_types_page p tenant cursor limit include_retired =
     mapErr DbError (run_query p (\<lambda>_ d. Inr (keyset_page ctype_page_key (unat limit) cursor
       (filter (\<lambda>c. ct_tenant_id c = tenant \<and> (include_retired \<or> ct_retired_at c = None)) (credential_types d)))))"

text \<open>A join with the assignments, newest assignment first.\<close>

definition list_assigned_to_issuer ::
  "'x pool \<Rightarrow> tenant_id \<Rightarrow> issuer_id \<Rightarrow> ('x world, persistence_error, credential_type list) eff" where
  "list_assigned_to_issuer p tenant issuer = mapErr DbError (run_query p (\<lambda>_ d. Inr
     (map snd (order_desc fst
       [((as_assigned_at a, ctype_bare (ct_id c)), c).
          a \<leftarrow> issuer_credential_types d, as_issuer_id a = issuer,
          c \<leftarrow> credential_types d, ct_id c = as_credential_type_id a \<and> ct_tenant_id c = tenant]))))"

record structured_update =
  su_vct :: "string option"
  su_internal_description :: "string option"
  su_claim_schema_source_url :: "string option"
  su_default_validity_duration :: "int option"
  su_revocation_mode :: "revocation_mode option"

definition coalesce :: "'a option \<Rightarrow> 'a \<Rightarrow> 'a" where
  "coalesce a b = (case a of Some v \<Rightarrow> v | None \<Rightarrow> b)"

definition apply_structured :: "structured_update \<Rightarrow> datetime \<Rightarrow> credential_type \<Rightarrow> credential_type" where
  "apply_structured u now c = c\<lparr>
     ct_vct := coalesce (su_vct u) (ct_vct c),
     ct_internal_description := (case su_internal_description u of Some v \<Rightarrow> Some v | None \<Rightarrow> ct_internal_description c),
     ct_claim_schema_source_url :=
       (case su_claim_schema_source_url u of Some v \<Rightarrow> Some v | None \<Rightarrow> ct_claim_schema_source_url c),
     ct_default_validity_duration := coalesce (su_default_validity_duration u) (ct_default_validity_duration c),
     ct_revocation_mode := coalesce (su_revocation_mode u) (ct_revocation_mode c),
     ct_updated_at := now \<rparr>"

definition update_structured ::
  "'x pool \<Rightarrow> tenant_id \<Rightarrow> ctype_id \<Rightarrow> structured_update \<Rightarrow> ('x world, persistence_error, update_outcome) eff" where
  "update_structured p tenant i u = bindE (mapErr map_database_error (\<lambda>w. run_stmt p (\<lambda>d.
     if \<exists>c \<in> set (credential_types d). \<exists>e \<in> set (credential_types d). type_of_tenant tenant i c \<and> ct_id e \<noteq> i \<and>
          ct_tenant_id e = tenant \<and> ct_vct e = coalesce (su_vct u) (ct_vct c)
     then Inl (SqlUnique ''credential_types_tenant_id_vct_key'')
     else update_stmt credential_types_update credential_types (type_of_tenant tenant i)
            (apply_structured u (sql_now p (wext w))) d) w))
     (\<lambda>n. ret (outcome_of_rows n))"

definition update_type_blob ::
  "'x pool \<Rightarrow> tenant_id \<Rightarrow> ctype_id \<Rightarrow> (datetime \<Rightarrow> credential_type \<Rightarrow> credential_type) \<Rightarrow>
   ('x world, persistence_error, update_outcome) eff" where
  "update_type_blob p tenant i f = bindE (mapErr DbError (\<lambda>w. run_stmt p
     (update_stmt credential_types_update credential_types (type_of_tenant tenant i) (f (sql_now p (wext w)))) w))
     (\<lambda>n. ret (outcome_of_rows n))"

definition update_blob_schema where
  "update_blob_schema p tenant i schema = update_type_blob p tenant i
     (\<lambda>now c. c\<lparr> ct_claim_schema := schema, ct_claim_schema_fetched_at := Some now, ct_updated_at := now \<rparr>)"

definition update_blob_display where
  "update_blob_display p tenant i display = update_type_blob p tenant i
     (\<lambda>now c. c\<lparr> ct_display := display, ct_updated_at := now \<rparr>)"

definition update_blob_claims where
  "update_blob_claims p tenant i claims = update_type_blob p tenant i
     (\<lambda>now c. c\<lparr> ct_claims := claims, ct_updated_at := now \<rparr>)"

definition retire_type ::
  "'x pool \<Rightarrow> tenant_id \<Rightarrow> ctype_id \<Rightarrow> datetime \<Rightarrow> ('x world, persistence_error, update_outcome) eff" where
  "retire_type p tenant i now =
     bindE (mapErr DbError (run_stmt p (update_stmt credential_types_update credential_types (type_of_tenant tenant i)
        (\<lambda>c. c\<lparr> ct_retired_at := Some now, ct_updated_at := now \<rparr>)))) (\<lambda>n.
     if n = 0 then ret UpdateNotFound
     else bindE (mapErr DbError (run_stmt p (\<lambda>d. Inr ((), issuer_credential_types_update
              (filter (\<lambda>a. as_credential_type_id a \<noteq> i)) d)))) (\<lambda>_. ret Updated))"

text \<open>\<open>pg_interval_to_duration\<close>: the three components of an interval, checked.\<close>

definition fits_i64 :: "int \<Rightarrow> bool" where
  "fits_i64 v \<longleftrightarrow> - (2 ^ 63) \<le> v \<and> v < 2 ^ 63"

definition pg_interval_to_duration :: "32 word \<Rightarrow> 32 word \<Rightarrow> 64 word \<Rightarrow> persistence_error + int" where
  "pg_interval_to_duration months days microseconds =
     (if months \<noteq> 0
      then Inl (DataIntegrity (''credential_types.default_validity_duration has non-zero months: ''
             @ show_int (sint months)))
      else if \<not> fits_i64 (sint days * 86400000000)
      then Inl (DataIntegrity ''credential_types.default_validity_duration days component overflow'')
      else if \<not> fits_i64 (sint days * 86400000000 + sint microseconds)
      then Inl (DataIntegrity ''credential_types.default_validity_duration microseconds overflow'')
      else Inr (sint days * 86400000000 + sint microseconds))"

section \<open>Assignment statements\<close>

record pair_ownership =
  po_issuer_owned :: bool
  po_credential_type_owned :: bool

definition owns_both :: "pair_ownership \<Rightarrow> bool" where
  "owns_both o' \<longleftrightarrow> po_issuer_owned o' \<and> po_credential_type_owned o'"

definition tenant_owns_pair ::
  "'x pool \<Rightarrow> tenant_id \<Rightarrow> issuer_id \<Rightarrow> ctype_id \<Rightarrow> ('x world, persistence_error, pair_ownership) eff" where
  "tenant_owns_pair p tenant issuer ctype = mapErr DbError (run_query p (\<lambda>_ d. Inr
     \<lparr> po_issuer_owned = (\<exists>r \<in> set (issuers d). issuer_of_tenant tenant issuer r),
       po_credential_type_owned = (\<exists>c \<in> set (credential_types d). type_of_tenant tenant ctype c) \<rparr>))"

datatype assign_outcome = AlreadyAssigned | NowAssigned
datatype unassign_outcome = NotAssigned | NowUnassigned

abbreviation assigned_pair :: "issuer_id \<Rightarrow> ctype_id \<Rightarrow> assignment_row \<Rightarrow> bool" where
  "assigned_pair issuer ctype a \<equiv> as_issuer_id a = issuer \<and> as_credential_type_id a = ctype"

definition assign_type :: "'x pool \<Rightarrow> assignment_row \<Rightarrow> ('x world, persistence_error, assign_outcome) eff" where
  "assign_type p a = mapErr map_database_error (run_stmt p (\<lambda>d.
     if \<exists>b \<in> set (issuer_credential_types d). assigned_pair (as_issuer_id a) (as_credential_type_id a) b
     then Inr (AlreadyAssigned, d)
     else if as_issuer_id a \<notin> issuer_key ` set (issuers d)
     then Inl (SqlConstraint ''issuer_credential_types_issuer_id_fkey'')
     else if as_credential_type_id a \<notin> ct_id ` set (credential_types d)
     then Inl (SqlConstraint ''issuer_credential_types_credential_type_id_fkey'')
     else if as_tenant_id a \<notin> tn_id ` set (tenants d)
     then Inl (SqlConstraint ''issuer_credential_types_tenant_id_fkey'')
     else Inr (NowAssigned, d\<lparr> issuer_credential_types := issuer_credential_types d @ [a] \<rparr>)))"

definition unassign_type ::
  "'x pool \<Rightarrow> issuer_id \<Rightarrow> ctype_id \<Rightarrow> ('x world, persistence_error, unassign_outcome) eff" where
  "unassign_type p issuer ctype = mapErr DbError (run_stmt p (\<lambda>d. Inr
     (if rows_matching (assigned_pair issuer ctype) (issuer_credential_types d) = 0 then NotAssigned else NowUnassigned,
      issuer_credential_types_update (filter (\<lambda>a. \<not> assigned_pair issuer ctype a)) d)))"

definition list_by_issuer :: "'x pool \<Rightarrow> issuer_id \<Rightarrow> ('x world, persistence_error, assignment_row list) eff" where
  "list_by_issuer p issuer = mapErr DbError (run_query p (\<lambda>_ d. Inr
     (order_desc (\<lambda>a. (as_assigned_at a, ctype_bare (as_credential_type_id a)))
        (filter (\<lambda>a. as_issuer_id a = issuer) (issuer_credential_types d)))))"

definition list_by_credential_type ::
  "'x pool \<Rightarrow> ctype_id \<Rightarrow> ('x world, persistence_error, assignment_row list) eff" where
  "list_by_credential_type p ctype = mapErr DbError (run_query p (\<lambda>_ d. Inr
     (order_desc (\<lambda>a. (as_assigned_at a, issuer_bare (as_issuer_id a)))
        (filter (\<lambda>a. as_credential_type_id a = ctype) (issuer_credential_types d)))))"

section \<open>Type handlers\<close>

record create_type_request =
  ctr_vct :: string
  ctr_claim_schema :: json
  ctr_claims :: "json option"
  ctr_display :: "json option"
  ctr_internal_description :: "string option"
  ctr_claim_schema_source_url :: "string option"
  ctr_default_validity_seconds :: u64
  ctr_revocation_mode :: string

record type_response =
  tyr_id :: string
  tyr_vct :: string
  tyr_internal_description :: "string option"
  tyr_claim_schema_source_url :: "string option"
  tyr_claim_schema_fetched_at :: "datetime option"
  tyr_default_validity_seconds :: nat
  tyr_revocation_mode :: string
  tyr_created_at :: datetime
  tyr_updated_at :: datetime
  tyr_retired_at :: "datetime option"

record patch_type_request =
  ptr_vct :: "string option"
  ptr_internal_description :: "string option"
  ptr_claim_schema_source_url :: "string option"
  ptr_default_validity_seconds :: "u64 option"
  ptr_revocation_mode :: "string option"

record list_types_params =
  ltp_limit :: "u32 option"
  ltp_cursor :: "string option"
  ltp_retired :: bool

definition TYPE_FIELD_LENGTH :: nat where "TYPE_FIELD_LENGTH = 1024"
definition MIN_VALIDITY_SECONDS :: u64 where "MIN_VALIDITY_SECONDS = 1"
definition MAX_VALIDITY_SECONDS :: u64 where "MAX_VALIDITY_SECONDS = 10000000000"

definition parse_credential_type_id :: "'x mgmt_state \<Rightarrow> string \<Rightarrow> api_error + ctype_id" where
  "parse_credential_type_id st = parse_path_id st ''credential_type_id'' CredentialTypeId"

text \<open>
  The range check; \<open>Duration::try_seconds\<close> cannot fail below its bound of
  \<open>i64::MAX\<close> milliseconds, which the upper bound respects.
\<close>

definition resolve_validity :: "u64 \<Rightarrow> api_error + int" where
  "resolve_validity seconds =
     (if \<not> (MIN_VALIDITY_SECONDS \<le> seconds \<and> seconds \<le> MAX_VALIDITY_SECONDS)
      then Inl (ApiInvalidInput (''default_validity_seconds must be between ''
             @ show_nat (unat MIN_VALIDITY_SECONDS) @ '' and '' @ show_nat (unat MAX_VALIDITY_SECONDS)
             @ '', got '' @ show_nat (unat seconds)))
      else Inr (uint seconds * 1000000))"

definition parse_revocation_mode :: "string \<Rightarrow> api_error + revocation_mode" where
  "parse_revocation_mode raw =
     mapErrR (\<lambda>e. ApiInvalidInput (''revocation_mode: '' @ show_domain_error e)) (revocation_mode_try_from raw)"

definition validate_display :: "json \<Rightarrow> api_error + json" where
  "validate_display v = (case v of JArr _ \<Rightarrow> Inr v | _ \<Rightarrow> Inl (ApiInvalidInput ''display must be a JSON array''))"

definition validate_type_claims :: "json \<Rightarrow> api_error + json" where
  "validate_type_claims v = (case v of JObj _ \<Rightarrow> Inr v | _ \<Rightarrow> Inl (ApiInvalidInput ''claims must be a JSON object''))"

definition check_schema :: "'x mgmt_state \<Rightarrow> json \<Rightarrow> api_error + unit" where
  "check_schema st schema = (case ms_compile st schema of
     Inl m \<Rightarrow> Inl (ApiInvalidInput (''claim_schema does not compile: '' @ m)) | Inr _ \<Rightarrow> Inr ())"

text \<open>\<open>num_seconds\<close> truncates toward zero; a negative duration shows as zero.\<close>

definition type_to_response :: "credential_type \<Rightarrow> type_response" where
  "type_to_response c =
     \<lparr> tyr_id = ctype_bare (ct_id c), tyr_vct = ct_vct c, tyr_internal_description = ct_internal_description c,
       tyr_claim_schema_source_url = ct_claim_schema_source_url c,
       tyr_claim_schema_fetched_at = ct_claim_schema_fetched_at c,
       tyr_default_validity_seconds = nat (ct_default_validity_duration c div 1000000),
       tyr_revocation_mode = revocation_mode_as_str (ct_revocation_mode c),
       tyr_created_at = ct_created_at c, tyr_updated_at = ct_updated_at c, tyr_retired_at = ct_retired_at c \<rparr>"

definition create_type ::
  "'x mgmt_state \<Rightarrow> tenant_id \<Rightarrow> create_type_request \<Rightarrow> ('x world, api_error, nat \<times> string) eff" where
  "create_type st tenant payload =
     bindE (liftR (normalise_required ''vct'' (ctr_vct payload) TYPE_FIELD_LENGTH)) (\<lambda>vct.
     bindE (liftR (normalise_optional ''internal_description'' (ctr_internal_description payload) TYPE_FIELD_LENGTH)) (\<lambda>descr.
     bindE (liftR (normalise_optional ''claim_schema_source_url'' (ctr_claim_schema_source_url payload) TYPE_FIELD_LENGTH)) (\<lambda>url.
     bindE (liftR (resolve_validity (ctr_default_validity_seconds payload))) (\<lambda>validity.
     bindE (liftR (parse_revocation_mode (ctr_revocation_mode payload))) (\<lambda>mode.
     bindE (liftR (validate_display (coalesce (ctr_display payload) (JArr [])))) (\<lambda>display.
     bindE (liftR (validate_type_claims (coalesce (ctr_claims payload) (JObj [])))) (\<lambda>claims.
     bindE (liftR (check_schema st (ctr_claim_schema payload))) (\<lambda>_.
     bindE (generate_bare (ms_host st)) (\<lambda>bare.
     bindE (utc_now (ms_host st)) (\<lambda>now.
     bindE (mapErr (api_sql st) (acquire (ms_pool st))) (\<lambda>_.
     bindE (api_db st (insert_credential_type (ms_pool st)
        ((credential_type_new (CredentialTypeId bare) now tenant vct display descr (ctr_claim_schema payload) claims validity mode)
           \<lparr> ct_claim_schema_source_url := url \<rparr>))) (\<lambda>_.
     ret (201, bare)))))))))))))"

definition load_type ::
  "'x mgmt_state \<Rightarrow> tenant_id \<Rightarrow> string \<Rightarrow> ('x world, api_error, credential_type) eff" where
  "load_type st tenant id_str =
     bindE (liftR (parse_credential_type_id st id_str)) (\<lambda>i.
     bindE (mapErr (api_sql st) (acquire (ms_pool st))) (\<lambda>_.
     bindE (api_db st (find_credential_type_for_tenant (ms_pool st) tenant i)) (okOr ApiNotFound)))"

definition get_type where
  "get_type st tenant id_str = bindE (load_type st tenant id_str) (\<lambda>c. ret (type_to_response c))"

definition get_schema where
  "get_schema st tenant id_str = bindE (load_type st tenant id_str) (\<lambda>c. ret (ct_claim_schema c))"

definition get_display where
  "get_display st tenant id_str = bindE (load_type st tenant id_str) (\<lambda>c. ret (ct_display c))"

definition get_claims where
  "get_claims st tenant id_str = bindE (load_type st tenant id_str) (\<lambda>c. ret (ct_claims c))"

definition list_types ::
  "'x mgmt_state \<Rightarrow> tenant_id \<Rightarrow> list_types_params \<Rightarrow> ('x world, api_error, type_response list \<times> string option) eff" where
  "list_types st tenant query =
     bindE (liftR (resolve_list_limit (ltp_limit query))) (\<lambda>limit.
     bindE (liftR (transposeR (map_option (cursor_decode (ms_cursor st)
              (\<lambda>bare. bindR (id_from_bare (host_bs58 (ms_host st)) CredentialTypeId bare) (\<lambda>_. Inr ()))) (ltp_cursor query)))) (\<lambda>cur.
     bindE (mapErr (api_sql st) (acquire (ms_pool st))) (\<lambda>_.
     bindE (api_db st (list_types_page (ms_pool st) tenant cur limit (ltp_retired query))) (\<lambda>page.
     ret (map type_to_response (lp_items page),
          if lp_has_more page \<and> lp_items page \<noteq> []
          then (let c = last (lp_items page)
                in Some (cursor_encode (ms_cursor st) (ct_created_at c) (ctype_bare (ct_id c))))
          else None)))))"

text \<open>The tail the update handlers share: a missing row is 404, then the row is read back.\<close>

definition finish_type_update ::
  "'x mgmt_state \<Rightarrow> tenant_id \<Rightarrow> ctype_id \<Rightarrow> update_outcome \<Rightarrow> ('x world, api_error, type_response) eff" where
  "finish_type_update st tenant i outcome =
     bindE (guardE (outcome \<noteq> UpdateNotFound) ApiNotFound) (\<lambda>_.
     bindE (api_db st (find_credential_type_for_tenant (ms_pool st) tenant i)) (\<lambda>found.
     bindE (okOr ApiNotFound found) (\<lambda>c. ret (type_to_response c))))"

definition patch_type ::
  "'x mgmt_state \<Rightarrow> tenant_id \<Rightarrow> string \<Rightarrow> patch_type_request \<Rightarrow> ('x world, api_error, type_response) eff" where
  "patch_type st tenant id_str payload =
     bindE (liftR (parse_credential_type_id st id_str)) (\<lambda>i.
     bindE (liftR (transposeR (map_option (\<lambda>raw. normalise_required ''vct'' raw TYPE_FIELD_LENGTH) (ptr_vct payload)))) (\<lambda>vct.
     bindE (liftR (transposeR (map_option (\<lambda>raw. normalise_required ''internal_description'' raw TYPE_FIELD_LENGTH)
              (ptr_internal_description payload)))) (\<lambda>descr.
     bindE (liftR (transposeR (map_option (\<lambda>raw. normalise_required ''claim_schema_source_url'' raw TYPE_FIELD_LENGTH)
              (ptr_claim_schema_source_url payload)))) (\<lambda>url.
     bindE (liftR (transposeR (map_option resolve_validity (ptr_default_validity_seconds payload)))) (\<lambda>validity.
     bindE (liftR (transposeR (map_option parse_revocation_mode (ptr_revocation_mode payload)))) (\<lambda>mode.
     bindE (mapErr (api_sql st) (acquire (ms_pool st))) (\<lambda>_.
     bindE (api_db st (update_structured (ms_pool st) tenant i
        \<lparr> su_vct = vct, su_internal_description = descr, su_claim_schema_source_url = url,
          su_default_validity_duration = validity, su_revocation_mode = mode \<rparr>)) (\<lambda>outcome.
     finish_type_update st tenant i outcome))))))))"

definition put_schema ::
  "'x mgmt_state \<Rightarrow> tenant_id \<Rightarrow> string \<Rightarrow> json \<Rightarrow> ('x world, api_error, type_response) eff" where
  "put_schema st tenant id_str body =
     bindE (liftR (parse_credential_type_id st id_str)) (\<lambda>i.
     bindE (liftR (check_schema st body)) (\<lambda>_.
     bindE (mapErr (api_sql st) (acquire (ms_pool st))) (\<lambda>_.
     bindE (api_db st (update_blob_schema (ms_pool st) tenant i body)) (\<lambda>outcome.
     finish_type_update st tenant i outcome))))"

definition put_display ::
  "'x mgmt_state \<Rightarrow> tenant_id \<Rightarrow> string \<Rightarrow> json \<Rightarrow> ('x world, api_error, type_response) eff" where
  "put_display st tenant id_str body =
     bindE (liftR (parse_credential_type_id st id_str)) (\<lambda>i.
     bindE (liftR (validate_display body)) (\<lambda>display.
     bindE (mapErr (api_sql st) (acquire (ms_pool st))) (\<lambda>_.
     bindE (api_db st (update_blob_display (ms_pool st) tenant i display)) (\<lambda>outcome.
     finish_type_update st tenant i outcome))))"

definition put_claims ::
  "'x mgmt_state \<Rightarrow> tenant_id \<Rightarrow> string \<Rightarrow> json \<Rightarrow> ('x world, api_error, type_response) eff" where
  "put_claims st tenant id_str body =
     bindE (liftR (parse_credential_type_id st id_str)) (\<lambda>i.
     bindE (liftR (validate_type_claims body)) (\<lambda>claims.
     bindE (mapErr (api_sql st) (acquire (ms_pool st))) (\<lambda>_.
     bindE (api_db st (update_blob_claims (ms_pool st) tenant i claims)) (\<lambda>outcome.
     finish_type_update st tenant i outcome))))"

definition retire_tx ::
  "'x mgmt_state \<Rightarrow> tenant_id \<Rightarrow> ctype_id \<Rightarrow> datetime \<Rightarrow> ('x world, api_error, unit tx_end) eff" where
  "retire_tx st tenant i now =
     bindE (api_db st (retire_type (ms_pool st) tenant i now)) (\<lambda>outcome.
     bindE (guardE (outcome \<noteq> UpdateNotFound) ApiNotFound) (\<lambda>_. ret (Commit ())))"

definition retire ::
  "'x mgmt_state \<Rightarrow> tenant_id \<Rightarrow> string \<Rightarrow> ('x world, api_error, string \<times> datetime) eff" where
  "retire st tenant id_str =
     bindE (liftR (parse_credential_type_id st id_str)) (\<lambda>i.
     bindE (utc_now (ms_host st)) (\<lambda>now.
     bindE (in_tx (ms_pool st) (api_sql st) (api_sql st) (retire_tx st tenant i now)) (\<lambda>_.
     ret (ctype_bare i, now))))"

section \<open>Assignment handlers\<close>

definition require_pair ::
  "'x mgmt_state \<Rightarrow> tenant_id \<Rightarrow> string \<Rightarrow> string \<Rightarrow> ('x world, api_error, issuer_id \<times> ctype_id) eff" where
  "require_pair st tenant issuer_str ctype_str =
     bindE (liftR (parse_issuer_id st issuer_str)) (\<lambda>issuer.
     bindE (liftR (parse_credential_type_id st ctype_str)) (\<lambda>ctype.
     bindE (mapErr (api_sql st) (acquire (ms_pool st))) (\<lambda>_.
     bindE (api_db st (tenant_owns_pair (ms_pool st) tenant issuer ctype)) (\<lambda>own.
     bindE (guardE (owns_both own) ApiNotFound) (\<lambda>_. ret (issuer, ctype))))))"

definition assign ::
  "'x mgmt_state \<Rightarrow> tenant_id \<Rightarrow> string \<Rightarrow> string \<Rightarrow> ('x world, api_error, nat \<times> string \<times> string) eff" where
  "assign st tenant issuer_str ctype_str =
     bindE (require_pair st tenant issuer_str ctype_str) (\<lambda>(issuer, ctype).
     bindE (utc_now (ms_host st)) (\<lambda>now.
     bindE (api_db st (assign_type (ms_pool st) \<lparr> as_issuer_id = issuer, as_credential_type_id = ctype,
        as_tenant_id = tenant, as_assigned_at = now \<rparr>)) (\<lambda>outcome.
     ret (case outcome of NowAssigned \<Rightarrow> 201 | AlreadyAssigned \<Rightarrow> 200, issuer_bare issuer, ctype_bare ctype))))"

definition unassign ::
  "'x mgmt_state \<Rightarrow> tenant_id \<Rightarrow> string \<Rightarrow> string \<Rightarrow> ('x world, api_error, nat) eff" where
  "unassign st tenant issuer_str ctype_str =
     bindE (require_pair st tenant issuer_str ctype_str) (\<lambda>(issuer, ctype).
     bindE (api_db st (unassign_type (ms_pool st) issuer ctype)) (\<lambda>_. ret 204))"

definition list_assignments ::
  "'x mgmt_state \<Rightarrow> tenant_id \<Rightarrow> string \<Rightarrow> ('x world, api_error, type_response list) eff" where
  "list_assignments st tenant issuer_str =
     bindE (liftR (parse_issuer_id st issuer_str)) (\<lambda>issuer.
     bindE (mapErr (api_sql st) (acquire (ms_pool st))) (\<lambda>_.
     bindE (api_db st (exists_for_tenant (ms_pool st) tenant issuer)) (\<lambda>owned.
     bindE (guardE owned ApiNotFound) (\<lambda>_.
     bindE (api_db st (list_assigned_to_issuer (ms_pool st) tenant issuer)) (\<lambda>rows.
     ret (map type_to_response rows))))))"

end
