(* ===== verification/AccountApi.thy ===== *)
theory AccountApi
  imports ApiCommon OfferDomain
begin

text \<open>
  User accounts, their invitations and the linking of identities:
  \<open>persistence/user_accounts.rs\<close>, \<open>persistence/user_account_invitations.rs\<close>,
  \<open>api_management/user_accounts.rs\<close>, \<open>api_management/invitations.rs\<close> and
  \<open>api_management/linking.rs\<close>, with the unique indexes of the schema in the
  statements that can run into them.
\<close>

section \<open>Invitation codes\<close>

datatype invitation_code = InvitationCode (invitation_code_str: string)

definition invitation_code_hash_of :: "bs58 \<Rightarrow> (string \<Rightarrow> byte list) \<Rightarrow> invitation_code \<Rightarrow> string" where
  "invitation_code_hash_of b sha256 code = bs58_encode b (sha256 (invitation_code_str code))"

section \<open>Account statements\<close>

definition account_of_tenant :: "tenant_id \<Rightarrow> account_id \<Rightarrow> user_account \<Rightarrow> bool" where
  "account_of_tenant tenant i a \<longleftrightarrow> ua_id a = i \<and> ua_tenant_id a = tenant"

definition insert_account :: "'x pool \<Rightarrow> user_account \<Rightarrow> ('x world, persistence_error, unit) eff" where
  "insert_account p a = mapErr map_database_error (run_stmt p (\<lambda>d.
     if ua_id a \<in> ua_id ` set (user_accounts d) then Inl (SqlUnique ''user_accounts_pkey'')
     else if ua_identity a \<noteq> None \<and>
         (\<exists>b \<in> set (user_accounts d). ua_tenant_id b = ua_tenant_id a \<and> ua_identity b = ua_identity a)
     then Inl (SqlUnique ''user_accounts_tenant_identity_uq'')
     else if ua_tenant_id a \<notin> tn_id ` set (tenants d)
     then Inl (SqlConstraint ''user_accounts_tenant_id_fkey'')
     else Inr ((), d\<lparr> user_accounts := user_accounts d @ [a] \<rparr>)))"

definition get_account ::
  "'x pool \<Rightarrow> tenant_id \<Rightarrow> account_id \<Rightarrow> ('x world, persistence_error, user_account option) eff" where
  "get_account p tenant i =
     mapErr DbError (run_query p (\<lambda>_ d. Inr (find (account_of_tenant tenant i) (user_accounts d))))"

definition get_by_id_and_identity ::
  "'x pool \<Rightarrow> account_id \<Rightarrow> user_identity \<Rightarrow> ('x world, persistence_error, user_account option) eff" where
  "get_by_id_and_identity p i identity =
     mapErr DbError (run_query p (\<lambda>_ d. Inr (find (\<lambda>a. ua_id a = i \<and> ua_identity a = Some identity) (user_accounts d))))"

definition update_provisioning ::
  "'x pool \<Rightarrow> tenant_id \<Rightarrow> account_id \<Rightarrow> string option \<Rightarrow> string option \<Rightarrow> string option \<Rightarrow>
   ('x world, persistence_error, unit) eff" where
  "update_provisioning p tenant i first_name last_name home_organization =
     bindE (mapErr DbError (run_stmt p (update_stmt user_accounts_update user_accounts (account_of_tenant tenant i)
        (\<lambda>a. a\<lparr> ua_provisioning_first_name := first_name, ua_provisioning_last_name := last_name,
                ua_provisioning_home_organization := home_organization \<rparr>))))
       (\<lambda>n. guardE (n \<noteq> 0) NotFound)"

definition set_account_row_state ::
  "'x pool \<Rightarrow> tenant_id \<Rightarrow> account_id \<Rightarrow> user_account_state \<Rightarrow> ('x world, persistence_error, unit) eff" where
  "set_account_row_state p tenant i s =
     bindE (mapErr DbError (run_stmt p (update_stmt user_accounts_update user_accounts (account_of_tenant tenant i)
        (\<lambda>a. a\<lparr> ua_state := s \<rparr>))))
       (\<lambda>n. guardE (n \<noteq> 0) NotFound)"

definition linked_account ::
  "user_identity \<Rightarrow> string option \<Rightarrow> string option \<Rightarrow> datetime \<Rightarrow> user_account \<Rightarrow> user_account" where
  "linked_account identity first_name last_name linked_at a =
     a\<lparr> ua_identity := Some identity, ua_idp_first_name := first_name, ua_idp_last_name := last_name,
        ua_linked_at := Some linked_at \<rparr>"

definition link_identity ::
  "'x pool \<Rightarrow> account_id \<Rightarrow> user_identity \<Rightarrow> string option \<Rightarrow> string option \<Rightarrow> datetime \<Rightarrow>
   ('x world, persistence_error, unit) eff" where
  "link_identity p i identity first_name last_name linked_at =
     bindE (mapErr map_database_error (run_stmt p (\<lambda>d.
       if \<exists>a \<in> set (user_accounts d). \<exists>b \<in> set (user_accounts d). ua_id a = i \<and> ua_id b \<noteq> i \<and>
            ua_tenant_id b = ua_tenant_id a \<and> ua_identity b = Some identity
       then Inl (SqlUnique ''user_accounts_tenant_identity_uq'')
       else update_stmt user_accounts_update user_accounts (\<lambda>a. ua_id a = i)
              (linked_account identity first_name last_name linked_at) d)))
       (\<lambda>n. guardE (n \<noteq> 0) NotFound)"

definition refresh_idp_names ::
  "'x pool \<Rightarrow> user_identity \<Rightarrow> string option \<Rightarrow> string option \<Rightarrow> ('x world, persistence_error, unit) eff" where
  "refresh_idp_names p identity first_name last_name =
     bindE (mapErr DbError (run_stmt p (update_stmt user_accounts_update user_accounts
        (\<lambda>a. ua_identity a = Some identity) (\<lambda>a. a\<lparr> ua_idp_first_name := first_name, ua_idp_last_name := last_name \<rparr>))))
       (\<lambda>_. ret ())"

definition account_page_key :: "user_account \<Rightarrow> page_key" where
  "account_page_key a = (ua_created_at a, account_bare (ua_id a))"

definition list_accounts_by_tenant ::
  "'x pool \<Rightarrow> tenant_id \<Rightarrow> page_key option \<Rightarrow> u32 \<Rightarrow> ('x world, persistence_error, user_account list_page) eff" where
  "list_accounts_by_tenant p tenant cursor limit =
     mapErr DbError (run_query p (\<lambda>_ d. Inr (keyset_page account_page_key (unat limit) cursor
       (filter (\<lambda>a. ua_tenant_id a = tenant) (user_accounts d)))))"

definition list_by_identity ::
  "'x pool \<Rightarrow> user_identity \<Rightarrow> ('x world, persistence_error, user_account list) eff" where
  "list_by_identity p identity = mapErr DbError (run_query p (\<lambda>_ d. Inr (order_desc account_page_key
     (filter (\<lambda>a. ua_identity a = Some identity) (user_accounts d)))))"

text \<open>An inner join: an account whose tenant row is missing would drop out.\<close>

definition resolve_linked_accounts ::
  "'x pool \<Rightarrow> user_identity \<Rightarrow> ('x world, persistence_error, (user_account \<times> string option) list) eff" where
  "resolve_linked_accounts p identity = mapErr DbError (run_query p (\<lambda>_ d. Inr
     (concat (map (\<lambda>a. case row_by tn_id (ua_tenant_id a) (tenants d) of
                Some t \<Rightarrow> [(a, tn_display_name t)] | None \<Rightarrow> [])
        (order_desc account_page_key (filter (\<lambda>a. ua_identity a = Some identity) (user_accounts d)))))))"

section \<open>Invitation statements\<close>

abbreviation inv_pending :: "invitation_row \<Rightarrow> bool" where
  "inv_pending r \<equiv> inv_state (ivr_invitation r) = InvPending"

definition insert_invitation ::
  "'x pool \<Rightarrow> invitation \<Rightarrow> string \<Rightarrow> ('x world, persistence_error, unit) eff" where
  "insert_invitation p i code_hash = mapErr map_database_error (run_stmt p (\<lambda>d.
     let rows = user_account_invitations d in
     if inv_id i \<in> (inv_id \<circ> ivr_invitation) ` set rows then Inl (SqlUnique ''user_account_invitations_pkey'')
     else if Some code_hash \<in> ivr_code_hash ` set rows then Inl (SqlUnique ''user_account_invitations_code_hash_uq'')
     else if inv_state i = InvPending \<and>
         (\<exists>r \<in> set rows. inv_pending r \<and> inv_user_account_id (ivr_invitation r) = inv_user_account_id i)
     then Inl (SqlUnique ''user_account_invitations_one_pending_uq'')
     else if inv_user_account_id i \<notin> ua_id ` set (user_accounts d)
     then Inl (SqlConstraint ''user_account_invitations_user_account_id_fkey'')
     else if inv_tenant_id i \<notin> tn_id ` set (tenants d)
     then Inl (SqlConstraint ''user_account_invitations_tenant_id_fkey'')
     else Inr ((), d\<lparr> user_account_invitations := rows @ [\<lparr> ivr_invitation = i, ivr_code_hash = Some code_hash \<rparr>] \<rparr>)))"

definition find_invitation_by_id ::
  "'x pool \<Rightarrow> invite_id \<Rightarrow> ('x world, persistence_error, invitation option) eff" where
  "find_invitation_by_id p i = mapErr DbError (run_query p (\<lambda>_ d. Inr
     (map_option ivr_invitation (find (\<lambda>r. inv_id (ivr_invitation r) = i) (user_account_invitations d)))))"

definition find_by_code_hash ::
  "'x pool \<Rightarrow> string \<Rightarrow> ('x world, persistence_error, invitation option) eff" where
  "find_by_code_hash p h = mapErr DbError (run_query p (\<lambda>_ d. Inr
     (map_option ivr_invitation (find (\<lambda>r. ivr_code_hash r = Some h) (user_account_invitations d)))))"

definition invitation_page_key :: "invitation \<Rightarrow> page_key" where
  "invitation_page_key i = (inv_created_at i, invite_bare (inv_id i))"

definition list_invitations_by_account ::
  "'x pool \<Rightarrow> tenant_id \<Rightarrow> account_id \<Rightarrow> page_key option \<Rightarrow> u32 \<Rightarrow>
   ('x world, persistence_error, invitation list_page) eff" where
  "list_invitations_by_account p tenant account cursor limit =
     mapErr DbError (run_query p (\<lambda>_ d. Inr (keyset_page invitation_page_key (unat limit) cursor
       (filter (\<lambda>i. inv_tenant_id i = tenant \<and> inv_user_account_id i = account)
          (map ivr_invitation (user_account_invitations d))))))"

text \<open>The three ways out of the pending state; all erase the code's hash.\<close>

definition close_invitation :: "(invitation \<Rightarrow> invitation) \<Rightarrow> invitation_row \<Rightarrow> invitation_row" where
  "close_invitation f r = r\<lparr> ivr_invitation := f (ivr_invitation r), ivr_code_hash := None \<rparr>"

abbreviation update_invitations ::
  "'x pool \<Rightarrow> (invitation_row \<Rightarrow> bool) \<Rightarrow> (invitation \<Rightarrow> invitation) \<Rightarrow> ('x world, persistence_error, nat) eff" where
  "update_invitations p P f \<equiv> mapErr DbError (run_stmt p
     (update_stmt user_account_invitations_update user_account_invitations P (close_invitation f)))"

definition mark_accepted ::
  "'x pool \<Rightarrow> invite_id \<Rightarrow> datetime \<Rightarrow> ('x world, persistence_error, unit) eff" where
  "mark_accepted p i accepted_at =
     bindE (update_invitations p (\<lambda>r. inv_id (ivr_invitation r) = i \<and> inv_pending r)
        (\<lambda>v. v\<lparr> inv_state := InvAccepted, inv_accepted_at := Some accepted_at \<rparr>))
       (\<lambda>n. guardE (n \<noteq> 0) NotFound)"

definition mark_revoked ::
  "'x pool \<Rightarrow> invite_id \<Rightarrow> datetime \<Rightarrow> ('x world, persistence_error, unit) eff" where
  "mark_revoked p i revoked_at =
     bindE (update_invitations p (\<lambda>r. inv_id (ivr_invitation r) = i \<and> inv_pending r)
        (\<lambda>v. v\<lparr> inv_state := InvRevoked, inv_revoked_at := Some revoked_at \<rparr>))
       (\<lambda>n. guardE (n \<noteq> 0) NotFound)"

definition expire_pending_if_due ::
  "'x pool \<Rightarrow> account_id \<Rightarrow> datetime \<Rightarrow> ('x world, persistence_error, unit) eff" where
  "expire_pending_if_due p account now =
     bindE (update_invitations p (\<lambda>r. inv_user_account_id (ivr_invitation r) = account \<and> inv_pending r \<and>
          inv_expires_at (ivr_invitation r) < now)
        (\<lambda>v. v\<lparr> inv_state := InvExpired \<rparr>)) (\<lambda>_. ret ())"

section \<open>Account handlers\<close>

record account_response =
  uar_id :: string
  uar_tenant_id :: string
  uar_tenant_display_name :: "string option"
  uar_provisioning_first_name :: "string option"
  uar_provisioning_last_name :: "string option"
  uar_provisioning_home_organization :: "string option"
  uar_state :: string
  uar_identity :: "user_identity option"
  uar_idp_first_name :: "string option"
  uar_idp_last_name :: "string option"
  uar_linked_at :: "datetime option"
  uar_created_at :: datetime

record account_fields =
  uaf_first_name :: "string option"
  uaf_last_name :: "string option"
  uaf_home_organization :: "string option"

record list_accounts_params =
  lap_limit :: "u32 option"
  lap_cursor :: "string option"

definition ACCOUNT_FIELD_LENGTH :: nat where "ACCOUNT_FIELD_LENGTH = 255"

definition parse_user_account_id :: "'x mgmt_state \<Rightarrow> string \<Rightarrow> api_error + account_id" where
  "parse_user_account_id st = parse_path_id st ''user_account_id'' UserAccountId"

definition parse_invitation_id :: "'x mgmt_state \<Rightarrow> string \<Rightarrow> api_error + invite_id" where
  "parse_invitation_id st = parse_path_id st ''invitation_id'' InvitationId"

definition user_account_to_response :: "user_account \<Rightarrow> string option \<Rightarrow> account_response" where
  "user_account_to_response a display_name =
     \<lparr> uar_id = account_bare (ua_id a), uar_tenant_id = tenant_bare (ua_tenant_id a),
       uar_tenant_display_name = display_name,
       uar_provisioning_first_name = ua_provisioning_first_name a,
       uar_provisioning_last_name = ua_provisioning_last_name a,
       uar_provisioning_home_organization = ua_provisioning_home_organization a,
       uar_state = user_account_state_as_str (ua_state a), uar_identity = ua_identity a,
       uar_idp_first_name = ua_idp_first_name a, uar_idp_last_name = ua_idp_last_name a,
       uar_linked_at = ua_linked_at a, uar_created_at = ua_created_at a \<rparr>"

definition normalise_fields :: "account_fields \<Rightarrow> api_error + account_fields" where
  "normalise_fields f =
     bindR (normalise_optional ''provisioning_first_name'' (uaf_first_name f) ACCOUNT_FIELD_LENGTH) (\<lambda>a.
     bindR (normalise_optional ''provisioning_last_name'' (uaf_last_name f) ACCOUNT_FIELD_LENGTH) (\<lambda>b.
     bindR (normalise_optional ''provisioning_home_organization'' (uaf_home_organization f) ACCOUNT_FIELD_LENGTH) (\<lambda>c.
     Inr \<lparr> uaf_first_name = a, uaf_last_name = b, uaf_home_organization = c \<rparr>)))"

definition create_account ::
  "'x mgmt_state \<Rightarrow> tenant_id \<Rightarrow> account_fields \<Rightarrow> ('x world, api_error, nat \<times> string) eff" where
  "create_account st tenant payload =
     bindE (liftR (normalise_fields payload)) (\<lambda>f.
     bindE (generate_bare (ms_host st)) (\<lambda>bare.
     bindE (utc_now (ms_host st)) (\<lambda>now.
     bindE (mapErr (api_sql st) (acquire (ms_pool st))) (\<lambda>_.
     bindE (api_db st (insert_account (ms_pool st)
        \<lparr> ua_id = UserAccountId bare, ua_tenant_id = tenant, ua_provisioning_first_name = uaf_first_name f,
          ua_provisioning_last_name = uaf_last_name f, ua_provisioning_home_organization = uaf_home_organization f,
          ua_state = AccountActive, ua_identity = None, ua_idp_first_name = None, ua_idp_last_name = None,
          ua_linked_at = None, ua_created_at = now \<rparr>)) (\<lambda>_.
     ret (201, bare))))))"

definition list_accounts ::
  "'x mgmt_state \<Rightarrow> tenant_id \<Rightarrow> list_accounts_params \<Rightarrow>
   ('x world, api_error, account_response list \<times> string option) eff" where
  "list_accounts st tenant query =
     bindE (liftR (resolve_list_limit (lap_limit query))) (\<lambda>limit.
     bindE (liftR (transposeR (map_option (cursor_decode (ms_cursor st)
              (\<lambda>bare. bindR (id_from_bare (host_bs58 (ms_host st)) UserAccountId bare) (\<lambda>_. Inr ()))) (lap_cursor query)))) (\<lambda>cur.
     bindE (mapErr (api_sql st) (acquire (ms_pool st))) (\<lambda>_.
     bindE (api_db st (list_accounts_by_tenant (ms_pool st) tenant cur limit)) (\<lambda>page.
     bindE (api_db st (find_display_name (ms_pool st) tenant)) (\<lambda>name.
     ret (map (\<lambda>a. user_account_to_response a name) (lp_items page),
          if lp_has_more page \<and> lp_items page \<noteq> []
          then (let a = last (lp_items page)
                in Some (cursor_encode (ms_cursor st) (ua_created_at a) (account_bare (ua_id a))))
          else None))))))"

definition get_account_handler ::
  "'x mgmt_state \<Rightarrow> tenant_id \<Rightarrow> string \<Rightarrow> ('x world, api_error, account_response) eff" where
  "get_account_handler st tenant id_str =
     bindE (liftR (parse_user_account_id st id_str)) (\<lambda>i.
     bindE (mapErr (api_sql st) (acquire (ms_pool st))) (\<lambda>_.
     bindE (api_db st (get_account (ms_pool st) tenant i)) (\<lambda>found.
     bindE (okOr ApiNotFound found) (\<lambda>a.
     bindE (api_db st (find_display_name (ms_pool st) tenant)) (\<lambda>name.
     ret (user_account_to_response a name))))))"

definition option_or :: "'a option \<Rightarrow> 'a option \<Rightarrow> 'a option" where
  "option_or a b = (case a of Some v \<Rightarrow> Some v | None \<Rightarrow> b)"

definition patch_account ::
  "'x mgmt_state \<Rightarrow> tenant_id \<Rightarrow> string \<Rightarrow> account_fields \<Rightarrow> ('x world, api_error, account_response) eff" where
  "patch_account st tenant id_str payload =
     bindE (liftR (parse_user_account_id st id_str)) (\<lambda>i.
     bindE (liftR (normalise_fields payload)) (\<lambda>f.
     bindE (mapErr (api_sql st) (acquire (ms_pool st))) (\<lambda>_.
     bindE (api_db st (get_account (ms_pool st) tenant i)) (\<lambda>found.
     bindE (okOr ApiNotFound found) (\<lambda>a.
     let a' = a\<lparr> ua_provisioning_first_name := option_or (uaf_first_name f) (ua_provisioning_first_name a),
                 ua_provisioning_last_name := option_or (uaf_last_name f) (ua_provisioning_last_name a),
                 ua_provisioning_home_organization :=
                   option_or (uaf_home_organization f) (ua_provisioning_home_organization a) \<rparr> in
     bindE (api_db st (update_provisioning (ms_pool st) tenant i (ua_provisioning_first_name a')
              (ua_provisioning_last_name a') (ua_provisioning_home_organization a'))) (\<lambda>_.
     bindE (api_db st (find_display_name (ms_pool st) tenant)) (\<lambda>name.
     ret (user_account_to_response a' name))))))))"

definition set_account_state ::
  "'x mgmt_state \<Rightarrow> tenant_id \<Rightarrow> string \<Rightarrow> user_account_state \<Rightarrow> ('x world, api_error, account_response) eff" where
  "set_account_state st tenant id_str new_state =
     bindE (liftR (parse_user_account_id st id_str)) (\<lambda>i.
     bindE (mapErr (api_sql st) (acquire (ms_pool st))) (\<lambda>_.
     bindE (api_db st (set_account_row_state (ms_pool st) tenant i new_state)) (\<lambda>_.
     bindE (api_db st (get_account (ms_pool st) tenant i)) (\<lambda>found.
     bindE (okOr ApiNotFound found) (\<lambda>a.
     bindE (api_db st (find_display_name (ms_pool st) tenant)) (\<lambda>name.
     ret (user_account_to_response a name)))))))"

definition activate_account where "activate_account st tenant i = set_account_state st tenant i AccountActive"
definition deactivate_account where "deactivate_account st tenant i = set_account_state st tenant i AccountDeactivated"

section \<open>Invitation handlers\<close>

record create_invitation_response =
  cir_invitation_id :: string
  cir_invitation_link :: string
  cir_expires_at :: datetime

record invitation_response =
  ivs_id :: string
  ivs_state :: string
  ivs_expires_at :: datetime
  ivs_created_at :: datetime
  ivs_accepted_at :: "datetime option"
  ivs_revoked_at :: "datetime option"

definition DEFAULT_INVITATION_EXPIRES_IN_SECONDS :: u32 where "DEFAULT_INVITATION_EXPIRES_IN_SECONDS = 604800"
definition MIN_INVITATION_EXPIRES_IN_SECONDS :: u32 where "MIN_INVITATION_EXPIRES_IN_SECONDS = 3600"
definition MAX_INVITATION_EXPIRES_IN_SECONDS :: u32 where "MAX_INVITATION_EXPIRES_IN_SECONDS = 2592000"

definition resolve_invitation_expires_in :: "u32 option \<Rightarrow> api_error + int" where
  "resolve_invitation_expires_in requested =
     (let seconds = (case requested of Some s \<Rightarrow> s | None \<Rightarrow> DEFAULT_INVITATION_EXPIRES_IN_SECONDS)
      in if \<not> (MIN_INVITATION_EXPIRES_IN_SECONDS \<le> seconds \<and> seconds \<le> MAX_INVITATION_EXPIRES_IN_SECONDS)
         then Inl (ApiInvalidInput (''expires_in_seconds must be between ''
                @ show_nat (unat MIN_INVITATION_EXPIRES_IN_SECONDS) @ '' and ''
                @ show_nat (unat MAX_INVITATION_EXPIRES_IN_SECONDS) @ '', got '' @ show_nat (unat seconds)))
         else Inr (uint seconds * 1000000))"

definition build_invitation_link :: "string \<Rightarrow> invite_id \<Rightarrow> invitation_code \<Rightarrow> string" where
  "build_invitation_link web_base_url i code =
     trim_end_matches (CHR ''/'') web_base_url @ ''/invitations/accept'' @ ''?invitation='' @ invite_bare i
       @ ''&code='' @ invitation_code_str code"

definition observed_invitation_state :: "invitation \<Rightarrow> datetime \<Rightarrow> invitation_state" where
  "observed_invitation_state i now =
     (if inv_state i = InvPending \<and> now \<ge> inv_expires_at i then InvExpired else inv_state i)"

definition invitation_to_response :: "invitation \<Rightarrow> datetime \<Rightarrow> invitation_response" where
  "invitation_to_response i now =
     \<lparr> ivs_id = invite_bare (inv_id i), ivs_state = invitation_state_as_str (observed_invitation_state i now),
       ivs_expires_at = inv_expires_at i, ivs_created_at = inv_created_at i,
       ivs_accepted_at = inv_accepted_at i, ivs_revoked_at = inv_revoked_at i \<rparr>"

definition create_invitation_tx ::
  "'x mgmt_state \<Rightarrow> tenant_id \<Rightarrow> account_id \<Rightarrow> datetime \<Rightarrow> datetime \<Rightarrow>
   ('x world, api_error, (string \<times> string) tx_end) eff" where
  "create_invitation_tx st tenant account now expires_at =
     (let p = ms_pool st; h = ms_host st in
     bindE (api_db st (get_account p tenant account)) (\<lambda>found.
     bindE (okOr ApiNotFound found) (\<lambda>a.
     bindE (guardE (ua_identity a = None) (Conflict ''user account is already linked to an identity'')) (\<lambda>_.
     bindE (api_db st (expire_pending_if_due p account now)) (\<lambda>_.
     bindE (generate_secret h) (\<lambda>code.
     bindE (generate_bare h) (\<lambda>bare.
     bindE (api_db st (insert_invitation p
        \<lparr> inv_id = InvitationId bare, inv_user_account_id = account, inv_tenant_id = tenant, inv_state = InvPending,
          inv_expires_at = expires_at, inv_created_at = now, inv_accepted_at = None, inv_revoked_at = None \<rparr>
        (invitation_code_hash_of (host_bs58 h) (host_sha256 h) (InvitationCode code)))) (\<lambda>_.
     ret (Commit (bare, code))))))))))"

definition create_invitation ::
  "'x mgmt_state \<Rightarrow> string \<Rightarrow> tenant_id \<Rightarrow> string \<Rightarrow> u32 option \<Rightarrow>
   ('x world, api_error, nat \<times> create_invitation_response) eff" where
  "create_invitation st web_base_url tenant account_id_str expires_in_seconds =
     bindE (liftR (parse_user_account_id st account_id_str)) (\<lambda>account.
     bindE (liftR (resolve_invitation_expires_in expires_in_seconds)) (\<lambda>expires_in.
     bindE (utc_now (ms_host st)) (\<lambda>now.
     bindE (in_tx (ms_pool st) (api_sql st) (api_sql st)
              (create_invitation_tx st tenant account now (now + expires_in))) (\<lambda>(bare, code).
     ret (201, \<lparr> cir_invitation_id = bare,
        cir_invitation_link = build_invitation_link web_base_url (InvitationId bare) (InvitationCode code),
        cir_expires_at = now + expires_in \<rparr>)))))"

definition require_user_account_owned_by_tenant ::
  "'x mgmt_state \<Rightarrow> tenant_id \<Rightarrow> account_id \<Rightarrow> ('x world, api_error, unit) eff" where
  "require_user_account_owned_by_tenant st tenant account =
     bindE (api_db st (get_account (ms_pool st) tenant account)) (\<lambda>found. guardE (found \<noteq> None) ApiNotFound)"

definition list_invitations ::
  "'x mgmt_state \<Rightarrow> tenant_id \<Rightarrow> string \<Rightarrow> list_accounts_params \<Rightarrow>
   ('x world, api_error, invitation_response list \<times> string option) eff" where
  "list_invitations st tenant account_id_str query =
     bindE (liftR (parse_user_account_id st account_id_str)) (\<lambda>account.
     bindE (liftR (resolve_list_limit (lap_limit query))) (\<lambda>limit.
     bindE (liftR (transposeR (map_option (cursor_decode (ms_cursor st)
              (\<lambda>bare. bindR (id_from_bare (host_bs58 (ms_host st)) InvitationId bare) (\<lambda>_. Inr ()))) (lap_cursor query)))) (\<lambda>cur.
     bindE (mapErr (api_sql st) (acquire (ms_pool st))) (\<lambda>_.
     bindE (require_user_account_owned_by_tenant st tenant account) (\<lambda>_.
     bindE (api_db st (list_invitations_by_account (ms_pool st) tenant account cur limit)) (\<lambda>page.
     bindE (utc_now (ms_host st)) (\<lambda>now.
     ret (map (\<lambda>i. invitation_to_response i now) (lp_items page),
          if lp_has_more page \<and> lp_items page \<noteq> []
          then (let i = last (lp_items page)
                in Some (cursor_encode (ms_cursor st) (inv_created_at i) (invite_bare (inv_id i))))
          else None))))))))"

definition revoke_invitation_tx ::
  "'x mgmt_state \<Rightarrow> tenant_id \<Rightarrow> invite_id \<Rightarrow> datetime \<Rightarrow> ('x world, api_error, invitation tx_end) eff" where
  "revoke_invitation_tx st tenant i now =
     bindE (api_db st (find_invitation_by_id (ms_pool st) i)) (\<lambda>found.
     bindE (okOr ApiNotFound (case found of
        Some v \<Rightarrow> if inv_tenant_id v = tenant then Some v else None | None \<Rightarrow> None)) (\<lambda>v.
     bindE (guardE (observed_invitation_state v now = InvPending)
        (Conflict (''invitation is '' @ invitation_state_as_str (observed_invitation_state v now)
           @ '' and cannot be revoked''))) (\<lambda>_.
     bindE (api_db st (mark_revoked (ms_pool st) i now)) (\<lambda>_.
     ret (Commit (v\<lparr> inv_state := InvRevoked, inv_revoked_at := Some now \<rparr>))))))"

definition revoke_invitation ::
  "'x mgmt_state \<Rightarrow> tenant_id \<Rightarrow> string \<Rightarrow> ('x world, api_error, invitation_response) eff" where
  "revoke_invitation st tenant invitation_id_str =
     bindE (liftR (parse_invitation_id st invitation_id_str)) (\<lambda>i.
     bindE (utc_now (ms_host st)) (\<lambda>now.
     bindE (in_tx (ms_pool st) (api_sql st) (api_sql st) (revoke_invitation_tx st tenant i now)) (\<lambda>v.
     ret (invitation_to_response v now))))"

section \<open>Linking\<close>

record accept_request =
  acr_code :: string
  acr_iss :: string
  acr_sub :: string
  acr_idp_first_name :: "string option"
  acr_idp_last_name :: "string option"

definition MAX_IDENTITY_FIELD_LENGTH :: nat where "MAX_IDENTITY_FIELD_LENGTH = 2048"

definition accept_tx ::
  "'x mgmt_state \<Rightarrow> invite_id \<Rightarrow> user_identity \<Rightarrow> string option \<Rightarrow> string option \<Rightarrow> string \<Rightarrow> datetime \<Rightarrow>
   ('x world, api_error, account_response tx_end) eff" where
  "accept_tx st i identity first_name last_name code_hash now =
     (let p = ms_pool st in
     bindE (api_db st (find_by_code_hash p code_hash)) (\<lambda>found.
     bindE (okOr ApiNotFound (case found of
        Some v \<Rightarrow> if inv_id v = i then Some v else None | None \<Rightarrow> None)) (\<lambda>v.
     bindE (guardE (observed_invitation_state v now = InvPending) (Conflict ''invitation is no longer pending'')) (\<lambda>_.
     bindE (api_db st (get_account p (inv_tenant_id v) (inv_user_account_id v))) (\<lambda>account.
     bindE (okOr ApiNotFound account) (\<lambda>a.
     bindE (guardE (ua_identity a = None) (Conflict ''user account is already linked to an identity'')) (\<lambda>_.
     bindE (api_db st (link_identity p (ua_id a) identity first_name last_name now)) (\<lambda>_.
     bindE (api_db st (mark_accepted p (inv_id v) now)) (\<lambda>_.
     bindE (api_db st (get_account p (inv_tenant_id v) (ua_id a))) (\<lambda>linked.
     bindE (okOr ApiNotFound linked) (\<lambda>l.
     bindE (api_db st (find_display_name p (inv_tenant_id v))) (\<lambda>name.
     ret (Commit (user_account_to_response l name))))))))))))))"

definition accept_invitation ::
  "'x mgmt_state \<Rightarrow> string \<Rightarrow> accept_request \<Rightarrow> ('x world, api_error, account_response) eff" where
  "accept_invitation st invitation_id_str payload =
     (let h = ms_host st in
     bindE (liftR (parse_invitation_id st invitation_id_str)) (\<lambda>i.
     bindE (liftR (normalise_required ''iss'' (acr_iss payload) MAX_IDENTITY_FIELD_LENGTH)) (\<lambda>iss.
     bindE (liftR (normalise_required ''sub'' (acr_sub payload) MAX_IDENTITY_FIELD_LENGTH)) (\<lambda>sub.
     bindE (liftR (normalise_optional ''idp_first_name'' (acr_idp_first_name payload) MAX_IDENTITY_FIELD_LENGTH)) (\<lambda>first_name.
     bindE (liftR (normalise_optional ''idp_last_name'' (acr_idp_last_name payload) MAX_IDENTITY_FIELD_LENGTH)) (\<lambda>last_name.
     bindE (utc_now h) (\<lambda>now.
     in_tx (ms_pool st) (api_sql st) (api_sql st)
       (accept_tx st i \<lparr> ui_iss = iss, ui_sub = sub \<rparr> first_name last_name
          (invitation_code_hash_of (host_bs58 h) (host_sha256 h) (InvitationCode (acr_code payload))) now))))))))"

definition resolve_accounts ::
  "'x mgmt_state \<Rightarrow> string \<Rightarrow> string \<Rightarrow> ('x world, api_error, account_response list) eff" where
  "resolve_accounts st iss_raw sub_raw =
     bindE (liftR (normalise_required ''iss'' iss_raw MAX_IDENTITY_FIELD_LENGTH)) (\<lambda>iss.
     bindE (liftR (normalise_required ''sub'' sub_raw MAX_IDENTITY_FIELD_LENGTH)) (\<lambda>sub.
     bindE (mapErr (api_sql st) (acquire (ms_pool st))) (\<lambda>_.
     bindE (api_db st (resolve_linked_accounts (ms_pool st) \<lparr> ui_iss = iss, ui_sub = sub \<rparr>)) (\<lambda>accounts.
     ret (map (\<lambda>(a, name). user_account_to_response a name) accounts)))))"

end
