(* ===== verification/AuthApi.thy ===== *)
theory AuthApi
  imports AccountApi Oidc
begin

text \<open>
  Who is calling: \<open>api_management/token_validator.rs\<close> (bearer JWTs of the realm,
  claim checks, the JWKS cache) and the extractors of \<open>api_management/auth.rs\<close>
  that turn a principal into a tenant context.
\<close>

section \<open>Principals\<close>

datatype token_error = TokenInvalid | KeysUnavailable

datatype first_party = Administrative | ActingAsUser user_identity

datatype principal = TenantPrincipal tenant_id | FirstParty first_party

section \<open>Claims\<close>

definition EXPECTED_ALG :: string where "EXPECTED_ALG = ''EdDSA''"
definition PRINCIPAL_TYPE_TENANT :: string where "PRINCIPAL_TYPE_TENANT = ''tenant''"
definition PRINCIPAL_TYPE_FIRST_PARTY :: string where "PRINCIPAL_TYPE_FIRST_PARTY = ''first-party''"
definition DEFAULT_LEEWAY_SECS :: "64 word" where "DEFAULT_LEEWAY_SECS = 60"

record parsed_jwt =
  pj_alg :: string
  pj_kid :: "string option"
  pj_payload :: json
  pj_signing_input :: string
  pj_signature :: "byte list"

definition parse_jwt :: "jwt_lib \<Rightarrow> string \<Rightarrow> parsed_jwt option" where
  "parse_jwt jl raw = (case split_on (CHR ''.'') raw of
     [header_b64, payload_b64, signature_b64] \<Rightarrow>
       Option.bind (jl_b64_decode jl header_b64) (\<lambda>header_bytes.
       Option.bind (jl_b64_decode jl payload_b64) (\<lambda>payload_bytes.
       Option.bind (jl_b64_decode jl signature_b64) (\<lambda>signature.
       Option.bind (jl_json_from_slice jl header_bytes) (\<lambda>header.
       Option.bind (jl_json_from_slice jl payload_bytes) (\<lambda>payload.
       Option.bind (Option.bind (jget ''alg'' header) as_string) (\<lambda>alg.
       Some \<lparr> pj_alg = alg, pj_kid = Option.bind (jget ''kid'' header) as_string, pj_payload = payload,
              pj_signing_input = header_b64 @ ''.'' @ payload_b64, pj_signature = signature \<rparr>))))))
   | _ \<Rightarrow> None)"

fun aud_contains :: "json option \<Rightarrow> string \<Rightarrow> bool" where
  "aud_contains (Some (JStr s)) expected = (s = expected)"
| "aud_contains (Some (JArr items)) expected = (\<exists>v \<in> set items. as_string v = Some expected)"
| "aud_contains _ expected = False"

definition classify_first_party :: "json \<Rightarrow> token_error + principal" where
  "classify_first_party payload = (case (jget ''act'' payload, jget ''user_identity'' payload) of
     (None, None) \<Rightarrow> Inr (FirstParty Administrative)
   | (Some act, Some ident) \<Rightarrow>
       (case Option.bind (jget ''sub'' act) as_string of
          Some (_ # _) \<Rightarrow>
            (case (Option.bind (jget ''iss'' ident) as_string, Option.bind (jget ''sub'' ident) as_string) of
               (Some iss, Some sub) \<Rightarrow>
                 if iss \<noteq> [] \<and> sub \<noteq> []
                 then Inr (FirstParty (ActingAsUser \<lparr> ui_iss = iss, ui_sub = sub \<rparr>))
                 else Inl TokenInvalid
             | _ \<Rightarrow> Inl TokenInvalid)
        | _ \<Rightarrow> Inl TokenInvalid)
   | _ \<Rightarrow> Inl TokenInvalid)"

text \<open>
  The time checks at 64 bits: \<open>exp + leeway\<close> and \<open>now + leeway\<close> wrap in a release
  build, as they are written.
\<close>

definition token_expired :: "64 word \<Rightarrow> 64 word \<Rightarrow> 64 word \<Rightarrow> bool" where
  "token_expired now_ts exp leeway \<longleftrightarrow> sint now_ts > sint (exp + leeway)"

definition token_not_yet_valid :: "64 word \<Rightarrow> (64 word) option \<Rightarrow> 64 word \<Rightarrow> bool" where
  "token_not_yet_valid now_ts nbf leeway = (case nbf of
     Some n \<Rightarrow> sint (now_ts + leeway) < sint n | None \<Rightarrow> False)"

definition validate_claims ::
  "bs58 \<Rightarrow> json \<Rightarrow> string \<Rightarrow> string \<Rightarrow> 64 word \<Rightarrow> 64 word \<Rightarrow> token_error + principal" where
  "validate_claims b payload expected_iss expected_aud now_ts leeway =
     bindR (result_of_option TokenInvalid (Option.bind (jget ''iss'' payload) as_string)) (\<lambda>iss.
     if iss \<noteq> expected_iss then Inl TokenInvalid
     else if \<not> aud_contains (jget ''aud'' payload) expected_aud then Inl TokenInvalid
     else
     bindR (result_of_option TokenInvalid (Option.bind (jget ''exp'' payload) as_i64)) (\<lambda>exp.
     if token_expired now_ts exp leeway then Inl TokenInvalid
     else if token_not_yet_valid now_ts (Option.bind (jget ''nbf'' payload) as_i64) leeway then Inl TokenInvalid
     else
     bindR (result_of_option TokenInvalid (Option.bind (jget ''principal_type'' payload) as_string)) (\<lambda>principal_type.
     if principal_type = PRINCIPAL_TYPE_TENANT then
       bindR (result_of_option TokenInvalid (Option.bind (jget ''tenant_id'' payload) as_string)) (\<lambda>tenant_id.
       bindR (mapErrR (\<lambda>_. TokenInvalid) (id_from_str b TenantId ''tenant'' tenant_id)) (\<lambda>t.
       Inr (TenantPrincipal t)))
     else if principal_type = PRINCIPAL_TYPE_FIRST_PARTY then classify_first_party payload
     else Inl TokenInvalid)))"

section \<open>The JWKS cache\<close>

datatype jwks_error = JwksUnavailable | UnknownKid

record cache_state =
  cs_keys :: "string \<rightharpoonup> json"
  cs_fetched_at :: "int option"
  cs_last_attempt :: "int option"

text \<open>
  \<open>Instant::now\<close>, the HTTP request (its answer decoded to the key list), the two
  durations, and what other requests do to the cache while the request is
  under way.
\<close>

record 'x jwks_io =
  jw_instant :: "'x \<Rightarrow> int \<times> 'x"
  jw_fetch :: "'x \<Rightarrow> (string + json list) \<times> 'x"
  jw_others :: "'x \<Rightarrow> cache_state \<Rightarrow> cache_state"
  jw_ttl :: int
  jw_cooldown :: int

definition jwks_new :: cache_state where
  "jwks_new = \<lparr> cs_keys = Map.empty, cs_fetched_at = None, cs_last_attempt = None \<rparr>"

text \<open>\<open>collect\<close> into a hash map: a later key of the same \<open>kid\<close> replaces an earlier one.\<close>

fun keys_by_kid :: "json list \<Rightarrow> (string \<rightharpoonup> json) \<Rightarrow> (string \<rightharpoonup> json)" where
  "keys_by_kid [] m = m"
| "keys_by_kid (k # ks) m = keys_by_kid ks (case Option.bind (jget ''kid'' k) as_string of
     Some kid \<Rightarrow> m(kid \<mapsto> k) | None \<Rightarrow> m)"

text \<open>\<open>Instant::elapsed\<close>, which saturates at zero.\<close>

definition elapsed_since :: "'x jwks_io \<Rightarrow> int \<Rightarrow> 'x \<Rightarrow> int \<times> 'x" where
  "elapsed_since io t x = (case jw_instant io x of (now, x') \<Rightarrow> (max 0 (now - t), x'))"

definition read_kid :: "'x jwks_io \<Rightarrow> string \<Rightarrow> cache_state \<times> 'x \<Rightarrow> (json \<times> bool) option \<times> 'x" where
  "read_kid io kid s = (case s of (c, x) \<Rightarrow>
     (case cs_keys c kid of
        None \<Rightarrow> (None, x)
      | Some jwk \<Rightarrow> (case cs_fetched_at c of
          None \<Rightarrow> (Some (jwk, True), x)
        | Some f \<Rightarrow> (case elapsed_since io f x of (e, x') \<Rightarrow> (Some (jwk, jw_ttl io \<le> e), x')))))"

definition jwks_is_empty :: "cache_state \<Rightarrow> bool" where
  "jwks_is_empty c \<longleftrightarrow> cs_keys c = Map.empty"

text \<open>The claim of the cooldown slot under the write lock.\<close>

definition claim_refresh :: "'x jwks_io \<Rightarrow> cache_state \<times> 'x \<Rightarrow> cache_state option \<times> 'x" where
  "claim_refresh io s = (case s of (c, x) \<Rightarrow>
     (case (case cs_last_attempt c of
              Some l \<Rightarrow> (case elapsed_since io l x of (e, x') \<Rightarrow> (e < jw_cooldown io, x'))
            | None \<Rightarrow> (False, x)) of
        (True, x') \<Rightarrow> (None, x')
      | (False, x') \<Rightarrow> (case jw_instant io x' of (now, x'') \<Rightarrow> (Some (c\<lparr> cs_last_attempt := Some now \<rparr>), x''))))"

definition store_keys :: "int \<Rightarrow> json list \<Rightarrow> cache_state \<Rightarrow> cache_state" where
  "store_keys now keys c = c\<lparr> cs_keys := keys_by_kid keys Map.empty, cs_fetched_at := Some now \<rparr>"

definition refresh_if_due :: "'x jwks_io \<Rightarrow> cache_state \<times> 'x \<Rightarrow> cache_state \<times> 'x" where
  "refresh_if_due io s = (case s of (c, x) \<Rightarrow>
     (case claim_refresh io (c, x) of
        (None, x1) \<Rightarrow> (c, x1)
      | (Some c1, x1) \<Rightarrow> (case jw_fetch io x1 of
          (Inl _, x2) \<Rightarrow> (jw_others io x2 c1, x2)
        | (Inr keys, x2) \<Rightarrow> (case jw_instant io x2 of
            (now, x3) \<Rightarrow> (store_keys now keys (jw_others io x2 c1), x3)))))"

definition jwk_for_kid :: "'x jwks_io \<Rightarrow> string \<Rightarrow> cache_state \<times> 'x \<Rightarrow> (jwks_error + json) \<times> (cache_state \<times> 'x)" where
  "jwk_for_kid io kid s = (case s of (c, x) \<Rightarrow>
     (case read_kid io kid (c, x) of
        (Some (jwk, stale), x1) \<Rightarrow> (Inr jwk, if stale then refresh_if_due io (c, x1) else (c, x1))
      | (None, x1) \<Rightarrow>
          (case refresh_if_due io (c, x1) of (c2, x2) \<Rightarrow>
             (case read_kid io kid (c2, x2) of
                (Some (jwk, _), x3) \<Rightarrow> (Inr jwk, (c2, x3))
              | (None, x3) \<Rightarrow> (Inl (if jwks_is_empty c2 then JwksUnavailable else UnknownKid), (c2, x3))))))"

section \<open>The validator\<close>

text \<open>The cache lives behind a lock in the application state, here in the outside world.\<close>

record 'x token_validator =
  tv_expected_iss :: string
  tv_expected_aud :: string
  tv_leeway_secs :: "64 word"
  tv_jwks :: "'x jwks_io"
  tv_jwt :: jwt_lib
  tv_cache :: "'x \<Rightarrow> cache_state"
  tv_set_cache :: "cache_state \<Rightarrow> 'x \<Rightarrow> 'x"

definition validator_jwk_for_kid ::
  "'x token_validator \<Rightarrow> string \<Rightarrow> ('x world, token_error, json) eff" where
  "validator_jwk_for_kid tv kid = mapErr (\<lambda>e. case e of JwksUnavailable \<Rightarrow> KeysUnavailable | UnknownKid \<Rightarrow> TokenInvalid)
     (ext (\<lambda>x. case jwk_for_kid (tv_jwks tv) kid (tv_cache tv x, x) of (r, (c, x')) \<Rightarrow> (r, tv_set_cache tv c x')))"

definition validate_token ::
  "bs58 \<Rightarrow> 'x token_validator \<Rightarrow> string \<Rightarrow> datetime \<Rightarrow> ('x world, token_error, principal) eff" where
  "validate_token b tv raw now =
     bindE (okOr TokenInvalid (parse_jwt (tv_jwt tv) raw)) (\<lambda>parsed.
     bindE (guardE (pj_alg parsed = EXPECTED_ALG) TokenInvalid) (\<lambda>_.
     bindE (okOr TokenInvalid (pj_kid parsed)) (\<lambda>kid.
     bindE (validator_jwk_for_kid tv kid) (\<lambda>jwk.
     bindE (liftR (mapErrR (\<lambda>_. TokenInvalid) (jl_verify_with_embedded_jwk (tv_jwt tv)
        (JObj [(''alg'', JStr EXPECTED_ALG), (''jwk'', jwk)]) (pj_signing_input parsed) (pj_signature parsed)))) (\<lambda>_.
     liftR (validate_claims b (pj_payload parsed) (tv_expected_iss tv) (tv_expected_aud tv)
              (timestamp_i64 now) (tv_leeway_secs tv)))))))"

definition validate_tenant ::
  "bs58 \<Rightarrow> 'x token_validator \<Rightarrow> string \<Rightarrow> datetime \<Rightarrow> ('x world, token_error, tenant_id) eff" where
  "validate_tenant b tv raw now = bindE (validate_token b tv raw now) (\<lambda>pr. case pr of
     TenantPrincipal t \<Rightarrow> ret t | FirstParty _ \<Rightarrow> raise TokenInvalid)"

section \<open>Request contexts\<close>

record request_parts =
  rp_authorization :: "header_value option"
  rp_x_tenant :: "header_value option"
  rp_x_user_account :: "header_value option"

definition extract_bearer :: "request_parts \<Rightarrow> api_error + string" where
  "extract_bearer parts = (case rp_authorization parts of
     None \<Rightarrow> Inl Unauthorised
   | Some HeaderOpaque \<Rightarrow> Inl Unauthorised
   | Some (HeaderText v) \<Rightarrow> result_of_option Unauthorised (strip_prefix ''Bearer '' v))"

definition authenticate ::
  "'x mgmt_state \<Rightarrow> 'x token_validator option \<Rightarrow> request_parts \<Rightarrow> ('x world, api_error, principal) eff" where
  "authenticate st validator parts =
     bindE (liftR (extract_bearer parts)) (\<lambda>cred.
     bindE (okOr Unauthorised validator) (\<lambda>tv.
     bindE (utc_now (ms_host st)) (\<lambda>now.
     mapErr (\<lambda>e. case e of TokenInvalid \<Rightarrow> Unauthorised | KeysUnavailable \<Rightarrow> ServiceUnavailable)
       (validate_token (host_bs58 (ms_host st)) tv cred now))))"

definition require_x_tenant :: "'x mgmt_state \<Rightarrow> request_parts \<Rightarrow> api_error + tenant_id" where
  "require_x_tenant st parts = (case rp_x_tenant parts of
     None \<Rightarrow> Inl (ApiInvalidInput ''X-Tenant header is required for this request'')
   | Some HeaderOpaque \<Rightarrow> Inl (ApiInvalidInput ''X-Tenant header is not valid UTF-8'')
   | Some (HeaderText v) \<Rightarrow>
       mapErrR (\<lambda>e. ApiInvalidInput (''X-Tenant header is not a valid tenant id: '' @ show_domain_error e))
         (id_from_str (host_bs58 (ms_host st)) TenantId ''tenant'' v))"

definition require_x_user_account :: "'x mgmt_state \<Rightarrow> request_parts \<Rightarrow> api_error + account_id" where
  "require_x_user_account st parts = (case rp_x_user_account parts of
     Some (HeaderText v) \<Rightarrow> mapErrR (\<lambda>_. Unauthorised) (id_from_bare (host_bs58 (ms_host st)) UserAccountId v)
   | _ \<Rightarrow> Inl Unauthorised)"

definition derive_tenant_for_acting_user ::
  "'x mgmt_state \<Rightarrow> request_parts \<Rightarrow> user_identity \<Rightarrow> ('x world, api_error, tenant_id) eff" where
  "derive_tenant_for_acting_user st parts identity =
     bindE (liftR (require_x_user_account st parts)) (\<lambda>account_id.
     bindE (mapErr (api_sql st) (acquire (ms_pool st))) (\<lambda>_.
     bindE (api_db st (get_by_id_and_identity (ms_pool st) account_id identity)) (\<lambda>found.
     bindE (okOr Unauthorised (case found of
        Some a \<Rightarrow> if ua_state a = AccountActive then Some a else None | None \<Rightarrow> None)) (\<lambda>a.
     ret (ua_tenant_id a)))))"

definition require_tenant_exists ::
  "'x mgmt_state \<Rightarrow> tenant_id \<Rightarrow> api_error \<Rightarrow> ('x world, api_error, unit) eff" where
  "require_tenant_exists st tenant not_found =
     bindE (mapErr (api_sql st) (acquire (ms_pool st))) (\<lambda>_.
     bindE (api_db st (tenant_exists (ms_pool st) tenant)) (\<lambda>ex. guardE ex not_found))"

text \<open>\<open>FromRequestParts for TenantContext\<close>.\<close>

definition tenant_context ::
  "'x mgmt_state \<Rightarrow> 'x token_validator option \<Rightarrow> request_parts \<Rightarrow> ('x world, api_error, tenant_id) eff" where
  "tenant_context st validator parts =
     bindE (authenticate st validator parts) (\<lambda>pr. case pr of
       TenantPrincipal t \<Rightarrow> bindE (require_tenant_exists st t Unauthorised) (\<lambda>_. ret t)
     | FirstParty Administrative \<Rightarrow>
         bindE (liftR (require_x_tenant st parts)) (\<lambda>t.
         bindE (require_tenant_exists st t ApiNotFound) (\<lambda>_. ret t))
     | FirstParty (ActingAsUser identity) \<Rightarrow> derive_tenant_for_acting_user st parts identity)"

text \<open>\<open>FromRequestParts for FirstPartyContext\<close>.\<close>

definition first_party_context ::
  "'x mgmt_state \<Rightarrow> 'x token_validator option \<Rightarrow> request_parts \<Rightarrow> ('x world, api_error, unit) eff" where
  "first_party_context st validator parts =
     bindE (authenticate st validator parts) (\<lambda>pr. case pr of
       FirstParty _ \<Rightarrow> ret () | TenantPrincipal _ \<Rightarrow> raise Unauthorised)"

end
