(* ===== verification/Frames.thy ===== *)
theory Frames
  imports Integrity IssuerApi CredentialTypeApi AuthApi
begin

text \<open>
  Which handlers leave which tables alone, as contracts on an arbitrary
  predicate of the database: one that does not look at the tables of a group of
  handlers is kept by every handler of the group.  The invariants of the other
  components are instances.
\<close>

section \<open>Reads\<close>

lemma preserves_deactivate_case:
  "(\<And>t. preserves P (a t)) \<Longrightarrow> preserves P b \<Longrightarrow> (\<And>t. preserves P (c t)) \<Longrightarrow> preserves P e \<Longrightarrow>
   preserves P (case (s, x) of (Deactivated, Some t) \<Rightarrow> a t | (Deactivated, None) \<Rightarrow> b
     | (IssuerActive, Some t) \<Rightarrow> c t | (IssuerActive, None) \<Rightarrow> e)"
  by (cases s; cases x) auto

lemma admin_lookups [pres]:
  "preserves (\<lambda>w. P (wdb w)) (get_account p tn i)"
  "preserves (\<lambda>w. P (wdb w)) (get_by_id_and_identity p i ident)"
  "preserves (\<lambda>w. P (wdb w)) (find_invitation_by_id p ii)"
  "preserves (\<lambda>w. P (wdb w)) (find_by_code_hash p h)"
  "preserves (\<lambda>w. P (wdb w)) (find_display_name p tn)"
  "preserves (\<lambda>w. P (wdb w)) (tenant_exists p tn)"
  "preserves (\<lambda>w. P (wdb w)) (tenant_owns_pair p tn iss ci)"
  unfolding get_account_def get_by_id_and_identity_def find_invitation_by_id_def find_by_code_hash_def
    find_display_name_def tenant_exists_def tenant_owns_pair_def
  by (intro pres)+

lemma validate_token_keeps_db [pres]: "preserves (\<lambda>w. P (wdb w)) (validate_token b tv raw now)"
  unfolding validate_token_def validator_jwk_for_kid_def by (intro pres)

lemma contexts_keep_db [pres]:
  "preserves (\<lambda>w. P (wdb w)) (authenticate ms v parts)"
  "preserves (\<lambda>w. P (wdb w)) (require_tenant_exists ms tn e)"
  "preserves (\<lambda>w. P (wdb w)) (derive_tenant_for_acting_user ms parts ident)"
  unfolding authenticate_def require_tenant_exists_def derive_tenant_for_acting_user_def by (intro pres)+

lemma tenant_context_keeps_db [pres]: "preserves (\<lambda>w. P (wdb w)) (tenant_context ms v parts)"
  unfolding tenant_context_def
  by (intro pres) (auto split: principal.splits first_party.splits intro!: pres)

section \<open>The publisher and status-list writes\<close>

locale publisher_frame =
  fixes P :: "db \<Rightarrow> bool"
  assumes lists: "P (status_lists_update k d) = P d"
begin

lemma list_writes [pres]:
  "preserves (\<lambda>w. P (wdb w)) (record_publish_success p l v now)"
  "preserves (\<lambda>w. P (wdb w)) (record_publish_failure p l m nx now)"
  "preserves (\<lambda>w. P (wdb w)) (acquire_next_dirty p now le)"
  "preserves (\<lambda>w. P (wdb w)) (allocate_index p lid)"
  "preserves (\<lambda>w. P (wdb w)) (write_bit core p lid idx sv)"
  unfolding record_publish_success_def record_publish_failure_def acquire_next_dirty_def allocate_index_def write_bit_def Let_def
  by (intro pres run_stmt_world_preserves run_stmt_preserves update_one_preserves;
      auto simp: update_stmt_def lists split: if_splits option.splits sum.splits)+

lemma allocate_status_slot_frame [pres]: "preserves (\<lambda>w. P (wdb w)) (allocate_status_slot st iss)"
  unfolding allocate_status_slot_def current_for_issuer_with_url_def Let_def by (intro pres)

lemma publisher_poll_frame [pres]: "preserves (\<lambda>w. P (wdb w)) (publisher_poll pb)"
  unfolding publisher_poll_def publisher_acquire_next_def run_round_def sign_and_publish_def
    publish_jwt_def next_publish_time_def Let_def
  by (intro pres)

end

section \<open>The wallet endpoints and the offer and life-cycle handlers\<close>

locale grant_frame =
  fixes P :: "db \<Rightarrow> bool"
  assumes offers: "P (credential_offers_update f d) = P d"
    and tokens: "P (oidc_access_tokens_update g d) = P d"
    and nonces: "P (oidc_nonces_update h d) = P d"
begin

lemma grant_stores [pres]:
  "preserves (\<lambda>w. P (wdb w)) (insert_access_token p t)"
  "preserves (\<lambda>w. P (wdb w)) (insert_nonce p n)"
  "preserves (\<lambda>w. P (wdb w)) (consume_by_hash p nh now)"
  "preserves (\<lambda>w. P (wdb w)) (delete_by_hash p ah)"
  "preserves (\<lambda>w. P (wdb w)) (set_issued_state p off)"
  "preserves (\<lambda>w. P (wdb w)) (insert_offer p off)"
  "preserves (\<lambda>w. P (wdb w)) (cancel_offer_row p tn iss oid now)"
  unfolding insert_access_token_def insert_nonce_def consume_by_hash_def delete_by_hash_def set_issued_state_def
    insert_offer_def cancel_offer_row_def
  by (intro pres run_stmt_preserves update_one_preserves;
      auto simp: update_stmt_def offers tokens nonces split: if_splits option.splits)+

lemma grant_handlers [pres]:
  "preserves (\<lambda>w. P (wdb w)) (token st i r)"
  "preserves (\<lambda>w. P (wdb w)) (credential_checks st i a q)"
  "preserves (\<lambda>w. P (wdb w)) (create_offer ms tn i req)"
  "preserves (\<lambda>w. P (wdb w)) (cancel_offer ms tn i o')"
  unfolding token_def credential_checks_def create_offer_def cancel_offer_def cancel_loaded_def Let_def
  by (intro pres in_tx_preserves [where P = P])+

end

locale wallet_frame = publisher_frame P + grant_frame P for P :: "db \<Rightarrow> bool" +
  assumes credentials: "P (issued_credentials_update l d) = P d"
begin

lemma credential_stores [pres]:
  "preserves (\<lambda>w. P (wdb w)) (insert_issued_credential p c)"
  "preserves (\<lambda>w. P (wdb w)) (set_credential_state p tn cid cs)"
  unfolding insert_issued_credential_def set_credential_state_def Let_def
  by (intro pres run_stmt_preserves update_one_preserves;
      auto simp: update_stmt_def credentials split: if_splits option.splits)+

lemma wallet_handlers [pres]:
  "preserves (\<lambda>w. P (wdb w)) (credential st i a q)"
  "preserves (\<lambda>w. P (wdb w)) (lifecycle_handler tr sv ms tn i c)"
  unfolding credential_def credential_tx_def
    lifecycle_handler_def run_lifecycle_op_def lifecycle_tx_def lifecycle_read_def lifecycle_write_def Let_def
  by (intro pres in_tx_preserves [where P = P])+

end

section \<open>The worker and the submissions\<close>

text \<open>
  What an iteration of the worker keeps follows from what its stores keep: the
  claim stores a task in progress, a finished task is stored in a terminal state.
\<close>

lemma preserves_bind_liftR: "(\<And>a. r = Inr a \<Longrightarrow> preserves P (f a)) \<Longrightarrow> preserves P (bindE (liftR r) f)"
  by (cases r) (simp_all add: preserves_def bindE_run)

locale worker_keeps =
  fixes P :: "db \<Rightarrow> bool" and wk :: "'x worker"
  assumes new_issuer: "preserves (\<lambda>w. P (wdb w)) (insert_issuer (wk_pool wk) i)"
    and new_list: "preserves (\<lambda>w. P (wdb w)) (provision_for_issuer (wk_pool wk) (wk_host wk) iss e u)"
    and new_keys: "preserves (\<lambda>w. P (wdb w)) (swap_key_triple (wk_pool wk) t iss a b c)"
    and deactivation: "preserves (\<lambda>w. P (wdb w)) (execute_mark_deactivated (wk_pool wk) t iss now)"
    and acquired: "ot_state tk = InProgress \<Longrightarrow> preserves (\<lambda>w. P (wdb w)) (set_acquired (wk_pool wk) tk)"
    and advanced: "preserves (\<lambda>w. P (wdb w)) (advance_step (wk_pool wk) ti nxt patch now)"
    and retried: "preserves (\<lambda>w. P (wdb w)) (schedule_retry (wk_pool wk) ti at ec em now)"
    and finished: "task_state_is_terminal (ot_state tk) \<Longrightarrow> preserves (\<lambda>w. P (wdb w)) (set_terminal_state (wk_pool wk) tk)"
begin

lemmas stores = new_issuer new_list new_keys deactivation advanced retried

lemma steps:
  "preserves (\<lambda>w. P (wdb w)) (execute_persist_issuer dl (wk_pool wk) t i ipt cst en now)"
  "preserves (\<lambda>w. P (wdb w)) (execute_provision_status_list (wk_pool wk) (wk_host wk) i cst)"
  "preserves (\<lambda>w. P (wdb w)) (execute_swap_keys (wk_pool wk) t i rst)"
  unfolding execute_persist_issuer_def execute_provision_status_list_def execute_swap_keys_def
  by (intro pres stores in_tx_preserves [where P = P])+

lemma sagas:
  "preserves (\<lambda>w. P (wdb w)) (create_issuer_step wk t tn inp cst s)"
  "preserves (\<lambda>w. P (wdb w)) (deactivate_issuer_step wk t tn is iid dst s)"
  "preserves (\<lambda>w. P (wdb w)) (rotate_keys_step wk t tn is iid rin rst s)"
  unfolding create_issuer_step_def deactivate_issuer_step_def rotate_keys_step_def Let_def
  by (intro pres stores steps)+

lemma failing: "preserves (\<lambda>w. P (wdb w)) (fail_through_aggregate (wk_pool wk) t c m now)"
  unfolding fail_through_aggregate_def
  by (rule preserves_bind_liftR, rule finished) (auto simp: try_fail_def split: task_state.splits)

lemma outcomes: "preserves (\<lambda>w. P (wdb w)) (apply_outcome (wk_pool wk) g t nxt oc now)"
  by (cases oc; simp only: apply_outcome.simps Let_def; intro pres stores failing)

lemma completing:
  "preserves (\<lambda>w. P (wdb w)) (bindE (liftR (mapErrR h (try_complete now t))) (set_terminal_state (wk_pool wk)))"
  by (rule preserves_bind_liftR, rule finished) (auto simp: try_complete_def split: task_state.splits)

lemma finish: "preserves (\<lambda>w. P (wdb w)) (finish_step wk t oc nxt)"
  unfolding finish_step_def Let_def by (intro pres outcomes completing)

lemma execute: "preserves (\<lambda>w. P (wdb w)) (execute_task wk t)"
  unfolding execute_task_def
  by (cases "ot_task_type t";
      simp add: execute_create_issuer_def execute_deactivate_issuer_def execute_rotate_keys_def; intro pres sagas finish)

lemma claim: "preserves (\<lambda>w. P (wdb w)) (claim_body (wk_pool wk) now)"
proof -
  have stored: "preserves (\<lambda>w. P (wdb w)) (bindE (liftR (mapErrR h (try_acquire now t)))
      (\<lambda>t'. bindE (set_acquired (wk_pool wk) t') (\<lambda>_. ret (Commit (Some t')))))" for h t
    by (rule preserves_bind_liftR, intro pres acquired) (auto simp: try_acquire_def split: task_state.splits)
  show ?thesis
    unfolding claim_body_def by (rule preserves_bindE, intro pres, rule preserves_option, rule preserves_ret, rule stored)
qed

lemma poll_kept: "preserves (\<lambda>w. P (wdb w)) (poll wk)"
  unfolding poll_def acquire_next_def
  by (intro pres claim execute in_tx_preserves [where P = P])

end

locale task_frame =
  fixes P :: "db \<Rightarrow> bool"
  assumes tasks: "P (operation_tasks_update g d) = P d"
begin

lemma task_stores [pres]:
  "preserves (\<lambda>w. P (wdb w)) (set_acquired p tk)"
  "preserves (\<lambda>w. P (wdb w)) (advance_step p ti nxt patch now)"
  "preserves (\<lambda>w. P (wdb w)) (schedule_retry p ti at ec em now)"
  "preserves (\<lambda>w. P (wdb w)) (set_terminal_state p tk)"
  "preserves (\<lambda>w. P (wdb w)) (insert_task p tk)"
  unfolding set_acquired_def advance_step_def schedule_retry_def set_terminal_state_def insert_task_def
  by (intro pres run_stmt_preserves update_one_preserves;
      auto simp: update_stmt_def tasks split: if_splits option.splits)+

lemma submissions [pres]:
  "preserves (\<lambda>w. P (wdb w)) (create_issuer ms tn req)"
  "preserves (\<lambda>w. P (wdb w)) (deactivate ms tn i)"
  "preserves (\<lambda>w. P (wdb w)) (rotate_keys ms tn i b)"
  unfolding create_issuer_def deactivate_def rotate_keys_def submit_task_def load_managed_issuer_def
    find_latest_by_type_and_issuer_def Let_def
  by (intro pres preserves_deactivate_case)+

end

locale issuer_frame = publisher_frame P for P :: "db \<Rightarrow> bool" +
  assumes issuer_rows: "P (issuers_update f d) = P d"
begin

lemma issuer_stores [pres]:
  "preserves (\<lambda>w. P (wdb w)) (insert_issuer p i)"
  "preserves (\<lambda>w. P (wdb w)) (set_issuer_state p t iss s)"
  "preserves (\<lambda>w. P (wdb w)) (swap_key_triple p t iss a b c)"
  unfolding insert_issuer_def set_issuer_state_def swap_key_triple_def
  by (intro pres run_stmt_preserves; auto simp: update_stmt_def issuer_rows split: if_splits)+

lemma provision_frame [pres]: "preserves (\<lambda>w. P (wdb w)) (provision_for_issuer p h iss e u)"
  unfolding provision_for_issuer_def Let_def
  by (intro pres run_stmt_world_preserves run_stmt_preserves;
      auto simp: update_stmt_def lists issuer_rows split: if_splits option.splits sum.splits)

end

locale worker_frame = issuer_frame P + task_frame P for P :: "db \<Rightarrow> bool" +
  assumes issuer_offers: "P (credential_offers_update h d) = P d"
begin

lemma cancel_all_kept [pres]: "preserves (\<lambda>w. P (wdb w)) (cancel_all_pending_for_issuer p t iss now)"
  unfolding cancel_all_pending_for_issuer_def
  by (intro pres run_stmt_preserves) (auto simp: update_stmt_def issuer_offers)

lemma mark_frame [pres]: "preserves (\<lambda>w. P (wdb w)) (execute_mark_deactivated p t i now)"
  unfolding execute_mark_deactivated_def mark_deactivated_tx_def mark_deactivated_body_def
  by (intro pres in_tx_preserves [where P = P])

end

sublocale worker_frame \<subseteq> iteration: worker_keeps P wk for wk :: "'x worker"
  by unfold_locales (intro pres)+

section \<open>Accounts and credential types\<close>

locale admin_frame =
  fixes P :: "db \<Rightarrow> bool"
  assumes accounts: "P (user_accounts_update f d) = P d"
    and invitations: "P (user_account_invitations_update g d) = P d"
    and types: "P (credential_types_update h d) = P d"
    and assignments: "P (issuer_credential_types_update k d) = P d"
begin

lemma admin_stores [pres]:
  "preserves (\<lambda>w. P (wdb w)) (insert_account p a)"
  "preserves (\<lambda>w. P (wdb w)) (update_provisioning p tn i x y z)"
  "preserves (\<lambda>w. P (wdb w)) (set_account_row_state p tn i s)"
  "preserves (\<lambda>w. P (wdb w)) (link_identity p i ident x y now)"
  "preserves (\<lambda>w. P (wdb w)) (insert_invitation p iv h)"
  "preserves (\<lambda>w. P (wdb w)) (mark_accepted p ii now)"
  "preserves (\<lambda>w. P (wdb w)) (mark_revoked p ii now)"
  "preserves (\<lambda>w. P (wdb w)) (expire_pending_if_due p i now)"
  "preserves (\<lambda>w. P (wdb w)) (insert_credential_type p c)"
  "preserves (\<lambda>w. P (wdb w)) (retire_type p tn ci now)"
  "preserves (\<lambda>w. P (wdb w)) (assign_type p asg)"
  "preserves (\<lambda>w. P (wdb w)) (unassign_type p iss ci)"
  unfolding insert_account_def update_provisioning_def set_account_row_state_def link_identity_def insert_invitation_def
    mark_accepted_def mark_revoked_def expire_pending_if_due_def insert_credential_type_def
    retire_type_def assign_type_def unassign_type_def Let_def
  by (intro pres run_stmt_preserves;
      auto simp: update_stmt_def accounts invitations types assignments split: if_splits)+

lemma type_updates [pres]:
  "preserves (\<lambda>w. P (wdb w)) (update_structured p tn ci u)"
  "preserves (\<lambda>w. P (wdb w)) (update_type_blob p tn ci f)"
  "preserves (\<lambda>w. P (wdb w)) (update_blob_schema p tn ci j)"
  "preserves (\<lambda>w. P (wdb w)) (update_blob_display p tn ci j)"
  "preserves (\<lambda>w. P (wdb w)) (update_blob_claims p tn ci j)"
  unfolding update_structured_def update_blob_schema_def update_blob_display_def update_blob_claims_def update_type_blob_def
  by (intro pres run_stmt_world_preserves; auto simp: update_stmt_def types split: if_splits)+

lemma account_handlers [pres]:
  "preserves (\<lambda>w. P (wdb w)) (create_account ms tn f)"
  "preserves (\<lambda>w. P (wdb w)) (patch_account ms tn i f)"
  "preserves (\<lambda>w. P (wdb w)) (set_account_state ms tn i s)"
  "preserves (\<lambda>w. P (wdb w)) (create_invitation ms web tn i e)"
  "preserves (\<lambda>w. P (wdb w)) (revoke_invitation ms tn ii)"
  "preserves (\<lambda>w. P (wdb w)) (accept_invitation ms ii req)"
  unfolding create_account_def patch_account_def set_account_state_def create_invitation_def create_invitation_tx_def
    revoke_invitation_def revoke_invitation_tx_def accept_invitation_def accept_tx_def Let_def
  by (intro pres in_tx_preserves [where P = P])+

lemma type_handlers [pres]:
  "preserves (\<lambda>w. P (wdb w)) (create_type ms tn req)"
  "preserves (\<lambda>w. P (wdb w)) (patch_type ms tn i pr)"
  "preserves (\<lambda>w. P (wdb w)) (put_schema ms tn i j)"
  "preserves (\<lambda>w. P (wdb w)) (put_display ms tn i j)"
  "preserves (\<lambda>w. P (wdb w)) (put_claims ms tn i j)"
  "preserves (\<lambda>w. P (wdb w)) (retire ms tn i)"
  "preserves (\<lambda>w. P (wdb w)) (assign ms tn i j')"
  "preserves (\<lambda>w. P (wdb w)) (unassign ms tn i j')"
  unfolding create_type_def patch_type_def put_schema_def put_display_def put_claims_def
    finish_type_update_def retire_def retire_tx_def
    assign_def unassign_def require_pair_def Let_def
  by (intro pres in_tx_preserves [where P = P])+

end

interpretation tasks_wallet: wallet_frame tasks_inv
  by unfold_locales (simp_all add: tasks_inv_def)

interpretation tasks_admin: admin_frame tasks_inv
  by unfold_locales (simp_all add: tasks_inv_def)

interpretation data_admin: admin_frame data_inv
  by unfold_locales (simp_all add: data_inv_defs lists_inv_def)

end
