(* ===== verification/AdminInv.thy ===== *)
theory AdminInv
  imports Frames
begin

text \<open>
  What the unique indexes and the statements keep of the account, invitation,
  credential-type and assignment tables.
\<close>

section \<open>Partial unique indexes\<close>

text \<open>Rows with the same indexed value are the same row; a row without a value is not indexed.\<close>

definition indexed :: "('r \<Rightarrow> 'k) \<Rightarrow> ('r \<Rightarrow> 'v option) \<Rightarrow> 'r list \<Rightarrow> bool" where
  "indexed key part rows \<longleftrightarrow> (\<forall>r \<in> set rows. \<forall>s \<in> set rows. \<forall>v. part r = Some v \<and> part s = Some v \<longrightarrow> key r = key s)"

lemma indexed_append:
  assumes "indexed key part rows" and "\<And>v. part r = Some v \<Longrightarrow> Some v \<notin> part ` set rows"
  shows "indexed key part (rows @ [r])"
  unfolding indexed_def
proof (intro ballI allI impI)
  fix a b v assume "a \<in> set (rows @ [r])" "b \<in> set (rows @ [r])" and v: "part a = Some v \<and> part b = Some v"
  then consider "a \<in> set rows" "b \<in> set rows" | "a = r" "b = r" | "a = r" "b \<in> set rows" | "a \<in> set rows" "b = r" by auto
  then show "key a = key b"
  proof cases
    case 1
    then show ?thesis using assms(1) v unfolding indexed_def by blast
  next
    case 3
    then have "Some v \<in> part ` set rows" using v by (metis image_eqI)
    then show ?thesis using assms(2) [of v] 3 v by simp
  next
    case 4
    then have "Some v \<in> part ` set rows" using v by (metis image_eqI)
    then show ?thesis using assms(2) [of v] 4 v by simp
  qed simp
qed

lemma indexed_update:
  assumes "indexed key part rows" and "\<And>r. key (f r) = key r"
    and "\<And>r. r \<in> set rows \<Longrightarrow> Q r \<Longrightarrow> part (f r) = part r \<or> part (f r) = None"
  shows "indexed key part (update_where Q f rows)"
proof -
  define g where "g = (\<lambda>r. if Q r then f r else r)"
  have u: "set (update_where Q f rows) = g ` set rows" by (simp add: update_where_def g_def)
  have k: "key (g r) = key r" for r using assms(2) by (simp add: g_def)
  have p: "part (g r) = Some v \<Longrightarrow> part r = Some v" if "r \<in> set rows" for r v
    using assms(3) [OF that] by (auto simp: g_def split: if_splits)
  show ?thesis
    unfolding indexed_def u using assms(1) k p unfolding indexed_def by (metis (no_types, lifting) imageE)
qed

lemma indexed_set_one:
  assumes "indexed key part rows" and "\<And>r. key (f r) = key r" and "\<And>r. Q r \<longleftrightarrow> key r = i"
    and "\<And>a b v. a \<in> set rows \<Longrightarrow> b \<in> set rows \<Longrightarrow> key a = i \<Longrightarrow> part (f a) = Some v \<Longrightarrow> key b \<noteq> i \<Longrightarrow> part b \<noteq> Some v"
  shows "indexed key part (update_where Q f rows)"
proof -
  define g where "g = (\<lambda>r. if Q r then f r else r)"
  have u: "set (update_where Q f rows) = g ` set rows" by (simp add: update_where_def g_def)
  have k: "key (g r) = key r" for r using assms(2) by (simp add: g_def)
  have far: "key b = i" if "a \<in> set rows" "b \<in> set rows" "key a = i" "part (g a) = Some v" "part (g b) = Some v" for a b v
  proof (rule ccontr)
    assume b: "key b \<noteq> i"
    have "part (f a) = Some v" "part b = Some v" using that b assms(3) by (simp_all add: g_def)
    then show False using assms(4) that b by blast
  qed
  have "key a = key b" if ab: "a \<in> set rows" "b \<in> set rows" and v: "part (g a) = Some v" "part (g b) = Some v" for a b v
  proof (cases "key a = i \<or> key b = i")
    case True
    then show ?thesis
    proof
      assume i: "key a = i"
      then show ?thesis using far [OF ab i v] by simp
    next
      assume i: "key b = i"
      then show ?thesis using far [OF ab(2,1) i v(2,1)] by simp
    qed
  next
    case False
    then have "g a = a" "g b = b" using assms(3) by (simp_all add: g_def)
    then have "part a = Some v \<and> part b = Some v" using v by simp
    then show ?thesis using assms(1) ab unfolding indexed_def by blast
  qed
  then have "\<forall>a \<in> set rows. \<forall>b \<in> set rows. \<forall>v. part (g a) = Some v \<and> part (g b) = Some v \<longrightarrow> key (g a) = key (g b)"
    unfolding k by blast
  then show ?thesis unfolding indexed_def u by simp
qed

section \<open>Invariant\<close>

text \<open>An identity is linked to at most one account of a tenant.\<close>

definition link_of :: "user_account \<Rightarrow> (tenant_id \<times> user_identity) option" where
  "link_of a = map_option (\<lambda>i. (ua_tenant_id a, i)) (ua_identity a)"

lemma link_of_Some: "link_of a = Some v \<longleftrightarrow> ua_tenant_id a = fst v \<and> ua_identity a = Some (snd v)"
  by (cases v) (auto simp: link_of_def)

definition accounts_inv :: "user_account list \<Rightarrow> bool" where
  "accounts_inv as \<longleftrightarrow> distinct (map ua_id as) \<and> indexed ua_id link_of as"

abbreviation ivr_id :: "invitation_row \<Rightarrow> invite_id" where "ivr_id r \<equiv> inv_id (ivr_invitation r)"
abbreviation ivr_account :: "invitation_row \<Rightarrow> account_id" where "ivr_account r \<equiv> inv_user_account_id (ivr_invitation r)"

text \<open>The code of an invitation lives as long as it is pending; an account has at most one pending invitation.\<close>

definition pending_account :: "invitation_row \<Rightarrow> account_id option" where
  "pending_account r = (if inv_pending r then Some (ivr_account r) else None)"

definition code_lives :: "invitation_row \<Rightarrow> bool" where
  "code_lives r \<longleftrightarrow> (ivr_code_hash r \<noteq> None) = inv_pending r"

definition invites_inv :: "invitation_row list \<Rightarrow> bool" where
  "invites_inv rs \<longleftrightarrow> distinct (map ivr_id rs) \<and> list_all code_lives rs \<and>
     indexed ivr_id ivr_code_hash rs \<and> indexed ivr_id pending_account rs"

definition types_inv :: "credential_type list \<Rightarrow> bool" where
  "types_inv cs \<longleftrightarrow> distinct (map ct_id cs) \<and> indexed ct_id (\<lambda>c. Some (ct_tenant_id c, ct_vct c)) cs"

definition assignments_inv :: "assignment_row list \<Rightarrow> bool" where
  "assignments_inv as \<longleftrightarrow> distinct (map (\<lambda>a. (as_issuer_id a, as_credential_type_id a)) as)"

definition admin_inv :: "db \<Rightarrow> bool" where
  "admin_inv d \<longleftrightarrow> accounts_inv (user_accounts d) \<and> invites_inv (user_account_invitations d) \<and>
     types_inv (credential_types d) \<and> assignments_inv (issuer_credential_types d)"

interpretation admin_worker: worker_frame admin_inv
  by unfold_locales (simp_all add: admin_inv_def)

interpretation admin_wallet: wallet_frame admin_inv
  by unfold_locales (simp_all add: admin_inv_def)

section \<open>Changes that keep it\<close>

lemma accounts_insert:
  assumes "accounts_inv as" and "ua_id a \<notin> ua_id ` set as"
    and "ua_identity a = None \<or> \<not> (\<exists>b \<in> set as. ua_tenant_id b = ua_tenant_id a \<and> ua_identity b = ua_identity a)"
  shows "accounts_inv (as @ [a])"
proof -
  have "Some v \<notin> link_of ` set as" if "link_of a = Some v" for v
  proof
    assume "Some v \<in> link_of ` set as"
    then obtain b where "b \<in> set as" "link_of b = Some v" by (metis imageE)
    then show False using assms(3) that by (auto simp: link_of_Some)
  qed
  then show ?thesis using assms unfolding accounts_inv_def by (auto intro!: indexed_append)
qed

lemma accounts_update:
  assumes "accounts_inv as" and "\<And>a. ua_id (f a) = ua_id a" and "\<And>a. link_of (f a) = link_of a"
  shows "accounts_inv (update_where Q f as)"
  using assms unfolding accounts_inv_def by (auto intro!: indexed_update)

lemma accounts_link:
  assumes "accounts_inv as"
    and "\<not> (\<exists>a \<in> set as. \<exists>b \<in> set as. ua_id a = i \<and> ua_id b \<noteq> i \<and> ua_tenant_id b = ua_tenant_id a \<and> ua_identity b = Some ident)"
  shows "accounts_inv (update_where (\<lambda>a. ua_id a = i) (linked_account ident x y now) as)"
proof -
  have "indexed ua_id link_of (update_where (\<lambda>a. ua_id a = i) (linked_account ident x y now) as)"
  proof (rule indexed_set_one [where i = i])
    show "indexed ua_id link_of as" using assms(1) by (simp add: accounts_inv_def)
    fix a b v
    assume ab: "a \<in> set as" "b \<in> set as" "ua_id a = i" "link_of (linked_account ident x y now a) = Some v" "ua_id b \<noteq> i"
    have "v = (ua_tenant_id a, ident)" using ab(4) by (cases v) (simp add: link_of_def linked_account_def)
    then show "link_of b \<noteq> Some v" using assms(2) ab by (auto simp: link_of_Some)
  qed (simp_all add: linked_account_def)
  then show ?thesis using assms(1) by (simp add: accounts_inv_def linked_account_def)
qed

lemma invites_insert:
  assumes "invites_inv rs" and "inv_id v \<notin> ivr_id ` set rs" and "Some h \<notin> ivr_code_hash ` set rs"
    and "inv_state v = InvPending" and "\<not> (\<exists>r \<in> set rs. inv_pending r \<and> ivr_account r = inv_user_account_id v)"
  shows "invites_inv (rs @ [\<lparr> ivr_invitation = v, ivr_code_hash = Some h \<rparr>])"
  using assms unfolding invites_inv_def
  by (auto simp: pending_account_def code_lives_def intro!: indexed_append split: if_splits)

lemma invites_close:
  assumes "invites_inv rs" and "\<And>v. inv_id (f v) = inv_id v" and "\<And>v. inv_state (f v) \<noteq> InvPending"
  shows "invites_inv (update_where Q (close_invitation f) rs)"
  using assms unfolding invites_inv_def
  by (auto simp: close_invitation_def pending_account_def code_lives_def list_all_iff set_update_where intro!: indexed_update)

lemma types_insert:
  assumes "types_inv cs" and "ct_id c \<notin> ct_id ` set cs"
    and "\<not> (\<exists>e \<in> set cs. ct_tenant_id e = ct_tenant_id c \<and> ct_vct e = ct_vct c)"
  shows "types_inv (cs @ [c])"
  using assms unfolding types_inv_def by (auto intro!: indexed_append)

lemma types_update:
  assumes "types_inv cs" and "\<And>c. ct_id (f c) = ct_id c \<and> ct_tenant_id (f c) = ct_tenant_id c \<and> ct_vct (f c) = ct_vct c"
  shows "types_inv (update_where Q f cs)"
  using assms unfolding types_inv_def by (auto intro!: indexed_update)

lemma assignments_insert:
  "assignments_inv as \<Longrightarrow> \<not> (\<exists>b \<in> set as. assigned_pair (as_issuer_id a) (as_credential_type_id a) b) \<Longrightarrow>
   assignments_inv (as @ [a])"
  by (auto simp: assignments_inv_def)

lemma assignments_filter: "assignments_inv as \<Longrightarrow> assignments_inv (filter Q as)"
  by (simp add: assignments_inv_def distinct_map_filter)

section \<open>Statements\<close>

lemma account_stores_keep_admin [pres]:
  "preserves (\<lambda>w. admin_inv (wdb w)) (insert_account p a)"
  "preserves (\<lambda>w. admin_inv (wdb w)) (update_provisioning p tn i x y z)"
  "preserves (\<lambda>w. admin_inv (wdb w)) (set_account_row_state p tn i s)"
  "preserves (\<lambda>w. admin_inv (wdb w)) (link_identity p i ident x y now)"
  unfolding insert_account_def update_provisioning_def set_account_row_state_def link_identity_def
  by (intro pres run_stmt_preserves;
      auto simp: update_stmt_def admin_inv_def link_of_def intro!: accounts_insert accounts_update accounts_link split: if_splits)+

lemma invitation_stores_keep_admin [pres]:
  "inv_state v = InvPending \<Longrightarrow> preserves (\<lambda>w. admin_inv (wdb w)) (insert_invitation p v h)"
  "preserves (\<lambda>w. admin_inv (wdb w)) (mark_accepted p ii now)"
  "preserves (\<lambda>w. admin_inv (wdb w)) (mark_revoked p ii now)"
  "preserves (\<lambda>w. admin_inv (wdb w)) (expire_pending_if_due p i now)"
  unfolding insert_invitation_def mark_accepted_def mark_revoked_def expire_pending_if_due_def Let_def
  by (intro pres run_stmt_preserves;
      auto simp: update_stmt_def admin_inv_def intro!: invites_insert invites_close split: if_splits)+

lemma type_stores_keep_admin [pres]:
  "preserves (\<lambda>w. admin_inv (wdb w)) (insert_credential_type p c)"
  "preserves (\<lambda>w. admin_inv (wdb w)) (retire_type p tn ci now)"
  "preserves (\<lambda>w. admin_inv (wdb w)) (assign_type p asg)"
  "preserves (\<lambda>w. admin_inv (wdb w)) (unassign_type p iss ci)"
  unfolding insert_credential_type_def retire_type_def assign_type_def unassign_type_def
  by (intro pres run_stmt_preserves;
      auto simp: update_stmt_def admin_inv_def intro!: types_insert types_update assignments_insert assignments_filter
           split: if_splits)+

lemma type_blobs_keep_admin [pres]:
  "preserves (\<lambda>w. admin_inv (wdb w)) (update_blob_schema p tn ci j)"
  "preserves (\<lambda>w. admin_inv (wdb w)) (update_blob_display p tn ci j)"
  "preserves (\<lambda>w. admin_inv (wdb w)) (update_blob_claims p tn ci j)"
  unfolding update_blob_schema_def update_blob_display_def update_blob_claims_def update_type_blob_def
  by (intro pres run_stmt_world_preserves; auto simp: update_stmt_def admin_inv_def intro!: types_update)+

lemma types_patch:
  assumes inv: "types_inv cs"
    and free: "\<not> (\<exists>c \<in> set cs. \<exists>e \<in> set cs. type_of_tenant tn i c \<and> ct_id e \<noteq> i \<and> ct_tenant_id e = tn \<and>
       ct_vct e = coalesce (su_vct u) (ct_vct c))"
  shows "types_inv (update_where (type_of_tenant tn i) (apply_structured u now) cs)"
proof -
  let ?part = "\<lambda>c. Some (ct_tenant_id c, ct_vct c)"
  have f: "ct_id (apply_structured u now c) = ct_id c" "ct_tenant_id (apply_structured u now c) = ct_tenant_id c"
    "ct_vct (apply_structured u now c) = coalesce (su_vct u) (ct_vct c)" for c
    by (simp_all add: apply_structured_def)
  let ?g = "\<lambda>c. if ct_tenant_id c = tn then apply_structured u now c else c"
  have "update_where (type_of_tenant tn i) (apply_structured u now) cs = update_where (\<lambda>c. ct_id c = i) ?g cs"
    by (simp add: update_where_def type_of_tenant_def)
  moreover have "indexed ct_id ?part (update_where (\<lambda>c. ct_id c = i) ?g cs)"
  proof (rule indexed_set_one [where i = i])
    show "indexed ct_id ?part cs" using inv by (simp add: types_inv_def)
    show "ct_id (?g r) = ct_id r" for r by (simp add: f)
    fix a b v assume ab: "a \<in> set cs" "b \<in> set cs" "ct_id a = i" "?part (?g a) = Some v" "ct_id b \<noteq> i"
    show "?part b \<noteq> Some v"
    proof (cases "ct_tenant_id a = tn")
      case True
      then show ?thesis using free ab f by (auto simp: type_of_tenant_def)
    next
      case False
      then have "?part a = Some v" using ab by simp
      then show ?thesis using inv ab unfolding types_inv_def indexed_def by metis
    qed
  qed simp
  ultimately show ?thesis using inv by (simp add: types_inv_def f)
qed

lemma update_structured_keeps_admin [pres]: "preserves (\<lambda>w. admin_inv (wdb w)) (update_structured p tn ci u)"
  unfolding update_structured_def
  by (intro pres run_stmt_world_preserves) (auto simp: update_stmt_def admin_inv_def intro!: types_patch split: if_splits)

section \<open>Handlers\<close>

lemma account_handlers_keep_admin [pres]:
  "preserves (\<lambda>w. admin_inv (wdb w)) (create_account ms tn f)"
  "preserves (\<lambda>w. admin_inv (wdb w)) (patch_account ms tn i f)"
  "preserves (\<lambda>w. admin_inv (wdb w)) (set_account_state ms tn i s)"
  "preserves (\<lambda>w. admin_inv (wdb w)) (create_invitation ms web tn i e)"
  "preserves (\<lambda>w. admin_inv (wdb w)) (revoke_invitation ms tn ii)"
  "preserves (\<lambda>w. admin_inv (wdb w)) (accept_invitation ms ii req)"
  unfolding create_account_def patch_account_def set_account_state_def create_invitation_def create_invitation_tx_def
    revoke_invitation_def revoke_invitation_tx_def accept_invitation_def accept_tx_def Let_def
  by (intro pres in_tx_preserves [where P = admin_inv]; simp)+

lemma type_handlers_keep_admin [pres]:
  "preserves (\<lambda>w. admin_inv (wdb w)) (create_type ms tn req)"
  "preserves (\<lambda>w. admin_inv (wdb w)) (patch_type ms tn i pr)"
  "preserves (\<lambda>w. admin_inv (wdb w)) (put_schema ms tn i j)"
  "preserves (\<lambda>w. admin_inv (wdb w)) (put_display ms tn i j)"
  "preserves (\<lambda>w. admin_inv (wdb w)) (put_claims ms tn i j)"
  "preserves (\<lambda>w. admin_inv (wdb w)) (retire ms tn i)"
  "preserves (\<lambda>w. admin_inv (wdb w)) (assign ms tn i j')"
  "preserves (\<lambda>w. admin_inv (wdb w)) (unassign ms tn i j')"
  unfolding create_type_def patch_type_def put_schema_def put_display_def put_claims_def
    finish_type_update_def retire_def retire_tx_def assign_def unassign_def require_pair_def Let_def
  by (intro pres in_tx_preserves [where P = admin_inv])+

text \<open>The submissions and the other two invariants.\<close>

lemma insert_task_keeps [pres]:
  "preserves (\<lambda>w. data_inv (wdb w)) (insert_task p t)"
  "task_wf t \<Longrightarrow> preserves (\<lambda>w. tasks_inv (wdb w)) (insert_task p t)"
  unfolding insert_task_def
  by (intro pres run_stmt_preserves; auto simp: tasks_inv_def intro: data_inv_frame split: if_splits)+

lemma submissions_keep [pres]:
  "preserves (\<lambda>w. data_inv (wdb w)) (create_issuer ms tn req)"
  "preserves (\<lambda>w. data_inv (wdb w)) (deactivate ms tn i)"
  "preserves (\<lambda>w. data_inv (wdb w)) (rotate_keys ms tn i b)"
  "preserves (\<lambda>w. tasks_inv (wdb w)) (create_issuer ms tn req)"
  "preserves (\<lambda>w. tasks_inv (wdb w)) (deactivate ms tn i)"
  "preserves (\<lambda>w. tasks_inv (wdb w)) (rotate_keys ms tn i b)"
  unfolding create_issuer_def deactivate_def rotate_keys_def submit_task_def load_managed_issuer_def
    find_latest_by_type_and_issuer_def Let_def
  by (intro pres preserves_deactivate_case submitted_task_wf)+

end
