(* ===== verification/AdminProps.thy ===== *)
theory AdminProps
  imports AdminInv ApiProps
begin

text \<open>
  Properties of account linking, request authentication and task submission.
\<close>

section \<open>Linking an account\<close>

text \<open>The one change an acceptance makes to the tables.\<close>

definition accepted_db ::
  "account_id \<Rightarrow> user_identity \<Rightarrow> string option \<Rightarrow> string option \<Rightarrow> invite_id \<Rightarrow> datetime \<Rightarrow> db \<Rightarrow> db" where
  "accepted_db account identity first_name last_name invite now d =
     d\<lparr> user_accounts := update_where (\<lambda>a. ua_id a = account) (linked_account identity first_name last_name now) (user_accounts d),
        user_account_invitations := update_where (\<lambda>r. ivr_id r = invite \<and> inv_pending r)
          (close_invitation (\<lambda>v. v\<lparr> inv_state := InvAccepted, inv_accepted_at := Some now \<rparr>)) (user_account_invitations d) \<rparr>"

text \<open>The invitation and the account an acceptance needs.\<close>

definition acceptable :: "invitation_row \<Rightarrow> user_account \<Rightarrow> user_identity \<Rightarrow> string \<Rightarrow> datetime \<Rightarrow> db \<Rightarrow> bool" where
  "acceptable r a identity h now d \<longleftrightarrow>
     r \<in> set (user_account_invitations d) \<and> ivr_code_hash r = Some h \<and> inv_pending r \<and> now < inv_expires_at (ivr_invitation r) \<and>
     a \<in> set (user_accounts d) \<and> ua_id a = ivr_account r \<and> ua_tenant_id a = inv_tenant_id (ivr_invitation r) \<and>
     ua_identity a = None \<and>
     \<not> (\<exists>b \<in> set (user_accounts d). ua_id b \<noteq> ua_id a \<and> ua_tenant_id b = ua_tenant_id a \<and> ua_identity b = Some identity)"

lemma link_identity_success:
  assumes "link_identity p i identity x y now w = (Inr u, w')"
  shows "wdb w' = user_accounts_update (update_where (\<lambda>a. ua_id a = i) (linked_account identity x y now)) (wdb w) \<and>
    \<not> (\<exists>a \<in> set (user_accounts (wdb w)). \<exists>b \<in> set (user_accounts (wdb w)). ua_id a = i \<and> ua_id b \<noteq> i \<and>
       ua_tenant_id b = ua_tenant_id a \<and> ua_identity b = Some identity)"
proof -
  let ?taken = "\<exists>a \<in> set (user_accounts (wdb w)). \<exists>b \<in> set (user_accounts (wdb w)). ua_id a = i \<and> ua_id b \<noteq> i \<and>
       ua_tenant_id b = ua_tenant_id a \<and> ua_identity b = Some identity"
  obtain n w1 d where "(if ?taken then Inl (SqlUnique ''user_accounts_tenant_identity_uq'')
      else update_stmt user_accounts_update user_accounts (\<lambda>a. ua_id a = i) (linked_account identity x y now) (wdb w)) = Inr (n, d)"
    "wdb w1 = d" "w' = w1"
    using assms by (auto simp only: link_identity_def eff_success dest!: run_stmt_success)
  then show ?thesis by (simp add: update_stmt_def split: if_splits)
qed

lemma mark_accepted_success:
  assumes "mark_accepted p i now w = (Inr u, w')"
  shows "wdb w' = user_account_invitations_update (update_where (\<lambda>r. ivr_id r = i \<and> inv_pending r)
    (close_invitation (\<lambda>v. v\<lparr> inv_state := InvAccepted, inv_accepted_at := Some now \<rparr>))) (wdb w)"
  using assms by (auto simp: mark_accepted_def eff_success update_stmt_def dest!: run_stmt_success)

lemma accept_tx_effect:
  assumes "accept_tx st i identity first_name last_name h now w = (Inr resp, w')"
  shows "\<exists>r a. acceptable r a identity h now (wdb w) \<and> ivr_id r = i \<and>
    wdb w' = accepted_db (ua_id a) identity first_name last_name i now (wdb w)"
proof -
  let ?p = "ms_pool st"
  obtain found v l name w1 w2 w3 w4 w5 u1 u2 and a :: user_account where
    f: "find_by_code_hash ?p h w = (Inr found, w1)" and
    v: "(case found of Some v \<Rightarrow> if inv_id v = i then Some v else None | None \<Rightarrow> None) = Some v" and
    ob: "observed_invitation_state v now = InvPending" and
    g: "get_account ?p (inv_tenant_id v) (inv_user_account_id v) w1 = (Inr (Some a), w2)" and
    un: "ua_identity a = None" and
    li: "link_identity ?p (ua_id a) identity first_name last_name now w2 = (Inr u1, w3)" and
    ma: "mark_accepted ?p (inv_id v) now w3 = (Inr u2, w4)" and
    g2: "get_account ?p (inv_tenant_id v) (ua_id a) w4 = (Inr (Some l), w5)" and
    fd: "find_display_name ?p (inv_tenant_id v) w5 = (Inr name, w')"
    using assms [unfolded accept_tx_def Let_def eff_success res_success ret_run prod.inject sum.inject]
    by (elim exE conjE, hypsubst) (rule that, assumption+)
  obtain r where r: "r \<in> set (user_account_invitations (wdb w))" "ivr_code_hash r = Some h" "v = ivr_invitation r" "inv_id v = i"
    and w1: "wdb w1 = wdb w"
    using f v by (auto simp: find_by_code_hash_def mapErr_eq_Inr dest!: run_query_success find_SomeD split: option.splits if_splits)
  have a: "a \<in> set (user_accounts (wdb w))" "ua_id a = inv_user_account_id v" "ua_tenant_id a = inv_tenant_id v" and w2: "wdb w2 = wdb w"
    using g w1 by (auto simp: get_account_def account_of_tenant_def mapErr_eq_Inr dest!: run_query_success find_SomeD)
  have w': "wdb w' = wdb w4"
    using keeps_db_eq [OF admin_lookups(1) g2] keeps_db_eq [OF admin_lookups(5) fd] by simp
  have "acceptable r a identity h now (wdb w)"
    using r a ob un link_identity_success [OF li] w2
    by (auto simp: acceptable_def observed_invitation_state_def split: if_splits)
  moreover have "wdb w' = accepted_db (ua_id a) identity first_name last_name i now (wdb w)"
    using link_identity_success [OF li] mark_accepted_success [OF ma] w' w2 r(4) by (simp add: accepted_db_def)
  ultimately show ?thesis using r by blast
qed

definition code_hash :: "'x mgmt_state \<Rightarrow> accept_request \<Rightarrow> string" where
  "code_hash st req = invitation_code_hash_of (host_bs58 (ms_host st)) (host_sha256 (ms_host st)) (InvitationCode (acr_code req))"

lemma accept_effect:
  assumes "accept_invitation st ii req w = (r, w')"
  shows "(\<exists>e. r = Inl e) \<and> wdb w' = wdb w \<or>
    (\<exists>row a iss sub first_name last_name now. parse_invitation_id st ii = Inr (ivr_id row) \<and>
       normalise_required ''iss'' (acr_iss req) MAX_IDENTITY_FIELD_LENGTH = Inr iss \<and>
       normalise_required ''sub'' (acr_sub req) MAX_IDENTITY_FIELD_LENGTH = Inr sub \<and>
       acceptable row a \<lparr> ui_iss = iss, ui_sub = sub \<rparr> (code_hash st req) now (wdb w) \<and>
       wdb w' = accepted_db (ua_id a) \<lparr> ui_iss = iss, ui_sub = sub \<rparr> first_name last_name (ivr_id row) now (wdb w) \<and>
       ((\<exists>resp. r = Inr resp) \<or> (\<exists>m. r = Inl (api_sql st (SqlTransport m)))))"
proof -
  let ?p = "ms_pool st"
  let ?checks = "\<lambda>i iss sub first_name last_name. parse_invitation_id st ii = Inr i \<and>
     normalise_required ''iss'' (acr_iss req) MAX_IDENTITY_FIELD_LENGTH = Inr iss \<and>
     normalise_required ''sub'' (acr_sub req) MAX_IDENTITY_FIELD_LENGTH = Inr sub \<and>
     normalise_optional ''idp_first_name'' (acr_idp_first_name req) MAX_IDENTITY_FIELD_LENGTH = Inr first_name \<and>
     normalise_optional ''idp_last_name'' (acr_idp_last_name req) MAX_IDENTITY_FIELD_LENGTH = Inr last_name"
  have split: "(\<exists>e. r = Inl e) \<and> w' = w \<or> (\<exists>i iss sub first_name last_name now w1. ?checks i iss sub first_name last_name \<and>
      wdb w1 = wdb w \<and> in_tx ?p (api_sql st) (api_sql st) (accept_tx st i \<lparr> ui_iss = iss, ui_sub = sub \<rparr> first_name last_name
        (code_hash st req) now) w1 = (r, w'))"
    using assms by (auto simp: accept_invitation_def Let_def bindE_run code_hash_def split: sum.splits)
  then show ?thesis
  proof (elim disjE exE conjE)
    fix i iss sub first_name last_name now w1
    assume ck: "parse_invitation_id st ii = Inr i"
        "normalise_required ''iss'' (acr_iss req) MAX_IDENTITY_FIELD_LENGTH = Inr iss"
        "normalise_required ''sub'' (acr_sub req) MAX_IDENTITY_FIELD_LENGTH = Inr sub"
      and w1: "wdb w1 = wdb w" and tx: "in_tx ?p (api_sql st) (api_sql st) (accept_tx st i \<lparr> ui_iss = iss, ui_sub = sub \<rparr>
        first_name last_name (code_hash st req) now) w1 = (r, w')"
    have fin: ?thesis if v: "wdb v = wdb w" and run: "accept_tx st i \<lparr> ui_iss = iss, ui_sub = sub \<rparr> first_name last_name
        (code_hash st req) now v = (Inr y, v')" and w': "wdb w' = wdb v'" and
        res: "(\<exists>resp. r = Inr resp) \<or> (\<exists>m. r = Inl (api_sql st (SqlTransport m)))" for v y v'
    proof -
      obtain row a where "acceptable row a \<lparr> ui_iss = iss, ui_sub = sub \<rparr> (code_hash st req) now (wdb w)" "ivr_id row = i"
        "wdb v' = accepted_db (ua_id a) \<lparr> ui_iss = iss, ui_sub = sub \<rparr> first_name last_name i now (wdb w)"
        using accept_tx_effect [OF run] v by auto
      then show ?thesis using ck w' res by (intro disjI2 exI [of _ row] exI [of _ a] exI [of _ iss] exI [of _ sub]
            exI [of _ first_name] exI [of _ last_name] exI [of _ now]) simp
    qed
    show ?thesis
    proof (cases r)
      case (Inl e)
      consider "wdb w' = wdb w" | v y v' m where "wdb v = wdb w" "accept_tx st i \<lparr> ui_iss = iss, ui_sub = sub \<rparr> first_name last_name
          (code_hash st req) now v = (Inr (Commit y), v')" "wdb w' = wdb v'" "e = api_sql st (SqlTransport m)"
        using in_tx_error [OF tx [unfolded Inl]] w1 by auto
      then show ?thesis
      proof cases
        case 2
        then show ?thesis using Inl by (intro fin [of v _ v']) blast+
      qed (simp add: Inl)
    next
      case (Inr resp)
      have nr: "accept_tx st i \<lparr> ui_iss = iss, ui_sub = sub \<rparr> first_name last_name (code_hash st req) now v \<noteq> (Inr (Rollback resp), v')" for v v'
        by (auto simp: accept_tx_def Let_def eff_success)
      then obtain v y v' where "wdb v = wdb w" "accept_tx st i \<lparr> ui_iss = iss, ui_sub = sub \<rparr> first_name last_name
          (code_hash st req) now v = (Inr y, v')" "wdb w' = wdb v'"
        using in_tx_success [OF tx [unfolded Inr]] w1 by auto
      then show ?thesis using Inr by (intro fin [of v _ v']) blast+
    qed
  qed auto
qed

text \<open>C27. An invitation is accepted only with its code, while it is pending and unexpired, for an account of the
  invitation's tenant that is linked to no identity, and only if no other account of the tenant has the
  identity; the account then carries the identity, the invitation is accepted and its code erased, and
  nothing else in the tables changes.  A refusal leaves the tables alone; the one error after which the
  link exists is a lost acknowledgement of the commit.\<close>

theorem accept_links_account:
  assumes "accept_invitation st ii req w = (r, w')"
  shows "(\<exists>e. r = Inl e) \<and> wdb w' = wdb w \<or>
    (\<exists>row a iss sub first_name last_name now. parse_invitation_id st ii = Inr (ivr_id row) \<and>
       normalise_required ''iss'' (acr_iss req) MAX_IDENTITY_FIELD_LENGTH = Inr iss \<and>
       normalise_required ''sub'' (acr_sub req) MAX_IDENTITY_FIELD_LENGTH = Inr sub \<and>
       acceptable row a \<lparr> ui_iss = iss, ui_sub = sub \<rparr> (code_hash st req) now (wdb w) \<and>
       wdb w' = accepted_db (ua_id a) \<lparr> ui_iss = iss, ui_sub = sub \<rparr> first_name last_name (ivr_id row) now (wdb w) \<and>
       ((\<exists>resp. r = Inr resp) \<or> (\<exists>m. r = Inl (api_sql st (SqlTransport m)))))"
  using assms by (rule accept_effect)

lemma accepted_code_gone:
  assumes inv: "invites_inv (user_account_invitations d)"
    and row: "row \<in> set (user_account_invitations d)" "ivr_code_hash row = Some h"
    and r: "r \<in> set (user_account_invitations (accepted_db acc ident x y (ivr_id row) now d))"
  shows "ivr_code_hash r \<noteq> Some h"
proof
  let ?close = "close_invitation (\<lambda>v. v\<lparr> inv_state := InvAccepted, inv_accepted_at := Some now \<rparr>)"
  assume h: "ivr_code_hash r = Some h"
  obtain r0 where r0: "r0 \<in> set (user_account_invitations d)"
    and r': "r = (if ivr_id r0 = ivr_id row \<and> inv_pending r0 then ?close r0 else r0)"
    using r by (auto simp: accepted_db_def set_update_where)
  have eq: "r = r0" "ivr_code_hash r0 = Some h" using r' h by (auto simp: close_invitation_def split: if_splits)
  have "inv_pending r0" using inv r0 eq by (auto simp: invites_inv_def list_all_iff code_lives_def)
  moreover have "ivr_id r0 = ivr_id row" using inv r0 eq row unfolding invites_inv_def indexed_def by blast
  ultimately show False using r' h by (simp add: close_invitation_def)
qed

text \<open>An invitation code works once: after an acceptance no request with the same code succeeds or changes a
  table.\<close>

lemma invitation_code_is_single_use:
  assumes first: "accept_invitation st ii req w = (Inr resp, w')" and inv: "admin_inv (wdb w)"
    and same: "wdb v = wdb w'" "acr_code req2 = acr_code req" and second: "accept_invitation st ii2 req2 v = (r, v')"
  shows "(\<exists>e. r = Inl e) \<and> wdb v' = wdb v"
proof -
  obtain row a ident x y now where row: "acceptable row a ident (code_hash st req) now (wdb w)"
    and w': "wdb w' = accepted_db (ua_id a) ident x y (ivr_id row) now (wdb w)"
    using accept_effect [OF first] by auto
  have h: "code_hash st req2 = code_hash st req" using same by (simp add: code_hash_def)
  have "\<not> acceptable row2 a2 ident2 (code_hash st req2) now2 (wdb v)" for row2 a2 ident2 now2
    using accepted_code_gone [of "wdb w" row] row inv w' same h by (auto simp: acceptable_def admin_inv_def)
  then show ?thesis using accept_effect [OF second] by blast
qed

section \<open>A tenant with an invited user\<close>

definition fx_account :: user_account where
  "fx_account = \<lparr> ua_id = UserAccountId (fx_bare 6), ua_tenant_id = TenantId (fx_bare 1),
     ua_provisioning_first_name = None, ua_provisioning_last_name = None, ua_provisioning_home_organization = None,
     ua_state = AccountActive, ua_identity = None, ua_idp_first_name = None, ua_idp_last_name = None,
     ua_linked_at = None, ua_created_at = 0 \<rparr>"

definition fx_invite :: invitation_row where
  "fx_invite = \<lparr> ivr_invitation = \<lparr> inv_id = InvitationId (fx_bare 7), inv_user_account_id = UserAccountId (fx_bare 6),
       inv_tenant_id = TenantId (fx_bare 1), inv_state = InvPending, inv_expires_at = 3600000000, inv_created_at = 0,
       inv_accepted_at = None, inv_revoked_at = None \<rparr>,
     ivr_code_hash = Some (invitation_code_hash_of fx_bs58 (host_sha256 fx_host) (InvitationCode ''code'')) \<rparr>"

definition fx_admin_db :: db where
  "fx_admin_db = fx_db\<lparr> user_accounts := [fx_account], user_account_invitations := [fx_invite] \<rparr>"

definition fx_accept :: accept_request where
  "fx_accept = \<lparr> acr_code = ''code'', acr_iss = ''idp'', acr_sub = ''sub'', acr_idp_first_name = None, acr_idp_last_name = None \<rparr>"

lemma fx_admin_inv: "admin_inv fx_admin_db"
  by (simp add: admin_inv_def accounts_inv_def invites_inv_def types_inv_def assignments_inv_def indexed_def
      fx_admin_db_def fx_db_def fx_account_def fx_invite_def code_lives_def fx_ctype_def)

lemma fx_parse_invitation: "parse_invitation_id fx_mgmt (fx_bare n) = Inr (InvitationId (fx_bare n))"
  by (simp add: parse_invitation_id_def parse_path_id_def fx_oidc_sel fx_parse_bare)

lemma fx_accept_run:
  "\<exists>resp w'. accept_invitation fx_mgmt (fx_bare 7) fx_accept \<lparr> wdb = fx_admin_db, wext = 9 \<rparr> = (Inr resp, w')"
  unfolding accept_invitation_def accept_tx_def Let_def
  by (simp add: fx_parse_invitation fx_oidc_sel bindE_run mapErr_run fx_run fx_accept_def normalise_required_def normalise_optional_def
      MAX_IDENTITY_FIELD_LENGTH_def trim_def is_ws_def find_by_code_hash_def observed_invitation_state_def get_account_def
      account_of_tenant_def link_identity_def mark_accepted_def update_stmt_def rows_matching_def update_where_def
      linked_account_def close_invitation_def find_display_name_def fx_admin_db_def fx_account_def fx_invite_def fx_rows row_by_def cong: head_congs)


theorem accept_links_account_witness:
  "\<exists>resp w' row a. accept_invitation fx_mgmt (fx_bare 7) fx_accept \<lparr> wdb = fx_admin_db, wext = 9 \<rparr> = (Inr resp, w') \<and>
     acceptable row a \<lparr> ui_iss = ''idp'', ui_sub = ''sub'' \<rparr> (code_hash fx_mgmt fx_accept) 9000000 fx_admin_db"
proof -
  obtain resp w' where run: "accept_invitation fx_mgmt (fx_bare 7) fx_accept \<lparr> wdb = fx_admin_db, wext = 9 \<rparr> = (Inr resp, w')"
    using fx_accept_run by blast
  have "acceptable fx_invite fx_account \<lparr> ui_iss = ''idp'', ui_sub = ''sub'' \<rparr> (code_hash fx_mgmt fx_accept) 9000000 fx_admin_db"
    by (simp add: acceptable_def fx_admin_db_def fx_invite_def fx_account_def code_hash_def fx_accept_def fx_oidc_sel)
  then show ?thesis using accept_links_account [OF run] run by auto
qed

theorem invitation_code_is_single_use_witness:
  "\<exists>resp w' e v'. accept_invitation fx_mgmt (fx_bare 7) fx_accept \<lparr> wdb = fx_admin_db, wext = 9 \<rparr> = (Inr resp, w') \<and>
     accept_invitation fx_mgmt (fx_bare 7) fx_accept w' = (Inl e, v')"
proof -
  obtain resp w' where run: "accept_invitation fx_mgmt (fx_bare 7) fx_accept \<lparr> wdb = fx_admin_db, wext = 9 \<rparr> = (Inr resp, w')"
    using fx_accept_run by blast
  obtain r v' where again: "accept_invitation fx_mgmt (fx_bare 7) fx_accept w' = (r, v')" by fastforce
  show ?thesis using invitation_code_is_single_use [OF run _ refl refl again] run again by (simp add: fx_admin_inv)
qed

section \<open>Submitting a saga\<close>

text \<open>The latest task of a type for an issuer.\<close>

definition latest_task :: "tenant_id \<Rightarrow> issuer_id \<Rightarrow> task_type \<Rightarrow> db \<Rightarrow> operation_task option" where
  "latest_task tenant issuer ty d = min_row (\<lambda>a b. ot_created_at a \<ge> ot_created_at b)
     (filter (\<lambda>t. ot_tenant_id t = tenant \<and> ot_result_issuer_id t = Some issuer \<and> ot_task_type t = ty) (operation_tasks d))"

text \<open>What a submission may do: hand out a live task, or add a fresh one to an active issuer.\<close>

definition reused :: "tenant_id \<Rightarrow> issuer_id \<Rightarrow> task_type \<Rightarrow> task_response \<Rightarrow> db \<Rightarrow> db \<Rightarrow> bool" where
  "reused tenant issuer ty resp d d' \<longleftrightarrow> d' = d \<and> tkr_task_id resp = map_option (\<lambda>t. task_bare (ot_id t)) (latest_task tenant issuer ty d)"

definition submitted :: "tenant_id \<Rightarrow> issuer_id \<Rightarrow> task_type \<Rightarrow> json \<Rightarrow> task_response \<Rightarrow> db \<Rightarrow> db \<Rightarrow> bool" where
  "submitted tenant issuer ty input resp d d' \<longleftrightarrow> (\<exists>bare now. tkr_task_id resp = Some bare \<and>
     TaskId bare \<notin> ot_id ` set (operation_tasks d) \<and>
     d' = d\<lparr> operation_tasks := operation_tasks d @ [submitted_task bare tenant ty input issuer now] \<rparr>)"

definition submission ::
  "tenant_id \<Rightarrow> issuer_id \<Rightarrow> task_type \<Rightarrow> json \<Rightarrow> bool \<Rightarrow> nat \<Rightarrow> task_response \<Rightarrow> db \<Rightarrow> db \<Rightarrow> bool" where
  "submission tenant issuer ty input closed code resp d d' \<longleftrightarrow>
     (if closed \<or> (case latest_task tenant issuer ty d of Some t \<Rightarrow> task_is_live t | None \<Rightarrow> False)
      then code = 200 \<and> reused tenant issuer ty resp d d'
      else code = 201 \<and> submitted tenant issuer ty input resp d d')"

lemma latest_lookup:
  assumes "find_latest_by_type_and_issuer p tenant issuer ty w = (Inr found, w')"
  shows "wdb w' = wdb w \<and> found = latest_task tenant issuer ty (wdb w)"
  using assms
  by (auto simp: find_latest_by_type_and_issuer_def latest_task_def mapErr_eq_Inr decode_opt_task_Inr dest!: run_query_success)

lemma load_managed_success:
  assumes "load_managed_issuer st tenant issuer w = (Inr i, w')"
  shows "wdb w' = wdb w \<and> (\<exists>row. find (issuer_of_tenant tenant issuer) (issuers (wdb w)) = Some row \<and> ir_issuer row = i)"
proof -
  obtain w1 u where a: "acquire (ms_pool st) w = (Inr u, w1)"
    and f: "find_issuer_by_id_for_tenant (ms_pool st) tenant issuer w1 = (Inr (Some i), w')"
    using assms by (auto simp: load_managed_issuer_def eff_success)
  show ?thesis
    using f keeps_db_eq [OF acquire_keeps_db a]
    by (auto simp: find_issuer_by_id_for_tenant_def mapErr_eq_Inr dest!: run_query_success)
qed

lemma submit_task_success:
  assumes "submit_task st tenant ty input issuer w = (Inr (code, resp), w')"
  shows "code = 201 \<and> submitted tenant issuer ty input resp (wdb w) (wdb w')"
proof -
  obtain bare w1 now w2 u where
    g: "(generate_bare (ms_host st) :: ('a world, api_error, string) eff) w = (Inr bare, w1)" and
    n: "(utc_now (ms_host st) :: ('a world, api_error, datetime) eff) w1 = (Inr now, w2)" and
    i: "insert_task (ms_pool st) (submitted_task bare tenant ty input issuer now) w2 = (Inr u, w')" and
    r: "code = 201" "resp = \<lparr> tkr_task_id = Some bare, tkr_issuer_id = issuer_bare issuer \<rparr>"
    using assms unfolding submit_task_def eff_success ret_run prod.inject sum.inject by blast
  have w2: "wdb w2 = wdb w"
    using keeps_db_eq [OF generate_bare_keeps_db g] keeps_db_eq [OF utc_now_keeps_db n] by simp
  have "TaskId bare \<notin> ot_id ` set (operation_tasks (wdb w))"
    "wdb w' = (wdb w)\<lparr> operation_tasks := operation_tasks (wdb w) @ [submitted_task bare tenant ty input issuer now] \<rparr>"
    using i w2 by (auto simp: insert_task_def mapErr_eq_Inr submitted_task_def dest!: run_stmt_success split: if_splits)
  then show ?thesis using r by (auto simp: submitted_def)
qed

lemma deactivate_submission:
  assumes "deactivate st tenant i w = (Inr (code, resp), w')"
  shows "\<exists>iid row s. parse_issuer_id st i = Inr iid \<and> find (issuer_of_tenant tenant iid) (issuers (wdb w)) = Some row \<and>
    iss_state (ir_issuer row) = Some s \<and>
    submission tenant iid DeactivateIssuer (JObj []) (s = Deactivated) code resp (wdb w) (wdb w')"
proof -
  obtain iid iss s found w1 w2 where p: "parse_issuer_id st i = Inr iid" and l: "load_managed_issuer st tenant iid w = (Inr iss, w1)"
    and s: "iss_state iss = Some s" and f: "find_latest_by_type_and_issuer (ms_pool st) tenant iid DeactivateIssuer w1 = (Inr found, w2)"
    and rest: "(case (s, found) of
       (Deactivated, Some task) \<Rightarrow> ret (200, \<lparr> tkr_task_id = Some (task_bare (ot_id task)), tkr_issuer_id = issuer_bare iid \<rparr>)
     | (Deactivated, None) \<Rightarrow> ret (200, \<lparr> tkr_task_id = None, tkr_issuer_id = issuer_bare iid \<rparr>)
     | (IssuerActive, Some task) \<Rightarrow> if task_is_live task
         then ret (200, \<lparr> tkr_task_id = Some (task_bare (ot_id task)), tkr_issuer_id = issuer_bare iid \<rparr>)
         else submit_task st tenant DeactivateIssuer (JObj []) iid
     | (IssuerActive, None) \<Rightarrow> submit_task st tenant DeactivateIssuer (JObj []) iid) w2 = (Inr (code, resp), w')"
    using assms unfolding deactivate_def eff_success by blast
  have eq: "wdb w2 = wdb w" "latest_task tenant iid DeactivateIssuer (wdb w) = found"
    using latest_lookup [OF f] load_managed_success [OF l] by auto
  have "submission tenant iid DeactivateIssuer (JObj []) (s = Deactivated) code resp (wdb w) (wdb w')"
    unfolding submission_def reused_def eq
    using rest eq(1) by (cases s; cases found) (auto dest!: submit_task_success split: if_splits)
  then show ?thesis using p s load_managed_success [OF l] by blast
qed

lemma rotate_submission:
  assumes "rotate_keys st tenant i body w = (Inr (code, resp), w')"
  shows "\<exists>iid row input. parse_issuer_id st i = Inr iid \<and> rotate_keys_input_decode body = Inr input \<and>
    find (issuer_of_tenant tenant iid) (issuers (wdb w)) = Some row \<and> iss_state (ir_issuer row) = Some IssuerActive \<and>
    submission tenant iid RotateKeys (JObj [(''roles'', wire_roles_serialize (rk_roles input))]) False code resp (wdb w) (wdb w')"
proof -
  obtain iid iss input s found w1 w2 where b: "rotate_keys_input_decode body = Inr input"
    and p: "parse_issuer_id st i = Inr iid" and l: "load_managed_issuer st tenant iid w = (Inr iss, w1)"
    and s: "iss_state iss = Some s" "s \<noteq> Deactivated"
    and f: "find_latest_by_type_and_issuer (ms_pool st) tenant iid RotateKeys w1 = (Inr found, w2)"
    and rest: "(case found of Some task \<Rightarrow> if task_is_live task
         then ret (200, \<lparr> tkr_task_id = Some (task_bare (ot_id task)), tkr_issuer_id = issuer_bare iid \<rparr>)
         else submit_task st tenant RotateKeys (JObj [(''roles'', wire_roles_serialize (rk_roles input))]) iid
     | None \<Rightarrow> submit_task st tenant RotateKeys (JObj [(''roles'', wire_roles_serialize (rk_roles input))]) iid) w2 = (Inr (code, resp), w')"
    using assms unfolding rotate_keys_def eff_success res_success by blast
  have eq: "wdb w2 = wdb w" "latest_task tenant iid RotateKeys (wdb w) = found"
    using latest_lookup [OF f] load_managed_success [OF l] by auto
  have "submission tenant iid RotateKeys (JObj [(''roles'', wire_roles_serialize (rk_roles input))]) False code resp (wdb w) (wdb w')"
    unfolding submission_def reused_def eq
    using rest eq(1) by (cases found) (auto dest!: submit_task_success split: if_splits)
  moreover have "iss_state iss = Some IssuerActive" using s by (cases s) simp_all
  ultimately show ?thesis using p b load_managed_success [OF l] by blast
qed

text \<open>C28. A deactivation or a key rotation is submitted only for an issuer of the tenant.  While the latest task of
  the kind is still running it answers with that task and changes nothing; a deactivated issuer takes
  no new task (a rotation is refused); otherwise one fresh pending task for the issuer is added.\<close>

theorem submission_reuses_live_task:
  shows "(deactivate st tenant i w = (Inr (code, resp), w') \<longrightarrow>
     (\<exists>iid row s. parse_issuer_id st i = Inr iid \<and> find (issuer_of_tenant tenant iid) (issuers (wdb w)) = Some row \<and>
        iss_state (ir_issuer row) = Some s \<and>
        submission tenant iid DeactivateIssuer (JObj []) (s = Deactivated) code resp (wdb w) (wdb w'))) \<and>
   (rotate_keys st tenant i body w = (Inr (code, resp), w') \<longrightarrow>
     (\<exists>iid row input. parse_issuer_id st i = Inr iid \<and> rotate_keys_input_decode body = Inr input \<and>
        find (issuer_of_tenant tenant iid) (issuers (wdb w)) = Some row \<and> iss_state (ir_issuer row) = Some IssuerActive \<and>
        submission tenant iid RotateKeys (JObj [(''roles'', wire_roles_serialize (rk_roles input))]) False code resp (wdb w) (wdb w')))"
  using deactivate_submission rotate_submission by blast

lemma fx_bare_9: "bs58_encode fx_bs58 (replicate ID_BYTES 9) = fx_bare 9"
  by (simp add: fx_bare_def ID_BYTES_def)

lemma fx_submissions_run:
  "\<exists>resp w'. deactivate fx_mgmt (TenantId (fx_bare 1)) (fx_bare 2) \<lparr> wdb = fx_db, wext = 9 \<rparr> = (Inr (201, resp), w')"
  "\<exists>resp w'. rotate_keys fx_mgmt (TenantId (fx_bare 1)) (fx_bare 2) (JObj [(''roles'', JArr [JStr ''all''])]) \<lparr> wdb = fx_db, wext = 9 \<rparr> =
     (Inr (201, resp), w')"
  unfolding deactivate_def rotate_keys_def
  by (simp_all add: fx_parse_issuer fx_oidc_sel bindE_run mapErr_run fx_run fx_rows fx_task_def load_managed_issuer_def
      find_issuer_by_id_for_tenant_def issuer_of_tenant_def issuer_key_def find_latest_by_type_and_issuer_def decode_opt_task_def
      submit_task_def generate_bare_def random_bytes_def ext_def insert_task_def submitted_task_def rotate_keys_input_decode_def
      wire_roles_deserialize_def min_row_def fx_bare_9 fx_bare_eq
      cong: head_congs)

theorem submission_reuses_live_task_witness:
  "(\<exists>resp w'. deactivate fx_mgmt (TenantId (fx_bare 1)) (fx_bare 2) \<lparr> wdb = fx_db, wext = 9 \<rparr> = (Inr (201, resp), w') \<and>
      submitted (TenantId (fx_bare 1)) (IssuerId (fx_bare 2)) DeactivateIssuer (JObj []) resp fx_db (wdb w')) \<and>
   (\<exists>resp w'. rotate_keys fx_mgmt (TenantId (fx_bare 1)) (fx_bare 2) (JObj [(''roles'', JArr [JStr ''all''])])
      \<lparr> wdb = fx_db, wext = 9 \<rparr> = (Inr (201, resp), w'))"
proof -
  obtain resp w' where run: "deactivate fx_mgmt (TenantId (fx_bare 1)) (fx_bare 2) \<lparr> wdb = fx_db, wext = 9 \<rparr> = (Inr (201, resp), w')"
    using fx_submissions_run(1) by blast
  have "submitted (TenantId (fx_bare 1)) (IssuerId (fx_bare 2)) DeactivateIssuer (JObj []) resp fx_db (wdb w')"
    using submission_reuses_live_task [THEN conjunct1, THEN mp, OF run] by (auto simp: fx_parse_issuer submission_def split: if_splits)
  then show ?thesis using run fx_submissions_run(2) by blast
qed

end
