(* ===== verification/AuthProps.thy ===== *)
theory AuthProps
  imports AdminProps
begin

text \<open>
  Who a request may act for: the request contexts, the time checks of the
  bearer token and the key cache behind the signature check.
\<close>

section \<open>Tenant contexts\<close>

text \<open>
  The key a lookup gives when the cache is \<open>c\<close> and the outside \<open>x\<close>: the cached one, or, for a key
  identifier that is not cached, the one the cache has after the refresh made then.
\<close>

definition key_served :: "'x jwks_io \<Rightarrow> cache_state \<Rightarrow> 'x \<Rightarrow> string \<Rightarrow> json \<Rightarrow> bool" where
  "key_served io c x kid jwk \<longleftrightarrow>
     (case cs_keys c kid of Some k \<Rightarrow> jwk = k | None \<Rightarrow> cs_keys (fst (refresh_if_due io (c, x))) kid = Some jwk)"

lemma jwk_for_kid_served:
  assumes "jwk_for_kid io kid (c, x) = (Inr jwk, s)"
  shows "key_served io c x kid jwk"
  using assms
  by (auto simp: jwk_for_kid_def read_kid_def key_served_def split: option.splits prod.splits if_splits)

text \<open>
  A token is accepted at the time \<open>now\<close> with the outside in the state \<open>x\<close>: it is signed by the key that the
  validator's own cache, as it is in \<open>x\<close>, serves for the key identifier in the header, and its claims pass
  at that time.
\<close>

definition token_accepted :: "bs58 \<Rightarrow> 'x token_validator \<Rightarrow> string \<Rightarrow> datetime \<Rightarrow> 'x \<Rightarrow> principal \<Rightarrow> bool" where
  "token_accepted b tv raw now x pr \<longleftrightarrow> (\<exists>parsed kid jwk. parse_jwt (tv_jwt tv) raw = Some parsed \<and>
     pj_alg parsed = EXPECTED_ALG \<and> pj_kid parsed = Some kid \<and> key_served (tv_jwks tv) (tv_cache tv x) x kid jwk \<and>
     jl_verify_with_embedded_jwk (tv_jwt tv) (JObj [(''alg'', JStr EXPECTED_ALG), (''jwk'', jwk)])
       (pj_signing_input parsed) (pj_signature parsed) = Inr () \<and>
     validate_claims b (pj_payload parsed) (tv_expected_iss tv) (tv_expected_aud tv) (timestamp_i64 now) (tv_leeway_secs tv) = Inr pr)"

lemma validate_token_success:
  assumes "validate_token b tv raw now w = (Inr pr, w')"
  shows "token_accepted b tv raw now (wext w) pr \<and> wdb w' = wdb w"
proof -
  obtain parsed kid jwk u w1 where p: "parse_jwt (tv_jwt tv) raw = Some parsed" "pj_alg parsed = EXPECTED_ALG" "pj_kid parsed = Some kid"
    and k: "validator_jwk_for_kid tv kid w = (Inr jwk, w1)"
    and v: "jl_verify_with_embedded_jwk (tv_jwt tv) (JObj [(''alg'', JStr EXPECTED_ALG), (''jwk'', jwk)])
       (pj_signing_input parsed) (pj_signature parsed) = Inr u"
       "validate_claims b (pj_payload parsed) (tv_expected_iss tv) (tv_expected_aud tv) (timestamp_i64 now) (tv_leeway_secs tv) = Inr pr"
    using assms unfolding validate_token_def eff_success res_success by blast
  have "\<exists>s. jwk_for_kid (tv_jwks tv) kid (tv_cache tv (wext w), wext w) = (Inr jwk, s)"
    using k by (auto simp: validator_jwk_for_kid_def mapErr_eq_Inr ext_def split: prod.splits)
  then have "key_served (tv_jwks tv) (tv_cache tv (wext w)) (wext w) kid jwk" by (elim exE) (rule jwk_for_kid_served)
  then have "token_accepted b tv raw now (wext w) pr" unfolding token_accepted_def using p v by auto
  then show ?thesis using keeps_db_eq [OF validate_token_keeps_db assms] by simp
qed

text \<open>The clock a request is judged by: what the host shows when the request comes in.\<close>

lemma authenticate_success:
  assumes "authenticate st validator parts w = (Inr pr, w')"
  shows "wdb w' = wdb w \<and> (\<exists>raw tv now x. extract_bearer parts = Inr raw \<and> validator = Some tv \<and>
    host_clock (ms_host st) (wext w) = (now, x) \<and> token_accepted (host_bs58 (ms_host st)) tv raw now x pr)"
proof -
  obtain raw tv now w1 where a: "extract_bearer parts = Inr raw" "validator = Some tv"
    and n: "(utc_now (ms_host st) :: ('a world, api_error, datetime) eff) w = (Inr now, w1)"
    and v: "validate_token (host_bs58 (ms_host st)) tv raw now w1 = (Inr pr, w')"
    using assms unfolding authenticate_def eff_success by blast
  have "host_clock (ms_host st) (wext w) = (now, wext w1)" using n by auto
  then show ?thesis using a validate_token_success [OF v] keeps_db_eq [OF utc_now_keeps_db n] by auto
qed

lemma require_tenant_exists_success:
  assumes "require_tenant_exists st t e w = (Inr u, w')"
  shows "wdb w' = wdb w \<and> t \<in> tn_id ` set (tenants (wdb w))"
proof -
  obtain w1 w2 u1 where a: "acquire (ms_pool st) w = (Inr u1, w1)" and f: "tenant_exists (ms_pool st) t w1 = (Inr True, w2)" "w' = w2"
    using assms by (auto simp: require_tenant_exists_def eff_success)
  then show ?thesis
    using keeps_db_eq [OF acquire_keeps_db a]
    by (auto simp: tenant_exists_def mapErr_eq_Inr dest!: run_query_success row_by_SomeD)
qed

lemma derive_tenant_success:
  assumes "derive_tenant_for_acting_user st parts identity w = (Inr t, w')"
  shows "wdb w' = wdb w \<and> (\<exists>a \<in> set (user_accounts (wdb w)). require_x_user_account st parts = Inr (ua_id a) \<and>
    ua_identity a = Some identity \<and> ua_state a = AccountActive \<and> ua_tenant_id a = t)"
proof -
  obtain i w1 u found a where p: "require_x_user_account st parts = Inr i" and a: "acquire (ms_pool st) w = (Inr u, w1)"
    and f: "get_by_id_and_identity (ms_pool st) i identity w1 = (Inr found, w')"
    and c: "(case found of Some a \<Rightarrow> if ua_state a = AccountActive then Some a else None | None \<Rightarrow> None) = Some a" "t = ua_tenant_id a"
    using assms by (auto simp: derive_tenant_for_acting_user_def eff_success)
  show ?thesis
    using p c f keeps_db_eq [OF acquire_keeps_db a]
    by (auto simp: get_by_id_and_identity_def mapErr_eq_Inr dest!: run_query_success find_SomeD split: option.splits if_splits)
qed

text \<open>C29. A request acts for a tenant only with an accepted bearer token - signed, for the key identifier in
  its header, by the key the validator's cache serves at that moment, its claims checked against the host's clock
  as the request comes in - and then: the tenant named in a tenant
  token, if it exists; the tenant named in the X-Tenant header of an administrative request, if it
  exists; or the tenant of the account in the X-User-Account header, if that account is active and linked to
  the identity in the token.\<close>

theorem tenant_context_sound:
  assumes "tenant_context st validator parts w = (Inr t, w')"
  shows "wdb w' = wdb w \<and> (\<exists>raw tv now x pr. extract_bearer parts = Inr raw \<and> validator = Some tv \<and>
    host_clock (ms_host st) (wext w) = (now, x) \<and> token_accepted (host_bs58 (ms_host st)) tv raw now x pr \<and>
    (pr = TenantPrincipal t \<and> t \<in> tn_id ` set (tenants (wdb w)) \<or>
     pr = FirstParty Administrative \<and> require_x_tenant st parts = Inr t \<and> t \<in> tn_id ` set (tenants (wdb w)) \<or>
     (\<exists>identity a. pr = FirstParty (ActingAsUser identity) \<and> a \<in> set (user_accounts (wdb w)) \<and>
        require_x_user_account st parts = Inr (ua_id a) \<and> ua_identity a = Some identity \<and>
        ua_state a = AccountActive \<and> ua_tenant_id a = t)))"
proof -
  obtain pr w1 where au: "authenticate st validator parts w = (Inr pr, w1)"
    and rest: "(case pr of
       TenantPrincipal t \<Rightarrow> bindE (require_tenant_exists st t Unauthorised) (\<lambda>_. ret t)
     | FirstParty Administrative \<Rightarrow>
         bindE (liftR (require_x_tenant st parts)) (\<lambda>t.
         bindE (require_tenant_exists st t ApiNotFound) (\<lambda>_. ret t))
     | FirstParty (ActingAsUser identity) \<Rightarrow> derive_tenant_for_acting_user st parts identity) w1 = (Inr t, w')"
    using assms unfolding tenant_context_def eff_success by blast
  have w1: "wdb w1 = wdb w" using authenticate_success [OF au] by blast
  have "wdb w' = wdb w \<and> (pr = TenantPrincipal t \<and> t \<in> tn_id ` set (tenants (wdb w)) \<or>
     pr = FirstParty Administrative \<and> require_x_tenant st parts = Inr t \<and> t \<in> tn_id ` set (tenants (wdb w)) \<or>
     (\<exists>identity a. pr = FirstParty (ActingAsUser identity) \<and> a \<in> set (user_accounts (wdb w)) \<and>
        require_x_user_account st parts = Inr (ua_id a) \<and> ua_identity a = Some identity \<and>
        ua_state a = AccountActive \<and> ua_tenant_id a = t))"
  proof (cases pr)
    case (TenantPrincipal t0)
    then show ?thesis using rest w1 by (auto simp: eff_success dest!: require_tenant_exists_success)
  next
    case (FirstParty fp)
    then show ?thesis
      using rest w1 by (cases fp) (auto simp: eff_success dest!: require_tenant_exists_success derive_tenant_success)
  qed
  then show ?thesis using authenticate_success [OF au] by blast
qed

section \<open>Token times\<close>

text \<open>A 64-bit sum with a non-negative addend is at most the sum of the integers.\<close>

lemma sint_add_le:
  fixes a b :: "64 word"
  assumes "0 \<le> sint b"
  shows "sint (a + b) \<le> sint a + sint b"
proof -
  have b: "- (2 ^ 63) \<le> sint a" "sint a < 2 ^ 63" "sint b < 2 ^ 63"
    using sint_greater_eq [of a] sint_lt [of a] sint_lt [of b] by simp_all
  have e: "sint (a + b) = signed_take_bit 63 (sint a + sint b)" by (simp add: sint_word_ariths)
  show ?thesis
  proof (cases "sint a + sint b < 2 ^ 63")
    case True
    then show ?thesis using e b assms by (simp add: signed_take_bit_int_eq_self)
  next
    case False
    then show ?thesis using e signed_take_bit_int_less_eq [of 63 "sint a + sint b"] by simp
  qed
qed

text \<open>C30. However the 64-bit sums of the time checks wrap, an accepted token is unexpired up to the leeway and valid
  from at most the leeway ahead, as integers; its issuer and audience are the expected ones.\<close>

theorem accepted_token_is_in_time:
  assumes "validate_claims b payload iss aud now leeway = Inr pr" and "0 \<le> sint leeway"
  shows "\<exists>exp. Option.bind (jget ''exp'' payload) as_i64 = Some exp \<and> sint now \<le> sint exp + sint leeway \<and>
    (\<forall>nbf. Option.bind (jget ''nbf'' payload) as_i64 = Some nbf \<longrightarrow> sint nbf \<le> sint now + sint leeway) \<and>
    Option.bind (jget ''iss'' payload) as_string = Some iss \<and> aud_contains (jget ''aud'' payload) aud"
proof -
  obtain exp where e: "Option.bind (jget ''exp'' payload) as_i64 = Some exp" "\<not> token_expired now exp leeway"
    "\<not> token_not_yet_valid now (Option.bind (jget ''nbf'' payload) as_i64) leeway"
    "Option.bind (jget ''iss'' payload) as_string = Some iss" "aud_contains (jget ''aud'' payload) aud"
    using assms(1) by (auto simp: validate_claims_def res_success split: if_splits)
  show ?thesis
    using e sint_add_le [OF assms(2), of exp] sint_add_le [OF assms(2), of now]
    by (auto simp: token_expired_def token_not_yet_valid_def)
qed

definition fx_claims :: json where
  "fx_claims = JObj [(''iss'', JStr ''kc''), (''aud'', JArr [JStr ''other'', JStr ''mgmt'']), (''exp'', JNum 100),
     (''nbf'', JNum 100), (''principal_type'', JStr ''tenant''), (''tenant_id'', JStr (''tenant_'' @ fx_bare 1))]"

lemma fx_claims_ok: "now = 40 \<or> now = 160 \<Longrightarrow> validate_claims fx_bs58 fx_claims ''kc'' ''mgmt'' now DEFAULT_LEEWAY_SECS = Inr (TenantPrincipal (TenantId (fx_bare 1)))"
  by (auto simp: validate_claims_def fx_claims_def as_i64_def token_expired_def token_not_yet_valid_def DEFAULT_LEEWAY_SECS_def
      PRINCIPAL_TYPE_TENANT_def id_from_str_def fx_parse_bare cong: head_congs)

theorem accepted_token_is_in_time_witness:
  "validate_claims fx_bs58 fx_claims ''kc'' ''mgmt'' 160 DEFAULT_LEEWAY_SECS = Inr (TenantPrincipal (TenantId (fx_bare 1))) \<and>
   (\<exists>exp. Option.bind (jget ''exp'' fx_claims) as_i64 = Some exp \<and> 160 \<le> sint exp + 60)"
  using accepted_token_is_in_time [OF fx_claims_ok [of 160]] fx_claims_ok [of 160] by (auto simp: DEFAULT_LEEWAY_SECS_def)

section \<open>The key cache\<close>

lemma cached_key_served:
  "cs_keys c kid = Some jwk \<Longrightarrow> fst (jwk_for_kid io kid (c, x)) = Inr jwk"
  by (auto simp: jwk_for_kid_def read_kid_def split: option.splits prod.splits)

lemma no_refresh_in_cooldown:
  "cs_last_attempt c = Some l \<Longrightarrow> elapsed_since io l x = (e, x') \<Longrightarrow> e < jw_cooldown io \<Longrightarrow> refresh_if_due io (c, x) = (c, x')"
  by (simp add: refresh_if_due_def claim_refresh_def)

lemma claims_are_apart:
  assumes "claim_refresh io (c, x) = (Some c1, x1)" and "cs_last_attempt c = Some l" and "0 < jw_cooldown io"
    and mono: "\<forall>x. fst (jw_instant io x) \<le> fst (jw_instant io (snd (jw_instant io x)))"
  shows "\<exists>t. cs_last_attempt c1 = Some t \<and> l + jw_cooldown io \<le> t \<and> cs_keys c1 = cs_keys c"
  using assms(1-3) mono [THEN spec, of x]
  by (auto simp: claim_refresh_def elapsed_since_def split: prod.splits bool.splits if_splits)

lemma failed_refresh_keeps_keys:
  assumes "claim_refresh io (c, x) = (Some c1, x1)" and "jw_fetch io x1 = (Inl m, x2)"
  shows "refresh_if_due io (c, x) = (jw_others io x2 c1, x2)"
  using assms by (simp add: refresh_if_due_def)

lemma jwk_errors:
  assumes "jwk_for_kid io kid (c, x) = (Inl e, (c', x'))"
  shows "cs_keys c' kid = None \<and> (e = JwksUnavailable \<longleftrightarrow> cs_keys c' = Map.empty)"
  using assms by (auto simp: jwk_for_kid_def read_kid_def jwks_is_empty_def split: option.splits prod.splits if_splits)

text \<open>The key cache, whatever other requests do to it meanwhile: a cached key is served even when a refresh
  fails or is not due; the realm is asked at most once per cooldown, by attempts at least the cooldown apart;
  a failed refresh evicts nothing; and a key is reported missing only when the refreshed cache does not have
  it, as an outage exactly when that cache is empty.\<close>

lemma jwks_cache_policy:
  assumes "0 < jw_cooldown io"
    and "\<forall>x. fst (jw_instant io x) \<le> fst (jw_instant io (snd (jw_instant io x)))"
  shows "(cs_keys c kid = Some jwk \<longrightarrow> fst (jwk_for_kid io kid (c, x)) = Inr jwk) \<and>
    (\<forall>l e x'. cs_last_attempt c = Some l \<and> elapsed_since io l x = (e, x') \<and> e < jw_cooldown io \<longrightarrow>
       refresh_if_due io (c, x) = (c, x')) \<and>
    (\<forall>l c1 x1. cs_last_attempt c = Some l \<and> claim_refresh io (c, x) = (Some c1, x1) \<longrightarrow>
       (\<exists>t. cs_last_attempt c1 = Some t \<and> l + jw_cooldown io \<le> t \<and> cs_keys c1 = cs_keys c)) \<and>
    (\<forall>c1 x1 m x2. claim_refresh io (c, x) = (Some c1, x1) \<and> jw_fetch io x1 = (Inl m, x2) \<longrightarrow>
       refresh_if_due io (c, x) = (jw_others io x2 c1, x2)) \<and>
    (\<forall>e c' x'. jwk_for_kid io kid (c, x) = (Inl e, (c', x')) \<longrightarrow>
       cs_keys c' kid = None \<and> (e = JwksUnavailable \<longleftrightarrow> cs_keys c' = Map.empty))"
proof (intro conjI allI impI; (elim conjE)?)
  fix l c1 x1 assume a: "cs_last_attempt c = Some l" "claim_refresh io (c, x) = (Some c1, x1)"
  show "\<exists>t. cs_last_attempt c1 = Some t \<and> l + jw_cooldown io \<le> t \<and> cs_keys c1 = cs_keys c"
    by (rule claims_are_apart [OF a(2,1) assms])
next
  fix e c' x' assume "jwk_for_kid io kid (c, x) = (Inl e, (c', x'))"
  note * = jwk_errors [OF this]
  show "cs_keys c' kid = None" "(e = JwksUnavailable) = (cs_keys c' = Map.empty)" using * by simp_all
qed (simp_all add: cached_key_served no_refresh_in_cooldown failed_refresh_keeps_keys)

definition fx_jwks :: "nat jwks_io" where
  "fx_jwks = \<lparr> jw_instant = (\<lambda>x. (int x, Suc x)), jw_fetch = (\<lambda>x. (Inl ''down'', Suc x)), jw_others = (\<lambda>_ c. c),
     jw_ttl = 600, jw_cooldown = 30 \<rparr>"

definition fx_cache :: cache_state where
  "fx_cache = \<lparr> cs_keys = [''k'' \<mapsto> JNull], cs_fetched_at = Some 0, cs_last_attempt = Some 0 \<rparr>"

theorem jwks_cache_policy_witness:
  "fst (jwk_for_kid fx_jwks ''k'' (fx_cache, 700)) = Inr JNull \<and> refresh_if_due fx_jwks (fx_cache, 10) = (fx_cache, 11) \<and>
   fst (jwk_for_kid fx_jwks ''z'' (fx_cache, 700)) = Inl UnknownKid"
proof -
  have io: "0 < jw_cooldown fx_jwks" "\<forall>x. fst (jw_instant fx_jwks x) \<le> fst (jw_instant fx_jwks (snd (jw_instant fx_jwks x)))"
    by (simp_all add: fx_jwks_def)
  have "fst (jwk_for_kid fx_jwks ''k'' (fx_cache, 700)) = Inr JNull"
    using jwks_cache_policy [OF io, of fx_cache "''k''" JNull 700] by (simp add: fx_cache_def)
  moreover have "refresh_if_due fx_jwks (fx_cache, 10) = (fx_cache, 11)"
    using jwks_cache_policy [OF io, of fx_cache "''k''" JNull 10] by (simp add: fx_cache_def fx_jwks_def elapsed_since_def)
  ultimately show ?thesis
    by (simp add: jwk_for_kid_def read_kid_def refresh_if_due_def claim_refresh_def elapsed_since_def jwks_is_empty_def
        fx_cache_def fx_jwks_def fun_eq_iff)
qed

section \<open>A tenant's request\<close>

definition fx_validator :: "nat token_validator" where
  "fx_validator = \<lparr> tv_expected_iss = ''kc'', tv_expected_aud = ''mgmt'', tv_leeway_secs = DEFAULT_LEEWAY_SECS,
     tv_jwks = fx_jwks,
     tv_jwt = fx_jwt\<lparr> jl_json_from_slice := (\<lambda>bs. Some (if bs = [of_char (CHR ''h'')]
        then JObj [(''alg'', JStr ''EdDSA''), (''kid'', JStr ''k'')] else fx_claims)) \<rparr>,
     tv_cache = (\<lambda>_. fx_cache), tv_set_cache = (\<lambda>_ x. x) \<rparr>"

definition fx_parts :: request_parts where
  "fx_parts = \<lparr> rp_authorization = Some (HeaderText ''Bearer h.p.s''), rp_x_tenant = None, rp_x_user_account = None \<rparr>"

lemma fx_tenant_context:
  "\<exists>w'. tenant_context fx_mgmt (Some fx_validator) fx_parts \<lparr> wdb = fx_db, wext = 40 \<rparr> = (Inr (TenantId (fx_bare 1)), w')"
proof -
  have ts: "timestamp_i64 40000000 = 40" by (simp add: timestamp_i64_def TIMESTAMP_SECOND_def)
  show ?thesis
    unfolding tenant_context_def authenticate_def
    by (simp add: fx_parts_def extract_bearer_def fx_oidc_sel bindE_run mapErr_run fx_run validate_token_def parse_jwt_def
        fx_validator_def fx_jwt_def EXPECTED_ALG_def validator_jwk_for_kid_def ext_def jwk_for_kid_def read_kid_def elapsed_since_def
        fx_cache_def fx_jwks_def ts fx_claims_ok require_tenant_exists_def tenant_exists_def row_by_def fx_rows cong: head_congs)
qed

theorem tenant_context_sound_witness:
  "\<exists>w'. tenant_context fx_mgmt (Some fx_validator) fx_parts \<lparr> wdb = fx_db, wext = 40 \<rparr> = (Inr (TenantId (fx_bare 1)), w') \<and>
     wdb w' = fx_db \<and> (\<exists>pr. token_accepted fx_bs58 fx_validator ''h.p.s'' 40000000 41 pr)"
proof -
  obtain w' where run: "tenant_context fx_mgmt (Some fx_validator) fx_parts \<lparr> wdb = fx_db, wext = 40 \<rparr> = (Inr (TenantId (fx_bare 1)), w')"
    using fx_tenant_context by blast
  have parts: "extract_bearer fx_parts = Inr ''h.p.s''" by (simp add: fx_parts_def extract_bearer_def)
  show ?thesis using tenant_context_sound [OF run] run parts by (auto simp: fx_oidc_sel)
qed

end
