(* ===== verification/Metadata.thy ===== *)
theory Metadata
  imports Oidc CredentialTypeApi
begin

text \<open>
  The wallet-facing documents of \<open>api_oidc/metadata.rs\<close> and
  \<open>api_oidc/schemas.rs\<close>.  The profile constants of the \<open>oid4vci\<close> module of
  \<open>swiyu-core\<close> are parameters; \<open>json!\<close> of strings and values cannot fail.
\<close>

section \<open>Documents\<close>

record oid4vci_lib =
  ov_format :: string
  ov_binding_methods :: json
  ov_signing_algs :: json
  ov_proof_types :: json

record display_entry =
  de_name :: string
  de_locale :: "string option"
  de_logo_uri :: "string option"

record credential_issuer_metadata_doc =
  cim_credential_issuer :: string
  cim_credential_endpoint :: string
  cim_authorization_servers :: "string list"
  cim_configurations :: json
  cim_display :: "display_entry list"

record oauth_server_metadata_doc =
  osm_issuer :: string
  osm_token_endpoint :: string
  osm_grant_types :: "string list"
  osm_auth_methods :: "string list"
  osm_anonymous_access :: bool

definition configuration_key :: "credential_type \<Rightarrow> string" where
  "configuration_key ct = id_display ''ctype'' (ctype_bare (ct_id ct))"

definition configuration_entry :: "oid4vci_lib \<Rightarrow> credential_type \<Rightarrow> json" where
  "configuration_entry ov ct = JObj [
     (''format'', JStr (ov_format ov)), (''vct'', JStr (ct_vct ct)),
     (''cryptographic_binding_methods_supported'', ov_binding_methods ov),
     (''credential_signing_alg_values_supported'', ov_signing_algs ov),
     (''proof_types_supported'', ov_proof_types ov),
     (''display'', ct_display ct), (''claims'', ct_claims ct)]"

definition insert_configuration :: "oid4vci_lib \<Rightarrow> credential_type \<Rightarrow> json_map \<Rightarrow> json_map" where
  "insert_configuration ov ct m =
     (if ct_retired_at ct \<noteq> None then m else obj_insert (configuration_key ct) (configuration_entry ov ct) m)"

definition build_credential_configurations :: "oid4vci_lib \<Rightarrow> credential_type list \<Rightarrow> json" where
  "build_credential_configurations ov types = JObj (fold (insert_configuration ov) types [])"

section \<open>Handlers\<close>

definition oidc_issuer_id :: "'x oidc_state \<Rightarrow> string \<Rightarrow> oidc_error + issuer_id" where
  "oidc_issuer_id st raw =
     mapErrR (\<lambda>e. OidcInvalidInput (''issuer_id path parameter: '' @ show_domain_error e))
       (id_from_bare (host_bs58 (os_host st)) IssuerId raw)"

definition oidc_credential_type_id :: "'x oidc_state \<Rightarrow> string \<Rightarrow> oidc_error + ctype_id" where
  "oidc_credential_type_id st raw =
     mapErrR (\<lambda>e. OidcInvalidInput (''credential_type_id path parameter: '' @ show_domain_error e))
       (id_from_bare (host_bs58 (os_host st)) CredentialTypeId raw)"

definition oidc_issuer_url :: "'x oidc_state \<Rightarrow> issuer_id \<Rightarrow> string" where
  "oidc_issuer_url st issuer = trim_end_matches (CHR ''/'') (os_issuer_base_url st) @ ''/i/'' @ issuer_bare issuer"

definition issuer_display :: "issuer \<Rightarrow> display_entry list" where
  "issuer_display i = (case iss_display_name i of
     Some name \<Rightarrow> [\<lparr> de_name = name, de_locale = iss_locale i, de_logo_uri = iss_logo_uri i \<rparr>] | None \<Rightarrow> [])"

definition credential_issuer_metadata ::
  "oid4vci_lib \<Rightarrow> 'x oidc_state \<Rightarrow> string \<Rightarrow> ('x world, oidc_error, credential_issuer_metadata_doc) eff" where
  "credential_issuer_metadata ov st issuer_id_str =
     (let p = os_pool st in
     bindE (liftR (oidc_issuer_id st issuer_id_str)) (\<lambda>issuer_id.
     bindE (mapErr (\<lambda>e. OidcInternal (sql_show p e)) (acquire p)) (\<lambda>_.
     bindE (mapErr (oidc_from_persistence p) (find_issuer_by_id p issuer_id)) (\<lambda>found.
     bindE (okOr OidcNotFound found) (\<lambda>issuer.
     bindE (mapErr (oidc_from_persistence p)
              (list_assigned_to_issuer p (iss_tenant_id issuer) (iss_id issuer))) (\<lambda>types.
     let url = oidc_issuer_url st (iss_id issuer) in
     ret \<lparr> cim_credential_issuer = url, cim_credential_endpoint = url @ ''/credential'',
           cim_authorization_servers = [url],
           cim_configurations = build_credential_configurations ov types,
           cim_display = issuer_display issuer \<rparr>))))))"

definition oauth_authorization_server_metadata ::
  "'x oidc_state \<Rightarrow> string \<Rightarrow> ('x world, oidc_error, oauth_server_metadata_doc) eff" where
  "oauth_authorization_server_metadata st issuer_id_str =
     (let p = os_pool st in
     bindE (liftR (oidc_issuer_id st issuer_id_str)) (\<lambda>issuer_id.
     bindE (mapErr (\<lambda>e. OidcInternal (sql_show p e)) (acquire p)) (\<lambda>_.
     bindE (mapErr (oidc_from_persistence p) (find_issuer_by_id p issuer_id)) (\<lambda>found.
     bindE (okOr OidcNotFound found) (\<lambda>_.
     let url = oidc_issuer_url st issuer_id in
     ret \<lparr> osm_issuer = url, osm_token_endpoint = url @ ''/token'',
           osm_grant_types = [PRE_AUTHORIZED_GRANT_TYPE], osm_auth_methods = [''none''],
           osm_anonymous_access = True \<rparr>)))))"

definition SCHEMA_CONTENT_TYPE :: string where "SCHEMA_CONTENT_TYPE = ''application/schema+json''"

definition get_public_schema ::
  "'x oidc_state \<Rightarrow> string \<Rightarrow> ('x world, oidc_error, string \<times> byte list) eff" where
  "get_public_schema st id_str =
     (let p = os_pool st in
     bindE (liftR (oidc_credential_type_id st id_str)) (\<lambda>i.
     bindE (mapErr (\<lambda>e. OidcInternal (sql_show p e)) (acquire p)) (\<lambda>_.
     bindE (mapErr (oidc_from_persistence p) (find_credential_type_by_id p i)) (\<lambda>found.
     bindE (okOr OidcNotFound found) (\<lambda>row.
     bindE (guardE (ct_retired_at row = None) OidcNotFound) (\<lambda>_.
     bindE (liftR (mapErrR OidcInternal (jl_json_to_vec (os_jwt st) (ct_claim_schema row)))) (\<lambda>body.
     ret (SCHEMA_CONTENT_TYPE, body))))))))"

section \<open>Published configurations\<close>

lemma configuration_key_inj: "configuration_key a = configuration_key b \<longleftrightarrow> ct_id a = ct_id b"
  by (cases "ct_id a"; cases "ct_id b") (simp add: configuration_key_def id_display_def)

text \<open>The configurations of a list of types are those of the types in use, by their identifier.\<close>

lemma published_configuration:
  assumes "distinct (map ct_id cs)"
  shows "jget k (build_credential_configurations ov cs) = Some v \<longleftrightarrow>
    (\<exists>c \<in> set cs. ct_retired_at c = None \<and> k = configuration_key c \<and> v = configuration_entry ov c)"
  using assms
proof (induction cs rule: rev_induct)
  case (snoc c cs)
  have "configuration_key e \<noteq> configuration_key c" if "e \<in> set cs" for e
    using snoc.prems that by (simp add: configuration_key_inj) (metis image_eqI)
  then show ?case
    using snoc by (auto simp: build_credential_configurations_def insert_configuration_def)
qed (simp add: build_credential_configurations_def)

lemma published_keys:
  "jget k (build_credential_configurations ov cs) = Some v \<Longrightarrow> \<exists>c \<in> set cs. k = configuration_key c"
  by (induction cs rule: rev_induct)
     (auto simp: build_credential_configurations_def insert_configuration_def split: if_splits)

lemma wallet_documents_keep_db [pres]:
  "preserves (\<lambda>w. P (wdb w)) (credential_issuer_metadata ov st i)"
  "preserves (\<lambda>w. P (wdb w)) (oauth_authorization_server_metadata st i)"
  "preserves (\<lambda>w. P (wdb w)) (get_public_schema st i)"
  unfolding credential_issuer_metadata_def oauth_authorization_server_metadata_def get_public_schema_def
    list_assigned_to_issuer_def find_credential_type_by_id_def find_issuer_by_id_def Let_def
  by (intro pres)+

end
