(* ===== verification/Router.thy ===== *)
theory Router
  imports Metadata OfferApi LifecycleApi IssuerApi AccountApi AuthApi
begin

text \<open>
  The routers of \<open>api_management/mod.rs\<close> and \<open>api_oidc/mod.rs\<close>: which handler
  a route runs, behind which request context.  The framework decodes paths,
  queries and bodies; a route carries what the handler's extractors receive.
\<close>

section \<open>Errors of a response\<close>

datatype http_error =
    ApiFailure api_error
  | OidcFailure oidc_error
  | OAuthFailure oauth_error
  | StatusFailure nat

text \<open>A router's answer: the error, or that the handler rendered a success.\<close>

definition answer :: "('e \<Rightarrow> http_error) \<Rightarrow> ('x world, 'e, 'a) eff \<Rightarrow> ('x world, http_error, unit) eff" where
  "answer f m = bindE (mapErr f m) (\<lambda>_. ret ())"

lemma answer_preserves [pres]: "preserves P m \<Longrightarrow> preserves P (answer f m)"
  unfolding answer_def by (intro pres)

text \<open>The wallet service has its own \<open>readyz\<close>.\<close>

definition oidc_readyz :: "'x oidc_state \<Rightarrow> ('x world, nat, string) eff" where
  "oidc_readyz st = bindE (mapErr (\<lambda>_. 503) (acquire (os_pool st))) (\<lambda>_. ret ''ok'')"

lemma readyz_keeps_db [pres]:
  "preserves (\<lambda>w. P (wdb w)) (readyz ms)"
  "preserves (\<lambda>w. P (wdb w)) (oidc_readyz st)"
  unfolding readyz_def oidc_readyz_def by (intro pres)+

section \<open>Management routes\<close>

datatype tenant_route =
    IssuersCreate create_issuer_submission
  | IssuersList list_issuers_params
  | IssuersGet string
  | IssuersDeactivate string
  | IssuersRotateKeys string json
  | TasksGet string
  | OffersCreate string create_offer_request
  | OffersList string list_offers_params
  | OffersGet string string
  | OffersCancel string string
  | OffersStatus string string
  | CredentialsList string list_credentials_params
  | CredentialsGet string string
  | CredentialsSuspend string string
  | CredentialsUnsuspend string string
  | CredentialsRevoke string string
  | TypesCreate create_type_request
  | TypesList list_types_params
  | TypesGet string
  | TypesPatch string patch_type_request
  | TypesRetire string
  | TypesGetSchema string
  | TypesPutSchema string json
  | TypesGetDisplay string
  | TypesPutDisplay string json
  | TypesGetClaims string
  | TypesPutClaims string json
  | AssignmentsList string
  | AssignmentsPost string string
  | AssignmentsDelete string string
  | AccountsCreate account_fields
  | AccountsList list_accounts_params
  | AccountsGet string
  | AccountsPatch string account_fields
  | AccountsActivate string
  | AccountsDeactivate string
  | InvitationsCreate string "u32 option"
  | InvitationsList string list_accounts_params
  | InvitationsRevoke string

datatype mgmt_route =
    MgmtHealthz
  | MgmtReadyz
  | TenantRoute tenant_route
  | LinkingAccept string accept_request
  | LinkingResolve string string

record 'x mgmt_app =
  ma_state :: "'x mgmt_state"
  ma_jwt_validator :: "'x token_validator option"
  ma_web_base_url :: string

primrec serve_tenant :: "'x mgmt_app \<Rightarrow> tenant_id \<Rightarrow> tenant_route \<Rightarrow> ('x world, http_error, unit) eff" where
  "serve_tenant a t (IssuersCreate b) = answer ApiFailure (create_issuer (ma_state a) t b)"
| "serve_tenant a t (IssuersList q) = answer ApiFailure (list_issuers (ma_state a) t q)"
| "serve_tenant a t (IssuersGet i) = answer ApiFailure (get_issuer (ma_state a) t i)"
| "serve_tenant a t (IssuersDeactivate i) = answer ApiFailure (deactivate (ma_state a) t i)"
| "serve_tenant a t (IssuersRotateKeys i b) = answer ApiFailure (rotate_keys (ma_state a) t i b)"
| "serve_tenant a t (TasksGet k) = answer ApiFailure (get_operation_task (ma_state a) t k)"
| "serve_tenant a t (OffersCreate i b) = answer ApiFailure (create_offer (ma_state a) t i b)"
| "serve_tenant a t (OffersList i q) = answer ApiFailure (list_offers (ma_state a) t i q)"
| "serve_tenant a t (OffersGet i k) = answer ApiFailure (get_offer (ma_state a) t i k)"
| "serve_tenant a t (OffersCancel i k) = answer ApiFailure (cancel_offer (ma_state a) t i k)"
| "serve_tenant a t (OffersStatus i k) = answer ApiFailure (get_offer_status (ma_state a) t i k)"
| "serve_tenant a t (CredentialsList i q) = answer ApiFailure (list_credentials (ma_state a) t i q)"
| "serve_tenant a t (CredentialsGet i k) = answer ApiFailure (get_credential (ma_state a) t i k)"
| "serve_tenant a t (CredentialsSuspend i k) = answer ApiFailure (suspend (ma_state a) t i k)"
| "serve_tenant a t (CredentialsUnsuspend i k) = answer ApiFailure (unsuspend (ma_state a) t i k)"
| "serve_tenant a t (CredentialsRevoke i k) = answer ApiFailure (revoke (ma_state a) t i k)"
| "serve_tenant a t (TypesCreate b) = answer ApiFailure (create_type (ma_state a) t b)"
| "serve_tenant a t (TypesList q) = answer ApiFailure (list_types (ma_state a) t q)"
| "serve_tenant a t (TypesGet i) = answer ApiFailure (get_type (ma_state a) t i)"
| "serve_tenant a t (TypesPatch i b) = answer ApiFailure (patch_type (ma_state a) t i b)"
| "serve_tenant a t (TypesRetire i) = answer ApiFailure (retire (ma_state a) t i)"
| "serve_tenant a t (TypesGetSchema i) = answer ApiFailure (get_schema (ma_state a) t i)"
| "serve_tenant a t (TypesPutSchema i b) = answer ApiFailure (put_schema (ma_state a) t i b)"
| "serve_tenant a t (TypesGetDisplay i) = answer ApiFailure (get_display (ma_state a) t i)"
| "serve_tenant a t (TypesPutDisplay i b) = answer ApiFailure (put_display (ma_state a) t i b)"
| "serve_tenant a t (TypesGetClaims i) = answer ApiFailure (get_claims (ma_state a) t i)"
| "serve_tenant a t (TypesPutClaims i b) = answer ApiFailure (put_claims (ma_state a) t i b)"
| "serve_tenant a t (AssignmentsList i) = answer ApiFailure (list_assignments (ma_state a) t i)"
| "serve_tenant a t (AssignmentsPost i c) = answer ApiFailure (assign (ma_state a) t i c)"
| "serve_tenant a t (AssignmentsDelete i c) = answer ApiFailure (unassign (ma_state a) t i c)"
| "serve_tenant a t (AccountsCreate b) = answer ApiFailure (create_account (ma_state a) t b)"
| "serve_tenant a t (AccountsList q) = answer ApiFailure (list_accounts (ma_state a) t q)"
| "serve_tenant a t (AccountsGet i) = answer ApiFailure (get_account_handler (ma_state a) t i)"
| "serve_tenant a t (AccountsPatch i b) = answer ApiFailure (patch_account (ma_state a) t i b)"
| "serve_tenant a t (AccountsActivate i) = answer ApiFailure (activate_account (ma_state a) t i)"
| "serve_tenant a t (AccountsDeactivate i) = answer ApiFailure (deactivate_account (ma_state a) t i)"
| "serve_tenant a t (InvitationsCreate i x) = answer ApiFailure (create_invitation (ma_state a) (ma_web_base_url a) t i x)"
| "serve_tenant a t (InvitationsList i q) = answer ApiFailure (list_invitations (ma_state a) t i q)"
| "serve_tenant a t (InvitationsRevoke i) = answer ApiFailure (revoke_invitation (ma_state a) t i)"

primrec mgmt_router :: "'x mgmt_app \<Rightarrow> request_parts \<Rightarrow> mgmt_route \<Rightarrow> ('x world, http_error, unit) eff" where
  "mgmt_router a parts MgmtHealthz = ret ()"
| "mgmt_router a parts MgmtReadyz = answer StatusFailure (readyz (ma_state a))"
| "mgmt_router a parts (TenantRoute r) =
     bindE (mapErr ApiFailure (tenant_context (ma_state a) (ma_jwt_validator a) parts)) (\<lambda>t. serve_tenant a t r)"
| "mgmt_router a parts (LinkingAccept i b) =
     bindE (mapErr ApiFailure (first_party_context (ma_state a) (ma_jwt_validator a) parts)) (\<lambda>_.
     answer ApiFailure (accept_invitation (ma_state a) i b))"
| "mgmt_router a parts (LinkingResolve iss sub) =
     bindE (mapErr ApiFailure (first_party_context (ma_state a) (ma_jwt_validator a) parts)) (\<lambda>_.
     answer ApiFailure (resolve_accounts (ma_state a) iss sub))"

section \<open>Wallet routes\<close>

datatype oidc_route =
    OidcHealthz
  | OidcReadyz
  | IssuerMetadata string
  | ServerMetadata string
  | OfferDocument string string
  | TokenRequest string token_request
  | CredentialRequest string "header_value option" credential_request
  | PublicSchema string

primrec oidc_router :: "oid4vci_lib \<Rightarrow> 'x oidc_state \<Rightarrow> oidc_route \<Rightarrow> ('x world, http_error, unit) eff" where
  "oidc_router ov st OidcHealthz = ret ()"
| "oidc_router ov st OidcReadyz = answer StatusFailure (oidc_readyz st)"
| "oidc_router ov st (IssuerMetadata i) = answer OidcFailure (credential_issuer_metadata ov st i)"
| "oidc_router ov st (ServerMetadata i) = answer OidcFailure (oauth_authorization_server_metadata st i)"
| "oidc_router ov st (OfferDocument i k) = answer OidcFailure (credential_offer st i k)"
| "oidc_router ov st (TokenRequest i b) = answer OAuthFailure (token st i b)"
| "oidc_router ov st (CredentialRequest i h b) = answer OAuthFailure (credential st i h b)"
| "oidc_router ov st (PublicSchema i) = answer OidcFailure (get_public_schema st i)"

end
