(* ===== verification/Lifecycles.thy ===== *)
theory Lifecycles
  imports AdminInv IssuerProps ApiProps
begin

text \<open>
  The life cycles of offers, issued credentials, issuers and tasks as abstract
  state machines, and that every entry point of the program moves the rows of
  the tables only along them.
\<close>

section \<open>Tracked states\<close>

text \<open>What a table shows of its rows' states, by key.\<close>

definition states :: "('r \<Rightarrow> 'k) \<Rightarrow> ('r \<Rightarrow> 's option) \<Rightarrow> 'r list \<Rightarrow> 'k \<Rightarrow> 's option" where
  "states key st rows k = Option.bind (row_by key k rows) st"

text \<open>No row is lost, and the state of each moves along the life cycle.\<close>

definition tracks :: "('s \<Rightarrow> 's \<Rightarrow> bool) \<Rightarrow> ('k \<Rightarrow> 's option) \<Rightarrow> ('k \<Rightarrow> 's option) \<Rightarrow> bool" where
  "tracks tr m m' \<longleftrightarrow> (\<forall>k s. m k = Some s \<longrightarrow> (\<exists>s'. m' k = Some s' \<and> tr\<^sup>*\<^sup>* s s'))"

lemma tracks_refl [simp]: "tracks tr m m"
  by (auto simp: tracks_def)

lemma tracks_trans: "tracks tr m m' \<Longrightarrow> tracks tr m' m'' \<Longrightarrow> tracks tr m m''"
  unfolding tracks_def by (meson rtranclp_trans)

lemma tracksD: "tracks tr m m' \<Longrightarrow> m k = Some s \<Longrightarrow> \<exists>s'. m' k = Some s' \<and> tr\<^sup>*\<^sup>* s s'"
  by (auto simp: tracks_def)

lemma tracks_insert:
  assumes "key r \<notin> key ` set rows"
  shows "tracks tr (states key st rows) (states key st (rows @ [r]))"
proof -
  have "row_by key (key r) rows = None" using assms by (simp add: row_by_None)
  then show ?thesis
    by (auto simp: tracks_def states_def row_by_def find_append split: option.splits bind_splits)
qed

lemma tracks_update:
  assumes "\<And>r. key (f r) = key r"
    and "\<And>r s. r \<in> set rows \<Longrightarrow> Q r \<Longrightarrow> st r = Some s \<Longrightarrow> \<exists>s'. st (f r) = Some s' \<and> tr\<^sup>*\<^sup>* s s'"
  shows "tracks tr (states key st rows) (states key st (update_where Q f rows))"
  unfolding tracks_def
proof (intro allI impI)
  fix k s assume "states key st rows k = Some s"
  then obtain r where r: "row_by key k rows = Some r" "st r = Some s" by (auto simp: states_def bind_eq_Some_conv)
  have "row_by key k (update_where Q f rows) = Some (if Q r then f r else r)"
    using r by (simp add: row_by_update_where_map [of key f] assms(1))
  moreover have "r \<in> set rows" using r row_by_SomeD by fastforce
  ultimately show "\<exists>s'. states key st (update_where Q f rows) k = Some s' \<and> tr\<^sup>*\<^sup>* s s'"
    using r assms(2) [of r s] by (auto simp: states_def)
qed

section \<open>The four life cycles\<close>

definition offer_states :: "db \<Rightarrow> offer_id \<Rightarrow> offer_state option" where
  "offer_states d = states co_id (\<lambda>off. Some (co_state off)) (credential_offers d)"

definition credential_states :: "db \<Rightarrow> credential_id \<Rightarrow> ic_state option" where
  "credential_states d = states ic_id (\<lambda>c. Some (ic_state c)) (issued_credentials d)"

definition issuer_states :: "db \<Rightarrow> issuer_id \<Rightarrow> issuer_state option" where
  "issuer_states d = states issuer_key (\<lambda>r. iss_state (ir_issuer r)) (issuers d)"

definition task_states :: "db \<Rightarrow> task_id \<Rightarrow> task_state option" where
  "task_states d = states ot_id (\<lambda>t. Some (ot_state t)) (operation_tasks d)"

text \<open>The tables since a point in the past, as predicates on the tables now.\<close>

definition offers_from :: "(offer_id \<Rightarrow> offer_state option) \<Rightarrow> db \<Rightarrow> bool" where
  "offers_from m d \<longleftrightarrow> tracks offer_trans m (offer_states d)"

definition credentials_from :: "(credential_id \<Rightarrow> ic_state option) \<Rightarrow> db \<Rightarrow> bool" where
  "credentials_from m d \<longleftrightarrow> tracks ic_trans m (credential_states d)"

definition issuers_from :: "(issuer_id \<Rightarrow> issuer_state option) \<Rightarrow> db \<Rightarrow> bool" where
  "issuers_from m d \<longleftrightarrow> tracks issuer_trans m (issuer_states d)"

definition tasks_from :: "(task_id \<Rightarrow> task_state option) \<Rightarrow> db \<Rightarrow> bool" where
  "tasks_from m d \<longleftrightarrow> tracks task_trans m (task_states d)"

lemmas from_defs = offers_from_def credentials_from_def issuers_from_def tasks_from_def
lemmas states_defs = offer_states_def credential_states_def issuer_states_def task_states_def

lemma offer_moves: "offer_trans OfferPending Cancelled" "offer_trans OfferPending Issued"
proof -
  fix x :: credential_offer
  let ?off = "x\<lparr> co_state := OfferPending, co_expires_at := 1 \<rparr>"
  have "\<exists>off'. try_cancel 0 ?off = Inr off' \<and> co_state off' = Cancelled"
    "\<exists>off'. try_issue 0 ?off = Inr off' \<and> co_state off' = Issued"
    by (simp_all add: try_cancel_def try_issue_def offer_is_expired_at_def)
  moreover have "co_state ?off = OfferPending" by simp
  ultimately show "offer_trans OfferPending Cancelled" "offer_trans OfferPending Issued"
    unfolding offer_trans_def by blast+
qed

lemma issuer_moves: "issuer_trans IssuerActive Deactivated"
proof -
  fix x :: issuer
  let ?i = "x\<lparr> iss_state := Some IssuerActive \<rparr>"
  obtain o' where "try_deactivate ?i = Inr (o', ?i\<lparr> iss_state := Some Deactivated \<rparr>)" by (simp add: try_deactivate_def)
  then have "iss_state ?i = Some IssuerActive \<and> iss_state (?i\<lparr> iss_state := Some Deactivated \<rparr>) = Some Deactivated \<and>
    try_deactivate ?i = Inr (o', ?i\<lparr> iss_state := Some Deactivated \<rparr>)" by simp
  then show ?thesis unfolding issuer_trans_def by blast
qed

lemma task_moves: "task_trans TaskPending InProgress" "task_trans InProgress Completed" "task_trans InProgress Failed"
proof -
  fix x :: operation_task
  let ?t = "\<lambda>s. x\<lparr> ot_state := s \<rparr>"
  have state: "ot_state (?t s) = s" for s by simp
  have "\<exists>t'. try_acquire 0 (?t TaskPending) = Inr t' \<and> ot_state t' = InProgress"
    "\<exists>t'. try_complete 0 (?t InProgress) = Inr t' \<and> ot_state t' = Completed"
    "\<exists>t'. try_fail [] [] 0 (?t InProgress) = Inr t' \<and> ot_state t' = Failed"
    by (simp_all add: try_acquire_def try_complete_def try_fail_def)
  then show "task_trans TaskPending InProgress" "task_trans InProgress Completed" "task_trans InProgress Failed"
    unfolding task_trans_def using state by blast+
qed

section \<open>Frames\<close>

interpretation offers_admin: admin_frame "offers_from m" for m
  by unfold_locales (simp_all add: from_defs states_defs)

interpretation offers_issuers: issuer_frame "offers_from m" for m
  by unfold_locales (simp_all add: from_defs states_defs)

interpretation offers_tasks: task_frame "offers_from m" for m
  by unfold_locales (simp_all add: from_defs states_defs)

interpretation credentials_admin: admin_frame "credentials_from m" for m
  by unfold_locales (simp_all add: from_defs states_defs)

interpretation credentials_worker: worker_frame "credentials_from m" for m
  by unfold_locales (simp_all add: from_defs states_defs)

interpretation credentials_grant: grant_frame "credentials_from m" for m
  by unfold_locales (simp_all add: from_defs states_defs)

interpretation issuers_admin: admin_frame "issuers_from m" for m
  by unfold_locales (simp_all add: from_defs states_defs)

interpretation issuers_wallet: wallet_frame "issuers_from m" for m
  by unfold_locales (simp_all add: from_defs states_defs)

interpretation issuers_tasks: task_frame "issuers_from m" for m
  by unfold_locales (simp_all add: from_defs states_defs)

interpretation tasks_admin_from: admin_frame "tasks_from m" for m
  by unfold_locales (simp_all add: from_defs states_defs)

interpretation tasks_wallet_from: wallet_frame "tasks_from m" for m
  by unfold_locales (simp_all add: from_defs states_defs)

section \<open>Offers\<close>

lemma offers_insert:
  "co_id off \<notin> co_id ` set (credential_offers d) \<Longrightarrow> offers_from m d \<Longrightarrow>
   offers_from m (d\<lparr> credential_offers := credential_offers d @ [off] \<rparr>)"
  unfolding from_defs states_defs by (simp add: tracks_trans [OF _ tracks_insert])

lemma offers_move:
  assumes "offers_from m d" and "\<And>off. co_id (f off) = co_id off"
    and "\<And>off. off \<in> set (credential_offers d) \<Longrightarrow> Q off \<Longrightarrow> co_state off = OfferPending \<and> co_state (f off) \<in> {Cancelled, Issued}"
  shows "offers_from m (credential_offers_update (update_where Q f) d)"
proof -
  have "offer_trans\<^sup>*\<^sup>* (co_state r) (co_state (f r))" if "r \<in> set (credential_offers d)" "Q r" for r
    using assms(3) [OF that] offer_moves by auto
  then have "tracks offer_trans (offer_states d) (offer_states (credential_offers_update (update_where Q f) d))"
    unfolding states_defs using assms(2) by (auto intro!: tracks_update)
  then show ?thesis using assms(1) tracks_trans unfolding from_defs by blast
qed

lemma offer_stores [pres]:
  "preserves (\<lambda>w. offers_from m (wdb w)) (insert_offer p off)"
  "preserves (\<lambda>w. offers_from m (wdb w)) (cancel_offer_row p tn iss oid now)"
  "preserves (\<lambda>w. offers_from m (wdb w)) (cancel_all_pending_for_issuer p tn iss now)"
  unfolding insert_offer_def cancel_offer_row_def cancel_all_pending_for_issuer_def
  by (intro pres run_stmt_preserves; auto simp: update_stmt_def intro!: offers_insert offers_move split: if_splits)+

lemma offer_side_stores [pres]:
  "preserves (\<lambda>w. offers_from m (wdb w)) (insert_access_token p t)"
  "preserves (\<lambda>w. offers_from m (wdb w)) (insert_nonce p n)"
  "preserves (\<lambda>w. offers_from m (wdb w)) (consume_by_hash p nh now)"
  "preserves (\<lambda>w. offers_from m (wdb w)) (set_credential_state p tn cid cs)"
  unfolding insert_access_token_def insert_nonce_def consume_by_hash_def set_credential_state_def
  by (intro pres run_stmt_preserves; auto simp: update_stmt_def from_defs states_defs split: if_splits option.splits)+

lemma offer_handlers [pres]:
  "preserves (\<lambda>w. offers_from m (wdb w)) (token st i r)"
  "preserves (\<lambda>w. offers_from m (wdb w)) (credential_checks st i a q)"
  "preserves (\<lambda>w. offers_from m (wdb w)) (create_offer ms tn i req)"
  "preserves (\<lambda>w. offers_from m (wdb w)) (cancel_offer ms tn i o')"
  "preserves (\<lambda>w. offers_from m (wdb w)) (lifecycle_handler tr sv ms tn i c)"
  "preserves (\<lambda>w. offers_from m (wdb w)) (execute_mark_deactivated p tn iss now)"
  unfolding token_def credential_checks_def create_offer_def cancel_offer_def cancel_loaded_def lifecycle_handler_def
    run_lifecycle_op_def lifecycle_tx_def lifecycle_read_def lifecycle_write_def execute_mark_deactivated_def
    mark_deactivated_tx_def mark_deactivated_body_def Let_def
  by (intro pres in_tx_preserves [where P = "offers_from m"])+

interpretation offers_iteration: worker_keeps "offers_from m" wk for m wk
  by unfold_locales (intro pres)+

lemma offer_at_unique:
  assumes "data_inv d" and "find (offer_at tn iss oid) (credential_offers d) = Some off"
    and "r \<in> set (credential_offers d)" and "offer_at tn iss oid r"
  shows "r = off"
  using assms find_SomeD [OF assms(2)] by (auto simp: data_inv_defs offer_at_def distinct_map inj_on_def)

lemma issue_db_offers:
  assumes "data_inv d" and "offers_from m d"
    and off: "find (offer_at (at_tenant_id tok) (at_issuer_id tok) (at_offer_id tok)) (credential_offers d) = Some off"
      "co_state off = OfferPending"
  shows "offers_from m (issue_db tok c now d)"
proof -
  have "offers_from m (close_offer (at_tenant_id tok) (at_issuer_id tok) (at_offer_id tok) now d)"
    unfolding close_offer_def using assms offer_at_unique [OF assms(1) off(1)] by (auto intro!: offers_move)
  then show ?thesis by (simp add: issue_db_def close_offer_def take_slot_def Let_def from_defs states_defs)
qed

lemma issue_db_credentials:
  assumes "fresh_credential d c" and "credentials_from m d"
  shows "credentials_from m (issue_db tok c now d)"
proof -
  have "tracks ic_trans (credential_states d) (credential_states (d\<lparr> issued_credentials := issued_credentials d @ [c] \<rparr>))"
    using assms(1) unfolding states_defs by (simp add: tracks_insert fresh_credential_def)
  then have "credentials_from m (d\<lparr> issued_credentials := issued_credentials d @ [c] \<rparr>)"
    using assms(2) tracks_trans unfolding from_defs by blast
  then show ?thesis by (simp add: issue_db_def close_offer_def take_slot_def Let_def from_defs states_defs)
qed

section \<open>Credentials\<close>

lemma preserves_conj: "preserves P m \<Longrightarrow> preserves Q m \<Longrightarrow> preserves (\<lambda>w. P w \<and> Q w) m"
  by (simp add: preserves_def)

lemma issue_tx_moves:
  "preserves (\<lambda>w. data_inv (wdb w) \<and> offers_from m (wdb w) \<and> credentials_from n (wdb w))
     (in_tx (os_pool st) f g (credential_tx st ck))"
proof (rule in_tx_commits [where P = "\<lambda>d. data_inv d \<and> offers_from m d \<and> credentials_from n d"])
  fix w :: "'a world" and b w'
  assume P: "data_inv (wdb w) \<and> offers_from m (wdb w) \<and> credentials_from n (wdb w)"
    and run: "credential_tx st ck w = (Inr (Commit b), w')"
  show "data_inv (wdb w') \<and> offers_from m (wdb w') \<and> credentials_from n (wdb w')"
    using credential_tx_effect [OF run] P issue_db_keeps issue_db_offers issue_db_credentials
    by (elim exE conjE) simp
qed

lemma credential_keeps_offers_and_credentials:
  "preserves (\<lambda>w. data_inv (wdb w) \<and> offers_from m (wdb w) \<and> credentials_from n (wdb w)) (credential st i a q)"
proof -
  have "preserves (\<lambda>w. data_inv (wdb w) \<and> offers_from m (wdb w) \<and> credentials_from n (wdb w)) (credential_checks st i a q)"
    by (intro preserves_conj credential_checks_keep_data pres)
  then show ?thesis unfolding credential_def by (intro preserves_bindE issue_tx_moves)
qed

lemma credentials_move:
  assumes "data_inv d" and "credentials_from m d" and "c \<in> set (issued_credentials d)" and "ic_id c' = ic_id c"
    and "ic_trans (ic_state c) (ic_state c')"
  shows "credentials_from m (lifecycle_db tn c' bits d)"
proof -
  have "ic_trans\<^sup>*\<^sup>* (ic_state r) (ic_state c')" if "r \<in> set (issued_credentials d)" "ic_id r = ic_id c" for r
    using cred_unique [OF assms(1) that(1) assms(3) that(2)] assms(5) by simp
  then have "tracks ic_trans (credential_states d) (credential_states (lifecycle_db tn c' bits d))"
    using assms(4,5) by (auto simp: states_defs lifecycle_db_def Let_def intro!: tracks_update)
  then show ?thesis using assms(2) tracks_trans unfolding from_defs by blast
qed

text \<open>The three operations of the management API.\<close>

definition ic_operation :: "(issued_credential \<Rightarrow> domain_error + issued_credential) \<Rightarrow> bool" where
  "ic_operation tr \<longleftrightarrow> tr \<in> {try_suspend, try_unsuspend, try_revoke}"

lemma ic_operation_moves:
  assumes "ic_operation tr" and "tr c = Inr c'"
  shows "ic_id c' = ic_id c \<and> ic_trans (ic_state c) (ic_state c')"
proof
  show "ic_id c' = ic_id c"
    using assms by (auto simp: ic_operation_def try_suspend_def try_unsuspend_def try_revoke_def split: ic_state.splits)
  show "ic_trans (ic_state c) (ic_state c')" using assms unfolding ic_operation_def ic_trans_def by blast
qed

lemma lifecycle_keeps_credentials:
  assumes "ic_operation tr"
  shows "preserves (\<lambda>w. data_inv (wdb w) \<and> credentials_from m (wdb w)) (lifecycle_handler tr sv ms tn i c)"
proof -
  have "preserves (\<lambda>w. data_inv (wdb w) \<and> credentials_from m (wdb w)) (run_lifecycle_op ms tn iss cid tr sv)" for iss cid
  proof
    fix w :: "'a world" assume P: "data_inv (wdb w) \<and> credentials_from m (wdb w)"
    obtain r w' where run: "run_lifecycle_op ms tn iss cid tr sv w = (r, w')" by fastforce
    have "credentials_from m (lifecycle_db tn c' bits (wdb w))"
      if "find (\<lambda>q. ic_id q = cid \<and> ic_tenant_id q = tn) (issued_credentials (wdb w)) = Some c0" "tr c0 = Inr c'" for c0 c' bits
      using credentials_move [of "wdb w" m c0 c'] ic_operation_moves [OF assms that(2)] P find_SomeD [OF that(1)] by simp
    then have "credentials_from m (wdb w')" using lifecycle_state_and_bit [OF run] P by auto
    moreover have "preserves (\<lambda>w. data_inv (wdb w)) (run_lifecycle_op ms tn iss cid tr sv)"
      unfolding run_lifecycle_op_def lifecycle_tx_def lifecycle_read_def lifecycle_write_def Let_def
      by (intro pres in_tx_preserves [where P = data_inv])
    then have "data_inv (wdb w')" using P run by (metis preserves_def snd_conv)
    ultimately show "data_inv (wdb (snd (run_lifecycle_op ms tn iss cid tr sv w))) \<and>
      credentials_from m (wdb (snd (run_lifecycle_op ms tn iss cid tr sv w)))" using run by simp
  qed
  then show ?thesis unfolding lifecycle_handler_def by (intro pres)
qed

section \<open>Issuers\<close>

lemma issuers_insert:
  "iss_id i \<notin> issuer_key ` set (issuers d) \<Longrightarrow> issuers_from m d \<Longrightarrow> issuer_key r = iss_id i \<Longrightarrow>
   issuers_from m (d\<lparr> issuers := issuers d @ [r] \<rparr>)"
  unfolding from_defs states_defs by (simp add: tracks_trans [OF _ tracks_insert])

lemma issuers_move:
  assumes "issuers_from m d" and "\<And>r. issuer_key (f r) = issuer_key r"
    and "\<And>r. iss_state (ir_issuer (f r)) = iss_state (ir_issuer r) \<or> iss_state (ir_issuer (f r)) = Some Deactivated"
  shows "issuers_from m (issuers_update (update_where Q f) d)"
proof -
  have "\<exists>s'. iss_state (ir_issuer (f r)) = Some s' \<and> issuer_trans\<^sup>*\<^sup>* s s'" if "iss_state (ir_issuer r) = Some s" for r s
    using assms(3) [of r] that issuer_moves by (cases s) auto
  then have "tracks issuer_trans (issuer_states d) (issuer_states (issuers_update (update_where Q f) d))"
    unfolding states_defs using assms(2) by (auto intro!: tracks_update)
  then show ?thesis using assms(1) tracks_trans unfolding from_defs by blast
qed

lemma issuer_stores_move [pres]:
  "preserves (\<lambda>w. issuers_from m (wdb w)) (insert_issuer p i)"
  "preserves (\<lambda>w. issuers_from m (wdb w)) (swap_key_triple p t iss a b c)"
  "preserves (\<lambda>w. issuers_from m (wdb w)) (set_issuer_state p t iss Deactivated)"
  "preserves (\<lambda>w. issuers_from m (wdb w)) (cancel_all_pending_for_issuer p t iss now)"
  "preserves (\<lambda>w. issuers_from m (wdb w)) (provision_for_issuer p h iss e u)"
  unfolding insert_issuer_def swap_key_triple_def set_issuer_state_def cancel_all_pending_for_issuer_def
    provision_for_issuer_def Let_def
  by (intro pres run_stmt_preserves run_stmt_world_preserves;
      auto simp: update_stmt_def issuer_key_def update_issuer_def issuers_wallet.lists issuers_wallet.offers intro!: issuers_insert issuers_move split: if_splits)+

lemma mark_moves_issuers [pres]: "preserves (\<lambda>w. issuers_from m (wdb w)) (execute_mark_deactivated p t iss now)"
  unfolding execute_mark_deactivated_def mark_deactivated_tx_def mark_deactivated_body_def
  by (intro pres in_tx_preserves [where P = "issuers_from m"])

interpretation issuers_iteration: worker_keeps "issuers_from m" wk for m wk
  by unfold_locales (intro pres)+

section \<open>Tasks\<close>

text \<open>A row stays in the table, and a task that was started does not go back to \<open>Pending\<close>.\<close>

definition task_stays :: "bool \<Rightarrow> task_id \<Rightarrow> db \<Rightarrow> bool" where
  "task_stays started i d \<longleftrightarrow> (\<exists>t. task_row i d = Some t \<and> (started \<longrightarrow> ot_state t \<noteq> TaskPending))"

interpretation stays_issuers: issuer_frame "task_stays b i" for b i
  by unfold_locales (simp_all add: task_stays_def)

lemma task_stays_update:
  assumes "task_stays b i d" and "\<And>t. ot_id (f t) = ot_id t"
    and "\<And>t. ot_state t \<noteq> TaskPending \<Longrightarrow> ot_state (f t) \<noteq> TaskPending"
  shows "task_stays b i (operation_tasks_update (update_where Q f) d)"
proof -
  obtain t where t: "task_row i d = Some t" "b \<longrightarrow> ot_state t \<noteq> TaskPending" using assms(1) by (auto simp: task_stays_def)
  then have "task_row i (operation_tasks_update (update_where Q f) d) = Some (if Q t then f t else t)"
    using assms(2) by (simp add: row_by_update_where_map [of ot_id f])
  then show ?thesis using t assms(3) [of t] by (simp add: task_stays_def)
qed

lemma task_stores_stay [pres]:
  "ot_state t = InProgress \<Longrightarrow> preserves (\<lambda>w. task_stays b i (wdb w)) (set_acquired p t)"
  "preserves (\<lambda>w. task_stays b i (wdb w)) (advance_step p ti nxt patch now)"
  "preserves (\<lambda>w. task_stays b i (wdb w)) (schedule_retry p ti at ec em now)"
  "task_state_is_terminal (ot_state t) \<Longrightarrow> preserves (\<lambda>w. task_stays b i (wdb w)) (set_terminal_state p t)"
  unfolding set_acquired_def advance_step_def schedule_retry_def set_terminal_state_def
  by (intro pres update_one_preserves; auto intro!: task_stays_update split: if_splits)+

lemma stays_mark [pres]:
  "preserves (\<lambda>w. task_stays b i (wdb w)) (cancel_all_pending_for_issuer p t iss now)"
  "preserves (\<lambda>w. task_stays b i (wdb w)) (execute_mark_deactivated p t iss now)"
  unfolding task_stays_def by (intro pres)+

interpretation stays_iteration: worker_keeps "task_stays b i" wk for b i wk
  by unfold_locales (intro pres | assumption)+

lemma task_trans_from_pending: "task_trans\<^sup>*\<^sup>* TaskPending s"
  using task_moves by (cases s) (auto intro: rtranclp.intros)

lemma task_trans_from_progress: "s \<noteq> TaskPending \<Longrightarrow> task_trans\<^sup>*\<^sup>* InProgress s"
  using task_moves by (cases s) auto

lemma poll_moves_tasks:
  assumes inv: "tasks_inv (wdb w)" and P: "tasks_from m (wdb w)"
  shows "tasks_from m (wdb (snd (poll wk w)))"
proof -
  let ?d = "wdb w" and ?d' = "wdb (snd (poll wk w))"
  have "\<exists>s'. task_states ?d' i = Some s' \<and> task_trans\<^sup>*\<^sup>* s s'" if s: "task_states ?d i = Some s" for i s
  proof -
    obtain t where t: "task_row i ?d = Some t" "ot_state t = s"
      using s by (auto simp: states_defs states_def bind_eq_Some_conv)
    then have "task_stays (s \<noteq> TaskPending) i ?d" by (simp add: task_stays_def)
    then have "task_stays (s \<noteq> TaskPending) i ?d'"
      using stays_iteration.poll_kept by (metis preserves_def)
    then obtain t' where t': "task_row i ?d' = Some t'" "s \<noteq> TaskPending \<longrightarrow> ot_state t' \<noteq> TaskPending"
      by (auto simp: task_stays_def)
    have "t' = t" if "task_state_is_terminal s" using poll_table [OF inv] t t' that by fastforce
    then have "task_trans\<^sup>*\<^sup>* s (ot_state t')"
      using t t' task_trans_from_pending task_trans_from_progress by (cases s) auto
    then show ?thesis using t' by (simp add: states_defs states_def)
  qed
  then have "tracks task_trans (task_states ?d) (task_states ?d')" by (simp add: tracks_def)
  then show ?thesis using P tracks_trans unfolding from_defs by blast
qed

lemma insert_task_tracks [pres]: "preserves (\<lambda>w. tasks_from m (wdb w)) (insert_task p t)"
proof -
  have "tasks_from m (d\<lparr> operation_tasks := operation_tasks d @ [t] \<rparr>)"
    if "ot_id t \<notin> ot_id ` set (operation_tasks d)" "tasks_from m d" for d
    using that unfolding from_defs states_defs by (simp add: tracks_trans [OF _ tracks_insert])
  then show ?thesis unfolding insert_task_def by (intro pres run_stmt_preserves) (auto split: if_splits)
qed

lemma submissions_track [pres]:
  "preserves (\<lambda>w. tasks_from m (wdb w)) (create_issuer ms tn req)"
  "preserves (\<lambda>w. tasks_from m (wdb w)) (deactivate ms tn i)"
  "preserves (\<lambda>w. tasks_from m (wdb w)) (rotate_keys ms tn i b)"
  unfolding create_issuer_def deactivate_def rotate_keys_def submit_task_def load_managed_issuer_def
    find_latest_by_type_and_issuer_def Let_def
  by (intro pres preserves_deactivate_case)+

end
