(* ===== verification/Envelope.thy ===== *)
theory Envelope
  imports AccountDomain
begin

text \<open>
  The self-describing envelopes of stored secrets,
  \<open>domain/secret_encryption_engine/{dev,vault}/envelope.rs\<close>: a format byte, the
  length-prefixed key name, the big-endian key version, then the payload of the
  engine.  Each format round-trips, and what decodes has exactly one encoding.
\<close>

section \<open>Bytes and text\<close>

definition str_bytes :: "string \<Rightarrow> byte list" where
  "str_bytes s = map of_char s"

definition bytes_str :: "byte list \<Rightarrow> string" where
  "bytes_str bs = map (\<lambda>b. char_of (unat b)) bs"

text \<open>\<open>std::str::from_utf8\<close>: the well-formed sequences of the Unicode standard, table 3-7.\<close>

definition in_range :: "byte \<Rightarrow> nat \<Rightarrow> nat \<Rightarrow> bool" where
  "in_range b lo hi \<longleftrightarrow> lo \<le> unat b \<and> unat b \<le> hi"

abbreviation continuation :: "byte \<Rightarrow> bool" where "continuation b \<equiv> in_range b 0x80 0xBF"

fun utf8_valid :: "byte list \<Rightarrow> bool" where
  "utf8_valid [] = True"
| "utf8_valid (a # bs) =
     (if unat a < 0x80 then utf8_valid bs
      else if in_range a 0xC2 0xDF then (case bs of b # rest \<Rightarrow> continuation b \<and> utf8_valid rest | _ \<Rightarrow> False)
      else if in_range a 0xE0 0xEF then (case bs of
          b # c # rest \<Rightarrow>
            (if unat a = 0xE0 then in_range b 0xA0 0xBF else if unat a = 0xED then in_range b 0x80 0x9F else continuation b) \<and>
            continuation c \<and> utf8_valid rest
        | _ \<Rightarrow> False)
      else if in_range a 0xF0 0xF4 then (case bs of
          b # c # d # rest \<Rightarrow>
            (if unat a = 0xF0 then in_range b 0x90 0xBF else if unat a = 0xF4 then in_range b 0x80 0x8F else continuation b) \<and>
            continuation c \<and> continuation d \<and> utf8_valid rest
        | _ \<Rightarrow> False)
      else False)"

definition from_utf8 :: "byte list \<Rightarrow> string option" where
  "from_utf8 bs = (if utf8_valid bs then Some (bytes_str bs) else None)"

definition to_be_bytes :: "u32 \<Rightarrow> byte list" where
  "to_be_bytes v = map (\<lambda>k. of_nat (unat v div 256 ^ k mod 256)) [3, 2, 1, 0]"

definition from_be_bytes :: "byte list \<Rightarrow> u32" where
  "from_be_bytes bs = of_nat (foldl (\<lambda>acc b. acc * 256 + unat b) 0 bs)"

text \<open>\<open>str::parse\<close> for an unsigned integer: one optional plus sign, then digits, checked from the left.\<close>

fun parse_digits :: "nat \<Rightarrow> nat \<Rightarrow> string \<Rightarrow> string + nat" where
  "parse_digits m acc [] = Inr acc"
| "parse_digits m acc (c # cs) =
     (let d = of_char c :: nat in
      if d < 48 \<or> 57 < d then Inl ''invalid digit found in string''
      else if m < acc * 10 + (d - 48) then Inl ''number too large to fit in target type''
      else parse_digits m (acc * 10 + (d - 48)) cs)"

definition parse_unsigned :: "nat \<Rightarrow> string \<Rightarrow> string + nat" where
  "parse_unsigned m s =
     (if s = [] then Inl ''cannot parse integer from empty string''
      else if s = ''+'' then Inl ''invalid digit found in string''
      else parse_digits m 0 (if hd s = CHR ''+'' then tl s else s))"

section \<open>Envelopes\<close>

definition DEV_FORMAT :: byte where "DEV_FORMAT = 1"
definition VAULT_FORMAT :: byte where "VAULT_FORMAT = 2"
definition NONCE_LEN :: nat where "NONCE_LEN = 12"
definition MAX_KEY_NAME_LEN :: nat where "MAX_KEY_NAME_LEN = 255"

record dev_envelope =
  dv_key_name :: string
  dv_key_version :: u32
  dv_nonce :: "byte list"
  dv_ct_and_tag :: "byte list"

record vault_envelope =
  ve_key_name :: string
  ve_key_version :: u32
  ve_vault_payload :: "byte list"

definition key_name_too_long :: "nat \<Rightarrow> secret_encryption_error" where
  "key_name_too_long n = SecBackend (''key_name exceeds 255-byte envelope bound: '' @ show_nat n @ '' bytes'')"

definition dev_envelope_encode :: "dev_envelope \<Rightarrow> secret_encryption_error + byte list" where
  "dev_envelope_encode e =
     (let name = str_bytes (dv_key_name e) in
      if length name > MAX_KEY_NAME_LEN then Inl (key_name_too_long (length name))
      else Inr ([DEV_FORMAT] @ [of_nat (length name)] @ name @ to_be_bytes (dv_key_version e)
                @ dv_nonce e @ dv_ct_and_tag e))"

definition dev_envelope_decode :: "byte list \<Rightarrow> secret_encryption_error + dev_envelope" where
  "dev_envelope_decode bytes =
     (if length bytes < 2 then Inl MalformedCiphertext
      else if bytes ! 0 \<noteq> DEV_FORMAT then Inl MalformedCiphertext
      else let n = unat (bytes ! 1); header_end = 2 + n + 4 + NONCE_LEN in
        if length bytes < header_end then Inl MalformedCiphertext
        else case from_utf8 (take n (drop 2 bytes)) of
            None \<Rightarrow> Inl MalformedCiphertext
          | Some name \<Rightarrow> Inr \<lparr> dv_key_name = name,
              dv_key_version = from_be_bytes (take 4 (drop (2 + n) bytes)),
              dv_nonce = take NONCE_LEN (drop (2 + n + 4) bytes),
              dv_ct_and_tag = drop (2 + n + 4 + NONCE_LEN) bytes \<rparr>)"

definition vault_envelope_encode :: "vault_envelope \<Rightarrow> secret_encryption_error + byte list" where
  "vault_envelope_encode e =
     (let name = str_bytes (ve_key_name e) in
      if length name > MAX_KEY_NAME_LEN then Inl (key_name_too_long (length name))
      else Inr ([VAULT_FORMAT] @ [of_nat (length name)] @ name @ to_be_bytes (ve_key_version e) @ ve_vault_payload e))"

definition vault_envelope_decode :: "byte list \<Rightarrow> secret_encryption_error + vault_envelope" where
  "vault_envelope_decode bytes =
     (if length bytes < 2 then Inl MalformedCiphertext
      else if bytes ! 0 \<noteq> VAULT_FORMAT then Inl MalformedCiphertext
      else let n = unat (bytes ! 1); header_end = 2 + n + 4 in
        if length bytes < header_end then Inl MalformedCiphertext
        else case from_utf8 (take n (drop 2 bytes)) of
            None \<Rightarrow> Inl MalformedCiphertext
          | Some name \<Rightarrow> Inr \<lparr> ve_key_name = name,
              ve_key_version = from_be_bytes (take 4 (drop (2 + n) bytes)),
              ve_vault_payload = drop (2 + n + 4) bytes \<rparr>)"

section \<open>Round trips\<close>

lemma byte_less: "unat (b :: byte) < 256"
proof -
  have "unat b < 2 ^ LENGTH(8)" by (rule unsigned_less)
  then show ?thesis by simp
qed

lemma byte_of_char: "(of_char (char_of (unat b)) :: byte) = b"
proof -
  have "(of_char (char_of (unat b)) :: byte) = of_nat (of_char (char_of (unat b)) :: nat)" by (simp only: of_nat_of_char)
  also have "(of_char (char_of (unat b)) :: nat) = unat b mod 256" by (rule of_char_of)
  also have "unat b mod 256 = unat b" using byte_less [of b] by simp
  finally show ?thesis by simp
qed

lemma str_bytes_inv [simp]: "bytes_str (str_bytes s) = s" "str_bytes (bytes_str bs) = bs"
  by (simp_all add: bytes_str_def str_bytes_def comp_def char_of_byte byte_of_char)

lemma str_bytes_length [simp]: "length (str_bytes s) = length s" "length (bytes_str bs) = length bs"
  by (simp_all add: str_bytes_def bytes_str_def)

lemma be_bytes_length [simp]: "length (to_be_bytes v) = 4"
  by (simp add: to_be_bytes_def)

lemma base256_digits:
  fixes n :: nat
  assumes "n < 256 ^ 4"
  shows "foldl (\<lambda>acc b. acc * 256 + b) 0 (map (\<lambda>k. n div 256 ^ k mod 256) [3, 2, 1, 0]) = n"
proof -
  define a b c where "a = n div 256" and "b = a div 256" and "c = b div 256"
  have n: "a * 256 + n mod 256 = n" "b * 256 + a mod 256 = a" "c * 256 + b mod 256 = b" by (simp_all add: a_def b_def c_def)
  have d: "n div 256 ^ 2 = b" "n div 256 ^ 3 = c"
    by (simp_all add: a_def b_def c_def div_mult2_eq [symmetric])
  have "c < 256" using assms d(2) by simp
  then show ?thesis using n d by (simp add: a_def [symmetric])
qed

lemma be_bytes_inv [simp]: "from_be_bytes (to_be_bytes v) = v"
proof -
  have "unat v < 2 ^ LENGTH(32)" by (rule unsigned_less)
  then have lt: "unat v < 256 ^ 4" by simp
  have b: "unat (of_nat (unat v div 256 ^ k mod 256) :: byte) = unat v div 256 ^ k mod 256" for k
    by (simp add: unsigned_of_nat take_bit_eq_mod)
  have "foldl (\<lambda>acc b. acc * 256 + unat b) 0 (to_be_bytes v) = unat v"
    using base256_digits [OF lt] unfolding to_be_bytes_def foldl_map b .
  then show ?thesis by (simp add: from_be_bytes_def)
qed

lemma be_bytes_canonical:
  assumes "length bs = 4"
  shows "to_be_bytes (from_be_bytes bs) = bs"
proof -
  obtain a b c d where bs: "bs = [a, b, c, d]" using assms by (auto simp: length_Suc_conv numeral_eq_Suc)
  define n where "n = ((unat a * 256 + unat b) * 256 + unat c) * 256 + unat d"
  note lt = byte_less [of a] byte_less [of b] byte_less [of c] byte_less [of d]
  have "n < 2 ^ 32" using lt by (simp add: n_def)
  then have u: "unat (of_nat n :: u32) = n" by (simp add: unsigned_of_nat take_bit_eq_mod)
  have "n div 256 = (unat a * 256 + unat b) * 256 + unat c" using lt by (simp add: n_def)
  then have "n div 256 mod 256 = unat c" by (simp only: mod_mult_self3) (use lt(3) in simp)
  moreover have "n div 256 ^ 2 = unat a * 256 + unat b" "n div 256 ^ 3 = unat a" using lt by (simp_all add: n_def)
  moreover have "n mod 256 = unat d" unfolding n_def mod_mult_self3 using lt(4) by simp
  ultimately have "n div 256 ^ 3 mod 256 = unat a" "n div 256 ^ 2 mod 256 = unat b" "n div 256 ^ 1 mod 256 = unat c" "n div 256 ^ 0 mod 256 = unat d"
    using lt by (simp_all only: mod_mult_self3 power_one_right power_0 div_by_1) simp_all
  then have "to_be_bytes (of_nat n) = [a, b, c, d]" unfolding to_be_bytes_def u by simp
  then show ?thesis by (simp only: bs from_be_bytes_def foldl.simps n_def mult_0 add_0)
qed

lemma name_len_byte: "n \<le> MAX_KEY_NAME_LEN \<Longrightarrow> unat (of_nat n :: byte) = n"
  by (simp add: MAX_KEY_NAME_LEN_def unat_of_nat)

lemma dev_round_trip:
  assumes "length (dv_key_name e) \<le> MAX_KEY_NAME_LEN" and "utf8_valid (str_bytes (dv_key_name e))"
    and "length (dv_nonce e) = NONCE_LEN"
  shows "\<exists>bytes. dev_envelope_encode e = Inr bytes \<and> dev_envelope_decode bytes = Inr e"
  using assms by (simp add: dev_envelope_encode_def dev_envelope_decode_def Let_def name_len_byte from_utf8_def NONCE_LEN_def drop_Cons')

lemma vault_round_trip:
  assumes "length (ve_key_name e) \<le> MAX_KEY_NAME_LEN" and "utf8_valid (str_bytes (ve_key_name e))"
  shows "\<exists>bytes. vault_envelope_encode e = Inr bytes \<and> vault_envelope_decode bytes = Inr e"
  using assms by (simp add: vault_envelope_encode_def vault_envelope_decode_def Let_def name_len_byte from_utf8_def drop_Cons')

text \<open>An envelope has one encoding: what decodes was encoded.\<close>

lemma split_envelope:
  assumes "2 \<le> length bytes" and "bytes ! 0 = f" and "2 + unat (bytes ! 1) + 4 \<le> length bytes"
  shows "bytes = [f] @ [bytes ! 1] @ take (unat (bytes ! 1)) (drop 2 bytes) @ take 4 (drop (2 + unat (bytes ! 1)) bytes)
     @ drop (2 + unat (bytes ! 1) + 4) bytes"
proof -
  obtain b0 b1 rest where b: "bytes = b0 # b1 # rest" using assms(1) by (cases bytes; cases "tl bytes") auto
  have "rest = take n rest @ take 4 (drop n rest) @ drop (n + 4) rest" for n
    by (metis append_take_drop_id drop_drop add.commute)
  then show ?thesis using assms(2) by (simp add: b drop_Cons' add.commute)
qed

lemma name_len_unat: "unat (b :: byte) \<le> MAX_KEY_NAME_LEN"
  using byte_less [of b] by (simp add: MAX_KEY_NAME_LEN_def)

lemma from_utf8_Some: "from_utf8 bs = Some s \<longleftrightarrow> utf8_valid bs \<and> s = bytes_str bs"
  by (auto simp: from_utf8_def)

lemma vault_canonical:
  assumes "vault_envelope_decode bytes = Inr e"
  shows "vault_envelope_encode e = Inr bytes"
proof -
  let ?n = "unat (bytes ! 1)"
  have len: "2 \<le> length bytes" "bytes ! 0 = VAULT_FORMAT" "2 + ?n + 4 \<le> length bytes"
    and e: "e = \<lparr> ve_key_name = bytes_str (take ?n (drop 2 bytes)), ve_key_version = from_be_bytes (take 4 (drop (2 + ?n) bytes)),
      ve_vault_payload = drop (2 + ?n + 4) bytes \<rparr>"
    using assms by (auto simp: vault_envelope_decode_def Let_def from_utf8_Some split: if_splits option.splits)
  have "length (take ?n (drop 2 bytes)) = ?n" "length (take 4 (drop (2 + ?n) bytes)) = 4" using len by simp_all
  then show ?thesis
    using split_envelope [OF len] name_len_unat [of "bytes ! 1"]
    by (simp add: e vault_envelope_encode_def Let_def be_bytes_canonical)
qed

lemma dev_canonical:
  assumes "dev_envelope_decode bytes = Inr e"
  shows "dev_envelope_encode e = Inr bytes"
proof -
  let ?n = "unat (bytes ! 1)"
  have len: "2 \<le> length bytes" "bytes ! 0 = DEV_FORMAT" "2 + ?n + 4 \<le> length bytes" "2 + ?n + 4 + NONCE_LEN \<le> length bytes"
    and e: "e = \<lparr> dv_key_name = bytes_str (take ?n (drop 2 bytes)), dv_key_version = from_be_bytes (take 4 (drop (2 + ?n) bytes)),
      dv_nonce = take NONCE_LEN (drop (2 + ?n + 4) bytes), dv_ct_and_tag = drop (2 + ?n + 4 + NONCE_LEN) bytes \<rparr>"
    using assms by (auto simp: dev_envelope_decode_def Let_def from_utf8_Some split: if_splits option.splits)
  define tail where "tail = drop (2 + ?n + 4) bytes"
  have tail': "drop (2 + ?n + 4 + NONCE_LEN) bytes = drop NONCE_LEN tail" by (simp add: tail_def add.commute add.left_commute)
  have "length (take ?n (drop 2 bytes)) = ?n" "length (take 4 (drop (2 + ?n) bytes)) = 4" using len by simp_all
  then show ?thesis
    using split_envelope [OF len(1,2,3), folded tail_def] name_len_unat [of "bytes ! 1"]
    unfolding e tail' tail_def [symmetric] by (simp add: dev_envelope_encode_def Let_def be_bytes_canonical)
qed

end
