(* ===== verification/Secrets.thy ===== *)
theory Secrets
  imports Envelope ApiCommon
begin

text \<open>
  The secret-encryption engines: \<open>domain/secret_encryption_engine/dev/mod.rs\<close> (AES-GCM
  under keys derived from a master key), \<open>vault/mod.rs\<close> (Vault Transit), the dispatch of
  \<open>any.rs\<close> and the start-up configuration of \<open>builder.rs\<close>.  HKDF, AES-GCM, base64, URL
  parsing and the HTTP client are parameters.  The contract \<open>key_bound_engine\<close> is what the
  tenant store relies on: a ciphertext opens only under the key name it was made for.
\<close>

section \<open>Outside code\<close>

datatype base64_engine = Standard | UrlSafe | StandardNoPad | UrlSafeNoPad

datatype http_body = JsonBody json | FormBody "(string \<times> string) list"

text \<open>A response body is read once, as text or as JSON; each reading may fail.\<close>

record http_response =
  hr_status :: nat
  hr_text :: "string + string"
  hr_json :: "string + json"

record 'x secret_env =
  sv_host :: "'x host"
  sv_hkdf_sha256 :: "byte list \<Rightarrow> byte list \<Rightarrow> byte list"
  sv_aes_encrypt :: "byte list \<Rightarrow> byte list \<Rightarrow> byte list \<Rightarrow> string + byte list"
  sv_aes_decrypt :: "byte list \<Rightarrow> byte list \<Rightarrow> byte list \<Rightarrow> byte list option"
  sv_b64_encode :: "byte list \<Rightarrow> string"
  sv_b64_decode :: "base64_engine \<Rightarrow> string \<Rightarrow> string + byte list"
  sv_url_parse :: "string \<Rightarrow> string + string"
  sv_status_text :: "nat \<Rightarrow> string"
  sv_utf8_error :: "byte list \<Rightarrow> string"
  sv_post :: "string \<Rightarrow> (string \<times> string) list \<Rightarrow> http_body \<Rightarrow> ('x, string, http_response) eff"

definition status_is_success :: "nat \<Rightarrow> bool" where
  "status_is_success s \<longleftrightarrow> 200 \<le> s \<and> s < 300"

definition status_is_client_error :: "nat \<Rightarrow> bool" where
  "status_is_client_error s \<longleftrightarrow> 400 \<le> s \<and> s < 500"

fun str_contains :: "string \<Rightarrow> string \<Rightarrow> bool" where
  "str_contains pat [] = (pat = [])"
| "str_contains pat (c # cs) = (strip_prefix pat (c # cs) \<noteq> None \<or> str_contains pat cs)"

text \<open>
  A derived \<open>Deserialize\<close> reads a struct from an object, where a known field may occur
  only once, or from an array with exactly one element per field.
\<close>

fun struct_members :: "string list \<Rightarrow> json \<Rightarrow> string + json_map" where
  "struct_members names (JObj kvs) =
     (if distinct (filter (\<lambda>k. k \<in> set names) (map fst kvs)) then Inr kvs else Inl ''duplicate field'')"
| "struct_members names (JArr xs) =
     (if length xs = length names then Inr (zip names xs) else Inl ''invalid length'')"
| "struct_members names _ = Inl ''invalid type''"

definition text_member :: "string \<Rightarrow> json \<Rightarrow> string + string" where
  "text_member field v = bindR (struct_members [field] v) (req_member as_string field)"

definition data_member :: "string \<Rightarrow> json \<Rightarrow> string + string" where
  "data_member field v = bindR (struct_members [''data''] v) (\<lambda>m.
     bindR (req_member Some ''data'' m) (text_member field))"

section \<open>The development engine\<close>

definition HKDF_INFO_PREFIX :: string where "HKDF_INFO_PREFIX = ''swiyu-issuer/v1/secret-management/''"
definition DEV_KEY_VERSION :: u32 where "DEV_KEY_VERSION = 1"
definition MASTER_KEY_LEN :: nat where "MASTER_KEY_LEN = 32"

record dev_engine =
  de_master_key :: "byte list"

definition derive_key :: "'x secret_env \<Rightarrow> dev_engine \<Rightarrow> string \<Rightarrow> byte list" where
  "derive_key sv eng key_name =
     sv_hkdf_sha256 sv (de_master_key eng) (str_bytes HKDF_INFO_PREFIX @ str_bytes key_name)"

text \<open>A nonce is a 12-byte array that the entropy source fills.\<close>

definition fill_array :: "nat \<Rightarrow> byte list \<Rightarrow> byte list" where
  "fill_array n bs = take n (bs @ replicate n 0)"

definition generate_nonce :: "'x host \<Rightarrow> ('x world, 'e, byte list) eff" where
  "generate_nonce h = bindE (random_bytes h NONCE_LEN) (\<lambda>bs. ret (fill_array NONCE_LEN bs))"

definition dev_encrypt ::
  "'x secret_env \<Rightarrow> dev_engine \<Rightarrow> string \<Rightarrow> byte list \<Rightarrow> ('x world, secret_encryption_error, ciphertext) eff" where
  "dev_encrypt sv eng key_name plaintext =
     bindE (generate_nonce (sv_host sv)) (\<lambda>nonce.
     bindE (liftR (mapErrR (\<lambda>e. SecBackend (''aes-gcm encrypt: '' @ e))
              (sv_aes_encrypt sv (derive_key sv eng key_name) nonce plaintext))) (\<lambda>ct_and_tag.
     bindE (liftR (dev_envelope_encode \<lparr> dv_key_name = key_name, dv_key_version = DEV_KEY_VERSION,
              dv_nonce = nonce, dv_ct_and_tag = ct_and_tag \<rparr>)) (\<lambda>bytes.
     ret (Ciphertext bytes))))"

primrec ciphertext_bytes :: "ciphertext \<Rightarrow> byte list" where
  "ciphertext_bytes (Ciphertext bs) = bs"

text \<open>Decryption also draws a nonce, which the nonce of the envelope then overwrites.\<close>

definition dev_decrypt ::
  "'x secret_env \<Rightarrow> dev_engine \<Rightarrow> string \<Rightarrow> ciphertext \<Rightarrow> ('x world, secret_encryption_error, byte list) eff" where
  "dev_decrypt sv eng key_name ct =
     bindE (liftR (dev_envelope_decode (ciphertext_bytes ct))) (\<lambda>env.
     bindE (guardE (dv_key_name env = key_name) (KeyNameMismatch (dv_key_name env) key_name)) (\<lambda>_.
     bindE (guardE (dv_key_version env = DEV_KEY_VERSION) (KeyVersionNotFound key_name (dv_key_version env))) (\<lambda>_.
     bindE (generate_nonce (sv_host sv)) (\<lambda>_.
     okOr Tampered (sv_aes_decrypt sv (derive_key sv eng key_name) (dv_nonce env) (dv_ct_and_tag env))))))"

section \<open>The Vault Transit engine\<close>

definition VAULT_TOKEN_HEADER :: string where "VAULT_TOKEN_HEADER = ''X-Vault-Token''"
definition VAULT_CIPHERTEXT_PREFIX :: string where "VAULT_CIPHERTEXT_PREFIX = ''vault:v''"
definition VAULT_ENCRYPTION_KEY_NOT_FOUND :: string where
  "VAULT_ENCRYPTION_KEY_NOT_FOUND = ''encryption key not found''"
definition VAULT_MESSAGE_AUTHENTICATION_FAILED :: string where
  "VAULT_MESSAGE_AUTHENTICATION_FAILED = ''cipher: message authentication failed''"
definition DEFAULT_TRANSIT_PATH :: string where "DEFAULT_TRANSIT_PATH = ''transit''"
definition DEFAULT_REQUEST_TIMEOUT :: nat where "DEFAULT_REQUEST_TIMEOUT = 5"

record vault_engine =
  vt_address :: string
  vt_token :: string
  vt_transit_path :: string
  vt_request_timeout :: nat

definition trim_matches :: "char \<Rightarrow> string \<Rightarrow> string" where
  "trim_matches c s = trim_end_matches c (dropWhile (\<lambda>ch. ch = c) s)"

definition transit_url :: "'x secret_env \<Rightarrow> vault_engine \<Rightarrow> string \<Rightarrow> secret_encryption_error + string" where
  "transit_url sv eng suffix =
     (let base = trim_end_matches (CHR ''/'') (vt_address eng);
          mount = trim_matches (CHR ''/'') (vt_transit_path eng)
      in mapErrR (\<lambda>e. SecBackend (''vault url parse: '' @ e))
           (sv_url_parse sv (base @ ''/v1/'' @ mount @ ''/'' @ suffix)))"

definition encrypt_url :: "'x secret_env \<Rightarrow> vault_engine \<Rightarrow> string \<Rightarrow> secret_encryption_error + string" where
  "encrypt_url sv eng key_name = transit_url sv eng (''encrypt/'' @ key_name)"

definition decrypt_url :: "'x secret_env \<Rightarrow> vault_engine \<Rightarrow> string \<Rightarrow> secret_encryption_error + string" where
  "decrypt_url sv eng key_name = transit_url sv eng (''decrypt/'' @ key_name)"

datatype transit_op = OpEncrypt | OpDecrypt

definition map_error :: "'x secret_env \<Rightarrow> nat \<Rightarrow> string \<Rightarrow> string \<Rightarrow> transit_op \<Rightarrow> secret_encryption_error" where
  "map_error sv status body key_name oper =
     (if status = 400 \<and> str_contains VAULT_ENCRYPTION_KEY_NOT_FOUND body then SecKeyNotFound key_name
      else if status = 400 \<and> oper = OpDecrypt \<and> str_contains VAULT_MESSAGE_AUTHENTICATION_FAILED body then Tampered
      else SecBackend (''vault '' @ sv_status_text sv status @ '': '' @ body))"

definition parse_vault_ciphertext :: "'x secret_env \<Rightarrow> string \<Rightarrow> secret_encryption_error + u32 \<times> byte list" where
  "parse_vault_ciphertext sv raw =
     bindR (result_of_option (SecBackend (''vault ciphertext missing `'' @ VAULT_CIPHERTEXT_PREFIX @ ''` prefix: '' @ raw))
              (strip_prefix VAULT_CIPHERTEXT_PREFIX raw)) (\<lambda>after_prefix.
     bindR (result_of_option (SecBackend (''vault ciphertext missing version/payload separator: '' @ raw))
              (split_once (CHR '':'') after_prefix)) (\<lambda>(version_str, payload_b64).
     bindR (mapErrR (\<lambda>e. SecBackend (''vault ciphertext version parse: '' @ e))
              (parse_unsigned (2 ^ 32 - 1) version_str)) (\<lambda>key_version.
     bindR (mapErrR (\<lambda>e. SecBackend (''vault ciphertext payload base64: '' @ e))
              (sv_b64_decode sv Standard payload_b64)) (\<lambda>payload.
     Inr (of_nat key_version, payload)))))"

text \<open>
  One call of the Transit endpoint: a failed status is classified from its body
  (an unreadable body counts as empty), a successful one must carry the field.
\<close>

definition transit_call ::
  "'x secret_env \<Rightarrow> vault_engine \<Rightarrow> transit_op \<Rightarrow> string \<Rightarrow> string \<Rightarrow> json \<Rightarrow> string \<Rightarrow>
   ('x world, secret_encryption_error, string) eff" where
  "transit_call sv eng oper key_name url body field =
     bindE (mapErr SecBackend (ext (sv_post sv url [(VAULT_TOKEN_HEADER, vt_token eng)] (JsonBody body)))) (\<lambda>resp.
     if \<not> status_is_success (hr_status resp)
     then raise (map_error sv (hr_status resp) (case hr_text resp of Inl _ \<Rightarrow> [] | Inr t \<Rightarrow> t) key_name oper)
     else liftR (mapErrR SecBackend (bindR (hr_json resp) (data_member field))))"

definition vault_encrypt ::
  "'x secret_env \<Rightarrow> vault_engine \<Rightarrow> string \<Rightarrow> byte list \<Rightarrow> ('x world, secret_encryption_error, ciphertext) eff" where
  "vault_encrypt sv eng key_name plaintext =
     bindE (liftR (encrypt_url sv eng key_name)) (\<lambda>url.
     bindE (transit_call sv eng OpEncrypt key_name url
              (JObj [(''plaintext'', JStr (sv_b64_encode sv plaintext))]) ''ciphertext'') (\<lambda>raw.
     bindE (liftR (parse_vault_ciphertext sv raw)) (\<lambda>(key_version, payload).
     bindE (liftR (vault_envelope_encode \<lparr> ve_key_name = key_name, ve_key_version = key_version,
              ve_vault_payload = payload \<rparr>)) (\<lambda>bytes.
     ret (Ciphertext bytes)))))"

definition vault_ciphertext :: "'x secret_env \<Rightarrow> u32 \<Rightarrow> byte list \<Rightarrow> string" where
  "vault_ciphertext sv version payload =
     VAULT_CIPHERTEXT_PREFIX @ show_nat (unat version) @ '':'' @ sv_b64_encode sv payload"

definition vault_decrypt ::
  "'x secret_env \<Rightarrow> vault_engine \<Rightarrow> string \<Rightarrow> ciphertext \<Rightarrow> ('x world, secret_encryption_error, byte list) eff" where
  "vault_decrypt sv eng key_name ct =
     bindE (liftR (vault_envelope_decode (ciphertext_bytes ct))) (\<lambda>env.
     bindE (guardE (ve_key_name env = key_name) (KeyNameMismatch (ve_key_name env) key_name)) (\<lambda>_.
     bindE (liftR (decrypt_url sv eng key_name)) (\<lambda>url.
     bindE (transit_call sv eng OpDecrypt key_name url
              (JObj [(''ciphertext'', JStr (vault_ciphertext sv (ve_key_version env) (ve_vault_payload env)))])
              ''plaintext'') (\<lambda>txt.
     liftR (mapErrR (\<lambda>e. SecBackend (''vault plaintext base64: '' @ e)) (sv_b64_decode sv Standard txt))))))"

section \<open>Dispatch and configuration\<close>

datatype any_secret_engine = DevEngine dev_engine | VaultEngine vault_engine

primrec secret_encrypt ::
  "'x secret_env \<Rightarrow> any_secret_engine \<Rightarrow> string \<Rightarrow> byte list \<Rightarrow> ('x world, secret_encryption_error, ciphertext) eff" where
  "secret_encrypt sv (DevEngine eng) = dev_encrypt sv eng"
| "secret_encrypt sv (VaultEngine eng) = vault_encrypt sv eng"

primrec secret_decrypt ::
  "'x secret_env \<Rightarrow> any_secret_engine \<Rightarrow> string \<Rightarrow> ciphertext \<Rightarrow> ('x world, secret_encryption_error, byte list) eff" where
  "secret_decrypt sv (DevEngine eng) = dev_decrypt sv eng"
| "secret_decrypt sv (VaultEngine eng) = vault_decrypt sv eng"

datatype engine_build_error =
    UnknownKind string
  | DevMasterKeyMissing
  | DevMasterKeyMalformed string
  | DevMasterKeyWrongLength nat nat
  | VaultEnvMissing string
  | VaultAddrInvalid string
  | VaultTimeoutInvalid string

definition decode_base64_permissive :: "'x secret_env \<Rightarrow> string \<Rightarrow> string + byte list" where
  "decode_base64_permissive sv s = (case sv_b64_decode sv Standard s of
     Inr b \<Rightarrow> Inr b
   | Inl _ \<Rightarrow> (case sv_b64_decode sv UrlSafe s of
       Inr b \<Rightarrow> Inr b
     | Inl _ \<Rightarrow> (case sv_b64_decode sv StandardNoPad s of
         Inr b \<Rightarrow> Inr b
       | Inl _ \<Rightarrow> sv_b64_decode sv UrlSafeNoPad s)))"

definition parse_master_key :: "'x secret_env \<Rightarrow> string \<Rightarrow> engine_build_error + byte list" where
  "parse_master_key sv raw = (let trimmed = trim raw in
     if trimmed = [] then Inl DevMasterKeyMissing
     else bindR (mapErrR DevMasterKeyMalformed (decode_base64_permissive sv trimmed)) (\<lambda>decoded.
       if length decoded = MASTER_KEY_LEN then Inr decoded
       else Inl (DevMasterKeyWrongLength MASTER_KEY_LEN (length decoded))))"

text \<open>The environment: an unset or unreadable variable reads as the empty string.\<close>

definition non_blank_env :: "(string \<Rightarrow> string) \<Rightarrow> string \<Rightarrow> engine_build_error + string" where
  "non_blank_env vars name = (if trim (vars name) = [] then Inl (VaultEnvMissing name) else Inr (trim (vars name)))"

definition build_vault :: "'x secret_env \<Rightarrow> (string \<Rightarrow> string) \<Rightarrow> engine_build_error + vault_engine" where
  "build_vault sv vars =
     bindR (non_blank_env vars ''VAULT_ADDR'') (\<lambda>address.
     bindR (non_blank_env vars ''VAULT_TOKEN'') (\<lambda>vtoken.
     let path = trim (vars ''SECRET_ENCRYPTION_VAULT_TRANSIT_PATH'');
         timeout = trim (vars ''VAULT_REQUEST_TIMEOUT_SECS'') in
     bindR (if timeout = [] then Inr DEFAULT_REQUEST_TIMEOUT
            else mapErrR VaultTimeoutInvalid (parse_unsigned (2 ^ 64 - 1) timeout)) (\<lambda>request_timeout.
     bindR (mapErrR VaultAddrInvalid (sv_url_parse sv address)) (\<lambda>url.
     Inr \<lparr> vt_address = url, vt_token = vtoken,
            vt_transit_path = (if path = [] then DEFAULT_TRANSIT_PATH else path),
            vt_request_timeout = request_timeout \<rparr>))))"

definition build_from_env :: "'x secret_env \<Rightarrow> (string \<Rightarrow> string) \<Rightarrow> engine_build_error + any_secret_engine" where
  "build_from_env sv vars = (let kind = trim (vars ''SECRET_ENCRYPTION_ENGINE'') in
     if kind = ''dev'' \<or> kind = [] then
       bindR (parse_master_key sv (vars ''SECRET_ENCRYPTION_DEV_MASTER_KEY'')) (\<lambda>master_key.
         Inr (DevEngine \<lparr> de_master_key = master_key \<rparr>))
     else if kind = ''vault'' then bindR (build_vault sv vars) (\<lambda>eng. Inr (VaultEngine eng))
     else Inl (UnknownKind kind))"

section \<open>A ciphertext is bound to its key name\<close>

locale key_bound_engine =
  fixes enc :: "string \<Rightarrow> byte list \<Rightarrow> ('x world, secret_encryption_error, ciphertext) eff"
    and dec :: "string \<Rightarrow> ciphertext \<Rightarrow> ('x world, secret_encryption_error, byte list) eff"
    and envelope_key :: "ciphertext \<Rightarrow> string option"
  assumes enc_names: "enc k pt w = (Inr ct, w') \<Longrightarrow> utf8_valid (str_bytes k) \<Longrightarrow> envelope_key ct = Some k"
    and dec_mismatch: "envelope_key ct = Some n \<Longrightarrow> n \<noteq> k \<Longrightarrow> dec k ct w = (Inl (KeyNameMismatch n k), w)"
    and dec_unnamed: "envelope_key ct = None \<Longrightarrow> dec k ct w = (Inl MalformedCiphertext, w)"
    and enc_keeps: "preserves (\<lambda>w. P (wdb w)) (enc k pt)"
    and dec_keeps: "preserves (\<lambda>w. P (wdb w)) (dec k ct)"
begin

lemma moved_ciphertext:
  assumes "enc k pt w = (Inr ct, w')" and "utf8_valid (str_bytes k)" and "k \<noteq> k'"
  shows "dec k' ct w2 = (Inl (KeyNameMismatch k k'), w2)"
  using dec_mismatch [OF enc_names [OF assms(1,2)] assms(3)] .

lemma opened_under_its_key: "dec k ct w = (Inr pt, w') \<Longrightarrow> envelope_key ct = Some k"
  by (cases "envelope_key ct") (use dec_unnamed dec_mismatch in force)+

end

definition dev_envelope_key :: "ciphertext \<Rightarrow> string option" where
  "dev_envelope_key ct = (case dev_envelope_decode (ciphertext_bytes ct) of Inr e \<Rightarrow> Some (dv_key_name e) | Inl _ \<Rightarrow> None)"

definition vault_envelope_key :: "ciphertext \<Rightarrow> string option" where
  "vault_envelope_key ct = (case vault_envelope_decode (ciphertext_bytes ct) of Inr e \<Rightarrow> Some (ve_key_name e) | Inl _ \<Rightarrow> None)"

primrec secret_envelope_key :: "any_secret_engine \<Rightarrow> ciphertext \<Rightarrow> string option" where
  "secret_envelope_key (DevEngine _) = dev_envelope_key"
| "secret_envelope_key (VaultEngine _) = vault_envelope_key"

lemma dev_decode_error: "dev_envelope_decode bs = Inl e \<Longrightarrow> e = MalformedCiphertext"
  by (auto simp: dev_envelope_decode_def Let_def split: if_splits option.splits)

lemma vault_decode_error: "vault_envelope_decode bs = Inl e \<Longrightarrow> e = MalformedCiphertext"
  by (auto simp: vault_envelope_decode_def Let_def split: if_splits option.splits)

lemma encode_bound:
  "dev_envelope_encode e = Inr bs \<Longrightarrow> length (dv_key_name e) \<le> MAX_KEY_NAME_LEN"
  "vault_envelope_encode v = Inr bs \<Longrightarrow> length (ve_key_name v) \<le> MAX_KEY_NAME_LEN"
  by (auto simp: dev_envelope_encode_def vault_envelope_encode_def Let_def split: if_splits)

lemma fill_array_length [simp]: "length (fill_array n bs) = n"
  by (simp add: fill_array_def)

lemma generate_nonce_run: "generate_nonce h w =
    (Inr (fill_array NONCE_LEN (fst (host_entropy h NONCE_LEN (wext w)))), w\<lparr> wext := snd (host_entropy h NONCE_LEN (wext w)) \<rparr>)"
  by (simp add: generate_nonce_def random_bytes_def ext_def bindE_run split: prod.splits)

lemma generate_nonce_keeps [pres]: "preserves (\<lambda>w. P (wdb w)) (generate_nonce h)"
  unfolding generate_nonce_def by (intro pres)

lemma dev_encoded_key:
  assumes "dev_envelope_encode e = Inr bs" and "utf8_valid (str_bytes (dv_key_name e))" and "length (dv_nonce e) = NONCE_LEN"
  shows "dev_envelope_key (Ciphertext bs) = Some (dv_key_name e)"
  using dev_round_trip [OF encode_bound(1) [OF assms(1)] assms(2,3)] assms(1)
  by (auto simp: dev_envelope_key_def)

lemma vault_encoded_key:
  assumes "vault_envelope_encode e = Inr bs" and "utf8_valid (str_bytes (ve_key_name e))"
  shows "vault_envelope_key (Ciphertext bs) = Some (ve_key_name e)"
  using vault_round_trip [OF encode_bound(2) [OF assms(1)] assms(2)] assms(1)
  by (auto simp: vault_envelope_key_def)

lemma transit_call_keeps [pres]: "preserves (\<lambda>w. P (wdb w)) (transit_call sv eng oper k url body field)"
  unfolding transit_call_def by (intro pres)

lemma engine_keeps [pres]:
  "preserves (\<lambda>w. P (wdb w)) (dev_encrypt sv deng k pt)" "preserves (\<lambda>w. P (wdb w)) (dev_decrypt sv deng k ct)"
  "preserves (\<lambda>w. P (wdb w)) (vault_encrypt sv veng k pt)" "preserves (\<lambda>w. P (wdb w)) (vault_decrypt sv veng k ct)"
  unfolding dev_encrypt_def dev_decrypt_def vault_encrypt_def vault_decrypt_def by (intro pres; simp add: split_beta pres)+

lemma secret_engine_keeps [pres]:
  "preserves (\<lambda>w. P (wdb w)) (secret_encrypt sv eng k pt)" "preserves (\<lambda>w. P (wdb w)) (secret_decrypt sv eng k ct)"
  by (cases eng; simp add: pres)+

lemma dev_decrypt_mismatch:
  "dev_envelope_key ct = Some n \<Longrightarrow> n \<noteq> k \<Longrightarrow> dev_decrypt sv eng k ct w = (Inl (KeyNameMismatch n k), w)"
  "dev_envelope_key ct = None \<Longrightarrow> dev_decrypt sv eng k ct w = (Inl MalformedCiphertext, w)"
  using dev_decode_error [of "ciphertext_bytes ct"]
  by (auto simp: dev_decrypt_def dev_envelope_key_def bindE_run liftR_def guardE_def raise_def split: sum.splits)

lemma vault_decrypt_mismatch:
  "vault_envelope_key ct = Some n \<Longrightarrow> n \<noteq> k \<Longrightarrow> vault_decrypt sv veng k ct w = (Inl (KeyNameMismatch n k), w)"
  "vault_envelope_key ct = None \<Longrightarrow> vault_decrypt sv veng k ct w = (Inl MalformedCiphertext, w)"
  using vault_decode_error [of "ciphertext_bytes ct"]
  by (auto simp: vault_decrypt_def vault_envelope_key_def bindE_run liftR_def guardE_def raise_def split: sum.splits)

lemma dev_encrypt_names:
  assumes "dev_encrypt sv eng k pt w = (Inr ct, w')" and "utf8_valid (str_bytes k)"
  shows "dev_envelope_key ct = Some k"
proof -
  obtain nonce c bs where "dev_envelope_encode \<lparr> dv_key_name = k, dv_key_version = DEV_KEY_VERSION, dv_nonce = nonce,
      dv_ct_and_tag = c \<rparr> = Inr bs" "length nonce = NONCE_LEN" "ct = Ciphertext bs"
    using assms(1) by (auto simp: dev_encrypt_def eff_success generate_nonce_run)
  then show ?thesis using assms(2) dev_encoded_key by fastforce
qed

lemma vault_encrypt_names:
  assumes "vault_encrypt sv eng k pt w = (Inr ct, w')" and "utf8_valid (str_bytes k)"
  shows "vault_envelope_key ct = Some k"
proof -
  obtain v c bs where "vault_envelope_encode \<lparr> ve_key_name = k, ve_key_version = v, ve_vault_payload = c \<rparr> = Inr bs"
      "ct = Ciphertext bs"
    using assms(1) by (auto simp: vault_encrypt_def eff_success)
  then show ?thesis using assms(2) vault_encoded_key by fastforce
qed

interpretation secret: key_bound_engine "secret_encrypt sv eng" "secret_decrypt sv eng" "secret_envelope_key eng"
  for sv :: "'x secret_env" and eng
  by (cases eng; unfold_locales)
     (simp_all add: dev_encrypt_names vault_encrypt_names dev_decrypt_mismatch vault_decrypt_mismatch pres)

section \<open>Secrets come back\<close>

text \<open>Documented of AES-GCM and of base64: what was encrypted or encoded is recovered.\<close>

definition aead_ok :: "'x secret_env \<Rightarrow> bool" where
  "aead_ok sv \<longleftrightarrow> (\<forall>key nonce pt ct. sv_aes_encrypt sv key nonce pt = Inr ct \<longrightarrow> sv_aes_decrypt sv key nonce ct = Some pt)"

definition base64_ok :: "'x secret_env \<Rightarrow> bool" where
  "base64_ok sv \<longleftrightarrow> (\<forall>bs. sv_b64_decode sv Standard (sv_b64_encode sv bs) = Inr bs)"

lemma dev_engine_returns:
  assumes "aead_ok sv" and "dev_encrypt sv eng k pt w = (Inr ct, w')" and "utf8_valid (str_bytes k)"
  shows "fst (dev_decrypt sv eng k ct w2) = Inr pt"
proof -
  obtain nonce c bs where enc: "dev_envelope_encode \<lparr> dv_key_name = k, dv_key_version = DEV_KEY_VERSION, dv_nonce = nonce,
      dv_ct_and_tag = c \<rparr> = Inr bs" (is "dev_envelope_encode ?e = _") and nonce: "length nonce = NONCE_LEN" and ct: "ct = Ciphertext bs"
      and aes: "sv_aes_encrypt sv (derive_key sv eng k) nonce pt = Inr c"
    using assms(2) by (auto simp: dev_encrypt_def eff_success generate_nonce_run res_success)
  have "dev_envelope_decode bs = Inr ?e"
    using dev_round_trip [of ?e] encode_bound(1) [OF enc] enc nonce assms(3) by auto
  moreover have "sv_aes_decrypt sv (derive_key sv eng k) nonce c = Some pt" using assms(1) aes by (simp add: aead_ok_def)
  ultimately show ?thesis by (simp add: ct dev_decrypt_def bindE_run generate_nonce_run okOr_def liftR_def guardE_def ret_def)
qed

lemma parse_digits_append:
  "parse_digits m acc (xs @ ys) = bindR (parse_digits m acc xs) (\<lambda>a. parse_digits m a ys)"
  by (induction m acc xs rule: parse_digits.induct) (auto simp: Let_def)

lemma digit_char: "d < 10 \<Longrightarrow> (of_char (char_of (48 + d :: nat)) :: nat) = 48 + d"
  by (simp add: of_char_of)

lemma parse_digits_show: "n \<le> m \<Longrightarrow> parse_digits m 0 (show_nat n) = Inr n"
proof (induction n rule: show_nat.induct)
  case (1 n)
  show ?case
  proof (cases "n < 10")
    case True
    then show ?thesis using 1(2) by (subst show_nat.simps) (simp add: digit_char)
  next
    case False
    then have "parse_digits m 0 (show_nat (n div 10)) = Inr (n div 10)" using 1 by simp
    then show ?thesis using 1(2) False
      by (subst show_nat.simps) (simp add: parse_digits_append digit_char Let_def)
  qed
qed

lemma show_nat_digits: "c \<in> set (show_nat n) \<Longrightarrow> 48 \<le> (of_char c :: nat) \<and> (of_char c :: nat) \<le> 57"
proof (induction n rule: show_nat.induct)
  case (1 n)
  then show ?case by (subst (asm) show_nat.simps) (auto simp: digit_char split: if_splits)
qed

lemma show_nat_nonempty [simp]: "show_nat n \<noteq> []"
  by (subst show_nat.simps) simp

lemma parse_unsigned_show:
  assumes "n \<le> m"
  shows "parse_unsigned m (show_nat n) = Inr n"
proof -
  have "CHR ''+'' \<notin> set (show_nat n)" using show_nat_digits [of "CHR ''+''" n] by auto
  then have "hd (show_nat n) \<noteq> CHR ''+''" "show_nat n \<noteq> ''+''" by (metis hd_in_set show_nat_nonempty, metis list.set_intros(1))
  then show ?thesis using parse_digits_show [OF assms] by (simp add: parse_unsigned_def)
qed

lemma parse_vault_ciphertext_format:
  assumes "base64_ok sv"
  shows "parse_vault_ciphertext sv (vault_ciphertext sv v p) = Inr (v, p)"
proof -
  have "unat v < 2 ^ LENGTH(32)" by (rule unsigned_less)
  then have "parse_unsigned (2 ^ 32 - 1) (show_nat (unat v)) = Inr (unat v)" by (intro parse_unsigned_show) simp
  moreover have "CHR '':'' \<notin> set (show_nat (unat v))" using show_nat_digits [of "CHR '':''" "unat v"] by auto
  then have "split_once (CHR '':'') (show_nat (unat v) @ CHR '':'' # sv_b64_encode sv p) = Some (show_nat (unat v), sv_b64_encode sv p)"
    by (rule split_once_append)
  ultimately show ?thesis using assms by (simp add: parse_vault_ciphertext_def vault_ciphertext_def base64_ok_def)
qed

text \<open>
  Documented of Transit: a ciphertext has the form \<open>vault:v<N>:<base64>\<close>, and the decrypt
  endpoint of the same key returns the plaintext for it.
\<close>

definition transit_answers ::
  "'x secret_env \<Rightarrow> vault_engine \<Rightarrow> string \<Rightarrow> json \<Rightarrow> string \<Rightarrow> 'x \<Rightarrow> string \<Rightarrow> bool" where
  "transit_answers sv eng url body field x answer \<longleftrightarrow>
     (\<exists>resp x'. sv_post sv url [(VAULT_TOKEN_HEADER, vt_token eng)] (JsonBody body) x = (Inr resp, x') \<and>
        status_is_success (hr_status resp) \<and> bindR (hr_json resp) (data_member field) = Inr answer)"

definition transit_ok :: "'x secret_env \<Rightarrow> vault_engine \<Rightarrow> string \<Rightarrow> bool" where
  "transit_ok sv eng k \<longleftrightarrow> (\<exists>durl. decrypt_url sv eng k = Inr durl \<and>
     (\<forall>url x p64 raw. encrypt_url sv eng k = Inr url \<longrightarrow>
        transit_answers sv eng url (JObj [(''plaintext'', JStr p64)]) ''ciphertext'' x raw \<longrightarrow>
        (\<exists>v p. raw = vault_ciphertext sv v p) \<and>
        (\<forall>x'. transit_answers sv eng durl (JObj [(''ciphertext'', JStr raw)]) ''plaintext'' x' p64)))"

lemma transit_call_success:
  assumes "transit_call sv eng oper k url body field w = (Inr raw, w')"
  shows "transit_answers sv eng url body field (wext w) raw"
  using assms unfolding transit_call_def transit_answers_def ext_def
  by (auto simp: eff_success res_success raise_def split: if_splits prod.splits)

lemma transit_call_answered:
  assumes "transit_answers sv eng url body field (wext w) raw"
  shows "fst (transit_call sv eng oper k url body field w) = Inr raw"
  using assms unfolding transit_call_def transit_answers_def ext_def
  by (auto simp: bindE_run mapErr_run liftR_def split: sum.splits)

lemma vault_engine_returns:
  assumes "base64_ok sv" and "transit_ok sv eng k" and "vault_encrypt sv eng k pt w = (Inr ct, w')" and "utf8_valid (str_bytes k)"
  shows "fst (vault_decrypt sv eng k ct w2) = Inr pt"
proof -
  obtain url raw v p bs w1 where url: "encrypt_url sv eng k = Inr url"
      and call: "transit_call sv eng OpEncrypt k url (JObj [(''plaintext'', JStr (sv_b64_encode sv pt))]) ''ciphertext'' w = (Inr raw, w1)"
      and raw: "parse_vault_ciphertext sv raw = Inr (v, p)"
      and enc: "vault_envelope_encode \<lparr> ve_key_name = k, ve_key_version = v, ve_vault_payload = p \<rparr> = Inr bs" and ct: "ct = Ciphertext bs"
    using assms(3) by (auto simp: vault_encrypt_def eff_success)
  obtain durl where durl: "decrypt_url sv eng k = Inr durl" and form: "\<exists>v p. raw = vault_ciphertext sv v p"
      and again: "\<And>x'. transit_answers sv eng durl (JObj [(''ciphertext'', JStr raw)]) ''plaintext'' x' (sv_b64_encode sv pt)"
    using assms(2) url transit_call_success [OF call] unfolding transit_ok_def by blast
  have raw': "raw = vault_ciphertext sv v p" using form raw parse_vault_ciphertext_format [OF assms(1)] by auto
  let ?e = "\<lparr> ve_key_name = k, ve_key_version = v, ve_vault_payload = p \<rparr>"
  have dec: "vault_envelope_decode bs = Inr ?e" using vault_round_trip [of ?e] encode_bound(2) [OF enc] enc assms(4) by auto
  obtain w3 where "transit_call sv eng OpDecrypt k durl (JObj [(''ciphertext'', JStr (vault_ciphertext sv v p))]) ''plaintext'' w2 =
      (Inr (sv_b64_encode sv pt), w3)"
    using transit_call_answered [OF again [of "wext w2"]] raw' by (metis prod.collapse)
  then show ?thesis using dec durl assms(1) by (simp add: ct vault_decrypt_def bindE_run liftR_def guardE_def ret_def base64_ok_def)
qed

fun engine_ok :: "'x secret_env \<Rightarrow> any_secret_engine \<Rightarrow> string \<Rightarrow> bool" where
  "engine_ok sv (DevEngine _) k = aead_ok sv"
| "engine_ok sv (VaultEngine eng) k = (base64_ok sv \<and> transit_ok sv eng k)"

lemma secret_returns:
  assumes "engine_ok sv eng k" and "secret_encrypt sv eng k pt w = (Inr ct, w')" and "utf8_valid (str_bytes k)"
  shows "fst (secret_decrypt sv eng k ct w2) = Inr pt"
  using assms dev_engine_returns vault_engine_returns by (cases eng) fastforce+

end
