(* ===== verification/TenantStore.thy ===== *)
theory TenantStore
  imports Secrets
begin

text \<open>
  The tenant rows and their protected columns: the rest of \<open>persistence/tenants.rs\<close>
  (the lookups by id are in \<open>IssuerStore\<close>) and the key names of
  \<open>persistence/tenant_secret_keys.rs\<close>.
\<close>

section \<open>Key names\<close>

definition FAMILY_OAUTH2_REFRESH_TOKEN :: string where "FAMILY_OAUTH2_REFRESH_TOKEN = ''oauth2_refresh_token''"
definition FAMILY_OAUTH2_CLIENT_SECRET :: string where "FAMILY_OAUTH2_CLIENT_SECRET = ''oauth2_client_secret''"

definition oauth2_refresh_token_key_name :: "tenant_id \<Rightarrow> string" where
  "oauth2_refresh_token_key_name tenant = ''tenant-'' @ tenant_bare tenant @ ''-'' @ FAMILY_OAUTH2_REFRESH_TOKEN"

definition oauth2_client_secret_key_name :: "tenant_id \<Rightarrow> string" where
  "oauth2_client_secret_key_name tenant = ''tenant-'' @ tenant_bare tenant @ ''-'' @ FAMILY_OAUTH2_CLIENT_SECRET"

section \<open>Rows\<close>

definition find_tenant_by_partner_id ::
  "'x pool \<Rightarrow> string \<Rightarrow> ('x world, persistence_error, tenant option) eff" where
  "find_tenant_by_partner_id p partner =
     mapErr DbError (run_query p (\<lambda>_ d. Inr (row_by tn_partner_id partner (tenants d))))"

definition insert_tenant ::
  "'x pool \<Rightarrow> tenant_id \<Rightarrow> string \<Rightarrow> string option \<Rightarrow> string option \<Rightarrow> ('x world, persistence_error, unit) eff" where
  "insert_tenant p tenant partner display_name description =
     mapErr map_database_error (run_stmt p (\<lambda>d.
       if tenant \<in> tn_id ` set (tenants d) then Inl (SqlUnique ''tenants_pkey'')
       else if partner \<in> tn_partner_id ` set (tenants d) then Inl (SqlUnique ''tenants_partner_id_key'')
       else Inr ((), d\<lparr> tenants := tenants d @ [\<lparr> tn_id = tenant, tn_partner_id = partner,
              tn_display_name = display_name, tn_description = description, tn_oauth_client_id = None,
              tn_oauth_client_secret = None, tn_oauth_refresh_token = None \<rparr>] \<rparr>)))"

datatype tenant_update = TenantUpdated | TenantNotFound

definition tenant_metadata :: "string option \<Rightarrow> string option \<Rightarrow> string option \<Rightarrow> tenant \<Rightarrow> tenant" where
  "tenant_metadata partner display_name description t =
     t\<lparr> tn_partner_id := (case partner of None \<Rightarrow> tn_partner_id t | Some q \<Rightarrow> q),
        tn_display_name := (if display_name \<noteq> None then display_name else tn_display_name t),
        tn_description := (if description \<noteq> None then description else tn_description t) \<rparr>"

text \<open>The unique column is checked on the rows the statement would leave.\<close>

definition update_metadata ::
  "'x pool \<Rightarrow> tenant_id \<Rightarrow> string option \<Rightarrow> string option \<Rightarrow> string option \<Rightarrow>
   ('x world, persistence_error, tenant_update) eff" where
  "update_metadata p tenant partner display_name description =
     bindE (mapErr DbError (run_stmt p (\<lambda>d.
       let rows = update_where (\<lambda>t. tn_id t = tenant) (tenant_metadata partner display_name description) (tenants d) in
       if distinct (map tn_partner_id rows)
       then Inr (rows_matching (\<lambda>t. tn_id t = tenant) (tenants d), d\<lparr> tenants := rows \<rparr>)
       else Inl (SqlUnique ''tenants_partner_id_key'')))) (\<lambda>n.
     ret (if n = 0 then TenantNotFound else TenantUpdated))"

section \<open>OAuth2 columns\<close>

record tenant_oauth_creds =
  oc_client_id :: "string option"
  oc_client_secret :: "string option"
  oc_refresh_token :: "string option"

definition decrypt_to_secret_string ::
  "'x secret_env \<Rightarrow> any_secret_engine \<Rightarrow> string \<Rightarrow> ciphertext \<Rightarrow> string \<Rightarrow> ('x world, persistence_error, string) eff" where
  "decrypt_to_secret_string sv eng key_name ct column =
     bindE (mapErr Encryption (secret_decrypt sv eng key_name ct)) (\<lambda>plaintext.
     okOr (DataIntegrity (column @ '': decrypted bytes are not valid UTF-8: '' @ sv_utf8_error sv plaintext)) (from_utf8 plaintext))"

definition decrypt_column ::
  "'x secret_env \<Rightarrow> any_secret_engine \<Rightarrow> string \<Rightarrow> ciphertext option \<Rightarrow> string \<Rightarrow>
   ('x world, persistence_error, string option) eff" where
  "decrypt_column sv eng key_name blob column = (case blob of
     None \<Rightarrow> ret None
   | Some ct \<Rightarrow> bindE (decrypt_to_secret_string sv eng key_name ct column) (\<lambda>s. ret (Some s)))"

definition read_oauth_credentials_for_update ::
  "'x pool \<Rightarrow> 'x secret_env \<Rightarrow> any_secret_engine \<Rightarrow> tenant_id \<Rightarrow>
   ('x world, persistence_error, tenant_oauth_creds option) eff" where
  "read_oauth_credentials_for_update p sv eng tenant =
     bindE (find_tenant_by_id p tenant) (\<lambda>row. case row of
       None \<Rightarrow> ret None
     | Some t \<Rightarrow>
         bindE (decrypt_column sv eng (oauth2_client_secret_key_name tenant) (tn_oauth_client_secret t) ''oauth_client_secret'') (\<lambda>secret.
         bindE (decrypt_column sv eng (oauth2_refresh_token_key_name tenant) (tn_oauth_refresh_token t) ''oauth_refresh_token'') (\<lambda>refresh.
         ret (Some \<lparr> oc_client_id = tn_oauth_client_id t, oc_client_secret = secret, oc_refresh_token = refresh \<rparr>))))"

definition update_tenant ::
  "'x pool \<Rightarrow> tenant_id \<Rightarrow> (tenant \<Rightarrow> tenant) \<Rightarrow> ('x world, persistence_error, unit) eff" where
  "update_tenant p tenant f =
     bindE (mapErr DbError (run_stmt p (update_stmt tenants_update tenants (\<lambda>t. tn_id t = tenant) f))) (\<lambda>n.
     guardE (n \<noteq> 0) NotFound)"

definition write_oauth_refresh_token ::
  "'x pool \<Rightarrow> 'x secret_env \<Rightarrow> any_secret_engine \<Rightarrow> tenant_id \<Rightarrow> string \<Rightarrow> ('x world, persistence_error, unit) eff" where
  "write_oauth_refresh_token p sv eng tenant refresh =
     bindE (mapErr Encryption (secret_encrypt sv eng (oauth2_refresh_token_key_name tenant) (str_bytes refresh))) (\<lambda>ct.
     update_tenant p tenant (\<lambda>t. t\<lparr> tn_oauth_refresh_token := Some ct \<rparr>))"

definition write_oauth_client_credentials ::
  "'x pool \<Rightarrow> 'x secret_env \<Rightarrow> any_secret_engine \<Rightarrow> tenant_id \<Rightarrow> string \<Rightarrow> string \<Rightarrow>
   ('x world, persistence_error, unit) eff" where
  "write_oauth_client_credentials p sv eng tenant client_id client_secret =
     bindE (mapErr Encryption (secret_encrypt sv eng (oauth2_client_secret_key_name tenant) (str_bytes client_secret))) (\<lambda>ct.
     update_tenant p tenant (\<lambda>t. t\<lparr> tn_oauth_client_id := Some client_id, tn_oauth_client_secret := Some ct \<rparr>))"

section \<open>Rules\<close>

text \<open>Names of different tenants and of different columns differ.\<close>

lemma key_names_distinct:
  "oauth2_refresh_token_key_name a = oauth2_refresh_token_key_name b \<longleftrightarrow> a = b"
  "oauth2_client_secret_key_name a = oauth2_client_secret_key_name b \<longleftrightarrow> a = b"
  by (cases a; cases b; simp add: oauth2_refresh_token_key_name_def oauth2_client_secret_key_name_def)+

lemma key_families_distinct: "oauth2_refresh_token_key_name a \<noteq> oauth2_client_secret_key_name b"
proof
  assume "oauth2_refresh_token_key_name a = oauth2_client_secret_key_name b"
  then have "last (oauth2_refresh_token_key_name a) = last (oauth2_client_secret_key_name b)" by simp
  then show False
    by (simp add: oauth2_refresh_token_key_name_def oauth2_client_secret_key_name_def FAMILY_OAUTH2_REFRESH_TOKEN_def FAMILY_OAUTH2_CLIENT_SECRET_def)
qed

text \<open>Key names of base58 identifiers are ASCII and far below the envelope's bound.\<close>

lemma utf8_ascii: "\<forall>b \<in> set bs. unat b < 0x80 \<Longrightarrow> utf8_valid bs"
  by (induction bs) auto

definition ascii :: "string \<Rightarrow> bool" where
  "ascii s \<longleftrightarrow> (\<forall>c \<in> set s. (of_char c :: nat) < 128)"

lemma ascii_utf8: "ascii s \<Longrightarrow> utf8_valid (str_bytes s)"
proof (rule utf8_ascii)
  assume "ascii s"
  then show "\<forall>b \<in> set (str_bytes s). unat b < 0x80"
    by (auto simp: ascii_def str_bytes_def unat_of_char)
qed

lemma key_name_ascii:
  assumes "ascii (tenant_bare tenant)"
  shows "ascii (oauth2_refresh_token_key_name tenant)" "ascii (oauth2_client_secret_key_name tenant)"
  using assms by (auto simp: ascii_def oauth2_refresh_token_key_name_def oauth2_client_secret_key_name_def
      FAMILY_OAUTH2_REFRESH_TOKEN_def FAMILY_OAUTH2_CLIENT_SECRET_def)

lemma update_tenant_success:
  assumes "update_tenant p tenant f w = (Inr u, w')"
  shows "wdb w' = tenants_update (update_where (\<lambda>t. tn_id t = tenant) f) (wdb w) \<and> tenant \<in> tn_id ` set (tenants (wdb w))"
proof -
  obtain n w1 where r: "run_stmt p (update_stmt tenants_update tenants (\<lambda>t. tn_id t = tenant) f) w = (Inr n, w1)" and n: "n \<noteq> 0" "w' = w1"
    using assms by (auto simp: update_tenant_def eff_success)
  have "n = rows_matching (\<lambda>t. tn_id t = tenant) (tenants (wdb w))" "wdb w1 = tenants_update (update_where (\<lambda>t. tn_id t = tenant) f) (wdb w)"
    using run_stmt_success [OF r] by (auto simp: update_stmt_def)
  moreover from this have "find (\<lambda>t. tn_id t = tenant) (tenants (wdb w)) \<noteq> None"
    using n rows_matching_0 [of "\<lambda>t. tn_id t = tenant" "tenants (wdb w)"] by auto
  ultimately show ?thesis using n by (auto simp: find_None_iff)
qed

text \<open>
  What the OAuth2 operations may change: the two secrets and the client id of a row.
  Every predicate that does not look at these columns is kept.
\<close>

definition blank_oauth :: "tenant \<Rightarrow> tenant" where
  "blank_oauth t = t\<lparr> tn_oauth_client_id := None, tn_oauth_client_secret := None, tn_oauth_refresh_token := None \<rparr>"

definition sans_oauth :: "db \<Rightarrow> db" where
  "sans_oauth d = d\<lparr> tenants := map blank_oauth (tenants d) \<rparr>"

lemma sans_oauth_update:
  assumes "\<And>t. blank_oauth (f t) = blank_oauth t"
  shows "sans_oauth (tenants_update (update_where P f) d) = sans_oauth d"
  by (simp add: sans_oauth_def update_where_def comp_def if_distrib assms cong: if_cong)

lemma update_tenant_sans_oauth:
  assumes "\<And>t. blank_oauth (f t) = blank_oauth t"
  shows "preserves (\<lambda>w. sans_oauth (wdb w) = D) (update_tenant p tenant f)"
  unfolding update_tenant_def
  by (intro pres run_stmt_preserves [where P = "\<lambda>d. sans_oauth d = D"]) (auto simp: update_stmt_def sans_oauth_update [OF assms])

lemma decrypt_column_keeps [pres]: "preserves (\<lambda>w. P (wdb w)) (decrypt_column sv eng k blob col)"
  unfolding decrypt_column_def decrypt_to_secret_string_def by (cases blob) (auto intro!: pres)

lemma find_tenant_keeps [pres]: "preserves (\<lambda>w. P (wdb w)) (find_tenant_by_id p tenant)"
  "preserves (\<lambda>w. P (wdb w)) (find_tenant_by_partner_id p partner)"
  unfolding find_tenant_by_id_def find_tenant_by_partner_id_def by (intro pres)+

lemma read_oauth_keeps [pres]: "preserves (\<lambda>w. P (wdb w)) (read_oauth_credentials_for_update p sv eng tenant)"
  unfolding read_oauth_credentials_for_update_def by (intro pres; simp add: pres split: option.splits)

lemma write_oauth_sans_oauth [pres]:
  "preserves (\<lambda>w. sans_oauth (wdb w) = D) (write_oauth_refresh_token p sv eng tenant s)"
  "preserves (\<lambda>w. sans_oauth (wdb w) = D) (write_oauth_client_credentials p sv eng tenant c s)"
  unfolding write_oauth_refresh_token_def write_oauth_client_credentials_def
  by (intro pres secret_engine_keeps [where P = "\<lambda>d. sans_oauth d = D"] update_tenant_sans_oauth; simp add: blank_oauth_def)+

section \<open>The table stays well-formed\<close>

definition tenants_inv :: "db \<Rightarrow> bool" where
  "tenants_inv d \<longleftrightarrow> distinct (map tn_id (tenants d)) \<and> distinct (map tn_partner_id (tenants d))"

lemma tenant_rows_update:
  assumes "\<And>t. tn_id (f t) = tn_id t"
  shows "map tn_id (update_where P f rows) = map tn_id rows"
  by (simp add: update_where_def comp_def if_distrib assms cong: if_cong)

lemma tenants_inv_sans_oauth: "tenants_inv (sans_oauth d) = tenants_inv d"
  by (simp add: tenants_inv_def sans_oauth_def comp_def blank_oauth_def)

lemma sans_oauth_keeps:
  fixes m :: "('x world, 'e, 'a) eff"
  assumes "\<And>d. P (sans_oauth d) = P d" and "\<And>D. preserves (\<lambda>w. sans_oauth (wdb w) = D) m"
  shows "preserves (\<lambda>w. P (wdb w)) m"
proof
  fix w :: "'x world" assume "P (wdb w)"
  moreover have "sans_oauth (wdb (snd (m w))) = sans_oauth (wdb w)" using assms(2) by (simp add: preserves_def)
  ultimately show "P (wdb (snd (m w)))" by (metis assms(1))
qed

lemma insert_tenant_inv: "preserves (\<lambda>w. tenants_inv (wdb w)) (insert_tenant p tenant partner n ds)"
  unfolding insert_tenant_def by (intro pres run_stmt_preserves) (auto simp: tenants_inv_def split: if_splits)

lemma update_metadata_inv: "preserves (\<lambda>w. tenants_inv (wdb w)) (update_metadata p tenant partner n ds)"
  unfolding update_metadata_def
  by (intro pres run_stmt_preserves) (auto simp: tenants_inv_def Let_def tenant_rows_update tenant_metadata_def split: if_splits)

lemma write_oauth_inv:
  "preserves (\<lambda>w. tenants_inv (wdb w)) (write_oauth_refresh_token p sv eng tenant s)"
  "preserves (\<lambda>w. tenants_inv (wdb w)) (write_oauth_client_credentials p sv eng tenant c s)"
  by (rule sans_oauth_keeps [where P = tenants_inv], rule tenants_inv_sans_oauth, rule write_oauth_sans_oauth)+

section \<open>What does not look at the tenant table\<close>

locale tenants_frame =
  fixes P :: "db \<Rightarrow> bool"
  assumes tenants: "P (tenants_update f d) = P d"
begin

lemma tenant_writes:
  "preserves (\<lambda>w. P (wdb w)) (insert_tenant p t partner n ds)"
  "preserves (\<lambda>w. P (wdb w)) (update_metadata p t partner' n ds)"
  unfolding insert_tenant_def update_metadata_def
  by (intro pres run_stmt_preserves; auto simp: Let_def tenants split: if_splits)+

lemma update_tenant_kept: "preserves (\<lambda>w. P (wdb w)) (update_tenant p t f)"
  unfolding update_tenant_def by (intro pres run_stmt_preserves) (auto simp: update_stmt_def tenants)

lemma oauth_writes:
  "preserves (\<lambda>w. P (wdb w)) (write_oauth_refresh_token p sv eng t s)"
  "preserves (\<lambda>w. P (wdb w)) (write_oauth_client_credentials p sv eng t c s)"
  unfolding write_oauth_refresh_token_def write_oauth_client_credentials_def by (intro pres update_tenant_kept)+

end

end
