(* ===== verification/OAuth2.thy ===== *)
theory OAuth2
  imports TenantStore
begin

text \<open>
  \<open>domain/oauth2\<close>: the token provider of one tenant (\<open>oauth2_provider.rs\<close>: an in-memory
  access token, refreshed by a \<open>refresh_token\<close> grant whose rotated refresh token is stored
  in the transaction that read the old one), the fixed provider of \<open>static_provider.rs\<close>,
  the dispatch of \<open>mod.rs\<close> and the per-tenant registry of \<open>registry.rs\<close>.  A call runs to
  its end before the next one starts, as the single-flight lock makes it for the refresh.
\<close>

section \<open>State\<close>

record cached_token =
  ca_access :: string
  ca_expires_at :: datetime

text \<open>The limits of \<open>chrono\<close>: arithmetic beyond them panics.\<close>

record chrono =
  ch_max_seconds :: int
  ch_min_utc :: datetime
  ch_max_utc :: datetime

record 'x oauth2_provider =
  op_tenant_id :: tenant_id
  op_pool :: "'x pool"
  op_token_url :: string
  op_engine :: any_secret_engine
  op_safety_margin :: int
  op_env :: "'x secret_env"
  op_chrono :: chrono
  op_json_from_str :: "string \<Rightarrow> string + json"

record 'x provider_state =
  pv_cached :: "cached_token option"
  pv_world :: "'x world"

datatype provider_failure = ProviderError token_provider_error | ProviderPanic string

definition on_world :: "('x world, 'e, 'a) eff \<Rightarrow> ('x provider_state, 'e, 'a) eff" where
  "on_world m = (\<lambda>s. case m (pv_world s) of (r, w) \<Rightarrow> (r, s\<lparr> pv_world := w \<rparr>))"

definition set_cached :: "cached_token option \<Rightarrow> ('x provider_state, 'e, unit) eff" where
  "set_cached c = (\<lambda>s. (Inr (), s\<lparr> pv_cached := c \<rparr>))"

section \<open>The grant\<close>

record grant_response =
  gr_access_token :: string
  gr_refresh_token :: string
  gr_expires_in :: int

fun i64_number :: "json \<Rightarrow> int option" where
  "i64_number (JNum i) = (if - (2 ^ 63) \<le> i \<and> i < 2 ^ 63 then Some i else None)"
| "i64_number _ = None"

definition grant_response_of :: "json \<Rightarrow> string + grant_response" where
  "grant_response_of v =
     bindR (struct_members [''access_token'', ''refresh_token'', ''expires_in''] v) (\<lambda>m.
     bindR (req_member as_string ''access_token'' m) (\<lambda>access.
     bindR (req_member as_string ''refresh_token'' m) (\<lambda>refresh.
     bindR (req_member i64_number ''expires_in'' m) (\<lambda>expires.
     Inr \<lparr> gr_access_token = access, gr_refresh_token = refresh, gr_expires_in = expires \<rparr>))))"

definition parse_token_response :: "'x oauth2_provider \<Rightarrow> string \<Rightarrow> token_provider_error + grant_response" where
  "parse_token_response pv body = mapErrR (\<lambda>e. TokenDecode (''token endpoint body: '' @ e))
     (bindR (op_json_from_str pv body) grant_response_of)"

definition oauth_error_body :: "json \<Rightarrow> string + string option \<times> string option" where
  "oauth_error_body v =
     bindR (struct_members [''error'', ''error_description''] v) (\<lambda>m.
     bindR (opt_member as_string ''error'' m) (\<lambda>err.
     bindR (opt_member as_string ''error_description'' m) (\<lambda>description.
     Inr (err, description))))"

definition format_oauth_error :: "'x oauth2_provider \<Rightarrow> nat \<Rightarrow> string \<Rightarrow> string" where
  "format_oauth_error pv status body = (case bindR (op_json_from_str pv body) oauth_error_body of
     Inr (err, description) \<Rightarrow>
       (let kind = (case err of Some k \<Rightarrow> k | None \<Rightarrow> ''(no error code)'');
            detail = (case description of Some t \<Rightarrow> t | None \<Rightarrow> [])
        in if detail = [] then ''HTTP '' @ show_nat status @ '': '' @ kind
           else ''HTTP '' @ show_nat status @ '': '' @ kind @ '': '' @ detail)
   | Inl _ \<Rightarrow> ''HTTP '' @ show_nat status @ '': '' @ body)"

record validated_creds =
  vc_client_id :: string
  vc_client_secret :: string
  vc_refresh_token :: string

definition tenant_display :: "tenant_id \<Rightarrow> string" where
  "tenant_display tenant = id_display ''tenant'' (tenant_bare tenant)"

definition column_is_null :: "tenant_id \<Rightarrow> string \<Rightarrow> token_provider_error" where
  "column_is_null tenant column = MissingCredentials (''tenant '' @ tenant_display tenant @ '': '' @ column @ '' is NULL'')"

definition validated_from_row :: "tenant_oauth_creds \<Rightarrow> tenant_id \<Rightarrow> token_provider_error + validated_creds" where
  "validated_from_row row tenant =
     bindR (result_of_option (column_is_null tenant ''oauth_client_id'') (oc_client_id row)) (\<lambda>client_id.
     bindR (result_of_option (column_is_null tenant ''oauth_client_secret'') (oc_client_secret row)) (\<lambda>client_secret.
     bindR (result_of_option (column_is_null tenant ''oauth_refresh_token'') (oc_refresh_token row)) (\<lambda>refresh.
     Inr \<lparr> vc_client_id = client_id, vc_client_secret = client_secret, vc_refresh_token = refresh \<rparr>)))"

definition grant_params :: "validated_creds \<Rightarrow> (string \<times> string) list" where
  "grant_params v = [(''grant_type'', ''refresh_token''), (''refresh_token'', vc_refresh_token v),
     (''client_id'', vc_client_id v), (''client_secret'', vc_client_secret v)]"

definition do_refresh_grant ::
  "'x oauth2_provider \<Rightarrow> validated_creds \<Rightarrow> ('x world, token_provider_error, grant_response) eff" where
  "do_refresh_grant pv v =
     bindE (mapErr TokenTransport (ext (sv_post (op_env pv) (op_token_url pv) [] (FormBody (grant_params v))))) (\<lambda>resp.
     bindE (liftR (mapErrR TokenTransport (hr_text resp))) (\<lambda>body.
     let status = hr_status resp in
     if status_is_success status then liftR (parse_token_response pv body)
     else if status_is_client_error status then raise (RefreshRejected (format_oauth_error pv status body))
     else raise (TokenTransport (''token endpoint returned HTTP '' @ show_nat status @ '': '' @ body))))"

section \<open>The provider\<close>

definition is_fresh :: "'x oauth2_provider \<Rightarrow> datetime \<Rightarrow> datetime \<Rightarrow> bool" where
  "is_fresh pv expires_at now \<longleftrightarrow> expires_at - now > op_safety_margin pv"

definition cached_access :: "'x oauth2_provider \<Rightarrow> ('x provider_state, 'e, string option) eff" where
  "cached_access pv = (\<lambda>s. (case pv_cached s of
       None \<Rightarrow> ret None
     | Some c \<Rightarrow> bindE (on_world (utc_now (sv_host (op_env pv)))) (\<lambda>now.
         ret (if is_fresh pv (ca_expires_at c) now then Some (ca_access c) else None))) s)"

definition db_failure :: "sqlx_error \<Rightarrow> token_provider_error" where
  "db_failure e = TokenPersistence (DbError e)"

definition refresh_tx :: "'x oauth2_provider \<Rightarrow> ('x world, token_provider_error, grant_response) eff" where
  "refresh_tx pv = in_tx (op_pool pv) db_failure db_failure
     (bindE (mapErr TokenPersistence
        (read_oauth_credentials_for_update (op_pool pv) (op_env pv) (op_engine pv) (op_tenant_id pv))) (\<lambda>creds.
      bindE (okOr (MissingCredentials (''tenant '' @ tenant_display (op_tenant_id pv) @ '' not found'')) creds) (\<lambda>row.
      bindE (liftR (validated_from_row row (op_tenant_id pv))) (\<lambda>validated.
      bindE (do_refresh_grant pv validated) (\<lambda>resp.
      bindE (mapErr TokenPersistence
        (write_oauth_refresh_token (op_pool pv) (op_env pv) (op_engine pv) (op_tenant_id pv) (gr_refresh_token resp))) (\<lambda>_.
      ret (Commit resp)))))))"

definition add_seconds :: "chrono \<Rightarrow> datetime \<Rightarrow> int \<Rightarrow> string + datetime" where
  "add_seconds ch now n =
     (if \<bar>n\<bar> > ch_max_seconds ch then Inl ''TimeDelta::seconds out of bounds''
      else let t = now + n * 1000000 in
        if t < ch_min_utc ch \<or> ch_max_utc ch < t then Inl ''`DateTime + TimeDelta` overflowed'' else Inr t)"

definition refresh_and_cache :: "'x oauth2_provider \<Rightarrow> ('x provider_state, provider_failure, string) eff" where
  "refresh_and_cache pv =
     bindE (cached_access pv) (\<lambda>hit. case hit of
       Some tok \<Rightarrow> ret tok
     | None \<Rightarrow>
         bindE (mapErr ProviderError (on_world (refresh_tx pv))) (\<lambda>resp.
         bindE (on_world (utc_now (sv_host (op_env pv)))) (\<lambda>now.
         bindE (liftR (mapErrR ProviderPanic (add_seconds (op_chrono pv) now (gr_expires_in resp)))) (\<lambda>expires_at.
         bindE (set_cached (Some \<lparr> ca_access = gr_access_token resp, ca_expires_at = expires_at \<rparr>)) (\<lambda>_.
         ret (gr_access_token resp))))))"

definition provider_get :: "'x oauth2_provider \<Rightarrow> ('x provider_state, provider_failure, string) eff" where
  "provider_get pv = bindE (cached_access pv) (\<lambda>hit. case hit of
     Some tok \<Rightarrow> ret tok
   | None \<Rightarrow> refresh_and_cache pv)"

definition provider_invalidate :: "'x oauth2_provider \<Rightarrow> ('x provider_state, provider_failure, string) eff" where
  "provider_invalidate pv = bindE (set_cached None) (\<lambda>_. refresh_and_cache pv)"

section \<open>Dispatch and registry\<close>

datatype 'x any_token_provider = OAuth2Provider "'x oauth2_provider" | StaticProvider string

primrec any_get :: "'x any_token_provider \<Rightarrow> ('x provider_state, provider_failure, string) eff" where
  "any_get (OAuth2Provider pv) = provider_get pv"
| "any_get (StaticProvider tok) = ret tok"

primrec any_invalidate :: "'x any_token_provider \<Rightarrow> ('x provider_state, provider_failure, string) eff" where
  "any_invalidate (OAuth2Provider pv) = provider_invalidate pv"
| "any_invalidate (StaticProvider tok) = ret tok"

record 'x provider_registry =
  pr_pool :: "'x pool"
  pr_token_url :: string
  pr_engine :: any_secret_engine
  pr_safety_margin :: int
  pr_env :: "'x secret_env"
  pr_chrono :: chrono
  pr_json_from_str :: "string \<Rightarrow> string + json"

text \<open>The map of live providers holds the one mutable part of each: its cached token.\<close>

record 'x registry_state =
  rg_providers :: "tenant_id \<rightharpoonup> cached_token option"
  rg_world :: "'x world"

definition new_provider :: "'x provider_registry \<Rightarrow> tenant_id \<Rightarrow> 'x any_token_provider" where
  "new_provider pr tenant = OAuth2Provider \<lparr> op_tenant_id = tenant, op_pool = pr_pool pr, op_token_url = pr_token_url pr,
     op_engine = pr_engine pr, op_safety_margin = pr_safety_margin pr, op_env = pr_env pr, op_chrono = pr_chrono pr,
     op_json_from_str = pr_json_from_str pr \<rparr>"

definition provider_for ::
  "'x provider_registry \<Rightarrow> tenant_id \<Rightarrow> ('x registry_state, 'e, 'x any_token_provider) eff" where
  "provider_for pr tenant = (\<lambda>g. (Inr (new_provider pr tenant),
     (case rg_providers g tenant of
        Some _ \<Rightarrow> g
      | None \<Rightarrow> g\<lparr> rg_providers := (rg_providers g)(tenant \<mapsto> None) \<rparr>)))"

definition on_provider ::
  "tenant_id \<Rightarrow> ('x provider_state, 'e, 'a) eff \<Rightarrow> ('x registry_state, 'e, 'a) eff" where
  "on_provider tenant m = (\<lambda>g.
     let cell = (case rg_providers g tenant of Some c \<Rightarrow> c | None \<Rightarrow> None) in
     (case m \<lparr> pv_cached = cell, pv_world = rg_world g \<rparr> of (r, s) \<Rightarrow>
        (r, g\<lparr> rg_providers := (rg_providers g)(tenant \<mapsto> pv_cached s), rg_world := pv_world s \<rparr>)))"

definition tenant_token ::
  "'x provider_registry \<Rightarrow> tenant_id \<Rightarrow> ('x registry_state, provider_failure, string) eff" where
  "tenant_token pr tenant = bindE (provider_for pr tenant) (\<lambda>p. on_provider tenant (any_get p))"

definition tenant_token_renewed ::
  "'x provider_registry \<Rightarrow> tenant_id \<Rightarrow> ('x registry_state, provider_failure, string) eff" where
  "tenant_token_renewed pr tenant = bindE (provider_for pr tenant) (\<lambda>p. on_provider tenant (any_invalidate p))"

section \<open>Frames\<close>

text \<open>A refresh changes at most the stored refresh token of its own tenant.\<close>

definition sans_refresh :: "tenant_id \<Rightarrow> db \<Rightarrow> db" where
  "sans_refresh tenant d = d\<lparr> tenants := update_where (\<lambda>t. tn_id t = tenant) (\<lambda>t. t\<lparr> tn_oauth_refresh_token := None \<rparr>) (tenants d) \<rparr>"

lemma sans_refresh_update:
  "sans_refresh tenant (tenants_update (update_where (\<lambda>t. tn_id t = tenant) (\<lambda>t. t\<lparr> tn_oauth_refresh_token := c \<rparr>)) d) = sans_refresh tenant d"
  by (simp add: sans_refresh_def update_where_def comp_def if_distrib cong: if_cong)

lemma sans_oauth_refresh: "sans_oauth (sans_refresh tenant d) = sans_oauth d"
  by (simp add: sans_oauth_def sans_refresh_def update_where_def comp_def if_distrib blank_oauth_def cong: if_cong)

lemma sans_refresh_others:
  "filter (\<lambda>t. tn_id t \<noteq> tenant) (tenants (sans_refresh tenant d)) = filter (\<lambda>t. tn_id t \<noteq> tenant) (tenants d)"
proof -
  have "filter (\<lambda>t. tn_id t \<noteq> tenant) (update_where (\<lambda>t. tn_id t = tenant) (\<lambda>t. t\<lparr> tn_oauth_refresh_token := None \<rparr>) rows) =
      filter (\<lambda>t. tn_id t \<noteq> tenant) rows" for rows
    by (induction rows) (simp_all add: update_where_def)
  then show ?thesis by (simp add: sans_refresh_def)
qed

lemma do_refresh_grant_keeps [pres]: "preserves (\<lambda>w. P (wdb w)) (do_refresh_grant pv v)"
  unfolding do_refresh_grant_def by (intro pres; simp add: Let_def pres)

lemma write_refresh_keeps:
  "preserves (\<lambda>w. sans_refresh tenant (wdb w) = D) (write_oauth_refresh_token p sv eng tenant s)"
  unfolding write_oauth_refresh_token_def update_tenant_def
  by (intro pres secret_engine_keeps [where P = "\<lambda>d. sans_refresh tenant d = D"]
        run_stmt_preserves [where P = "\<lambda>d. sans_refresh tenant d = D"])
     (auto simp: update_stmt_def sans_refresh_update)

lemma refresh_tx_keeps: "preserves (\<lambda>w. sans_refresh (op_tenant_id pv) (wdb w) = D) (refresh_tx pv)"
  unfolding refresh_tx_def
  by (intro in_tx_preserves [where P = "\<lambda>d. sans_refresh (op_tenant_id pv) d = D"] pres write_refresh_keeps
        read_oauth_keeps [where P = "\<lambda>d. sans_refresh (op_tenant_id pv) d = D"]
        do_refresh_grant_keeps [where P = "\<lambda>d. sans_refresh (op_tenant_id pv) d = D"])

lemma on_world_keeps [pres]: "preserves P m \<Longrightarrow> preserves (\<lambda>s. P (pv_world s)) (on_world m)"
  by (auto simp: preserves_def on_world_def split: prod.splits)

lemma set_cached_keeps [pres]: "preserves (\<lambda>s. P (pv_world s)) (set_cached c)"
  by (simp add: preserves_def set_cached_def)

lemma cached_access_keeps [pres]:
  fixes P :: "db \<Rightarrow> bool"
  shows "preserves (\<lambda>s. P (wdb (pv_world s))) (cached_access pv)"
  unfolding cached_access_def
  by (auto simp: preserves_def on_world_def bindE_run ret_def split: option.splits prod.splits)

text \<open>The contract of one provider: any predicate that does not look at the column is kept.\<close>

lemma refresh_and_cache_keeps:
  fixes P :: "db \<Rightarrow> bool"
  assumes tx: "preserves (\<lambda>w. P (wdb w)) (refresh_tx pv)"
  shows "preserves (\<lambda>s. P (wdb (pv_world s))) (refresh_and_cache pv)"
  unfolding refresh_and_cache_def
  by (intro pres on_world_keeps [where P = "\<lambda>w. P (wdb w)"] tx utc_now_keeps_db set_cached_keeps [where P = "\<lambda>w. P (wdb w)"])

lemma any_provider_keeps:
  fixes P :: "db \<Rightarrow> bool"
  assumes "\<And>pv. p = OAuth2Provider pv \<Longrightarrow> preserves (\<lambda>w. P (wdb w)) (refresh_tx pv)"
  shows "preserves (\<lambda>s. P (wdb (pv_world s))) (any_get p)" "preserves (\<lambda>s. P (wdb (pv_world s))) (any_invalidate p)"
  using assms by (cases p; auto simp: provider_get_def provider_invalidate_def
      intro!: pres refresh_and_cache_keeps set_cached_keeps [where P = "\<lambda>w. P (wdb w)"])+

lemma any_provider_sans_refresh:
  "preserves (\<lambda>s. sans_refresh t (wdb (pv_world s)) = D) (any_get (new_provider pr t))"
  "preserves (\<lambda>s. sans_refresh t (wdb (pv_world s)) = D) (any_invalidate (new_provider pr t))"
proof -
  have "preserves (\<lambda>w. sans_refresh t (wdb w) = D) (refresh_tx pv)" if "new_provider pr t = OAuth2Provider pv" for pv
    using refresh_tx_keeps [of pv D] that by (auto simp: new_provider_def)
  then show "preserves (\<lambda>s. sans_refresh t (wdb (pv_world s)) = D) (any_get (new_provider pr t))"
    "preserves (\<lambda>s. sans_refresh t (wdb (pv_world s)) = D) (any_invalidate (new_provider pr t))"
    by (intro any_provider_keeps [where P = "\<lambda>d. sans_refresh t d = D"], blast)+
qed

lemma refresh_sans_oauth: "preserves (\<lambda>s. sans_oauth (wdb (pv_world s)) = D) (refresh_and_cache pv)"
proof (rule preservesI)
  fix s :: "'a provider_state" assume "sans_oauth (wdb (pv_world s)) = D"
  moreover have "sans_refresh (op_tenant_id pv) (wdb (pv_world (snd (refresh_and_cache pv s)))) = sans_refresh (op_tenant_id pv) (wdb (pv_world s))"
    using refresh_and_cache_keeps [where P = "\<lambda>d. sans_refresh (op_tenant_id pv) d = sans_refresh (op_tenant_id pv) (wdb (pv_world s))", OF refresh_tx_keeps]
    by (simp add: preserves_def)
  ultimately show "sans_oauth (wdb (pv_world (snd (refresh_and_cache pv s)))) = D" by (metis sans_oauth_refresh)
qed

context tenants_frame
begin

lemma token_refresh: "preserves (\<lambda>s. P (wdb (pv_world s))) (refresh_and_cache pv)"
proof (rule refresh_and_cache_keeps)
  show "preserves (\<lambda>w. P (wdb w)) (refresh_tx pv)" unfolding refresh_tx_def by (intro pres oauth_writes)
qed

end

end
