(* ===== verification/TenantCli.thy ===== *)
theory TenantCli
  imports TenantStore IssuerApi AccountApi CredentialTypeApi
begin

text \<open>
  The tenant commands of the operator's tool: \<open>cli/tenant/mod.rs\<close> and the parts of
  \<open>bin/swiyu-issuer-cli.rs\<close> that decide which tenant a command is for and what it writes.
  Argument parsing, the connection and the migrations are left to their crates; UUIDs are
  in canonical form, and durations and instants are nanoseconds.
\<close>

section \<open>Environment\<close>

text \<open>\<open>ce_pause\<close> is a sleep: the rest of the system goes on, so it may change everything.\<close>

record 'x cli_env =
  ce_pool :: "'x pool"
  ce_host :: "'x host"
  ce_secrets :: "'x secret_env"
  ce_engine :: any_secret_engine
  ce_parse_uuid :: "string \<Rightarrow> string + string"
  ce_instant :: "'x world \<Rightarrow> nat"
  ce_pause :: "nat \<Rightarrow> 'x world \<Rightarrow> 'x world"

section \<open>Single tenants\<close>

datatype create_tenant_error =
    TenantAlreadyExists string
  | CreatePersistence persistence_error
  | CreateSqlx sqlx_error

definition create_tenant ::
  "'x cli_env \<Rightarrow> tenant_id \<Rightarrow> string \<Rightarrow> string option \<Rightarrow> string option \<Rightarrow> ('x world, create_tenant_error, unit) eff" where
  "create_tenant ce tenant partner display_name description =
     in_tx (ce_pool ce) CreateSqlx CreateSqlx
       (bindE (mapErr (\<lambda>e. case e of UniqueViolation _ \<Rightarrow> TenantAlreadyExists (tenant_bare tenant) | _ \<Rightarrow> CreatePersistence e)
          (insert_tenant (ce_pool ce) tenant partner display_name description)) (\<lambda>_.
        ret (Commit ())))"

text \<open>The errors of \<open>update\<close>, \<open>import_oauth_refresh_token\<close> and \<open>set_oauth_credentials\<close>.\<close>

datatype tenant_command_error =
    CmdTenantNotFound string
  | CmdPersistence persistence_error
  | CmdSqlx sqlx_error

definition amend_tenant ::
  "'x cli_env \<Rightarrow> tenant_id \<Rightarrow> string option \<Rightarrow> string option \<Rightarrow> string option \<Rightarrow>
   ('x world, tenant_command_error, unit) eff" where
  "amend_tenant ce tenant partner display_name description =
     in_tx (ce_pool ce) CmdSqlx CmdSqlx
       (bindE (mapErr CmdPersistence (update_metadata (ce_pool ce) tenant partner display_name description)) (\<lambda>outcome.
        case outcome of
          TenantUpdated \<Rightarrow> ret (Commit ())
        | TenantNotFound \<Rightarrow> raise (CmdTenantNotFound (tenant_bare tenant))))"

datatype seed_outcome = Wrote | Skipped

definition import_oauth_refresh_token ::
  "'x cli_env \<Rightarrow> tenant_id \<Rightarrow> string \<Rightarrow> bool \<Rightarrow> ('x world, tenant_command_error, seed_outcome) eff" where
  "import_oauth_refresh_token ce tenant refresh only_if_empty =
     in_tx (ce_pool ce) CmdSqlx CmdSqlx
       (bindE (mapErr CmdPersistence (find_tenant_by_id (ce_pool ce) tenant)) (\<lambda>row. case row of
          None \<Rightarrow> raise (CmdTenantNotFound (tenant_bare tenant))
        | Some t \<Rightarrow>
            if only_if_empty \<and> tn_oauth_refresh_token t \<noteq> None then ret (Rollback Skipped)
            else bindE (mapErr CmdPersistence
                   (write_oauth_refresh_token (ce_pool ce) (ce_secrets ce) (ce_engine ce) tenant refresh)) (\<lambda>_.
                 ret (Commit Wrote))))"

definition set_oauth_credentials ::
  "'x cli_env \<Rightarrow> tenant_id \<Rightarrow> string \<Rightarrow> string \<Rightarrow> bool \<Rightarrow> ('x world, tenant_command_error, seed_outcome) eff" where
  "set_oauth_credentials ce tenant client_id client_secret only_if_empty =
     in_tx (ce_pool ce) CmdSqlx CmdSqlx
       (bindE (mapErr CmdPersistence (find_tenant_by_id (ce_pool ce) tenant)) (\<lambda>row. case row of
          None \<Rightarrow> raise (CmdTenantNotFound (tenant_bare tenant))
        | Some t \<Rightarrow>
            if only_if_empty \<and> tn_oauth_client_id t \<noteq> None \<and> tn_oauth_client_secret t \<noteq> None then ret (Rollback Skipped)
            else bindE (mapErr CmdPersistence
                   (write_oauth_client_credentials (ce_pool ce) (ce_secrets ce) (ce_engine ce) tenant client_id client_secret)) (\<lambda>_.
                 ret (Commit Wrote))))"

section \<open>Which tenant\<close>

datatype tenant_ref = RefId tenant_id | RefPartnerId string | RefDev

definition parse_tenant_ref :: "'x cli_env \<Rightarrow> string \<Rightarrow> string + tenant_ref" where
  "parse_tenant_ref ce raw =
     (if raw = ''dev'' then Inr RefDev
      else case id_from_bare (host_bs58 (ce_host ce)) TenantId raw of
        Inr i \<Rightarrow> Inr (RefId i)
      | Inl _ \<Rightarrow> (case ce_parse_uuid ce raw of
          Inr u \<Rightarrow> Inr (RefPartnerId u)
        | Inl _ \<Rightarrow> Inl (''expected 'dev', a bare base58 tenant id (e.g. '9hXq2vRtL8pK7f'), or the tenant's business ''
            @ ''partner UUID (e.g. '7355b9bb-d45a-4d42-82ea-0c30b3f2fa25')'')))"

text \<open>Unset and empty variables are the same.\<close>

definition non_empty :: "string option \<Rightarrow> string option" where
  "non_empty v = (if v = Some [] then None else v)"

datatype ref_error =
    RefMessage string
  | RefSqlx sqlx_error
  | RefPersistence persistence_error

definition dev_tenant_partner_id :: "'x cli_env \<Rightarrow> (string \<Rightarrow> string option) \<Rightarrow> ref_error + string" where
  "dev_tenant_partner_id ce vars =
     bindR (result_of_option (RefMessage ''--tenant dev requires DEV_TENANT_PARTNER_ID to be set'')
              (non_empty (vars ''DEV_TENANT_PARTNER_ID''))) (\<lambda>raw.
     mapErrR (\<lambda>e. RefMessage (''DEV_TENANT_PARTNER_ID is not a valid UUID: '' @ e)) (ce_parse_uuid ce raw))"

definition tenant_by_partner :: "'x cli_env \<Rightarrow> string \<Rightarrow> ('x world, ref_error, tenant_id) eff" where
  "tenant_by_partner ce partner =
     bindE (mapErr RefSqlx (acquire (ce_pool ce))) (\<lambda>_.
     bindE (mapErr RefPersistence (find_tenant_by_partner_id (ce_pool ce) partner)) (\<lambda>row. case row of
       Some t \<Rightarrow> ret (tn_id t)
     | None \<Rightarrow> raise (RefMessage (''no tenant with business partner id '' @ [CHR 0x27] @ partner @ [CHR 0x27]))))"

definition resolve_tenant_ref ::
  "'x cli_env \<Rightarrow> (string \<Rightarrow> string option) \<Rightarrow> tenant_ref \<Rightarrow> ('x world, ref_error, tenant_id) eff" where
  "resolve_tenant_ref ce vars r = (case r of
     RefId i \<Rightarrow> ret i
   | RefPartnerId partner \<Rightarrow> tenant_by_partner ce partner
   | RefDev \<Rightarrow> bindE (liftR (dev_tenant_partner_id ce vars)) (tenant_by_partner ce))"

section \<open>The development tenant\<close>

record bootstrap_args =
  ba_partner_id :: string
  ba_display_name :: "string option"
  ba_description :: "string option"
  ba_client_id :: "string option"
  ba_client_secret :: "string option"
  ba_refresh_token :: "string option"

datatype bootstrap_error = BootPersistence persistence_error | BootSqlx sqlx_error

datatype dev_env_error =
    EnvMissing string
  | EnvInvalidUuid string string
  | EnvInvalidInt string string

definition dev_partner_id :: "'x cli_env \<Rightarrow> (string \<Rightarrow> string option) \<Rightarrow> dev_env_error + string" where
  "dev_partner_id ce get =
     bindR (result_of_option (EnvMissing ''DEV_TENANT_PARTNER_ID'') (non_empty (get ''DEV_TENANT_PARTNER_ID''))) (\<lambda>raw.
     mapErrR (EnvInvalidUuid ''DEV_TENANT_PARTNER_ID'') (ce_parse_uuid ce raw))"

definition parse_dev_tenant_args :: "'x cli_env \<Rightarrow> (string \<Rightarrow> string option) \<Rightarrow> dev_env_error + bootstrap_args" where
  "parse_dev_tenant_args ce get =
     bindR (dev_partner_id ce get) (\<lambda>partner. Inr
       \<lparr> ba_partner_id = partner,
         ba_display_name = non_empty (get ''DEV_TENANT_DISPLAY_NAME''),
         ba_description = non_empty (get ''DEV_TENANT_DESCRIPTION''),
         ba_client_id = non_empty (get ''DEV_TENANT_CLIENT_ID''),
         ba_client_secret = non_empty (get ''DEV_TENANT_CLIENT_SECRET''),
         ba_refresh_token = non_empty (get ''DEV_TENANT_REFRESH_TOKEN'') \<rparr>)"

text \<open>The secrets the arguments carry: the client's as a pair or not at all.\<close>

definition write_given_client ::
  "'x cli_env \<Rightarrow> tenant_id \<Rightarrow> bootstrap_args \<Rightarrow> ('x world, bootstrap_error, unit) eff" where
  "write_given_client ce tenant args = (case (ba_client_id args, ba_client_secret args) of
     (Some i, Some s) \<Rightarrow> mapErr BootPersistence
        (write_oauth_client_credentials (ce_pool ce) (ce_secrets ce) (ce_engine ce) tenant i s)
   | _ \<Rightarrow> ret ())"

definition write_given_token ::
  "'x cli_env \<Rightarrow> tenant_id \<Rightarrow> bootstrap_args \<Rightarrow> ('x world, bootstrap_error, unit) eff" where
  "write_given_token ce tenant args = (case ba_refresh_token args of
     Some r \<Rightarrow> mapErr BootPersistence (write_oauth_refresh_token (ce_pool ce) (ce_secrets ce) (ce_engine ce) tenant r)
   | None \<Rightarrow> ret ())"

definition bootstrap_new ::
  "'x cli_env \<Rightarrow> bootstrap_args \<Rightarrow> ('x world, bootstrap_error, tenant_id) eff" where
  "bootstrap_new ce args =
     bindE (generate_bare (ce_host ce)) (\<lambda>bare. let new_id = TenantId bare in
     bindE (mapErr BootPersistence (insert_tenant (ce_pool ce) new_id (ba_partner_id args) (ba_display_name args) (ba_description args))) (\<lambda>_.
     bindE (write_given_client ce new_id args) (\<lambda>_.
     bindE (write_given_token ce new_id args) (\<lambda>_.
     ret new_id))))"

definition bootstrap_existing ::
  "'x cli_env \<Rightarrow> bootstrap_args \<Rightarrow> bool \<Rightarrow> tenant \<Rightarrow> ('x world, bootstrap_error, tenant_id) eff" where
  "bootstrap_existing ce args force t =
     (if force
      then bindE (mapErr BootPersistence (update_metadata (ce_pool ce) (tn_id t) None (ba_display_name args) (ba_description args))) (\<lambda>_.
           bindE (write_given_client ce (tn_id t) args) (\<lambda>_.
           bindE (write_given_token ce (tn_id t) args) (\<lambda>_.
           ret (tn_id t))))
      else bindE (if tn_oauth_client_id t = None \<and> tn_oauth_client_secret t = None
                  then write_given_client ce (tn_id t) args else ret ()) (\<lambda>_.
           bindE (if tn_oauth_refresh_token t = None then write_given_token ce (tn_id t) args else ret ()) (\<lambda>_.
           ret (tn_id t))))"

definition bootstrap_tenant ::
  "'x cli_env \<Rightarrow> bootstrap_args \<Rightarrow> bool \<Rightarrow> ('x world, bootstrap_error, tenant_id) eff" where
  "bootstrap_tenant ce args force = in_tx (ce_pool ce) BootSqlx BootSqlx
     (bindE (mapErr BootPersistence (find_tenant_by_partner_id (ce_pool ce) (ba_partner_id args))) (\<lambda>found.
      bindE (case found of None \<Rightarrow> bootstrap_new ce args | Some t \<Rightarrow> bootstrap_existing ce args force t) (\<lambda>tenant.
      ret (Commit tenant))))"

section \<open>The development credential type\<close>

definition DEV_DUMMY_VCT :: string where "DEV_DUMMY_VCT = ''urn:dummy:dummy-credential''"

definition DEV_DUMMY_INTERNAL_DESCRIPTION :: string where
  "DEV_DUMMY_INTERNAL_DESCRIPTION = ''Auto-seeded dummy credential type for local development''"

definition dev_dummy_claim_schema :: json where
  "dev_dummy_claim_schema = JObj
     [(''$schema'', JStr ''https://json-schema.org/draft/2020-12/schema''),
      (''properties'', JObj [(''first_name'', JObj [(''type'', JStr ''string'')]), (''last_name'', JObj [(''type'', JStr ''string'')])]),
      (''required'', JArr [JStr ''first_name'', JStr ''last_name'']),
      (''type'', JStr ''object'')]"

definition localised :: "string \<Rightarrow> string \<Rightarrow> json" where
  "localised locale name = JObj [(''locale'', JStr locale), (''name'', JStr name)]"

definition dev_dummy_display :: json where
  "dev_dummy_display = JArr [localised ''en-US'' ''Dev Dummy Credential'', localised ''de-CH'' ''Entwickler Dummy E-Nachweis'']"

definition dev_dummy_claims :: json where
  "dev_dummy_claims = JObj
     [(''first_name'', JObj [(''display'', JArr [localised ''en-US'' ''First name'', localised ''de-CH'' ''Vorname''])]),
      (''last_name'', JObj [(''display'', JArr [localised ''en-US'' ''Last name'', localised ''de-CH'' ''Nachname''])])]"

definition DEV_VALIDITY :: int where "DEV_VALIDITY = 365 * 24 * 60 * 60 * 1000000"

text \<open>The credential type: kept, rewritten or inserted.\<close>

definition rewrite_dev_type ::
  "'x cli_env \<Rightarrow> tenant_id \<Rightarrow> ctype_id \<Rightarrow> ('x world, persistence_error, ctype_id) eff" where
  "rewrite_dev_type ce tenant k = (let p = ce_pool ce in
     bindE (update_structured p tenant k
       \<lparr> su_vct = None, su_internal_description = Some DEV_DUMMY_INTERNAL_DESCRIPTION, su_claim_schema_source_url = None,
         su_default_validity_duration = Some DEV_VALIDITY, su_revocation_mode = Some RevocableAndSuspendable \<rparr>) (\<lambda>_.
     bindE (update_blob_schema p tenant k dev_dummy_claim_schema) (\<lambda>_.
     bindE (update_blob_display p tenant k dev_dummy_display) (\<lambda>_.
     bindE (update_blob_claims p tenant k dev_dummy_claims) (\<lambda>_.
     ret k)))))"

definition insert_dev_type :: "'x cli_env \<Rightarrow> tenant_id \<Rightarrow> ('x world, persistence_error, ctype_id) eff" where
  "insert_dev_type ce tenant =
     bindE (generate_bare (ce_host ce)) (\<lambda>bare.
     bindE (utc_now (ce_host ce)) (\<lambda>now.
     bindE (insert_credential_type (ce_pool ce) (credential_type_new (CredentialTypeId bare) now tenant DEV_DUMMY_VCT dev_dummy_display
        (Some DEV_DUMMY_INTERNAL_DESCRIPTION) dev_dummy_claim_schema dev_dummy_claims DEV_VALIDITY RevocableAndSuspendable)) (\<lambda>_.
     ret (CredentialTypeId bare))))"

definition seed_credential_type ::
  "'x cli_env \<Rightarrow> tenant_id \<Rightarrow> bool \<Rightarrow> ('x world, persistence_error, ctype_id) eff" where
  "seed_credential_type ce tenant force =
     bindE (find_by_vct_for_tenant (ce_pool ce) tenant DEV_DUMMY_VCT) (\<lambda>existing. case existing of
       Some row \<Rightarrow> if force then rewrite_dev_type ce tenant (ct_id row) else ret (ct_id row)
     | None \<Rightarrow> insert_dev_type ce tenant)"

fun assign_listed ::
  "'x cli_env \<Rightarrow> tenant_id \<Rightarrow> ctype_id \<Rightarrow> issuer list \<Rightarrow> ('x world, persistence_error, unit) eff" where
  "assign_listed ce tenant ctype [] = ret ()"
| "assign_listed ce tenant ctype (i # rest) =
     bindE (utc_now (ce_host ce)) (\<lambda>now.
     bindE (assign_type (ce_pool ce) \<lparr> as_issuer_id = iss_id i, as_credential_type_id = ctype, as_tenant_id = tenant,
        as_assigned_at = now \<rparr>) (\<lambda>_.
     assign_listed ce tenant ctype rest))"

definition seed_dev_credential_type_and_assignments ::
  "'x cli_env \<Rightarrow> tenant_id \<Rightarrow> bool \<Rightarrow> ('x world, bootstrap_error, unit) eff" where
  "seed_dev_credential_type_and_assignments ce tenant force = in_tx (ce_pool ce) BootSqlx BootSqlx
     (mapErr BootPersistence
       (bindE (seed_credential_type ce tenant force) (\<lambda>ctype.
        bindE (list_issuers_page (ce_pool ce) tenant None 100) (\<lambda>page.
        bindE (assign_listed ce tenant ctype (lp_items page)) (\<lambda>_.
        ret (Commit ()))))))"

definition bootstrap_dev_from_env ::
  "'x cli_env \<Rightarrow> bootstrap_args \<Rightarrow> bool \<Rightarrow> ('x world, bootstrap_error, tenant_id) eff" where
  "bootstrap_dev_from_env ce args force =
     bindE (bootstrap_tenant ce args force) (\<lambda>tenant.
     bindE (seed_dev_credential_type_and_assignments ce tenant force) (\<lambda>_.
     ret tenant))"

section \<open>The development issuer\<close>

definition DEFAULT_ENSURE_DEV_ISSUER_POLL_INTERVAL_SECS :: nat where "DEFAULT_ENSURE_DEV_ISSUER_POLL_INTERVAL_SECS = 1"
definition DEFAULT_ENSURE_DEV_ISSUER_TIMEOUT_SECS :: nat where "DEFAULT_ENSURE_DEV_ISSUER_TIMEOUT_SECS = 300"

definition from_secs :: "nat \<Rightarrow> nat" where "from_secs s = s * 10 ^ 9"

record ensure_issuer_args =
  ei_partner_id :: string
  ei_poll_interval :: nat
  ei_timeout :: nat

datatype ensure_issuer_outcome =
    AlreadyActive issuer_id
  | DeactivatedOnly
  | Provisioned issuer_id task_id

datatype ensure_issuer_error =
    EiTenantNotFound string
  | EiTaskFailed task_id "string option" "string option"
  | EiTimeout task_id nat
  | EiTaskVanished task_id
  | EiPersistence persistence_error
  | EiSqlx sqlx_error
  | EiSeed bootstrap_error

definition parse_dev_issuer_args :: "'x cli_env \<Rightarrow> (string \<Rightarrow> string option) \<Rightarrow> dev_env_error + ensure_issuer_args" where
  "parse_dev_issuer_args ce get =
     bindR (dev_partner_id ce get) (\<lambda>partner.
     bindR (case non_empty (get ''DEV_BOOTSTRAP_TIMEOUT_SECS'') of
              Some s \<Rightarrow> mapErrR (EnvInvalidInt ''DEV_BOOTSTRAP_TIMEOUT_SECS'') (parse_unsigned (2 ^ 64 - 1) s)
            | None \<Rightarrow> Inr DEFAULT_ENSURE_DEV_ISSUER_TIMEOUT_SECS) (\<lambda>timeout_secs. Inr
       \<lparr> ei_partner_id = partner, ei_poll_interval = from_secs DEFAULT_ENSURE_DEV_ISSUER_POLL_INTERVAL_SECS,
         ei_timeout = from_secs timeout_secs \<rparr>))"

definition build_create_issuer_task ::
  "'x cli_env \<Rightarrow> tenant_id \<Rightarrow> string option \<Rightarrow> ('x world, 'e, operation_task \<times> issuer_id) eff" where
  "build_create_issuer_task ce tenant tenant_display_name =
     bindE (generate_bare (ce_host ce)) (\<lambda>issuer_bare.
     bindE (generate_bare (ce_host ce)) (\<lambda>task_bare.
     bindE (utc_now (ce_host ce)) (\<lambda>now.
     let display_name = (case tenant_display_name of Some name \<Rightarrow> name @ '' - dev issuer'' | None \<Rightarrow> ''Dev Issuer'') in
     ret (submitted_task task_bare tenant CreateIssuer
        (JObj [(''description'', JStr []), (''display_name'', JStr display_name)]) (IssuerId issuer_bare) now, IssuerId issuer_bare))))"

text \<open>One look at the task: done, failed, or still running.\<close>

definition look_at_task ::
  "'x cli_env \<Rightarrow> tenant_id \<Rightarrow> task_id \<Rightarrow> ('x world, ensure_issuer_error, bool) eff" where
  "look_at_task ce tenant task =
     bindE (mapErr EiSqlx (acquire (ce_pool ce))) (\<lambda>_.
     bindE (mapErr (\<lambda>e. if e = NotFound then EiTaskVanished task else EiPersistence e)
       (find_task_by_id (ce_pool ce) tenant task)) (\<lambda>t.
     case ot_state t of
       Completed \<Rightarrow> ret True
     | Failed \<Rightarrow> raise (EiTaskFailed task (ot_error_code t) (ot_error_message t))
     | _ \<Rightarrow> ret False))"

text \<open>The loop of \<open>wait_for_task_terminal\<close>, for at most a number of rounds; \<open>None\<close>: still waiting.\<close>

fun wait_rounds ::
  "nat \<Rightarrow> 'x cli_env \<Rightarrow> tenant_id \<Rightarrow> task_id \<Rightarrow> nat \<Rightarrow> nat \<Rightarrow> nat \<Rightarrow> ('x world, ensure_issuer_error, unit option) eff" where
  "wait_rounds 0 ce tenant task interval timeout start = ret None"
| "wait_rounds (Suc n) ce tenant task interval timeout start =
     bindE (look_at_task ce tenant task) (\<lambda>finished.
     if finished then ret (Some ())
     else (\<lambda>w. if ce_instant ce w - start \<ge> timeout then raise (EiTimeout task (timeout div 10 ^ 9)) w
               else wait_rounds n ce tenant task interval timeout start (ce_pause ce interval w)))"

definition wait_for_task_terminal ::
  "nat \<Rightarrow> 'x cli_env \<Rightarrow> tenant_id \<Rightarrow> task_id \<Rightarrow> nat \<Rightarrow> nat \<Rightarrow> ('x world, ensure_issuer_error, unit option) eff" where
  "wait_for_task_terminal n ce tenant task interval timeout =
     (\<lambda>w. wait_rounds n ce tenant task interval timeout (ce_instant ce w) w)"

text \<open>The branch without issuers: submit the task, wait for it, seed again.\<close>

definition provision_dev_issuer ::
  "nat \<Rightarrow> 'x cli_env \<Rightarrow> ensure_issuer_args \<Rightarrow> tenant \<Rightarrow> ('x world, ensure_issuer_error, ensure_issuer_outcome option) eff" where
  "provision_dev_issuer n ce args t = (let p = ce_pool ce; tenant = tn_id t in
     bindE (build_create_issuer_task ce tenant (tn_display_name t)) (\<lambda>(task, issuer).
     bindE (mapErr EiSqlx (acquire p)) (\<lambda>_.
     bindE (mapErr EiPersistence (insert_task p task)) (\<lambda>_.
     bindE (wait_for_task_terminal n ce tenant (ot_id task) (ei_poll_interval args) (ei_timeout args)) (\<lambda>waited.
     case waited of
       None \<Rightarrow> ret None
     | Some _ \<Rightarrow>
         bindE (mapErr EiSeed (seed_dev_credential_type_and_assignments ce tenant False)) (\<lambda>_.
         ret (Some (Provisioned issuer (ot_id task)))))))))"

definition ensure_dev_issuer_from_env ::
  "nat \<Rightarrow> 'x cli_env \<Rightarrow> ensure_issuer_args \<Rightarrow> ('x world, ensure_issuer_error, ensure_issuer_outcome option) eff" where
  "ensure_dev_issuer_from_env n ce args = (let p = ce_pool ce in
     bindE (mapErr EiSqlx (acquire p)) (\<lambda>_.
     bindE (mapErr EiPersistence (find_tenant_by_partner_id p (ei_partner_id args))) (\<lambda>found.
     bindE (okOr (EiTenantNotFound (ei_partner_id args)) found) (\<lambda>t.
     bindE (mapErr EiPersistence (list_issuers_page p (tn_id t) None 100)) (\<lambda>page.
     case find (\<lambda>i. iss_state i = Some IssuerActive) (lp_items page) of
       Some i \<Rightarrow>
         bindE (mapErr EiSeed (seed_dev_credential_type_and_assignments ce (tn_id t) False)) (\<lambda>_.
         ret (Some (AlreadyActive (iss_id i))))
     | None \<Rightarrow>
         if \<exists>i \<in> set (lp_items page). iss_state i = Some Deactivated then ret (Some DeactivatedOnly)
         else provision_dev_issuer n ce args t)))))"

section \<open>The development user\<close>

definition DEFAULT_DEV_USER_IDENTITY_ISS :: string where
  "DEFAULT_DEV_USER_IDENTITY_ISS = ''http://localhost:8083/realms/swiyu-issuer''"
definition DEFAULT_DEV_USER_IDENTITY_SUB :: string where
  "DEFAULT_DEV_USER_IDENTITY_SUB = ''11111111-1111-4111-8111-111111111111''"

record ensure_user_args =
  eu_partner_id :: string
  eu_identity :: user_identity

definition parse_dev_user_args :: "'x cli_env \<Rightarrow> (string \<Rightarrow> string option) \<Rightarrow> dev_env_error + ensure_user_args" where
  "parse_dev_user_args ce get =
     bindR (dev_partner_id ce get) (\<lambda>partner. Inr
       \<lparr> eu_partner_id = partner,
         eu_identity = \<lparr> ui_iss = coalesce (non_empty (get ''DEV_USER_IDENTITY_ISS'')) DEFAULT_DEV_USER_IDENTITY_ISS,
                          ui_sub = coalesce (non_empty (get ''DEV_USER_IDENTITY_SUB'')) DEFAULT_DEV_USER_IDENTITY_SUB \<rparr> \<rparr>)"

datatype ensure_user_outcome = AlreadyLinked account_id | AccountCreated account_id

datatype ensure_user_error =
    EuTenantNotFound string
  | EuPersistence persistence_error
  | EuSqlx sqlx_error

definition ensure_dev_user_account_from_env ::
  "'x cli_env \<Rightarrow> ensure_user_args \<Rightarrow> ('x world, ensure_user_error, ensure_user_outcome) eff" where
  "ensure_dev_user_account_from_env ce args = (let p = ce_pool ce in
     bindE (mapErr EuSqlx (acquire p)) (\<lambda>_.
     bindE (mapErr EuPersistence (find_tenant_by_partner_id p (eu_partner_id args))) (\<lambda>found.
     bindE (okOr (EuTenantNotFound (eu_partner_id args)) found) (\<lambda>t. let tenant = tn_id t in
     bindE (mapErr EuPersistence (list_by_identity p (eu_identity args))) (\<lambda>accounts.
     case find (\<lambda>a. ua_tenant_id a = tenant) accounts of
       Some a \<Rightarrow> ret (AlreadyLinked (ua_id a))
     | None \<Rightarrow>
         bindE (utc_now (ce_host ce)) (\<lambda>now.
         bindE (generate_bare (ce_host ce)) (\<lambda>bare.
         bindE (mapErr EuPersistence (insert_account p
            \<lparr> ua_id = UserAccountId bare, ua_tenant_id = tenant, ua_provisioning_first_name = Some ''Dev'',
              ua_provisioning_last_name = Some ''User'', ua_provisioning_home_organization = None, ua_state = AccountActive,
              ua_identity = Some (eu_identity args), ua_idp_first_name = None, ua_idp_last_name = None,
              ua_linked_at = Some now, ua_created_at = now \<rparr>)) (\<lambda>_.
         ret (AccountCreated (UserAccountId bare))))))))))"

section \<open>Commands of the tool\<close>

text \<open>A secret comes from the command line or from one line of standard input.\<close>

datatype secret_source = OnCommandLine string | FromStdin string

fun read_secret :: "secret_source \<Rightarrow> string" where
  "read_secret (OnCommandLine v) = v"
| "read_secret (FromStdin line) = trim line"

datatype cli_failure =
    CliMessage string
  | CliRef ref_error
  | CliCommand tenant_command_error
  | CliCreate create_tenant_error

definition create_tenant_command ::
  "'x cli_env \<Rightarrow> string \<Rightarrow> string option \<Rightarrow> string option \<Rightarrow> ('x world, cli_failure, string) eff" where
  "create_tenant_command ce partner display_name description =
     bindE (generate_bare (ce_host ce)) (\<lambda>bare.
     bindE (mapErr CliCreate (create_tenant ce (TenantId bare) partner display_name description)) (\<lambda>_.
     ret bare))"

definition update_tenant_command ::
  "'x cli_env \<Rightarrow> (string \<Rightarrow> string option) \<Rightarrow> tenant_ref \<Rightarrow> string option \<Rightarrow> string option \<Rightarrow> string option \<Rightarrow>
   ('x world, cli_failure, tenant_id) eff" where
  "update_tenant_command ce vars r partner display_name description =
     bindE (mapErr CliRef (resolve_tenant_ref ce vars r)) (\<lambda>tenant.
     bindE (mapErr CliCommand (amend_tenant ce tenant partner display_name description)) (\<lambda>_.
     ret tenant))"

definition import_token_command ::
  "'x cli_env \<Rightarrow> (string \<Rightarrow> string option) \<Rightarrow> secret_source \<Rightarrow> tenant_ref \<Rightarrow> bool \<Rightarrow>
   ('x world, cli_failure, tenant_id \<times> seed_outcome) eff" where
  "import_token_command ce vars src r only_if_empty =
     bindE (guardE (read_secret src \<noteq> []) (CliMessage ''refresh token is empty'')) (\<lambda>_.
     bindE (mapErr CliRef (resolve_tenant_ref ce vars r)) (\<lambda>tenant.
     bindE (mapErr CliCommand (import_oauth_refresh_token ce tenant (read_secret src) only_if_empty)) (\<lambda>outcome.
     ret (tenant, outcome))))"

definition set_credentials_command ::
  "'x cli_env \<Rightarrow> (string \<Rightarrow> string option) \<Rightarrow> string \<Rightarrow> secret_source \<Rightarrow> tenant_ref \<Rightarrow> bool \<Rightarrow>
   ('x world, cli_failure, tenant_id \<times> seed_outcome) eff" where
  "set_credentials_command ce vars client_id src r only_if_empty =
     bindE (guardE (client_id \<noteq> []) (CliMessage ''--client-id is empty'')) (\<lambda>_.
     bindE (guardE (read_secret src \<noteq> []) (CliMessage ''client secret is empty'')) (\<lambda>_.
     bindE (mapErr CliRef (resolve_tenant_ref ce vars r)) (\<lambda>tenant.
     bindE (mapErr CliCommand (set_oauth_credentials ce tenant client_id (read_secret src) only_if_empty)) (\<lambda>outcome.
     ret (tenant, outcome)))))"

section \<open>What the commands keep\<close>

text \<open>
  A predicate of the database that does not look at tenant rows and that the statements on
  credential types, assignments, accounts and tasks keep is kept by every command.  While
  the tool sleeps, the rest of the system has to keep it.
\<close>

locale operator_keeps = tenants_frame P for P :: "db \<Rightarrow> bool" +
  fixes ce :: "'x cli_env"
  assumes stores: "preserves (\<lambda>w. P (wdb w)) (insert_credential_type (ce_pool ce) c)"
      "preserves (\<lambda>w. P (wdb w)) (update_structured (ce_pool ce) tn ci u)"
      "preserves (\<lambda>w. P (wdb w)) (update_blob_schema (ce_pool ce) tn ci j)"
      "preserves (\<lambda>w. P (wdb w)) (update_blob_display (ce_pool ce) tn ci j)"
      "preserves (\<lambda>w. P (wdb w)) (update_blob_claims (ce_pool ce) tn ci j)"
      "preserves (\<lambda>w. P (wdb w)) (assign_type (ce_pool ce) asg)"
      "preserves (\<lambda>w. P (wdb w)) (insert_account (ce_pool ce) acc)"
      "preserves (\<lambda>w. P (wdb w)) (insert_task (ce_pool ce) (submitted_task b tn CreateIssuer inp i now))"
begin

lemma reads:
  "preserves (\<lambda>w. P (wdb w)) (find_by_vct_for_tenant (ce_pool ce) tn v)"
  "preserves (\<lambda>w. P (wdb w)) (list_issuers_page (ce_pool ce) tn c l)"
  "preserves (\<lambda>w. P (wdb w)) (list_by_identity (ce_pool ce) ident)"
  "preserves (\<lambda>w. P (wdb w)) (find_task_by_id (ce_pool ce) tn k)"
  unfolding find_by_vct_for_tenant_def list_issuers_page_def list_by_identity_def find_task_by_id_def by (intro pres)+

lemma single_tenant_commands:
  "preserves (\<lambda>w. P (wdb w)) (create_tenant ce tn partner n ds)"
  "preserves (\<lambda>w. P (wdb w)) (amend_tenant ce tn partner' n ds)"
  "preserves (\<lambda>w. P (wdb w)) (import_oauth_refresh_token ce tn s only)"
  "preserves (\<lambda>w. P (wdb w)) (set_oauth_credentials ce tn i s only)"
  unfolding create_tenant_def amend_tenant_def import_oauth_refresh_token_def set_oauth_credentials_def
  by (intro in_tx_preserves [where P = P] pres tenant_writes oauth_writes;
      auto split: tenant_update.splits intro!: pres)+

lemma assign_listed_keeps: "preserves (\<lambda>w. P (wdb w)) (assign_listed ce tn ci is)"
  by (induction "is") (auto intro!: pres stores)

lemma seed_keeps: "preserves (\<lambda>w. P (wdb w)) (seed_dev_credential_type_and_assignments ce tn force)"
  unfolding seed_dev_credential_type_and_assignments_def seed_credential_type_def rewrite_dev_type_def insert_dev_type_def Let_def
  by (intro in_tx_preserves [where P = P] pres reads stores assign_listed_keeps)

lemma given_keeps:
  "preserves (\<lambda>w. P (wdb w)) (write_given_client ce tn args)"
  "preserves (\<lambda>w. P (wdb w)) (write_given_token ce tn args)"
  unfolding write_given_client_def write_given_token_def
  by (auto split: option.splits intro!: pres oauth_writes)

lemma bootstrap_keeps: "preserves (\<lambda>w. P (wdb w)) (bootstrap_dev_from_env ce args force)"
  unfolding bootstrap_dev_from_env_def bootstrap_tenant_def bootstrap_new_def bootstrap_existing_def Let_def
  by (intro in_tx_preserves [where P = P] pres seed_keeps given_keeps tenant_writes)

lemma dev_user_keeps: "preserves (\<lambda>w. P (wdb w)) (ensure_dev_user_account_from_env ce args)"
  unfolding ensure_dev_user_account_from_env_def Let_def by (intro pres reads stores)

lemma look_keeps: "preserves (\<lambda>w. P (wdb w)) (look_at_task ce tn k)"
  unfolding look_at_task_def by (intro pres reads) (auto split: task_state.splits intro!: pres)

lemma wait_keeps:
  assumes "\<And>i w. P (wdb w) \<Longrightarrow> P (wdb (ce_pause ce i w))"
  shows "preserves (\<lambda>w. P (wdb w)) (wait_rounds n ce tn k interval timeout start)"
proof (induction n)
  case (Suc n)
  have "preserves (\<lambda>w. P (wdb w)) (\<lambda>w. if ce_instant ce w - start \<ge> timeout then raise (EiTimeout k (timeout div 10 ^ 9)) w
      else wait_rounds n ce tn k interval timeout start (ce_pause ce interval w))"
    using Suc assms by (auto simp: preserves_def)
  then show ?case by (auto intro!: pres look_keeps)
qed (auto intro: pres)

lemma dev_issuer_keeps:
  assumes "\<And>i w. P (wdb w) \<Longrightarrow> P (wdb (ce_pause ce i w))"
  shows "preserves (\<lambda>w. P (wdb w)) (ensure_dev_issuer_from_env n ce args)"
proof -
  have "preserves (\<lambda>w. P (wdb w)) (wait_for_task_terminal n ce tn k interval timeout)" for tn k interval timeout
    using wait_keeps [OF assms] by (auto simp: preserves_def wait_for_task_terminal_def)
  then show ?thesis
    unfolding ensure_dev_issuer_from_env_def provision_dev_issuer_def build_create_issuer_task_def Let_def bindE_assoc bindE_ret_left prod.case
    by (intro pres reads seed_keeps stores)
qed

end

end
