(* ===== verification/System.thy ===== *)
theory System
  imports Router Lifecycles OAuth2 TenantCli
begin

text \<open>
  The running system: the two HTTP services, the worker, the publisher, the
  operator's tenant commands and the token refreshes over one database, as a step
  relation.  A step is one request, iteration, command or refresh from its first
  statement to its last; between steps the clock, the registries and the engines
  move on their own.
\<close>

section \<open>Reads\<close>

lemma first_party_keeps_db [pres]: "preserves (\<lambda>w. P (wdb w)) (first_party_context ms v parts)"
  unfolding first_party_context_def
  by (intro pres) (auto split: principal.splits intro!: pres)

lemma issuer_reads_keep_db [pres]:
  "preserves (\<lambda>w. P (wdb w)) (list_issuers ms tn lq)"
  "preserves (\<lambda>w. P (wdb w)) (get_issuer ms tn i)"
  "preserves (\<lambda>w. P (wdb w)) (get_operation_task ms tn k)"
  unfolding list_issuers_def list_issuers_page_def get_issuer_def load_managed_issuer_def get_operation_task_def
    find_task_by_id_def Let_def
  by (intro pres)+

lemma type_reads_keep_db [pres]:
  "preserves (\<lambda>w. P (wdb w)) (list_types ms tn tq)"
  "preserves (\<lambda>w. P (wdb w)) (get_type ms tn i)"
  "preserves (\<lambda>w. P (wdb w)) (get_schema ms tn i)"
  "preserves (\<lambda>w. P (wdb w)) (get_display ms tn i)"
  "preserves (\<lambda>w. P (wdb w)) (get_claims ms tn i)"
  "preserves (\<lambda>w. P (wdb w)) (list_assignments ms tn i)"
  unfolding list_types_def list_types_page_def get_type_def get_schema_def get_display_def get_claims_def load_type_def
    list_assignments_def list_assigned_to_issuer_def Let_def
  by (intro pres)+

lemma account_reads_keep_db [pres]:
  "preserves (\<lambda>w. P (wdb w)) (list_accounts ms tn aq)"
  "preserves (\<lambda>w. P (wdb w)) (get_account_handler ms tn i)"
  "preserves (\<lambda>w. P (wdb w)) (list_invitations ms tn i aq)"
  "preserves (\<lambda>w. P (wdb w)) (resolve_accounts ms iss sub)"
  unfolding list_accounts_def list_accounts_by_tenant_def get_account_handler_def list_invitations_def
    list_invitations_by_account_def require_user_account_owned_by_tenant_def resolve_accounts_def
    resolve_linked_accounts_def Let_def
  by (intro pres)+

section \<open>What every entry point keeps\<close>

text \<open>
  The contract of the whole program on a predicate of the database: each
  operation that writes keeps it.  Whatever meets the contract holds in every
  reachable state.
\<close>

record 'x system =
  sy_mgmt :: "'x mgmt_app"
  sy_oid4vci :: oid4vci_lib
  sy_oidc :: "'x oidc_state"
  sy_worker :: "'x worker"
  sy_publisher :: "'x publisher"
  sy_cli :: "'x cli_env"

inductive system_step :: "'x system \<Rightarrow> 'x world \<Rightarrow> 'x world \<Rightarrow> bool" for sy where
  mgmt: "mgmt_router (sy_mgmt sy) parts route w = (r, w') \<Longrightarrow> system_step sy w w'"
| wallet: "oidc_router (sy_oid4vci sy) (sy_oidc sy) route w = (r, w') \<Longrightarrow> system_step sy w w'"
| work: "poll (sy_worker sy) w = (x, w') \<Longrightarrow> system_step sy w w'"
| publish: "publisher_poll (sy_publisher sy) w = (y :: panic + publish_poll, w') \<Longrightarrow> system_step sy w w'"
| enrol: "create_tenant (sy_cli sy) t partner n ds w = (a, w') \<Longrightarrow> system_step sy w w'"
| amend: "amend_tenant (sy_cli sy) t partner' n ds w = (b, w') \<Longrightarrow> system_step sy w w'"
| entrust: "set_oauth_credentials (sy_cli sy) t c s only w = (e, w') \<Longrightarrow> system_step sy w w'"
| import_token: "import_oauth_refresh_token (sy_cli sy) t s only w = (e, w') \<Longrightarrow> system_step sy w w'"
| bootstrap: "bootstrap_dev_from_env (sy_cli sy) args force w = (g, w') \<Longrightarrow> system_step sy w w'"
| dev_user: "ensure_dev_user_account_from_env (sy_cli sy) uargs w = (h, w') \<Longrightarrow> system_step sy w w'"
| refresh: "refresh_and_cache pv st = (k, st') \<Longrightarrow> system_step sy (pv_world st) (pv_world st')"
| outside: "wdb w' = wdb w \<Longrightarrow> system_step sy w w'"

locale system_keeps = operator_keeps P "sy_cli sy" for P :: "db \<Rightarrow> bool" and sy :: "'x system" +
  assumes submit: "preserves (\<lambda>w. P (wdb w)) (create_issuer (ma_state (sy_mgmt sy)) tn req)"
      "preserves (\<lambda>w. P (wdb w)) (deactivate (ma_state (sy_mgmt sy)) tn i)"
      "preserves (\<lambda>w. P (wdb w)) (rotate_keys (ma_state (sy_mgmt sy)) tn i b)"
    and offer: "preserves (\<lambda>w. P (wdb w)) (create_offer (ma_state (sy_mgmt sy)) tn i oreq)"
      "preserves (\<lambda>w. P (wdb w)) (cancel_offer (ma_state (sy_mgmt sy)) tn i k)"
    and lifecycle: "ic_operation tr \<Longrightarrow> preserves (\<lambda>w. P (wdb w)) (lifecycle_handler tr sv (ma_state (sy_mgmt sy)) tn i k)"
    and types: "preserves (\<lambda>w. P (wdb w)) (create_type (ma_state (sy_mgmt sy)) tn treq)"
      "preserves (\<lambda>w. P (wdb w)) (patch_type (ma_state (sy_mgmt sy)) tn i pr)"
      "preserves (\<lambda>w. P (wdb w)) (put_schema (ma_state (sy_mgmt sy)) tn i b)"
      "preserves (\<lambda>w. P (wdb w)) (put_display (ma_state (sy_mgmt sy)) tn i b)"
      "preserves (\<lambda>w. P (wdb w)) (put_claims (ma_state (sy_mgmt sy)) tn i b)"
      "preserves (\<lambda>w. P (wdb w)) (retire (ma_state (sy_mgmt sy)) tn i)"
      "preserves (\<lambda>w. P (wdb w)) (assign (ma_state (sy_mgmt sy)) tn i k)"
      "preserves (\<lambda>w. P (wdb w)) (unassign (ma_state (sy_mgmt sy)) tn i k)"
    and accounts: "preserves (\<lambda>w. P (wdb w)) (create_account (ma_state (sy_mgmt sy)) tn f)"
      "preserves (\<lambda>w. P (wdb w)) (patch_account (ma_state (sy_mgmt sy)) tn i f)"
      "preserves (\<lambda>w. P (wdb w)) (set_account_state (ma_state (sy_mgmt sy)) tn i s)"
      "preserves (\<lambda>w. P (wdb w)) (create_invitation (ma_state (sy_mgmt sy)) (ma_web_base_url (sy_mgmt sy)) tn i e)"
      "preserves (\<lambda>w. P (wdb w)) (revoke_invitation (ma_state (sy_mgmt sy)) tn i)"
      "preserves (\<lambda>w. P (wdb w)) (accept_invitation (ma_state (sy_mgmt sy)) i areq)"
    and grant: "preserves (\<lambda>w. P (wdb w)) (token (sy_oidc sy) i gr)"
      "preserves (\<lambda>w. P (wdb w)) (credential (sy_oidc sy) i h cr)"
    and iteration: "preserves (\<lambda>w. P (wdb w)) (poll (sy_worker sy))"
    and publication: "preserves (\<lambda>w. P (wdb w)) (publisher_poll (sy_publisher sy) :: ('x world, panic, publish_poll) eff)"
begin

lemmas writes = submit offer types accounts grant iteration publication

lemma lifecycles:
  "preserves (\<lambda>w. P (wdb w)) (suspend (ma_state (sy_mgmt sy)) tn i k)"
  "preserves (\<lambda>w. P (wdb w)) (unsuspend (ma_state (sy_mgmt sy)) tn i k)"
  "preserves (\<lambda>w. P (wdb w)) (revoke (ma_state (sy_mgmt sy)) tn i k)"
  unfolding suspend_def unsuspend_def revoke_def by (rule lifecycle, simp add: ic_operation_def)+

lemma tenant_routes: "preserves (\<lambda>w. P (wdb w)) (serve_tenant (sy_mgmt sy) t r)"
  by (cases r; simp only: serve_tenant.simps activate_account_def deactivate_account_def;
      intro answer_preserves; (rule writes | rule lifecycles | rule pres))

lemma mgmt_routes: "preserves (\<lambda>w. P (wdb w)) (mgmt_router (sy_mgmt sy) parts r)"
  by (cases r; simp only: mgmt_router.simps; intro pres tenant_routes writes)

lemma oidc_routes: "preserves (\<lambda>w. P (wdb w)) (oidc_router ov (sy_oidc sy) r)"
  by (cases r; simp only: oidc_router.simps; intro pres writes)

lemma step_keeps: "system_step sy w w' \<Longrightarrow> P (wdb w) \<Longrightarrow> P (wdb w')"
proof (induction rule: system_step.induct)
  case mgmt
  then show ?case using mgmt_routes by (metis preserves_def snd_conv)
next
  case wallet
  then show ?case using oidc_routes by (metis preserves_def snd_conv)
next
  case work
  then show ?case using iteration by (metis preserves_def snd_conv)
next
  case publish
  then show ?case using publication by (metis preserves_def snd_conv)
next
  case enrol
  then show ?case using single_tenant_commands(1) by (metis preserves_def snd_conv)
next
  case amend
  then show ?case using single_tenant_commands(2) by (metis preserves_def snd_conv)
next
  case entrust
  then show ?case using single_tenant_commands(4) by (metis preserves_def snd_conv)
next
  case import_token
  then show ?case using single_tenant_commands(3) by (metis preserves_def snd_conv)
next
  case bootstrap
  then show ?case using bootstrap_keeps by (metis preserves_def snd_conv)
next
  case dev_user
  then show ?case using dev_user_keeps by (metis preserves_def snd_conv)
next
  case refresh
  then show ?case using token_refresh by (metis preserves_def snd_conv)
qed simp

lemma run_keeps: "(system_step sy)\<^sup>*\<^sup>* w w' \<Longrightarrow> P (wdb w) \<Longrightarrow> P (wdb w')"
  by (induction rule: rtranclp_induct) (auto intro: step_keeps)

text \<open>The command that waits for an issuer: while it sleeps, the system takes steps.\<close>

lemma dev_issuer_run:
  assumes "\<And>i w. (system_step sy)\<^sup>*\<^sup>* w (ce_pause (sy_cli sy) i w)"
  shows "preserves (\<lambda>w. P (wdb w)) (ensure_dev_issuer_from_env n (sy_cli sy) args)"
  by (rule dev_issuer_keeps) (rule run_keeps [OF assms])

end

section \<open>The program meets the contract\<close>

text \<open>The integrity of all tables, and the life cycles since a point in the past.\<close>

definition system_inv :: "db \<Rightarrow> bool" where
  "system_inv d \<longleftrightarrow> tasks_inv d \<and> admin_inv d \<and> data_inv d"

definition moved_from :: "db \<Rightarrow> db \<Rightarrow> bool" where
  "moved_from d0 d \<longleftrightarrow> offers_from (offer_states d0) d \<and> credentials_from (credential_states d0) d \<and>
     issuers_from (issuer_states d0) d \<and> tasks_from (task_states d0) d"

lemma moved_from_refl [simp]: "moved_from d d"
  by (simp add: moved_from_def from_defs)

definition sound_since :: "db \<Rightarrow> db \<Rightarrow> bool" where
  "sound_since d0 d \<longleftrightarrow> tasks_inv d \<and> admin_inv d \<and> issuers_from (issuer_states d0) d \<and>
     tasks_from (task_states d0) d \<and>
     data_inv d \<and> offers_from (offer_states d0) d \<and> credentials_from (credential_states d0) d"

lemma sound_since_iff: "sound_since d0 d \<longleftrightarrow> system_inv d \<and> moved_from d0 d"
  by (auto simp: sound_since_def system_inv_def moved_from_def)

lemma poll_keeps_sound: "preserves (\<lambda>w. sound_since d0 (wdb w)) (poll wk)"
proof
  fix w :: "'a world" assume P: "sound_since d0 (wdb w)"
  have "preserves (\<lambda>w. admin_inv (wdb w) \<and> issuers_from (issuer_states d0) (wdb w) \<and> data_inv (wdb w) \<and>
      offers_from (offer_states d0) (wdb w) \<and> credentials_from (credential_states d0) (wdb w)) (poll wk)"
    by (intro preserves_conj poll_keeps_data admin_worker.iteration.poll_kept issuers_iteration.poll_kept
        offers_iteration.poll_kept credentials_worker.iteration.poll_kept)
  moreover have "tasks_inv (wdb (snd (poll wk w)))" "tasks_from (task_states d0) (wdb (snd (poll wk w)))"
    using P poll_table poll_moves_tasks by (auto simp: sound_since_def)
  ultimately show "sound_since d0 (wdb (snd (poll wk w)))"
    using P by (auto simp: sound_since_def preserves_def)
qed

lemma preserves_conj5:
  "preserves A m \<Longrightarrow> preserves B m \<Longrightarrow> preserves C m \<Longrightarrow> preserves D m \<Longrightarrow> preserves E m \<Longrightarrow>
   preserves (\<lambda>w. A w \<and> B w \<and> C w \<and> D w \<and> E w) m"
  by (simp add: preserves_def)

interpretation sound_tenants: tenants_frame "sound_since d0" for d0
  by unfold_locales (simp add: sound_since_def tasks_inv_def admin_inv_def data_inv_defs from_defs issuer_states_def
      task_states_def offer_states_def credential_states_def lists_inv_def)

interpretation sound_operator: operator_keeps "sound_since d0" ce for d0 ce
proof
  show "preserves (\<lambda>w. sound_since d0 (wdb w)) (insert_task (ce_pool ce) (submitted_task b tn CreateIssuer inp i now))" for b tn inp i now
    unfolding sound_since_def by (intro preserves_conj pres) (simp_all add: submitted_task_def task_wf_def)
qed (unfold sound_since_def; intro preserves_conj pres)+

interpretation sound: system_keeps "sound_since d0" sy for d0 sy
proof
  show "preserves (\<lambda>w. sound_since d0 (wdb w)) (lifecycle_handler tr sv (ma_state (sy_mgmt sy)) tn i k)"
    if "ic_operation tr" for tr sv tn i k
  proof -
    have "preserves (\<lambda>w. tasks_inv (wdb w) \<and> admin_inv (wdb w) \<and> issuers_from (issuer_states d0) (wdb w) \<and>
        tasks_from (task_states d0) (wdb w) \<and> offers_from (offer_states d0) (wdb w) \<and>
        data_inv (wdb w) \<and> credentials_from (credential_states d0) (wdb w))
        (lifecycle_handler tr sv (ma_state (sy_mgmt sy)) tn i k)"
      by (intro preserves_conj lifecycle_keeps_credentials [OF that] pres)
    then show ?thesis by (auto simp: sound_since_def preserves_def)
  qed
  show "preserves (\<lambda>w. sound_since d0 (wdb w)) (credential (sy_oidc sy) i h cr)" for i h cr
  proof -
    have "preserves (\<lambda>w. tasks_inv (wdb w) \<and> admin_inv (wdb w) \<and> issuers_from (issuer_states d0) (wdb w) \<and>
        tasks_from (task_states d0) (wdb w) \<and>
        (data_inv (wdb w) \<and> offers_from (offer_states d0) (wdb w) \<and> credentials_from (credential_states d0) (wdb w)))
        (credential (sy_oidc sy) i h cr)"
      by (rule preserves_conj5 credential_keeps_offers_and_credentials pres)+
    then show ?thesis by (simp add: sound_since_def)
  qed
  show "preserves (\<lambda>w. sound_since d0 (wdb w)) (poll (sy_worker sy))" by (rule poll_keeps_sound)
qed (unfold sound_since_def, (intro preserves_conj pres)+)

end
