(* ===== verification/Interleaving.thy ===== *)
theory Interleaving
  imports System
begin

text \<open>
  Requests that overlap.  The steps of \<open>system_step\<close> run from their first
  statement to their last; here the requests that write the state of an offer
  or of a credential are also cut where the code holds no lock: between what
  they read and the statement or transaction that writes, anything may happen.
  The worker's iterations stay whole: one worker runs, and it is the only
  writer of tasks and issuers.
\<close>

section \<open>Requests in flight\<close>

text \<open>
  A life-cycle request between its read and its write: the credential as it
  will write it, the bit, and the state the table showed when it read.
\<close>

record overlapped_op =
  oo_tenant :: tenant_id
  oo_result :: issued_credential
  oo_value :: status_value
  oo_seen :: "ic_state option"

text \<open>
  The world, the life-cycle requests in flight, and, as a record of the past,
  the credentials some request wrote although their state was no longer the
  one it had seen.
\<close>

record 'x shared =
  sh_world :: "'x world"
  sh_flight :: "overlapped_op list"
  sh_overtaken :: "credential_id set"

abbreviation sh_db :: "'x shared \<Rightarrow> db" where
  "sh_db s \<equiv> wdb (sh_world s)"

text \<open>The three routes: the transition each decides on and the bit it writes.\<close>

definition lifecycle_request :: "(issued_credential \<Rightarrow> domain_error + issued_credential) \<Rightarrow> status_value \<Rightarrow> bool" where
  "lifecycle_request tr v \<longleftrightarrow>
     (tr, v) \<in> {(try_suspend, StatusSuspended), (try_unsuspend, StatusValid), (try_revoke, StatusRevoked)}"

definition overtaken_by :: "overlapped_op \<Rightarrow> db \<Rightarrow> credential_id set" where
  "overtaken_by op d = (let cid = ic_id (oo_result op) in if credential_states d cid = oo_seen op then {} else {cid})"

text \<open>The second half of \<open>run_lifecycle_op\<close>, up to the commit.\<close>

definition lifecycle_finish :: "'x mgmt_state \<Rightarrow> overlapped_op \<Rightarrow> ('x world, api_error, issued_credential) eff" where
  "lifecycle_finish st op = in_tx (ms_pool st) (api_sql st) (api_sql st)
     (lifecycle_write st (oo_tenant op) (oo_result op) (oo_value op))"

inductive shared_step :: "'x system \<Rightarrow> 'x shared \<Rightarrow> 'x shared \<Rightarrow> bool" for sy where
  whole: "system_step sy (sh_world s) w' \<Longrightarrow> shared_step sy s (s\<lparr> sh_world := w' \<rparr>)"
| begins: "lifecycle_request tr v \<Longrightarrow>
    lifecycle_read (ma_state (sy_mgmt sy)) tn iss cid tr (sh_world s) = (Inr c, w') \<Longrightarrow>
    shared_step sy s (s\<lparr> sh_world := w', sh_flight :=
      \<lparr> oo_tenant = tn, oo_result = c, oo_value = v, oo_seen = credential_states (sh_db s) (ic_id c) \<rparr> # sh_flight s \<rparr>)"
| finishes: "sh_flight s = before @ op # after \<Longrightarrow>
    lifecycle_finish (ma_state (sy_mgmt sy)) op (sh_world s) = (r, w') \<Longrightarrow>
    shared_step sy s (s\<lparr> sh_world := w', sh_flight := before @ after,
      sh_overtaken := overtaken_by op (sh_db s) \<union> sh_overtaken s \<rparr>)"
| gives_up: "sh_flight s = before @ op # after \<Longrightarrow> shared_step sy s (s\<lparr> sh_flight := before @ after \<rparr>)"
| late_cancel: "cancel_offer_row (ms_pool (ma_state (sy_mgmt sy))) tn iss oid now (sh_world s) = (x, w') \<Longrightarrow>
    shared_step sy s (s\<lparr> sh_world := w' \<rparr>)"
| late_offer: "insert_offer (ms_pool (ma_state (sy_mgmt sy)))
      (credential_offer_new oid now tn iss ctype vct claims code expires_at) (sh_world s) = (y, w') \<Longrightarrow>
    shared_step sy s (s\<lparr> sh_world := w' \<rparr>)"
| late_issue: "in_tx (os_pool st) (oauth_sql st) (oauth_sql st) (credential_tx st ck) (sh_world s) = (z, w') \<Longrightarrow>
    st = sy_oidc sy \<Longrightarrow> shared_step sy s (s\<lparr> sh_world := w' \<rparr>)"

section \<open>What the halves keep\<close>

context wallet_frame begin

lemma late_transactions:
  "preserves (\<lambda>w. P (wdb w)) (in_tx (os_pool st) f g (credential_tx st ck))"
  "preserves (\<lambda>w. P (wdb w)) (lifecycle_finish ms op)"
  unfolding credential_tx_def lifecycle_finish_def lifecycle_write_def Let_def
  by (intro pres in_tx_preserves [where P = P])+

end

lemma finish_keeps_data: "preserves (\<lambda>w. data_inv (wdb w)) (lifecycle_finish ms op)"
  unfolding lifecycle_finish_def lifecycle_write_def Let_def by (intro pres in_tx_preserves [where P = data_inv])

lemma finish_keeps_offers: "preserves (\<lambda>w. offers_from m (wdb w)) (lifecycle_finish ms op)"
  unfolding lifecycle_finish_def lifecycle_write_def Let_def by (intro pres in_tx_preserves [where P = "offers_from m"])

lemma finish_effect:
  assumes "lifecycle_finish ms op w = (r, w')"
  shows "wdb w' = wdb w \<or> (\<exists>bits. wdb w' = lifecycle_db (oo_tenant op) (oo_result op) bits (wdb w))"
  using in_tx_atomic [OF assms [unfolded lifecycle_finish_def]]
proof (elim disjE exE conjE)
  fix v a v' assume v: "wdb v = wdb w"
    "lifecycle_write ms (oo_tenant op) (oo_result op) (oo_value op) v = (Inr (Commit a), v')" "wdb w' = wdb v'"
  then show ?thesis using lifecycle_write_success [OF v(2)] by (elim exE conjE) auto
qed simp

lemma state_of_row:
  assumes "data_inv d" and "c \<in> set (issued_credentials d)"
  shows "credential_states d (ic_id c) = Some (ic_state c)"
proof -
  have "distinct (map ic_id (issued_credentials d))" using assms(1) by (simp add: data_inv_defs)
  then show ?thesis using assms(2) by (simp add: credential_states_def states_def row_by_unique)
qed

lemma read_effect:
  assumes "lifecycle_read ms tn iss cid tr w = (Inr c, w')" and "lifecycle_request tr v" and "data_inv (wdb w)"
  shows "wdb w' = wdb w \<and> (\<exists>s. credential_states (wdb w) (ic_id c) = Some s \<and> ic_trans s (ic_state c))"
proof -
  obtain c0 where c0: "find (\<lambda>r. ic_id r = cid \<and> ic_tenant_id r = tn) (issued_credentials (wdb w)) = Some c0"
    "tr c0 = Inr c" "wdb w' = wdb w" using lifecycle_read_success [OF assms(1)] by blast
  have op: "ic_operation tr" using assms(2) by (auto simp: lifecycle_request_def ic_operation_def)
  have "c0 \<in> set (issued_credentials (wdb w))" using find_SomeD [OF c0(1)] by auto
  then show ?thesis using state_of_row [OF assms(3)] ic_operation_moves [OF op c0(2)] c0(3) by metis
qed


text \<open>The late statements of offers and issuances move the tables as the whole requests do.\<close>

lemma late_steps_keep_sound:
  "preserves (\<lambda>w. sound_since d0 (wdb w)) (cancel_offer_row p tn iss oid now)"
  "preserves (\<lambda>w. sound_since d0 (wdb w)) (insert_offer p (credential_offer_new oid now tn iss ctype vct claims code expires_at))"
  "preserves (\<lambda>w. sound_since d0 (wdb w)) (in_tx (os_pool st) f g (credential_tx st ck))"
proof -
  show "preserves (\<lambda>w. sound_since d0 (wdb w)) (cancel_offer_row p tn iss oid now)"
    "preserves (\<lambda>w. sound_since d0 (wdb w)) (insert_offer p (credential_offer_new oid now tn iss ctype vct claims code expires_at))"
    unfolding sound_since_def by (intro preserves_conj pres credential_offer_new_wf)+
  have "preserves (\<lambda>w. tasks_inv (wdb w) \<and> admin_inv (wdb w) \<and> issuers_from (issuer_states d0) (wdb w) \<and>
      tasks_from (task_states d0) (wdb w) \<and>
      (data_inv (wdb w) \<and> offers_from (offer_states d0) (wdb w) \<and> credentials_from (credential_states d0) (wdb w)))
      (in_tx (os_pool st) f g (credential_tx st ck))"
    by (rule preserves_conj5 issue_tx_moves tasks_wallet.late_transactions admin_wallet.late_transactions
        issuers_wallet.late_transactions tasks_wallet_from.late_transactions)+
  then show "preserves (\<lambda>w. sound_since d0 (wdb w)) (in_tx (os_pool st) f g (credential_tx st ck))"
    by (simp add: sound_since_def)
qed

text \<open>What a late write of a life-cycle request keeps: everything but the life cycle of its credential.\<close>

definition others_since :: "db \<Rightarrow> db \<Rightarrow> bool" where
  "others_since d0 d \<longleftrightarrow> system_inv d \<and> offers_from (offer_states d0) d \<and> issuers_from (issuer_states d0) d \<and>
     tasks_from (task_states d0) d"

lemma others_if_sound: "sound_since d0 d \<Longrightarrow> others_since d0 d"
  by (simp add: sound_since_iff others_since_def moved_from_def)

lemma finish_keeps_others:
  assumes "lifecycle_finish ms op w = (r, w')" and "system_inv (wdb w)"
  shows "others_since (wdb w) (wdb w')"
proof -
  let ?d = "wdb w"
  let ?P = "\<lambda>v :: 'a world. tasks_inv (wdb v) \<and> admin_inv (wdb v) \<and> data_inv (wdb v) \<and>
      offers_from (offer_states ?d) (wdb v) \<and> issuers_from (issuer_states ?d) (wdb v) \<and> tasks_from (task_states ?d) (wdb v)"
  have keeps: "preserves ?P (lifecycle_finish ms op)"
    by (intro preserves_conj finish_keeps_data finish_keeps_offers tasks_wallet.late_transactions admin_wallet.late_transactions
        issuers_wallet.late_transactions tasks_wallet_from.late_transactions)
  have "?P w" using assms(2) by (simp add: system_inv_def from_defs)
  then have "?P w'" by (rule preserves_outcome [OF keeps _ assms(1)])
  then show ?thesis unfolding others_since_def system_inv_def by blast
qed

lemma finish_moves_its_credential:
  assumes "lifecycle_finish ms op w = (r, w')" and "credential_states (wdb w) c = Some s"
  shows "credential_states (wdb w') c = Some s \<or>
    c = ic_id (oo_result op) \<and> credential_states (wdb w') c = Some (ic_state (oo_result op))"
  using finish_effect [OF assms(1)]
proof (elim disjE exE)
  fix bits assume w': "wdb w' = lifecycle_db (oo_tenant op) (oo_result op) bits (wdb w)"
  obtain x where x: "row_by ic_id c (issued_credentials (wdb w)) = Some x" "ic_state x = s"
    using assms(2) by (auto simp: credential_states_def states_def bind_eq_Some_conv)
  then have "ic_id x = c" using row_by_SomeD by fastforce
  then show ?thesis using x
    by (auto simp: w' credential_states_def states_def creds_of_lifecycle_db row_by_update_where_map [of ic_id])
qed (simp add: assms(2))

section \<open>Runs\<close>

text \<open>Every request in flight decided along a transition from the state it saw.\<close>

definition honest_flight :: "'x shared \<Rightarrow> bool" where
  "honest_flight s \<longleftrightarrow> (\<forall>op \<in> set (sh_flight s). \<exists>x. oo_seen op = Some x \<and> ic_trans x (ic_state (oo_result op)))"

text \<open>The credentials that were not overtaken moved along their life cycle.\<close>

definition credentials_track :: "'x shared \<Rightarrow> 'x shared \<Rightarrow> bool" where
  "credentials_track s s' \<longleftrightarrow> (\<forall>c x. credential_states (sh_db s) c = Some x \<longrightarrow>
     (\<exists>y. credential_states (sh_db s') c = Some y \<and> (c \<notin> sh_overtaken s' \<longrightarrow> ic_trans\<^sup>*\<^sup>* x y)))"

lemma sound_step:
  assumes "preserves (\<lambda>w. sound_since (sh_db s) (wdb w)) m" and "m (sh_world s) = (r, w')" and "system_inv (sh_db s)"
  shows "sound_since (sh_db s) (wdb w')"
  using preserves_outcome [OF assms(1) _ assms(2)] assms(3) by (simp add: sound_since_iff)

lemma quiet_step:
  assumes "sound_since (sh_db s) (sh_db s')" and "honest_flight s'" and "sh_overtaken s' = sh_overtaken s"
  shows "honest_flight s' \<and> sh_overtaken s \<subseteq> sh_overtaken s' \<and> others_since (sh_db s) (sh_db s') \<and> credentials_track s s'"
  using assms others_if_sound [OF assms(1)]
  by (auto simp: credentials_track_def sound_since_iff moved_from_def from_defs dest!: tracksD)

text \<open>One step: only the write of a request in flight leaves the credentials' life cycle.\<close>

lemma shared_step_effect:
  assumes "shared_step sy s s'" and "system_inv (sh_db s)" and "honest_flight s"
  shows "honest_flight s' \<and> sh_overtaken s \<subseteq> sh_overtaken s' \<and> others_since (sh_db s) (sh_db s') \<and> credentials_track s s'"
  using assms
proof (induction rule: shared_step.induct)
  case (whole s w')
  have "sound_since (sh_db s) (wdb w')"
    by (rule sound.step_keeps [OF whole(1)]) (use whole(2) in \<open>simp add: sound_since_iff\<close>)
  then show ?case using whole by (intro quiet_step) (simp_all add: honest_flight_def)
next
  case (begins tr v tn iss cid s c w')
  have "data_inv (sh_db s)" using begins(3) by (simp add: system_inv_def)
  then show ?case using read_effect [OF begins(2,1)] begins(3,4)
    by (intro quiet_step) (auto simp: honest_flight_def sound_since_iff)
next
  case (finishes s before op after r w')
  obtain y where seen: "oo_seen op = Some y" "ic_trans y (ic_state (oo_result op))"
    using finishes(1,4) by (auto simp: honest_flight_def)
  have "ic_trans\<^sup>*\<^sup>* x z" if "credential_states (sh_db s) c = Some x" "credential_states (wdb w') c = Some z"
    "c \<notin> overtaken_by op (sh_db s)" for c x z
    using finish_moves_its_credential [OF finishes(2) that(1)] that seen by (auto simp: overtaken_by_def Let_def split: if_splits)
  moreover have "\<exists>z. credential_states (wdb w') c = Some z" if "credential_states (sh_db s) c = Some x" for c x
    using finish_moves_its_credential [OF finishes(2) that] by blast
  ultimately have "credentials_track s (s\<lparr> sh_world := w', sh_flight := before @ after,
      sh_overtaken := overtaken_by op (sh_db s) \<union> sh_overtaken s \<rparr>)"
    by (fastforce simp: credentials_track_def)
  then show ?case using finish_keeps_others [OF finishes(2,3)] finishes(1,4) by (auto simp: honest_flight_def)
next
  case (gives_up s before op after)
  then show ?case by (intro quiet_step) (auto simp: honest_flight_def sound_since_iff)
next
  case (late_cancel tn iss oid now s x w')
  then show ?case using sound_step [OF late_steps_keep_sound(1) late_cancel(1,2)]
    by (intro quiet_step) (simp_all add: honest_flight_def)
next
  case (late_offer oid now tn iss ctype vct claims code expires_at s y w')
  then show ?case using sound_step [OF late_steps_keep_sound(2) late_offer(1,2)]
    by (intro quiet_step) (simp_all add: honest_flight_def)
next
  case (late_issue st ck s z w')
  then show ?case using sound_step [OF late_steps_keep_sound(3) late_issue(1,3)]
    by (intro quiet_step) (simp_all add: honest_flight_def)
qed

lemma others_trans: "others_since d0 d1 \<Longrightarrow> others_since d1 d2 \<Longrightarrow> others_since d0 d2"
  unfolding others_since_def from_defs by (elim conjE, intro conjI; (assumption | erule (1) tracks_trans))

lemma credentials_track_trans:
  assumes "credentials_track s s1" and "credentials_track s1 s2" and "sh_overtaken s1 \<subseteq> sh_overtaken s2"
  shows "credentials_track s s2"
  unfolding credentials_track_def
proof (intro allI impI)
  fix c x assume "credential_states (sh_db s) c = Some x"
  then obtain y where y: "credential_states (sh_db s1) c = Some y" "c \<notin> sh_overtaken s1 \<Longrightarrow> ic_trans\<^sup>*\<^sup>* x y"
    using assms(1) unfolding credentials_track_def by blast
  then obtain z where z: "credential_states (sh_db s2) c = Some z" "c \<notin> sh_overtaken s2 \<Longrightarrow> ic_trans\<^sup>*\<^sup>* y z"
    using assms(2) unfolding credentials_track_def by blast
  have "ic_trans\<^sup>*\<^sup>* x z" if "c \<notin> sh_overtaken s2" using y(2) z(2) that assms(3) rtranclp_trans [of ic_trans] by blast
  then show "\<exists>z. credential_states (sh_db s2) c = Some z \<and> (c \<notin> sh_overtaken s2 \<longrightarrow> ic_trans\<^sup>*\<^sup>* x z)" using z(1) by blast
qed

lemma shared_run_effect:
  assumes "(shared_step sy)\<^sup>*\<^sup>* s s'" and "system_inv (sh_db s)" and "honest_flight s"
  shows "honest_flight s' \<and> others_since (sh_db s) (sh_db s') \<and> credentials_track s s'"
  using assms(1)
proof (induction rule: rtranclp_induct)
  case base
  then show ?case using assms(2,3) by (auto simp: others_since_def from_defs credentials_track_def)
next
  case (step s1 s2)
  have "system_inv (sh_db s1)" using step.IH by (simp add: others_since_def)
  from shared_step_effect [OF step.hyps(2) this] step.IH
  show ?case using others_trans credentials_track_trans by blast
qed

section \<open>Revocation\<close>

text \<open>No request in flight will bring the credential back.\<close>

definition stays_revoked :: "credential_id \<Rightarrow> 'x shared \<Rightarrow> bool" where
  "stays_revoked c s \<longleftrightarrow> credential_states (sh_db s) c = Some Revoked \<and>
     (\<forall>op \<in> set (sh_flight s). ic_id (oo_result op) = c \<longrightarrow> ic_state (oo_result op) = Revoked)"

lemma sound_keeps_revoked:
  assumes "sound_since d0 d" and "credential_states d0 c = Some Revoked"
  shows "credential_states d c = Some Revoked"
proof -
  have "tracks ic_trans (credential_states d0) (credential_states d)"
    using assms(1) by (simp add: sound_since_iff moved_from_def from_defs)
  from tracksD [OF this assms(2)] show ?thesis using ic_life.terminal_stable by fastforce
qed

lemma shared_step_stays_revoked:
  assumes "shared_step sy s s'" and "system_inv (sh_db s)" and "stays_revoked c s"
  shows "stays_revoked c s'"
  using assms
proof (induction rule: shared_step.induct)
  case (whole s w')
  have "sound_since (sh_db s) (wdb w')"
    by (rule sound.step_keeps [OF whole(1)]) (use whole(2) in \<open>simp add: sound_since_iff\<close>)
  then show ?case using whole(3) sound_keeps_revoked by (auto simp: stays_revoked_def)
next
  case (begins tr v tn iss cid s c' w')
  have "data_inv (sh_db s)" using begins(3) by (simp add: system_inv_def)
  then show ?case using read_effect [OF begins(2,1)] begins(4) ic_life.terminal_final [of Revoked "ic_state c'"]
    by (auto simp: stays_revoked_def)
next
  case (finishes s before op after r w')
  then show ?case using finish_moves_its_credential [OF finishes(2), of c Revoked]
    by (auto simp: stays_revoked_def)
next
  case (gives_up s before op after)
  then show ?case by (auto simp: stays_revoked_def)
next
  case (late_cancel tn iss oid now s x w')
  then show ?case using sound_keeps_revoked [OF sound_step [OF late_steps_keep_sound(1) late_cancel(1,2)]]
    by (auto simp: stays_revoked_def)
next
  case (late_offer oid now tn iss ctype vct claims code expires_at s y w')
  then show ?case using sound_keeps_revoked [OF sound_step [OF late_steps_keep_sound(2) late_offer(1,2)]]
    by (auto simp: stays_revoked_def)
next
  case (late_issue st ck s z w')
  then show ?case using sound_keeps_revoked [OF sound_step [OF late_steps_keep_sound(3) late_issue(1,3)]]
    by (auto simp: stays_revoked_def)
qed

lemma shared_run_stays_revoked:
  assumes "(shared_step sy)\<^sup>*\<^sup>* s s'" and "system_inv (sh_db s)" and "honest_flight s" and "stays_revoked c s"
  shows "stays_revoked c s'"
  using assms(1)
proof (induction rule: rtranclp_induct)
  case (step s1 s2)
  have "system_inv (sh_db s1)" using shared_run_effect [OF step.hyps(1) assms(2,3)] by (simp add: others_since_def)
  then show ?case using shared_step_stays_revoked [OF step.hyps(2)] step.IH by blast
qed (rule assms(4))

end
