(* ===== verification/Progress.thy ===== *)
theory Progress
  imports WorkerProps IssuerProps
begin

text \<open>
  Progress with a working database: a runnable task is claimed, and the last
  step of a deactivation brings the task and the issuer to their final states.
  The rules derive that a computation returns, with its value and the tables
  it leaves, whatever the outside state is.
\<close>

section \<open>Computations that return\<close>

definition yields :: "('x world, 'e, 'a) eff \<Rightarrow> 'x world \<Rightarrow> 'a \<Rightarrow> db \<Rightarrow> bool" where
  "yields m w a d \<longleftrightarrow> (\<exists>w'. m w = (Inr a, w') \<and> wdb w' = d)"

lemma yieldsE: "yields m w a d \<Longrightarrow> (\<And>w'. m w = (Inr a, w') \<Longrightarrow> wdb w' = d \<Longrightarrow> thesis) \<Longrightarrow> thesis"
  by (auto simp: yields_def)

lemma yields_ret [simp]: "yields (ret a) w b d \<longleftrightarrow> a = b \<and> wdb w = d"
  by (auto simp: yields_def)

lemma yields_bind:
  assumes "yields m w a d" and "\<And>w'. wdb w' = d \<Longrightarrow> yields (f a) w' b d'"
  shows "yields (bindE m f) w b d'"
  using assms by (auto simp: yields_def bindE_run)

lemma yields_bind_ex:
  assumes "yields m w a d" and "\<And>w'. wdb w' = d \<Longrightarrow> \<exists>d'. yields (f a) w' b d' \<and> Q d'"
  shows "\<exists>d'. yields (bindE m f) w b d' \<and> Q d'"
  using assms by (auto simp: yields_def bindE_run)

lemma yields_mapErr: "yields m w a d \<Longrightarrow> yields (mapErr f m) w a d"
  by (auto simp: yields_def mapErr_run)

lemma yields_reify: "yields m w a d \<Longrightarrow> yields (reify m) w (Inr a) d"
  by (auto simp: yields_def reify_run)

lemma yields_pure [simp]:
  "yields (bindE (liftR (mapErrR h (Inr a))) f) w b d = yields (f a) w b d"
  "yields (bindE (okOr e (Some a)) f) w b d = yields (f a) w b d"
  by (simp_all add: yields_def bindE_run okOr_def)

lemma yields_stmt: "pool_up p \<Longrightarrow> q (wdb w) = Inr (a, d) \<Longrightarrow> yields (run_stmt p q) w a d"
  by (simp add: yields_def pool_up_run_stmt)

lemma yields_query: "pool_up p \<Longrightarrow> q (wext w) (wdb w) = Inr a \<Longrightarrow> yields (run_query p q) w a (wdb w)"
  by (simp add: yields_def run_query_def pool_up_run_stmt)

lemma yields_acquire: "pool_up p \<Longrightarrow> yields (acquire p) w () (wdb w)"
  unfolding acquire_def by (rule yields_stmt) simp_all

lemma yields_update:
  "pool_up p \<Longrightarrow> t \<in> set (sel (wdb w)) \<Longrightarrow> Q t \<Longrightarrow>
   yields (update_one p upd sel Q f) w () (upd (update_where Q f) (wdb w))"
  by (simp add: yields_def update_one_run [where t = t])

lemma yields_commit:
  assumes "pool_up p" and "\<And>w'. wdb w' = wdb w \<Longrightarrow> yields body w' (Commit a) d"
  shows "yields (in_tx p f g body) w a d"
proof -
  obtain w1 where w1: "acquire p w = (Inr (), w1)" "wdb w1 = wdb w"
    using yieldsE [OF yields_acquire [OF assms(1)]] by metis
  obtain w2 where w2: "body w1 = (Inr (Commit a), w2)" "wdb w2 = d" using yieldsE [OF assms(2) [OF w1(2)]] by metis
  obtain x where "sql_io p (wext w2) = (NoFault, x)" using assms(1) by (metis pool_up_def prod.collapse)
  then show ?thesis using w1 w2 by (simp add: yields_def in_tx_def)
qed

lemma yields_clock:
  "(\<And>w'. wdb w' = wdb w \<Longrightarrow> yields (f (fst (host_clock h (wext w)))) w' b d) \<Longrightarrow> yields (bindE (utc_now h) f) w b d"
  by (simp add: yields_def bindE_run)

section \<open>Claiming\<close>

lemma min_row_exists: "u \<in> set rs \<Longrightarrow> \<exists>t. min_row le rs = Some t \<and> t \<in> set rs"
proof (cases "min_row le rs")
  case None
  assume "u \<in> set rs"
  then show ?thesis using None by simp
next
  case (Some t)
  then show ?thesis using min_row_in_set [OF Some] by blast
qed

lemma find_next_yields:
  assumes "pool_up p" and "u \<in> set (operation_tasks (wdb w))" and "task_runnable now u"
    and "\<not> row_locked p (wext w) (task_bare (ot_id u))"
    and "\<forall>t \<in> set (operation_tasks (wdb w)). 0 \<le> sint (ot_attempts t)"
  shows "\<exists>t \<in> set (operation_tasks (wdb w)). task_runnable now t \<and>
     yields (find_next_acquirable_for_update p now) w (Some t) (wdb w)"
proof -
  let ?rs = "filter (\<lambda>t. task_runnable now t \<and> \<not> row_locked p (wext w) (task_bare (ot_id t))) (operation_tasks (wdb w))"
  have "u \<in> set ?rs" using assms(2,3,4) by simp
  then obtain t where t: "min_row task_before ?rs = Some t" "t \<in> set ?rs" using min_row_exists [of u ?rs task_before] by blast
  then have "decode_opt_task (min_row task_before ?rs) = Inr (Some t)" using assms(5) by (simp add: decode_opt_task_Inr)
  then have "yields (find_next_acquirable_for_update p now) w (Some t) (wdb w)"
    unfolding find_next_acquirable_for_update_def by (intro yields_mapErr yields_query assms(1))
  then show ?thesis using t by auto
qed

lemma claim_yields:
  assumes "pool_up p" and "u \<in> set (operation_tasks (wdb w))" and "task_runnable now u"
    and "\<not> row_locked p (wext w) (task_bare (ot_id u))"
    and "\<forall>t \<in> set (operation_tasks (wdb w)). 0 \<le> sint (ot_attempts t)"
  shows "\<exists>t d. yields (claim_body p now) w (Commit (Some t)) d"
proof -
  obtain t0 where t0: "t0 \<in> set (operation_tasks (wdb w))" "task_runnable now t0"
    "yields (find_next_acquirable_for_update p now) w (Some t0) (wdb w)"
    using find_next_yields [OF assms] by blast
  obtain t where t: "try_acquire now t0 = Inr t" using t0(2) by (auto simp: task_runnable_def try_acquire_def)
  have "yields (bindE (set_acquired p t) (\<lambda>_. ret (Commit (Some t)))) w' (Commit (Some t))
      (operation_tasks_update (update_where (\<lambda>r. ot_id r = ot_id t) (\<lambda>r. r\<lparr> ot_state := ot_state t,
         ot_attempts := ot_attempts t, ot_updated_at := ot_updated_at t \<rparr>)) (wdb w))" if w': "wdb w' = wdb w" for w'
    unfolding set_acquired_def
  proof (rule yields_bind [OF yields_update [OF assms(1), where t = t0]])
    show "t0 \<in> set (operation_tasks (wdb w'))" "ot_id t0 = ot_id t" using t0 t w' try_acquire_same by auto
  qed (simp add: w')
  then show ?thesis
    unfolding claim_body_def by (intro exI yields_bind [OF t0(3)]) (simp add: t)
qed

lemma acquire_next_yields:
  assumes "pool_up (wk_pool wk)" and "u \<in> set (operation_tasks (wdb w))"
    and "task_runnable (fst (host_clock (wk_host wk) (wext w))) u"
    and "\<not> row_locked (wk_pool wk) (snd (sql_io (wk_pool wk) (snd (host_clock (wk_host wk) (wext w))))) (task_bare (ot_id u))"
    and "\<forall>t \<in> set (operation_tasks (wdb w)). 0 \<le> sint (ot_attempts t)"
  shows "\<exists>t w'. acquire_next wk w = (Inr (Some t), w')"
proof -
  let ?p = "wk_pool wk"
  define now where "now = fst (host_clock (wk_host wk) (wext w))"
  define w0 where "w0 = w\<lparr> wext := snd (host_clock (wk_host wk) (wext w)) \<rparr>"
  define w1 where "w1 = w0\<lparr> wext := snd (sql_io ?p (wext w0)) \<rparr>"
  have begin': "acquire ?p w0 = (Inr (), w1)" by (simp add: acquire_def pool_up_run_stmt [OF assms(1)] w1_def)
  obtain t d where "yields (claim_body ?p now) w1 (Commit (Some t)) d"
    using claim_yields [OF assms(1), of u w1 now] assms by (auto simp: w1_def w0_def now_def)
  then obtain w2 where w2: "claim_body ?p now w1 = (Inr (Commit (Some t)), w2)" by (auto simp: yields_def)
  obtain x where "sql_io ?p (wext w2) = (NoFault, x)" using assms(1) by (metis pool_up_def prod.collapse)
  then have "acquire_next wk w = (Inr (Some t), w2\<lparr> wext := x \<rparr>)"
    using begin' w2 by (simp add: acquire_next_def bindE_run now_def w0_def in_tx_def)
  then show ?thesis by blast
qed

text \<open>C4. With a working database, a poll that finds a runnable task no one has locked dispatches a task: it is
  neither idle nor stuck in the claim.\<close>

theorem runnable_task_is_dispatched:
  assumes "pool_up (wk_pool wk)" and "u \<in> set (operation_tasks (wdb w))"
    and "task_runnable (fst (host_clock (wk_host wk) (wext w))) u"
    and "\<not> row_locked (wk_pool wk) (snd (sql_io (wk_pool wk) (snd (host_clock (wk_host wk) (wext w))))) (task_bare (ot_id u))"
    and "\<forall>t \<in> set (operation_tasks (wdb w)). 0 \<le> sint (ot_attempts t)"
  shows "\<exists>t w1. acquire_next wk w = (Inr (Some t), w1) \<and>
     (\<exists>w'. (\<exists>x. poll wk w = (Inr (Dispatched x), w')) \<or> (\<exists>m. poll wk w = (Inl m, w')))"
proof -
  obtain t w1 where a: "acquire_next wk w = (Inr (Some t), w1)" using acquire_next_yields [OF assms] by blast
  obtain x w2 where "execute_task wk t w1 = (x, w2)" by fastforce
  then have "(\<exists>x'. poll wk w = (Inr (Dispatched x'), w2)) \<or> (\<exists>m. poll wk w = (Inl m, w2))"
    using a by (cases x) (auto simp: poll_def bindE_run reify_run split: worker_error.splits)
  then show ?thesis using a by blast
qed

theorem runnable_task_is_dispatched_witness:
  "\<exists>t w1. acquire_next fx_worker fx_world = (Inr (Some t), w1)"
proof -
  have "fx_task \<in> set (operation_tasks (wdb fx_world))" "task_runnable (fst (host_clock (wk_host fx_worker) (wext fx_world))) fx_task"
    "\<forall>t \<in> set (operation_tasks (wdb fx_world)). 0 \<le> sint (ot_attempts t)"
    by (simp_all add: fx_world_def fx_db_def fx_task_def task_runnable_def)
  moreover have "pool_up (wk_pool fx_worker)" "\<not> row_locked (wk_pool fx_worker) x k" for x k
    by (simp_all add: fx_worker_def) (simp add: fx_pool_def)
  ultimately show ?thesis using runnable_task_is_dispatched [of fx_worker fx_task fx_world] by blast
qed

section \<open>The last step of a deactivation\<close>

lemma set_issuer_state_yields:
  assumes "pool_up p" and "find (issuer_of_tenant tn iss) (issuers (wdb w)) \<noteq> None"
  shows "yields (set_issuer_state p tn iss s) w ()
    (issuers_update (update_where (issuer_of_tenant tn iss) (update_issuer (\<lambda>i. i\<lparr> iss_state := Some s \<rparr>))) (wdb w))"
  using assms by (simp add: yields_def set_issuer_state_def bindE_run mapErr_run pool_up_run_stmt update_stmt_def
      guardE_def rows_matching_0)

lemma cancel_all_yields:
  assumes "pool_up p"
  shows "\<exists>n. yields (cancel_all_pending_for_issuer p tn iss now) w n (credential_offers_update
     (update_where (\<lambda>off. co_tenant_id off = tn \<and> co_issuer_id off = iss \<and> co_state off = OfferPending)
       (\<lambda>off. off\<lparr> co_state := Cancelled, co_cancelled_at := Some now, co_pre_auth_code := None \<rparr>)) (wdb w))"
  using assms by (simp add: yields_def cancel_all_pending_for_issuer_def mapErr_run pool_up_run_stmt update_stmt_def)

lemma mark_body_yields:
  assumes "pool_up p" and "find (issuer_of_tenant tn iss) (issuers (wdb w)) = Some row" and "iss_state (ir_issuer row) \<noteq> None"
  shows "yields (mark_deactivated_body p tn iss now) w (Commit (Done step_result_default)) (deactivated_db tn iss now (wdb w))"
proof -
  obtain s where s: "iss_state (ir_issuer row) = Some s" using assms(3) by blast
  have "\<exists>x. try_deactivate (ir_issuer row) = Inr x" by (cases s) (simp_all add: s try_deactivate_def)
  then obtain x where x: "try_deactivate (ir_issuer row) = Inr x" by blast
  have find': "yields (find_issuer_by_id_for_update_for_tenant p tn iss) w (Some (ir_issuer row)) (wdb w)"
    unfolding find_issuer_by_id_for_update_for_tenant_def
    by (intro yields_mapErr yields_query assms(1)) (simp add: assms(2))
  let ?d1 = "issuers_update (update_where (issuer_of_tenant tn iss) (update_issuer (\<lambda>i. i\<lparr> iss_state := Some Deactivated \<rparr>))) (wdb w)"
  have rest: "yields (bindE (mapErr h (cancel_all_pending_for_issuer p tn iss now))
      (\<lambda>_. ret (Commit (Done step_result_default)))) w1 (Commit (Done step_result_default)) (deactivated_db tn iss now (wdb w))"
    if w1: "wdb w1 = ?d1" for w1 h
  proof -
    have "credential_offers_update (update_where (\<lambda>off. co_tenant_id off = tn \<and> co_issuer_id off = iss \<and> co_state off = OfferPending)
        (\<lambda>off. off\<lparr> co_state := Cancelled, co_cancelled_at := Some now, co_pre_auth_code := None \<rparr>)) ?d1 = deactivated_db tn iss now (wdb w)"
      by (cases "wdb w") (simp add: deactivated_db_def update_where_def update_issuer_def)
    then obtain n where "yields (cancel_all_pending_for_issuer p tn iss now) w1 n (deactivated_db tn iss now (wdb w))"
      using cancel_all_yields [OF assms(1), of tn iss now w1] w1 by auto
    then show ?thesis by (auto intro!: yields_bind [OF yields_mapErr])
  qed
  show ?thesis
    unfolding mark_deactivated_body_def
    using assms x
    by (auto intro!: yields_bind [OF yields_mapErr [OF find']] yields_bind [OF yields_mapErr [OF set_issuer_state_yields]] rest)
qed

lemma mark_yields:
  assumes "pool_up p" and "find (issuer_of_tenant tn iss) (issuers (wdb w)) = Some row" and "iss_state (ir_issuer row) \<noteq> None"
  shows "yields (execute_mark_deactivated p tn iss now) w (Done step_result_default) (deactivated_db tn iss now (wdb w))"
proof -
  have "yields (mark_deactivated_tx p tn iss now) w (Done step_result_default) (deactivated_db tn iss now (wdb w))"
    unfolding mark_deactivated_tx_def
    by (rule yields_commit [OF assms(1)]) (metis assms mark_body_yields)
  then show ?thesis
    unfolding execute_mark_deactivated_def by (intro yields_bind [OF yields_reify]) simp_all
qed

lemma finish_yields:
  assumes "pool_up (wk_pool wk)" and "task_row (ot_id t) (wdb w) = Some r" and "ot_state t = InProgress"
  shows "\<exists>d. yields (finish_step wk t (Done res) None) w () d \<and>
    (\<exists>r'. task_row (ot_id t) d = Some r' \<and> ot_state r' = Completed) \<and>
    issuers d = issuers (wdb w) \<and> credential_offers d = credential_offers (wdb w)"
proof -
  define now where "now = fst (host_clock (wk_host wk) (wext w))"
  obtain t' where t': "try_complete now t = Inr t'" "ot_state t' = Completed" "ot_id t' = ot_id t"
    using assms(3) by (simp add: try_complete_def)
  define f where "f = (\<lambda>r :: operation_task. r\<lparr> ot_state := ot_state t', ot_next_attempt_at := ot_next_attempt_at t',
             ot_error_code := ot_error_code t', ot_error_message := ot_error_message t',
             ot_result_issuer_id := ot_result_issuer_id t', ot_updated_at := ot_updated_at t',
             ot_completed_at := ot_completed_at t' \<rparr>)"
  let ?d = "operation_tasks_update (update_where (\<lambda>r. ot_id r = ot_id t') f) (wdb w)"
  have r: "r \<in> set (operation_tasks (wdb w))" "ot_id r = ot_id t" using row_by_SomeD [OF assms(2)] by auto
  have "yields (set_terminal_state (wk_pool wk) t') w1 () ?d" if "wdb w1 = wdb w" for w1
    using yields_update [OF assms(1), of r operation_tasks w1] r t'(3) that
    unfolding set_terminal_state_def f_def by simp
  then have "yields (finish_step wk t (Done res) None) w () ?d"
    unfolding finish_step_def Let_def using t'(1) [unfolded now_def]
    by (intro yields_clock yields_bind [OF yields_mapErr [OF yields_acquire [OF assms(1)]]])
       (auto intro!: yields_mapErr)
  moreover have "task_row (ot_id t) ?d = Some (f r)"
    using assms(2) r t'(3) by (simp add: row_by_update_where_map [of ot_id f] f_def)
  moreover have "ot_state (f r) = Completed" by (simp add: f_def t')
  ultimately show ?thesis by (intro exI [of _ ?d]) simp
qed

text \<open>C5. With a working database, the last step of a deactivation goes through: the task that carries it is
  completed, the issuer is deactivated and its pending offers are cancelled.\<close>

theorem last_deactivation_step_completes:
  assumes "pool_up (wk_pool wk)" and "task_row (ot_id t) (wdb w) = Some r" and "ot_state t = InProgress"
    and "ot_task_type t = DeactivateIssuer" and "ot_step t = Some ''mark_deactivated''"
    and "deactivate_issuer_input_decode (ot_input t) = Inr ()" and "deactivate_issuer_state_decode (ot_state_data t) = Inr st"
    and "ot_result_issuer_id t = Some iss" and "row_by tn_id (ot_tenant_id t) (tenants (wdb w)) = Some tenant"
    and "find (issuer_of_tenant (ot_tenant_id t) iss) (issuers (wdb w)) = Some row" and "iss_state (ir_issuer row) \<noteq> None"
  shows "\<exists>w'. execute_task wk t w = (Inr (), w') \<and>
    (\<exists>r'. task_row (ot_id t) (wdb w') = Some r' \<and> ot_state r' = Completed) \<and>
    issuers (wdb w') = issuers (deactivated_db (ot_tenant_id t) iss (ot_created_at t) (wdb w)) \<and>
    credential_offers (wdb w') = credential_offers (deactivated_db (ot_tenant_id t) iss (ot_created_at t) (wdb w))"
proof -
  let ?p = "wk_pool wk" and ?tn = "ot_tenant_id t" and ?now = "ot_created_at t"
  let ?d = "deactivated_db ?tn iss ?now (wdb w)"
  have row': "task_row (ot_id t) ?d = Some r" using assms(2) by (simp add: deactivated_db_def)
  have tenant': "yields (load_tenant wk t) w1 tenant (wdb w)" if "wdb w1 = wdb w" for w1
    unfolding load_tenant_def find_tenant_by_id_def
    using assms(1,9) that
    by (auto intro!: yields_bind [OF yields_mapErr [OF yields_acquire]] yields_bind [OF yields_mapErr [OF yields_mapErr [OF yields_query]]])
  have issuer': "yields (load_issuer wk t iss) w1 (ir_issuer row) (wdb w)" if "wdb w1 = wdb w" for w1
    unfolding load_issuer_def find_issuer_by_id_for_tenant_def
    using assms(1,10) that
    by (auto intro!: yields_bind [OF yields_mapErr [OF yields_mapErr [OF yields_query]]])
  let ?Q = "\<lambda>d. (\<exists>r'. task_row (ot_id t) d = Some r' \<and> ot_state r' = Completed) \<and>
    issuers d = issuers ?d \<and> credential_offers d = credential_offers ?d"
  have last: "\<exists>d. yields (finish_step wk t (Done step_result_default) None) w1 () d \<and> ?Q d" if "wdb w1 = ?d" for w1
    using finish_yields [OF assms(1), of t w1 r] row' assms(3) that by simp
  have step: "yields (deactivate_issuer_step wk t tenant (ir_issuer row) iss st ''mark_deactivated'') w1
      (Done step_result_default, None) ?d" if "wdb w1 = wdb w" for w1
    using mark_yields [OF assms(1), of ?tn iss w1 row ?now] assms(10,11) that
    unfolding deactivate_issuer_step_def by (auto intro!: yields_bind [OF yields_mapErr])
  have "\<exists>d. yields (execute_deactivate_issuer wk t) w () d \<and> ?Q d"
    unfolding execute_deactivate_issuer_def assms(5,6,7,8) option.case
    by (simp, rule yields_bind_ex [OF tenant'], simp, rule yields_bind_ex [OF issuer'], simp,
        rule yields_bind_ex [OF step], simp) (simp add: last)
  then show ?thesis using assms(4) by (auto simp: yields_def execute_task_def)
qed

theorem last_deactivation_step_completes_witness:
  "\<exists>w'. execute_task fx_worker (fx_task\<lparr> ot_task_type := DeactivateIssuer, ot_state := InProgress,
       ot_step := Some ''mark_deactivated'', ot_input := JObj [], ot_state_data := JObj [],
       ot_result_issuer_id := Some (IssuerId (fx_bare 2)) \<rparr>) fx_world = (Inr (), w') \<and>
     issuers (wdb w') = [\<lparr> ir_issuer = fx_issuer\<lparr> iss_state := Some Deactivated \<rparr>,
       ir_current_status_list_id = Some (StatusListId (fx_bare 4)) \<rparr>]"
proof -
  let ?t = "fx_task\<lparr> ot_task_type := DeactivateIssuer, ot_state := InProgress, ot_step := Some ''mark_deactivated'',
    ot_input := JObj [], ot_state_data := JObj [], ot_result_issuer_id := Some (IssuerId (fx_bare 2)) \<rparr>"
  let ?row = "\<lparr> ir_issuer = fx_issuer, ir_current_status_list_id = Some (StatusListId (fx_bare 4)) \<rparr>"
  have "pool_up (wk_pool fx_worker)" by (simp add: fx_worker_def)
  moreover have "task_row (ot_id ?t) (wdb fx_world) = Some fx_task" "row_by tn_id (ot_tenant_id ?t) (tenants (wdb fx_world)) = Some fx_tenant"
    "find (issuer_of_tenant (ot_tenant_id ?t) (IssuerId (fx_bare 2))) (issuers (wdb fx_world)) = Some ?row"
    by (simp_all add: fx_world_def fx_db_def row_by_def fx_task_def fx_tenant_def fx_issuer_def issuer_of_tenant_def issuer_key_def)
  moreover have "deactivate_issuer_input_decode (JObj []) = Inr ()"
    "\<exists>st. deactivate_issuer_state_decode (JObj []) = Inr st" "iss_state fx_issuer \<noteq> None"
    by (simp_all add: deactivate_issuer_input_decode_def deactivate_issuer_state_decode_def bool_member_def fx_issuer_def)
  ultimately obtain w' where "execute_task fx_worker ?t fx_world = (Inr (), w')"
    "issuers (wdb w') = issuers (deactivated_db (ot_tenant_id ?t) (IssuerId (fx_bare 2)) (ot_created_at ?t) (wdb fx_world))"
    using last_deactivation_step_completes [of fx_worker ?t fx_world fx_task _ "IssuerId (fx_bare 2)" fx_tenant ?row] by auto
  then show ?thesis
    by (auto simp: deactivated_db_def fx_world_def fx_db_def issuer_of_tenant_def issuer_key_def fx_issuer_def fx_task_def)
qed

end
