(* ===== verification/OAuth2Props.thy ===== *)
theory OAuth2Props
  imports OAuth2 Integrity Fixtures
begin

text \<open>
  What the token providers guarantee: a successful refresh stores the rotated token and the
  next one presents it, a failed refresh keeps the row, tenants do not affect each other,
  and a stored secret opens only for the tenant and the column it was written for.
\<close>

section \<open>A successful refresh\<close>

definition grant_answers :: "'x oauth2_provider \<Rightarrow> validated_creds \<Rightarrow> 'x \<Rightarrow> grant_response \<Rightarrow> bool" where
  "grant_answers pv v x resp \<longleftrightarrow> (\<exists>hr body x'. sv_post (op_env pv) (op_token_url pv) [] (FormBody (grant_params v)) x = (Inr hr, x') \<and>
     status_is_success (hr_status hr) \<and> hr_text hr = Inr body \<and> parse_token_response pv body = Inr resp)"

text \<open>Rust strings, and so the strings of a parsed reply, are UTF-8.\<close>

definition replies_are_utf8 :: "'x oauth2_provider \<Rightarrow> bool" where
  "replies_are_utf8 pv \<longleftrightarrow> (\<forall>body resp. parse_token_response pv body = Inr resp \<longrightarrow> utf8_valid (str_bytes (gr_refresh_token resp)))"

lemma do_refresh_grant_success:
  assumes "do_refresh_grant pv v w = (Inr resp, w')"
  shows "grant_answers pv v (wext w) resp"
  using assms unfolding do_refresh_grant_def grant_answers_def ext_def
  by (auto simp: eff_success res_success raise_def Let_def split: if_splits prod.splits)

definition stored_credentials :: "'x oauth2_provider \<Rightarrow> tenant \<Rightarrow> validated_creds \<Rightarrow> bool" where
  "stored_credentials pv t v \<longleftrightarrow> tn_oauth_client_id t = Some (vc_client_id v) \<and>
     (\<exists>w. fst (decrypt_column (op_env pv) (op_engine pv) (oauth2_client_secret_key_name (op_tenant_id pv))
        (tn_oauth_client_secret t) ''oauth_client_secret'' w) = Inr (Some (vc_client_secret v))) \<and>
     (\<exists>w. fst (decrypt_column (op_env pv) (op_engine pv) (oauth2_refresh_token_key_name (op_tenant_id pv))
        (tn_oauth_refresh_token t) ''oauth_refresh_token'' w) = Inr (Some (vc_refresh_token v)))"

lemma read_oauth_success:
  assumes "read_oauth_credentials_for_update p sv eng tenant w = (Inr (Some row), w')"
  shows "\<exists>t w1 w2. row_by tn_id tenant (tenants (wdb w)) = Some t \<and> oc_client_id row = tn_oauth_client_id t \<and>
    fst (decrypt_column sv eng (oauth2_client_secret_key_name tenant) (tn_oauth_client_secret t) ''oauth_client_secret'' w1) = Inr (oc_client_secret row) \<and>
    fst (decrypt_column sv eng (oauth2_refresh_token_key_name tenant) (tn_oauth_refresh_token t) ''oauth_refresh_token'' w2) = Inr (oc_refresh_token row)"
proof -
  obtain r w0 where q: "run_query p (\<lambda>_ d. Inr (row_by tn_id tenant (tenants d))) w = (Inr r, w0)" and r: "r \<noteq> None"
    using assms by (auto simp: read_oauth_credentials_for_update_def find_tenant_by_id_def eff_success split: option.splits)
  then obtain t where t: "r = Some t" "row_by tn_id tenant (tenants (wdb w)) = Some t" using run_query_success [OF q] by auto
  obtain secret w1 refresh w2 where
    "decrypt_column sv eng (oauth2_client_secret_key_name tenant) (tn_oauth_client_secret t) ''oauth_client_secret'' w0 = (Inr secret, w1)"
    "decrypt_column sv eng (oauth2_refresh_token_key_name tenant) (tn_oauth_refresh_token t) ''oauth_refresh_token'' w1 = (Inr refresh, w2)"
    "row = \<lparr> oc_client_id = tn_oauth_client_id t, oc_client_secret = secret, oc_refresh_token = refresh \<rparr>"
    using assms q t by (auto simp: read_oauth_credentials_for_update_def find_tenant_by_id_def bindE_run mapErr_run ret_def split: sum.splits prod.splits)
  then show ?thesis using t(2) by (metis fst_conv tenant_oauth_creds.select_convs)
qed

lemma validated_success:
  "validated_from_row row tenant = Inr v \<Longrightarrow>
     oc_client_id row = Some (vc_client_id v) \<and> oc_client_secret row = Some (vc_client_secret v) \<and> oc_refresh_token row = Some (vc_refresh_token v)"
  by (auto simp: validated_from_row_def res_success)

lemma write_refresh_success:
  assumes "write_oauth_refresh_token p sv eng tenant tok w = (Inr u, w')"
  shows "\<exists>ct w1. secret_encrypt sv eng (oauth2_refresh_token_key_name tenant) (str_bytes tok) w = (Inr ct, w1) \<and>
    wdb w' = tenants_update (update_where (\<lambda>t. tn_id t = tenant) (\<lambda>t. t\<lparr> tn_oauth_refresh_token := Some ct \<rparr>)) (wdb w)"
proof -
  obtain ct w1 where enc: "secret_encrypt sv eng (oauth2_refresh_token_key_name tenant) (str_bytes tok) w = (Inr ct, w1)"
    and upd: "update_tenant p tenant (\<lambda>t. t\<lparr> tn_oauth_refresh_token := Some ct \<rparr>) w1 = (Inr u, w')"
    using assms by (auto simp: write_oauth_refresh_token_def eff_success)
  have "wdb w1 = wdb w" using keeps_db_eq [OF secret_engine_keeps(1) enc] by simp
  then show ?thesis using enc update_tenant_success [OF upd] by auto
qed

lemma refresh_tx_success:
  assumes "refresh_tx pv w = (Inr resp, w')"
  shows "\<exists>t v x ct w1 w2. row_by tn_id (op_tenant_id pv) (tenants (wdb w)) = Some t \<and> stored_credentials pv t v \<and>
    grant_answers pv v x resp \<and>
    secret_encrypt (op_env pv) (op_engine pv) (oauth2_refresh_token_key_name (op_tenant_id pv)) (str_bytes (gr_refresh_token resp)) w1 = (Inr ct, w2) \<and>
    wdb w' = tenants_update (update_where (\<lambda>t. tn_id t = op_tenant_id pv) (\<lambda>t. t\<lparr> tn_oauth_refresh_token := Some ct \<rparr>)) (wdb w)"
proof -
  obtain wa r w3 where wa: "wdb wa = wdb w"
    and body: "(bindE (mapErr TokenPersistence
        (read_oauth_credentials_for_update (op_pool pv) (op_env pv) (op_engine pv) (op_tenant_id pv))) (\<lambda>creds.
      bindE (okOr (MissingCredentials (''tenant '' @ tenant_display (op_tenant_id pv) @ '' not found'')) creds) (\<lambda>row.
      bindE (liftR (validated_from_row row (op_tenant_id pv))) (\<lambda>validated.
      bindE (do_refresh_grant pv validated) (\<lambda>resp.
      bindE (mapErr TokenPersistence
        (write_oauth_refresh_token (op_pool pv) (op_env pv) (op_engine pv) (op_tenant_id pv) (gr_refresh_token resp))) (\<lambda>_.
      ret (Commit resp))))))) wa = (Inr r, w3)"
    and r: "(r = Commit resp \<and> wdb w' = wdb w3) \<or> (r = Rollback resp \<and> wdb w' = wdb w)"
    using in_tx_success [OF assms [unfolded refresh_tx_def]] by blast
  obtain row v w4 w5 resp' where
    rd: "read_oauth_credentials_for_update (op_pool pv) (op_env pv) (op_engine pv) (op_tenant_id pv) wa = (Inr (Some row), w4)" and
    va: "validated_from_row row (op_tenant_id pv) = Inr v" and
    gr: "do_refresh_grant pv v w4 = (Inr resp', w5)" and
    wr: "write_oauth_refresh_token (op_pool pv) (op_env pv) (op_engine pv) (op_tenant_id pv) (gr_refresh_token resp') w5 = (Inr (), w3)" and
    r': "r = Commit resp'"
    using body unfolding eff_success by (auto simp: okOr_def split: option.splits)
  have db: "wdb w5 = wdb w" using keeps_db_eq [OF read_oauth_keeps rd] keeps_db_eq [OF do_refresh_grant_keeps gr] wa by simp
  have resp: "resp' = resp" "wdb w' = wdb w3" using r r' by auto
  obtain t where "row_by tn_id (op_tenant_id pv) (tenants (wdb wa)) = Some t" "stored_credentials pv t v"
    using read_oauth_success [OF rd] validated_success [OF va] unfolding stored_credentials_def by metis
  then show ?thesis
    using wa write_refresh_success [OF wr] do_refresh_grant_success [OF gr] db resp by metis
qed

lemma refresh_success:
  assumes "pv_cached s = None" and "refresh_and_cache pv s = (Inr tok, s')"
  shows "\<exists>w' resp now expires. refresh_tx pv (pv_world s) = (Inr resp, w') \<and> wdb (pv_world s') = wdb w' \<and> tok = gr_access_token resp \<and>
    add_seconds (op_chrono pv) now (gr_expires_in resp) = Inr expires \<and>
    pv_cached s' = Some \<lparr> ca_access = tok, ca_expires_at = expires \<rparr>"
proof -
  have "cached_access pv s = (Inr None :: provider_failure + _, s)" using assms(1) by (simp add: cached_access_def ret_def)
  then obtain resp w1 where tx: "refresh_tx pv (pv_world s) = (Inr resp, w1)"
    and rest: "bindE (on_world (utc_now (sv_host (op_env pv)))) (\<lambda>now.
         bindE (liftR (mapErrR ProviderPanic (add_seconds (op_chrono pv) now (gr_expires_in resp)))) (\<lambda>expires_at.
         bindE (set_cached (Some \<lparr> ca_access = gr_access_token resp, ca_expires_at = expires_at \<rparr>)) (\<lambda>_.
         ret (gr_access_token resp)))) (s\<lparr> pv_world := w1 \<rparr>) = (Inr tok, s')"
    using assms(2) by (auto simp: refresh_and_cache_def on_world_def bindE_run mapErr_run split: sum.splits prod.splits)
  show ?thesis using tx rest by (auto simp: eff_success res_success on_world_def set_cached_def)
qed

text \<open>A freshly written column reads back as the token that was written.\<close>

lemma base58_ascii: "list_all is_base58_char s \<Longrightarrow> ascii s"
  unfolding ascii_def list_all_iff is_base58_char_def by (fastforce simp: less_eq_char_def)

lemma written_column_reads_back:
  assumes "engine_ok sv eng k" and "secret_encrypt sv eng k (str_bytes tok) w1 = (Inr ct, w2)" and "utf8_valid (str_bytes k)"
    and "utf8_valid (str_bytes tok)"
  shows "fst (decrypt_column sv eng k (Some ct) col w) = Inr (Some tok)"
proof -
  obtain w3 where "secret_decrypt sv eng k ct w = (Inr (str_bytes tok), w3)"
    using secret_returns [OF assms(1-3), of w] by (metis prod.collapse)
  then show ?thesis using assms(4)
    by (simp add: decrypt_column_def decrypt_to_secret_string_def bindE_run mapErr_run okOr_def ret_def from_utf8_def)
qed

lemma rotation:
  assumes cold: "pv_cached s = None" and ok: "engine_ok (op_env pv) (op_engine pv) (oauth2_refresh_token_key_name (op_tenant_id pv))"
    and id: "list_all is_base58_char (tenant_bare (op_tenant_id pv))"
    and utf8: "replies_are_utf8 pv"
    and run: "refresh_and_cache pv s = (Inr tok, s')"
  shows "\<exists>t v x resp ct. row_by tn_id (op_tenant_id pv) (tenants (wdb (pv_world s))) = Some t \<and> stored_credentials pv t v \<and>
    grant_answers pv v x resp \<and> tok = gr_access_token resp \<and> map_option ca_access (pv_cached s') = Some tok \<and>
    row_by tn_id (op_tenant_id pv) (tenants (wdb (pv_world s'))) = Some (t\<lparr> tn_oauth_refresh_token := Some ct \<rparr>) \<and>
    (\<forall>w. fst (decrypt_column (op_env pv) (op_engine pv) (oauth2_refresh_token_key_name (op_tenant_id pv)) (Some ct)
        ''oauth_refresh_token'' w) = Inr (Some (gr_refresh_token resp)))"
proof -
  obtain w' resp expires where tx: "refresh_tx pv (pv_world s) = (Inr resp, w')" and w': "wdb (pv_world s') = wdb w'"
    and tok: "tok = gr_access_token resp" and cached: "pv_cached s' = Some \<lparr> ca_access = tok, ca_expires_at = expires \<rparr>"
    using refresh_success [OF cold run] by blast
  obtain t v x ct w1 w2 where t: "row_by tn_id (op_tenant_id pv) (tenants (wdb (pv_world s))) = Some t" "stored_credentials pv t v"
    and grant: "grant_answers pv v x resp"
    and enc: "secret_encrypt (op_env pv) (op_engine pv) (oauth2_refresh_token_key_name (op_tenant_id pv)) (str_bytes (gr_refresh_token resp)) w1 = (Inr ct, w2)"
    and db: "wdb w' = tenants_update (update_where (\<lambda>t. tn_id t = op_tenant_id pv) (\<lambda>t. t\<lparr> tn_oauth_refresh_token := Some ct \<rparr>)) (wdb (pv_world s))"
    using refresh_tx_success [OF tx] by blast
  have "utf8_valid (str_bytes (gr_refresh_token resp))" using grant utf8 by (auto simp: grant_answers_def replies_are_utf8_def)
  then have "fst (decrypt_column (op_env pv) (op_engine pv) (oauth2_refresh_token_key_name (op_tenant_id pv)) (Some ct)
      ''oauth_refresh_token'' w) = Inr (Some (gr_refresh_token resp))" for w
    using written_column_reads_back [OF ok enc] ascii_utf8 [OF key_name_ascii(1) [OF base58_ascii [OF id]]] by blast
  moreover have "row_by tn_id (op_tenant_id pv) (tenants (wdb (pv_world s'))) = Some (t\<lparr> tn_oauth_refresh_token := Some ct \<rparr>)"
    using t(1) by (simp add: w' db)
  ultimately show ?thesis using t grant tok cached by auto
qed

lemma in_tx_failure:
  assumes "in_tx p f g body w = (Inl e, w')"
  shows "wdb w' = wdb w \<or> (\<exists>m. e = g (SqlTransport m))"
proof -
  obtain r w0 where acq: "acquire p w = (r, w0)" by fastforce
  have "wdb w0 = wdb w" using keeps_db_eq [OF acquire_keeps_db acq] .
  then show ?thesis using assms acq
    by (auto simp: in_tx_def split: sum.splits tx_end.splits prod.splits sql_fault.splits)
qed

lemma refresh_failure:
  assumes "refresh_and_cache pv s = (Inl f, s')"
  shows "pv_cached s' = pv_cached s \<and> (wdb (pv_world s') = wdb (pv_world s) \<or>
    (\<exists>m. f = ProviderError (db_failure (SqlTransport m))) \<or> (\<exists>m. f = ProviderPanic m))"
proof -
  obtain hit s1 where hit: "cached_access pv s = (Inr hit :: provider_failure + _, s1)" and s1: "pv_cached s1 = pv_cached s" "wdb (pv_world s1) = wdb (pv_world s)"
    by (cases "pv_cached s") (auto simp: cached_access_def ret_def bindE_run on_world_def)
  then have miss: "hit = None" using assms by (auto simp: refresh_and_cache_def bindE_run ret_def split: option.splits)
  obtain r w1 where tx: "refresh_tx pv (pv_world s1) = (r, w1)" by fastforce
  show ?thesis
  proof (cases r)
    case (Inl e)
    then have "f = ProviderError e" "s' = s1\<lparr> pv_world := w1 \<rparr>"
      using assms hit miss tx by (auto simp: refresh_and_cache_def bindE_run mapErr_run on_world_def)
    moreover have "wdb w1 = wdb (pv_world s1) \<or> (\<exists>m. e = db_failure (SqlTransport m))"
      using in_tx_failure [of _ db_failure db_failure] tx unfolding Inl refresh_tx_def by blast
    ultimately show ?thesis using s1 by auto
  next
    case (Inr resp)
    then show ?thesis using assms hit miss tx s1
      by (auto simp: refresh_and_cache_def bindE_run mapErr_run on_world_def liftR_def set_cached_def ret_def split: sum.splits)
         (cases "add_seconds (op_chrono pv) (fst (host_clock (sv_host (op_env pv)) (wext w1))) (gr_expires_in resp)"; auto)
  qed
qed

section \<open>Fixtures\<close>

text \<open>
  A tenant with stored credentials, an authenticated cipher that appends the key and the nonce,
  and a token endpoint that answers every grant.
\<close>

definition fx_owner :: tenant_id where "fx_owner = TenantId ''7K''"

definition fx_secret_env :: "nat \<Rightarrow> nat secret_env" where
  "fx_secret_env status = \<lparr> sv_host = fx_host\<lparr> host_clock := (\<lambda>x. (0, Suc x)) \<rparr>, sv_hkdf_sha256 = (\<lambda>ikm info. ikm @ info), sv_aes_encrypt = (\<lambda>k n pt. Inr (pt @ n @ k)),
     sv_aes_decrypt = (\<lambda>k n ct. if drop (length ct - length (n @ k)) ct = n @ k then Some (take (length ct - length (n @ k)) ct) else None),
     sv_b64_encode = bytes_str, sv_b64_decode = (\<lambda>_ s. Inr (str_bytes s)), sv_url_parse = Inr, sv_status_text = show_nat, sv_utf8_error = (\<lambda>_. ''utf8''),
     sv_post = (\<lambda>url hs body x. (Inr \<lparr> hr_status = status, hr_text = Inr ''reply'', hr_json = Inl ''no json'' \<rparr>, Suc x)) \<rparr>"

definition fx_secret_engine :: any_secret_engine where
  "fx_secret_engine = DevEngine \<lparr> de_master_key = replicate 32 0 \<rparr>"

definition fx_reply :: "int \<Rightarrow> string \<Rightarrow> string + json" where
  "fx_reply expires body = (if body = ''reply'' then Inr (JObj [(''access_token'', JStr ''a1''), (''refresh_token'', JStr ''r2''),
     (''expires_in'', JNum expires)]) else Inl ''eof'')"

definition fx_token_provider :: "nat \<Rightarrow> int \<Rightarrow> nat oauth2_provider" where
  "fx_token_provider status expires = \<lparr> op_tenant_id = fx_owner, op_pool = fx_pool, op_token_url = ''https://auth.example/token'',
     op_engine = fx_secret_engine, op_safety_margin = 30000000, op_env = fx_secret_env status,
     op_chrono = \<lparr> ch_max_seconds = 9223372036854775, ch_min_utc = - (10 ^ 19), ch_max_utc = 10 ^ 19 \<rparr>,
     op_json_from_str = fx_reply expires \<rparr>"

lemmas fx_token_sel = fx_token_provider_def fx_secret_env_def fx_secret_engine_def

lemma fx_provider_sel [simp]:
  "op_tenant_id (fx_token_provider a e) = fx_owner" "op_pool (fx_token_provider a e) = fx_pool"
  "op_env (fx_token_provider a e) = fx_secret_env a" "op_engine (fx_token_provider a e) = fx_secret_engine"
  "host_clock (sv_host (fx_secret_env a)) = (\<lambda>x. (0, Suc x))"
  "op_chrono (fx_token_provider a e) = \<lparr> ch_max_seconds = 9223372036854775, ch_min_utc = - (10 ^ 19), ch_max_utc = 10 ^ 19 \<rparr>"
  by (simp_all add: fx_token_sel)

definition fx_sealed :: "string \<Rightarrow> string \<Rightarrow> ciphertext" where
  "fx_sealed k s = Ciphertext (case dev_envelope_encode \<lparr> dv_key_name = k, dv_key_version = 1, dv_nonce = replicate 12 0,
     dv_ct_and_tag = str_bytes s @ replicate 12 0 @ replicate 32 0 @ str_bytes HKDF_INFO_PREFIX @ str_bytes k \<rparr> of Inr bs \<Rightarrow> bs | Inl _ \<Rightarrow> [])"

definition fx_owner_row :: tenant where
  "fx_owner_row = fx_tenant\<lparr> tn_id := fx_owner, tn_oauth_client_id := Some ''client'',
     tn_oauth_client_secret := Some (fx_sealed (oauth2_client_secret_key_name fx_owner) ''s1''),
     tn_oauth_refresh_token := Some (fx_sealed (oauth2_refresh_token_key_name fx_owner) ''r1'') \<rparr>"

definition fx_owner_state :: "nat provider_state" where
  "fx_owner_state = \<lparr> pv_cached = None, pv_world = \<lparr> wdb = fx_db\<lparr> tenants := [fx_tenant, fx_owner_row] \<rparr>, wext = 5 \<rparr> \<rparr>"

lemma fx_aead_ok: "aead_ok (fx_secret_env status)"
  by (auto simp: aead_ok_def fx_secret_env_def)

lemma fx_owner_names:
  "list_all is_base58_char (tenant_bare fx_owner)"
  "length (oauth2_client_secret_key_name fx_owner) \<le> 255" "length (oauth2_refresh_token_key_name fx_owner) \<le> 255"
  "utf8_valid (str_bytes (oauth2_client_secret_key_name fx_owner))" "utf8_valid (str_bytes (oauth2_refresh_token_key_name fx_owner))"
proof -
  show id: "list_all is_base58_char (tenant_bare fx_owner)" by (simp add: fx_owner_def is_base58_char_def less_eq_char_def)
  show "utf8_valid (str_bytes (oauth2_client_secret_key_name fx_owner))" "utf8_valid (str_bytes (oauth2_refresh_token_key_name fx_owner))"
    using ascii_utf8 key_name_ascii base58_ascii [OF id] by blast+
qed (simp_all add: fx_owner_def oauth2_client_secret_key_name_def oauth2_refresh_token_key_name_def
      FAMILY_OAUTH2_REFRESH_TOKEN_def FAMILY_OAUTH2_CLIENT_SECRET_def)

lemma fx_unseal:
  assumes "length k \<le> 255" and "utf8_valid (str_bytes k)"
  shows "secret_decrypt (fx_secret_env status) fx_secret_engine k (fx_sealed k s) w = (Inr (str_bytes s), w\<lparr> wext := Suc (wext w) \<rparr>)"
proof -
  let ?e = "\<lparr> dv_key_name = k, dv_key_version = 1, dv_nonce = replicate 12 0,
     dv_ct_and_tag = str_bytes s @ replicate 12 0 @ replicate 32 0 @ str_bytes HKDF_INFO_PREFIX @ str_bytes k \<rparr>"
  obtain bs where "dev_envelope_encode ?e = Inr bs" "dev_envelope_decode bs = Inr ?e"
    using dev_round_trip [of ?e] assms by (auto simp: MAX_KEY_NAME_LEN_def NONCE_LEN_def)
  then show ?thesis
    by (simp add: fx_sealed_def fx_secret_engine_def dev_decrypt_def bindE_run generate_nonce_run fx_secret_env_def DEV_KEY_VERSION_def
        derive_key_def okOr_def fx_host_def liftR_def ret_def guardE_def)
qed

lemma fx_encrypt:
  assumes "length k \<le> 255"
  shows "\<exists>ct. secret_encrypt (fx_secret_env status) fx_secret_engine k pt w = (Inr ct, w\<lparr> wext := Suc (wext w) \<rparr>)"
  using assms by (simp add: fx_secret_engine_def dev_encrypt_def bindE_run generate_nonce_run fx_secret_env_def fx_host_def
      dev_envelope_encode_def Let_def MAX_KEY_NAME_LEN_def liftR_def ret_def)

lemma fx_columns:
  "fst (decrypt_column (fx_secret_env status) fx_secret_engine (oauth2_client_secret_key_name fx_owner) (tn_oauth_client_secret fx_owner_row) col w) = Inr (Some ''s1'')"
  "fst (decrypt_column (fx_secret_env status) fx_secret_engine (oauth2_refresh_token_key_name fx_owner) (tn_oauth_refresh_token fx_owner_row) col w) = Inr (Some ''r1'')"
proof -
  have "utf8_valid (str_bytes ''s1'')" "utf8_valid (str_bytes ''r1'')" by (rule ascii_utf8, simp add: ascii_def)+
  then show "fst (decrypt_column (fx_secret_env status) fx_secret_engine (oauth2_client_secret_key_name fx_owner) (tn_oauth_client_secret fx_owner_row) col w) = Inr (Some ''s1'')"
    "fst (decrypt_column (fx_secret_env status) fx_secret_engine (oauth2_refresh_token_key_name fx_owner) (tn_oauth_refresh_token fx_owner_row) col w) = Inr (Some ''r1'')"
    by (simp_all add: fx_owner_row_def decrypt_column_def decrypt_to_secret_string_def bindE_run mapErr_run fx_unseal fx_owner_names
        from_utf8_def okOr_def ret_def)
qed

lemma fx_read:
  assumes "row_by tn_id fx_owner (tenants (wdb w)) = Some t" and "tn_oauth_client_id t = Some c"
    and "\<And>w. fst (decrypt_column (fx_secret_env status) fx_secret_engine (oauth2_client_secret_key_name fx_owner) (tn_oauth_client_secret t) ''oauth_client_secret'' w) = Inr (Some s)"
    and "\<And>w. fst (decrypt_column (fx_secret_env status) fx_secret_engine (oauth2_refresh_token_key_name fx_owner) (tn_oauth_refresh_token t) ''oauth_refresh_token'' w) = Inr (Some r)"
  shows "\<exists>w'. read_oauth_credentials_for_update fx_pool (fx_secret_env status) fx_secret_engine fx_owner w =
    (Inr (Some \<lparr> oc_client_id = Some c, oc_client_secret = Some s, oc_refresh_token = Some r \<rparr>), w') \<and> wdb w' = wdb w"
proof -
  obtain w1 where 1: "decrypt_column (fx_secret_env status) fx_secret_engine (oauth2_client_secret_key_name fx_owner) (tn_oauth_client_secret t) ''oauth_client_secret'' w = (Inr (Some s), w1)"
    using assms(3) by (metis prod.collapse)
  obtain w2 where 2: "decrypt_column (fx_secret_env status) fx_secret_engine (oauth2_refresh_token_key_name fx_owner) (tn_oauth_refresh_token t) ''oauth_refresh_token'' w1 = (Inr (Some r), w2)"
    using assms(4) by (metis prod.collapse)
  have "wdb w2 = wdb w" using keeps_db_eq [OF decrypt_column_keeps 1] keeps_db_eq [OF decrypt_column_keeps 2] by simp
  then show ?thesis using assms(1,2) 1 2
    by (simp add: read_oauth_credentials_for_update_def find_tenant_by_id_def bindE_run mapErr_run fx_run ret_def)
qed

lemma fx_grant:
  "do_refresh_grant (fx_token_provider 200 e) v w = (if - (2 ^ 63) \<le> e \<and> e < 2 ^ 63
     then (Inr \<lparr> gr_access_token = ''a1'', gr_refresh_token = ''r2'', gr_expires_in = e \<rparr>, w\<lparr> wext := Suc (wext w) \<rparr>)
     else (Inl (TokenDecode ''token endpoint body: invalid value for expires_in''), w\<lparr> wext := Suc (wext w) \<rparr>))"
  by (simp add: do_refresh_grant_def fx_token_sel bindE_run mapErr_run ext_def status_is_success_def parse_token_response_def fx_reply_def
      grant_response_of_def req_member_def liftR_def)

lemma fx_rejected:
  "do_refresh_grant (fx_token_provider 400 e) v w = (Inl (RefreshRejected (''HTTP '' @ show_nat 400 @ '': (no error code)'')), w\<lparr> wext := Suc (wext w) \<rparr>)"
  by (simp add: do_refresh_grant_def fx_token_sel bindE_run mapErr_run ext_def status_is_success_def status_is_client_error_def
      format_oauth_error_def fx_reply_def oauth_error_body_def opt_member_def liftR_def raise_def)

lemma fx_write:
  assumes "fx_owner \<in> tn_id ` set (tenants (wdb w))"
  shows "\<exists>w'. write_oauth_refresh_token fx_pool (fx_secret_env status) fx_secret_engine fx_owner tok w = (Inr (), w')"
proof -
  obtain ct where ct: "secret_encrypt (fx_secret_env status) fx_secret_engine (oauth2_refresh_token_key_name fx_owner) (str_bytes tok) w =
      (Inr ct, w\<lparr> wext := Suc (wext w) \<rparr>)"
    using fx_encrypt [OF fx_owner_names(3)] by blast
  have "find (\<lambda>t. tn_id t = fx_owner) (tenants (wdb w)) \<noteq> None" using assms by (auto simp: find_None_iff)
  then have "rows_matching (\<lambda>t. tn_id t = fx_owner) (tenants (wdb w)) \<noteq> 0"
    using rows_matching_0 [of "\<lambda>t. tn_id t = fx_owner" "tenants (wdb w)"] by metis
  then show ?thesis
    by (simp add: write_oauth_refresh_token_def bindE_run mapErr_run ct update_tenant_def fx_run update_stmt_def guardE_def ret_def)
qed

lemma fx_tx:
  assumes "row_by tn_id fx_owner (tenants (wdb w)) = Some t" and "tn_oauth_client_id t = Some c"
    and "\<And>w. fst (decrypt_column (fx_secret_env 200) fx_secret_engine (oauth2_client_secret_key_name fx_owner) (tn_oauth_client_secret t) ''oauth_client_secret'' w) = Inr (Some s)"
    and "\<And>w. fst (decrypt_column (fx_secret_env 200) fx_secret_engine (oauth2_refresh_token_key_name fx_owner) (tn_oauth_refresh_token t) ''oauth_refresh_token'' w) = Inr (Some r)"
    and "- (2 ^ 63) \<le> e" "e < 2 ^ 63"
  shows "\<exists>w'. refresh_tx (fx_token_provider 200 e) w = (Inr \<lparr> gr_access_token = ''a1'', gr_refresh_token = ''r2'', gr_expires_in = e \<rparr>, w')"
proof -
  obtain w1 where rd: "read_oauth_credentials_for_update fx_pool (fx_secret_env 200) fx_secret_engine fx_owner w =
    (Inr (Some \<lparr> oc_client_id = Some c, oc_client_secret = Some s, oc_refresh_token = Some r \<rparr>), w1)" and w1: "wdb w1 = wdb w"
    using fx_read [OF assms(1-4)] by blast
  have "fx_owner \<in> tn_id ` set (tenants (wdb (w1\<lparr> wext := Suc (wext w1) \<rparr>)))" using row_by_SomeD [OF assms(1)] w1 by force
  then obtain w2 where "write_oauth_refresh_token fx_pool (fx_secret_env 200) fx_secret_engine fx_owner ''r2'' (w1\<lparr> wext := Suc (wext w1) \<rparr>) = (Inr (), w2)"
    using fx_write by blast
  then show ?thesis using rd assms(5,6)
    by (simp add: refresh_tx_def fx_run bindE_run mapErr_run okOr_def validated_from_row_def liftR_def ret_def fx_grant)
qed


lemma fx_owner_stored: "row_by tn_id fx_owner (tenants (wdb (pv_world fx_owner_state))) = Some fx_owner_row"
proof -
  have "length (fx_bare 1) = 20" by (simp add: fx_bare_def fx_bs58_def length_concat sum_list_replicate comp_def)
  then have "tn_id fx_tenant \<noteq> fx_owner" by (auto simp: fx_tenant_def fx_owner_def)
  then show ?thesis by (simp add: fx_owner_state_def fx_owner_row_def row_by_def)
qed

lemma fx_refresh_run:
  assumes "refresh_tx (fx_token_provider 200 e) (pv_world s) = (Inr \<lparr> gr_access_token = ''a1'', gr_refresh_token = ''r2'', gr_expires_in = e \<rparr>, w')"
    and "pv_cached s = None"
  shows "refresh_and_cache (fx_token_provider 200 e) s =
    (case add_seconds (op_chrono (fx_token_provider 200 e)) 0 e of
       Inl m \<Rightarrow> (Inl (ProviderPanic m), s\<lparr> pv_world := w'\<lparr> wext := Suc (wext w') \<rparr> \<rparr>)
     | Inr t \<Rightarrow> (Inr ''a1'', s\<lparr> pv_world := w'\<lparr> wext := Suc (wext w') \<rparr>, pv_cached := Some \<lparr> ca_access = ''a1'', ca_expires_at = t \<rparr> \<rparr>))"
  using assms by (simp add: refresh_and_cache_def cached_access_def bindE_run mapErr_run ret_def on_world_def liftR_def set_cached_def
      split: sum.splits)

lemma fx_replies_utf8: "replies_are_utf8 (fx_token_provider a e)"
proof -
  have "utf8_valid (str_bytes ''r2'')" by (rule ascii_utf8) (simp add: ascii_def)
  then show ?thesis
    by (auto simp: replies_are_utf8_def parse_token_response_def fx_token_provider_def fx_reply_def grant_response_of_def res_success
        req_member_def split: if_splits)
qed

lemma fx_engine_ok: "engine_ok (fx_secret_env a) fx_secret_engine k"
  by (simp add: fx_secret_engine_def fx_aead_ok)

lemma fx_owner_tx:
  assumes "- (2 ^ 63) \<le> e" "e < 2 ^ 63"
  shows "\<exists>w'. refresh_tx (fx_token_provider 200 e) (pv_world fx_owner_state) =
    (Inr \<lparr> gr_access_token = ''a1'', gr_refresh_token = ''r2'', gr_expires_in = e \<rparr>, w')"
  by (rule fx_tx [OF fx_owner_stored _ fx_columns assms]) (simp add: fx_owner_row_def)

lemma fx_owner_refresh: "\<exists>s'. refresh_and_cache (fx_token_provider 200 3600) fx_owner_state = (Inr ''a1'', s')"
proof -
  obtain w' where "refresh_tx (fx_token_provider 200 3600) (pv_world fx_owner_state) =
      (Inr \<lparr> gr_access_token = ''a1'', gr_refresh_token = ''r2'', gr_expires_in = 3600 \<rparr>, w')"
    using fx_owner_tx [of 3600] by auto
  from fx_refresh_run [OF this] show ?thesis by (simp add: fx_owner_state_def add_seconds_def Let_def)
qed

definition fx_provider_registry :: "nat provider_registry" where
  "fx_provider_registry = \<lparr> pr_pool = fx_pool, pr_token_url = ''https://auth.example/token'', pr_engine = fx_secret_engine,
     pr_safety_margin = 30000000, pr_env = fx_secret_env 200,
     pr_chrono = \<lparr> ch_max_seconds = 9223372036854775, ch_min_utc = - (10 ^ 19), ch_max_utc = 10 ^ 19 \<rparr>,
     pr_json_from_str = fx_reply 3600 \<rparr>"

lemma fx_owner_invalidate: "\<exists>s'. provider_invalidate (fx_token_provider 200 3600) fx_owner_state = (Inr ''a1'', s')"
  using fx_owner_refresh by (simp add: provider_invalidate_def set_cached_def bindE_run fx_owner_state_def)

lemma fx_second_invalidate:
  assumes "provider_invalidate (fx_token_provider 200 3600) fx_owner_state = (Inr ''a1'', s1)"
  shows "\<exists>s'. provider_invalidate (fx_token_provider 200 3600) s1 = (Inr ''a1'', s')"
proof -
  have cold: "pv_cached fx_owner_state = None" by (simp add: fx_owner_state_def)
  have "refresh_and_cache (fx_token_provider 200 3600) fx_owner_state = (Inr ''a1'', s1)"
    using assms cold by (simp add: provider_invalidate_def set_cached_def bindE_run fx_owner_state_def)
  then obtain t ct r where t: "row_by tn_id fx_owner (tenants (wdb (pv_world fx_owner_state))) = Some t"
    and row': "row_by tn_id fx_owner (tenants (wdb (pv_world s1))) = Some (t\<lparr> tn_oauth_refresh_token := Some ct \<rparr>)"
    and ct: "\<And>w. fst (decrypt_column (fx_secret_env 200) fx_secret_engine (oauth2_refresh_token_key_name fx_owner) (Some ct) ''oauth_refresh_token'' w) =
      Inr (Some r)"
    using rotation [OF cold, of "fx_token_provider 200 3600"] by (auto simp: fx_engine_ok fx_owner_names(1) fx_replies_utf8)
  have row: "row_by tn_id fx_owner (tenants (wdb (pv_world s1))) = Some (fx_owner_row\<lparr> tn_oauth_refresh_token := Some ct \<rparr>)"
    using t row' fx_owner_stored by simp
  obtain w' where "refresh_tx (fx_token_provider 200 3600) (pv_world (s1\<lparr> pv_cached := None \<rparr>)) =
      (Inr \<lparr> gr_access_token = ''a1'', gr_refresh_token = ''r2'', gr_expires_in = 3600 \<rparr>, w')"
    using fx_tx [of "pv_world s1", OF row, of "''client''" "''s1''" r 3600] fx_columns(1) ct by (auto simp: fx_owner_row_def)
  from fx_refresh_run [OF this] show ?thesis by (simp add: provider_invalidate_def set_cached_def bindE_run add_seconds_def Let_def)
qed

lemma fx_owner_rejected: "\<exists>m s'. refresh_and_cache (fx_token_provider 400 3600) fx_owner_state = (Inl (ProviderError (RefreshRejected m)), s')"
proof -
  obtain w1 where "read_oauth_credentials_for_update fx_pool (fx_secret_env 400) fx_secret_engine fx_owner (pv_world fx_owner_state) =
    (Inr (Some \<lparr> oc_client_id = Some ''client'', oc_client_secret = Some ''s1'', oc_refresh_token = Some ''r1'' \<rparr>), w1)"
    using fx_read [OF fx_owner_stored _ fx_columns] by (auto simp: fx_owner_row_def)
  then have "\<exists>w'. refresh_tx (fx_token_provider 400 3600) (pv_world fx_owner_state) =
      (Inl (RefreshRejected (''HTTP '' @ show_nat 400 @ '': (no error code)'')), w')"
    by (simp add: refresh_tx_def fx_run bindE_run mapErr_run okOr_def validated_from_row_def liftR_def ret_def fx_rejected)
  moreover have "pv_cached fx_owner_state = None" by (simp add: fx_owner_state_def)
  ultimately show ?thesis
    by (auto simp: refresh_and_cache_def cached_access_def bindE_run mapErr_run ret_def on_world_def)
qed

lemma fx_owner_rewritten:
  "\<exists>w1 creds w3. write_oauth_client_credentials fx_pool (fx_secret_env 200) fx_secret_engine fx_owner ''id'' ''s9'' (pv_world fx_owner_state) = (Inr (), w1) \<and>
     read_oauth_credentials_for_update fx_pool (fx_secret_env 200) fx_secret_engine fx_owner w1 = (Inr creds, w3)"
proof -
  obtain ct where enc: "secret_encrypt (fx_secret_env 200) fx_secret_engine (oauth2_client_secret_key_name fx_owner) (str_bytes ''s9'') (pv_world fx_owner_state) =
      (Inr ct, (pv_world fx_owner_state)\<lparr> wext := Suc (wext (pv_world fx_owner_state)) \<rparr>)"
    using fx_encrypt [OF fx_owner_names(2)] by blast
  let ?f = "\<lambda>t. t\<lparr> tn_oauth_client_id := Some ''id'', tn_oauth_client_secret := Some ct \<rparr>"
  define w1 where "w1 = (pv_world fx_owner_state)\<lparr> wext := Suc (wext (pv_world fx_owner_state)),
     wdb := tenants_update (update_where (\<lambda>t. tn_id t = fx_owner) ?f) (wdb (pv_world fx_owner_state)) \<rparr>"
  have "rows_matching (\<lambda>t. tn_id t = fx_owner) (tenants (wdb (pv_world fx_owner_state))) \<noteq> 0"
    using fx_owner_stored rows_matching_0 [of "\<lambda>t. tn_id t = fx_owner"] by (metis option.distinct(1) row_by_def)
  then have wr: "write_oauth_client_credentials fx_pool (fx_secret_env 200) fx_secret_engine fx_owner ''id'' ''s9'' (pv_world fx_owner_state) = (Inr (), w1)"
    by (simp add: write_oauth_client_credentials_def bindE_run mapErr_run enc update_tenant_def fx_run update_stmt_def guardE_def ret_def w1_def)
  have rows: "row_by tn_id fx_owner (tenants (wdb w1)) = Some (?f fx_owner_row)"
    using fx_owner_stored by (simp add: w1_def row_by_update_where)
  have "utf8_valid (str_bytes ''s9'')" by (rule ascii_utf8) (simp add: ascii_def)
  from written_column_reads_back [OF fx_engine_ok enc fx_owner_names(4) this]
  have ct: "fst (decrypt_column (fx_secret_env 200) fx_secret_engine (oauth2_client_secret_key_name fx_owner) (Some ct) col w) = Inr (Some ''s9'')" for col w .
  have "\<exists>w'. read_oauth_credentials_for_update fx_pool (fx_secret_env 200) fx_secret_engine fx_owner w1 =
      (Inr (Some \<lparr> oc_client_id = Some ''id'', oc_client_secret = Some ''s9'', oc_refresh_token = Some ''r1'' \<rparr>), w') \<and> wdb w' = wdb w1"
    by (rule fx_read [OF rows]) (simp_all add: ct fx_columns)
  then show ?thesis using wr by blast
qed

section \<open>Properties\<close>

text \<open>A token refresh that succeeds used the credentials stored for its tenant, and
  afterwards the row of the tenant holds, under the key of this tenant and column, exactly the
  refresh token the authorization server rotated in; no other column, row or table changed and
  the returned access token is the cached one.\<close>

lemma refresh_rotates_stored_token:
  assumes "pv_cached s = None" and "engine_ok (op_env pv) (op_engine pv) (oauth2_refresh_token_key_name (op_tenant_id pv))"
    and "list_all is_base58_char (tenant_bare (op_tenant_id pv))"
    and "replies_are_utf8 pv"
    and "refresh_and_cache pv s = (Inr tok, s')"
  shows "\<exists>t v x resp ct. row_by tn_id (op_tenant_id pv) (tenants (wdb (pv_world s))) = Some t \<and> stored_credentials pv t v \<and>
    grant_answers pv v x resp \<and> tok = gr_access_token resp \<and> map_option ca_access (pv_cached s') = Some tok \<and>
    row_by tn_id (op_tenant_id pv) (tenants (wdb (pv_world s'))) = Some (t\<lparr> tn_oauth_refresh_token := Some ct \<rparr>) \<and>
    (\<forall>w. fst (decrypt_column (op_env pv) (op_engine pv) (oauth2_refresh_token_key_name (op_tenant_id pv)) (Some ct)
        ''oauth_refresh_token'' w) = Inr (Some (gr_refresh_token resp))) \<and>
    sans_refresh (op_tenant_id pv) (wdb (pv_world s')) = sans_refresh (op_tenant_id pv) (wdb (pv_world s))"
proof -
  have "sans_refresh (op_tenant_id pv) (wdb (pv_world s')) = sans_refresh (op_tenant_id pv) (wdb (pv_world s))"
    using preserves_outcome [OF refresh_and_cache_keeps [OF refresh_tx_keeps [of pv "sans_refresh (op_tenant_id pv) (wdb (pv_world s))"]] _ assms(5)]
    by simp
  then show ?thesis using rotation [OF assms] by blast
qed

theorem refresh_rotates_stored_token_witness:
  "\<exists>s' t v x resp ct. refresh_and_cache (fx_token_provider 200 3600) fx_owner_state = (Inr ''a1'', s') \<and>
     row_by tn_id fx_owner (tenants (wdb (pv_world s'))) = Some (t\<lparr> tn_oauth_refresh_token := Some ct \<rparr>) \<and>
     grant_answers (fx_token_provider 200 3600) v x resp \<and>
     (\<forall>w. fst (decrypt_column (fx_secret_env 200) fx_secret_engine (oauth2_refresh_token_key_name fx_owner) (Some ct)
        ''oauth_refresh_token'' w) = Inr (Some (gr_refresh_token resp)))"
proof -
  obtain s' where run: "refresh_and_cache (fx_token_provider 200 3600) fx_owner_state = (Inr ''a1'', s')" using fx_owner_refresh by blast
  have "pv_cached fx_owner_state = None" by (simp add: fx_owner_state_def)
  from refresh_rotates_stored_token [OF this _ _ fx_replies_utf8 run] show ?thesis
    using run by (simp add: fx_engine_ok fx_owner_names(1)) blast
qed

text \<open>C31. Refresh tokens are used in a chain: when a provider's token is renewed twice and the
  tenant row did not change in between, the second grant presents the refresh token that the
  first grant returned, and the client identity stays the same.\<close>

theorem renewals_form_a_chain:
  assumes "engine_ok (op_env pv) (op_engine pv) (oauth2_refresh_token_key_name (op_tenant_id pv))"
    and "list_all is_base58_char (tenant_bare (op_tenant_id pv))"
    and "replies_are_utf8 pv"
    and first: "provider_invalidate pv s = (Inr tok1, s1)" and second: "provider_invalidate pv s2 = (Inr tok2, s3)"
    and "wdb (pv_world s2) = wdb (pv_world s1)"
  shows "\<exists>v1 x1 resp1 v2 x2 resp2. grant_answers pv v1 x1 resp1 \<and> tok1 = gr_access_token resp1 \<and>
    grant_answers pv v2 x2 resp2 \<and> tok2 = gr_access_token resp2 \<and>
    vc_refresh_token v2 = gr_refresh_token resp1 \<and> vc_client_id v2 = vc_client_id v1"
proof -
  have runs: "refresh_and_cache pv (s\<lparr> pv_cached := None \<rparr>) = (Inr tok1, s1)" "refresh_and_cache pv (s2\<lparr> pv_cached := None \<rparr>) = (Inr tok2, s3)"
    using first second by (simp_all add: provider_invalidate_def set_cached_def bindE_run)
  obtain t v1 x1 resp1 ct where 1: "stored_credentials pv t v1" "grant_answers pv v1 x1 resp1" "tok1 = gr_access_token resp1"
      "row_by tn_id (op_tenant_id pv) (tenants (wdb (pv_world s1))) = Some (t\<lparr> tn_oauth_refresh_token := Some ct \<rparr>)"
      "\<And>w. fst (decrypt_column (op_env pv) (op_engine pv) (oauth2_refresh_token_key_name (op_tenant_id pv)) (Some ct)
        ''oauth_refresh_token'' w) = Inr (Some (gr_refresh_token resp1))"
    using rotation [OF _ assms(1-3) runs(1)] by auto
  obtain t2 v2 x2 resp2 where 2: "row_by tn_id (op_tenant_id pv) (tenants (wdb (pv_world s2))) = Some t2" "stored_credentials pv t2 v2"
      "grant_answers pv v2 x2 resp2" "tok2 = gr_access_token resp2"
    using rotation [OF _ assms(1-3) runs(2)] by auto
  have "t2 = t\<lparr> tn_oauth_refresh_token := Some ct \<rparr>" using 1(4) 2(1) assms(6) by simp
  then have "vc_refresh_token v2 = gr_refresh_token resp1" "vc_client_id v2 = vc_client_id v1"
    using 1(1,5) 2(2) by (auto simp: stored_credentials_def)
  then show ?thesis using 1 2 by blast
qed

theorem renewals_form_a_chain_witness:
  "\<exists>s1 s3 v1 x1 resp1 v2 x2 resp2. provider_invalidate (fx_token_provider 200 3600) fx_owner_state = (Inr ''a1'', s1) \<and>
     provider_invalidate (fx_token_provider 200 3600) s1 = (Inr ''a1'', s3) \<and>
     grant_answers (fx_token_provider 200 3600) v1 x1 resp1 \<and> grant_answers (fx_token_provider 200 3600) v2 x2 resp2 \<and>
     vc_refresh_token v2 = gr_refresh_token resp1"
proof -
  obtain s1 where 1: "provider_invalidate (fx_token_provider 200 3600) fx_owner_state = (Inr ''a1'', s1)"
    using fx_owner_invalidate by blast
  then obtain s3 where 3: "provider_invalidate (fx_token_provider 200 3600) s1 = (Inr ''a1'', s3)" using fx_second_invalidate by blast
  from renewals_form_a_chain [OF _ _ fx_replies_utf8 1 3] show ?thesis
    using 1 3 by (simp add: fx_engine_ok fx_owner_names(1)) blast
qed

text \<open>A refresh that fails leaves the in-memory token as it was, and leaves every table as it
  was unless the reply to the commit was lost or the process panicked after the commit.\<close>

lemma failed_refresh_keeps_row:
  assumes "refresh_and_cache pv s = (Inl f, s')" and "\<And>m. f \<noteq> ProviderPanic m" and "\<And>m. f \<noteq> ProviderError (db_failure (SqlTransport m))"
  shows "pv_cached s' = pv_cached s \<and> wdb (pv_world s') = wdb (pv_world s)"
  using refresh_failure [OF assms(1)] assms(2,3) by blast

theorem failed_refresh_keeps_row_witness:
  "\<exists>m s'. refresh_and_cache (fx_token_provider 400 3600) fx_owner_state = (Inl (ProviderError (RefreshRejected m)), s') \<and>
     wdb (pv_world s') = wdb (pv_world fx_owner_state)"
proof -
  obtain m s' where run: "refresh_and_cache (fx_token_provider 400 3600) fx_owner_state = (Inl (ProviderError (RefreshRejected m)), s')"
    using fx_owner_rejected by blast
  then show ?thesis using failed_refresh_keeps_row [OF run] by (auto simp: db_failure_def)
qed

text \<open>Asking for the token of one tenant, or renewing it, changes neither the cached token
  nor the row of any other tenant, nor any other table.\<close>

lemma tenants_refresh_independently:
  assumes "tenant_token pr t g = (r, g') \<or> tenant_token_renewed pr t g = (r, g')" and "u \<noteq> t"
  shows "rg_providers g' u = rg_providers g u \<and>
    filter (\<lambda>x. tn_id x \<noteq> t) (tenants (wdb (rg_world g'))) = filter (\<lambda>x. tn_id x \<noteq> t) (tenants (wdb (rg_world g))) \<and>
    sans_oauth (wdb (rg_world g')) = sans_oauth (wdb (rg_world g))"
proof -
  define g1 where "g1 = (case rg_providers g t of Some _ \<Rightarrow> g | None \<Rightarrow> g\<lparr> rg_providers := (rg_providers g)(t \<mapsto> None) \<rparr>)"
  have g1: "rg_world g1 = rg_world g" "rg_providers g1 u = rg_providers g u" using assms(2) by (auto simp: g1_def split: option.splits)
  obtain m where m: "m = any_get (new_provider pr t) \<or> m = any_invalidate (new_provider pr t)" and run: "on_provider t m g1 = (r, g')"
    using assms(1) by (auto simp: tenant_token_def tenant_token_renewed_def bindE_run provider_for_def g1_def [symmetric])
  obtain c s where s: "m \<lparr> pv_cached = c, pv_world = rg_world g1 \<rparr> = (r, s)" and g': "rg_world g' = pv_world s" "rg_providers g' u = rg_providers g1 u"
    using run assms(2) by (auto simp: on_provider_def Let_def split: prod.splits)
  have "preserves (\<lambda>s. sans_refresh t (wdb (pv_world s)) = sans_refresh t (wdb (rg_world g))) m"
    using m any_provider_sans_refresh by blast
  from preserves_outcome [OF this _ s] have "sans_refresh t (wdb (pv_world s)) = sans_refresh t (wdb (rg_world g))"
    using g1 by simp
  then show ?thesis using g' g1 by (metis sans_refresh_others sans_oauth_refresh)
qed

theorem tenants_refresh_independently_witness:
  "\<exists>r g'. tenant_token fx_provider_registry fx_owner \<lparr> rg_providers = Map.empty, rg_world = pv_world fx_owner_state \<rparr> = (r, g') \<and>
     rg_providers g' (TenantId ''zz'') = None"
proof -
  obtain r g' where run: "tenant_token fx_provider_registry fx_owner \<lparr> rg_providers = Map.empty, rg_world = pv_world fx_owner_state \<rparr> = (r, g')"
    by fastforce
  then show ?thesis
    using tenants_refresh_independently [OF disjI1 [OF run], of "TenantId ''zz''"] by (simp add: fx_owner_def)
qed

text \<open>C32. A stored secret belongs to one tenant and one column: a ciphertext written as the
  refresh token of a tenant is refused with a key-name mismatch when it is read as the refresh
  token of another tenant or as any client secret, whichever engine is configured.\<close>

theorem moved_secret_is_rejected:
  assumes "secret_encrypt sv eng (oauth2_refresh_token_key_name a) pt w = (Inr ct, w')" and "list_all is_base58_char (tenant_bare a)"
    and "k = oauth2_refresh_token_key_name b \<and> b \<noteq> a \<or> k = oauth2_client_secret_key_name b"
  shows "decrypt_column sv eng k (Some ct) col w2 = (Inl (Encryption (KeyNameMismatch (oauth2_refresh_token_key_name a) k)), w2)"
proof -
  have "oauth2_refresh_token_key_name a \<noteq> k" using assms(3) key_names_distinct key_families_distinct by metis
  then have "secret_decrypt sv eng k ct w2 = (Inl (KeyNameMismatch (oauth2_refresh_token_key_name a) k), w2)"
    by (rule secret.moved_ciphertext [OF assms(1) ascii_utf8 [OF key_name_ascii(1) [OF base58_ascii [OF assms(2)]]]])
  then show ?thesis by (simp add: decrypt_column_def decrypt_to_secret_string_def bindE_run mapErr_run)
qed

theorem moved_secret_is_rejected_witness:
  "\<exists>ct. fst (secret_encrypt (fx_secret_env 200) fx_secret_engine (oauth2_refresh_token_key_name fx_owner) [1, 2] (pv_world fx_owner_state)) = Inr ct \<and>
     fst (decrypt_column (fx_secret_env 200) fx_secret_engine (oauth2_client_secret_key_name fx_owner) (Some ct) ''oauth_client_secret'' (pv_world fx_owner_state)) =
       Inl (Encryption (KeyNameMismatch (oauth2_refresh_token_key_name fx_owner) (oauth2_client_secret_key_name fx_owner)))"
proof -
  obtain ct w' where "secret_encrypt (fx_secret_env 200) fx_secret_engine (oauth2_refresh_token_key_name fx_owner) [1, 2] (pv_world fx_owner_state) = (Inr ct, w')"
    using fx_encrypt [OF fx_owner_names(3)] by blast
  with moved_secret_is_rejected [OF this fx_owner_names(1), of "oauth2_client_secret_key_name fx_owner" fx_owner]
  show ?thesis by (metis fst_conv)
qed

text \<open>Client credentials written for a tenant are what the next read under the row lock
  returns, with the refresh token column untouched.\<close>

lemma client_credentials_round_trip:
  assumes "engine_ok sv eng (oauth2_client_secret_key_name t)" and "list_all is_base58_char (tenant_bare t)"
    and "utf8_valid (str_bytes secret)"
    and "write_oauth_client_credentials p sv eng t client secret w = (Inr (), w1)" and "wdb w2 = wdb w1"
    and "read_oauth_credentials_for_update p sv eng t w2 = (Inr creds, w3)"
  shows "\<exists>c. creds = Some c \<and> oc_client_id c = Some client \<and> oc_client_secret c = Some secret"
proof -
  obtain ct w0 where enc: "secret_encrypt sv eng (oauth2_client_secret_key_name t) (str_bytes secret) w = (Inr ct, w0)"
    and upd: "update_tenant p t (\<lambda>t. t\<lparr> tn_oauth_client_id := Some client, tn_oauth_client_secret := Some ct \<rparr>) w0 = (Inr (), w1)"
    using assms(4) by (auto simp: write_oauth_client_credentials_def eff_success)
  let ?f = "\<lambda>t. t\<lparr> tn_oauth_client_id := Some client, tn_oauth_client_secret := Some ct \<rparr>"
  have rows: "tenants (wdb w2) = update_where (\<lambda>x. tn_id x = t) ?f (tenants (wdb w0))" and ex: "t \<in> tn_id ` set (tenants (wdb w0))"
    using update_tenant_success [OF upd] assms(5) by auto
  have "\<exists>r. row_by tn_id t (update_where (\<lambda>x. tn_id x = t) ?f rs) = Some (?f r)" if "t \<in> tn_id ` set rs" for rs
    using that by (induction rs) (auto simp: row_by_def update_where_def)
  from this [OF ex] obtain r where r: "row_by tn_id t (tenants (wdb w2)) = Some (?f r)" unfolding rows by blast
  have "creds \<noteq> None"
    using assms(6) r by (auto simp: read_oauth_credentials_for_update_def find_tenant_by_id_def eff_success split: option.splits dest!: run_query_success)
  then obtain c where c: "creds = Some c" by blast
  have "oc_client_id c = Some client \<and> (\<exists>w. fst (decrypt_column sv eng (oauth2_client_secret_key_name t) (Some ct) ''oauth_client_secret'' w) = Inr (oc_client_secret c))"
    using read_oauth_success [OF assms(6) [unfolded c]] r by auto
  then show ?thesis
    using written_column_reads_back [OF assms(1) enc ascii_utf8 [OF key_name_ascii(2) [OF base58_ascii [OF assms(2)]]] assms(3)] c by auto
qed

theorem client_credentials_round_trip_witness:
  "\<exists>w1 c w3. write_oauth_client_credentials fx_pool (fx_secret_env 200) fx_secret_engine fx_owner ''id'' ''s9'' (pv_world fx_owner_state) = (Inr (), w1) \<and>
     read_oauth_credentials_for_update fx_pool (fx_secret_env 200) fx_secret_engine fx_owner w1 = (Inr (Some c), w3) \<and>
     oc_client_id c = Some ''id'' \<and> oc_client_secret c = Some ''s9''"
proof -
  have u: "utf8_valid (str_bytes ''s9'')" by (rule ascii_utf8) (simp add: ascii_def)
  obtain w1 creds w3 where 1: "write_oauth_client_credentials fx_pool (fx_secret_env 200) fx_secret_engine fx_owner ''id'' ''s9'' (pv_world fx_owner_state) = (Inr (), w1)"
    and 3: "read_oauth_credentials_for_update fx_pool (fx_secret_env 200) fx_secret_engine fx_owner w1 = (Inr creds, w3)"
    using fx_owner_rewritten by blast
  from client_credentials_round_trip [OF fx_engine_ok fx_owner_names(1) u 1 refl 3] show ?thesis using 1 3 by blast
qed

section \<open>A lifetime out of range\<close>

text \<open>
  The lifetime of the reply is turned into a point in time only after the rotated token is
  committed, with arithmetic that panics when it does not fit: an authorization server that
  answers with such a lifetime makes the call panic although the rotation is stored.
\<close>

theorem huge_lifetime_panics_after_commit:
  "\<exists>m s' t ct. refresh_and_cache (fx_token_provider 200 (2 ^ 62)) fx_owner_state = (Inl (ProviderPanic m), s') \<and>
     pv_cached s' = None \<and>
     row_by tn_id fx_owner (tenants (wdb (pv_world s'))) = Some (t\<lparr> tn_oauth_refresh_token := Some ct \<rparr>) \<and>
     fst (decrypt_column (fx_secret_env 200) fx_secret_engine (oauth2_refresh_token_key_name fx_owner) (Some ct)
        ''oauth_refresh_token'' (pv_world s')) = Inr (Some ''r2'')"
proof -
  have cold: "pv_cached fx_owner_state = None" by (simp add: fx_owner_state_def)
  obtain w' where tx: "refresh_tx (fx_token_provider 200 (2 ^ 62)) (pv_world fx_owner_state) =
      (Inr \<lparr> gr_access_token = ''a1'', gr_refresh_token = ''r2'', gr_expires_in = 2 ^ 62 \<rparr>, w')"
    using fx_owner_tx [of "2 ^ 62"] by auto
  obtain t ct w1 w2 where row: "row_by tn_id fx_owner (tenants (wdb (pv_world fx_owner_state))) = Some t"
    and enc: "secret_encrypt (fx_secret_env 200) fx_secret_engine (oauth2_refresh_token_key_name fx_owner) (str_bytes ''r2'') w1 = (Inr ct, w2)"
    and db: "wdb w' = tenants_update (update_where (\<lambda>t. tn_id t = fx_owner) (\<lambda>t. t\<lparr> tn_oauth_refresh_token := Some ct \<rparr>)) (wdb (pv_world fx_owner_state))"
    using refresh_tx_success [OF tx] by auto
  have "utf8_valid (str_bytes ''r2'')" by (rule ascii_utf8) (simp add: ascii_def)
  note ct = written_column_reads_back [OF fx_engine_ok enc fx_owner_names(5) this]
  show ?thesis using fx_refresh_run [OF tx cold] row ct cold by (auto simp: add_seconds_def db)
qed

end
