(* ===== verification/TenantCliProps.thy ===== *)
theory TenantCliProps
  imports TenantCli Progress OAuth2Props
begin

text \<open>
  The operator's tool may be run again and again: what a second bootstrap changes, which
  secrets a bootstrap can overwrite, and that waiting for an issuer ends.
\<close>

lemma run_stmt_leaves:
  assumes "run_stmt p q w = (Inr a, w')" and "\<And>d. q (wdb w) = Inr (a, d) \<Longrightarrow> R d"
  shows "R (wdb w')"
  using run_stmt_success [OF assms(1)] assms(2) by blast

section \<open>Fixtures\<close>

definition fx_cli :: "nat cli_env" where
  "fx_cli = \<lparr> ce_pool = fx_pool, ce_host = fx_host, ce_secrets = fx_secret_env 200, ce_engine = fx_secret_engine, ce_parse_uuid = Inr,
     ce_instant = (\<lambda>w. wext w), ce_pause = (\<lambda>i w. w\<lparr> wext := wext w + i \<rparr>) \<rparr>"

definition fx_bootstrap :: bootstrap_args where
  "fx_bootstrap = \<lparr> ba_partner_id = ''p1'', ba_display_name = Some ''Dev'', ba_description = None, ba_client_id = None,
     ba_client_secret = None, ba_refresh_token = None \<rparr>"

definition fx_dev_world :: "nat world" where
  "fx_dev_world = \<lparr> wdb = fx_db\<lparr> credential_types := [fx_ctype\<lparr> ct_vct := DEV_DUMMY_VCT \<rparr>] \<rparr>, wext = 0 \<rparr>"

lemma fx_bootstraps: "\<exists>w1. bootstrap_dev_from_env fx_cli fx_bootstrap True fx_dev_world = (Inr (TenantId (fx_bare 1)), w1)"
  by (simp add: bootstrap_dev_from_env_def bootstrap_tenant_def find_tenant_by_partner_id_def bindE_run mapErr_run fx_cli_def fx_run
      fx_bootstrap_def fx_dev_world_def fx_db_def fx_tenant_def row_by_def bootstrap_existing_def update_metadata_def Let_def tenant_metadata_def
      update_where_def write_given_client_def write_given_token_def seed_dev_credential_type_and_assignments_def seed_credential_type_def
      rewrite_dev_type_def find_by_vct_for_tenant_def update_structured_def update_blob_schema_def update_blob_display_def
      update_blob_claims_def update_type_blob_def list_issuers_page_def fx_ctype_def credential_type_new_def update_stmt_def type_of_tenant_def
      apply_structured_def coalesce_def keyset_page_def order_desc_def fx_issuer_def assign_type_def fx_host_def)
section \<open>Stored secrets survive a bootstrap\<close>

text \<open>
  What a bootstrap without \<open>force\<close> leaves of a table: the row keeps everything but the
  secrets it did not have, and the other rows are as they were.
\<close>

definition keeps_secrets :: "tenant \<Rightarrow> tenant list \<Rightarrow> tenant list \<Rightarrow> bool" where
  "keeps_secrets t before after \<longleftrightarrow>
     (\<exists>t'. row_by tn_id (tn_id t) after = Some t' \<and> blank_oauth t' = blank_oauth t \<and>
        (tn_oauth_refresh_token t \<noteq> None \<longrightarrow> tn_oauth_refresh_token t' = tn_oauth_refresh_token t) \<and>
        (tn_oauth_client_id t \<noteq> None \<or> tn_oauth_client_secret t \<noteq> None \<longrightarrow>
           tn_oauth_client_id t' = tn_oauth_client_id t \<and> tn_oauth_client_secret t' = tn_oauth_client_secret t)) \<and>
     (\<forall>j. j \<noteq> tn_id t \<longrightarrow> row_by tn_id j after = row_by tn_id j before)"

lemma keeps_secrets_update:
  assumes "keeps_secrets t before rows" and "\<And>u. blank_oauth (f u) = blank_oauth u" and "\<And>u. tn_id (f u) = tn_id u"
    and "tn_oauth_refresh_token t \<noteq> None \<Longrightarrow> (\<And>u. tn_oauth_refresh_token (f u) = tn_oauth_refresh_token u)"
    and "tn_oauth_client_id t \<noteq> None \<or> tn_oauth_client_secret t \<noteq> None \<Longrightarrow>
      (\<And>u. tn_oauth_client_id (f u) = tn_oauth_client_id u \<and> tn_oauth_client_secret (f u) = tn_oauth_client_secret u)"
  shows "keeps_secrets t before (update_where (\<lambda>u. tn_id u = tn_id t) f rows)"
  using assms unfolding keeps_secrets_def by auto

lemma update_tenant_keeps_secrets:
  assumes "\<And>u. blank_oauth (f u) = blank_oauth u" and "\<And>u. tn_id (f u) = tn_id u"
    and "tn_oauth_refresh_token t \<noteq> None \<Longrightarrow> (\<And>u. tn_oauth_refresh_token (f u) = tn_oauth_refresh_token u)"
    and "tn_oauth_client_id t \<noteq> None \<or> tn_oauth_client_secret t \<noteq> None \<Longrightarrow>
      (\<And>u. tn_oauth_client_id (f u) = tn_oauth_client_id u \<and> tn_oauth_client_secret (f u) = tn_oauth_client_secret u)"
  shows "preserves (\<lambda>w. keeps_secrets t before (tenants (wdb w))) (update_tenant p (tn_id t) f)"
  unfolding update_tenant_def
  by (intro pres run_stmt_preserves [where P = "\<lambda>d. keeps_secrets t before (tenants d)"])
     (auto simp: update_stmt_def intro!: keeps_secrets_update assms)

lemma client_write_keeps_secrets:
  assumes "tn_oauth_client_id t = None \<and> tn_oauth_client_secret t = None"
  shows "preserves (\<lambda>w. keeps_secrets t before (tenants (wdb w))) (write_given_client ce (tn_id t) args)"
  unfolding write_given_client_def write_oauth_client_credentials_def
  by (auto split: option.splits intro!: pres update_tenant_keeps_secrets
      secret_engine_keeps [where P = "\<lambda>d. keeps_secrets t before (tenants d)"] simp: assms blank_oauth_def)

lemma token_write_keeps_secrets:
  assumes "tn_oauth_refresh_token t = None"
  shows "preserves (\<lambda>w. keeps_secrets t before (tenants (wdb w))) (write_given_token ce (tn_id t) args)"
  unfolding write_given_token_def write_oauth_refresh_token_def
  by (auto split: option.splits intro!: pres update_tenant_keeps_secrets
      secret_engine_keeps [where P = "\<lambda>d. keeps_secrets t before (tenants d)"] simp: assms blank_oauth_def)

lemma existing_keeps_secrets:
  "preserves (\<lambda>w. keeps_secrets t before (tenants (wdb w))) (bootstrap_existing ce args False t)"
  unfolding bootstrap_existing_def
  by (simp only: if_False simp_thms) (intro pres client_write_keeps_secrets token_write_keeps_secrets; simp)

lemma bootstrap_tenant_keeps_secrets:
  assumes "tenants_inv (wdb w)" and "t \<in> set (tenants (wdb w))" and "tn_partner_id t = ba_partner_id args"
    and "bootstrap_tenant ce args False w = (r, w')"
  shows "keeps_secrets t (tenants (wdb w)) (tenants (wdb w'))"
proof -
  have start: "keeps_secrets t (tenants (wdb w)) (tenants (wdb w))"
    using assms(1,2) by (simp add: keeps_secrets_def tenants_inv_def row_by_unique)
  from in_tx_atomic [OF assms(4) [unfolded bootstrap_tenant_def]] show ?thesis
  proof (elim disjE exE conjE)
    fix w0 a w1
    assume w0: "wdb w0 = wdb w" "wdb w' = wdb w1"
      and "bindE (mapErr BootPersistence (find_tenant_by_partner_id (ce_pool ce) (ba_partner_id args))) (\<lambda>found.
        bindE (case found of None \<Rightarrow> bootstrap_new ce args | Some t \<Rightarrow> bootstrap_existing ce args False t) (\<lambda>tenant.
        ret (Commit tenant))) w0 = (Inr (Commit a), w1)"
    then obtain found w2 where found: "find_tenant_by_partner_id (ce_pool ce) (ba_partner_id args) w0 = (Inr found, w2)"
      and body: "(case found of None \<Rightarrow> bootstrap_new ce args | Some t \<Rightarrow> bootstrap_existing ce args False t) w2 = (Inr a, w1)"
      by (auto simp: eff_success)
    have "found = Some t" "wdb w2 = wdb w"
      using found assms(1-3) w0 row_by_unique [of tn_partner_id "tenants (wdb w)" t]
      by (auto simp: find_tenant_by_partner_id_def eff_success tenants_inv_def dest!: run_query_success)
    then show ?thesis using preserves_outcome [OF existing_keeps_secrets [of t "tenants (wdb w)"], of w2] body start w0 by simp
  qed (simp add: start)
qed

lemma blobs_keep_tenants:
  "preserves (\<lambda>w. Q (tenants (wdb w))) (update_type_blob p tn ci f)"
  "preserves (\<lambda>w. Q (tenants (wdb w))) (update_structured p tn ci u)"
  unfolding update_type_blob_def update_structured_def
  by (intro pres run_stmt_world_preserves [where P = "\<lambda>d. Q (tenants d)"]; auto simp: update_stmt_def split: if_splits)+

lemma seed_keeps_tenants: "preserves (\<lambda>w. Q (tenants (wdb w))) (seed_dev_credential_type_and_assignments ce tn force)"
proof -
  let ?P = "\<lambda>d. Q (tenants d)"
  have listed: "preserves (\<lambda>w. Q (tenants (wdb w))) (assign_listed ce tn ci is)" for ci "is"
    by (induction "is") (auto simp: assign_type_def intro!: pres run_stmt_preserves [where P = ?P] split: if_splits)
  show ?thesis
    unfolding seed_dev_credential_type_and_assignments_def seed_credential_type_def rewrite_dev_type_def insert_dev_type_def update_blob_schema_def
      update_blob_display_def update_blob_claims_def insert_credential_type_def find_by_vct_for_tenant_def
      list_issuers_page_def Let_def
    by (intro in_tx_preserves [where P = ?P] pres blobs_keep_tenants listed run_stmt_preserves [where P = ?P])
       (auto split: if_splits)
qed

text \<open>C38. Whatever the outcome of a bootstrap without \<open>force\<close>, faults of the database included, the row of the
  development tenant keeps its name, its description and every secret it had, so a refresh token that was rotated
  at run time is never overwritten, and no other tenant's row changes.\<close>

theorem bootstrap_keeps_stored_secrets:
  assumes "tenants_inv (wdb w)" and "t \<in> set (tenants (wdb w))" and "tn_partner_id t = ba_partner_id args"
    and "bootstrap_dev_from_env ce args False w = (r, w')"
  shows "keeps_secrets t (tenants (wdb w)) (tenants (wdb w'))"
proof -
  obtain r1 w1 where boot: "bootstrap_tenant ce args False w = (r1, w1)" by fastforce
  note kept = bootstrap_tenant_keeps_secrets [OF assms(1-3) boot]
  show ?thesis
  proof (cases r1)
    case (Inl e)
    then show ?thesis using assms(4) boot kept by (simp add: bootstrap_dev_from_env_def bindE_run)
  next
    case (Inr tenant)
    obtain r2 w2 where seed: "seed_dev_credential_type_and_assignments ce tenant False w1 = (r2, w2)" by fastforce
    have "keeps_secrets t (tenants (wdb w)) (tenants (wdb w2))"
      using preserves_outcome [OF seed_keeps_tenants [where Q = "keeps_secrets t (tenants (wdb w))"] kept seed] .
    moreover have "w' = w2" using assms(4) boot seed Inr by (auto simp: bootstrap_dev_from_env_def bindE_run split: sum.splits)
    ultimately show ?thesis by simp
  qed
qed

theorem bootstrap_keeps_stored_secrets_witness:
  "\<exists>r w'. bootstrap_dev_from_env fx_cli fx_bootstrap False fx_dev_world = (r, w') \<and>
     keeps_secrets fx_tenant (tenants (wdb fx_dev_world)) (tenants (wdb w'))"
proof -
  obtain r w' where run: "bootstrap_dev_from_env fx_cli fx_bootstrap False fx_dev_world = (r, w')" by fastforce
  have "tenants_inv (wdb fx_dev_world)" "fx_tenant \<in> set (tenants (wdb fx_dev_world))" "tn_partner_id fx_tenant = ba_partner_id fx_bootstrap"
    by (simp_all add: tenants_inv_def fx_dev_world_def fx_db_def fx_tenant_def fx_bootstrap_def)
  from bootstrap_keeps_stored_secrets [OF this run] show ?thesis using run by blast
qed

section \<open>A second bootstrap changes nothing\<close>

text \<open>What a successful bootstrap leaves: no secret of the arguments is missing from the row.\<close>

definition client_given :: "bootstrap_args \<Rightarrow> bool" where
  "client_given args \<longleftrightarrow> ba_client_id args \<noteq> None \<and> ba_client_secret args \<noteq> None"

definition settled_row :: "bootstrap_args \<Rightarrow> tenant \<Rightarrow> bool" where
  "settled_row args t \<longleftrightarrow> (client_given args \<longrightarrow> tn_oauth_client_id t \<noteq> None \<or> tn_oauth_client_secret t \<noteq> None) \<and>
     (ba_refresh_token args \<noteq> None \<longrightarrow> tn_oauth_refresh_token t \<noteq> None)"

abbreviation partner_row :: "string \<Rightarrow> 'x world \<Rightarrow> tenant option" where
  "partner_row partner w \<equiv> row_by tn_partner_id partner (tenants (wdb w))"

lemma partner_row_update:
  assumes "tenants (wdb w') = update_where (\<lambda>t. tn_id t = i) f (tenants (wdb w))" and "\<And>t. tn_partner_id (f t) = tn_partner_id t"
  shows "partner_row q w' = map_option (\<lambda>t. if tn_id t = i then f t else t) (partner_row q w)"
  using assms by (simp add: row_by_update_where_map)

lemma insert_tenant_rows:
  assumes "insert_tenant p i partner n ds w = (Inr u, w')"
  shows "tenants (wdb w') = tenants (wdb w) @ [\<lparr> tn_id = i, tn_partner_id = partner, tn_display_name = n, tn_description = ds,
     tn_oauth_client_id = None, tn_oauth_client_secret = None, tn_oauth_refresh_token = None \<rparr>]"
  using assms unfolding insert_tenant_def mapErr_eq_Inr by (rule run_stmt_leaves) (auto split: if_splits)

lemma update_metadata_rows:
  assumes "update_metadata p i partner n ds w = (Inr u, w')"
  shows "tenants (wdb w') = update_where (\<lambda>t. tn_id t = i) (tenant_metadata partner n ds) (tenants (wdb w))"
  using assms unfolding update_metadata_def
  by (auto simp: eff_success Let_def dest!: run_stmt_success arg_cong [where f = tenants] split: if_splits)

lemma given_client_effect:
  assumes "write_given_client ce i args w = (Inr u, w')" and "partner_row q w = Some t" and "tn_id t = i"
  shows "\<exists>t'. partner_row q w' = Some t' \<and> tn_id t' = i \<and> (client_given args \<longrightarrow> tn_oauth_client_id t' \<noteq> None) \<and>
    tn_oauth_refresh_token t' = tn_oauth_refresh_token t"
proof (cases "client_given args")
  case True
  then obtain c s ct w1 where enc: "secret_encrypt (ce_secrets ce) (ce_engine ce) (oauth2_client_secret_key_name i) (str_bytes s) w = (Inr ct, w1)"
    and upd: "update_tenant (ce_pool ce) i (\<lambda>t. t\<lparr> tn_oauth_client_id := Some c, tn_oauth_client_secret := Some ct \<rparr>) w1 = (Inr u, w')"
    using assms(1) by (auto simp: client_given_def write_given_client_def write_oauth_client_credentials_def eff_success)
  have "wdb w1 = wdb w" using preserves_outcome [OF secret_engine_keeps(1) [where P = "\<lambda>d. d = wdb w"] refl enc] .
  then have "tenants (wdb w') = update_where (\<lambda>t. tn_id t = i) (\<lambda>t. t\<lparr> tn_oauth_client_id := Some c, tn_oauth_client_secret := Some ct \<rparr>) (tenants (wdb w))"
    using update_tenant_success [OF upd] by simp
  from partner_row_update [OF this] show ?thesis using assms(2,3) by (simp add: True)
next
  case False
  then show ?thesis using assms by (auto simp: client_given_def write_given_client_def split: option.splits)
qed

lemma given_token_effect:
  assumes "write_given_token ce i args w = (Inr u, w')" and "partner_row q w = Some t" and "tn_id t = i"
  shows "\<exists>t'. partner_row q w' = Some t' \<and> tn_id t' = i \<and> (ba_refresh_token args \<noteq> None \<longrightarrow> tn_oauth_refresh_token t' \<noteq> None) \<and>
    tn_oauth_client_id t' = tn_oauth_client_id t \<and> tn_oauth_client_secret t' = tn_oauth_client_secret t"
proof (cases "ba_refresh_token args")
  case (Some s)
  then obtain ct w1 where enc: "secret_encrypt (ce_secrets ce) (ce_engine ce) (oauth2_refresh_token_key_name i) (str_bytes s) w = (Inr ct, w1)"
    and upd: "update_tenant (ce_pool ce) i (\<lambda>t. t\<lparr> tn_oauth_refresh_token := Some ct \<rparr>) w1 = (Inr u, w')"
    using assms(1) by (auto simp: write_given_token_def write_oauth_refresh_token_def eff_success)
  have "wdb w1 = wdb w" using preserves_outcome [OF secret_engine_keeps(1) [where P = "\<lambda>d. d = wdb w"] refl enc] .
  then have "tenants (wdb w') = update_where (\<lambda>t. tn_id t = i) (\<lambda>t. t\<lparr> tn_oauth_refresh_token := Some ct \<rparr>) (tenants (wdb w))"
    using update_tenant_success [OF upd] by simp
  from partner_row_update [OF this] show ?thesis using assms(2,3) by simp
next
  case None
  then show ?thesis using assms by (simp add: write_given_token_def)
qed

text \<open>Both writes, as a new or a forced row gets them.\<close>

lemma given_secrets_settle:
  assumes "write_given_client ce i args w = (Inr u, w1)" and "write_given_token ce i args w1 = (Inr v, w')"
    and "partner_row q w = Some t" and "tn_id t = i"
  shows "\<exists>t'. partner_row q w' = Some t' \<and> tn_id t' = i \<and> settled_row args t'"
  using given_client_effect [OF assms(1,3,4)] given_token_effect [OF assms(2)] unfolding settled_row_def by metis

lemma bootstrap_new_settles:
  assumes "bootstrap_new ce args w = (Inr i, w')" and "partner_row (ba_partner_id args) w = None"
  shows "\<exists>t'. partner_row (ba_partner_id args) w' = Some t' \<and> tn_id t' = i \<and> settled_row args t'"
proof -
  obtain bare w0 u1 w1 u2 w2 u3 where gen: "generate_bare (ce_host ce) w = (Inr bare :: bootstrap_error + string, w0)" "i = TenantId bare"
    and ins: "insert_tenant (ce_pool ce) i (ba_partner_id args) (ba_display_name args) (ba_description args) w0 = (Inr u1, w1)"
    and writes: "write_given_client ce i args w1 = (Inr u2, w2)" "write_given_token ce i args w2 = (Inr u3, w')"
    using assms(1) by (auto simp: bootstrap_new_def Let_def eff_success)
  have "wdb w0 = wdb w" using preserves_outcome [OF generate_bare_keeps_db [where P = "\<lambda>d. d = wdb w"] refl gen(1)] .
  then have "\<exists>t. partner_row (ba_partner_id args) w1 = Some t \<and> tn_id t = i"
    using insert_tenant_rows [OF ins] assms(2) by (simp add: row_by_def find_append)
  then show ?thesis using given_secrets_settle [OF writes] by blast
qed

lemma bootstrap_existing_settles:
  assumes "bootstrap_existing ce args force t w = (Inr i, w')" and "partner_row q w = Some t"
  shows "\<exists>t'. partner_row q w' = Some t' \<and> tn_id t' = i \<and> settled_row args t'"
proof (cases force)
  case True
  then obtain u1 w1 u2 w2 u3 where i: "i = tn_id t"
    and meta: "update_metadata (ce_pool ce) i None (ba_display_name args) (ba_description args) w = (Inr u1, w1)"
    and writes: "write_given_client ce i args w1 = (Inr u2, w2)" "write_given_token ce i args w2 = (Inr u3, w')"
    using assms(1) by (auto simp: bootstrap_existing_def eff_success)
  have "tenants (wdb w1) = update_where (\<lambda>t. tn_id t = i) (tenant_metadata None (ba_display_name args) (ba_description args)) (tenants (wdb w))"
    by (rule update_metadata_rows [OF meta])
  from partner_row_update [OF this] assms(2) i have "\<exists>t1. partner_row q w1 = Some t1 \<and> tn_id t1 = i"
    by (simp add: tenant_metadata_def)
  then show ?thesis using given_secrets_settle [OF writes] by blast
next
  case False
  then obtain u1 w1 u2 where i: "i = tn_id t"
    and first: "(if tn_oauth_client_id t = None \<and> tn_oauth_client_secret t = None then write_given_client ce i args else ret ()) w = (Inr u1, w1)"
    and second: "(if tn_oauth_refresh_token t = None then write_given_token ce i args else ret ()) w1 = (Inr u2, w')"
    using assms(1) by (auto simp: bootstrap_existing_def eff_success)
  obtain t1 where t1: "partner_row q w1 = Some t1" "tn_id t1 = i" "tn_oauth_refresh_token t1 = tn_oauth_refresh_token t"
    "client_given args \<longrightarrow> tn_oauth_client_id t1 \<noteq> None \<or> tn_oauth_client_secret t1 \<noteq> None"
    using first given_client_effect [OF _ assms(2)] i assms(2) by (fastforce split: if_splits)
  then show ?thesis using second given_token_effect [OF _ t1(1,2)] unfolding settled_row_def by (fastforce split: if_splits)
qed

lemma bootstrap_tenant_settles:
  assumes "bootstrap_tenant ce args force w = (Inr i, w')"
  shows "\<exists>t. partner_row (ba_partner_id args) w' = Some t \<and> tn_id t = i \<and> settled_row args t"
proof -
  obtain w0 found w1 w2 where found: "find_tenant_by_partner_id (ce_pool ce) (ba_partner_id args) w0 = (Inr found, w1)"
    and body: "(case found of None \<Rightarrow> bootstrap_new ce args | Some t \<Rightarrow> bootstrap_existing ce args force t) w1 = (Inr i, w2)"
    and commit: "wdb w' = wdb w2"
    using in_tx_success [OF assms [unfolded bootstrap_tenant_def]] by (auto simp: eff_success)
  have "partner_row (ba_partner_id args) w1 = found"
    using found by (auto simp: find_tenant_by_partner_id_def eff_success dest!: run_query_success)
  then show ?thesis
    using body commit bootstrap_new_settles [of ce args w1 i w2] bootstrap_existing_settles [of ce args force _ w1 i w2]
    by (cases found) auto
qed

text \<open>What a successful seed leaves: the type exists and the listed issuers have it.\<close>

definition dummy_type :: "tenant_id \<Rightarrow> db \<Rightarrow> credential_type option" where
  "dummy_type tenant d = find (\<lambda>c. ct_tenant_id c = tenant \<and> ct_vct c = DEV_DUMMY_VCT) (credential_types d)"

definition first_issuers :: "tenant_id \<Rightarrow> db \<Rightarrow> issuer list" where
  "first_issuers tenant d = lp_items (keyset_page issuer_page_key 100 None
     (filter (\<lambda>i. iss_tenant_id i = tenant \<and> iss_state i \<noteq> None) (map ir_issuer (issuers d))))"

definition has_type :: "ctype_id \<Rightarrow> db \<Rightarrow> issuer \<Rightarrow> bool" where
  "has_type k d i \<longleftrightarrow> (\<exists>b \<in> set (issuer_credential_types d). assigned_pair (iss_id i) k b)"

definition seeded :: "tenant_id \<Rightarrow> db \<Rightarrow> bool" where
  "seeded tenant d \<longleftrightarrow> (\<exists>c. dummy_type tenant d = Some c \<and> (\<forall>i \<in> set (first_issuers tenant d). has_type (ct_id c) d i))"

lemma dummy_type_update:
  assumes "\<And>c. ct_tenant_id (f c) = ct_tenant_id c \<and> ct_vct (f c) = ct_vct c \<and> ct_id (f c) = ct_id c"
  shows "map_option ct_id (dummy_type tenant (credential_types_update (update_where q f) d)) = map_option ct_id (dummy_type tenant d)"
proof -
  have "dummy_type tenant (credential_types_update (update_where q f) d) = map_option (\<lambda>c. if q c then f c else c) (dummy_type tenant d)"
    unfolding dummy_type_def using assms by (simp add: find_update_where_map)
  then show ?thesis by (cases "dummy_type tenant d") (simp_all add: assms)
qed

lemma rewrites_keep_dummy_type:
  fixes m :: "ctype_id option"
  shows "preserves (\<lambda>w. map_option ct_id (dummy_type tenant (wdb w)) = m) (update_blob_schema p tn k j)"
    "preserves (\<lambda>w. map_option ct_id (dummy_type tenant (wdb w)) = m) (update_blob_display p tn k j)"
    "preserves (\<lambda>w. map_option ct_id (dummy_type tenant (wdb w)) = m) (update_blob_claims p tn k j)"
    "su_vct u = None \<Longrightarrow> preserves (\<lambda>w. map_option ct_id (dummy_type tenant (wdb w)) = m) (update_structured p tn k u)"
  unfolding update_blob_schema_def update_blob_display_def update_blob_claims_def update_type_blob_def update_structured_def
  by (intro pres run_stmt_world_preserves [where P = "\<lambda>d. map_option ct_id (dummy_type tenant d) = m"];
      auto simp: update_stmt_def dummy_type_update apply_structured_def coalesce_def split: if_splits)+

lemma rewrite_dev_type_success:
  assumes "rewrite_dev_type ce tenant k w = (Inr k', w')" and "map_option ct_id (dummy_type tenant (wdb w)) = Some k"
  shows "k' = k \<and> map_option ct_id (dummy_type tenant (wdb w')) = Some k"
proof -
  have "preserves (\<lambda>w. map_option ct_id (dummy_type tenant (wdb w)) = Some k) (rewrite_dev_type ce tenant k)"
    unfolding rewrite_dev_type_def Let_def by (intro pres rewrites_keep_dummy_type) simp
  moreover have "k' = k" using assms(1) by (auto simp: rewrite_dev_type_def Let_def eff_success)
  ultimately show ?thesis using assms unfolding preserves_def by (metis snd_conv)
qed

lemma insert_dev_type_success:
  assumes "insert_dev_type ce tenant w = (Inr k, w')" and "dummy_type tenant (wdb w) = None"
  shows "map_option ct_id (dummy_type tenant (wdb w')) = Some k"
proof -
  obtain bare now w1 w2 u where gen: "generate_bare (ce_host ce) w = (Inr bare :: persistence_error + string, w1)"
    and now: "utc_now (ce_host ce) w1 = (Inr now :: persistence_error + datetime, w2)" and k: "k = CredentialTypeId bare"
    and ins: "insert_credential_type (ce_pool ce) (credential_type_new k now tenant DEV_DUMMY_VCT dev_dummy_display
        (Some DEV_DUMMY_INTERNAL_DESCRIPTION) dev_dummy_claim_schema dev_dummy_claims DEV_VALIDITY RevocableAndSuspendable) w2 = (Inr u, w')"
    using assms(1) by (auto simp: insert_dev_type_def eff_success)
  have "wdb w2 = wdb w"
    using preserves_outcome [OF generate_bare_keeps_db [where P = "\<lambda>d. d = wdb w"] refl gen] now by auto
  then show ?thesis
    using ins assms(2) unfolding insert_credential_type_def mapErr_eq_Inr
    by (elim run_stmt_leaves [where R = "\<lambda>d. map_option ct_id (dummy_type tenant d) = Some k"])
       (auto simp: dummy_type_def find_append credential_type_new_def split: if_splits)
qed

lemma seed_type_success:
  assumes "seed_credential_type ce tenant force w = (Inr k, w')"
  shows "map_option ct_id (dummy_type tenant (wdb w')) = Some k"
proof -
  obtain existing w1 where found: "find_by_vct_for_tenant (ce_pool ce) tenant DEV_DUMMY_VCT w = (Inr existing, w1)"
    and body: "(case existing of Some row \<Rightarrow> if force then rewrite_dev_type ce tenant (ct_id row) else ret (ct_id row)
       | None \<Rightarrow> insert_dev_type ce tenant) w1 = (Inr k, w')"
    using assms by (auto simp: seed_credential_type_def eff_success)
  have known: "dummy_type tenant (wdb w1) = existing"
    using found by (auto simp: find_by_vct_for_tenant_def dummy_type_def eff_success dest!: run_query_success)
  show ?thesis
    using body known insert_dev_type_success [of ce tenant w1 k w'] rewrite_dev_type_success [of ce tenant _ w1 k w']
    by (cases existing) (auto split: if_splits)
qed

lemma assign_listed_success:
  assumes "assign_listed ce tenant k is w = (Inr u, w')"
  shows "credential_types (wdb w') = credential_types (wdb w) \<and> issuers (wdb w') = issuers (wdb w) \<and>
    set (issuer_credential_types (wdb w)) \<subseteq> set (issuer_credential_types (wdb w')) \<and> (\<forall>i \<in> set is. has_type k (wdb w') i)"
  using assms
proof (induction "is" arbitrary: w)
  case (Cons i rest)
  then obtain now w1 out w2 where now: "utc_now (ce_host ce) w = (Inr now :: persistence_error + datetime, w1)"
    and assign: "assign_type (ce_pool ce) \<lparr> as_issuer_id = iss_id i, as_credential_type_id = k, as_tenant_id = tenant,
        as_assigned_at = now \<rparr> w1 = (Inr out, w2)" and rest: "assign_listed ce tenant k rest w2 = (Inr u, w')"
    by (auto simp: eff_success)
  have w1: "wdb w1 = wdb w" using now by auto
  have "credential_types (wdb w2) = credential_types (wdb w) \<and> issuers (wdb w2) = issuers (wdb w) \<and>
      set (issuer_credential_types (wdb w)) \<subseteq> set (issuer_credential_types (wdb w2)) \<and> has_type k (wdb w2) i"
    using assign unfolding assign_type_def mapErr_eq_Inr
    by (rule run_stmt_leaves) (auto simp: w1 has_type_def split: if_splits)
  then show ?case using Cons.IH [OF rest] by (auto simp: has_type_def)
qed simp

lemma seed_success:
  assumes "seed_dev_credential_type_and_assignments ce tenant force w = (Inr u, w')"
  shows "seeded tenant (wdb w')"
proof -
  obtain w0 k w1 page w2 w3 where seed: "seed_credential_type ce tenant force w0 = (Inr k, w1)"
    and page: "list_issuers_page (ce_pool ce) tenant None 100 w1 = (Inr page, w2)"
    and assign: "assign_listed ce tenant k (lp_items page) w2 = (Inr (), w3)" and commit: "wdb w' = wdb w3"
    using in_tx_success [OF assms [unfolded seed_dev_credential_type_and_assignments_def]] by (auto simp: eff_success)
  have "lp_items page = first_issuers tenant (wdb w1) \<and> wdb w2 = wdb w1"
    using page by (auto simp: list_issuers_page_def first_issuers_def eff_success dest!: run_query_success)
  then show ?thesis
    using seed_type_success [OF seed] assign_listed_success [OF assign] commit
    by (auto simp: seeded_def first_issuers_def dummy_type_def)
qed

lemma seed_again:
  assumes "pool_up (ce_pool ce)" and "seeded tenant (wdb w)"
  shows "yields (seed_dev_credential_type_and_assignments ce tenant False) w () (wdb w)"
proof -
  obtain c where c: "dummy_type tenant (wdb w) = Some c" and has: "\<And>i. i \<in> set (first_issuers tenant (wdb w)) \<Longrightarrow> has_type (ct_id c) (wdb w) i"
    using assms(2) unfolding seeded_def by blast
  have type: "yields (seed_credential_type ce tenant False) w' (ct_id c) (wdb w)" if "wdb w' = wdb w" for w'
    unfolding seed_credential_type_def find_by_vct_for_tenant_def
    by (rule yields_bind, rule yields_mapErr, rule yields_query [OF assms(1)])
       (use c that in \<open>auto simp: dummy_type_def\<close>)
  have list: "yields (list_issuers_page (ce_pool ce) tenant None 100) w' \<lparr> lp_items = first_issuers tenant (wdb w),
      lp_has_more = lp_has_more (keyset_page issuer_page_key 100 None (filter (\<lambda>i. iss_tenant_id i = tenant \<and> iss_state i \<noteq> None)
        (map ir_issuer (issuers (wdb w))))) \<rparr> (wdb w)" if "wdb w' = wdb w" for w'
    unfolding list_issuers_page_def that [symmetric]
    by (rule yields_mapErr, rule yields_query [OF assms(1)]) (simp add: first_issuers_def that)
  have assign: "yields (assign_listed ce tenant (ct_id c) is) w' () (wdb w)"
    if "wdb w' = wdb w" "\<And>i. i \<in> set is \<Longrightarrow> has_type (ct_id c) (wdb w) i" for "is" w'
    using that
  proof (induction "is" arbitrary: w')
    case (Cons i rest)
    show ?case unfolding assign_listed.simps
    proof (rule yields_clock, rule yields_bind)
      fix w1 :: "'a world" assume w1: "wdb w1 = wdb w'"
      show "yields (assign_type (ce_pool ce) \<lparr> as_issuer_id = iss_id i, as_credential_type_id = ct_id c, as_tenant_id = tenant,
        as_assigned_at = fst (host_clock (ce_host ce) (wext w')) \<rparr>) w1 AlreadyAssigned (wdb w)"
        unfolding assign_type_def
        by (rule yields_mapErr, rule yields_stmt [OF assms(1)]) (use Cons.prems w1 in \<open>auto simp: has_type_def\<close>)
    qed (use Cons in auto)
  qed simp
  show ?thesis
    unfolding seed_dev_credential_type_and_assignments_def
    by (rule yields_commit [OF assms(1)], rule yields_mapErr, rule yields_bind [OF type], assumption,
        rule yields_bind [OF list], assumption, rule yields_bind [OF assign]) (auto intro: has)
qed

lemma bootstrap_tenant_again:
  assumes "pool_up (ce_pool ce)" and "partner_row (ba_partner_id args) w = Some t" and "settled_row args t"
  shows "yields (bootstrap_tenant ce args False) w (tn_id t) (wdb w)"
proof -
  have "(if tn_oauth_client_id t = None \<and> tn_oauth_client_secret t = None then write_given_client ce (tn_id t) args else ret ()) = ret ()"
    using assms(3) by (cases "ba_client_id args"; cases "ba_client_secret args")
      (auto simp: settled_row_def client_given_def write_given_client_def)
  moreover have "(if tn_oauth_refresh_token t = None then write_given_token ce (tn_id t) args else ret ()) = ret ()"
    using assms(3) by (cases "ba_refresh_token args") (auto simp: settled_row_def write_given_token_def)
  ultimately have existing: "bootstrap_existing ce args False t = ret (tn_id t)"
    by (simp only: bootstrap_existing_def if_False bindE_ret_left)
  have find: "yields (mapErr BootPersistence (find_tenant_by_partner_id (ce_pool ce) (ba_partner_id args))) w' (Some t) (wdb w)"
    if "wdb w' = wdb w" for w'
    unfolding find_tenant_by_partner_id_def that [symmetric]
    by (intro yields_mapErr yields_query [OF assms(1)]) (simp add: that assms(2))
  show ?thesis
    unfolding bootstrap_tenant_def
    by (rule yields_commit [OF assms(1)], rule yields_bind [OF find]) (simp_all only: option.case existing bindE_ret_left yields_ret)
qed

text \<open>C39. Bootstrapping again, after a bootstrap succeeded with the same arguments (forced or not) and with a working
  database, succeeds, names the same tenant and changes no table: no secret is encrypted again, no credential type is
  added and no issuer is assigned twice.\<close>

theorem second_bootstrap_changes_nothing:
  assumes "bootstrap_dev_from_env ce args force w = (Inr i, w1)" and "pool_up (ce_pool ce)" and "wdb w2 = wdb w1"
  shows "\<exists>w3. bootstrap_dev_from_env ce args False w2 = (Inr i, w3) \<and> wdb w3 = wdb w2"
proof -
  obtain wb where boot: "bootstrap_tenant ce args force w = (Inr i, wb)"
    and seed: "seed_dev_credential_type_and_assignments ce i force wb = (Inr (), w1)"
    using assms(1) by (auto simp: bootstrap_dev_from_env_def eff_success)
  obtain t where t: "partner_row (ba_partner_id args) wb = Some t" "tn_id t = i" "settled_row args t"
    using bootstrap_tenant_settles [OF boot] by blast
  have "tenants (wdb w1) = tenants (wdb wb)"
    using preserves_outcome [OF seed_keeps_tenants [where Q = "\<lambda>ts. ts = tenants (wdb wb)"] refl seed] .
  then have row: "partner_row (ba_partner_id args) w2 = Some t" using t(1) assms(3) by simp
  have "seeded i (wdb w2)" using seed_success [OF seed] assms(3) by simp
  then have "yields (bootstrap_dev_from_env ce args False) w2 i (wdb w2)"
    unfolding bootstrap_dev_from_env_def
    by (intro yields_bind [OF bootstrap_tenant_again [OF assms(2) row t(3), unfolded t(2)]] yields_bind [OF seed_again [OF assms(2)]]) auto
  then show ?thesis by (auto simp: yields_def)
qed

theorem second_bootstrap_changes_nothing_witness:
  "\<exists>w1 w3. bootstrap_dev_from_env fx_cli fx_bootstrap True fx_dev_world = (Inr (TenantId (fx_bare 1)), w1) \<and>
     bootstrap_dev_from_env fx_cli fx_bootstrap False w1 = (Inr (TenantId (fx_bare 1)), w3) \<and> wdb w3 = wdb w1"
proof -
  obtain w1 where first: "bootstrap_dev_from_env fx_cli fx_bootstrap True fx_dev_world = (Inr (TenantId (fx_bare 1)), w1)"
    using fx_bootstraps by blast
  have "pool_up (ce_pool fx_cli)" by (simp add: fx_cli_def)
  from second_bootstrap_changes_nothing [OF first this refl] show ?thesis using first by blast
qed

section \<open>Waiting for the issuer ends\<close>

text \<open>Documented of \<open>Instant\<close> and of a sleep: the clock does not run back, and a sleep takes at least its duration.\<close>

definition clock_runs :: "'x cli_env \<Rightarrow> bool" where
  "clock_runs ce \<longleftrightarrow> (\<forall>i w. ce_instant ce w + i \<le> ce_instant ce (ce_pause ce i w)) \<and>
     (\<forall>tenant task w. ce_instant ce w \<le> ce_instant ce (snd (look_at_task ce tenant task w)))"

lemma wait_rounds_end:
  assumes "clock_runs ce" and "0 < interval" and "timeout \<le> ce_instant ce w - start + n * interval" and "start \<le> ce_instant ce w"
  shows "fst (wait_rounds (Suc n) ce tenant task interval timeout start w) \<noteq> Inr None"
  using assms(3,4)
proof (induction n arbitrary: w)
  case 0
  obtain r w1 where look: "look_at_task ce tenant task w = (r, w1)" by fastforce
  then have "ce_instant ce w \<le> ce_instant ce w1" using assms(1) unfolding clock_runs_def by (metis snd_conv)
  then show ?case using 0 look by (auto simp: bindE_run split: sum.splits)
next
  case (Suc n)
  obtain r w1 where look: "look_at_task ce tenant task w = (r, w1)" by fastforce
  have later: "ce_instant ce w \<le> ce_instant ce w1" "ce_instant ce w1 + interval \<le> ce_instant ce (ce_pause ce interval w1)"
    using assms(1) look unfolding clock_runs_def by (metis snd_conv, blast)
  have "fst (wait_rounds (Suc n) ce tenant task interval timeout start (ce_pause ce interval w1)) \<noteq> Inr None"
    by (rule Suc.IH) (use Suc.prems later in auto)
  then show ?case using look by (subst wait_rounds.simps) (simp add: bindE_run split: sum.splits)
qed

definition task_completed :: "tenant_id \<Rightarrow> task_id \<Rightarrow> db \<Rightarrow> bool" where
  "task_completed tenant task d \<longleftrightarrow>
     (\<exists>t \<in> set (operation_tasks d). ot_id t = task \<and> ot_tenant_id t = tenant \<and> ot_state t = Completed)"

lemma look_completed:
  assumes "look_at_task ce tenant task w = (Inr True, w')"
  shows "task_completed tenant task (wdb w')"
proof -
  obtain w0 t where "find_task_by_id (ce_pool ce) tenant task w0 = (Inr t, w')" "ot_state t = Completed"
    using assms by (auto simp: look_at_task_def eff_success split: task_state.splits) (metis task_state.exhaust)+
  then show ?thesis
    by (auto simp: find_task_by_id_def eff_success task_completed_def decode_opt_task_def decode_task_def
        dest!: run_query_success find_SomeD split: option.splits sum.splits if_splits)
qed

lemma wait_rounds_completed:
  "wait_rounds n ce tenant task interval timeout start w = (Inr (Some ()), w') \<Longrightarrow> task_completed tenant task (wdb w')"
  by (induction n arbitrary: w) (auto simp: eff_success look_completed split: if_splits)

lemma assign_listed_keeps_tasks: "preserves (\<lambda>w. Q (operation_tasks (wdb w))) (assign_listed ce tn ci is)"
  by (induction "is") (auto simp: assign_type_def intro!: pres run_stmt_preserves [where P = "\<lambda>d. Q (operation_tasks d)"] split: if_splits)

lemma seed_keeps_tasks:
  "preserves (\<lambda>w. Q (operation_tasks (wdb w))) (seed_dev_credential_type_and_assignments ce tn force)"
proof -
  let ?P = "\<lambda>d. Q (operation_tasks d)"
  show ?thesis
    unfolding seed_dev_credential_type_and_assignments_def seed_credential_type_def rewrite_dev_type_def insert_dev_type_def update_blob_schema_def
      update_blob_display_def update_blob_claims_def update_type_blob_def update_structured_def insert_credential_type_def
      find_by_vct_for_tenant_def list_issuers_page_def Let_def
    by (intro in_tx_preserves [where P = ?P] pres assign_listed_keeps_tasks run_stmt_preserves [where P = ?P]
        run_stmt_world_preserves [where P = ?P]; auto simp: update_stmt_def split: if_splits)
qed

lemma ensure_issuer_provisions:
  assumes "ensure_dev_issuer_from_env n ce args w = (Inr out, w')" and "out = None \<or> out = Some (Provisioned i k)"
  shows "\<exists>t w0. provision_dev_issuer n ce args t w0 = (Inr out, w')"
  using assms unfolding ensure_dev_issuer_from_env_def Let_def
  by (auto simp: eff_success split: option.splits if_splits)

lemma provision_waits:
  assumes "provision_dev_issuer n ce args t w = (Inr out, w')"
  obtains task w1 w2 where "out = None" "wait_for_task_terminal n ce (tn_id t) task (ei_poll_interval args) (ei_timeout args) w1 = (Inr None, w2)"
    | i task w1 w2 where "out = Some (Provisioned i task)"
        "wait_for_task_terminal n ce (tn_id t) task (ei_poll_interval args) (ei_timeout args) w1 = (Inr (Some ()), w2)"
        "seed_dev_credential_type_and_assignments ce (tn_id t) False w2 = (Inr (), w')"
  using assms unfolding provision_dev_issuer_def Let_def
  by (auto simp: eff_success split: option.splits prod.splits) (metis (full_types) not_None_eq old.unit.exhaust)

text \<open>C40. When the clock runs, ensuring the development issuer ends after at most as many looks at the task as poll
  intervals fit into the timeout, and two more; when it reports a provisioned issuer, the task it waited for is
  completed.\<close>

theorem ensuring_the_issuer_ends:
  assumes "clock_runs ce" and "0 < ei_poll_interval args" and "ei_timeout args div ei_poll_interval args + 2 \<le> n"
    and "ensure_dev_issuer_from_env n ce args w = (r, w')"
  shows "r \<noteq> Inr None \<and> (\<forall>i k. r = Inr (Some (Provisioned i k)) \<longrightarrow> (\<exists>tenant. task_completed tenant k (wdb w')))"
proof -
  obtain m where n: "n = Suc m" and m: "ei_timeout args div ei_poll_interval args + 1 \<le> m" using assms(3) by (cases n) auto
  have "ei_timeout args < (ei_timeout args div ei_poll_interval args + 1) * ei_poll_interval args"
    using assms(2) dividend_less_div_times [of "ei_poll_interval args" "ei_timeout args"] by (simp add: algebra_simps)
  also have "\<dots> \<le> m * ei_poll_interval args" using m by (rule mult_le_mono1)
  finally have enough: "ei_timeout args \<le> m * ei_poll_interval args" by simp
  have ends: "fst (wait_for_task_terminal n ce tenant task (ei_poll_interval args) (ei_timeout args) w1) \<noteq> Inr None" for tenant task w1
    unfolding wait_for_task_terminal_def n using wait_rounds_end [OF assms(1,2)] enough by simp
  have "r \<noteq> Inr None"
  proof
    assume "r = Inr None"
    then obtain t w0 where "provision_dev_issuer n ce args t w0 = (Inr None, w')" using ensure_issuer_provisions assms(4) by blast
    then show False by (rule provision_waits) (use ends in \<open>metis fst_conv\<close>, simp)
  qed
  moreover have "\<exists>tenant. task_completed tenant k (wdb w')" if done': "r = Inr (Some (Provisioned i k))" for i k
  proof -
    obtain t w0 where "provision_dev_issuer n ce args t w0 = (Inr (Some (Provisioned i k)), w')"
      using ensure_issuer_provisions assms(4) done' by blast
    then obtain tenant w1 w2
      where wait: "wait_for_task_terminal n ce tenant k (ei_poll_interval args) (ei_timeout args) w1 = (Inr (Some ()), w2)"
        and seed: "seed_dev_credential_type_and_assignments ce tenant False w2 = (Inr (), w')" by (rule provision_waits) auto
    have "task_completed tenant k (wdb w2)" using wait wait_rounds_completed unfolding wait_for_task_terminal_def by blast
    moreover have "operation_tasks (wdb w') = operation_tasks (wdb w2)"
      using preserves_outcome [OF seed_keeps_tasks [where Q = "\<lambda>ts. ts = operation_tasks (wdb w2)"] refl seed] .
    ultimately show ?thesis by (auto simp: task_completed_def)
  qed
  ultimately show ?thesis by blast
qed

lemma fx_clock_runs: "clock_runs fx_cli"
proof -
  have "preserves (\<lambda>w. wext w = x) (look_at_task fx_cli tenant task)" for x tenant task
    unfolding look_at_task_def find_task_by_id_def
    by (auto simp: preserves_def fx_cli_def bindE_run mapErr_run fx_run okOr_def split: sum.splits option.splits task_state.splits prod.splits)
  then show ?thesis by (simp add: clock_runs_def preserves_def) (simp add: fx_cli_def)
qed

theorem ensuring_the_issuer_ends_witness:
  "\<exists>r w'. ensure_dev_issuer_from_env 302 fx_cli \<lparr> ei_partner_id = ''p1'', ei_poll_interval = from_secs 1, ei_timeout = from_secs 300 \<rparr>
      fx_world = (r, w') \<and> r \<noteq> Inr None"
proof -
  let ?args = "\<lparr> ei_partner_id = ''p1'', ei_poll_interval = from_secs 1, ei_timeout = from_secs 300 \<rparr>"
  obtain r w' where run: "ensure_dev_issuer_from_env 302 fx_cli ?args fx_world = (r, w')" by fastforce
  have "0 < ei_poll_interval ?args" "ei_timeout ?args div ei_poll_interval ?args + 2 \<le> 302" by (simp_all add: from_secs_def)
  from ensuring_the_issuer_ends [OF fx_clock_runs this run] show ?thesis using run by blast
qed

end
