(* ===== verification/SystemProps.thy ===== *)
theory SystemProps
  imports Interleaving Progress AdminProps AuthProps IssuanceProps StatusProps TenantCliProps
begin

text \<open>
  Properties of the whole system: what holds in every state that any sequence
  of requests, worker iterations and publications reaches, and what the
  documents handed to wallets promise.
\<close>

section \<open>Reachable states\<close>

lemma system_sound:
  assumes "(system_step sy)\<^sup>*\<^sup>* w w'" and "system_inv (wdb w)"
  shows "system_inv (wdb w') \<and> moved_from (wdb w) (wdb w')"
  using sound.run_keeps [OF assms(1), of "wdb w"] assms(2) by (simp add: sound_since_iff)

text \<open>C1. In every state the system reaches from a consistent one, the tables are consistent: the task rows are
  well formed, keys are unique, every credential occupies a slot its list has handed out and belongs to a used
  offer, an identity is linked once per tenant and the code of an invitation lives as long as it is pending.\<close>

theorem system_keeps_integrity:
  assumes "(system_step sy)\<^sup>*\<^sup>* w w'" and "system_inv (wdb w)"
  shows "system_inv (wdb w')"
  using system_sound [OF assms] by blast

text \<open>C2. With requests overlapping, life-cycle requests between their unlocked read and their write included, the
  running system refines the life cycles: the tables stay consistent, every offer, credential, issuer and task
  that existed still exists, and offers, issuers and tasks moved along the transitions of their aggregates.  So
  did every credential, except one that a life-cycle request wrote although its state was no longer the one the
  request had read.\<close>

theorem system_refines_lifecycles:
  assumes "(shared_step sy)\<^sup>*\<^sup>* s s'" and "system_inv (sh_db s)" and "honest_flight s"
  shows "system_inv (sh_db s') \<and> honest_flight s' \<and>
    tracks offer_trans (offer_states (sh_db s)) (offer_states (sh_db s')) \<and>
    tracks issuer_trans (issuer_states (sh_db s)) (issuer_states (sh_db s')) \<and>
    tracks task_trans (task_states (sh_db s)) (task_states (sh_db s')) \<and>
    (\<forall>c x. credential_states (sh_db s) c = Some x \<longrightarrow> (\<exists>y. credential_states (sh_db s') c = Some y \<and>
       (c \<notin> sh_overtaken s' \<longrightarrow> ic_trans\<^sup>*\<^sup>* x y)))"
  using shared_run_effect [OF assms] by (simp add: others_since_def credentials_track_def from_defs)

lemma tracks_final:
  assumes "tracks tr m m'" and "m k = Some s" and "\<And>s'. tr\<^sup>*\<^sup>* s s' \<Longrightarrow> s' = s"
  shows "m' k = Some s"
  using tracksD [OF assms(1,2)] assms(3) by blast

text \<open>C3. Final states are final, whatever requests and iterations overlap and follow: an issued or cancelled
  offer, a deactivated issuer and a completed or failed task stay what they are; and a revoked credential stays
  revoked, unless a suspend or unsuspend that read it before the revocation is still to write.\<close>

theorem final_states_last:
  assumes "(shared_step sy)\<^sup>*\<^sup>* s s'" and "system_inv (sh_db s)" and "honest_flight s"
  shows "(credential_states (sh_db s) c = Some Revoked \<and>
      (\<forall>op \<in> set (sh_flight s). ic_id (oo_result op) = c \<longrightarrow> ic_state (oo_result op) = Revoked) \<longrightarrow>
      credential_states (sh_db s') c = Some Revoked) \<and>
    (\<forall>x. offer_states (sh_db s) o' = Some x \<and> x \<noteq> OfferPending \<longrightarrow> offer_states (sh_db s') o' = Some x) \<and>
    (issuer_states (sh_db s) i = Some Deactivated \<longrightarrow> issuer_states (sh_db s') i = Some Deactivated) \<and>
    (\<forall>x. task_states (sh_db s) t = Some x \<and> task_state_is_terminal x \<longrightarrow> task_states (sh_db s') t = Some x)"
proof (intro conjI allI impI)
  have m: "tracks offer_trans (offer_states (sh_db s)) (offer_states (sh_db s'))"
    "tracks issuer_trans (issuer_states (sh_db s)) (issuer_states (sh_db s'))"
    "tracks task_trans (task_states (sh_db s)) (task_states (sh_db s'))"
    using shared_run_effect [OF assms] by (simp_all add: others_since_def from_defs)
  show "credential_states (sh_db s') c = Some Revoked" if "credential_states (sh_db s) c = Some Revoked \<and>
      (\<forall>op \<in> set (sh_flight s). ic_id (oo_result op) = c \<longrightarrow> ic_state (oo_result op) = Revoked)"
    using shared_run_stays_revoked [OF assms] that by (simp add: stays_revoked_def)
  show "offer_states (sh_db s') o' = Some x" if "offer_states (sh_db s) o' = Some x \<and> x \<noteq> OfferPending" for x
    by (rule tracks_final [OF m(1) that [THEN conjunct1]]) (use offer_life.terminal_stable that in blast)
  show "issuer_states (sh_db s') i = Some Deactivated" if "issuer_states (sh_db s) i = Some Deactivated"
    by (rule tracks_final [OF m(2) that]) (use issuer_life.terminal_stable in simp)
  show "task_states (sh_db s') t = Some x" if "task_states (sh_db s) t = Some x \<and> task_state_is_terminal x" for x
    by (rule tracks_final [OF m(3) that [THEN conjunct1]]) (use task_life.terminal_stable that in blast)
qed

text \<open>C9. The stored values stay in the ranges of their types: in every reachable state a status list has exactly
  32768 bytes and has handed out at most 131072 slots, and a credential's index is one of those handed out.\<close>

theorem stored_values_in_range:
  assumes "(system_step sy)\<^sup>*\<^sup>* w w'" and "system_inv (wdb w)"
  shows "(\<forall>l \<in> set (status_lists (wdb w')). length (sl_bitstring l) = BITSTRING_BYTES \<and>
      unat (sl_allocated_count l) \<le> SWIYU_STATUS_LIST_CAPACITY) \<and>
    (\<forall>c \<in> set (issued_credentials (wdb w')). \<exists>l \<in> set (status_lists (wdb w')). sl_id l = ic_status_list_id c \<and>
      unat (index_value (ic_status_list_index c)) < unat (sl_allocated_count l))"
proof -
  have "data_inv (wdb w')" using system_sound [OF assms] by (simp add: system_inv_def)
  then show ?thesis by (auto simp: data_inv_defs lists_inv_def list_wf_def slot_taken_def)
qed

section \<open>Requests without an accepted token\<close>

lemma bindE_refused: "m w = (Inl e, w1) \<Longrightarrow> bindE m f w = (Inl e, w1)"
  by (simp add: bindE_run)

text \<open>C6. A management request that changes a table was authenticated: its bearer token was accepted before the
  handler ran.\<close>

theorem mgmt_change_is_authenticated:
  assumes "mgmt_router app parts route w = (r, w')" and "wdb w' \<noteq> wdb w"
  shows "\<exists>pr w1. authenticate (ma_state app) (ma_jwt_validator app) parts w = (Inr pr, w1) \<and> wdb w1 = wdb w"
proof -
  let ?auth = "authenticate (ma_state app) (ma_jwt_validator app) parts"
  obtain a w1 where run: "?auth w = (a, w1)" by fastforce
  have w1: "wdb w1 = wdb w" using keeps_db_eq [OF contexts_keep_db(1) run] by simp
  have "wdb w' = wdb w" if "a = Inl e" for e
  proof (cases route)
    case MgmtReadyz
    then show ?thesis using assms(1) keeps_db_eq [OF answer_preserves [OF readyz_keeps_db(1)]] by simp
  qed (use assms(1) run that w1 in \<open>auto simp: tenant_context_def first_party_context_def bindE_run mapErr_run\<close>)
  then show ?thesis using assms(2) run w1 by (cases a) auto
qed

section \<open>What wallets are told\<close>

definition assigned_types :: "tenant_id \<Rightarrow> issuer_id \<Rightarrow> assignment_row list \<Rightarrow> credential_type list \<Rightarrow> (page_key \<times> credential_type) list" where
  "assigned_types tenant issuer as cs = [((as_assigned_at a, ctype_bare (ct_id c)), c).
     a \<leftarrow> as, as_issuer_id a = issuer, c \<leftarrow> cs, ct_id c = as_credential_type_id a \<and> ct_tenant_id c = tenant]"

lemma mem_assigned_types:
  "(x, c) \<in> set (assigned_types tn iss as cs) \<longleftrightarrow> c \<in> set cs \<and> ct_tenant_id c = tn \<and>
     (\<exists>a \<in> set as. assigned_pair iss (ct_id c) a \<and> x = (as_assigned_at a, ctype_bare (ct_id c)))"
  by (auto simp: assigned_types_def)

lemma assigned_types_iff:
  "c \<in> snd ` set (assigned_types tn iss as cs) \<longleftrightarrow> c \<in> set cs \<and> ct_tenant_id c = tn \<and>
     (\<exists>a \<in> set as. assigned_pair iss (ct_id c) a)"
proof
  assume "c \<in> snd ` set (assigned_types tn iss as cs)"
  then obtain x where "(x, c) \<in> set (assigned_types tn iss as cs)" by force
  then show "c \<in> set cs \<and> ct_tenant_id c = tn \<and> (\<exists>a \<in> set as. assigned_pair iss (ct_id c) a)"
    unfolding mem_assigned_types by blast
next
  assume "c \<in> set cs \<and> ct_tenant_id c = tn \<and> (\<exists>a \<in> set as. assigned_pair iss (ct_id c) a)"
  then obtain x where "(x, c) \<in> set (assigned_types tn iss as cs)" unfolding mem_assigned_types by blast
  then show "c \<in> snd ` set (assigned_types tn iss as cs)" by force
qed

lemma distinct_assigned_types:
  assumes "distinct (map (\<lambda>a. (as_issuer_id a, as_credential_type_id a)) as)" and "distinct (map ct_id cs)"
  shows "distinct (map (ct_id \<circ> snd) (assigned_types tn iss as cs))"
  using assms(1)
proof (induction as)
  case (Cons a as)
  let ?one = "assigned_types tn iss [a] cs"
  have split': "assigned_types tn iss (a # as) cs = ?one @ assigned_types tn iss as cs" by (simp add: assigned_types_def)
  have "distinct (map (ct_id \<circ> snd) ?one)"
    using assms(2) by (induction cs) (auto simp: assigned_types_def)
  moreover have "(ct_id \<circ> snd) x \<noteq> (ct_id \<circ> snd) y" if xy: "x \<in> set ?one" "y \<in> set (assigned_types tn iss as cs)" for x y
  proof -
    have "snd x \<in> snd ` set ?one" "snd y \<in> snd ` set (assigned_types tn iss as cs)" using xy by simp_all
    then have x: "assigned_pair iss (ct_id (snd x)) a" and y: "\<exists>b \<in> set as. assigned_pair iss (ct_id (snd y)) b"
      unfolding assigned_types_iff by simp_all
    have "(iss, ct_id (snd y)) \<in> (\<lambda>b. (as_issuer_id b, as_credential_type_id b)) ` set as" using y by force
    then show ?thesis using Cons.prems x by auto
  qed
  ultimately show ?case using Cons unfolding split' by (auto simp del: comp_apply)
qed (simp add: assigned_types_def)

lemma issuer_metadata_success:
  assumes "credential_issuer_metadata ov st i w = (Inr doc, w')"
  shows "\<exists>row \<in> set (issuers (wdb w)). cim_configurations doc = build_credential_configurations ov
      (map snd (order_desc fst (assigned_types (iss_tenant_id (ir_issuer row)) (issuer_key row)
         (issuer_credential_types (wdb w)) (credential_types (wdb w))))) \<and>
    oidc_issuer_id st i = Inr (issuer_key row) \<and> cim_credential_issuer doc = oidc_issuer_url st (issuer_key row)"
proof -
  let ?p = "os_pool st"
  obtain iid w1 issuer w2 types where p: "oidc_issuer_id st i = Inr iid"
    and ac: "acquire ?p w = (Inr (), w1)" and f: "find_issuer_by_id ?p iid w1 = (Inr (Some issuer), w2)"
    and l: "list_assigned_to_issuer ?p (iss_tenant_id issuer) (iss_id issuer) w2 = (Inr types, w')"
    and doc: "cim_configurations doc = build_credential_configurations ov types"
      "cim_credential_issuer doc = oidc_issuer_url st (iss_id issuer)"
    using assms unfolding credential_issuer_metadata_def Let_def
    by (auto simp: eff_success res_success)
  have w1: "wdb w1 = wdb w" using keeps_db_eq [OF acquire_keeps_db ac] by simp
  obtain row where row: "row \<in> set (issuers (wdb w))" "issuer_key row = iid" "ir_issuer row = issuer" and w2: "wdb w2 = wdb w"
    using f w1 by (auto simp: find_issuer_by_id_def mapErr_eq_Inr dest!: run_query_success row_by_SomeD)
  have "types = map snd (order_desc fst (assigned_types (iss_tenant_id issuer) iid (issuer_credential_types (wdb w)) (credential_types (wdb w))))"
    using l row unfolding list_assigned_to_issuer_def assigned_types_def [symmetric] w2 [symmetric]
    by (auto simp: mapErr_eq_Inr issuer_key_def dest!: run_query_success)
  then show ?thesis using row p doc by (intro bexI [of _ row]) (auto simp: issuer_key_def)
qed

text \<open>C10. The metadata of an issuer publishes exactly the credential types in use that are assigned to it, each
  under the identifier of the type.\<close>

theorem issuer_metadata_publishes_assigned_types:
  assumes "credential_issuer_metadata ov st i w = (Inr doc, w')" and "admin_inv (wdb w)"
  shows "\<exists>row \<in> set (issuers (wdb w)). oidc_issuer_id st i = Inr (issuer_key row) \<and>
    (\<forall>k v. jget k (cim_configurations doc) = Some v \<longleftrightarrow>
      (\<exists>c \<in> set (credential_types (wdb w)). ct_tenant_id c = iss_tenant_id (ir_issuer row) \<and> ct_retired_at c = None \<and>
         (\<exists>a \<in> set (issuer_credential_types (wdb w)). assigned_pair (issuer_key row) (ct_id c) a) \<and>
         k = configuration_key c \<and> v = configuration_entry ov c))"
proof -
  obtain row where row: "row \<in> set (issuers (wdb w))" "oidc_issuer_id st i = Inr (issuer_key row)"
    and doc: "cim_configurations doc = build_credential_configurations ov (map snd (order_desc fst
      (assigned_types (iss_tenant_id (ir_issuer row)) (issuer_key row) (issuer_credential_types (wdb w)) (credential_types (wdb w)))))"
    using issuer_metadata_success [OF assms(1)] by blast
  let ?ts = "assigned_types (iss_tenant_id (ir_issuer row)) (issuer_key row) (issuer_credential_types (wdb w)) (credential_types (wdb w))"
  have "distinct (map (ct_id \<circ> snd) ?ts)"
    using assms(2) by (intro distinct_assigned_types) (auto simp: admin_inv_def assignments_inv_def types_inv_def)
  then have "distinct (map ct_id (map snd (order_desc fst ?ts)))"
    by (simp add: order_desc_def rev_map [symmetric] distinct_map inj_on_def)
  note published = published_configuration [OF this, of _ ov, folded doc]
  have "c \<in> set (map snd (order_desc fst ?ts)) \<longleftrightarrow> c \<in> set (credential_types (wdb w)) \<and>
      ct_tenant_id c = iss_tenant_id (ir_issuer row) \<and>
      (\<exists>a \<in> set (issuer_credential_types (wdb w)). assigned_pair (issuer_key row) (ct_id c) a)" for c
    using assigned_types_iff by (simp add: order_desc_def)
  then show ?thesis using published row by (intro bexI [of _ row]) (auto simp: Bex_def)
qed

lemma offer_document_success:
  assumes "credential_offer st i k w = (Inr body, w')"
  shows "\<exists>off \<in> set (credential_offers (wdb w)). cob_credential_configuration_ids body = [co_vct off]"
proof -
  let ?p = "os_pool st"
  obtain w1 iid issuer w2 oid off w3 where
    ac: "acquire ?p w = (Inr (), w1)" and f: "find_issuer_by_id ?p iid w1 = (Inr (Some issuer), w2)"
    and o': "find_offer_by_id ?p (iss_tenant_id issuer) iid oid w2 = (Inr off, w3)"
    and b: "cob_credential_configuration_ids body = [co_vct off]"
    using assms unfolding credential_offer_def Let_def by (auto simp: eff_success res_success)
  have "wdb w2 = wdb w"
    using keeps_db_eq [OF acquire_keeps_db ac] keeps_db_eq [OF lookups_keep_db(2) f] by simp
  moreover have "off \<in> set (credential_offers (wdb w2))"
    using o' by (auto simp: find_offer_by_id_def eff_success dest!: run_query_success find_SomeD)
  ultimately show ?thesis using b by auto
qed

text \<open>The offer document names the configuration by the offer's \<open>vct\<close>, the metadata by the identifier of the
  credential type: unless the \<open>vct\<close> happens to be such an identifier, a wallet does not find the offered
  configuration in the issuer's metadata.\<close>

theorem offered_configuration_is_not_published:
  assumes "credential_offer st i k w = (Inr body, w1)" and "credential_issuer_metadata ov st i w2 = (Inr doc, w3)"
  shows "\<exists>off \<in> set (credential_offers (wdb w)). cob_credential_configuration_ids body = [co_vct off] \<and>
    ((\<forall>bare. co_vct off \<noteq> id_display ''ctype'' bare) \<longrightarrow> jget (co_vct off) (cim_configurations doc) = None)"
proof -
  obtain off where off: "off \<in> set (credential_offers (wdb w))" "cob_credential_configuration_ids body = [co_vct off]"
    using offer_document_success [OF assms(1)] by blast
  obtain ts where "cim_configurations doc = build_credential_configurations ov ts"
    using issuer_metadata_success [OF assms(2)] by blast
  then have "jget (co_vct off) (cim_configurations doc) = None" if "\<forall>bare. co_vct off \<noteq> id_display ''ctype'' bare"
    using published_keys [of "co_vct off" ov ts] that by (cases "jget (co_vct off) (cim_configurations doc)") (auto simp: configuration_key_def)
  then show ?thesis using off by blast
qed

section \<open>A running system\<close>

definition fx_oid4vci :: oid4vci_lib where
  "fx_oid4vci = \<lparr> ov_format = ''dc+sd-jwt'', ov_binding_methods = JArr [], ov_signing_algs = JArr [], ov_proof_types = JObj [] \<rparr>"

definition fx_system :: "nat system" where
  "fx_system = \<lparr> sy_mgmt = \<lparr> ma_state = fx_mgmt, ma_jwt_validator = Some fx_validator, ma_web_base_url = ''https://web'' \<rparr>,
     sy_oid4vci = fx_oid4vci, sy_oidc = fx_oidc, sy_worker = fx_worker, sy_publisher = fx_publisher, sy_cli = fx_cli \<rparr>"

lemma fx_system_inv: "system_inv fx_db"
proof -
  have "admin_inv fx_db"
    by (simp add: admin_inv_def accounts_inv_def invites_inv_def types_inv_def assignments_inv_def indexed_def fx_db_def fx_ctype_def)
  then show ?thesis using fx_tasks_inv fx_data_inv by (simp add: system_inv_def)
qed

abbreviation fx_now :: "nat world" where "fx_now \<equiv> \<lparr> wdb = fx_db, wext = 40 \<rparr>"

text \<open>A tenant cancels its offer, and the worker polls.\<close>

lemma fx_cancel_run:
  assumes "wdb w = fx_db"
  shows "\<exists>r w'. cancel_offer fx_mgmt (TenantId (fx_bare 1)) (fx_bare 2) (fx_bare 3) w = (Inr r, w') \<and>
     offer_states (wdb w') (CredentialOfferId (fx_bare 3)) = Some Cancelled"
  using assms unfolding cancel_offer_def cancel_loaded_def
  by (simp add: fx_parse_issuer parse_offer_id_def parse_path_id_def fx_parse_bare fx_oidc_sel bindE_run mapErr_run fx_run fx_rows
      acquire_pool_for_issuer_def require_issuer_owned_by_tenant_def exists_for_tenant_def find_offer_by_id_def cancel_offer_row_def
      offer_at_def issuer_of_tenant_def issuer_key_def update_stmt_def update_where_def rows_matching_def
      offer_states_def states_def row_by_def try_cancel_def Let_def cong: head_congs)

lemma fx_cancel_routed:
  "\<exists>w'. mgmt_router (sy_mgmt fx_system) fx_parts (TenantRoute (OffersCancel (fx_bare 2) (fx_bare 3))) fx_now = (Inr (), w') \<and>
     offer_states (wdb w') (CredentialOfferId (fx_bare 3)) = Some Cancelled"
proof -
  obtain w1 where w1: "tenant_context fx_mgmt (Some fx_validator) fx_parts fx_now = (Inr (TenantId (fx_bare 1)), w1)"
    using fx_tenant_context by blast
  then have "wdb w1 = fx_db" using keeps_db_eq [OF tenant_context_keeps_db w1] by simp
  then show ?thesis
    using fx_cancel_run [of w1] w1 by (auto simp: fx_system_def answer_def bindE_run mapErr_run)
qed

lemma fx_system_run:
  obtains w1 w2 where "(system_step fx_system)\<^sup>*\<^sup>* fx_now w1" and "(system_step fx_system)\<^sup>*\<^sup>* w1 w2"
    and "offer_states (wdb w1) (CredentialOfferId (fx_bare 3)) = Some Cancelled"
proof -
  obtain w1 where w1: "mgmt_router (sy_mgmt fx_system) fx_parts (TenantRoute (OffersCancel (fx_bare 2) (fx_bare 3))) fx_now = (Inr (), w1)"
    "offer_states (wdb w1) (CredentialOfferId (fx_bare 3)) = Some Cancelled"
    using fx_cancel_routed by blast
  obtain x w2 where w2: "poll (sy_worker fx_system) w1 = (x, w2)" by fastforce
  have "(system_step fx_system)\<^sup>*\<^sup>* fx_now w1" "(system_step fx_system)\<^sup>*\<^sup>* w1 w2"
    using system_step.mgmt [OF w1(1)] system_step.work [OF w2] by blast+
  then show ?thesis using that w1(2) by blast
qed

theorem system_keeps_integrity_witness:
  "\<exists>w1. (system_step fx_system)\<^sup>*\<^sup>* fx_now w1 \<and> offer_states (wdb w1) (CredentialOfferId (fx_bare 3)) = Some Cancelled \<and>
     system_inv (wdb w1)"
proof -
  have "system_inv (wdb fx_now)" using fx_system_inv by simp
  then show ?thesis using fx_system_run system_keeps_integrity by metis
qed

lemma data_inv_states: "data_inv d \<Longrightarrow> data_inv (issued_credentials_update (map (ic_state_update f)) d)"
proof -
  have "ic_slot (ic_state_update f c) = ic_slot c" for c by (simp add: ic_slot_def)
  then show "data_inv d \<Longrightarrow> data_inv (issued_credentials_update (map (ic_state_update f)) d)"
    by (simp add: data_inv_defs lists_inv_def slot_taken_def offer_used_def comp_def)
qed

lemma fx_issued_inv: "system_inv (wdb (fx_issued x))"
proof -
  have "data_inv (wdb \<lparr> wdb = fx_redeemed, wext = 0 :: nat \<rparr>)" using fx_redeemed_inv by simp
  then have "data_inv fx_half_issued" using preserves_outcome [OF credential_keeps_data _ fx_first] by simp
  moreover have "tasks_inv fx_half_issued" "admin_inv fx_half_issued"
    using fx_system_inv by (simp_all add: system_inv_def tasks_inv_def admin_inv_def fx_half_issued_def fx_redeemed_def)
  ultimately show ?thesis
    using data_inv_states [of fx_half_issued] by (simp add: system_inv_def fx_issued_def tasks_inv_def admin_inv_def)
qed

text \<open>An unsuspend and a revocation overlap on a suspended credential.\<close>

abbreviation "fx_cred_id \<equiv> IssuedCredentialId (fx_bare 2)"

definition fx_decided :: "issued_credential \<Rightarrow> bool" where
  "fx_decided c \<longleftrightarrow> ic_id c = fx_cred_id \<and> ic_status_list_id c = StatusListId (fx_bare 4) \<and>
     ic_status_list_index c = StatusListIndex 0"

lemma fx_overlapped_reads:
  "\<exists>c. lifecycle_read fx_mgmt (TenantId (fx_bare 1)) (IssuerId (fx_bare 2)) fx_cred_id try_unsuspend
      (fx_issued CredSuspended) = (Inr c, fx_issued CredSuspended) \<and> fx_decided c \<and> ic_state c = CredActive"
  "\<exists>c. lifecycle_read fx_mgmt (TenantId (fx_bare 1)) (IssuerId (fx_bare 2)) fx_cred_id try_revoke
      (fx_issued CredSuspended) = (Inr c, fx_issued CredSuspended) \<and> fx_decided c \<and> ic_state c = Revoked"
  unfolding fx_issued_def
  by (simp_all add: fx_decided_def fx_life_eval fx_half_issued_def fx_rows try_unsuspend_def try_revoke_def cong: head_congs)

definition fx_flying :: "issued_credential \<Rightarrow> status_value \<Rightarrow> overlapped_op" where
  "fx_flying c v = \<lparr> oo_tenant = TenantId (fx_bare 1), oo_result = c, oo_value = v, oo_seen = Some CredSuspended \<rparr>"

lemma fx_overlapped_finish:
  assumes "fx_decided c" and "fx_decided d"
  shows "\<exists>w1 w2. lifecycle_finish fx_mgmt (fx_flying c u) (fx_issued CredSuspended) = (Inr c, w1) \<and>
     credential_states (wdb w1) fx_cred_id = Some (ic_state c) \<and>
     lifecycle_finish fx_mgmt (fx_flying d v) w1 = (Inr d, w2) \<and>
     credential_states (wdb w2) fx_cred_id = Some (ic_state d)"
  using assms unfolding lifecycle_finish_def fx_issued_def fx_flying_def fx_decided_def
  by (simp add: fx_life_eval fx_half_issued_def fx_rows credential_states_def states_def cong: head_congs)

abbreviation fx_start :: "nat shared" where
  "fx_start \<equiv> \<lparr> sh_world = fx_issued CredSuspended, sh_flight = [], sh_overtaken = {} \<rparr>"

lemma fx_overlapped_run:
  assumes "lifecycle_request tr u" and "lifecycle_request tr' v"
    and "lifecycle_read fx_mgmt (TenantId (fx_bare 1)) (IssuerId (fx_bare 2)) fx_cred_id tr (fx_issued CredSuspended) = (Inr c, fx_issued CredSuspended)"
    and "lifecycle_read fx_mgmt (TenantId (fx_bare 1)) (IssuerId (fx_bare 2)) fx_cred_id tr' (fx_issued CredSuspended) = (Inr d, fx_issued CredSuspended)"
    and "fx_decided c" and "fx_decided d"
  obtains s1 s2 where "(shared_step fx_system)\<^sup>*\<^sup>* fx_start s1" and "shared_step fx_system s1 s2"
    and "sh_flight s1 = [fx_flying d v]" and "credential_states (sh_db s1) fx_cred_id = Some (ic_state c)"
    and "credential_states (sh_db s2) fx_cred_id = Some (ic_state d)"
    and "ic_state c \<noteq> CredSuspended \<longrightarrow> fx_cred_id \<in> sh_overtaken s2"
proof -
  have st: "ma_state (sy_mgmt fx_system) = fx_mgmt" by (simp add: fx_system_def)
  have seen: "credential_states (wdb (fx_issued CredSuspended)) fx_cred_id = Some CredSuspended"
    by (simp add: fx_issued_def fx_half_issued_def credential_states_def states_def row_by_def issued_credential_new_def)
  obtain w1 w2 where w: "lifecycle_finish fx_mgmt (fx_flying c u) (fx_issued CredSuspended) = (Inr c, w1)"
    "credential_states (wdb w1) fx_cred_id = Some (ic_state c)"
    "lifecycle_finish fx_mgmt (fx_flying d v) w1 = (Inr d, w2)"
    "credential_states (wdb w2) fx_cred_id = Some (ic_state d)"
    using fx_overlapped_finish [OF assms(5,6)] by blast
  let ?one = "fx_start\<lparr> sh_flight := [fx_flying c u] \<rparr>" and ?two = "fx_start\<lparr> sh_flight := [fx_flying d v, fx_flying c u] \<rparr>"
  let ?s1 = "?two\<lparr> sh_world := w1, sh_flight := [fx_flying d v], sh_overtaken := overtaken_by (fx_flying c u) (sh_db ?two) \<union> {} \<rparr>"
  let ?s2 = "?s1\<lparr> sh_world := w2, sh_flight := [], sh_overtaken := overtaken_by (fx_flying d v) (sh_db ?s1) \<union> sh_overtaken ?s1 \<rparr>"
  have "shared_step fx_system fx_start ?one"
    using shared_step.begins [OF assms(1), of fx_system _ _ _ fx_start, unfolded st] assms(3,5) seen
    by (fastforce simp: fx_flying_def fx_decided_def)
  moreover have "shared_step fx_system ?one ?two"
    using shared_step.begins [OF assms(2), of fx_system _ _ _ ?one, unfolded st] assms(4,6) seen
    by (fastforce simp: fx_flying_def fx_decided_def)
  moreover have "shared_step fx_system ?two ?s1"
    using shared_step.finishes [of ?two "[fx_flying d v]" "fx_flying c u" "[]" fx_system, unfolded st] w(1) by simp
  moreover have "shared_step fx_system ?s1 ?s2"
    using shared_step.finishes [of ?s1 "[]" "fx_flying d v" "[]" fx_system, unfolded st] w(3) by simp
  ultimately have run: "(shared_step fx_system)\<^sup>*\<^sup>* fx_start ?s1" "shared_step fx_system ?s1 ?s2"
    by (meson rtranclp.rtrancl_into_rtrancl rtranclp.rtrancl_refl)+
  show ?thesis
    by (rule that [OF run]) (use w assms(6) in \<open>simp_all add: overtaken_by_def Let_def fx_flying_def fx_decided_def\<close>)
qed

lemma fx_start_ok: "system_inv (sh_db fx_start)" "honest_flight fx_start"
  by (simp_all add: fx_issued_inv honest_flight_def)

theorem system_refines_lifecycles_witness:
  "\<exists>s'. (shared_step fx_system)\<^sup>*\<^sup>* fx_start s' \<and> fx_cred_id \<in> sh_overtaken s' \<and>
     credential_states (sh_db s') fx_cred_id = Some CredActive \<and> system_inv (sh_db s') \<and>
     tracks offer_trans (offer_states (sh_db fx_start)) (offer_states (sh_db s'))"
proof -
  obtain c d where c: "lifecycle_read fx_mgmt (TenantId (fx_bare 1)) (IssuerId (fx_bare 2)) fx_cred_id try_unsuspend
      (fx_issued CredSuspended) = (Inr c, fx_issued CredSuspended)" "fx_decided c" "ic_state c = CredActive"
    and d: "lifecycle_read fx_mgmt (TenantId (fx_bare 1)) (IssuerId (fx_bare 2)) fx_cred_id try_revoke
      (fx_issued CredSuspended) = (Inr d, fx_issued CredSuspended)" "fx_decided d" "ic_state d = Revoked"
    using fx_overlapped_reads by blast
  have "lifecycle_request try_revoke StatusRevoked" "lifecycle_request try_unsuspend StatusValid"
    by (simp_all add: lifecycle_request_def)
  from fx_overlapped_run [OF this d(1) c(1) d(2) c(2)] obtain s1 s2 where
    "(shared_step fx_system)\<^sup>*\<^sup>* fx_start s1" "shared_step fx_system s1 s2" "fx_cred_id \<in> sh_overtaken s2"
    "credential_states (sh_db s2) fx_cred_id = Some CredActive" unfolding c(3) d(3) by blast
  then have "(shared_step fx_system)\<^sup>*\<^sup>* fx_start s2" "fx_cred_id \<in> sh_overtaken s2"
    "credential_states (sh_db s2) fx_cred_id = Some CredActive" by auto
  then show ?thesis using system_refines_lifecycles [OF _ fx_start_ok] by blast
qed

theorem final_states_last_witness:
  "\<exists>s1 s2. (shared_step fx_system)\<^sup>*\<^sup>* fx_start s1 \<and> shared_step fx_system s1 s2 \<and> sh_flight s1 \<noteq> [] \<and>
     credential_states (sh_db s1) fx_cred_id = Some Revoked \<and> credential_states (sh_db s2) fx_cred_id = Some Revoked"
proof -
  obtain d where d: "lifecycle_read fx_mgmt (TenantId (fx_bare 1)) (IssuerId (fx_bare 2)) fx_cred_id try_revoke
      (fx_issued CredSuspended) = (Inr d, fx_issued CredSuspended)" "fx_decided d" "ic_state d = Revoked"
    using fx_overlapped_reads by blast
  have "lifecycle_request try_revoke StatusRevoked" by (simp add: lifecycle_request_def)
  from fx_overlapped_run [OF this this d(1) d(1) d(2) d(2)] obtain s1 s2 where
    s: "(shared_step fx_system)\<^sup>*\<^sup>* fx_start s1" "shared_step fx_system s1 s2" "sh_flight s1 = [fx_flying d StatusRevoked]"
    "credential_states (sh_db s1) fx_cred_id = Some Revoked" using d(3) by metis
  have run: "(shared_step fx_system)\<^sup>*\<^sup>* s1 s2" using s(2) by blast
  have "system_inv (sh_db s1)" "honest_flight s1"
    using shared_run_effect [OF s(1) fx_start_ok] by (simp_all add: others_since_def)
  then have "credential_states (sh_db s2) fx_cred_id = Some Revoked"
    using final_states_last [OF run] s(3,4) d(3) by (simp add: fx_flying_def)
  then show ?thesis using s by (intro exI [of _ s1] exI [of _ s2]) simp
qed

theorem stored_values_in_range_witness:
  "\<exists>w1. (system_step fx_system)\<^sup>*\<^sup>* fx_now w1 \<and> (\<forall>l \<in> set (status_lists (wdb w1)). length (sl_bitstring l) = BITSTRING_BYTES)"
proof -
  have "system_inv (wdb fx_now)" using fx_system_inv by simp
  moreover obtain w1 where "(system_step fx_system)\<^sup>*\<^sup>* fx_now w1" using fx_system_run by metis
  ultimately show ?thesis using stored_values_in_range [of fx_system fx_now w1] by blast
qed

theorem mgmt_change_is_authenticated_witness:
  "\<exists>pr w1. authenticate fx_mgmt (Some fx_validator) fx_parts fx_now = (Inr pr, w1)"
proof -
  obtain w' where w': "mgmt_router (sy_mgmt fx_system) fx_parts (TenantRoute (OffersCancel (fx_bare 2) (fx_bare 3))) fx_now = (Inr (), w')"
    "offer_states (wdb w') (CredentialOfferId (fx_bare 3)) = Some Cancelled"
    using fx_cancel_routed by blast
  moreover have "offer_states fx_db (CredentialOfferId (fx_bare 3)) = Some OfferPending"
    by (simp add: offer_states_def states_def row_by_def fx_rows)
  ultimately have "wdb w' \<noteq> wdb fx_now" by auto
  then show ?thesis using mgmt_change_is_authenticated [OF w'(1)] by (auto simp: fx_system_def)
qed

lemma fx_metadata_run:
  "\<exists>doc w'. credential_issuer_metadata fx_oid4vci fx_oidc (fx_bare 2) fx_now = (Inr doc, w')"
  unfolding credential_issuer_metadata_def Let_def
  by (simp add: oidc_issuer_id_def fx_parse_bare fx_oidc_sel bindE_run mapErr_run fx_run find_issuer_by_id_def
      list_assigned_to_issuer_def row_by_def issuer_key_def fx_rows cong: head_congs)

theorem issuer_metadata_publishes_assigned_types_witness:
  "\<exists>doc w'. credential_issuer_metadata fx_oid4vci fx_oidc (fx_bare 2) fx_now = (Inr doc, w') \<and>
     jget (id_display ''ctype'' (fx_bare 5)) (cim_configurations doc) = Some (configuration_entry fx_oid4vci fx_ctype)"
proof -
  obtain doc w' where run: "credential_issuer_metadata fx_oid4vci fx_oidc (fx_bare 2) fx_now = (Inr doc, w')"
    using fx_metadata_run by blast
  have "admin_inv (wdb fx_now)" using fx_system_inv by (simp add: system_inv_def)
  then show ?thesis
    using issuer_metadata_publishes_assigned_types [OF run] run
    by (auto simp: fx_rows configuration_key_def issuer_key_def)
qed

end
