(* ===== verification/Signing.thy ===== *)
theory Signing
  imports OAuth2 Oidc Didlog
begin

text \<open>
  The signing engines behind the trait of \<open>domain/signing_engine/mod.rs\<close>: \<open>dev.rs\<close> (a
  table of unencrypted key pairs), \<open>vault.rs\<close> (Vault Transit with a cache of key algorithms),
  the dispatch of \<open>any.rs\<close> and the configuration of \<open>builder.rs\<close>.  \<open>engine_ops\<close> packs an
  engine into the record of operations the workers and services call.  The curves, UUIDs,
  base64, URL parsing and the HTTP client are parameters.
\<close>

section \<open>State and outside code\<close>

record dev_key_row =
  dk_id :: key_pair_id
  dk_algorithm :: string
  dk_private_key :: "byte list"
  dk_public_key :: "byte list"

record 'x signer_state =
  sg_rows :: "dev_key_row list"
  sg_cache :: "key_pair_id \<rightharpoonup> key_algorithm"
  sg_ext :: 'x

datatype http_method = Get | Post | Delete

record 'x signer_env =
  sn_io :: "'x \<Rightarrow> sql_fault \<times> 'x"
  sn_sql_show :: "sqlx_error \<Rightarrow> string"
  sn_uuid :: "'x \<Rightarrow> string \<times> 'x"
  sn_ed25519_generate :: "'x \<Rightarrow> (byte list \<times> byte list) \<times> 'x"
  sn_p256_generate :: "'x \<Rightarrow> (byte list \<times> byte list) \<times> 'x"
  sn_ed25519_sign :: "byte list \<Rightarrow> byte list \<Rightarrow> byte list"
  sn_p256_from_slice :: "byte list \<Rightarrow> string + byte list"
  sn_p256_sign_prehash :: "byte list \<Rightarrow> byte list \<Rightarrow> string + byte list"
  sn_p256_from_pem :: "string \<Rightarrow> string + byte list"
  sn_b64_encode :: "byte list \<Rightarrow> string"
  sn_b64_decode :: "base64_engine \<Rightarrow> string \<Rightarrow> string + byte list"
  sn_url_parse :: "string \<Rightarrow> string + string"
  sn_status_text :: "nat \<Rightarrow> string"
  sn_http :: "http_method \<Rightarrow> string \<Rightarrow> (string \<times> string) list \<Rightarrow> json option \<Rightarrow> ('x, string, http_response) eff"

definition at_ext :: "('x, 'e, 'a) eff \<Rightarrow> ('x signer_state, 'e, 'a) eff" where
  "at_ext m = (\<lambda>s. case m (sg_ext s) of (r, x) \<Rightarrow> (r, s\<lparr> sg_ext := x \<rparr>))"

definition pick :: "('x \<Rightarrow> 'a \<times> 'x) \<Rightarrow> ('x signer_state, 'e, 'a) eff" where
  "pick f = at_ext (\<lambda>x. case f x of (a, x') \<Rightarrow> (Inr a, x'))"

text \<open>A statement on the key table, with the faults of the pool.\<close>

definition key_stmt ::
  "'x signer_env \<Rightarrow> (dev_key_row list \<Rightarrow> sqlx_error + ('a \<times> dev_key_row list)) \<Rightarrow>
   ('x signer_state, signing_engine_error, 'a) eff" where
  "key_stmt sn q = (\<lambda>s. case sn_io sn (sg_ext s) of (flt, x) \<Rightarrow>
     let fail = (\<lambda>e. Inl (SigningBackend (sn_sql_show sn e))); s' = s\<lparr> sg_ext := x \<rparr> in
     (case flt of
        FaultBefore m \<Rightarrow> (fail (SqlTransport m), s')
      | NoFault \<Rightarrow> (case q (sg_rows s) of Inl e \<Rightarrow> (fail e, s') | Inr (a, rows) \<Rightarrow> (Inr a, s'\<lparr> sg_rows := rows \<rparr>))
      | FaultAfter m \<Rightarrow> (case q (sg_rows s) of
            Inl e \<Rightarrow> (fail (SqlTransport m), s')
          | Inr (a, rows) \<Rightarrow> (fail (SqlTransport m), s'\<lparr> sg_rows := rows \<rparr>))))"

section \<open>The development engine\<close>

definition show_unknown_algorithm :: "unknown_algorithm \<Rightarrow> string" where
  "show_unknown_algorithm u = (case u of UnknownAlgorithm s \<Rightarrow> ''unknown algorithm: '' @ debug_str s)"

definition parse_algorithm_label :: "string \<Rightarrow> signing_engine_error + key_algorithm" where
  "parse_algorithm_label label =
     mapErrR (\<lambda>e. SigningBackend (''unknown algorithm label in DB: '' @ show_unknown_algorithm e)) (key_algorithm_try_from label)"

definition generate_key_bytes ::
  "'x signer_env \<Rightarrow> key_algorithm \<Rightarrow> ('x signer_state, 'e, byte list \<times> byte list) eff" where
  "generate_key_bytes sn alg = pick (case alg of Ed25519 \<Rightarrow> sn_ed25519_generate sn | EcdsaP256 \<Rightarrow> sn_p256_generate sn)"

definition dev_generate_keypair ::
  "'x signer_env \<Rightarrow> key_role \<Rightarrow> ('x signer_state, signing_engine_error, generated_key_pair) eff" where
  "dev_generate_keypair sn role = (let alg = algorithm_for_role role in
     bindE (generate_key_bytes sn alg) (\<lambda>(private_bytes, public_bytes).
     bindE (pick (sn_uuid sn)) (\<lambda>uuid.
     bindE (key_stmt sn (\<lambda>rows. if KeyPairId uuid \<in> dk_id ` set rows
        then Inl (SqlUnique ''signing_engine_dev_keypairs_pkey'')
        else Inr ((), rows @ [\<lparr> dk_id = KeyPairId uuid, dk_algorithm = key_algorithm_as_str alg,
               dk_private_key = private_bytes, dk_public_key = public_bytes \<rparr>]))) (\<lambda>_.
     ret \<lparr> gkp_id = KeyPairId uuid, gkp_public_key = \<lparr> rpk_algorithm = alg, rpk_bytes = public_bytes \<rparr> \<rparr>))))"

definition dev_key_row_of :: "'x signer_env \<Rightarrow> key_pair_id \<Rightarrow> ('x signer_state, signing_engine_error, dev_key_row) eff" where
  "dev_key_row_of sn k =
     bindE (key_stmt sn (\<lambda>rows. Inr (row_by dk_id k rows, rows))) (\<lambda>row. okOr (KeyNotFound k) row)"

definition dev_get_public_key ::
  "'x signer_env \<Rightarrow> key_pair_id \<Rightarrow> ('x signer_state, signing_engine_error, raw_public_key) eff" where
  "dev_get_public_key sn k =
     bindE (dev_key_row_of sn k) (\<lambda>row.
     bindE (liftR (parse_algorithm_label (dk_algorithm row))) (\<lambda>alg.
     ret \<lparr> rpk_algorithm = alg, rpk_bytes = dk_public_key row \<rparr>))"

definition sign_ed25519 :: "'x signer_env \<Rightarrow> byte list \<Rightarrow> byte list \<Rightarrow> signing_engine_error + byte list" where
  "sign_ed25519 sn private_bytes input =
     (if length private_bytes \<noteq> 32
      then Inl (SigningBackend (''ed25519 private key has unexpected length: '' @ show_nat (length private_bytes)))
      else Inr (sn_ed25519_sign sn private_bytes input))"

definition sign_ecdsa_p256 :: "'x signer_env \<Rightarrow> byte list \<Rightarrow> byte list \<Rightarrow> signing_engine_error + byte list" where
  "sign_ecdsa_p256 sn private_bytes input =
     (if length input \<noteq> 32 then Inl (InvalidInputLength 32 (length input))
      else bindR (mapErrR SigningBackend (sn_p256_from_slice sn private_bytes)) (\<lambda>key.
        mapErrR SigningBackend (sn_p256_sign_prehash sn key input)))"

definition dev_sign ::
  "'x signer_env \<Rightarrow> key_pair_id \<Rightarrow> byte list \<Rightarrow> ('x signer_state, signing_engine_error, signature) eff" where
  "dev_sign sn k input =
     bindE (dev_key_row_of sn k) (\<lambda>row.
     bindE (liftR (parse_algorithm_label (dk_algorithm row))) (\<lambda>alg.
     bindE (liftR (case alg of Ed25519 \<Rightarrow> sign_ed25519 sn (dk_private_key row) input
        | EcdsaP256 \<Rightarrow> sign_ecdsa_p256 sn (dk_private_key row) input)) (\<lambda>bytes.
     ret \<lparr> sig_algorithm = alg, sig_bytes = bytes \<rparr>)))"

definition dev_delete_keypair :: "'x signer_env \<Rightarrow> key_pair_id \<Rightarrow> ('x signer_state, signing_engine_error, unit) eff" where
  "dev_delete_keypair sn k = key_stmt sn (\<lambda>rows. Inr ((), filter (\<lambda>r. dk_id r \<noteq> k) rows))"

section \<open>The Vault engine\<close>

definition VAULT_KEY_VERSION :: string where "VAULT_KEY_VERSION = ''1''"
definition VAULT_SIGNATURE_PREFIX :: string where "VAULT_SIGNATURE_PREFIX = ''vault:v1:''"
definition VAULT_SIGN_KEY_NOT_FOUND :: string where "VAULT_SIGN_KEY_NOT_FOUND = ''signing key not found''"
definition VAULT_CONFIG_KEY_NOT_FOUND :: string where "VAULT_CONFIG_KEY_NOT_FOUND = ''no existing key named''"
definition VAULT_DELETE_KEY_NOT_FOUND :: string where "VAULT_DELETE_KEY_NOT_FOUND = ''could not delete key; not found''"

definition signing_url :: "'x signer_env \<Rightarrow> vault_engine \<Rightarrow> string \<Rightarrow> signing_engine_error + string" where
  "signing_url sn eng suffix =
     (let base = trim_end_matches (CHR ''/'') (vt_address eng); mount = trim_matches (CHR ''/'') (vt_transit_path eng)
      in mapErrR (\<lambda>e. SigningBackend (''vault url parse: '' @ e))
           (sn_url_parse sn (base @ ''/v1/'' @ mount @ ''/'' @ suffix)))"

definition key_url :: "'x signer_env \<Rightarrow> vault_engine \<Rightarrow> key_pair_id \<Rightarrow> signing_engine_error + string" where
  "key_url sn eng k = signing_url sn eng (''keys/'' @ key_pair_uuid k)"

definition sign_url :: "'x signer_env \<Rightarrow> vault_engine \<Rightarrow> key_pair_id \<Rightarrow> signing_engine_error + string" where
  "sign_url sn eng k = signing_url sn eng (''sign/'' @ key_pair_uuid k)"

definition key_config_url :: "'x signer_env \<Rightarrow> vault_engine \<Rightarrow> key_pair_id \<Rightarrow> signing_engine_error + string" where
  "key_config_url sn eng k = signing_url sn eng (''keys/'' @ key_pair_uuid k @ ''/config'')"

definition vault_send ::
  "'x signer_env \<Rightarrow> vault_engine \<Rightarrow> http_method \<Rightarrow> string \<Rightarrow> json option \<Rightarrow>
   ('x signer_state, signing_engine_error, http_response) eff" where
  "vault_send sn eng meth url body =
     mapErr SigningBackend (at_ext (sn_http sn meth url [(VAULT_TOKEN_HEADER, vt_token eng)] body))"

definition body_text :: "http_response \<Rightarrow> string" where
  "body_text resp = (case hr_text resp of Inl _ \<Rightarrow> [] | Inr t \<Rightarrow> t)"

datatype signing_op = OpGet | OpSign

definition map_signing_error :: "'x signer_env \<Rightarrow> nat \<Rightarrow> string \<Rightarrow> key_pair_id \<Rightarrow> signing_op \<Rightarrow> signing_engine_error" where
  "map_signing_error sn status body k oper =
     (if oper = OpGet \<and> status = 404 then KeyNotFound k
      else if oper = OpSign \<and> status = 400 \<and> str_contains VAULT_SIGN_KEY_NOT_FOUND body then KeyNotFound k
      else SigningBackend (''vault '' @ sn_status_text sn status @ '': '' @ body))"

definition parse_vault_algorithm :: "string \<Rightarrow> signing_engine_error + key_algorithm" where
  "parse_vault_algorithm label =
     mapErrR (\<lambda>e. SigningBackend (''unknown vault key type: '' @ show_unknown_algorithm e)) (key_algorithm_try_from label)"

definition parse_ed25519_public_key :: "'x signer_env \<Rightarrow> string \<Rightarrow> signing_engine_error + byte list" where
  "parse_ed25519_public_key sn b64 =
     bindR (mapErrR (\<lambda>e. SigningBackend (''ed25519 base64: '' @ e)) (sn_b64_decode sn Standard b64)) (\<lambda>bytes.
     if length bytes \<noteq> 32
     then Inl (SigningBackend (''ed25519 public key has unexpected length: '' @ show_nat (length bytes))) else Inr bytes)"

definition parse_ecdsa_p256_public_key_pem :: "'x signer_env \<Rightarrow> string \<Rightarrow> signing_engine_error + byte list" where
  "parse_ecdsa_p256_public_key_pem sn pem =
     mapErrR (\<lambda>e. SigningBackend (''ecdsa-p256 pem: '' @ e)) (sn_p256_from_pem sn pem)"

text \<open>\<open>HashMap<String, KeyVersion>\<close>: an object of versions, the last of equal keys counts.\<close>

fun key_versions :: "json \<Rightarrow> string + (string \<times> string) list" where
  "key_versions (JObj kvs) =
     foldr (\<lambda>(k, v) acc. bindR acc (\<lambda>rest. bindR (text_member ''public_key'' v) (\<lambda>pk. Inr ((k, pk) # rest)))) kvs (Inr [])"
| "key_versions _ = Inl ''invalid type''"

definition key_read_response :: "json \<Rightarrow> string + string \<times> (string \<times> string) list" where
  "key_read_response v =
     bindR (struct_members [''data''] v) (\<lambda>m.
     bindR (req_member Some ''data'' m) (\<lambda>d.
     bindR (struct_members [''type'', ''keys''] d) (\<lambda>dm.
     bindR (req_member as_string ''type'' dm) (\<lambda>label.
     bindR (bindR (req_member Some ''keys'' dm) key_versions) (\<lambda>keys.
     Inr (label, keys))))))"

definition cache_set :: "key_pair_id \<Rightarrow> key_algorithm \<Rightarrow> ('x signer_state, 'e, unit) eff" where
  "cache_set k alg = (\<lambda>s. (Inr (), s\<lparr> sg_cache := (sg_cache s)(k \<mapsto> alg) \<rparr>))"

definition cache_get :: "key_pair_id \<Rightarrow> ('x signer_state, 'e, key_algorithm option) eff" where
  "cache_get k = (\<lambda>s. (Inr (sg_cache s k), s))"

definition cache_remove :: "key_pair_id \<Rightarrow> ('x signer_state, 'e, unit) eff" where
  "cache_remove k = (\<lambda>s. (Inr (), s\<lparr> sg_cache := (sg_cache s)(k := None) \<rparr>))"

definition fetch_public_key ::
  "'x signer_env \<Rightarrow> vault_engine \<Rightarrow> key_pair_id \<Rightarrow> ('x signer_state, signing_engine_error, raw_public_key) eff" where
  "fetch_public_key sn eng k =
     bindE (liftR (key_url sn eng k)) (\<lambda>url.
     bindE (vault_send sn eng Get url None) (\<lambda>resp.
     if \<not> status_is_success (hr_status resp) then raise (map_signing_error sn (hr_status resp) (body_text resp) k OpGet)
     else
     bindE (liftR (mapErrR SigningBackend (bindR (hr_json resp) key_read_response))) (\<lambda>(label, keys).
     bindE (liftR (parse_vault_algorithm label)) (\<lambda>alg.
     bindE (okOr (SigningBackend (''vault key '' @ key_pair_uuid k @ '' missing version `'' @ VAULT_KEY_VERSION @ ''`''))
              (map_of (rev keys) VAULT_KEY_VERSION)) (\<lambda>version.
     bindE (liftR (case alg of Ed25519 \<Rightarrow> parse_ed25519_public_key sn version
              | EcdsaP256 \<Rightarrow> parse_ecdsa_p256_public_key_pem sn version)) (\<lambda>bytes.
     bindE (cache_set k alg) (\<lambda>_.
     ret \<lparr> rpk_algorithm = alg, rpk_bytes = bytes \<rparr>)))))))"

definition create_key ::
  "'x signer_env \<Rightarrow> vault_engine \<Rightarrow> key_pair_id \<Rightarrow> key_algorithm \<Rightarrow> ('x signer_state, signing_engine_error, unit) eff" where
  "create_key sn eng k alg =
     bindE (liftR (key_url sn eng k)) (\<lambda>url.
     bindE (vault_send sn eng Post url (Some (JObj [(''type'', JStr (key_algorithm_as_str alg))]))) (\<lambda>resp.
     guardE (status_is_success (hr_status resp))
       (SigningBackend (''vault create-key '' @ sn_status_text sn (hr_status resp) @ '': '' @ body_text resp))))"

definition vault_generate_keypair ::
  "'x signer_env \<Rightarrow> vault_engine \<Rightarrow> key_role \<Rightarrow> ('x signer_state, signing_engine_error, generated_key_pair) eff" where
  "vault_generate_keypair sn eng role = (let alg = algorithm_for_role role in
     bindE (pick (sn_uuid sn)) (\<lambda>uuid. let k = KeyPairId uuid in
     bindE (create_key sn eng k alg) (\<lambda>_.
     bindE (fetch_public_key sn eng k) (\<lambda>pk.
     bindE (guardE (rpk_algorithm pk = alg)
       (SigningBackend (''vault returned algorithm '' @ algorithm_debug (rpk_algorithm pk) @ '' for key '' @ uuid
          @ '', expected '' @ algorithm_debug alg))) (\<lambda>_.
     ret \<lparr> gkp_id = k, gkp_public_key = pk \<rparr>)))))"

definition lookup_algorithm ::
  "'x signer_env \<Rightarrow> vault_engine \<Rightarrow> key_pair_id \<Rightarrow> ('x signer_state, signing_engine_error, key_algorithm) eff" where
  "lookup_algorithm sn eng k = bindE (cache_get k) (\<lambda>hit. case hit of
     Some alg \<Rightarrow> ret alg
   | None \<Rightarrow> bindE (fetch_public_key sn eng k) (\<lambda>pk. ret (rpk_algorithm pk)))"

definition build_sign_request :: "'x signer_env \<Rightarrow> byte list \<Rightarrow> key_algorithm \<Rightarrow> json" where
  "build_sign_request sn input alg = (let input_b64 = JStr (sn_b64_encode sn input) in
     (case alg of
        Ed25519 \<Rightarrow> JObj [(''input'', input_b64)]
      | EcdsaP256 \<Rightarrow> JObj [(''input'', input_b64), (''prehashed'', JBool True), (''hash_algorithm'', JStr ''sha2-256''),
          (''marshaling_algorithm'', JStr ''jws'')]))"

definition parse_vault_signature :: "'x signer_env \<Rightarrow> string \<Rightarrow> key_algorithm \<Rightarrow> signing_engine_error + byte list" where
  "parse_vault_signature sn raw alg =
     bindR (result_of_option (SigningBackend (''vault signature missing `'' @ VAULT_SIGNATURE_PREFIX @ ''` prefix: '' @ raw))
              (strip_prefix VAULT_SIGNATURE_PREFIX raw)) (\<lambda>body.
     bindR (mapErrR (\<lambda>e. SigningBackend (''vault signature base64: '' @ e))
              (sn_b64_decode sn (case alg of Ed25519 \<Rightarrow> Standard | EcdsaP256 \<Rightarrow> UrlSafeNoPad) body)) (\<lambda>bytes.
     if length bytes \<noteq> 64
     then Inl (SigningBackend (''vault signature has unexpected length: '' @ show_nat (length bytes))) else Inr bytes))"

text \<open>The request of a signature once the algorithm of the key is known.\<close>

definition vault_sign_with ::
  "'x signer_env \<Rightarrow> vault_engine \<Rightarrow> key_pair_id \<Rightarrow> byte list \<Rightarrow> key_algorithm \<Rightarrow>
   ('x signer_state, signing_engine_error, signature) eff" where
  "vault_sign_with sn eng k input alg =
     bindE (guardE (\<not> (alg = EcdsaP256 \<and> length input \<noteq> 32)) (InvalidInputLength 32 (length input))) (\<lambda>_.
     bindE (liftR (sign_url sn eng k)) (\<lambda>url.
     bindE (vault_send sn eng Post url (Some (build_sign_request sn input alg))) (\<lambda>resp.
     if \<not> status_is_success (hr_status resp) then raise (map_signing_error sn (hr_status resp) (body_text resp) k OpSign)
     else
     bindE (liftR (mapErrR SigningBackend (bindR (hr_json resp) (data_member ''signature'')))) (\<lambda>raw.
     bindE (liftR (parse_vault_signature sn raw alg)) (\<lambda>bytes.
     ret \<lparr> sig_algorithm = alg, sig_bytes = bytes \<rparr>)))))"

definition vault_sign ::
  "'x signer_env \<Rightarrow> vault_engine \<Rightarrow> key_pair_id \<Rightarrow> byte list \<Rightarrow> ('x signer_state, signing_engine_error, signature) eff" where
  "vault_sign sn eng k input = bindE (lookup_algorithm sn eng k) (vault_sign_with sn eng k input)"

text \<open>A key that is already gone counts as deleted.\<close>

definition gone_is_fine ::
  "'x signer_env \<Rightarrow> http_response \<Rightarrow> string \<Rightarrow> string \<Rightarrow> ('x signer_state, signing_engine_error, unit) eff" where
  "gone_is_fine sn resp marker what =
     guardE (status_is_success (hr_status resp) \<or> hr_status resp = 400 \<and> str_contains marker (body_text resp))
       (SigningBackend (''vault '' @ what @ '' '' @ sn_status_text sn (hr_status resp) @ '': '' @ body_text resp))"

definition allow_deletion :: "'x signer_env \<Rightarrow> vault_engine \<Rightarrow> key_pair_id \<Rightarrow> ('x signer_state, signing_engine_error, unit) eff" where
  "allow_deletion sn eng k =
     bindE (liftR (key_config_url sn eng k)) (\<lambda>url.
     bindE (vault_send sn eng Post url (Some (JObj [(''deletion_allowed'', JBool True)]))) (\<lambda>resp.
     gone_is_fine sn resp VAULT_CONFIG_KEY_NOT_FOUND (''keys/'' @ key_pair_uuid k @ ''/config'')))"

definition delete_key :: "'x signer_env \<Rightarrow> vault_engine \<Rightarrow> key_pair_id \<Rightarrow> ('x signer_state, signing_engine_error, unit) eff" where
  "delete_key sn eng k =
     bindE (liftR (key_url sn eng k)) (\<lambda>url.
     bindE (vault_send sn eng Delete url None) (\<lambda>resp.
     gone_is_fine sn resp VAULT_DELETE_KEY_NOT_FOUND (''delete keys/'' @ key_pair_uuid k)))"

definition vault_delete_keypair ::
  "'x signer_env \<Rightarrow> vault_engine \<Rightarrow> key_pair_id \<Rightarrow> ('x signer_state, signing_engine_error, unit) eff" where
  "vault_delete_keypair sn eng k =
     bindE (allow_deletion sn eng k) (\<lambda>_. bindE (delete_key sn eng k) (\<lambda>_. cache_remove k))"

section \<open>Dispatch and configuration\<close>

datatype any_signing_engine = DevSigner | VaultSigner vault_engine

primrec engine_generate ::
  "'x signer_env \<Rightarrow> any_signing_engine \<Rightarrow> key_role \<Rightarrow> ('x signer_state, signing_engine_error, generated_key_pair) eff" where
  "engine_generate sn DevSigner = dev_generate_keypair sn"
| "engine_generate sn (VaultSigner eng) = vault_generate_keypair sn eng"

primrec engine_public_key ::
  "'x signer_env \<Rightarrow> any_signing_engine \<Rightarrow> key_pair_id \<Rightarrow> ('x signer_state, signing_engine_error, raw_public_key) eff" where
  "engine_public_key sn DevSigner = dev_get_public_key sn"
| "engine_public_key sn (VaultSigner eng) = fetch_public_key sn eng"

primrec engine_sign ::
  "'x signer_env \<Rightarrow> any_signing_engine \<Rightarrow> key_pair_id \<Rightarrow> byte list \<Rightarrow> ('x signer_state, signing_engine_error, signature) eff" where
  "engine_sign sn DevSigner = dev_sign sn"
| "engine_sign sn (VaultSigner eng) = vault_sign sn eng"

primrec engine_delete ::
  "'x signer_env \<Rightarrow> any_signing_engine \<Rightarrow> key_pair_id \<Rightarrow> ('x signer_state, signing_engine_error, unit) eff" where
  "engine_delete sn DevSigner = dev_delete_keypair sn"
| "engine_delete sn (VaultSigner eng) = vault_delete_keypair sn eng"

definition engine_ops :: "'x signer_env \<Rightarrow> any_signing_engine \<Rightarrow> ('x signer_state) signing_engine" where
  "engine_ops sn eng = \<lparr> se_generate_keypair = engine_generate sn eng, se_get_public_key = engine_public_key sn eng,
     se_sign = engine_sign sn eng \<rparr>"

definition build_vault_signer :: "'x signer_env \<Rightarrow> (string \<Rightarrow> string) \<Rightarrow> engine_build_error + vault_engine" where
  "build_vault_signer sn vars =
     bindR (non_blank_env vars ''VAULT_ADDR'') (\<lambda>address.
     bindR (non_blank_env vars ''VAULT_TOKEN'') (\<lambda>vtoken.
     let path = trim (vars ''SIGNING_VAULT_TRANSIT_PATH''); timeout = trim (vars ''VAULT_REQUEST_TIMEOUT_SECS'') in
     bindR (if timeout = [] then Inr DEFAULT_REQUEST_TIMEOUT
            else mapErrR VaultTimeoutInvalid (parse_unsigned (2 ^ 64 - 1) timeout)) (\<lambda>request_timeout.
     bindR (mapErrR VaultAddrInvalid (sn_url_parse sn address)) (\<lambda>url.
     Inr \<lparr> vt_address = url, vt_token = vtoken,
            vt_transit_path = (if path = [] then DEFAULT_TRANSIT_PATH else path),
            vt_request_timeout = request_timeout \<rparr>))))"

definition build_signer_from_env :: "'x signer_env \<Rightarrow> (string \<Rightarrow> string) \<Rightarrow> engine_build_error + any_signing_engine" where
  "build_signer_from_env sn vars = (let kind = trim (vars ''SIGNING_ENGINE'') in
     if kind = ''dev'' \<or> kind = [] then Inr DevSigner
     else if kind = ''vault'' then bindR (build_vault_signer sn vars) (\<lambda>eng. Inr (VaultSigner eng))
     else Inl (UnknownKind kind))"

section \<open>The key table\<close>

definition keys_inv :: "'x signer_state \<Rightarrow> bool" where
  "keys_inv s \<longleftrightarrow> distinct (map dk_id (sg_rows s))"

lemma at_ext_rows [pres]: "preserves (\<lambda>s. P (sg_rows s)) (at_ext m)" "preserves (\<lambda>s. P (sg_rows s)) (pick f)"
  by (auto simp: preserves_def at_ext_def pick_def split: prod.splits)

lemma cache_rows [pres]:
  "preserves (\<lambda>s. P (sg_rows s)) (cache_set k a)" "preserves (\<lambda>s. P (sg_rows s)) (cache_get k)" "preserves (\<lambda>s. P (sg_rows s)) (cache_remove k)"
  by (simp_all add: preserves_def cache_set_def cache_get_def cache_remove_def)

lemma key_stmt_preserves:
  assumes "\<And>rows a rows'. P rows \<Longrightarrow> q rows = Inr (a, rows') \<Longrightarrow> P rows'"
  shows "preserves (\<lambda>s. P (sg_rows s)) (key_stmt sn q)"
  using assms by (auto simp: preserves_def key_stmt_def Let_def split: prod.splits sql_fault.splits sum.splits)

lemma generate_key_bytes_rows [pres]: "preserves (\<lambda>s. P (sg_rows s)) (generate_key_bytes sn alg)"
  unfolding generate_key_bytes_def by (rule pres)

lemma dev_key_row_of_rows [pres]: "preserves (\<lambda>s. P (sg_rows s)) (dev_key_row_of sn k)"
  unfolding dev_key_row_of_def by (intro pres key_stmt_preserves) auto

lemma dev_reads_rows [pres]:
  "preserves (\<lambda>s. P (sg_rows s)) (dev_get_public_key sn k)" "preserves (\<lambda>s. P (sg_rows s)) (dev_sign sn k inp)"
  unfolding dev_get_public_key_def dev_sign_def by (intro pres)+

lemma dev_generate_rows:
  assumes "\<And>rows r. P rows \<Longrightarrow> dk_id r \<notin> dk_id ` set rows \<Longrightarrow> P (rows @ [r])"
  shows "preserves (\<lambda>s. P (sg_rows s)) (dev_generate_keypair sn role)"
  unfolding dev_generate_keypair_def Let_def
  by (intro pres key_stmt_preserves; auto intro!: pres key_stmt_preserves assms split: if_splits)

lemma dev_delete_rows:
  assumes "\<And>rows. P rows \<Longrightarrow> P (filter (\<lambda>r. dk_id r \<noteq> k) rows)"
  shows "preserves (\<lambda>s. P (sg_rows s)) (dev_delete_keypair sn k)"
  unfolding dev_delete_keypair_def by (intro key_stmt_preserves) (auto simp: assms)

lemma vault_rows [pres]:
  "preserves (\<lambda>s. P (sg_rows s)) (fetch_public_key sn eng k)" "preserves (\<lambda>s. P (sg_rows s)) (create_key sn eng k alg)"
  "preserves (\<lambda>s. P (sg_rows s)) (vault_sign_with sn eng k inp alg)"
  unfolding fetch_public_key_def create_key_def vault_sign_with_def vault_send_def
  by (intro pres; simp add: split_beta; intro pres)+

end
