(* ===== verification/SigningProps.thy ===== *)
theory SigningProps
  imports Signing Fixtures
begin

text \<open>
  The life of a key in the development engine, and what the cache of the Vault engine may
  contain.  \<open>signing_contract\<close> is the part of the trait that callers use without knowing the
  backend: the role fixes the algorithm, and only digests are signed with P-256 keys.
\<close>

section \<open>The contract of the trait\<close>

locale signing_contract =
  fixes ops :: "'s signing_engine"
  assumes role_algorithm: "se_generate_keypair ops role s = (Inr kp, s') \<Longrightarrow>
      rpk_algorithm (gkp_public_key kp) = algorithm_for_role role"
    and digest_length: "se_sign ops k inp s = (Inr sig, s') \<Longrightarrow> sig_algorithm sig = EcdsaP256 \<Longrightarrow> length inp = 32"
begin

lemma only_authorized_is_ed25519:
  assumes "se_generate_keypair ops role s = (Inr kp, s')"
  shows "rpk_algorithm (gkp_public_key kp) = Ed25519 \<longleftrightarrow> role = Authorized"
  using role_algorithm [OF assms] by (cases role) simp_all

lemma message_signature_is_ed25519: "se_sign ops k inp s = (Inr sig, s') \<Longrightarrow> length inp \<noteq> 32 \<Longrightarrow> sig_algorithm sig = Ed25519"
  using digest_length by (cases "sig_algorithm sig") auto

end

lemma dev_generate_success:
  assumes "dev_generate_keypair sn role s = (Inr kp, s')"
  shows "\<exists>priv. sg_rows s' = sg_rows s @ [\<lparr> dk_id = gkp_id kp, dk_algorithm = key_algorithm_as_str (algorithm_for_role role),
      dk_private_key = priv, dk_public_key = rpk_bytes (gkp_public_key kp) \<rparr>] \<and>
    gkp_id kp \<notin> dk_id ` set (sg_rows s) \<and> rpk_algorithm (gkp_public_key kp) = algorithm_for_role role"
  using assms unfolding dev_generate_keypair_def generate_key_bytes_def pick_def at_ext_def key_stmt_def Let_def
  by (auto simp: eff_success split: prod.splits sql_fault.splits sum.splits if_splits)

lemma dev_sign_length:
  assumes "dev_sign sn k inp s = (Inr sig, s')" and "sig_algorithm sig = EcdsaP256"
  shows "length inp = 32"
  using assms by (auto simp: dev_sign_def eff_success sign_ecdsa_p256_def split: if_splits)

lemma vault_sign_success:
  assumes "vault_sign sn eng k inp s = (Inr sig, s')"
  shows "\<exists>alg s1. lookup_algorithm sn eng k s = (Inr alg, s1) \<and> sig_algorithm sig = alg \<and>
    (alg = EcdsaP256 \<longrightarrow> length inp = 32) \<and> length (sig_bytes sig) = 64"
  using assms unfolding vault_sign_def vault_sign_with_def parse_vault_signature_def
  by (auto simp: eff_success res_success raise_def split: if_splits)

lemma vault_generate_success:
  assumes "vault_generate_keypair sn eng role s = (Inr kp, s')"
  shows "rpk_algorithm (gkp_public_key kp) = algorithm_for_role role"
  using assms by (auto simp: vault_generate_keypair_def Let_def eff_success)

interpretation engine: signing_contract "engine_ops sn eng" for sn eng
proof
  show "rpk_algorithm (gkp_public_key kp) = algorithm_for_role role"
    if "se_generate_keypair (engine_ops sn eng) role s = (Inr kp, s')" for role s kp s'
    using that dev_generate_success vault_generate_success by (cases eng) (fastforce simp: engine_ops_def)+
  show "length inp = 32" if "se_sign (engine_ops sn eng) k inp s = (Inr sig, s')" "sig_algorithm sig = EcdsaP256" for k inp s sig s'
    using that dev_sign_length vault_sign_success by (cases eng) (fastforce simp: engine_ops_def)+
qed

section \<open>The life of a key\<close>

text \<open>Everything that may happen to the engine while one key is not deleted.\<close>

inductive engine_step :: "'x signer_env \<Rightarrow> key_pair_id \<Rightarrow> 'x signer_state \<Rightarrow> 'x signer_state \<Rightarrow> bool" for sn k where
  generate: "dev_generate_keypair sn role s = (r, s') \<Longrightarrow> engine_step sn k s s'"
| read: "dev_get_public_key sn k' s = (p, s') \<Longrightarrow> engine_step sn k s s'"
| use: "dev_sign sn k' inp s = (sg, s') \<Longrightarrow> engine_step sn k s s'"
| drop_other: "dev_delete_keypair sn k' s = (u, s') \<Longrightarrow> k' \<noteq> k \<Longrightarrow> engine_step sn k s s'"

definition holds_key :: "dev_key_row \<Rightarrow> dev_key_row list \<Rightarrow> bool" where
  "holds_key row rows \<longleftrightarrow> distinct (map dk_id rows) \<and> row \<in> set rows"

lemma engine_step_keeps:
  assumes "engine_step sn (dk_id row) s s'" and "holds_key row (sg_rows s)"
  shows "holds_key row (sg_rows s')"
  using assms
proof (induction rule: engine_step.induct)
  case (generate role s r s')
  moreover have "preserves (\<lambda>s. holds_key row (sg_rows s)) (dev_generate_keypair sn role)"
    by (rule dev_generate_rows) (auto simp: holds_key_def)
  ultimately show ?case by (metis preserves_def snd_conv)
next
  case (read k' s p s')
  then show ?case using dev_reads_rows(1) [of "holds_key row"] by (metis preserves_def snd_conv)
next
  case (use k' inp s sg s')
  then show ?case using dev_reads_rows(2) [of "holds_key row"] by (metis preserves_def snd_conv)
next
  case (drop_other k' s u s')
  moreover have "preserves (\<lambda>s. holds_key row (sg_rows s)) (dev_delete_keypair sn k')"
    by (rule dev_delete_rows) (use drop_other(2) in \<open>auto simp: holds_key_def distinct_map_filter\<close>)
  ultimately show ?case by (metis preserves_def snd_conv)
qed

definition key_table_up :: "'x signer_env \<Rightarrow> bool" where
  "key_table_up sn \<longleftrightarrow> (\<forall>x. fst (sn_io sn x) = NoFault)"

lemma key_stmt_up:
  "key_table_up sn \<Longrightarrow> key_stmt sn q s = (case q (sg_rows s) of
      Inl e \<Rightarrow> (Inl (SigningBackend (sn_sql_show sn e)), s\<lparr> sg_ext := snd (sn_io sn (sg_ext s)) \<rparr>)
    | Inr (a, rows) \<Rightarrow> (Inr a, s\<lparr> sg_ext := snd (sn_io sn (sg_ext s)), sg_rows := rows \<rparr>))"
  by (auto simp: key_table_up_def key_stmt_def Let_def split: prod.splits sql_fault.splits sum.splits)
     (metis fst_conv sql_fault.distinct(1,3))+

lemma held_key_row:
  assumes "key_table_up sn" and "holds_key row (sg_rows s)"
  shows "dev_key_row_of sn (dk_id row) s = (Inr row, s\<lparr> sg_ext := snd (sn_io sn (sg_ext s)) \<rparr>)"
  using assms row_by_unique [of dk_id "sg_rows s" row]
  by (simp add: dev_key_row_of_def bindE_run key_stmt_up holds_key_def okOr_def ret_def)

lemma dev_sign_held:
  assumes "key_table_up sn" and "holds_key row (sg_rows s)" and "key_algorithm_try_from (dk_algorithm row) = Inr alg"
  shows "fst (dev_sign sn (dk_id row) inp s) =
    (case (case alg of Ed25519 \<Rightarrow> sign_ed25519 sn (dk_private_key row) inp | EcdsaP256 \<Rightarrow> sign_ecdsa_p256 sn (dk_private_key row) inp) of
       Inl e \<Rightarrow> Inl e | Inr bs \<Rightarrow> Inr \<lparr> sig_algorithm = alg, sig_bytes = bs \<rparr>)"
  using held_key_row [OF assms(1,2)] assms(3)
  by (auto simp: dev_sign_def bindE_run parse_algorithm_label_def liftR_def ret_def split: sum.splits key_algorithm.splits)

lemma dev_deleted:
  assumes "key_table_up sn" and "dev_delete_keypair sn k s = (Inr (), s')"
  shows "fst (dev_get_public_key sn k s') = Inl (KeyNotFound k)" "fst (dev_sign sn k inp s') = Inl (KeyNotFound k)"
    "fst (dev_delete_keypair sn k s') = Inr ()"
proof -
  have "row_by dk_id k (sg_rows s') = None"
    using assms by (auto simp: dev_delete_keypair_def key_stmt_up row_by_None)
  then have "dev_key_row_of sn k s' = (Inl (KeyNotFound k), s'\<lparr> sg_ext := snd (sn_io sn (sg_ext s')) \<rparr>)"
    using assms(1) by (simp add: dev_key_row_of_def bindE_run key_stmt_up okOr_def raise_def)
  then show "fst (dev_get_public_key sn k s') = Inl (KeyNotFound k)" "fst (dev_sign sn k inp s') = Inl (KeyNotFound k)"
    by (simp_all add: dev_get_public_key_def dev_sign_def bindE_run)
  show "fst (dev_delete_keypair sn k s') = Inr ()" using assms(1) by (simp add: dev_delete_keypair_def key_stmt_up)
qed

section \<open>Fixtures\<close>

definition fx_signer :: "nat signer_env" where
  "fx_signer = \<lparr> sn_io = (\<lambda>x. (NoFault, Suc x)), sn_sql_show = (\<lambda>_. ''db''), sn_uuid = (\<lambda>x. (''u1'', Suc x)),
     sn_ed25519_generate = (\<lambda>x. ((replicate 32 1, replicate 32 2), Suc x)),
     sn_p256_generate = (\<lambda>x. ((replicate 32 3, replicate 65 4), Suc x)),
     sn_ed25519_sign = (\<lambda>k m. take 64 (m @ replicate 64 0)), sn_p256_from_slice = Inr,
     sn_p256_sign_prehash = (\<lambda>k d. Inr (k @ d)), sn_p256_from_pem = (\<lambda>_. Inr (replicate 65 4)), sn_b64_encode = bytes_str,
     sn_b64_decode = (\<lambda>_ _. Inr (replicate 64 7)), sn_url_parse = Inr, sn_status_text = show_nat,
     sn_http = (\<lambda>meth url hs body x. (Inr \<lparr> hr_status = 200, hr_text = Inr [], hr_json = Inr (case meth of
         Get \<Rightarrow> JObj [(''data'', JObj [(''type'', JStr ''ecdsa-p256''), (''keys'', JObj [(''1'', JObj [(''public_key'', JStr ''pem'')])])])]
       | _ \<Rightarrow> JObj [(''data'', JObj [(''signature'', JStr ''vault:v1:c2ln'')])]) \<rparr>, Suc x)) \<rparr>"

definition fx_vault :: vault_engine where
  "fx_vault = \<lparr> vt_address = ''http://vault:8200/'', vt_token = ''t'', vt_transit_path = ''/transit/'', vt_request_timeout = 5 \<rparr>"

definition fx_signer_state :: "nat signer_state" where
  "fx_signer_state = \<lparr> sg_rows = [], sg_cache = Map.empty, sg_ext = 0 \<rparr>"

lemmas fx_vault_eval = fx_signer_def fx_vault_def bindE_run mapErr_run at_ext_def vault_send_def liftR_def okOr_def ret_def cache_set_def
  status_is_success_def struct_members.simps req_member_def text_member_def

lemma fx_generates: "\<exists>kp s1. dev_generate_keypair fx_signer Assertion fx_signer_state = (Inr kp, s1)"
  by (simp add: dev_generate_keypair_def generate_key_bytes_def pick_def at_ext_def bindE_run key_stmt_def Let_def fx_signer_def
      fx_signer_state_def ret_def)

text \<open>C33. A key of the development engine lives from its generation to its deletion: whatever
  else the engine does in between, its public key reads back as it was handed out and it signs
  with the algorithm of its role, refusing P-256 input that is not a 32-byte digest; once it is
  deleted, reading and signing report a missing key and deleting again succeeds.\<close>

theorem generated_key_lives_until_deleted:
  assumes "key_table_up sn" and "keys_inv s" and "dev_generate_keypair sn role s = (Inr kp, s1)"
    and "(engine_step sn (gkp_id kp))\<^sup>*\<^sup>* s1 s2"
  shows "fst (dev_get_public_key sn (gkp_id kp) s2) = Inr (gkp_public_key kp) \<and>
    (\<forall>inp sig. fst (dev_sign sn (gkp_id kp) inp s2) = Inr sig \<longrightarrow> sig_algorithm sig = algorithm_for_role role) \<and>
    (\<forall>inp. role \<noteq> Authorized \<and> length inp \<noteq> 32 \<longrightarrow> fst (dev_sign sn (gkp_id kp) inp s2) = Inl (InvalidInputLength 32 (length inp))) \<and>
    (\<forall>s3 inp. dev_delete_keypair sn (gkp_id kp) s2 = (Inr (), s3) \<longrightarrow>
       fst (dev_get_public_key sn (gkp_id kp) s3) = Inl (KeyNotFound (gkp_id kp)) \<and>
       fst (dev_sign sn (gkp_id kp) inp s3) = Inl (KeyNotFound (gkp_id kp)) \<and> fst (dev_delete_keypair sn (gkp_id kp) s3) = Inr ())"
proof -
  obtain priv where rows: "sg_rows s1 = sg_rows s @ [\<lparr> dk_id = gkp_id kp, dk_algorithm = key_algorithm_as_str (algorithm_for_role role),
      dk_private_key = priv, dk_public_key = rpk_bytes (gkp_public_key kp) \<rparr>]"
    and fresh: "gkp_id kp \<notin> dk_id ` set (sg_rows s)" and alg: "rpk_algorithm (gkp_public_key kp) = algorithm_for_role role"
    using dev_generate_success [OF assms(3)] by blast
  define row where "row = \<lparr> dk_id = gkp_id kp, dk_algorithm = key_algorithm_as_str (algorithm_for_role role),
      dk_private_key = priv, dk_public_key = rpk_bytes (gkp_public_key kp) \<rparr>"
  have row: "dk_id row = gkp_id kp" "key_algorithm_try_from (dk_algorithm row) = Inr (algorithm_for_role role)"
    "dk_public_key row = rpk_bytes (gkp_public_key kp)" by (simp_all add: row_def key_algorithm.parse_as_str)
  have "holds_key row (sg_rows s1)" using rows fresh assms(2) by (simp add: holds_key_def keys_inv_def row_def)
  with assms(4) have held: "holds_key row (sg_rows s2)"
    by (induction rule: rtranclp_induct) (auto intro: engine_step_keeps simp: row(1) [symmetric])
  have "fst (dev_get_public_key sn (gkp_id kp) s2) = Inr (gkp_public_key kp)"
    using held_key_row [OF assms(1) held] row alg
    by (simp add: dev_get_public_key_def bindE_run parse_algorithm_label_def liftR_def ret_def)
  moreover note sign = dev_sign_held [OF assms(1) held row(2), unfolded row(1)]
  have "sig_algorithm sig = algorithm_for_role role" if "fst (dev_sign sn (gkp_id kp) inp s2) = Inr sig" for inp sig
    using that sign [of inp] by (auto split: sum.splits)
  moreover have "fst (dev_sign sn (gkp_id kp) inp s2) = Inl (InvalidInputLength 32 (length inp))" if "role \<noteq> Authorized" "length inp \<noteq> 32" for inp
    using that sign [of inp] by (cases role) (simp_all add: sign_ecdsa_p256_def)
  ultimately show ?thesis using dev_deleted [OF assms(1)] by blast
qed

theorem generated_key_lives_until_deleted_witness:
  "\<exists>kp s1. dev_generate_keypair fx_signer Assertion fx_signer_state = (Inr kp, s1) \<and>
     fst (dev_get_public_key fx_signer (gkp_id kp) s1) = Inr (gkp_public_key kp) \<and>
     fst (dev_sign fx_signer (gkp_id kp) [1, 2, 3] s1) = Inl (InvalidInputLength 32 3)"
proof -
  have "key_table_up fx_signer" "keys_inv fx_signer_state" by (simp_all add: key_table_up_def fx_signer_def keys_inv_def fx_signer_state_def)
  moreover obtain kp s1 where "dev_generate_keypair fx_signer Assertion fx_signer_state = (Inr kp, s1)" using fx_generates by blast
  ultimately show ?thesis using generated_key_lives_until_deleted [of fx_signer fx_signer_state Assertion kp s1 s1] by auto
qed

section \<open>The algorithm cache\<close>

text \<open>Documented of Transit: the type of a key does not change.\<close>

definition key_types_fixed :: "'x signer_env \<Rightarrow> vault_engine \<Rightarrow> (key_pair_id \<Rightarrow> key_algorithm) \<Rightarrow> bool" where
  "key_types_fixed sn eng kt \<longleftrightarrow> (\<forall>k s pk s'. fetch_public_key sn eng k s = (Inr pk, s') \<longrightarrow> rpk_algorithm pk = kt k)"

definition cache_agrees :: "(key_pair_id \<Rightarrow> key_algorithm) \<Rightarrow> 'x signer_state \<Rightarrow> bool" where
  "cache_agrees kt s \<longleftrightarrow> (\<forall>k a. sg_cache s k = Some a \<longrightarrow> a = kt k)"

inductive vault_step :: "'x signer_env \<Rightarrow> vault_engine \<Rightarrow> 'x signer_state \<Rightarrow> 'x signer_state \<Rightarrow> bool" for sn eng where
  generate: "vault_generate_keypair sn eng role s = (r, s') \<Longrightarrow> vault_step sn eng s s'"
| read: "fetch_public_key sn eng k s = (p, s') \<Longrightarrow> vault_step sn eng s s'"
| use: "vault_sign sn eng k inp s = (sg, s') \<Longrightarrow> vault_step sn eng s s'"
| remove: "vault_delete_keypair sn eng k s = (u, s') \<Longrightarrow> vault_step sn eng s s'"

lemma at_ext_cache [pres]: "preserves (\<lambda>s. P (sg_cache s)) (at_ext m)" "preserves (\<lambda>s. P (sg_cache s)) (pick f)"
  by (auto simp: preserves_def at_ext_def pick_def split: prod.splits)

lemma cache_get_cache [pres]: "preserves (\<lambda>s. P (sg_cache s)) (cache_get k)"
  by (simp add: preserves_def cache_get_def)

lemma calls_keep_cache [pres]:
  "preserves (\<lambda>s. P (sg_cache s)) (vault_send sn eng meth url body)"
  "preserves (\<lambda>s. P (sg_cache s)) (create_key sn eng k alg)"
  "preserves (\<lambda>s. P (sg_cache s)) (vault_sign_with sn eng k inp alg)"
  "preserves (\<lambda>s. P (sg_cache s)) (allow_deletion sn eng k)"
  "preserves (\<lambda>s. P (sg_cache s)) (delete_key sn eng k)"
  unfolding create_key_def vault_sign_with_def allow_deletion_def delete_key_def gone_is_fine_def vault_send_def
  by (intro pres)+

lemma fetch_cache:
  assumes "fetch_public_key sn eng k s = (r, s')"
  shows "sg_cache s' = sg_cache s \<or> (\<exists>pk. r = Inr pk \<and> sg_cache s' = (sg_cache s)(k \<mapsto> rpk_algorithm pk))"
  using assms unfolding fetch_public_key_def vault_send_def at_ext_def
  by (auto simp: bindE_run mapErr_run liftR_def okOr_def cache_set_def ret_def raise_def
      split: sum.splits prod.splits if_splits option.splits)

lemma fetch_agrees: "key_types_fixed sn eng kt \<Longrightarrow> preserves (cache_agrees kt) (fetch_public_key sn eng k)"
proof (rule preservesI)
  fix s :: "'a signer_state" assume fixed: "key_types_fixed sn eng kt" and agrees: "cache_agrees kt s"
  obtain r s' where f: "fetch_public_key sn eng k s = (r, s')" by fastforce
  have "rpk_algorithm pk = kt k" if "r = Inr pk" for pk
    using fixed f that unfolding key_types_fixed_def by blast
  then show "cache_agrees kt (snd (fetch_public_key sn eng k s))"
    using fetch_cache [OF f] f agrees by (auto simp: cache_agrees_def split: if_splits)
qed

lemma lookup_agrees: "key_types_fixed sn eng kt \<Longrightarrow> preserves (cache_agrees kt) (lookup_algorithm sn eng k)"
  unfolding lookup_algorithm_def cache_agrees_def [abs_def]
  by (intro pres fetch_agrees [unfolded cache_agrees_def [abs_def]])

lemma vault_step_agrees:
  assumes "key_types_fixed sn eng kt" and "vault_step sn eng s s'" and "cache_agrees kt s"
  shows "cache_agrees kt s'"
  using assms(2,3)
proof (induction rule: vault_step.induct)
  case (generate role s r s')
  moreover have "preserves (cache_agrees kt) (vault_generate_keypair sn eng role)"
    unfolding vault_generate_keypair_def Let_def cache_agrees_def [abs_def]
    by (intro pres fetch_agrees [OF assms(1), unfolded cache_agrees_def [abs_def]])
  ultimately show ?case by (metis preserves_def snd_conv)
next
  case (read k s p s')
  then show ?case using fetch_agrees [OF assms(1)] by (metis preserves_def snd_conv)
next
  case (use k inp s sg s')
  moreover have "preserves (cache_agrees kt) (vault_sign sn eng k inp)"
    unfolding vault_sign_def cache_agrees_def [abs_def]
    by (intro pres lookup_agrees [OF assms(1), unfolded cache_agrees_def [abs_def]])
  ultimately show ?case by (metis preserves_def snd_conv)
next
  case (remove k s u s')
  moreover have "preserves (cache_agrees kt) (cache_remove k)" by (auto simp: preserves_def cache_remove_def cache_agrees_def)
  then have "preserves (cache_agrees kt) (vault_delete_keypair sn eng k)"
    unfolding vault_delete_keypair_def cache_agrees_def [abs_def] by (intro pres)
  ultimately show ?case by (metis preserves_def snd_conv)
qed

lemma lookup_algorithm_agrees:
  assumes "key_types_fixed sn eng kt" and "cache_agrees kt s" and "lookup_algorithm sn eng k s = (Inr alg, s')"
  shows "alg = kt k"
  using assms by (auto simp: lookup_algorithm_def cache_get_def eff_success cache_agrees_def key_types_fixed_def split: option.splits)

lemma fx_types_fixed: "key_types_fixed fx_signer fx_vault (\<lambda>_. EcdsaP256)"
  by (simp add: key_types_fixed_def fetch_public_key_def key_url_def signing_url_def Let_def key_read_response_def parse_vault_algorithm_def
      key_algorithm_try_from_def parse_ecdsa_p256_public_key_pem_def VAULT_KEY_VERSION_def fx_vault_eval)

lemma fx_vault_signs: "\<exists>sig s'. vault_sign fx_signer fx_vault (KeyPairId ''u1'') (replicate 32 0) fx_signer_state = (Inr sig, s')"
  by (simp add: vault_sign_def lookup_algorithm_def cache_get_def fx_signer_state_def fetch_public_key_def key_url_def sign_url_def signing_url_def
      Let_def key_read_response_def parse_vault_algorithm_def key_algorithm_try_from_def parse_ecdsa_p256_public_key_pem_def VAULT_KEY_VERSION_def
      vault_sign_with_def guardE_def data_member_def parse_vault_signature_def VAULT_SIGNATURE_PREFIX_def fx_vault_eval)

text \<open>C34. However the Vault engine was used since it started with an empty cache, a signature it
  returns has the algorithm Vault holds for the key, so the request and the decoding of the reply
  fit the key; it is 64 bytes long, and with a P-256 key only a 32-byte digest was signed.\<close>

theorem vault_signatures_fit_the_key:
  assumes "key_types_fixed sn eng kt" and "sg_cache s0 = Map.empty" and "(vault_step sn eng)\<^sup>*\<^sup>* s0 s"
    and "vault_sign sn eng k inp s = (Inr sig, s')"
  shows "sig_algorithm sig = kt k \<and> length (sig_bytes sig) = 64 \<and> (kt k = EcdsaP256 \<longrightarrow> length inp = 32)"
proof -
  have "cache_agrees kt s0" using assms(2) by (simp add: cache_agrees_def)
  with assms(3) have "cache_agrees kt s" by (induction rule: rtranclp_induct) (auto intro: vault_step_agrees [OF assms(1)])
  then show ?thesis using vault_sign_success [OF assms(4)] lookup_algorithm_agrees [OF assms(1)] by metis
qed

theorem vault_signatures_fit_the_key_witness:
  "\<exists>sig s'. vault_sign fx_signer fx_vault (KeyPairId ''u1'') (replicate 32 0) fx_signer_state = (Inr sig, s') \<and>
     sig_algorithm sig = EcdsaP256 \<and> length (sig_bytes sig) = 64"
proof -
  obtain sig s' where run: "vault_sign fx_signer fx_vault (KeyPairId ''u1'') (replicate 32 0) fx_signer_state = (Inr sig, s')"
    using fx_vault_signs by blast
  have "sg_cache fx_signer_state = Map.empty" by (simp add: fx_signer_state_def)
  from vault_signatures_fit_the_key [OF fx_types_fixed this rtranclp.rtrancl_refl run] show ?thesis using run by blast
qed

end
