(* ===== verification/Keycloak.thy ===== *)
theory Keycloak
  imports TenantCli
begin

text \<open>
  The client of the Keycloak admin API, \<open>cli/keycloak.rs\<close>, and the command
  \<open>sync-keycloak-mapper\<close> of \<open>bin/swiyu-issuer-cli.rs\<close>: after a tenant exists, its identifier
  becomes the value of a claim mapper of a client of the realm.  The HTTP client is a parameter.
\<close>

section \<open>Outside code\<close>

datatype admin_method = AdminGet | AdminPost | AdminPut

datatype admin_payload = AdminNoBody | AdminForm "(string \<times> string) list" | AdminJson json

record 'x admin_env =
  av_http :: "admin_method \<Rightarrow> string \<Rightarrow> string option \<Rightarrow> (string \<times> string) list \<Rightarrow> admin_payload \<Rightarrow> ('x, string, http_response) eff"
  av_status_text :: "nat \<Rightarrow> string"

text \<open>The errors are boxed: a message of this code, or the error of a crate.\<close>

datatype admin_error =
    AdminMessage string
  | AdminHttp string
  | AdminRef ref_error

text \<open>\<open>error_for_status\<close>: a client or server error becomes an error.\<close>

definition error_for_status :: "http_response \<Rightarrow> admin_error + http_response" where
  "error_for_status resp = (if 400 \<le> hr_status resp \<and> hr_status resp < 600 then Inl (AdminHttp ''status'') else Inr resp)"

definition admin_send ::
  "'x admin_env \<Rightarrow> admin_method \<Rightarrow> string \<Rightarrow> string option \<Rightarrow> (string \<times> string) list \<Rightarrow> admin_payload \<Rightarrow>
   ('x world, admin_error, http_response) eff" where
  "admin_send av meth url bearer query body = mapErr AdminHttp (ext (av_http av meth url bearer query body))"

definition json_array :: "http_response \<Rightarrow> admin_error + json list" where
  "json_array resp =
     bindR (mapErrR AdminHttp (hr_json resp)) (\<lambda>v. result_of_option (AdminHttp ''invalid type'') (as_array v))"

section \<open>The mapper\<close>

definition TENANT_ID_MAPPER_NAME :: string where "TENANT_ID_MAPPER_NAME = ''tenant_id''"

datatype mapper_outcome = MapperCreated | MapperUpdated

fun mapper_verb :: "mapper_outcome \<Rightarrow> string" where
  "mapper_verb MapperCreated = ''created''"
| "mapper_verb MapperUpdated = ''updated''"

text \<open>The members of an object are in the order of their keys.\<close>

definition mapper_config :: "string \<Rightarrow> json" where
  "mapper_config tenant_id_value = JObj
     [(''access.token.claim'', JStr ''true''),
      (''claim.name'', JStr TENANT_ID_MAPPER_NAME),
      (''claim.value'', JStr tenant_id_value),
      (''id.token.claim'', JStr ''false''),
      (''introspection.token.claim'', JStr ''true''),
      (''jsonType.label'', JStr ''String'')]"

definition mapper_representation :: "string \<Rightarrow> json" where
  "mapper_representation tenant_id_value = JObj
     [(''config'', mapper_config tenant_id_value),
      (''name'', JStr TENANT_ID_MAPPER_NAME),
      (''protocol'', JStr ''openid-connect''),
      (''protocolMapper'', JStr ''oidc-hardcoded-claim-mapper'')]"

section \<open>Requests\<close>

definition fetch_admin_token ::
  "'x admin_env \<Rightarrow> string \<Rightarrow> string \<Rightarrow> string \<Rightarrow> string \<Rightarrow> ('x world, admin_error, string) eff" where
  "fetch_admin_token av base realm client_id client_secret =
     bindE (admin_send av AdminPost (base @ ''/realms/'' @ realm @ ''/protocol/openid-connect/token'') None []
        (AdminForm [(''grant_type'', ''client_credentials''), (''client_id'', client_id), (''client_secret'', client_secret)])) (\<lambda>resp.
     bindE (liftR (mapErrR AdminHttp (hr_text resp))) (\<lambda>text.
     bindE (guardE (status_is_success (hr_status resp))
        (AdminMessage (''Keycloak admin token request failed ('' @ av_status_text av (hr_status resp) @ ''): '' @ text))) (\<lambda>_.
     liftR (mapErrR AdminHttp (bindR (hr_json resp) (text_member ''access_token''))))))"

definition find_client_uuid ::
  "'x admin_env \<Rightarrow> string \<Rightarrow> string \<Rightarrow> string \<Rightarrow> string \<Rightarrow> ('x world, admin_error, string) eff" where
  "find_client_uuid av base realm tok client_id =
     bindE (admin_send av AdminGet (base @ ''/admin/realms/'' @ realm @ ''/clients'') (Some tok) [(''clientId'', client_id)] AdminNoBody) (\<lambda>resp.
     bindE (liftR (bindR (error_for_status resp) json_array)) (\<lambda>clients.
     okOr (AdminMessage (''no client '' @ [CHR 0x27] @ client_id @ [CHR 0x27] @ '' found in realm '' @ [CHR 0x27] @ realm @ [CHR 0x27]))
       (Option.bind (case clients of [] \<Rightarrow> None | c # _ \<Rightarrow> jget ''id'' c) as_string)))"

text \<open>An existing mapper keeps all of its members but its configuration.\<close>

fun with_config :: "json \<Rightarrow> json \<Rightarrow> json" where
  "with_config v (JObj m) = JObj (obj_insert ''config'' v m)"
| "with_config v other = other"

definition is_tenant_mapper :: "json \<Rightarrow> bool" where
  "is_tenant_mapper m \<longleftrightarrow> Option.bind (jget ''name'' m) as_string = Some TENANT_ID_MAPPER_NAME"

definition sync_tenant_id_mapper ::
  "'x admin_env \<Rightarrow> string \<Rightarrow> string \<Rightarrow> string \<Rightarrow> string \<Rightarrow> string \<Rightarrow> string \<Rightarrow> ('x world, admin_error, mapper_outcome) eff" where
  "sync_tenant_id_mapper av keycloak_url realm client_id tenant_id_value provisioner_id provisioner_secret =
     (let base = trim_end_matches (CHR ''/'') keycloak_url in
     bindE (fetch_admin_token av base realm provisioner_id provisioner_secret) (\<lambda>tok.
     bindE (find_client_uuid av base realm tok client_id) (\<lambda>client_uuid.
     let models_url = base @ ''/admin/realms/'' @ realm @ ''/clients/'' @ client_uuid @ ''/protocol-mappers/models'' in
     bindE (admin_send av AdminGet models_url (Some tok) [] AdminNoBody) (\<lambda>listed.
     bindE (liftR (bindR (error_for_status listed) json_array)) (\<lambda>mappers.
     case find is_tenant_mapper mappers of
       Some existing \<Rightarrow>
         bindE (okOr (AdminMessage ''existing tenant_id mapper has no id'') (Option.bind (jget ''id'' existing) as_string)) (\<lambda>mapper_id.
         bindE (admin_send av AdminPut (models_url @ ''/'' @ mapper_id) (Some tok) []
            (AdminJson (with_config (mapper_config tenant_id_value) existing))) (\<lambda>resp.
         bindE (liftR (error_for_status resp)) (\<lambda>_.
         ret MapperUpdated)))
     | None \<Rightarrow>
         bindE (admin_send av AdminPost models_url (Some tok) [] (AdminJson (mapper_representation tenant_id_value))) (\<lambda>resp.
         bindE (liftR (error_for_status resp)) (\<lambda>_.
         ret MapperCreated)))))))"

section \<open>The command\<close>

definition sync_keycloak_mapper ::
  "'x cli_env \<Rightarrow> 'x admin_env \<Rightarrow> (string \<Rightarrow> string option) \<Rightarrow> tenant_ref \<Rightarrow> string \<Rightarrow> string \<Rightarrow> string \<Rightarrow>
   ('x world, admin_error, mapper_outcome \<times> tenant_id) eff" where
  "sync_keycloak_mapper ce av vars r keycloak_url realm client =
     bindE (mapErr AdminRef (resolve_tenant_ref ce vars r)) (\<lambda>tenant.
     bindE (okOr (AdminMessage ''KEYCLOAK_PROVISIONER_CLIENT_ID must be set'') (vars ''KEYCLOAK_PROVISIONER_CLIENT_ID'')) (\<lambda>provisioner_id.
     bindE (okOr (AdminMessage ''KEYCLOAK_PROVISIONER_CLIENT_SECRET must be set'') (vars ''KEYCLOAK_PROVISIONER_CLIENT_SECRET'')) (\<lambda>provisioner_secret.
     bindE (sync_tenant_id_mapper av keycloak_url realm client (id_display ''tenant'' (tenant_bare tenant)) provisioner_id provisioner_secret) (\<lambda>outcome.
     ret (outcome, tenant)))))"

section \<open>What the command leaves alone\<close>

text \<open>The mapper that is sent back differs from the one that was read in its configuration only.\<close>

lemma with_config_members:
  "jget k (with_config v (JObj m)) = (if k = ''config'' then Some v else jget k (JObj m))"
  by simp

lemma synced_mapper_is_found_again:
  assumes "is_tenant_mapper m" "jget ''id'' m = Some i"
  shows "is_tenant_mapper (with_config v m) \<and> jget ''id'' (with_config v m) = Some i"
  using assms by (cases m) (auto simp: is_tenant_mapper_def)

lemma created_mapper_is_found_again: "is_tenant_mapper (mapper_representation v)"
  by (simp add: is_tenant_mapper_def mapper_representation_def)

lemma partner_lookup_keeps_tables [pres]: "preserves (\<lambda>w. P (wdb w)) (tenant_by_partner ce partner)"
  unfolding tenant_by_partner_def find_tenant_by_partner_id_def by (intro pres)

lemma resolving_keeps_tables [pres]: "preserves (\<lambda>w. P (wdb w)) (resolve_tenant_ref ce vars r)"
  by (cases r; simp only: resolve_tenant_ref_def tenant_ref.case; intro pres)

lemma sync_keeps_tables: "preserves (\<lambda>w. P (wdb w)) (sync_keycloak_mapper ce av vars r url realm client)"
  unfolding sync_keycloak_mapper_def sync_tenant_id_mapper_def fetch_admin_token_def find_client_uuid_def admin_send_def Let_def
  by (intro pres)

end
