(* ===== verification/Startup.thy ===== *)
theory Startup
  imports AuthApi Oidc Secrets
begin

text \<open>
  What the service binaries read from their environment before they serve: the public URLs of
  \<open>config.rs\<close>, the token settings and the JWT validator of \<open>bin/swiyu-issuer-mgmtapi.rs\<close>, the life
  times and the browser origins of \<open>bin/swiyu-issuer-oidcapi.rs\<close>.  A variable that is unset or not
  Unicode is \<open>None\<close>.  The floating-point refresh fraction is left out.
\<close>

section \<open>Public URLs\<close>

definition filled :: "string option \<Rightarrow> string option" where
  "filled v = (case v of Some s \<Rightarrow> if trim s = [] then None else Some s | None \<Rightarrow> None)"

definition resolve_oidc_public_url :: "string option \<Rightarrow> string option \<Rightarrow> string" where
  "resolve_oidc_public_url oidc_http_url issuer_base_url =
     (case filled oidc_http_url of Some u \<Rightarrow> u
      | None \<Rightarrow> (case filled issuer_base_url of Some u \<Rightarrow> u | None \<Rightarrow> ''http://localhost:8081''))"

definition resolve_web_base_url :: "string option \<Rightarrow> string" where
  "resolve_web_base_url v = (case filled v of Some u \<Rightarrow> u | None \<Rightarrow> ''http://localhost:3000'')"

section \<open>Tokens\<close>

definition DEFAULT_TOKEN_HTTP_TIMEOUT_SECS :: nat where "DEFAULT_TOKEN_HTTP_TIMEOUT_SECS = 15"

definition parse_token_http_timeout :: "string option \<Rightarrow> string + nat" where
  "parse_token_http_timeout raw = (case raw of
     None \<Rightarrow> Inr DEFAULT_TOKEN_HTTP_TIMEOUT_SECS
   | Some s \<Rightarrow>
       bindR (mapErrR (\<lambda>e. ''SWIYU_TOKEN_HTTP_TIMEOUT_SECS is not an integer: '' @ e) (parse_unsigned (2 ^ 64 - 1) s)) (\<lambda>secs.
       if secs = 0 then Inl ''SWIYU_TOKEN_HTTP_TIMEOUT_SECS must be greater than 0'' else Inr secs))"

definition jwks_url_for_issuer :: "string \<Rightarrow> string" where
  "jwks_url_for_issuer issuer_url = trim_end_matches (CHR ''/'') issuer_url @ ''/protocol/openid-connect/certs''"

record validator_settings =
  vs_issuer :: string
  vs_jwks_url :: string
  vs_audience :: string

text \<open>With neither variable there is no validator; with one of them the binary does not start.\<close>

definition build_jwt_validator :: "string option \<Rightarrow> string option \<Rightarrow> string option \<Rightarrow> string + validator_settings option" where
  "build_jwt_validator issuer_var audience_var jwks_var = (case (issuer_var, audience_var) of
     (Some issuer, Some audience) \<Rightarrow> Inr (Some
       \<lparr> vs_issuer = issuer, vs_jwks_url = (case jwks_var of Some u \<Rightarrow> u | None \<Rightarrow> jwks_url_for_issuer issuer),
         vs_audience = audience \<rparr>)
   | (None, None) \<Rightarrow> Inr None
   | _ \<Rightarrow> Inl ''KEYCLOAK_ISSUER_URL and MGMTAPI_AUDIENCE must be set together'')"

section \<open>Life times\<close>

definition parse_i64 :: "string \<Rightarrow> string + int" where
  "parse_i64 s = (case s of
     c # rest \<Rightarrow>
       if c = CHR ''-'' then
         (if rest = [] then Inl ''invalid digit found in string''
          else bindR (mapErrR (\<lambda>e. if e = ''number too large to fit in target type'' then ''number too small to fit in target type'' else e)
            (parse_digits (2 ^ 63) 0 rest)) (\<lambda>n. Inr (- int n)))
       else bindR (parse_unsigned (2 ^ 63 - 1) s) (\<lambda>n. Inr (int n))
   | [] \<Rightarrow> Inl ''cannot parse integer from empty string'')"

definition DEFAULT_ACCESS_TOKEN_TTL_SECONDS :: int where "DEFAULT_ACCESS_TOKEN_TTL_SECONDS = 300"
definition DEFAULT_C_NONCE_TTL_SECONDS :: int where "DEFAULT_C_NONCE_TTL_SECONDS = 300"

text \<open>A duration in seconds; \<open>Duration::seconds\<close> panics beyond the range of a duration.\<close>

datatype duration_failure = DurationMessage string | DurationPanic

definition read_duration_env :: "string \<Rightarrow> int \<Rightarrow> string option \<Rightarrow> duration_failure + int" where
  "read_duration_env key default_seconds v =
     bindR (case v of
        Some s \<Rightarrow> mapErrR (\<lambda>e. DurationMessage (key @ '' must be an integer number of seconds: '' @ e)) (parse_i64 s)
      | None \<Rightarrow> Inr default_seconds) (\<lambda>seconds.
     if seconds \<le> 0 then Inl (DurationMessage (key @ '' must be positive, got '' @ show_int seconds))
     else if seconds > (2 ^ 63 - 1) div 1000 then Inl DurationPanic
     else Inr seconds)"

section \<open>Browser origins\<close>

text \<open>An origin is parsed as a header value by its crate.\<close>

datatype 'h cors_allowed_origins = CorsAny | CorsList "'h list"

fun parse_origins :: "(string \<Rightarrow> string + 'h) \<Rightarrow> string list \<Rightarrow> string + 'h list" where
  "parse_origins dec [] = Inr []"
| "parse_origins dec (entry # rest) =
     (if trim entry = [] then parse_origins dec rest
      else bindR (mapErrR (\<lambda>e. ''OIDC_CORS_ALLOWED_ORIGINS entry '' @ debug_str (trim entry) @ '' is not a valid origin: '' @ e) (dec (trim entry))) (\<lambda>v.
        bindR (parse_origins dec rest) (\<lambda>vs. Inr (v # vs))))"

definition read_cors_allowed_origins_env :: "(string \<Rightarrow> string + 'h) \<Rightarrow> string option \<Rightarrow> string + 'h cors_allowed_origins" where
  "read_cors_allowed_origins_env dec v = (case v of
     None \<Rightarrow> Inr CorsAny
   | Some raw \<Rightarrow>
       if trim raw = [] \<or> trim raw = ''*'' then Inr CorsAny
       else bindR (parse_origins dec (split_on (CHR '','') (trim raw))) (\<lambda>origins.
         if origins = [] then Inr CorsAny else Inr (CorsList origins)))"

section \<open>What the settings guarantee\<close>

lemma configured_duration_in_range:
  "read_duration_env key default_seconds v = Inr d \<Longrightarrow> 0 < d \<and> d \<le> (2 ^ 63 - 1) div 1000"
  by (auto simp: read_duration_env_def bindR_def split: sum.splits if_splits option.splits)

lemma configured_timeout_positive: "parse_token_http_timeout raw = Inr n \<Longrightarrow> 0 < n"
  by (auto simp: parse_token_http_timeout_def DEFAULT_TOKEN_HTTP_TIMEOUT_SECS_def bindR_def split: sum.splits if_splits option.splits)

lemma half_configured_validator_refused:
  "(issuer_var = None) \<noteq> (audience_var = None) \<Longrightarrow> \<exists>m. build_jwt_validator issuer_var audience_var jwks_var = Inl m"
  by (cases issuer_var; cases audience_var) (auto simp: build_jwt_validator_def)

lemma listed_origins_not_empty: "read_cors_allowed_origins_env dec v = Inr (CorsList os) \<Longrightarrow> os \<noteq> []"
  by (auto simp: read_cors_allowed_origins_env_def bindR_def split: option.splits if_splits sum.splits)

text \<open>A list of separators opens the endpoints to every origin, as no list at all does.\<close>

lemma empty_allowlist_opens: "read_cors_allowed_origins_env dec (Some '','') = Inr CorsAny"
  by (simp add: read_cors_allowed_origins_env_def trim_def is_ws_def bindR_def)

end
