(* ===== verification/Bff.thy ===== *)
theory Bff
  imports Signing
begin

text \<open>
  The web back end for the administrators' front end, its sessions: \<open>web/bff/src/auth\<close>,
  \<open>error.rs\<close>, \<open>config.rs\<close>, \<open>routes/auth.rs\<close>, \<open>routes/me.rs\<close> and the session guard and token
  extractor of \<open>routes/mod.rs\<close>.  The OpenID Connect client, the HTTP client, the clocks and the
  query encoding are parameters.  The session store is a map from session identifiers, with
  faults on every access; a request knows the identifier its cookie names, or the one a new
  session would get, and the session layer of \<open>BffRoutes\<close> stores what a request modified.
\<close>

section \<open>Configuration\<close>

type_synonym i64 = "64 word"

datatype config_error =
    MissingVar string
  | NonUnicodeVar string
  | InvalidPort string string
  | InvalidInt string string
  | InvalidBool string

text \<open>\<open>env::var\<close>: set, not present, or not Unicode.\<close>

datatype env_value = EnvSet string | EnvNotPresent | EnvNotUnicode

record oidc_config =
  oi_issuer_url :: string
  oi_internal_url :: string
  oi_client_id :: string
  oi_client_secret :: string
  oi_redirect_uri :: string
  oi_post_logout_redirect_uri :: string

record session_config =
  sc_cookie_secure :: bool
  sc_idle_timeout_secs :: u64
  sc_absolute_timeout_secs :: u64

record bff_config =
  bc_bff_port :: nat
  bc_mgmtapi_url :: string
  bc_identifier_registry_url :: string
  bc_oidc :: oidc_config
  bc_session :: session_config
  bc_spa_dir :: "string option"

definition required_var :: "(string \<Rightarrow> env_value) \<Rightarrow> string \<Rightarrow> config_error + string" where
  "required_var env name = (case env name of
     EnvSet v \<Rightarrow> if trim v \<noteq> [] then Inr v else Inl (MissingVar name)
   | EnvNotPresent \<Rightarrow> Inl (MissingVar name)
   | EnvNotUnicode \<Rightarrow> Inl (NonUnicodeVar name))"

definition optional_var :: "(string \<Rightarrow> env_value) \<Rightarrow> string \<Rightarrow> string \<Rightarrow> string" where
  "optional_var env name dflt = (case env name of EnvSet v \<Rightarrow> v | _ \<Rightarrow> dflt)"

definition optional_present :: "(string \<Rightarrow> env_value) \<Rightarrow> string \<Rightarrow> string option" where
  "optional_present env name = (case env name of EnvSet v \<Rightarrow> if trim v \<noteq> [] then Some v else None | _ \<Rightarrow> None)"

definition parse_port :: "(string \<Rightarrow> env_value) \<Rightarrow> string \<Rightarrow> nat \<Rightarrow> config_error + nat" where
  "parse_port env name dflt = (case env name of
     EnvSet v \<Rightarrow> mapErrR (InvalidPort name) (parse_unsigned (2 ^ 16 - 1) v)
   | EnvNotPresent \<Rightarrow> Inr dflt
   | EnvNotUnicode \<Rightarrow> Inl (NonUnicodeVar name))"

definition parse_u64 :: "(string \<Rightarrow> env_value) \<Rightarrow> string \<Rightarrow> u64 \<Rightarrow> config_error + u64" where
  "parse_u64 env name dflt = (case env name of
     EnvSet v \<Rightarrow> if trim v = [] then Inr dflt
       else bindR (mapErrR (InvalidInt name) (parse_unsigned (2 ^ 64 - 1) (trim v))) (\<lambda>n. Inr (of_nat n))
   | EnvNotPresent \<Rightarrow> Inr dflt
   | EnvNotUnicode \<Rightarrow> Inl (NonUnicodeVar name))"

definition to_ascii_lower :: "string \<Rightarrow> string" where
  "to_ascii_lower = map (\<lambda>c. if CHR ''A'' \<le> c \<and> c \<le> CHR ''Z'' then char_of (of_char c + 32 :: nat) else c)"

definition parse_bool :: "(string \<Rightarrow> env_value) \<Rightarrow> string \<Rightarrow> bool \<Rightarrow> config_error + bool" where
  "parse_bool env name dflt = (case env name of
     EnvSet v \<Rightarrow>
       if trim v = [] then Inr dflt
       else if to_ascii_lower (trim v) \<in> {''true'', ''1'', ''yes''} then Inr True
       else if to_ascii_lower (trim v) \<in> {''false'', ''0'', ''no''} then Inr False
       else Inl (InvalidBool name)
   | EnvNotPresent \<Rightarrow> Inr dflt
   | EnvNotUnicode \<Rightarrow> Inl (NonUnicodeVar name))"

definition config_from_env :: "(string \<Rightarrow> env_value) \<Rightarrow> config_error + bff_config" where
  "config_from_env env =
     bindR (required_var env ''OIDC_ISSUER_URL'') (\<lambda>issuer_url.
     let internal_url = (case optional_present env ''OIDC_INTERNAL_URL'' of Some u \<Rightarrow> u | None \<Rightarrow> issuer_url) in
     bindR (parse_port env ''BFF_PORT'' 3000) (\<lambda>port.
     bindR (required_var env ''MGMTAPI_URL'') (\<lambda>mgmtapi.
     bindR (required_var env ''OIDC_CLIENT_ID'') (\<lambda>client_id.
     bindR (required_var env ''OIDC_CLIENT_SECRET'') (\<lambda>client_secret.
     bindR (required_var env ''OIDC_REDIRECT_URI'') (\<lambda>redirect_uri.
     bindR (required_var env ''OIDC_POST_LOGOUT_REDIRECT_URI'') (\<lambda>post_logout.
     bindR (parse_bool env ''SESSION_COOKIE_SECURE'' False) (\<lambda>secure.
     bindR (parse_u64 env ''SESSION_IDLE_TIMEOUT_SECS'' 1800) (\<lambda>idle.
     bindR (parse_u64 env ''SESSION_ABSOLUTE_TIMEOUT_SECS'' 36000) (\<lambda>absolute.
     Inr \<lparr> bc_bff_port = port, bc_mgmtapi_url = mgmtapi,
            bc_identifier_registry_url = optional_var env ''IDENTIFIER_REGISTRY_URL'' [],
            bc_oidc = \<lparr> oi_issuer_url = issuer_url, oi_internal_url = internal_url, oi_client_id = client_id,
              oi_client_secret = client_secret, oi_redirect_uri = redirect_uri, oi_post_logout_redirect_uri = post_logout \<rparr>,
            bc_session = \<lparr> sc_cookie_secure = secure, sc_idle_timeout_secs = idle, sc_absolute_timeout_secs = absolute \<rparr>,
            bc_spa_dir = optional_present env ''SPA_DIR'' \<rparr>))))))))))"

section \<open>Endpoints\<close>

record oidc_endpoints =
  oe_issuer :: string
  oe_authorize_endpoint :: string
  oe_end_session_endpoint :: string
  oe_token_endpoint :: string
  oe_jwks_uri :: string

definition oidc_endpoints_build :: "string \<Rightarrow> string \<Rightarrow> oidc_endpoints" where
  "oidc_endpoints_build issuer_url internal_url =
     (let issuer = trim_end_matches (CHR ''/'') issuer_url; internal = trim_end_matches (CHR ''/'') internal_url in
      \<lparr> oe_issuer = issuer,
        oe_authorize_endpoint = issuer @ ''/protocol/openid-connect/auth'',
        oe_end_session_endpoint = issuer @ ''/protocol/openid-connect/logout'',
        oe_token_endpoint = internal @ ''/protocol/openid-connect/token'',
        oe_jwks_uri = internal @ ''/protocol/openid-connect/certs'' \<rparr>)"

section \<open>Sessions and pending logins\<close>

record session_account =
  sa_id :: string
  sa_tenant_id :: string
  sa_tenant_display_name :: "string option"
  sa_display_name :: string

record session_data =
  sd_iss :: string
  sd_sub :: string
  sd_kc_access_token :: string
  sd_kc_refresh_token :: string
  sd_kc_id_token :: string
  sd_kc_access_expiry_unix :: i64
  sd_logged_in_at_unix :: i64
  sd_accounts :: "session_account list"
  sd_selected_account_id :: string

definition selected :: "session_data \<Rightarrow> session_account option" where
  "selected d = find (\<lambda>a. sa_id a = sd_selected_account_id d) (sd_accounts d)"

definition saturating_add_i64 :: "i64 \<Rightarrow> i64 \<Rightarrow> i64" where
  "saturating_add_i64 a b = word_of_int (max (- (2 ^ 63)) (min (2 ^ 63 - 1) (sint a + sint b)))"

definition is_live :: "session_data \<Rightarrow> i64 \<Rightarrow> i64 \<Rightarrow> bool" where
  "is_live d now_unix absolute_timeout_secs \<longleftrightarrow>
     sint now_unix < sint (saturating_add_i64 (sd_logged_in_at_unix d) absolute_timeout_secs)"

record pending_login =
  pl_nonce :: string
  pl_pkce_verifier :: string
  pl_return_to :: string
  pl_created_at :: nat

record 'x bff_state =
  bf_pending :: "string \<rightharpoonup> pending_login"
  bf_sessions :: "string \<rightharpoonup> session_data"
  bf_modified :: "session_data option"
  bf_first_party :: "(string \<times> nat) option"
  bf_ext :: 'x

text \<open>What the realm returns for an authorization code.\<close>

record code_reply =
  cy_access_token :: string
  cy_refresh_token :: "string option"
  cy_id_token :: "string option"
  cy_expires_in :: "nat option"

datatype bff_body = NoBody | JsonBody json | RawBody string

record bff_response =
  rs_status :: nat
  rs_location :: "string option"
  rs_body :: bff_body

datatype bff_payload = NoPayload | FormPayload string | JsonPayload json

record 'x bff_env =
  bv_config :: bff_config
  bv_store :: "'x \<Rightarrow> string option \<times> 'x"
  bv_saves :: "nat \<Rightarrow> bool"
  bv_save_failed :: "string \<Rightarrow> bff_response"
  bv_unix :: "'x \<Rightarrow> i64 \<times> 'x"
  bv_instant :: "'x \<Rightarrow> nat \<times> 'x"
  bv_instant_max :: nat
  bv_random :: "'x \<Rightarrow> string \<times> 'x"
  bv_authorize_url :: "string \<Rightarrow> string \<Rightarrow> string \<Rightarrow> string"
  bv_exchange_code :: "string \<Rightarrow> string \<Rightarrow> ('x, string, code_reply) eff"
  bv_verify_id_token :: "string \<Rightarrow> string \<Rightarrow> ('x, string, string \<times> string) eff"
  bv_form_encode :: "(string \<times> string) list \<Rightarrow> string"
  bv_url_with_query :: "string \<Rightarrow> (string \<times> string) list \<Rightarrow> string option"
  bv_http :: "http_method \<Rightarrow> string \<Rightarrow> (string \<times> string) list \<Rightarrow> (string \<times> string) list \<Rightarrow> bff_payload \<Rightarrow>
    ('x, string, http_response) eff"

abbreviation endpoints_of :: "'x bff_env \<Rightarrow> oidc_endpoints" where
  "endpoints_of bv \<equiv> oidc_endpoints_build (oi_issuer_url (bc_oidc (bv_config bv))) (oi_internal_url (bc_oidc (bv_config bv)))"

definition bff_ext :: "('x, 'e, 'a) eff \<Rightarrow> ('x bff_state, 'e, 'a) eff" where
  "bff_ext m = (\<lambda>s. case m (bf_ext s) of (r, x) \<Rightarrow> (r, s\<lparr> bf_ext := x \<rparr>))"

definition bff_draw :: "('x \<Rightarrow> 'a \<times> 'x) \<Rightarrow> ('x bff_state, 'e, 'a) eff" where
  "bff_draw f = bff_ext (\<lambda>x. case f x of (a, x') \<Rightarrow> (Inr a, x'))"

definition pending_insert :: "string \<Rightarrow> pending_login \<Rightarrow> ('x bff_state, 'e, unit) eff" where
  "pending_insert st pending = (\<lambda>s. (Inr (), s\<lparr> bf_pending := (bf_pending s)(st \<mapsto> pending) \<rparr>))"

definition pending_take :: "string \<Rightarrow> ('x bff_state, 'e, pending_login option) eff" where
  "pending_take st = (\<lambda>s. (Inr (bf_pending s st), s\<lparr> bf_pending := (bf_pending s)(st := None) \<rparr>))"

definition PENDING_LOGIN_TTL :: nat where "PENDING_LOGIN_TTL = 600 * 10 ^ 9"

definition pending_sweep :: "'x bff_env \<Rightarrow> nat \<Rightarrow> 'x bff_state \<Rightarrow> 'x bff_state" where
  "pending_sweep bv ttl s = (case bv_instant bv (bf_ext s) of (now, x) \<Rightarrow>
     s\<lparr> bf_ext := x, bf_pending := (\<lambda>st. case bf_pending s st of
        Some pl \<Rightarrow> if now - pl_created_at pl < ttl then Some pl else None | None \<Rightarrow> None) \<rparr>)"

text \<open>
  The session of a request is a copy that the session layer of the router keeps: reading and
  writing it may fail in the store, a modification is kept with the request, and removing it
  reaches the store at once.
\<close>

definition session_op :: "'x bff_env \<Rightarrow> ('x bff_state, string, 'a) eff \<Rightarrow> ('x bff_state, string, 'a) eff" where
  "session_op bv m = bindE (bff_draw (bv_store bv)) (\<lambda>fault. case fault of Some e \<Rightarrow> raise e | None \<Rightarrow> m)"

definition session_get :: "'x bff_env \<Rightarrow> string \<Rightarrow> ('x bff_state, string, session_data option) eff" where
  "session_get bv sid = session_op bv (\<lambda>s. (Inr (if bf_modified s = None then bf_sessions s sid else bf_modified s), s))"

definition session_insert :: "'x bff_env \<Rightarrow> session_data \<Rightarrow> ('x bff_state, string, unit) eff" where
  "session_insert bv d = session_op bv (\<lambda>s. (Inr (), s\<lparr> bf_modified := Some d \<rparr>))"

definition session_delete :: "'x bff_env \<Rightarrow> string \<Rightarrow> ('x bff_state, string, unit) eff" where
  "session_delete bv sid = session_op bv (\<lambda>s. (Inr (), s\<lparr> bf_sessions := (bf_sessions s)(sid := None) \<rparr>))"

section \<open>Responses\<close>

definition json_error :: "nat \<Rightarrow> string \<Rightarrow> bff_response" where
  "json_error status message =
     \<lparr> rs_status = status, rs_location = None, rs_body = JsonBody (JObj [(''error'', JStr message)]) \<rparr>"

definition gateway_error :: "string \<Rightarrow> bff_response" where "gateway_error message = json_error 502 message"
definition bff_unauthenticated :: bff_response where "bff_unauthenticated = json_error 401 ''unauthenticated''"
definition bff_internal_error :: bff_response where "bff_internal_error = json_error 500 ''internal''"
definition bff_bad_request :: "string \<Rightarrow> bff_response" where "bff_bad_request message = json_error 400 message"

definition json_response :: "nat \<Rightarrow> json \<Rightarrow> bff_response" where
  "json_response status v = \<lparr> rs_status = status, rs_location = None, rs_body = JsonBody v \<rparr>"

definition redirect_to :: "string \<Rightarrow> bff_response" where
  "redirect_to url = \<lparr> rs_status = 303, rs_location = Some url, rs_body = NoBody \<rparr>"

definition login_error :: "string \<Rightarrow> bff_response" where
  "login_error code = redirect_to (''/login?error='' @ code)"

section \<open>Tokens of the realm\<close>

datatype bff_token_error =
    TokenTransport string
  | TokenStatus nat string
  | TokenPanic

fun u64_number :: "json \<Rightarrow> nat option" where
  "u64_number (JNum i) = (if 0 \<le> i \<and> i < 2 ^ 64 then Some (nat i) else None)"
| "u64_number _ = None"

definition post_form ::
  "'x bff_env \<Rightarrow> (json \<Rightarrow> string + 'a) \<Rightarrow> (string \<times> string) list \<Rightarrow> ('x bff_state, bff_token_error, 'a) eff" where
  "post_form bv dec form =
     bindE (mapErr TokenTransport (bff_ext (bv_http bv Post (oe_token_endpoint (endpoints_of bv))
        [(''content-type'', ''application/x-www-form-urlencoded'')] [] (FormPayload (bv_form_encode bv form))))) (\<lambda>resp.
     if status_is_success (hr_status resp)
     then liftR (mapErrR TokenTransport (bindR (hr_json resp) dec))
     else raise (TokenStatus (hr_status resp) (case hr_text resp of Inl _ \<Rightarrow> [] | Inr t \<Rightarrow> t)))"

definition client_fields :: "'x bff_env \<Rightarrow> (string \<times> string) list" where
  "client_fields bv = [(''client_id'', oi_client_id (bc_oidc (bv_config bv))), (''client_secret'', oi_client_secret (bc_oidc (bv_config bv)))]"

text \<open>\<open>token.rs\<close>: the token of the back end itself, cached until shortly before it expires.\<close>

definition SAFETY_MARGIN :: nat where "SAFETY_MARGIN = 30 * 10 ^ 9"

definition first_party_response :: "json \<Rightarrow> string + string \<times> nat" where
  "first_party_response v =
     bindR (struct_members [''access_token'', ''expires_in''] v) (\<lambda>m.
     bindR (req_member as_string ''access_token'' m) (\<lambda>access.
     bindR (req_member u64_number ''expires_in'' m) (\<lambda>expires.
     Inr (access, expires))))"

definition request_token :: "'x bff_env \<Rightarrow> ('x bff_state, bff_token_error, string \<times> nat) eff" where
  "request_token bv = post_form bv first_party_response ((''grant_type'', ''client_credentials'') # client_fields bv)"

definition mint_first_party :: "'x bff_env \<Rightarrow> ('x bff_state, bff_token_error, string) eff" where
  "mint_first_party bv =
     bindE (request_token bv) (\<lambda>(tok, expires_in).
     bindE (bff_draw (bv_instant bv)) (\<lambda>now.
     let expires_at = now + (expires_in * 10 ^ 9 - SAFETY_MARGIN) in
     bindE (guardE (expires_at \<le> bv_instant_max bv) TokenPanic) (\<lambda>_.
     bindE (\<lambda>s. (Inr (), s\<lparr> bf_first_party := Some (tok, expires_at) \<rparr>)) (\<lambda>_.
     ret tok))))"

definition first_party_token :: "'x bff_env \<Rightarrow> ('x bff_state, bff_token_error, string) eff" where
  "first_party_token bv =
     bindE (\<lambda>s. (Inr (bf_first_party s), s)) (\<lambda>cached. case cached of
       Some (tok, expires_at) \<Rightarrow>
         bindE (bff_draw (bv_instant bv)) (\<lambda>now. if now < expires_at then ret tok else mint_first_party bv)
     | None \<Rightarrow> mint_first_party bv)"

text \<open>\<open>exchange.rs\<close>: the tokens of the user.  The expiry is computed on 64 bits.\<close>

record user_token_response =
  ut_access_token :: string
  ut_refresh_token :: "string option"
  ut_expires_in :: nat

definition user_token_decode :: "json \<Rightarrow> string + user_token_response" where
  "user_token_decode v =
     bindR (struct_members [''access_token'', ''refresh_token'', ''expires_in''] v) (\<lambda>m.
     bindR (req_member as_string ''access_token'' m) (\<lambda>access.
     bindR (opt_member as_string ''refresh_token'' m) (\<lambda>refresh.
     bindR (if map_of m ''expires_in'' = None then Inr 0 else req_member u64_number ''expires_in'' m) (\<lambda>expires.
     Inr \<lparr> ut_access_token = access, ut_refresh_token = refresh, ut_expires_in = expires \<rparr>))))"

definition SAFETY_MARGIN_SECS :: i64 where "SAFETY_MARGIN_SECS = 30"
definition TOKEN_EXCHANGE_GRANT :: string where "TOKEN_EXCHANGE_GRANT = ''urn:ietf:params:oauth:grant-type:token-exchange''"
definition ACCESS_TOKEN_TYPE :: string where "ACCESS_TOKEN_TYPE = ''urn:ietf:params:oauth:token-type:access_token''"
definition ACT_AS_USER_SCOPE :: string where "ACT_AS_USER_SCOPE = ''act-as-user''"

record refreshed_user_token =
  ru_access_token :: string
  ru_refresh_token :: string
  ru_access_expiry_unix :: i64

definition refresh_user_token :: "'x bff_env \<Rightarrow> string \<Rightarrow> ('x bff_state, bff_token_error, refreshed_user_token) eff" where
  "refresh_user_token bv refresh =
     bindE (post_form bv user_token_decode
        ([(''grant_type'', ''refresh_token''), (''refresh_token'', refresh)] @ client_fields bv)) (\<lambda>resp.
     bindE (bff_draw (bv_unix bv)) (\<lambda>now.
     ret \<lparr> ru_access_token = ut_access_token resp,
            ru_refresh_token = (case ut_refresh_token resp of Some r \<Rightarrow> r | None \<Rightarrow> refresh),
            ru_access_expiry_unix = now + (of_nat (ut_expires_in resp) - SAFETY_MARGIN_SECS) \<rparr>))"

definition exchange_for_mgmtapi :: "'x bff_env \<Rightarrow> string \<Rightarrow> ('x bff_state, bff_token_error, string) eff" where
  "exchange_for_mgmtapi bv subject =
     bindE (post_form bv user_token_decode
        ([(''grant_type'', TOKEN_EXCHANGE_GRANT), (''subject_token'', subject), (''subject_token_type'', ACCESS_TOKEN_TYPE),
          (''scope'', ACT_AS_USER_SCOPE)] @ client_fields bv)) (\<lambda>resp.
     ret (ut_access_token resp))"

section \<open>The login client\<close>

definition begin_login ::
  "'x bff_env \<Rightarrow> string \<Rightarrow> ('x bff_state, 'e, string \<times> string \<times> pending_login) eff" where
  "begin_login bv return_to =
     bindE (bff_draw (bv_random bv)) (\<lambda>verifier.
     bindE (bff_draw (bv_random bv)) (\<lambda>csrf.
     bindE (bff_draw (bv_random bv)) (\<lambda>nonce.
     bindE (bff_draw (bv_instant bv)) (\<lambda>now.
     ret (bv_authorize_url bv csrf nonce verifier, csrf,
          \<lparr> pl_nonce = nonce, pl_pkce_verifier = verifier, pl_return_to = return_to, pl_created_at = now \<rparr>)))))"

datatype login_failure =
    LoginExchange string
  | NoIdToken
  | LoginIdToken string

record verified_user =
  vu_iss :: string
  vu_sub :: string
  vu_access_token :: string
  vu_refresh_token :: "string option"
  vu_id_token :: string
  vu_access_expiry_unix :: i64

definition complete_login ::
  "'x bff_env \<Rightarrow> string \<Rightarrow> pending_login \<Rightarrow> ('x bff_state, login_failure, verified_user) eff" where
  "complete_login bv code pending =
     bindE (mapErr LoginExchange (bff_ext (bv_exchange_code bv code (pl_pkce_verifier pending)))) (\<lambda>reply.
     bindE (okOr NoIdToken (cy_id_token reply)) (\<lambda>id_token.
     bindE (mapErr LoginIdToken (bff_ext (bv_verify_id_token bv id_token (pl_nonce pending)))) (\<lambda>(iss, sub).
     bindE (bff_draw (bv_unix bv)) (\<lambda>now.
     ret \<lparr> vu_iss = iss, vu_sub = sub, vu_access_token = cy_access_token reply, vu_refresh_token = cy_refresh_token reply,
            vu_id_token = id_token,
            vu_access_expiry_unix = (case cy_expires_in reply of
               Some secs \<Rightarrow> if secs < 2 ^ 63 then now + of_nat secs else now | None \<Rightarrow> now) \<rparr>))))"

section \<open>Upstream calls\<close>

datatype call_error =
    CallTransport string
  | CallToken bff_token_error
  | CallStatus nat string

definition X_USER_ACCOUNT :: string where "X_USER_ACCOUNT = ''x-user-account''"

record user_auth =
  ua_bearer :: string
  ua_account_id :: string

definition read_json :: "http_response \<Rightarrow> call_error + json" where
  "read_json resp =
     (if status_is_success (hr_status resp) then mapErrR CallTransport (hr_json resp)
      else Inl (CallStatus (hr_status resp) (case hr_text resp of Inl _ \<Rightarrow> [] | Inr t \<Rightarrow> t)))"

definition base_url :: "'x bff_env \<Rightarrow> string" where
  "base_url bv = trim_end_matches (CHR ''/'') (bc_mgmtapi_url (bv_config bv))"

definition mgmt_send ::
  "'x bff_env \<Rightarrow> http_method \<Rightarrow> string \<Rightarrow> (string \<times> string) list \<Rightarrow> (string \<times> string) list \<Rightarrow> bff_payload \<Rightarrow>
   ('x bff_state, call_error, json) eff" where
  "mgmt_send bv meth path headers query body =
     bindE (mapErr CallTransport (bff_ext (bv_http bv meth (base_url bv @ path) headers query body))) (\<lambda>resp. liftR (read_json resp))"

definition bearer_auth :: "string \<Rightarrow> string \<times> string" where
  "bearer_auth tok = (''authorization'', ''Bearer '' @ tok)"

definition up_resolve_linked_accounts :: "'x bff_env \<Rightarrow> string \<Rightarrow> string \<Rightarrow> ('x bff_state, call_error, json) eff" where
  "up_resolve_linked_accounts bv iss sub =
     bindE (mapErr CallToken (first_party_token bv)) (\<lambda>tok.
     mgmt_send bv Get ''/api/v1/linked-user-accounts'' [bearer_auth tok] [(''iss'', iss), (''sub'', sub)] NoPayload)"

definition act_as_user :: "user_auth \<Rightarrow> (string \<times> string) list" where
  "act_as_user auth = [bearer_auth (ua_bearer auth), (X_USER_ACCOUNT, ua_account_id auth)]"

section \<open>The auth routes\<close>

definition sanitize_return_to :: "string option \<Rightarrow> string" where
  "sanitize_return_to raw = (case raw of
     Some path \<Rightarrow> if take 1 path = ''/'' \<and> take 2 path \<noteq> ''//'' then path else ''/''
   | None \<Rightarrow> ''/'')"

definition login :: "'x bff_env \<Rightarrow> string option \<Rightarrow> ('x bff_state, bff_response, bff_response) eff" where
  "login bv return_to =
     bindE (begin_login bv (sanitize_return_to return_to)) (\<lambda>(url, st, pending).
     bindE (pending_insert st pending) (\<lambda>_. ret (redirect_to url)))"

definition account_field :: "json \<Rightarrow> string \<Rightarrow> string option" where
  "account_field item key = (case Option.bind (jget key item) as_string of Some s \<Rightarrow> if s \<noteq> [] then Some s else None | None \<Rightarrow> None)"

definition join_names :: "string option \<Rightarrow> string option \<Rightarrow> string option" where
  "join_names forename surname = (case (forename, surname) of
     (Some a, Some b) \<Rightarrow> Some (a @ '' '' @ b) | (Some a, None) \<Rightarrow> Some a | (None, Some b) \<Rightarrow> Some b | (None, None) \<Rightarrow> None)"

definition display_name :: "json \<Rightarrow> string" where
  "display_name item = (case join_names (account_field item ''idp_first_name'') (account_field item ''idp_last_name'') of
     Some n \<Rightarrow> n
   | None \<Rightarrow> (case join_names (account_field item ''provisioning_first_name'') (account_field item ''provisioning_last_name'') of
       Some n \<Rightarrow> n
     | None \<Rightarrow> (case account_field item ''id'' of Some n \<Rightarrow> n | None \<Rightarrow> [])))"

definition session_account_of :: "json \<Rightarrow> session_account option" where
  "session_account_of item =
     (if Option.bind (jget ''state'' item) as_string \<noteq> Some ''active'' then None
      else Option.bind (Option.bind (jget ''id'' item) as_string) (\<lambda>i.
           Option.bind (Option.bind (jget ''tenant_id'' item) as_string) (\<lambda>t.
           Some \<lparr> sa_id = i, sa_tenant_id = t,
                  sa_tenant_display_name = Option.bind (jget ''tenant_display_name'' item) as_string,
                  sa_display_name = display_name item \<rparr>)))"

definition active_accounts :: "json \<Rightarrow> session_account list" where
  "active_accounts resolved = (case Option.bind (jget ''items'' resolved) as_array of
     Some items \<Rightarrow> List.map_filter session_account_of items | None \<Rightarrow> [])"

record callback_query =
  cq_code :: "string option"
  cq_state :: "string option"
  cq_error :: "string option"

text \<open>A panic while the answer is computed drops the connection: no response, the status is 0.\<close>

definition no_response :: bff_response where
  "no_response = \<lparr> rs_status = 0, rs_location = None, rs_body = NoBody \<rparr>"

fun resolution_failed :: "call_error \<Rightarrow> bff_response" where
  "resolution_failed (CallToken TokenPanic) = no_response"
| "resolution_failed _ = login_error ''unavailable''"

definition callback ::
  "'x bff_env \<Rightarrow> callback_query \<Rightarrow> ('x bff_state, bff_response, bff_response) eff" where
  "callback bv q =
     (if cq_error q \<noteq> None then raise (login_error ''idp'')
      else case (cq_code q, cq_state q) of
        (Some code, Some csrf_state) \<Rightarrow>
          bindE (pending_take csrf_state) (\<lambda>found.
          bindE (okOr (login_error ''state'') found) (\<lambda>pending.
          bindE (mapErr (\<lambda>_. login_error ''idp'') (complete_login bv code pending)) (\<lambda>verified.
          bindE (mapErr resolution_failed (up_resolve_linked_accounts bv (vu_iss verified) (vu_sub verified))) (\<lambda>resolved.
          case active_accounts resolved of
            [] \<Rightarrow> raise (login_error ''no_access'')
          | first # rest \<Rightarrow>
              bindE (bff_draw (bv_unix bv)) (\<lambda>now.
              let d = \<lparr> sd_iss = vu_iss verified, sd_sub = vu_sub verified, sd_kc_access_token = vu_access_token verified,
                    sd_kc_refresh_token = (case vu_refresh_token verified of Some r \<Rightarrow> r | None \<Rightarrow> []),
                    sd_kc_id_token = vu_id_token verified, sd_kc_access_expiry_unix = vu_access_expiry_unix verified,
                    sd_logged_in_at_unix = now, sd_accounts = first # rest, sd_selected_account_id = sa_id first \<rparr> in
              bindE (mapErr (\<lambda>_. login_error ''unavailable'') (session_insert bv d)) (\<lambda>_.
              ret (redirect_to (pl_return_to pending))))))))
      | _ \<Rightarrow> raise (login_error ''state''))"

definition logout :: "'x bff_env \<Rightarrow> string \<Rightarrow> ('x bff_state, bff_response, bff_response) eff" where
  "logout bv sid =
     bindE (reify (session_get bv sid)) (\<lambda>got.
     bindE (reify (session_delete bv sid)) (\<lambda>_.
     let hint = (case got of Inr (Some d) \<Rightarrow> Some (sd_kc_id_token d) | _ \<Rightarrow> None);
         post_logout = oi_post_logout_redirect_uri (bc_oidc (bv_config bv)) in
     ret (redirect_to (case bv_url_with_query bv (oe_end_session_endpoint (endpoints_of bv))
            ((''post_logout_redirect_uri'', post_logout) # (case hint of Some h \<Rightarrow> [(''id_token_hint'', h)] | None \<Rightarrow> [])) of
          None \<Rightarrow> post_logout | Some url \<Rightarrow> url))))"

text \<open>The session of the request, or 401 without one and 500 when the store fails.\<close>

definition load_session :: "'x bff_env \<Rightarrow> string \<Rightarrow> ('x bff_state, bff_response, session_data) eff" where
  "load_session bv sid =
     bindE (mapErr (\<lambda>_. bff_internal_error) (session_get bv sid)) (okOr bff_unauthenticated)"

definition session_account_json :: "session_account \<Rightarrow> json" where
  "session_account_json a = JObj [(''display_name'', JStr (sa_display_name a)), (''id'', JStr (sa_id a)),
     (''tenant_display_name'', (case sa_tenant_display_name a of Some n \<Rightarrow> JStr n | None \<Rightarrow> JNull)), (''tenant_id'', JStr (sa_tenant_id a))]"

definition select_account :: "'x bff_env \<Rightarrow> string \<Rightarrow> string \<Rightarrow> ('x bff_state, bff_response, bff_response) eff" where
  "select_account bv sid account_id =
     bindE (load_session bv sid) (\<lambda>d.
     bindE (guardE (\<exists>a \<in> set (sd_accounts d). sa_id a = account_id) (bff_bad_request ''unknown account'')) (\<lambda>_.
     let d' = d\<lparr> sd_selected_account_id := account_id \<rparr> in
     bindE (mapErr (\<lambda>_. bff_internal_error) (session_insert bv d')) (\<lambda>_.
     case selected d' of
       Some a \<Rightarrow> ret (json_response 200 (session_account_json a))
     | None \<Rightarrow> raise bff_internal_error)))"

definition get_me :: "'x bff_env \<Rightarrow> string \<Rightarrow> ('x bff_state, bff_response, bff_response) eff" where
  "get_me bv sid =
     bindE (load_session bv sid) (\<lambda>d.
     bindE (okOr bff_unauthenticated (selected d)) (\<lambda>a.
     ret (json_response 200 (JObj [(''accounts'', JArr (map session_account_json (sd_accounts d))),
       (''identity'', JObj [(''iss'', JStr (sd_iss d)), (''sub'', JStr (sd_sub d))]),
       (''selected_account'', session_account_json a)]))))"

section \<open>The guard and the token of a data route\<close>

definition require_session :: "'x bff_env \<Rightarrow> string \<Rightarrow> ('x bff_state, bff_response, unit) eff" where
  "require_session bv sid =
     bindE (load_session bv sid) (\<lambda>d.
     bindE (bff_draw (bv_unix bv)) (\<lambda>now.
     guardE (is_live d now (sc_absolute_timeout_secs (bc_session (bv_config bv))) \<and> selected d \<noteq> None) bff_unauthenticated))"

text \<open>Renewal of the user's access token, stored before it is used.\<close>

definition renew_user_token ::
  "'x bff_env \<Rightarrow> session_data \<Rightarrow> ('x bff_state, bff_response, session_data) eff" where
  "renew_user_token bv d =
     bindE (mapErr (\<lambda>_. bff_unauthenticated) (refresh_user_token bv (sd_kc_refresh_token d))) (\<lambda>r.
     let d' = d\<lparr> sd_kc_access_token := ru_access_token r, sd_kc_refresh_token := ru_refresh_token r,
                  sd_kc_access_expiry_unix := ru_access_expiry_unix r \<rparr> in
     bindE (mapErr (\<lambda>_. bff_internal_error) (session_insert bv d')) (\<lambda>_. ret d'))"

definition user_auth_from_request :: "'x bff_env \<Rightarrow> string \<Rightarrow> ('x bff_state, bff_response, user_auth) eff" where
  "user_auth_from_request bv sid =
     bindE (load_session bv sid) (\<lambda>d.
     bindE (bff_draw (bv_unix bv)) (\<lambda>now.
     bindE (if sint now \<ge> sint (sd_kc_access_expiry_unix d) then renew_user_token bv d else ret d) (\<lambda>d'.
     bindE (mapErr (\<lambda>_. gateway_error ''upstream authentication failed'') (exchange_for_mgmtapi bv (sd_kc_access_token d'))) (\<lambda>bearer.
     ret \<lparr> ua_bearer = bearer, ua_account_id = sd_selected_account_id d' \<rparr>))))"

end
