(* ===== verification/BffRoutes.thy ===== *)
theory BffRoutes
  imports Bff
begin

text \<open>
  The data routes of the web back end: the client of the management service
  (\<open>upstream/mgmt_api.rs\<close>), the handlers of \<open>routes/*.rs\<close>, the mapping of errors to responses
  and the routing of \<open>routes/mod.rs\<close>.
\<close>

section \<open>The management client\<close>

definition mgmt_get ::
  "'x bff_env \<Rightarrow> user_auth \<Rightarrow> string \<Rightarrow> (string \<times> string) list \<Rightarrow> ('x bff_state, call_error, json) eff" where
  "mgmt_get bv auth path query = mgmt_send bv Get path (act_as_user auth) query NoPayload"

definition mgmt_post ::
  "'x bff_env \<Rightarrow> user_auth \<Rightarrow> string \<Rightarrow> bff_payload \<Rightarrow> ('x bff_state, call_error, json) eff" where
  "mgmt_post bv auth path body = mgmt_send bv Post path (act_as_user auth) [] body"

definition issuer_path :: "string \<Rightarrow> string \<Rightarrow> string" where
  "issuer_path issuer_id rest = ''/api/v1/issuers/'' @ issuer_id @ rest"

definition up_list_issuers where
  "up_list_issuers bv auth = mgmt_get bv auth ''/api/v1/issuers'' []"

definition up_create_issuer where
  "up_create_issuer bv auth body = mgmt_post bv auth ''/api/v1/issuers'' (JsonPayload body)"

definition up_get_issuer where
  "up_get_issuer bv auth issuer_id = mgmt_get bv auth (issuer_path issuer_id []) []"

definition up_deactivate_issuer where
  "up_deactivate_issuer bv auth issuer_id = mgmt_post bv auth (issuer_path issuer_id ''/deactivate'') NoPayload"

definition up_rotate_keys where
  "up_rotate_keys bv auth issuer_id body = mgmt_post bv auth (issuer_path issuer_id ''/rotate-keys'') (JsonPayload body)"

definition up_get_operation_task where
  "up_get_operation_task bv auth task_id = mgmt_get bv auth (''/api/v1/operation-tasks/'' @ task_id) []"

text \<open>Only parameters that are present become query parameters.\<close>

definition present_params :: "(string \<times> string option) list \<Rightarrow> (string \<times> string) list" where
  "present_params ps = List.map_filter (\<lambda>(k, v). map_option (Pair k) v) ps"

definition up_list_credential_offers where
  "up_list_credential_offers bv auth issuer_id limit cursor = mgmt_get bv auth (issuer_path issuer_id ''/credential-offers'')
     (present_params [(''limit'', map_option (\<lambda>l. show_nat (unat (l :: u32))) limit), (''cursor'', cursor)])"

definition up_get_credential_offer where
  "up_get_credential_offer bv auth issuer_id offer_id = mgmt_get bv auth (issuer_path issuer_id (''/credential-offers/'' @ offer_id)) []"

definition up_create_credential_offer where
  "up_create_credential_offer bv auth issuer_id body = mgmt_post bv auth (issuer_path issuer_id ''/credential-offers'') (JsonPayload body)"

definition up_cancel_credential_offer where
  "up_cancel_credential_offer bv auth issuer_id offer_id =
     mgmt_post bv auth (issuer_path issuer_id (''/credential-offers/'' @ offer_id @ ''/cancel'')) NoPayload"

definition up_list_issued_credentials where
  "up_list_issued_credentials bv auth issuer_id limit cursor st vct = mgmt_get bv auth (issuer_path issuer_id ''/credentials'')
     (present_params [(''limit'', map_option (\<lambda>l. show_nat (unat (l :: u32))) limit), (''cursor'', cursor), (''state'', st), (''vct'', vct)])"

definition up_get_issued_credential where
  "up_get_issued_credential bv auth issuer_id credential_id = mgmt_get bv auth (issuer_path issuer_id (''/credentials/'' @ credential_id)) []"

definition up_suspend_issued_credential where
  "up_suspend_issued_credential bv auth issuer_id credential_id =
     mgmt_post bv auth (issuer_path issuer_id (''/credentials/'' @ credential_id @ ''/suspend'')) NoPayload"

definition up_unsuspend_issued_credential where
  "up_unsuspend_issued_credential bv auth issuer_id credential_id =
     mgmt_post bv auth (issuer_path issuer_id (''/credentials/'' @ credential_id @ ''/unsuspend'')) NoPayload"

definition up_revoke_issued_credential where
  "up_revoke_issued_credential bv auth issuer_id credential_id =
     mgmt_post bv auth (issuer_path issuer_id (''/credentials/'' @ credential_id @ ''/revoke'')) NoPayload"

definition up_list_credential_types where
  "up_list_credential_types bv auth issuer_id = mgmt_get bv auth (issuer_path issuer_id ''/credential-types'') []"

definition up_get_credential_type_schema where
  "up_get_credential_type_schema bv auth ctype_id = mgmt_get bv auth (''/api/v1/credential-types/'' @ ctype_id @ ''/schema'') []"

section \<open>Errors\<close>

datatype app_error =
    AppUpstream call_error
  | AppRegistry registry_error
  | MissingDid
  | InvalidDid
  | InvalidDidLog

text \<open>\<open>StatusCode::from_u16\<close> accepts 100 to 999.\<close>

definition status_or_gateway :: "nat \<Rightarrow> nat" where
  "status_or_gateway s = (if 100 \<le> s \<and> s < 1000 then s else 502)"

fun app_error_response :: "app_error \<Rightarrow> bff_response" where
  "app_error_response (AppUpstream (CallStatus status body)) =
     \<lparr> rs_status = status_or_gateway status, rs_location = None, rs_body = RawBody body \<rparr>"
| "app_error_response (AppUpstream (CallTransport _)) = gateway_error ''upstream call failed''"
| "app_error_response (AppUpstream (CallToken _)) = gateway_error ''could not authenticate with the management API''"
| "app_error_response (AppRegistry (HttpStatus status _)) = json_error (status_or_gateway status) ''identifier registry error''"
| "app_error_response (AppRegistry _) = gateway_error ''identifier registry unavailable''"
| "app_error_response MissingDid = gateway_error ''could not resolve the DID log''"
| "app_error_response InvalidDid = gateway_error ''could not resolve the DID log''"
| "app_error_response InvalidDidLog = gateway_error ''could not resolve the DID log''"

section \<open>DID logs\<close>

record did_entry =
  en_version_id :: string
  en_version_time :: string
  en_deactivated :: "bool option"

text \<open>The crates behind the DID-log route.\<close>

record 'x did_registry =
  dr_json_from_str :: "string \<Rightarrow> json option"
  dr_entry_try_from :: "json \<Rightarrow> did_entry option"
  dr_parse_did :: "string \<Rightarrow> string option"
  dr_fetch_log :: "string \<Rightarrow> ('x, registry_error, string) eff"

definition version_number :: "string \<Rightarrow> nat option" where
  "version_number version_id = (case parse_unsigned (2 ^ 64 - 1) (takeWhile (\<lambda>c. c \<noteq> CHR ''-'') version_id) of
     Inr n \<Rightarrow> Some n | Inl _ \<Rightarrow> None)"

definition log_row :: "did_entry \<Rightarrow> bool \<Rightarrow> json \<Rightarrow> json" where
  "log_row e deactivated v = JObj [(''deactivated'', JBool deactivated), (''entry'', v),
     (''version'', (case version_number (en_version_id e) of Some n \<Rightarrow> JNum (int n) | None \<Rightarrow> JNull)),
     (''versionId'', JStr (en_version_id e)), (''versionTime'', JStr (en_version_time e))]"

fun split_lines :: "string \<Rightarrow> string list" where
  "split_lines [] = [[]]"
| "split_lines (c # cs) = (if c = CHR 0x0A then [] # split_lines cs
     else (case split_lines cs of l # ls \<Rightarrow> (c # l) # ls | [] \<Rightarrow> [[c]]))"

fun log_rows :: "'x did_registry \<Rightarrow> bool \<Rightarrow> string list \<Rightarrow> app_error + json list" where
  "log_rows dr deactivated [] = Inr []"
| "log_rows dr deactivated (l # ls) =
     (if trim l = [] then log_rows dr deactivated ls
      else case dr_json_from_str dr (trim l) of
        None \<Rightarrow> Inl InvalidDidLog
      | Some v \<Rightarrow> (case dr_entry_try_from dr v of
          None \<Rightarrow> Inl InvalidDidLog
        | Some e \<Rightarrow> (let gone = (deactivated \<or> en_deactivated e = Some True) in
            bindR (log_rows dr gone ls) (\<lambda>rows. Inr (log_row e gone v # rows)))))"

definition parse_did_log :: "'x did_registry \<Rightarrow> string \<Rightarrow> app_error + json list" where
  "parse_did_log dr text = log_rows dr False (split_lines text)"

section \<open>Handlers\<close>

text \<open>\<open>claims\<close> is dropped from offers, as the table of the front end does not show it.\<close>

fun strip_claims :: "json \<Rightarrow> json" where
  "strip_claims (JObj m) = JObj (filter (\<lambda>(k, _). k \<noteq> ''claims'') m)"
| "strip_claims v = v"

fun strip_claims_from_items :: "json \<Rightarrow> json" where
  "strip_claims_from_items (JObj m) = (case Option.bind (map_of m ''items'') as_array of
     Some items \<Rightarrow> JObj (obj_insert ''items'' (JArr (map strip_claims items)) m) | None \<Rightarrow> JObj m)"
| "strip_claims_from_items v = v"

definition forwarded :: "nat \<Rightarrow> ('x bff_state, call_error, json) eff \<Rightarrow> ('x bff_state, app_error, bff_response) eff" where
  "forwarded status m = bindE (mapErr AppUpstream m) (\<lambda>v. ret (json_response status v))"

definition list_issuers_route where
  "list_issuers_route bv auth = forwarded 200 (up_list_issuers bv auth)"

definition create_issuer_route where
  "create_issuer_route bv auth body = forwarded 201 (up_create_issuer bv auth body)"

definition get_issuer_route where
  "get_issuer_route bv auth i = forwarded 200 (up_get_issuer bv auth i)"

definition deactivate_issuer_route where
  "deactivate_issuer_route bv auth i = forwarded 200 (up_deactivate_issuer bv auth i)"

definition rotate_keys_route where
  "rotate_keys_route bv auth i body = forwarded 200 (up_rotate_keys bv auth i body)"

definition get_task_route where
  "get_task_route bv auth k = forwarded 200 (up_get_operation_task bv auth k)"

definition create_credential_offer_route where
  "create_credential_offer_route bv auth i body = forwarded 201 (up_create_credential_offer bv auth i body)"

definition get_credential_offer_route where
  "get_credential_offer_route bv auth i off = forwarded 200 (up_get_credential_offer bv auth i off)"

definition list_credentials_route where
  "list_credentials_route bv auth i limit cursor st vct = forwarded 200 (up_list_issued_credentials bv auth i limit cursor st vct)"

definition get_credential_route where
  "get_credential_route bv auth i c = forwarded 200 (up_get_issued_credential bv auth i c)"

definition suspend_credential_route where
  "suspend_credential_route bv auth i c = forwarded 200 (up_suspend_issued_credential bv auth i c)"

definition resume_credential_route where
  "resume_credential_route bv auth i c = forwarded 200 (up_unsuspend_issued_credential bv auth i c)"

definition revoke_credential_route where
  "revoke_credential_route bv auth i c = forwarded 200 (up_revoke_issued_credential bv auth i c)"

definition list_credential_types_route where
  "list_credential_types_route bv auth i = forwarded 200 (up_list_credential_types bv auth i)"

definition get_credential_type_schema_route where
  "get_credential_type_schema_route bv auth k = forwarded 200 (up_get_credential_type_schema bv auth k)"

definition list_credential_offers_route where
  "list_credential_offers_route bv auth issuer_id limit cursor =
     forwarded 200 (bindE (up_list_credential_offers bv auth issuer_id limit cursor) (\<lambda>v. ret (strip_claims_from_items v)))"

definition cancel_credential_offer_route where
  "cancel_credential_offer_route bv auth issuer_id offer_id =
     forwarded 200 (bindE (up_cancel_credential_offer bv auth issuer_id offer_id) (\<lambda>v. ret (strip_claims v)))"

definition get_did_log ::
  "'x bff_env \<Rightarrow> 'x did_registry \<Rightarrow> user_auth \<Rightarrow> string \<Rightarrow> ('x bff_state, app_error, bff_response) eff" where
  "get_did_log bv dr auth issuer_id =
     bindE (mapErr AppUpstream (up_get_issuer bv auth issuer_id)) (\<lambda>issuer.
     bindE (okOr MissingDid (Option.bind (jget ''did'' issuer) as_string)) (\<lambda>did_str.
     bindE (okOr InvalidDid (dr_parse_did dr did_str)) (\<lambda>did.
     bindE (mapErr AppRegistry (bff_ext (dr_fetch_log dr did))) (\<lambda>log_text.
     bindE (liftR (parse_did_log dr log_text)) (\<lambda>entries.
     ret (json_response 200 (JObj [(''entries'', JArr entries)])))))))"

section \<open>Routing\<close>

datatype data_route =
    ListIssuers
  | CreateIssuerRoute json
  | GetIssuer string
  | GetDidLog string
  | DeactivateIssuerRoute string
  | RotateKeysRoute string json
  | GetTask string
  | ListOffers string "u32 option" "string option"
  | CreateOffer string json
  | GetOffer string string
  | CancelOffer string string
  | ListCredentials string "u32 option" "string option" "string option" "string option"
  | GetCredential string string
  | SuspendCredential string string
  | ResumeCredential string string
  | RevokeCredential string string
  | ListTypes string
  | GetTypeSchema string

fun data_handler ::
  "'x bff_env \<Rightarrow> 'x did_registry \<Rightarrow> user_auth \<Rightarrow> data_route \<Rightarrow> ('x bff_state, app_error, bff_response) eff" where
  "data_handler bv dr auth ListIssuers = list_issuers_route bv auth"
| "data_handler bv dr auth (CreateIssuerRoute body) = create_issuer_route bv auth body"
| "data_handler bv dr auth (GetIssuer i) = get_issuer_route bv auth i"
| "data_handler bv dr auth (GetDidLog i) = get_did_log bv dr auth i"
| "data_handler bv dr auth (DeactivateIssuerRoute i) = deactivate_issuer_route bv auth i"
| "data_handler bv dr auth (RotateKeysRoute i body) = rotate_keys_route bv auth i body"
| "data_handler bv dr auth (GetTask k) = get_task_route bv auth k"
| "data_handler bv dr auth (ListOffers i limit cursor) = list_credential_offers_route bv auth i limit cursor"
| "data_handler bv dr auth (CreateOffer i body) = create_credential_offer_route bv auth i body"
| "data_handler bv dr auth (GetOffer i off) = get_credential_offer_route bv auth i off"
| "data_handler bv dr auth (CancelOffer i off) = cancel_credential_offer_route bv auth i off"
| "data_handler bv dr auth (ListCredentials i limit cursor st vct) = list_credentials_route bv auth i limit cursor st vct"
| "data_handler bv dr auth (GetCredential i c) = get_credential_route bv auth i c"
| "data_handler bv dr auth (SuspendCredential i c) = suspend_credential_route bv auth i c"
| "data_handler bv dr auth (ResumeCredential i c) = resume_credential_route bv auth i c"
| "data_handler bv dr auth (RevokeCredential i c) = revoke_credential_route bv auth i c"
| "data_handler bv dr auth (ListTypes i) = list_credential_types_route bv auth i"
| "data_handler bv dr auth (GetTypeSchema k) = get_credential_type_schema_route bv auth k"

datatype bff_route =
    Guarded data_route
  | Me
  | Login "string option"
  | Callback callback_query
  | Logout
  | SelectAccount string

definition guarded ::
  "'x bff_env \<Rightarrow> 'x did_registry \<Rightarrow> string \<Rightarrow> data_route \<Rightarrow> ('x bff_state, bff_response, bff_response) eff" where
  "guarded bv dr sid route =
     bindE (require_session bv sid) (\<lambda>_.
     bindE (user_auth_from_request bv sid) (\<lambda>auth.
     mapErr app_error_response (data_handler bv dr auth route)))"

fun bff_router ::
  "'x bff_env \<Rightarrow> 'x did_registry \<Rightarrow> string \<Rightarrow> bff_route \<Rightarrow> ('x bff_state, bff_response, bff_response) eff" where
  "bff_router bv dr sid (Guarded route) = guarded bv dr sid route"
| "bff_router bv dr sid Me = get_me bv sid"
| "bff_router bv dr sid (Login return_to) = login bv return_to"
| "bff_router bv dr sid (Callback q) = callback bv q"
| "bff_router bv dr sid Logout = logout bv sid"
| "bff_router bv dr sid (SelectAccount a) = select_account bv sid a"

text \<open>
  The session layer around the router: a modified session is stored with the response, if the
  layer saves sessions under its status; a store that fails then replaces the response.
\<close>

definition session_layer ::
  "'x bff_env \<Rightarrow> string \<Rightarrow> ('x bff_state, bff_response, bff_response) eff \<Rightarrow> 'x bff_state \<Rightarrow> bff_response \<times> 'x bff_state" where
  "session_layer bv sid m s =
     (case m (s\<lparr> bf_modified := None \<rparr>) of (r, s1) \<Rightarrow>
      let resp = (case r of Inl early \<Rightarrow> early | Inr answer \<Rightarrow> answer); s2 = s1\<lparr> bf_modified := None \<rparr> in
      case bf_modified s1 of
        None \<Rightarrow> (resp, s2)
      | Some d \<Rightarrow>
          if bv_saves bv (rs_status resp)
          then (case bv_store bv (bf_ext s2) of
              (Some e, x) \<Rightarrow> (bv_save_failed bv e, s2\<lparr> bf_ext := x \<rparr>)
            | (None, x) \<Rightarrow> (resp, s2\<lparr> bf_ext := x, bf_sessions := (bf_sessions s2)(sid \<mapsto> d) \<rparr>))
          else (resp, s2))"

definition bff_answer ::
  "'x bff_env \<Rightarrow> 'x did_registry \<Rightarrow> string \<Rightarrow> bff_route \<Rightarrow> 'x bff_state \<Rightarrow> bff_response \<times> 'x bff_state" where
  "bff_answer bv dr sid route = session_layer bv sid (bff_router bv dr sid route)"

text \<open>
  What changes the state of the back end: a request, the sweep of the logins that were abandoned,
  the expiry of an idle session and the world around it.
\<close>

inductive bff_step :: "'x bff_env \<Rightarrow> 'x did_registry \<Rightarrow> 'x bff_state \<Rightarrow> 'x bff_state \<Rightarrow> bool" for bv dr where
  request: "bff_step bv dr s (snd (bff_answer bv dr sid route s))"
| sweep: "bff_step bv dr s (pending_sweep bv PENDING_LOGIN_TTL s)"
| idle: "bff_step bv dr s (s\<lparr> bf_sessions := (bf_sessions s)(sid := None) \<rparr>)"
| outside: "bff_step bv dr s (s\<lparr> bf_ext := x \<rparr>)"

definition session_cookie_name :: "session_config \<Rightarrow> string" where
  "session_cookie_name cfg = (if sc_cookie_secure cfg then ''__Host-swiyu_session'' else ''swiyu_session'')"

end
