(* ===== verification/BffProps.thy ===== *)
theory BffProps
  imports BffRoutes
begin

text \<open>
  The sessions of the web back end: what a stored session is worth, the single use of a login,
  the guard in front of the data routes, the account a data route acts for and the fate of the
  tokens that were renewed on the way.
\<close>

section \<open>What the calls to the outside leave alone\<close>

lemmas client_calls =
  forwarded_def mgmt_get_def mgmt_post_def up_list_issuers_def up_create_issuer_def up_get_issuer_def up_deactivate_issuer_def
  up_rotate_keys_def up_get_operation_task_def up_list_credential_offers_def up_get_credential_offer_def
  up_create_credential_offer_def up_cancel_credential_offer_def up_list_issued_credentials_def up_get_issued_credential_def
  up_suspend_issued_credential_def up_unsuspend_issued_credential_def up_revoke_issued_credential_def
  up_list_credential_types_def up_get_credential_type_schema_def list_credential_offers_route_def
  cancel_credential_offer_route_def get_did_log_def
  list_issuers_route_def create_issuer_route_def get_issuer_route_def deactivate_issuer_route_def
  rotate_keys_route_def get_task_route_def create_credential_offer_route_def get_credential_offer_route_def
  list_credentials_route_def get_credential_route_def suspend_credential_route_def resume_credential_route_def
  revoke_credential_route_def list_credential_types_route_def get_credential_type_schema_route_def

text \<open>A predicate that depends neither on the outside nor on the cached token of the back end.\<close>

locale bff_frame =
  fixes P :: "'x bff_state \<Rightarrow> bool"
  assumes outside: "P (s\<lparr> bf_ext := x \<rparr>) = P s"
    and token_cache: "P (s\<lparr> bf_first_party := t \<rparr>) = P s"
begin

lemma calls [pres]:
  "preserves P (bff_ext m)"
  "preserves P (bff_draw f)"
  by (auto simp: bff_draw_def bff_ext_def outside split: prod.splits)

lemma post_form_keeps [pres]: "preserves P (post_form bv dec form)"
  unfolding post_form_def by (intro pres)

lemma store_cache [pres]: "preserves P (\<lambda>s. (Inr (), s\<lparr> bf_first_party := t \<rparr>))"
  by (auto simp: token_cache)

lemma look [pres]: "preserves P (\<lambda>s. (f s, s))"
  by auto

lemma tokens [pres]:
  "preserves P (first_party_token bv)"
  "preserves P (refresh_user_token bv r)"
  "preserves P (exchange_for_mgmtapi bv r)"
  unfolding first_party_token_def mint_first_party_def request_token_def refresh_user_token_def exchange_for_mgmtapi_def Let_def
  by (intro pres)+

lemma upstream [pres]:
  "preserves P (mgmt_send bv meth path headers query body)"
  "preserves P (up_resolve_linked_accounts bv iss sub)"
  unfolding up_resolve_linked_accounts_def mgmt_send_def by (intro pres)+

lemma logins [pres]:
  "preserves P (begin_login bv return_to)"
  "preserves P (complete_login bv code pending)"
  unfolding begin_login_def complete_login_def by (intro pres)+

lemma session_reads [pres]:
  "preserves P (session_get bv sid)"
  "preserves P (load_session bv sid)"
  "preserves P (require_session bv sid)"
  "preserves P (get_me bv sid)"
  unfolding load_session_def require_session_def get_me_def session_get_def session_op_def by (intro pres)+

lemma data_handler_keeps [pres]: "preserves P (data_handler bv dr auth route)"
  by (cases route; simp only: data_handler.simps client_calls; intro pres)

end

section \<open>The sessions that are stored\<close>

text \<open>
  A session that was established by a login: its identity comes from an identity token that was
  verified against a nonce of this back end, its accounts are the active ones the management
  service returned for that identity, and the selected one is among them.
\<close>

definition identity_verified :: "'x bff_env \<Rightarrow> session_data \<Rightarrow> bool" where
  "identity_verified bv d \<longleftrightarrow>
     (\<exists>y x x'. bv_verify_id_token bv (sd_kc_id_token d) (fst (bv_random bv y)) x = (Inr (sd_iss d, sd_sub d), x'))"

definition accounts_resolved :: "'x bff_env \<Rightarrow> session_data \<Rightarrow> bool" where
  "accounts_resolved bv d \<longleftrightarrow>
     (\<exists>tok x x' resp v. bv_http bv Get (base_url bv @ ''/api/v1/linked-user-accounts'') [bearer_auth tok]
          [(''iss'', sd_iss d), (''sub'', sd_sub d)] NoPayload x = (Inr resp, x') \<and>
        read_json resp = Inr v \<and> sd_accounts d = active_accounts v)"

definition sound_session :: "'x bff_env \<Rightarrow> session_data \<Rightarrow> bool" where
  "sound_session bv d \<longleftrightarrow> identity_verified bv d \<and> accounts_resolved bv d \<and> selected d \<noteq> None"

text \<open>A login that waits for its callback: its nonce was drawn here and it returns to a path.\<close>

definition sound_pending :: "'x bff_env \<Rightarrow> pending_login \<Rightarrow> bool" where
  "sound_pending bv pl \<longleftrightarrow> (\<exists>y. pl_nonce pl = fst (bv_random bv y)) \<and> sanitize_return_to (Some (pl_return_to pl)) = pl_return_to pl"

definition bff_inv :: "'x bff_env \<Rightarrow> 'x bff_state \<Rightarrow> bool" where
  "bff_inv bv s \<longleftrightarrow> (\<forall>sid d. bf_sessions s sid = Some d \<longrightarrow> sound_session bv d) \<and>
     (\<forall>d. bf_modified s = Some d \<longrightarrow> sound_session bv d) \<and>
     (\<forall>st pl. bf_pending s st = Some pl \<longrightarrow> sound_pending bv pl)"

interpretation inv_frame: bff_frame "bff_inv bv" for bv
  by unfold_locales (simp_all add: bff_inv_def)

lemma wp_preserves:
  assumes "preserves P m" "P s" "\<And>a t. P t \<Longrightarrow> Q a t" "\<And>e t. P t \<Longrightarrow> E e t"
  shows "wp m Q E s"
  using assms by (cases "m s") (auto simp: wp_def preserves_def split: sum.splits)

lemma draw_run: "bff_draw f s = (case f (bf_ext s) of (a, x) \<Rightarrow> (Inr a, s\<lparr> bf_ext := x \<rparr>))"
  by (simp add: bff_draw_def bff_ext_def split: prod.splits)

lemma session_op_run:
  "session_op bv m s = (case bv_store bv (bf_ext s) of
     (Some e, x) \<Rightarrow> (Inl e, s\<lparr> bf_ext := x \<rparr>) | (None, x) \<Rightarrow> m (s\<lparr> bf_ext := x \<rparr>))"
  by (simp add: session_op_def bindE_run draw_run split: prod.splits option.splits)

lemma wp_session_op:
  "wp (session_op bv m) Q E s = (case bv_store bv (bf_ext s) of
     (Some e, x) \<Rightarrow> E e (s\<lparr> bf_ext := x \<rparr>) | (None, x) \<Rightarrow> wp m Q E (s\<lparr> bf_ext := x \<rparr>))"
  by (simp add: wp_def session_op_run split: prod.splits option.splits)

abbreviation session_of :: "'x bff_state \<Rightarrow> string \<Rightarrow> session_data option" where
  "session_of s sid \<equiv> (if bf_modified s = None then bf_sessions s sid else bf_modified s)"

lemma load_session_run:
  "load_session bv sid s = (case bv_store bv (bf_ext s) of
     (Some e, x) \<Rightarrow> (Inl bff_internal_error, s\<lparr> bf_ext := x \<rparr>)
   | (None, x) \<Rightarrow> (case session_of s sid of
       None \<Rightarrow> (Inl bff_unauthenticated, s\<lparr> bf_ext := x \<rparr>) | Some d \<Rightarrow> (Inr d, s\<lparr> bf_ext := x \<rparr>)))"
  by (simp add: load_session_def session_get_def bindE_run mapErr_run session_op_run split: prod.splits option.splits)

lemma session_insert_run:
  "session_insert bv d s = (case bv_store bv (bf_ext s) of
     (Some e, x) \<Rightarrow> (Inl e, s\<lparr> bf_ext := x \<rparr>) | (None, x) \<Rightarrow> (Inr (), s\<lparr> bf_ext := x, bf_modified := Some d \<rparr>))"
  by (simp add: session_insert_def session_op_run split: prod.splits option.splits)

lemma sound_copy: "bff_inv bv s \<Longrightarrow> session_of s sid = Some d \<Longrightarrow> sound_session bv d"
  by (auto simp: bff_inv_def split: if_splits)

lemma wp_load_session:
  assumes "bff_inv bv s" "\<And>d t. bff_inv bv t \<Longrightarrow> sound_session bv d \<Longrightarrow> Q d t" "\<And>e t. bff_inv bv t \<Longrightarrow> E e t"
  shows "wp (load_session bv sid) Q E s"
  using assms(1) sound_copy [OF assms(1), of sid] by (auto simp: wp_def load_session_run inv_frame.outside intro!: assms(2,3) split: prod.splits option.splits if_splits)

lemma insert_keeps_inv: "sound_session bv d \<Longrightarrow> preserves (bff_inv bv) (session_insert bv d)"
  by (rule preservesI) (auto simp: session_insert_run bff_inv_def split: prod.splits option.splits)

lemma delete_keeps_inv: "preserves (bff_inv bv) (session_delete bv sid)"
  by (rule preservesI) (auto simp: session_delete_def session_op_run bff_inv_def split: prod.splits option.splits if_splits)

section \<open>Every route keeps it\<close>

lemma sound_selection:
  "sound_session bv d \<Longrightarrow> \<exists>a \<in> set (sd_accounts d). sa_id a = k \<Longrightarrow> sound_session bv (d\<lparr> sd_selected_account_id := k \<rparr>)"
  by (auto simp: sound_session_def identity_verified_def accounts_resolved_def selected_def find_None_iff)

lemma sound_renewal:
  "sound_session bv d \<Longrightarrow> sound_session bv (d\<lparr> sd_kc_access_token := x, sd_kc_refresh_token := y, sd_kc_access_expiry_unix := z \<rparr>)"
  by (auto simp: sound_session_def identity_verified_def accounts_resolved_def selected_def)

lemma preserves_of_wp:
  assumes "\<And>s. P s \<Longrightarrow> wp m (\<lambda>_. P) (\<lambda>_. P) s"
  shows "preserves P m"
proof
  fix s assume "P s"
  from assms [OF this] show "P (snd (m s))" by (cases "m s") (simp add: wp_def split: sum.splits)
qed

lemma ext_eq_Inr: "bff_ext m s = (Inr a, s') \<longleftrightarrow> (\<exists>x. m (bf_ext s) = (Inr a, x) \<and> s' = s\<lparr> bf_ext := x \<rparr>)"
  by (auto simp: bff_ext_def split: prod.splits)

lemma draw_eq_Inr: "bff_draw f s = (Inr a, s') \<longleftrightarrow> (\<exists>x. f (bf_ext s) = (a, x) \<and> s' = s\<lparr> bf_ext := x \<rparr>)"
  by (auto simp: draw_run split: prod.splits)

lemma sanitize_idem: "sanitize_return_to (Some (sanitize_return_to r)) = sanitize_return_to r"
  by (simp add: sanitize_return_to_def split: option.splits)

lemma begin_login_pending:
  "begin_login bv r s = (Inr (url, st, pl), s') \<Longrightarrow>
   pl_return_to pl = r \<and> (\<exists>y. pl_nonce pl = fst (bv_random bv y)) \<and> (\<exists>y. st = fst (bv_random bv y))"
  by (auto simp: begin_login_def bindE_run draw_run split: prod.splits; metis fst_conv)

lemma begin_login_sound: "begin_login bv (sanitize_return_to r) s = (Inr (url, st, pl), s') \<Longrightarrow> sound_pending bv pl"
  by (drule begin_login_pending) (simp add: sound_pending_def sanitize_idem)

lemma pending_insert_keeps: "sound_pending bv pl \<Longrightarrow> preserves (bff_inv bv) (pending_insert st pl)"
  by (rule preservesI) (auto simp: pending_insert_def bff_inv_def split: if_splits)

lemma wp_keeping:
  assumes "preserves P m" "P s" "\<And>a s'. m s = (Inr a, s') \<Longrightarrow> P s' \<Longrightarrow> Q a s'" "\<And>e s'. P s' \<Longrightarrow> E e s'"
  shows "wp m Q E s"
  using assms by (cases "m s") (auto simp: wp_def preserves_def split: sum.splits)

lemma login_keeps: "preserves (bff_inv bv) (login bv return_to)"
proof (rule preserves_of_wp)
  fix s assume "bff_inv bv s"
  then show "wp (login bv return_to) (\<lambda>_. bff_inv bv) (\<lambda>_. bff_inv bv) s"
    unfolding login_def wp_bindE
    by (rule wp_keeping [OF inv_frame.logins(1)])
      (auto simp: wp_bindE intro!: wp_preserves [OF pending_insert_keeps] begin_login_sound)
qed

lemma complete_login_verifies:
  "complete_login bv code pl s = (Inr v, s') \<Longrightarrow>
   \<exists>x x'. bv_verify_id_token bv (vu_id_token v) (pl_nonce pl) x = (Inr (vu_iss v, vu_sub v), x')"
  unfolding complete_login_def eff_success ext_eq_Inr draw_eq_Inr by (auto simp: eff_success draw_eq_Inr ext_eq_Inr) blast

lemma resolve_asks_for_identity:
  assumes "up_resolve_linked_accounts bv iss sub s = (Inr v, s')"
  shows "\<exists>tok x x' resp. bv_http bv Get (base_url bv @ ''/api/v1/linked-user-accounts'') [bearer_auth tok]
      [(''iss'', iss), (''sub'', sub)] NoPayload x = (Inr resp, x') \<and> read_json resp = Inr v"
  using assms by (auto simp: up_resolve_linked_accounts_def mgmt_send_def eff_success ext_eq_Inr)

lemma take_run: "pending_take st s = (Inr (bf_pending s st), s\<lparr> bf_pending := (bf_pending s)(st := None) \<rparr>)"
  by (simp add: pending_take_def)

lemma sound_new_session:
  assumes "bv_verify_id_token bv (vu_id_token v) (fst (bv_random bv y)) x = (Inr (vu_iss v, vu_sub v), x')"
    and "up_resolve_linked_accounts bv (vu_iss v) (vu_sub v) s = (Inr w, s')"
    and "active_accounts w = first # rest"
  shows "sound_session bv \<lparr> sd_iss = vu_iss v, sd_sub = vu_sub v, sd_kc_access_token = a, sd_kc_refresh_token = r,
      sd_kc_id_token = vu_id_token v, sd_kc_access_expiry_unix = e, sd_logged_in_at_unix = t,
      sd_accounts = first # rest, sd_selected_account_id = sa_id first \<rparr>"
  using assms(1,3) resolve_asks_for_identity [OF assms(2)]
  unfolding sound_session_def identity_verified_def accounts_resolved_def by (auto simp: selected_def) metis

lemma callback_keeps: "preserves (bff_inv bv) (callback bv q)"
proof (rule preserves_of_wp)
  fix s assume I: "bff_inv bv s"
  show "wp (callback bv q) (\<lambda>_. bff_inv bv) (\<lambda>_. bff_inv bv) s"
  proof (cases "cq_error q = None \<and> cq_code q \<noteq> None \<and> cq_state q \<noteq> None")
    case False
    then show ?thesis using I by (auto simp: callback_def split: option.splits)
  next
    case True
    then obtain code st where q: "cq_error q = None" "cq_code q = Some code" "cq_state q = Some st" by auto
    let ?t = "s\<lparr> bf_pending := (bf_pending s)(st := None) \<rparr>"
    have t: "bff_inv bv ?t" using I by (auto simp: bff_inv_def split: if_splits)
    show ?thesis
    proof (cases "bf_pending s st")
      case None
      then show ?thesis using t by (simp add: callback_def q wp_bindE wp_def take_run bindE_run okOr_def raise_def)
    next
      case (Some pl)
      then obtain y where y: "pl_nonce pl = fst (bv_random bv y)" using I unfolding bff_inv_def sound_pending_def by blast
      show ?thesis
        unfolding callback_def q wp_bindE
        by (simp add: wp_def [of "pending_take st"] take_run Some wp_rules wp_bindE)
          (rule wp_keeping [OF inv_frame.logins(2) t];
           auto simp: wp_mapErr wp_bindE y Let_def dest!: complete_login_verifies split: list.splits
             intro!: wp_keeping [OF inv_frame.upstream(2)] wp_keeping [OF inv_frame.calls(2)] wp_preserves [OF insert_keeps_inv]
               sound_new_session)
    qed
  qed
qed

lemma select_keeps: "preserves (bff_inv bv) (select_account bv sid k)"
proof (rule preserves_of_wp)
  fix s assume "bff_inv bv s"
  then show "wp (select_account bv sid k) (\<lambda>_. bff_inv bv) (\<lambda>_. bff_inv bv) s"
    unfolding select_account_def wp_rules Let_def
    by (rule wp_load_session)
      (auto simp: wp_bindE wp_mapErr wp_guardE intro!: wp_preserves [OF insert_keeps_inv] sound_selection split: option.splits)
qed

lemma renew_keeps: "sound_session bv d \<Longrightarrow> preserves (bff_inv bv) (renew_user_token bv d)"
  unfolding renew_user_token_def Let_def by (intro pres insert_keeps_inv sound_renewal)

lemma user_auth_keeps: "preserves (bff_inv bv) (user_auth_from_request bv sid)"
proof (rule preserves_of_wp)
  fix s assume "bff_inv bv s"
  then show "wp (user_auth_from_request bv sid) (\<lambda>_. bff_inv bv) (\<lambda>_. bff_inv bv) s"
    unfolding user_auth_from_request_def wp_bindE
    by (rule wp_load_session) (unfold wp_bindE [symmetric], auto intro!: wp_preserves [where P = "bff_inv bv"] pres renew_keeps)
qed

lemma logout_keeps: "preserves (bff_inv bv) (logout bv sid)"
  unfolding logout_def Let_def by (intro pres delete_keeps_inv)

lemma guarded_keeps: "preserves (bff_inv bv) (guarded bv dr sid route)"
  unfolding guarded_def by (intro pres user_auth_keeps)

lemma router_keeps: "preserves (bff_inv bv) (bff_router bv dr sid route)"
  by (cases route; simp only: bff_router.simps;
      intro guarded_keeps inv_frame.session_reads login_keeps callback_keeps logout_keeps select_keeps)

lemma layer_keeps:
  assumes "preserves (bff_inv bv) m" "bff_inv bv s"
  shows "bff_inv bv (snd (session_layer bv sid m s))"
proof -
  have "bff_inv bv (s\<lparr> bf_modified := None \<rparr>)" using assms(2) by (simp add: bff_inv_def)
  then have "bff_inv bv (snd (m (s\<lparr> bf_modified := None \<rparr>)))" using assms(1) by (simp add: preserves_def)
  then show ?thesis
    by (cases "m (s\<lparr> bf_modified := None \<rparr>)")
      (auto simp: session_layer_def Let_def bff_inv_def split: option.splits prod.splits if_splits)
qed

lemma bff_step_keeps: "bff_step bv dr s s' \<Longrightarrow> bff_inv bv s \<Longrightarrow> bff_inv bv s'"
proof (induction rule: bff_step.induct)
  case request
  then show ?case unfolding bff_answer_def by (rule layer_keeps [OF router_keeps])
next
  case sweep
  then show ?case by (auto simp: bff_inv_def pending_sweep_def split: prod.splits option.splits if_splits)
qed (auto simp: bff_inv_def)

lemma bff_steps_keep: "(bff_step bv dr)\<^sup>*\<^sup>* s s' \<Longrightarrow> bff_inv bv s \<Longrightarrow> bff_inv bv s'"
  by (induction rule: rtranclp_induct) (auto intro: bff_step_keeps)

definition bff_start :: "'x \<Rightarrow> 'x bff_state" where
  "bff_start x = \<lparr> bf_pending = Map.empty, bf_sessions = Map.empty, bf_modified = None, bf_first_party = None, bf_ext = x \<rparr>"

text \<open>C7. Whatever requests arrive, however sessions expire and abandoned logins are swept: every
  session of the back end belongs to an identity whose token was verified against a nonce this
  back end drew, its accounts are the active ones the management service reported for exactly
  that identity, and the account it acts for is one of them.\<close>

theorem sessions_act_for_their_accounts:
  assumes "(bff_step bv dr)\<^sup>*\<^sup>* (bff_start x) s" "bf_sessions s sid = Some d"
  shows "identity_verified bv d \<and> accounts_resolved bv d \<and> (\<exists>a \<in> set (sd_accounts d). selected d = Some a)"
proof -
  have "bff_inv bv (bff_start x)" by (simp add: bff_start_def bff_inv_def)
  then have "sound_session bv d" using bff_steps_keep [OF assms(1)] assms(2) by (simp add: bff_inv_def)
  then show ?thesis by (auto simp: sound_session_def selected_def find_Some_iff)
qed

section \<open>A login is used once\<close>

interpretation spent_frame: bff_frame "\<lambda>s. bf_pending s st = None" for st
  by unfold_locales simp_all

lemma preserves_list [pres]:
  "preserves P m \<Longrightarrow> (\<And>x xs. preserves P (f x xs)) \<Longrightarrow> preserves P (case ys of [] \<Rightarrow> m | x # xs \<Rightarrow> f x xs)"
  by (cases ys) auto

lemma session_writes_keep_spent [pres]:
  "preserves (\<lambda>s. bf_pending s st = None) (session_insert bv d)"
  "preserves (\<lambda>s. bf_pending s st = None) (session_delete bv sid)"
  "preserves (\<lambda>s. bf_pending s st = None) (pending_take st')"
  by (auto simp: session_insert_def session_delete_def session_op_run pending_take_def split: prod.splits option.splits)

text \<open>The state parameter a login begun here would get: the second of the three draws.\<close>

definition csrf_drawn :: "'x bff_env \<Rightarrow> 'x bff_state \<Rightarrow> string" where
  "csrf_drawn bv s = fst (bv_random bv (snd (bv_random bv (bf_ext s))))"

lemma login_keeps_spent:
  "csrf_drawn bv s \<noteq> st \<Longrightarrow> bf_pending s st = None \<Longrightarrow> bf_pending (snd (login bv return_to s)) st = None"
  by (auto simp: login_def begin_login_def bindE_run draw_run pending_insert_def csrf_drawn_def split: prod.splits)

lemma router_keeps_spent:
  assumes "csrf_drawn bv s \<noteq> st" "bf_pending s st = None"
  shows "bf_pending (snd (bff_router bv dr sid route s)) st = None"
proof (cases "\<exists>r. route = Login r")
  case False
  then have "preserves (\<lambda>s. bf_pending s st = None) (bff_router bv dr sid route)"
    by (cases route; simp only: bff_router.simps guarded_def user_auth_from_request_def renew_user_token_def callback_def
        logout_def select_account_def Let_def; (intro pres)?; simp)
  then show ?thesis using assms(2) by (simp add: preserves_def)
qed (use login_keeps_spent [OF assms] in auto)

lemma layer_pending: "bf_pending (snd (session_layer bv sid m s)) = bf_pending (snd (m (s\<lparr> bf_modified := None \<rparr>)))"
  by (cases "m (s\<lparr> bf_modified := None \<rparr>)") (auto simp: session_layer_def Let_def split: option.splits prod.splits)

text \<open>A step of the back end that does not draw the state \<open>st\<close> again.\<close>

definition step_without :: "string \<Rightarrow> 'x bff_env \<Rightarrow> 'x did_registry \<Rightarrow> 'x bff_state \<Rightarrow> 'x bff_state \<Rightarrow> bool" where
  "step_without st bv dr s s' \<longleftrightarrow> bff_step bv dr s s' \<and> csrf_drawn bv s \<noteq> st"

lemma step_keeps_spent: "bff_step bv dr s s' \<Longrightarrow> csrf_drawn bv s \<noteq> st \<Longrightarrow> bf_pending s st = None \<Longrightarrow> bf_pending s' st = None"
proof (induction rule: bff_step.induct)
  case (request s sid route)
  then show ?case by (simp add: bff_answer_def layer_pending router_keeps_spent csrf_drawn_def)
next
  case sweep
  then show ?case by (simp add: pending_sweep_def split: prod.splits)
qed simp_all

lemma steps_keep_spent: "(step_without st bv dr)\<^sup>*\<^sup>* s s' \<Longrightarrow> bf_pending s st = None \<Longrightarrow> bf_pending s' st = None"
  by (induction rule: rtranclp_induct) (auto simp: step_without_def dest: step_keeps_spent)

lemma callback_spends:
  fixes s :: "'x bff_state"
  assumes "cq_error q = None" "cq_code q = Some c" "cq_state q = Some st"
  shows "bf_pending (snd (callback bv q s)) st = None"
proof -
  have "\<exists>f. callback bv q = bindE (pending_take st) f \<and> (\<forall>x. preserves (\<lambda>s. bf_pending s st = None) (f x))"
    unfolding callback_def assms not_not simp_thms if_True if_False option.case prod.case Let_def
    by (intro exI conjI allI, rule refl, intro pres)
  then obtain f where "callback bv q = bindE (pending_take st) f"
    and "\<And>x. preserves (\<lambda>s. bf_pending s st = None) (f x)" by blast
  then show ?thesis by (simp add: bindE_run take_run preserves_def)
qed

lemma unknown_state_refused:
  assumes "cq_error q = None" "cq_state q = Some st" "bf_pending s st = None"
  shows "callback bv q s = (Inl (login_error ''state''), s)"
  using assms by (cases "cq_code q") (simp_all add: callback_def bindE_run take_run okOr_def raise_def fun_upd_idem)

text \<open>C35. The state of a login is good for one callback: once a callback presented it - whether it
  succeeded or not - any later callback with the same state, in whatever session and after whatever
  the back end did in between, is sent to the login page and changes neither a session nor a login,
  unless the generator draws the same state again.\<close>

theorem login_state_is_single_use:
  assumes "cq_error q = None" "cq_code q = Some c" "cq_state q = Some st"
    and "(step_without st bv dr)\<^sup>*\<^sup>* (snd (bff_answer bv dr sid (Callback q) s)) s2"
    and "cq_error q' = None" "cq_state q' = Some st"
  shows "bff_answer bv dr sid' (Callback q') s2 = (login_error ''state'', s2\<lparr> bf_modified := None \<rparr>)"
proof -
  have "bf_pending (snd (bff_answer bv dr sid (Callback q) s)) st = None"
    by (simp add: bff_answer_def layer_pending callback_spends [OF assms(1-3)])
  then have "bf_pending (s2\<lparr> bf_modified := None \<rparr>) st = None" using steps_keep_spent [OF assms(4)] by simp
  from unknown_state_refused [OF assms(5,6) this] show ?thesis
    by (simp add: bff_answer_def session_layer_def Let_def)
qed

section \<open>The guard\<close>

text \<open>C36. A data route without a live session - none stored, past its absolute lifetime, or without a
  selected account - is answered 401, or 500 when the store fails, and that is all that happens:
  the state after it is the state before it, up to the reads of the store and of the clock, so no
  call has left the back end.\<close>

theorem dead_session_reaches_nothing:
  assumes "bv_store bv (bf_ext s) = (fault, x1)" "bv_unix bv x1 = (now, x2)"
    and "\<And>d. fault = None \<Longrightarrow> bf_sessions s sid = Some d \<Longrightarrow>
      \<not> is_live d now (sc_absolute_timeout_secs (bc_session (bv_config bv))) \<or> selected d = None"
  shows "bff_answer bv dr sid (Guarded route) s =
    (if fault = None then bff_unauthenticated else bff_internal_error,
     s\<lparr> bf_modified := None, bf_ext := if fault = None \<and> bf_sessions s sid \<noteq> None then x2 else x1 \<rparr>)"
  using assms by (auto simp: bff_answer_def session_layer_def guarded_def require_session_def bindE_run load_session_run
      draw_run guardE_def raise_def split: option.splits)

section \<open>For whom a data route acts\<close>

text \<open>
  A log of the calls the back end made, kept in the outside: \<open>calls\<close> reads it, the HTTP client
  and the client of the identifier registry extend it, the clocks and the session store do not.
\<close>

datatype bff_call =
    HttpCall string "(string \<times> string) list" bff_payload
  | RegistryFetch string

definition recorded :: "'x bff_env \<Rightarrow> 'x did_registry \<Rightarrow> ('x \<Rightarrow> bff_call list) \<Rightarrow> bool" where
  "recorded bv dr calls \<longleftrightarrow>
     (\<forall>meth url hs q body x. calls (snd (bv_http bv meth url hs q body x)) = calls x @ [HttpCall url hs body]) \<and>
     (\<forall>x. calls (snd (bv_store bv x)) = calls x) \<and> (\<forall>x. calls (snd (bv_unix bv x)) = calls x) \<and>
     (\<forall>did x. calls (snd (dr_fetch_log dr did x)) = calls x @ [RegistryFetch did])"

text \<open>The access tokens of a session, and the bearers the realm exchanged them for.\<close>

definition access_tokens :: "'x bff_env \<Rightarrow> session_data \<Rightarrow> string set" where
  "access_tokens bv d = insert (sd_kc_access_token d)
     {ru_access_token r | r. \<exists>t t'. refresh_user_token bv (sd_kc_refresh_token d) t = (Inr r, t')}"

definition bearers :: "'x bff_env \<Rightarrow> session_data \<Rightarrow> string set" where
  "bearers bv d = {b. \<exists>subject \<in> access_tokens bv d. \<exists>t t'. exchange_for_mgmtapi bv subject t = (Inr b, t')}"

text \<open>A grant the realm is asked for with a token of the session.\<close>

definition own_grant :: "'x bff_env \<Rightarrow> session_data \<Rightarrow> bff_call \<Rightarrow> bool" where
  "own_grant bv d c \<longleftrightarrow> (\<exists>form hs. c = HttpCall (oe_token_endpoint (endpoints_of bv)) hs (FormPayload (bv_form_encode bv (form @ client_fields bv))) \<and>
     (form = [(''grant_type'', ''refresh_token''), (''refresh_token'', sd_kc_refresh_token d)] \<or>
      (\<exists>subject \<in> access_tokens bv d. form = [(''grant_type'', TOKEN_EXCHANGE_GRANT), (''subject_token'', subject),
         (''subject_token_type'', ACCESS_TOKEN_TYPE), (''scope'', ACT_AS_USER_SCOPE)])))"

definition own_call :: "'x bff_env \<Rightarrow> session_data \<Rightarrow> bff_call \<Rightarrow> bool" where
  "own_call bv d c \<longleftrightarrow> (\<exists>path body. \<exists>b \<in> bearers bv d.
     c = HttpCall (base_url bv @ path) (act_as_user \<lparr> ua_bearer = b, ua_account_id = sd_selected_account_id d \<rparr>) body)"

lemma own_callI:
  "ua_account_id a = sd_selected_account_id d \<Longrightarrow> ua_bearer a \<in> bearers bv d \<Longrightarrow> own_call bv d (HttpCall (base_url bv @ path) (act_as_user a) body)"
  by (auto simp: own_call_def act_as_user_def)

text \<open>A request that started with the log \<open>c0\<close> has only made calls of the kind \<open>ok\<close>.\<close>

definition called :: "('x \<Rightarrow> bff_call list) \<Rightarrow> bff_call list \<Rightarrow> (bff_call \<Rightarrow> bool) \<Rightarrow> 'x bff_state \<Rightarrow> bool" where
  "called calls c0 ok s \<longleftrightarrow> (\<exists>new. calls (bf_ext s) = c0 @ new \<and> list_all ok new)"

locale recorder =
  fixes bv :: "'x bff_env" and dr :: "'x did_registry" and calls :: "'x \<Rightarrow> bff_call list" 
    and c0 :: "bff_call list" and ok :: "bff_call \<Rightarrow> bool"
  assumes log: "recorded bv dr calls"
begin

abbreviation fine :: "'x bff_state \<Rightarrow> bool" where "fine \<equiv> called calls c0 ok"

lemma silent [pres]: "(\<And>x. calls (snd (m x)) = calls x) \<Longrightarrow> preserves fine (bff_ext m)"
  by (rule preservesI) (simp add: called_def bff_ext_def split: prod.splits, metis snd_conv)

lemma silent_draw [pres]: "(\<And>x. calls (snd (f x)) = calls x) \<Longrightarrow> preserves fine (bff_draw f)"
  unfolding bff_draw_def by (rule silent) (simp split: prod.splits, metis snd_conv)

lemma quiet:
  "calls (snd (bv_store bv x)) = calls x" "calls (snd (bv_unix bv x)) = calls x"
  using log by (simp_all add: recorded_def)

lemma http: "ok (HttpCall url hs body) \<Longrightarrow> preserves fine (bff_ext (bv_http bv meth url hs q body))"
proof
  fix s assume a: "ok (HttpCall url hs body)" and "fine s"
  then obtain new where new: "calls (bf_ext s) = c0 @ new" "list_all ok new" by (auto simp: called_def)
  obtain r x where run: "bv_http bv meth url hs q body (bf_ext s) = (r, x)" by fastforce
  have "calls x = c0 @ (new @ [HttpCall url hs body])"
    using log new(1) run unfolding recorded_def by (metis append_assoc snd_conv)
  then show "fine (snd (bff_ext (bv_http bv meth url hs q body) s))"
    using a new(2) by (auto simp: called_def bff_ext_def run intro!: exI [of _ "new @ [HttpCall url hs body]"])
qed

lemma grant:
  "ok (HttpCall (oe_token_endpoint (endpoints_of bv)) [(''content-type'', ''application/x-www-form-urlencoded'')] (FormPayload (bv_form_encode bv form))) \<Longrightarrow>
   preserves fine (post_form bv dec form)"
  unfolding post_form_def by (intro pres http)

lemma upstream:
  "(\<And>path body. ok (HttpCall (base_url bv @ path) (act_as_user auth) body)) \<Longrightarrow> preserves fine (mgmt_send bv meth path (act_as_user auth) q body)"
  unfolding mgmt_send_def by (intro pres http)

lemma issuer_call:
  "(\<And>path body. ok (HttpCall (base_url bv @ path) (act_as_user auth) body)) \<Longrightarrow> preserves fine (up_get_issuer bv auth i)"
  by (simp only: client_calls; intro pres upstream quiet)

text \<open>Every route but that of the DID log only calls the management service.\<close>

lemma data_handler_calls:
  assumes "\<nexists>i. route = GetDidLog i" and "\<And>path body. ok (HttpCall (base_url bv @ path) (act_as_user auth) body)"
  shows "preserves fine (data_handler bv dr auth route)"
proof (cases route)
  case GetDidLog
  then show ?thesis using assms(1) by blast
qed (simp only: data_handler.simps client_calls; intro pres upstream quiet assms(2))+

text \<open>
  The DID-log route ends with one fetch: of the log of the DID that the issuer, as the management
  service described it just before, has.
\<close>

definition fetch_of :: "user_auth \<Rightarrow> string \<Rightarrow> string \<Rightarrow> bff_call list \<Rightarrow> bool" where
  "fetch_of auth i did http \<longleftrightarrow> (\<exists>t issuer t'. up_get_issuer bv auth i t = (Inr issuer, t') \<and> calls (bf_ext t') = c0 @ http \<and>
     Option.bind (Option.bind (jget ''did'' issuer) as_string) (dr_parse_did dr) = Some did)"

definition ended :: "user_auth \<Rightarrow> data_route \<Rightarrow> 'x bff_state \<Rightarrow> bool" where
  "ended auth route s \<longleftrightarrow> fine s \<or> (\<exists>i did http. route = GetDidLog i \<and> list_all ok http \<and> fetch_of auth i did http \<and>
     calls (bf_ext s) = c0 @ http @ [RegistryFetch did])"

lemma did_log_calls:
  assumes "\<And>path body. ok (HttpCall (base_url bv @ path) (act_as_user auth) body)" and "fine s"
  shows "wp (get_did_log bv dr auth i) (\<lambda>_. ended auth (GetDidLog i)) (\<lambda>_. ended auth (GetDidLog i)) s"
  unfolding get_did_log_def wp_bindE wp_mapErr
proof (rule wp_keeping [OF issuer_call [OF assms(1)]], rule assms(2))
  fix issuer t assume issuer: "up_get_issuer bv auth i s = (Inr issuer, t)" and t: "fine t"
  obtain http where http: "calls (bf_ext t) = c0 @ http" "list_all ok http" using t by (auto simp: called_def)
  have after: "ended auth (GetDidLog i) (snd (bff_ext (dr_fetch_log dr did) t))"
    if "Option.bind (Option.bind (jget ''did'' issuer) as_string) (dr_parse_did dr) = Some did" for did
  proof -
    have "calls (bf_ext (snd (bff_ext (dr_fetch_log dr did) t))) = c0 @ http @ [RegistryFetch did]"
    proof -
      have "bf_ext (snd (bff_ext (dr_fetch_log dr did) t)) = snd (dr_fetch_log dr did (bf_ext t))"
        by (simp add: bff_ext_def split: prod.splits)
      moreover have "calls (snd (dr_fetch_log dr did (bf_ext t))) = calls (bf_ext t) @ [RegistryFetch did]"
        using log by (simp add: recorded_def)
      ultimately show ?thesis using http(1) by simp
    qed
    moreover have "fetch_of auth i did http" unfolding fetch_of_def using issuer http(1) that by blast
    ultimately show ?thesis unfolding ended_def using http(2) by blast
  qed
  have fetch: "wp (bff_ext (dr_fetch_log dr did)) (\<lambda>_. ended auth (GetDidLog i)) (\<lambda>_. ended auth (GetDidLog i)) t"
    if "Option.bind (Option.bind (jget ''did'' issuer) as_string) (dr_parse_did dr) = Some did" for did
    using after [OF that] by (auto simp: wp_def split: prod.splits sum.splits)
  have t': "ended auth (GetDidLog i) t" using t by (simp add: ended_def)
  show "wp (okOr MissingDid (Option.bind (jget ''did'' issuer) as_string)) (\<lambda>did_str. wp (okOr InvalidDid (dr_parse_did dr did_str))
      (\<lambda>did. wp (bff_ext (dr_fetch_log dr did)) (\<lambda>log_text. wp (liftR (parse_did_log dr log_text))
        (\<lambda>entries. wp (ret (json_response 200 (JObj [(''entries'', JArr entries)]))) (\<lambda>_. ended auth (GetDidLog i)) (\<lambda>_. ended auth (GetDidLog i)))
        (\<lambda>_. ended auth (GetDidLog i))) (\<lambda>e. ended auth (GetDidLog i)))
      (\<lambda>_. ended auth (GetDidLog i))) (\<lambda>_. ended auth (GetDidLog i)) t"
  proof (cases "Option.bind (jget ''did'' issuer) as_string")
    case (Some str)
    show ?thesis
    proof (cases "dr_parse_did dr str")
      case did: (Some did)
      show ?thesis unfolding wp_okOr Some did option.case
        by (rule wp_mono [OF fetch]) (simp_all add: Some did wp_liftR split: sum.splits)
    qed (simp add: wp_okOr Some t')
  qed (simp add: wp_okOr t')
qed (simp add: ended_def)

lemma data_handler_ends:
  assumes "\<And>path body. ok (HttpCall (base_url bv @ path) (act_as_user auth) body)" and "fine s"
  shows "wp (data_handler bv dr auth route) (\<lambda>_. ended auth route) (\<lambda>_. ended auth route) s"
proof (cases "\<exists>i. route = GetDidLog i")
  case True
  then show ?thesis using did_log_calls [OF assms] by auto
next
  case False
  have keeps: "preserves fine (data_handler bv dr auth route)" by (rule data_handler_calls [OF False assms(1)])
  show ?thesis by (rule wp_keeping [OF keeps], rule assms(2)) (simp_all add: ended_def)
qed

lemma session_calls [pres]:
  "preserves fine (load_session bv sid)" "preserves fine (require_session bv sid)" "preserves fine (session_insert bv d)"
  unfolding require_session_def load_session_def session_get_def session_insert_def session_op_def
  by (intro pres quiet; auto simp: called_def)+

end

interpretation held_frame: bff_frame "\<lambda>s. bf_sessions s sid = v \<and> bf_modified s = None" for sid v
  by unfold_locales simp_all

context recorder
begin

lemma grants:
  assumes "\<And>c. own_grant bv d c \<Longrightarrow> ok c"
  shows "preserves fine (refresh_user_token bv (sd_kc_refresh_token d))"
    "subject \<in> access_tokens bv d \<Longrightarrow> preserves fine (exchange_for_mgmtapi bv subject)"
  unfolding refresh_user_token_def exchange_for_mgmtapi_def
  by (intro pres grant assms quiet; unfold own_grant_def; blast)+

lemma renewed_tokens:
  assumes "\<And>c. own_grant bv d c \<Longrightarrow> ok c" "fine s"
  shows "wp (if b then renew_user_token bv d else ret d)
    (\<lambda>d' t. fine t \<and> sd_kc_access_token d' \<in> access_tokens bv d \<and> sd_selected_account_id d' = sd_selected_account_id d) (\<lambda>_. fine) s"
proof (cases b)
  case True
  have "wp (renew_user_token bv d)
      (\<lambda>d' t. fine t \<and> sd_kc_access_token d' \<in> access_tokens bv d \<and> sd_selected_account_id d' = sd_selected_account_id d) (\<lambda>_. fine) s"
    unfolding renew_user_token_def wp_bindE wp_mapErr
    by (rule wp_keeping [OF grants(1) [OF assms(1)] assms(2)])
      (auto simp: Let_def wp_bindE wp_mapErr access_tokens_def intro!: wp_keeping [OF session_calls(3)])
  then show ?thesis using True by simp
qed (simp add: access_tokens_def assms(2))

lemma user_auth_calls:
  assumes "\<And>c. own_grant bv d c \<Longrightarrow> ok c" "fine s" "bf_sessions s sid = Some d" "bf_modified s = None"
  shows "wp (user_auth_from_request bv sid)
    (\<lambda>auth t. fine t \<and> ua_account_id auth = sd_selected_account_id d \<and> ua_bearer auth \<in> bearers bv d) (\<lambda>_. fine) s"
  unfolding user_auth_from_request_def wp_bindE
proof (rule wp_keeping [OF session_calls(1) assms(2)])
  fix d' t assume load: "load_session bv sid s = (Inr d', t)" and t: "fine t"
  have [simp]: "d' = d" using load assms(3,4) by (auto simp: load_session_run split: prod.splits option.splits)
  show "wp (bff_draw (bv_unix bv)) (\<lambda>a. wp (if sint (sd_kc_access_expiry_unix d') \<le> sint a then renew_user_token bv d' else ret d')
      (\<lambda>a. wp (mapErr (\<lambda>_. gateway_error ''upstream authentication failed'') (exchange_for_mgmtapi bv (sd_kc_access_token a)))
        (\<lambda>aa. wp (ret \<lparr>ua_bearer = aa, ua_account_id = sd_selected_account_id a\<rparr>)
          (\<lambda>auth t. fine t \<and> ua_account_id auth = sd_selected_account_id d \<and> ua_bearer auth \<in> bearers bv d) (\<lambda>_. fine))
        (\<lambda>_. fine)) (\<lambda>_. fine)) (\<lambda>_. fine) t"
  proof (rule wp_keeping [OF silent_draw [OF quiet(2)] t], rule wp_mono [OF renewed_tokens [OF assms(1)]])
    fix a u assume a: "fine u \<and> sd_kc_access_token a \<in> access_tokens bv d' \<and> sd_selected_account_id a = sd_selected_account_id d'"
    then have "preserves fine (exchange_for_mgmtapi bv (sd_kc_access_token a))" by (simp add: grants(2) [OF assms(1)])
    then show "wp (mapErr (\<lambda>_. gateway_error ''upstream authentication failed'') (exchange_for_mgmtapi bv (sd_kc_access_token a)))
        (\<lambda>aa. wp (ret \<lparr>ua_bearer = aa, ua_account_id = sd_selected_account_id a\<rparr>)
          (\<lambda>auth t. fine t \<and> ua_account_id auth = sd_selected_account_id d \<and> ua_bearer auth \<in> bearers bv d) (\<lambda>_. fine))
        (\<lambda>_. fine) u"
      unfolding wp_mapErr by (rule wp_keeping) (use a in \<open>auto simp: bearers_def\<close>)
  qed simp_all
qed simp

lemma guarded_calls:
  assumes "\<And>c. own_grant bv d c \<Longrightarrow> ok c" "\<And>c. own_call bv d c \<Longrightarrow> ok c"
    and "fine s" "bf_sessions s sid = Some d" "bf_modified s = None"
  shows "fine (snd (guarded bv dr sid route s)) \<or> (\<exists>auth. ua_account_id auth = sd_selected_account_id d \<and>
    ua_bearer auth \<in> bearers bv d \<and> ended auth route (snd (guarded bv dr sid route s)))"
proof -
  let ?J = "\<lambda>s. fine s \<and> bf_sessions s sid = Some d \<and> bf_modified s = None"
  let ?own = "\<lambda>auth. ua_account_id auth = sd_selected_account_id d \<and> ua_bearer auth \<in> bearers bv d"
  let ?Q = "\<lambda>s. fine s \<or> (\<exists>auth. ?own auth \<and> ended auth route s)"
  have J: "preserves ?J (require_session bv sid)" using session_calls(2) held_frame.session_reads(3) [of sid "Some d" bv sid]
    by (simp add: preserves_def)
  have handler: "wp (data_handler bv dr auth route) (\<lambda>_. ?Q) (\<lambda>_. ?Q) t" if own: "?own auth" and t: "fine t" for auth t
  proof (rule wp_mono [OF data_handler_ends [OF _ t]])
    show "ok (HttpCall (base_url bv @ path) (act_as_user auth) body)" for path body
      using own by (intro assms(2) own_callI) simp_all
  qed (use own in blast)+
  have answer: "wp (mapErr app_error_response (data_handler bv dr a route)) (\<lambda>_. ?Q) (\<lambda>_. ?Q) t"
    if "fine t \<and> ?own a" for a t
    unfolding wp_mapErr by (rule handler) (use that in blast)+
  have "wp (guarded bv dr sid route) (\<lambda>_. ?Q) (\<lambda>_. ?Q) s"
    unfolding guarded_def wp_bindE
  proof (rule wp_keeping [OF J])
    fix u t assume "?J t"
    then show "wp (user_auth_from_request bv sid) (\<lambda>a. wp (mapErr app_error_response (data_handler bv dr a route)) (\<lambda>_. ?Q) (\<lambda>_. ?Q)) (\<lambda>_. ?Q) t"
      by (intro wp_mono [OF user_auth_calls [OF assms(1)]]) (erule answer | simp)+
  qed (use assms(3-5) in auto)
  then show ?thesis by (cases "guarded bv dr sid route s") (simp add: wp_def split: sum.splits)
qed

end

text \<open>
  The one call of a data route that is neither: the DID-log route's, which hands the identifier
  registry the DID and nothing else.  The DID is that of the issuer in the path, as the management
  service described it to a caller with the identity \<open>auth\<close>; its answer is the last of the calls
  before the fetch.
\<close>

definition own_fetch ::
  "'x bff_env \<Rightarrow> 'x did_registry \<Rightarrow> ('x \<Rightarrow> bff_call list) \<Rightarrow> session_data \<Rightarrow> data_route \<Rightarrow> bff_call list \<Rightarrow> bff_call \<Rightarrow> bool" where
  "own_fetch bv dr calls d route before c \<longleftrightarrow> (\<exists>i auth t issuer t' did. route = GetDidLog i \<and> c = RegistryFetch did \<and>
     ua_account_id auth = sd_selected_account_id d \<and> ua_bearer auth \<in> bearers bv d \<and>
     up_get_issuer bv auth i t = (Inr issuer, t') \<and> calls (bf_ext t') = before \<and>
     Option.bind (Option.bind (jget ''did'' issuer) as_string) (dr_parse_did dr) = Some did)"

text \<open>C8. A data route acts for the session it was sent in and for no other: every call it makes is a
  grant asked from the realm with a token of that session, or a call of the management service
  that carries a bearer the realm gave for such a token and names the account the session has
  selected; and the DID-log route, it alone, may end with one fetch from the identifier registry:
  of the log of the DID that the management service has just given for the issuer, asked on behalf of
  that account.\<close>

theorem data_route_acts_for_its_session:
  assumes "recorded bv dr calls" "bf_sessions s sid = Some d" "bff_answer bv dr sid (Guarded route) s = (resp, s')"
  shows "\<exists>new fetch. calls (bf_ext s') = calls (bf_ext s) @ new @ fetch \<and>
    (\<forall>c \<in> set new. own_grant bv d c \<or> own_call bv d c) \<and>
    (fetch = [] \<or> (\<exists>c. fetch = [c] \<and> own_fetch bv dr calls d route (calls (bf_ext s) @ new) c))"
proof -
  let ?ok = "\<lambda>c. own_grant bv d c \<or> own_call bv d c" and ?t = "s\<lparr> bf_modified := None \<rparr>"
  let ?c0 = "calls (bf_ext s)" and ?u = "snd (guarded bv dr sid route (s\<lparr> bf_modified := None \<rparr>))"
  note rec = recorder.intro [OF assms(1)]
  have "called calls ?c0 ?ok ?t" by (simp add: called_def)
  then have "called calls ?c0 ?ok ?u \<or> (\<exists>auth. ua_account_id auth = sd_selected_account_id d \<and>
      ua_bearer auth \<in> bearers bv d \<and> recorder.ended bv dr calls ?c0 ?ok auth route ?u)"
    by (intro recorder.guarded_calls [OF rec]) (simp_all add: assms(2))
  moreover have "calls (bf_ext s') = calls (bf_ext ?u)"
    using assms(3) recorder.quiet(1) [OF rec]
    by (auto simp: bff_answer_def session_layer_def Let_def split: prod.splits option.splits if_splits) (metis snd_conv)+
  ultimately show ?thesis
    unfolding recorder.ended_def [OF rec] recorder.fetch_of_def [OF rec] called_def list_all_iff own_fetch_def
  proof (elim disjE exE conjE, goal_cases)
    case (1 new)
    then show ?case by (intro exI [of _ new] exI [of _ "[]"]) simp
  next
    case (2 auth new)
    then show ?case by (intro exI [of _ new] exI [of _ "[]"]) simp
  next
    case (3 auth i did http t issuer t')
    then show ?case by (intro exI [of _ http] exI [of _ "[RegistryFetch did]"]) fastforce
  qed
qed

section \<open>Where the checks are lenient\<close>

text \<open>The front end's own question for the session does not look at the absolute lifetime.\<close>

lemma me_ignores_lifetime:
  assumes "bv_store bv (bf_ext s) = (None, x)" "bf_sessions s sid = Some d" "selected d = Some a"
  shows "rs_status (fst (bff_answer bv dr sid Me s)) = 200"
  using assms by (simp add: bff_answer_def session_layer_def get_me_def bindE_run load_session_run json_response_def)

text \<open>A path that begins with a slash and a backslash passes, and browsers read the two as \<open>//\<close>.\<close>

lemma backslash_path_passes: "sanitize_return_to (Some (CHR ''/'' # CHR 0x5C # host)) = CHR ''/'' # CHR 0x5C # host"
  by (simp add: sanitize_return_to_def)

section \<open>Renewed tokens\<close>

definition renewed :: "session_data \<Rightarrow> refreshed_user_token \<Rightarrow> session_data" where
  "renewed d r = d\<lparr> sd_kc_access_token := ru_access_token r, sd_kc_refresh_token := ru_refresh_token r,
     sd_kc_access_expiry_unix := ru_access_expiry_unix r \<rparr>"

interpretation pinned_frame: bff_frame "\<lambda>s. bf_sessions s = S \<and> bf_modified s = M" for S M
  by unfold_locales simp_all

text \<open>C37. A data route that had to renew the user's tokens puts the renewed ones into the stored
  session exactly when the session layer saves sessions under the status of the answer; otherwise
  the session still holds the refresh token that was just spent.\<close>

theorem renewed_tokens_are_saved_with_the_answer:
  assumes "\<forall>x. fst (bv_store bv x) = None"
    and "require_session bv sid (s\<lparr> bf_modified := None \<rparr>) = (Inr (), s1)" "load_session bv sid s1 = (Inr d, s2)"
    and "bv_unix bv (bf_ext s2) = (now, x)" "sint (sd_kc_access_expiry_unix d) \<le> sint now"
    and "refresh_user_token bv (sd_kc_refresh_token d) (s2\<lparr> bf_ext := x \<rparr>) = (Inr r, s3)"
    and "bff_answer bv dr sid (Guarded route) s = (resp, s')"
  shows "bf_sessions s' = (if bv_saves bv (rs_status resp) then (bf_sessions s)(sid \<mapsto> renewed d r) else bf_sessions s)"
proof -
  let ?P = "\<lambda>M s'. bf_sessions s' = bf_sessions s \<and> bf_modified s' = M"
  have 1: "?P None s1" by (rule preserves_outcome [OF pinned_frame.session_reads(3) _ assms(2)]) simp
  have 2: "?P None s2" by (rule preserves_outcome [OF pinned_frame.session_reads(2) _ assms(3)]) (use 1 in simp)
  have 3: "?P None s3" by (rule preserves_outcome [OF pinned_frame.tokens(2) _ assms(6)]) (use 2 in simp)
  obtain y where y: "bv_store bv (bf_ext s3) = (None, y)" using assms(1) by (metis prod.collapse)
  let ?t = "s3\<lparr> bf_ext := y, bf_modified := Some (renewed d r) \<rparr>"
  let ?rest = "bindE (mapErr (\<lambda>_. gateway_error ''upstream authentication failed'') (exchange_for_mgmtapi bv (ru_access_token r))) (\<lambda>b.
      mapErr app_error_response (data_handler bv dr \<lparr> ua_bearer = b, ua_account_id = sd_selected_account_id d \<rparr> route))"
  have run: "guarded bv dr sid route (s\<lparr> bf_modified := None \<rparr>) = ?rest ?t"
    using assms(2-6) y
    by (simp add: guarded_def user_auth_from_request_def renew_user_token_def bindE_run mapErr_run draw_run session_insert_run
        renewed_def Let_def split: prod.splits sum.splits)
  have "?P (Some (renewed d r)) (snd (?rest ?t))"
    by (rule preservesD [where P = "?P (Some (renewed d r))"], intro pres) (use 3 in simp)
  then show ?thesis
    using assms(1,7) unfolding bff_answer_def bff_router.simps session_layer_def run
    by (auto simp: Let_def split: prod.splits option.splits if_splits) (metis fst_conv option.distinct(1))+
qed

section \<open>A realm and a management service\<close>

type_synonym fx_outside = "nat \<times> bff_call list"

definition fx_answer_with :: "json \<Rightarrow> http_response" where
  "fx_answer_with v = \<lparr> hr_status = 200, hr_text = Inr [], hr_json = Inr v \<rparr>"

definition fx_linked :: json where
  "fx_linked = JObj [(''items'', JArr [
     JObj [(''id'', JStr ''uacc_old''), (''tenant_id'', JStr ''ten_1''), (''state'', JStr ''deactivated'')],
     JObj [(''id'', JStr ''uacc_1''), (''tenant_id'', JStr ''ten_1''), (''state'', JStr ''active''), (''idp_first_name'', JStr ''Ada'')]])]"

definition fx_grant :: json where
  "fx_grant = JObj [(''access_token'', JStr ''at''), (''refresh_token'', JStr ''rt''), (''expires_in'', JNum 300)]"

definition fx_bff_config :: bff_config where
  "fx_bff_config = \<lparr> bc_bff_port = 3000, bc_mgmtapi_url = ''http://mgmt/'', bc_identifier_registry_url = ''http://reg'',
     bc_oidc = \<lparr> oi_issuer_url = ''https://idp/realm'', oi_internal_url = ''http://idp/realm'', oi_client_id = ''bff'',
       oi_client_secret = ''secret'', oi_redirect_uri = ''https://web/cb'', oi_post_logout_redirect_uri = ''https://web'' \<rparr>,
     bc_session = \<lparr> sc_cookie_secure = True, sc_idle_timeout_secs = 1800, sc_absolute_timeout_secs = 36000 \<rparr>,
     bc_spa_dir = None \<rparr>"

definition fx_http :: "http_method \<Rightarrow> string \<Rightarrow> (string \<times> string) list \<Rightarrow> (string \<times> string) list \<Rightarrow> bff_payload \<Rightarrow>
    (fx_outside, string, http_response) eff" where
  "fx_http meth url hs q body = (\<lambda>(n, c).
     (Inr (fx_answer_with (if url = ''http://idp/realm/protocol/openid-connect/token'' then fx_grant
        else if url = ''http://mgmt/api/v1/linked-user-accounts'' then fx_linked else JObj [])), (n, c @ [HttpCall url hs body])))"

text \<open>The clock of the realm shows \<open>now\<close> seconds; the layer saves no session under a server error.\<close>

definition fx_bff :: "i64 \<Rightarrow> fx_outside bff_env" where
  "fx_bff now = \<lparr> bv_config = fx_bff_config, bv_store = (\<lambda>x. (None, x)), bv_saves = (\<lambda>st. st < 500), bv_save_failed = (\<lambda>_. bff_internal_error),
     bv_unix = (\<lambda>x. (now, x)), bv_instant = (\<lambda>x. (0, x)), bv_instant_max = 10 ^ 18,
     bv_random = (\<lambda>(n, c). (replicate n CHR ''r'', (n + 1, c))),
     bv_authorize_url = (\<lambda>st nonce verifier. ''https://idp/auth?state='' @ st),
     bv_exchange_code = (\<lambda>code verifier. ret \<lparr> cy_access_token = ''at0'', cy_refresh_token = Some ''rt0'', cy_id_token = Some ''idt'',
       cy_expires_in = Some 60 \<rparr>),
     bv_verify_id_token = (\<lambda>idt nonce. ret (''https://idp/realm'', ''ada'')),
     bv_form_encode = (\<lambda>form. concat (map snd form)), bv_url_with_query = (\<lambda>u q. Some u), bv_http = fx_http \<rparr>"

definition fx_did_registry :: "fx_outside did_registry" where
  "fx_did_registry = \<lparr> dr_json_from_str = (\<lambda>_. None), dr_entry_try_from = (\<lambda>_. None), dr_parse_did = Some,
     dr_fetch_log = (\<lambda>did (n, c). (Inr [], (n, c @ [RegistryFetch did]))) \<rparr>"

definition fx_back :: callback_query where
  "fx_back = \<lparr> cq_code = Some ''code'', cq_state = Some ''rrr'', cq_error = None \<rparr>"

definition fx_asked :: "fx_outside bff_state" where
  "fx_asked = snd (bff_answer (fx_bff 1000) fx_did_registry ''s1'' (Login (Some ''/offers'')) (bff_start (2, [])))"

definition fx_logged_in :: "fx_outside bff_state" where
  "fx_logged_in = snd (bff_answer (fx_bff 1000) fx_did_registry ''s1'' (Callback fx_back) fx_asked)"

lemma fx_bff_fields [simp]:
  "bv_config (fx_bff now) = fx_bff_config" "bv_store (fx_bff now) x = (None, x)" "bv_saves (fx_bff now) st = (st < 500)"
  "bv_unix (fx_bff now) x = (now, x)" "bv_instant (fx_bff now) y = (0, y)" "bv_instant_max (fx_bff now) = 10 ^ 18"
  "bv_random (fx_bff now) z = (replicate (fst z) CHR ''r'', (fst z + 1, snd z))" "bv_http (fx_bff now) = fx_http"
  "bv_form_encode (fx_bff now) form = concat (map snd form)"
  "bv_verify_id_token (fx_bff now) idt nonce = ret (''https://idp/realm'', ''ada'')"
  "bv_exchange_code (fx_bff now) code verifier = ret \<lparr> cy_access_token = ''at0'', cy_refresh_token = Some ''rt0'', cy_id_token = Some ''idt'',
       cy_expires_in = Some 60 \<rparr>"
  by (simp_all add: fx_bff_def split: prod.splits)

lemma fx_endpoints [simp]: "oidc_endpoints_build (oi_issuer_url (bc_oidc fx_bff_config)) (oi_internal_url (bc_oidc fx_bff_config)) =
    \<lparr> oe_issuer = ''https://idp/realm'', oe_authorize_endpoint = ''https://idp/realm/protocol/openid-connect/auth'',
      oe_end_session_endpoint = ''https://idp/realm/protocol/openid-connect/logout'',
      oe_token_endpoint = ''http://idp/realm/protocol/openid-connect/token'', oe_jwks_uri = ''http://idp/realm/protocol/openid-connect/certs'' \<rparr>"
  "base_url (fx_bff now) = ''http://mgmt''"
  by (simp_all add: fx_bff_config_def oidc_endpoints_build_def trim_end_matches_def base_url_def)

lemma fx_post [simp]:
  "post_form (fx_bff now) dec form s = (mapErrR TokenTransport (dec fx_grant), s\<lparr> bf_ext := (fst (bf_ext s), snd (bf_ext s) @
     [HttpCall ''http://idp/realm/protocol/openid-connect/token'' [(''content-type'', ''application/x-www-form-urlencoded'')]
       (FormPayload (concat (map snd form)))]) \<rparr>)"
  by (simp add: post_form_def bindE_run mapErr_run bff_ext_def fx_http_def fx_answer_with_def status_is_success_def bindR_def split: prod.splits)

lemma fx_decoded: "user_token_decode fx_grant = Inr \<lparr> ut_access_token = ''at'', ut_refresh_token = Some ''rt'', ut_expires_in = 300 \<rparr>"
  "first_party_response fx_grant = Inr (''at'', 300)"
  by (simp_all add: user_token_decode_def first_party_response_def fx_grant_def req_member_def opt_member_def bindR_def)

lemmas bff_run = bff_answer_def session_layer_def bindE_run mapErr_run draw_run session_insert_run load_session_run
  session_op_run guardE_def raise_def Let_def

definition fx_first :: session_account where
  "fx_first = \<lparr> sa_id = ''uacc_1'', sa_tenant_id = ''ten_1'', sa_tenant_display_name = None, sa_display_name = ''Ada'' \<rparr>"

definition fx_session :: session_data where
  "fx_session = \<lparr> sd_iss = ''https://idp/realm'', sd_sub = ''ada'', sd_kc_access_token = ''at0'', sd_kc_refresh_token = ''rt0'', sd_kc_id_token = ''idt'',
      sd_kc_access_expiry_unix = 1060, sd_logged_in_at_unix = 1000, sd_accounts = [fx_first], sd_selected_account_id = sa_id fx_first \<rparr>"

lemma fx_accounts: "active_accounts fx_linked = [fx_first]"
  by (simp add: active_accounts_def fx_linked_def session_account_of_def display_name_def account_field_def join_names_def
      List.map_filter_simps fx_first_def)

lemma fx_asked_run: "fx_asked = \<lparr> bf_pending = [''rrr'' \<mapsto> \<lparr> pl_nonce = ''rrrr'', pl_pkce_verifier = ''rr'', pl_return_to = ''/offers'',
    pl_created_at = 0 \<rparr>], bf_sessions = Map.empty, bf_modified = None, bf_first_party = None, bf_ext = (5, []) \<rparr>"
  by (simp add: fx_asked_def bff_start_def bff_run login_def begin_login_def pending_insert_def sanitize_return_to_def numeral_eq_Suc)

lemma fx_resolved: "bf_first_party s = None \<Longrightarrow>
    \<exists>s'. up_resolve_linked_accounts (fx_bff now) iss sub s = (Inr fx_linked, s') \<and> bf_sessions s' = bf_sessions s \<and> bf_pending s' = bf_pending s"
  by (simp add: up_resolve_linked_accounts_def first_party_token_def mint_first_party_def request_token_def mgmt_send_def bindE_run
      mapErr_run draw_run bff_ext_def fx_decoded mapErrR_def Let_def SAFETY_MARGIN_def guardE_def fx_http_def fx_answer_with_def
      read_json_def status_is_success_def split: prod.splits)

lemma fx_login_run: "fst (bff_answer (fx_bff 1000) fx_did_registry ''s1'' (Callback fx_back) fx_asked) = redirect_to ''/offers''"
  "bf_sessions fx_logged_in = [''s1'' \<mapsto> fx_session]"
proof -
  let ?t = "\<lparr> bf_pending = Map.empty, bf_sessions = Map.empty, bf_modified = None, bf_first_party = None, bf_ext = (5, []) \<rparr> :: fx_outside bff_state"
  obtain s' where s': "up_resolve_linked_accounts (fx_bff 1000) ''https://idp/realm'' ''ada'' ?t = (Inr fx_linked, s')"
    "bf_sessions s' = Map.empty" "bf_pending s' = Map.empty" using fx_resolved [of ?t 1000 "''https://idp/realm''" "''ada''"] by auto
  have "callback (fx_bff 1000) fx_back fx_asked = (Inr (redirect_to ''/offers''), s'\<lparr> bf_modified := Some fx_session \<rparr>)"
    using s' by (simp add: fx_asked_run fx_back_def callback_def bff_run take_run complete_login_def bff_ext_def fx_accounts fx_session_def)
  then show "fst (bff_answer (fx_bff 1000) fx_did_registry ''s1'' (Callback fx_back) fx_asked) = redirect_to ''/offers''"
    "bf_sessions fx_logged_in = [''s1'' \<mapsto> fx_session]"
    using s' by (simp_all add: fx_logged_in_def bff_answer_def session_layer_def fx_asked_run redirect_to_def)
qed

lemma fx_steps: "(bff_step (fx_bff 1000) fx_did_registry)\<^sup>*\<^sup>* (bff_start (2, [])) fx_logged_in"
  unfolding fx_logged_in_def fx_asked_def by (rule rtranclp.rtrancl_into_rtrancl, rule r_into_rtranclp) (rule bff_step.request)+

lemma fx_recorded: "recorded (fx_bff now) fx_did_registry snd"
  by (simp add: recorded_def fx_http_def fx_did_registry_def split: prod.splits)

theorem sessions_act_for_their_accounts_witness:
  "bf_sessions fx_logged_in ''s1'' = Some fx_session \<and> identity_verified (fx_bff 1000) fx_session \<and>
   accounts_resolved (fx_bff 1000) fx_session \<and> selected fx_session = Some fx_first"
  using sessions_act_for_their_accounts [OF fx_steps, of "''s1''" fx_session]
  by (auto simp: fx_login_run fx_session_def selected_def)

theorem login_state_is_single_use_witness:
  "bff_answer (fx_bff 1000) fx_did_registry ''s2'' (Callback fx_back) fx_logged_in =
     (login_error ''state'', fx_logged_in\<lparr> bf_modified := None \<rparr>)"
  by (rule login_state_is_single_use [where q = fx_back and s = fx_asked and sid = "''s1''" and st = "''rrr''"])
    (simp_all add: fx_back_def fx_logged_in_def)

theorem dead_session_reaches_nothing_witness:
  "fst (bff_answer (fx_bff 40000) fx_did_registry ''s1'' (Guarded ListIssuers) fx_logged_in) = bff_unauthenticated"
  using dead_session_reaches_nothing [of "fx_bff 40000" fx_logged_in None "bf_ext fx_logged_in" 40000 "bf_ext fx_logged_in" "''s1''"
      fx_did_registry ListIssuers]
  by (simp add: fx_login_run is_live_def fx_session_def saturating_add_i64_def fx_bff_config_def)

theorem data_route_acts_for_its_session_witness:
  "\<exists>new fetch. snd (bf_ext (snd (bff_answer (fx_bff 1060) fx_did_registry ''s1'' (Guarded (GetDidLog ''i'')) fx_logged_in))) =
       snd (bf_ext fx_logged_in) @ new @ fetch \<and> (\<forall>c \<in> set new. own_grant (fx_bff 1060) fx_session c \<or> own_call (fx_bff 1060) fx_session c)"
  using data_route_acts_for_its_session [OF fx_recorded, of fx_logged_in "''s1''" fx_session 1060 "GetDidLog ''i''"]
  by (simp add: fx_login_run prod_eq_iff) blast

lemma fx_renewal:
  "refresh_user_token (fx_bff 1060) ''rt0'' s = (Inr \<lparr> ru_access_token = ''at'', ru_refresh_token = ''rt'', ru_access_expiry_unix = 1330 \<rparr>, s') \<longleftrightarrow>
   s' = snd (refresh_user_token (fx_bff 1060) ''rt0'' s)"
  by (auto simp: refresh_user_token_def bindE_run fx_decoded mapErrR_def draw_run SAFETY_MARGIN_SECS_def)

theorem renewed_tokens_are_saved_with_the_answer_witness:
  "\<exists>resp s'. bff_answer (fx_bff 1060) fx_did_registry ''s1'' (Guarded ListIssuers) fx_logged_in = (resp, s') \<and>
     bf_sessions s' = (if rs_status resp < 500
       then (bf_sessions fx_logged_in)(''s1'' \<mapsto> renewed fx_session \<lparr> ru_access_token = ''at'', ru_refresh_token = ''rt'', ru_access_expiry_unix = 1330 \<rparr>)
       else bf_sessions fx_logged_in)"
proof -
  let ?s = "fx_logged_in\<lparr> bf_modified := None \<rparr>"
  have 1: "require_session (fx_bff 1060) ''s1'' ?s = (Inr (), ?s)" "load_session (fx_bff 1060) ''s1'' ?s = (Inr fx_session, ?s)"
    by (simp_all add: require_session_def bff_run fx_login_run is_live_def fx_session_def saturating_add_i64_def fx_bff_config_def selected_def)
  obtain resp s' where run: "bff_answer (fx_bff 1060) fx_did_registry ''s1'' (Guarded ListIssuers) fx_logged_in = (resp, s')" by fastforce
  have 2: "refresh_user_token (fx_bff 1060) (sd_kc_refresh_token fx_session) (?s\<lparr> bf_ext := bf_ext ?s \<rparr>) =
      (Inr \<lparr> ru_access_token = ''at'', ru_refresh_token = ''rt'', ru_access_expiry_unix = 1330 \<rparr>,
       snd (refresh_user_token (fx_bff 1060) ''rt0'' (?s\<lparr> bf_ext := bf_ext ?s \<rparr>)))"
    by (simp add: fx_session_def fx_renewal)
  from renewed_tokens_are_saved_with_the_answer [OF _ 1 _ _ 2 run, of 1060]
  show ?thesis using run by (simp add: fx_session_def)
qed

end
