(* ===== verification/Spec2Isabelle.thy ===== *)
theory Spec2Isabelle
  imports WorkerProps SagaProps IssuerProps StatusProps IssuanceProps ApiProps AdminProps AuthProps SystemProps OAuth2Props SigningProps
    TenantCliProps Keycloak Startup BffProps
begin

text \<open>
  \<^bold>\<open>A verification library for the swiyu-issuer back end\<close>

  The program under \<open>src/api\<close> issues verifiable credentials for many tenants.  Its parts work
  on one Postgres database:

  \<^item> the management service (\<open>api_management\<close>): tenants submit issuers, credential types, offers,
    accounts and invitations, and suspend or revoke credentials;
  \<^item> the wallet-facing service (\<open>api_oidc\<close>): a wallet redeems an offer for an access token and
    the token for one credential;
  \<^item> the task worker (\<open>worker/runner.rs\<close>): claims operation tasks and runs the sagas that create,
    deactivate and re-key an issuer, step by step, with retries;
  \<^item> the status-list publisher (\<open>worker/status_list_publisher.rs\<close>): leases changed status lists,
    signs them and hands them to the registry;
  \<^item> the token providers (\<open>domain/oauth2\<close>) and the secret-encryption engines they rely on;
  \<^item> the operator's tool (\<open>cli\<close>, \<open>bin/swiyu-issuer-cli.rs\<close>), which writes tenants and prepares a
    development set-up.

  The web back end under \<open>src/web/bff\<close> stands in front of the management service: it logs
  administrators in at the realm, keeps their sessions and forwards their requests with a token
  that acts for the account they selected.

  \<^bold>\<open>How the program is written down\<close>

  \<open>Prelude\<close> has the computations: a state and an error or a value, \<open>bindE\<close> for \<open>?\<close>, \<open>mapErr\<close> for
  \<open>map_err\<close>, \<open>reify\<close> for a \<open>match\<close> on a result, and the calculus (\<open>preserves\<close>, \<open>wp\<close>, the
  collection \<open>pres\<close>) the proofs run on.  \<open>Db\<close> has the tables as row lists, the statements, and
  \<open>in_tx\<close> for \<open>begin .. commit\<close>; a statement or a commit may fail in transport before or after it
  took effect, as the pool decides.  \<open>'x\<close> is the state of everything outside: the network, clocks,
  entropy, other processes.  Strings are the byte sequences of Rust strings, times are
  microseconds, machine integers are words where they may wrap.

  \<^item> Domain: \<open>Ids\<close> (\<open>domain/ids.rs\<close>), \<open>TaskDomain\<close>, \<open>IssuerDomain\<close>, \<open>StatusListDomain\<close>,
    \<open>OfferDomain\<close>, \<open>CredentialDomain\<close>, \<open>AccountDomain\<close>, \<open>Json\<close>: the aggregates of
    \<open>domain/*.rs\<close> with their transitions and text codecs.
  \<^item> Stores: \<open>TaskStore\<close>, \<open>IssuerStore\<close>, \<open>TenantStore\<close>, \<open>StatusListStore\<close>, \<open>OfferStore\<close>, \<open>Paging\<close>
    (\<open>persistence/*.rs\<close>); the statements on accounts, invitations and credential types stand with
    their handlers in \<open>AccountApi\<close> and \<open>CredentialTypeApi\<close>.
  \<^item> Secrets and tokens: \<open>Envelope\<close>, \<open>Secrets\<close> (\<open>domain/secret_encryption_engine\<close>), \<open>OAuth2\<close>
    (\<open>domain/oauth2\<close>); \<open>Signing\<close> (\<open>domain/signing_engine\<close>).
  \<^item> Worker: \<open>Facades\<close> (\<open>worker/registry_facades.rs\<close>), \<open>Outcome\<close> (backoff and outcomes), \<open>Didlog\<close>,
    \<open>CreateIssuerSaga\<close>, \<open>DeactivateIssuerSaga\<close>, \<open>RotateKeysSaga\<close>, \<open>Runner\<close>, \<open>Publisher\<close>.
  \<^item> Services: \<open>ApiCommon\<close>, \<open>OfferApi\<close>, \<open>LifecycleApi\<close>, \<open>IssuerApi\<close>, \<open>CredentialTypeApi\<close>,
    \<open>AccountApi\<close>, \<open>AuthApi\<close> (\<open>api_management\<close>); \<open>Oidc\<close>, \<open>Metadata\<close> (\<open>api_oidc\<close>); \<open>Router\<close> has the
    routes of both, \<open>Startup\<close> (\<open>config.rs\<close>, \<open>bin\<close>) their settings.
  \<^item> Operator: \<open>TenantCli\<close> (\<open>cli/tenant/mod.rs\<close>, \<open>bin/swiyu-issuer-cli.rs\<close>), \<open>Keycloak\<close>
    (\<open>cli/keycloak.rs\<close>).
  \<^item> Web back end: \<open>Bff\<close> (\<open>web/bff/src/auth\<close>, \<open>config.rs\<close>, \<open>error.rs\<close>, \<open>routes/auth.rs\<close>,
    \<open>routes/me.rs\<close>), \<open>BffRoutes\<close> (\<open>routes\<close>, \<open>upstream/mgmt_api.rs\<close>).  Its state \<open>bff_state\<close> is the map of
    pending logins, the stored sessions, the session of the request in hand and the cached token.
  \<^item> The whole: \<open>System\<close>, where one step is one request, worker iteration, publication, operator
    command or token refresh, run from its first statement to its last; and \<open>Interleaving\<close>, where
    life-cycle requests are cut between their unlocked read and their write, and the writes of offers
    and of issued credentials are steps of their own, so that requests overlap.

  \<^bold>\<open>What is shown\<close>

  \<^item> Invariants and refinement (\<open>Integrity\<close>, \<open>Frames\<close>, \<open>AdminInv\<close>, \<open>WorkerInv\<close>, \<open>Lifecycles\<close>,
    \<open>Interleaving\<close>, \<open>SystemProps\<close>): whatever the sequence of steps, overlapping requests included, all
    tables keep their invariants, no row of an aggregate is lost, and the states of offers, issuers and
    tasks move only along the transitions of the aggregates.  So do those of credentials, with the one
    exception the code allows: a life-cycle request that writes after another one changed the state it
    had read.  A revoked credential hence stays revoked once no such request is in flight.  The locales \<open>worker_keeps\<close>, \<open>worker_frame\<close>, \<open>wallet_frame\<close>,
    \<open>tenants_frame\<close>, \<open>operator_keeps\<close> and \<open>system_keeps\<close> are the contracts; their interpretations are the proofs that
    the operations meet them.
  \<^item> The worker (\<open>WorkerProps\<close>, \<open>SagaProps\<close>, \<open>IssuerProps\<close>, \<open>Progress\<close>): which task is claimed, what
    each outcome writes, retry windows, resumption of a saga after a crash, and that a runnable task
    is dispatched and a deactivation completes when the database works.
  \<^item> Status lists (\<open>StatusProps\<close>): allocation; a round records exactly the leased version, and only
    after the registry accepted in that round the list signed from the leased snapshot.
  \<^item> Issuance (\<open>IssuanceProps\<close>): one credential per offer, all effects in one transaction, and on an
    error none but the spent nonce of the request's own proof; tokens redeem once; the time window of
    proofs at 64 bits.  \<open>round_inputs\<close> and \<open>before_nonce\<close> restate the first half of a publish round and of an
    issuance, and are shown to be that half.
  \<^item> Management (\<open>ApiProps\<close>, \<open>AdminProps\<close>, \<open>AuthProps\<close>): whose token is accepted, tenant isolation, life cycle and status bit
    together, complete listings over cursors, invitations, resubmission, authenticated changes.
  \<^item> Secrets and tokens (\<open>OAuth2Props\<close>): stored secrets open only for their tenant and column, and a
    refresh rotates the stored token, which the next refresh presents.

  \<^item> Keys (\<open>SigningProps\<close>): a generated key signs as its role says until it is deleted, and the Vault
    client asks for and decodes signatures by the algorithm the key really has.  The locale
    \<open>signing_contract\<close> is the part of the trait that callers rely on.

  \<^item> Operator (\<open>TenantCliProps\<close>): a bootstrap keeps stored secrets, a second one changes nothing, and
    waiting for the development issuer ends.
  \<^item> Web back end (\<open>BffProps\<close>): whatever the requests, a stored session belongs to a verified
    identity and acts for one of its accounts; a login state is used once; a dead session reaches
    nothing; a data route acts for its own session only, the fetch of a DID log included; and when renewed tokens reach the store.
    The locales \<open>bff_frame\<close> (what calls to the outside leave alone) and \<open>recorder\<close> (a log of the
    calls) carry the proofs.

  \<open>Fixtures\<close> and \<open>WalletFixtures\<close> hold the concrete instances on which the witnesses evaluate the
  definitions.

  \<^bold>\<open>Parameters, bounds and limits\<close>

  Third-party code is a parameter: \<open>sqlx\<close>, \<open>reqwest\<close>, the registries, the curves, \<open>bs58\<close>,
  SHA-256, HKDF, AES-GCM, base64, URL and JSON text parsing, the JSON-Schema compiler, JWT signature
  checks, and the DID-log and credential crates of the workspace.  Each statement that needs their
  documented behaviour has it as a named hypothesis (\<open>bs58_ok\<close>, \<open>cursor_lib_ok\<close>, \<open>aead_ok\<close>,
  \<open>transit_ok\<close>, \<open>key_types_fixed\<close>, \<open>clock_runs\<close>, \<open>recorded\<close>), which the fixtures satisfy.  The status-list capacity of 131072 entries of two
  bits, the key roles and the status values are those of the workspace crate the back end uses.

  The endless loops of the worker and of the publisher run for a number of polls that is their
  argument: what is shown of them holds for every number.  \<open>fetch_all\<close> follows cursors for as many
  pages as its argument says, and the listing theorem gives a sufficient number; the wait for the
  development issuer runs for a number of rounds, and two more than the poll intervals that fit into
  the timeout are enough.  All other loops are structural.

  The session library of the web back end is a parameter where its source is not at hand: the store
  may fail on every access, \<open>bv_saves\<close> says under which status a modified session is stored with the
  response, and a request knows the identifier its cookie names or a new session would get.  Two
  requests of one session run one after the other.  The OpenID Connect client is a parameter too:
  \<open>bv_exchange_code\<close> and \<open>bv_verify_id_token\<close> are what the crate returns.

  A step of \<open>system_step\<close> does not interleave inside a handler.  \<open>shared_step\<close> adds the overlaps in which
  the state of an offer or of a credential is written: a suspend, unsuspend or revoke writes any time
  after it read; a cancellation, a new offer and an issuing transaction, whose statement checks the state or
  whose row lock holds it, take place whatever happened since the request began.  There
  the race of the code shows (\<open>unsuspend_can_undo_revocation\<close>).  Iterations of the worker stay whole, and
  there is one worker; a second process could run a claimed task too, as a claim sets no lease.  In the
  worker the token provider is a pair of operations on the outside state, which is what its trait
  promises; that the real provider changes nothing but the refresh token of its own tenant is shown
  in \<open>OAuth2\<close>, and the system has the refresh as a step of its own.

  \<^bold>\<open>Not modelled\<close>

  Argument parsing, connecting, migrating, listening and spawning (\<open>bin\<close>, \<open>web/bff/src/main.rs\<close>); the
  floating-point refresh fraction; logging and tracing; HTTP extraction of path, query and body
  parameters and its rejections; static files; and the smoke-test programs under \<open>examples\<close>, which
  only call the services.
\<close>

end
